(* ===== verification/GoBase.thy ===== *)
theory GoBase
  imports Complex_Main "HOL-Library.Word" "HOL-Library.Multiset" "HOL-Library.Monad_Syntax"
    "HOL-Library.Finite_Map" "HOL-Library.List_Lexorder" "HOL-Library.Char_ord"
begin

text \<open>
  The prelude: the Go types the orchestrator computes with (\<open>uint64\<close> and \<open>uint8\<close> as words,
  \<open>int\<close>, \<open>int64\<close> and \<open>time.Duration\<close> as \<open>int\<close> with the wrap-around \<open>wrap64\<close> written where a
  sum may leave the range), the result monad \<open>'e + 'a\<close> every fallible function returns, the
  folds and filters the components share, decimal printing, and the generic lemmas about them.
\<close>

unbundle bit_operations_syntax

section \<open>Integers at Go's widths\<close>

type_synonym u64 = "64 word"
type_synonym u8 = "8 word"

definition MaxInt64 :: int where "MaxInt64 = 2 ^ 63 - 1"
definition MinInt64 :: int where "MinInt64 = - (2 ^ 63)"

definition in_i64 :: "int \<Rightarrow> bool" where
  "in_i64 x \<longleftrightarrow> MinInt64 \<le> x \<and> x \<le> MaxInt64"

text \<open>Two's complement wrap-around of an \<open>int64\<close> result.\<close>

definition wrap64 :: "int \<Rightarrow> int" where
  "wrap64 x = (x + 2 ^ 63) mod 2 ^ 64 - 2 ^ 63"

lemma wrap64_id [simp]: "in_i64 x \<Longrightarrow> wrap64 x = x"
  by (simp add: in_i64_def wrap64_def MaxInt64_def MinInt64_def)

lemma in_i64_wrap64: "in_i64 (wrap64 x)"
proof -
  have "0 \<le> (x + 2 ^ 63) mod 2 ^ 64" and "(x + 2 ^ 63) mod 2 ^ 64 < 2 ^ 64"
    by simp_all
  then show ?thesis
    by (simp add: in_i64_def wrap64_def MaxInt64_def MinInt64_def)
qed

lemma in_i64I: "- 9223372036854775808 \<le> x \<Longrightarrow> x < 9223372036854775808 \<Longrightarrow> in_i64 x"
  by (simp add: in_i64_def MaxInt64_def MinInt64_def)

text \<open>\<open>uint64(x)\<close> of a Go \<open>int\<close>.\<close>

abbreviation u64_of_int :: "int \<Rightarrow> u64" where
  "u64_of_int \<equiv> word_of_int"

lemma unat_u64_less: "unat (w :: u64) < 2 ^ 64"
  by (rule order_less_le_trans [OF unsigned_less]) simp

lemma unat_u64_of_nat: "k < 2 ^ 64 \<Longrightarrow> unat (of_nat k :: u64) = k"
  by (simp add: unat_of_nat)

lemma unat_u64_add: "unat a + unat b < 2 ^ 64 \<Longrightarrow> unat (a + b :: u64) = unat a + unat b"
  by (rule unat_add_lem [THEN iffD1]) simp

lemma unat_u64_mult: "unat a * unat b < 2 ^ 64 \<Longrightarrow> unat (a * b :: u64) = unat a * unat b"
  by (rule unat_mult_lem [THEN iffD1]) simp

lemma unat_u64_sum_list:
  "sum_list (map unat ws) < 2 ^ 64 \<Longrightarrow> unat (sum_list ws :: u64) = sum_list (map unat ws)"
  by (induction ws) (simp_all add: unat_u64_add)

text \<open>The kernel evaluates \<open>unat\<close> through \<open>uint\<close>.\<close>

definition nat_of_u64 :: "u64 \<Rightarrow> nat" where
  "nat_of_u64 w = nat (uint w)"

lemma unat_eq_nat_of_u64 [code_unfold]: "(unat :: u64 \<Rightarrow> nat) = nat_of_u64"
  by (simp add: fun_eq_iff nat_of_u64_def)

section \<open>Results\<close>

abbreviation ret :: "'a \<Rightarrow> 'e + 'a" where "ret \<equiv> Inr"

definition rbind :: "'e + 'a \<Rightarrow> ('a \<Rightarrow> 'e + 'b) \<Rightarrow> 'e + 'b" where
  "rbind m f = (case m of Inl e \<Rightarrow> Inl e | Inr a \<Rightarrow> f a)"

lemma rbind_simps [simp]:
  "rbind (Inl e) f = Inl e"
  "rbind (Inr a) f = f a"
  by (simp_all add: rbind_def)

lemma rbind_eq_Inr_iff: "rbind m f = Inr b \<longleftrightarrow> (\<exists>a. m = Inr a \<and> f a = Inr b)"
  by (cases m) simp_all

lemma rbind_eq_Inl_iff: "rbind m f = Inl e \<longleftrightarrow> m = Inl e \<or> (\<exists>a. m = Inr a \<and> f a = Inl e)"
  by (cases m) simp_all

lemma rbind_ret [simp]: "rbind m Inr = m"
  by (cases m) simp_all

text \<open>\<open>if bad \<open>return err\<close>\<close>: the early return of the code as a step of the monad.\<close>

definition fail_if :: "bool \<Rightarrow> 'e \<Rightarrow> 'e + unit" where
  "fail_if b e = (if b then Inl e else Inr ())"

lemma fail_if_Inr [simp]: "fail_if b e = Inr u \<longleftrightarrow> \<not> b"
  by (simp add: fail_if_def)

lemma fail_if_Inl [simp]: "fail_if b e = Inl e' \<longleftrightarrow> b \<and> e' = e"
  by (auto simp: fail_if_def)

text \<open>\<open>fmt.Errorf("...: %w", err)\<close>: wrapping an error in its context.\<close>

lemma fail_if_False [simp]: "fail_if False e = Inr ()"
  by (simp add: fail_if_def)

definition wrap_err :: "('e \<Rightarrow> 'f) \<Rightarrow> 'e + 'a \<Rightarrow> 'f + 'a" where
  "wrap_err f m = (case m of Inl e \<Rightarrow> Inl (f e) | Inr a \<Rightarrow> Inr a)"

lemma wrap_err_simps [simp]:
  "wrap_err f (Inl e) = Inl (f e)"
  "wrap_err f (Inr a) = Inr a"
  by (simp_all add: wrap_err_def)

lemma wrap_err_Inr [simp]: "wrap_err f m = Inr a \<longleftrightarrow> m = Inr a"
  by (cases m) simp_all

text \<open>A loop that stops at the first error, threading a state.\<close>

fun foldM :: "('s \<Rightarrow> 'x \<Rightarrow> 'e + 's) \<Rightarrow> 's \<Rightarrow> 'x list \<Rightarrow> 'e + 's" where
  "foldM f s [] = Inr s"
| "foldM f s (x # xs) = rbind (f s x) (\<lambda>s'. foldM f s' xs)"

lemma foldM_append: "foldM f s (xs @ ys) = rbind (foldM f s xs) (\<lambda>s'. foldM f s' ys)"
proof (induction xs arbitrary: s)
  case (Cons x xs)
  then show ?case by (cases "f s x") simp_all
qed simp

lemma foldM_invariant:
  assumes "foldM f s xs = Inr t" and "P s"
    and "\<And>s x t. x \<in> set xs \<Longrightarrow> P s \<Longrightarrow> f s x = Inr t \<Longrightarrow> P t"
  shows "P t"
  using assms
proof (induction xs arbitrary: s)
  case (Cons x xs)
  from Cons.prems(1) obtain s' where s': "f s x = Inr s'" and rest: "foldM f s' xs = Inr t"
    by (auto simp: rbind_eq_Inr_iff)
  from Cons.prems(3) [OF _ Cons.prems(2) s'] have "P s'" by simp
  then show ?case using Cons.IH [OF rest] Cons.prems(3) by auto
qed simp

text \<open>A loop of checks that stops at the first failing element.\<close>

fun checkM :: "('x \<Rightarrow> 'e + unit) \<Rightarrow> 'x list \<Rightarrow> 'e + unit" where
  "checkM c [] = Inr ()"
| "checkM c (x # xs) = rbind (c x) (\<lambda>_. checkM c xs)"

lemma checkM_Inr [simp]: "checkM c xs = Inr u \<longleftrightarrow> (\<forall>x \<in> set xs. c x = Inr ())"
  by (induction xs) (auto simp: rbind_eq_Inr_iff)

lemma checkM_append: "checkM c (xs @ ys) = rbind (checkM c xs) (\<lambda>_. checkM c ys)"
proof (induction xs)
  case (Cons x xs)
  then show ?case by (cases "c x") simp_all
qed simp

text \<open>A loop that collects the elements of a slice until the first error.\<close>

fun mapM :: "('x \<Rightarrow> 'e + 'y) \<Rightarrow> 'x list \<Rightarrow> 'e + 'y list" where
  "mapM f [] = Inr []"
| "mapM f (x # xs) = rbind (f x) (\<lambda>y. rbind (mapM f xs) (\<lambda>ys. Inr (y # ys)))"

lemma mapM_Inr: "mapM f xs = Inr ys \<longleftrightarrow> list_all2 (\<lambda>x y. f x = Inr y) xs ys"
proof (induction xs arbitrary: ys)
  case (Cons x xs)
  then show ?case
    by (cases ys) (auto simp: rbind_eq_Inr_iff)
qed auto

text \<open>What a caller sees of a result apart from the text of its error.\<close>

definition success :: "'e + 'a \<Rightarrow> 'a option" where
  "success m = (case m of Inl _ \<Rightarrow> None | Inr a \<Rightarrow> Some a)"

lemma success_simps [simp]:
  "success (Inl e) = None"
  "success (Inr a) = Some a"
  by (simp_all add: success_def)

lemma success_eq_Some [simp]: "success m = Some a \<longleftrightarrow> m = Inr a"
  by (cases m) simp_all

lemma success_eq_None: "success m = None \<longleftrightarrow> (\<exists>e. m = Inl e)"
  by (cases m) simp_all

lemma success_eqI:
  "(\<And>a. m = Inr a \<Longrightarrow> m' = Inr a) \<Longrightarrow> (\<And>a. m' = Inr a \<Longrightarrow> m = Inr a) \<Longrightarrow> success m = success m'"
  by (cases m; cases m') (auto simp: success_def)

lemma success_rbind: "success (rbind m f) = Option.bind (success m) (\<lambda>a. success (f a))"
  by (cases m) simp_all

section \<open>Accumulators whose inputs commute\<close>

text \<open>
  An accumulating loop \<open>for _, x := range xs { if err := s.add(x); err != nil { return err } }\<close>
  whose steps commute as far as success and the state are concerned (the text of an error may
  depend on the order). \<open>good\<close> is the invariant of the accumulator, \<open>valid\<close> what the inputs
  satisfy.
\<close>

locale commuting_accumulator =
  fixes step :: "'s \<Rightarrow> 'x \<Rightarrow> 'e + 's"
    and good :: "'s \<Rightarrow> bool"
    and valid :: "'x \<Rightarrow> bool"
  assumes step_good: "good s \<Longrightarrow> valid x \<Longrightarrow> step s x = Inr t \<Longrightarrow> good t"
    and step_commute: "good s \<Longrightarrow> valid x \<Longrightarrow> valid y \<Longrightarrow>
      success (rbind (step s x) (\<lambda>t. step t y)) = success (rbind (step s y) (\<lambda>t. step t x))"
begin

lemma fold_good:
  "foldM step s xs = Inr t \<Longrightarrow> good s \<Longrightarrow> \<forall>x \<in> set xs. valid x \<Longrightarrow> good t"
  by (rule foldM_invariant [where P = good]) (auto intro: step_good)

lemma fold_move:
  assumes "good s" and "valid x" and "\<forall>y \<in> set xs. valid y"
  shows "success (foldM step s (xs @ [x])) = success (foldM step s (x # xs))"
  using assms
proof (induction xs arbitrary: s)
  case (Cons y xs)
  show ?case
  proof (cases "step s y")
    case (Inl e)
    have "success (rbind (step s x) (\<lambda>t. step t y)) = None"
      using step_commute [of s x y] Cons.prems Inl by simp
    then show ?thesis
      using Inl by (cases "step s x") (auto simp: success_eq_None)
  next
    case (Inr t)
    have "good t" using step_good Cons.prems Inr by auto
    then have "success (foldM step s ((y # xs) @ [x])) = success (foldM step t (x # xs))"
      using Cons.IH [of t] Cons.prems Inr by simp
    also have "\<dots> = Option.bind (success (rbind (step s y) (\<lambda>t. step t x)))
        (\<lambda>u. success (foldM step u xs))"
      using Inr by (simp add: success_rbind)
    also have "\<dots> = Option.bind (success (rbind (step s x) (\<lambda>t. step t y)))
        (\<lambda>u. success (foldM step u xs))"
      using step_commute [of s x y] Cons.prems by simp
    also have "\<dots> = success (foldM step s (x # y # xs))"
      by (simp add: success_rbind)
    finally show ?thesis .
  qed
qed simp

lemma fold_cong_tail:
  assumes "\<And>t. good t \<Longrightarrow> success (foldM step t xs) = success (foldM step t ys)"
    and "good s" and "valid x"
  shows "success (foldM step s (x # xs)) = success (foldM step s (x # ys))"
  using assms step_good by (cases "step s x") auto

text \<open>The loop's outcome does not depend on the order of its inputs.\<close>

lemma fold_permutation:
  assumes "mset xs = mset ys" and "good s" and "\<forall>x \<in> set xs. valid x"
  shows "success (foldM step s xs) = success (foldM step s ys)"
  using assms
proof (induction xs arbitrary: ys s)
  case (Cons x xs)
  have "x \<in> set ys"
    using Cons.prems(1) by (metis list.set_intros(1) set_mset_mset)
  then obtain us vs where ys: "ys = us @ x # vs" by (meson split_list)
  have ms: "mset xs = mset (us @ vs)" using Cons.prems(1) ys by simp
  have val: "\<forall>y \<in> set (us @ vs). valid y" "\<forall>y \<in> set xs. valid y" "valid x"
    using Cons.prems(3) mset_eq_setD [OF ms] by simp_all
  have "success (foldM step s (x # xs)) = success (foldM step s (x # us @ vs))"
    by (rule fold_cong_tail) (use Cons.IH [OF ms] Cons.prems val in auto)
  also have "\<dots> = success (foldM step s ((x # us) @ vs))" by simp
  also have "\<dots> = success (foldM step s ((us @ [x]) @ vs))"
    using fold_move [of s x us] Cons.prems(2) val
    by (simp only: foldM_append success_rbind) simp
  finally show ?case by (simp add: ys)
qed simp

end

end
