(* ===== verification/Float64.thy ===== *)
theory Float64
  imports GoBase "HOL-Library.Log_Nat"
begin

text \<open>
  Go's \<open>float64\<close>: IEEE 754 binary64 with round to nearest, ties to even, computed exactly over
  the rationals. A finite value is the rational it stands for (the sign of zero is not kept: it
  is not observable by the comparisons and conversions the orchestrator makes), \<open>FInf\<close> and
  \<open>FNan\<close> are the special values. Every operation rounds its exact result once, as the amd64
  code does (no fused multiply-add). The lemmas state what the components rely on: rounding is
  monotone and keeps small integers and powers of two.
\<close>

section \<open>Powers of two and rounding over the rationals\<close>

definition pow2 :: "int \<Rightarrow> rat" where
  "pow2 k = 2 powi k"

lemma pow2_code [code]:
  "pow2 k = (if 0 \<le> k then of_int (2 ^ nat k) else 1 / of_int (2 ^ nat (- k)))"
  by (simp add: pow2_def power_int_def field_simps)

lemma pow2_pos [simp]: "0 < pow2 k" by (simp add: pow2_def)
lemma pow2_nz [simp]: "pow2 k \<noteq> 0" by (simp add: pow2_def)
lemma pow2_0 [simp]: "pow2 0 = 1" by (simp add: pow2_def)

lemma pow2_add: "pow2 (a + b) = pow2 a * pow2 b"
  by (simp add: pow2_def power_int_add)

lemma pow2_nat: "pow2 (int n) = 2 ^ n"
  by (simp add: pow2_def)

lemma pow2_mono: "a \<le> b \<Longrightarrow> pow2 a \<le> pow2 b"
  by (simp add: pow2_def power_int_increasing)

lemma pow2_strict_mono: "a < b \<Longrightarrow> pow2 a < pow2 b"
  by (simp add: pow2_def power_int_strict_increasing)

lemma pow2_less_iff [simp]: "pow2 a < pow2 b \<longleftrightarrow> a < b"
  by (metis pow2_mono pow2_strict_mono linorder_not_le)

lemma pow2_div: "pow2 a / pow2 b = pow2 (a - b)"
  using pow2_add [of "a - b" b] by (simp add: field_simps)

lemma pow2_Ints: "0 \<le> k \<Longrightarrow> pow2 k = of_int (2 ^ nat k)"
  using pow2_nat [of "nat k"] by simp

text \<open>\<open>floor (log2 x)\<close> of a positive rational.\<close>

definition ilog2 :: "rat \<Rightarrow> int" where
  "ilog2 x = (case quotient_of x of (a, b) \<Rightarrow>
     (let k = bitlen a - bitlen b
      in if pow2 k \<le> x then k else k - 1))"

lemma floorlog_bounds_rat:
  assumes "0 < a"
  shows "pow2 (int (floorlog 2 (nat a)) - 1) \<le> of_int a"
    and "of_int a < pow2 (int (floorlog 2 (nat a)))"
proof -
  define n where "n = nat a"
  have n: "0 < n" "of_int a = (of_nat n :: rat)"
    using assms by (simp_all add: n_def)
  have b: "2 ^ (floorlog 2 n - 1) \<le> n \<and> n < 2 ^ floorlog 2 n"
    using floorlog_bounds [of n 2] n(1) by simp
  have pos: "0 < floorlog 2 n"
    using n(1) by (simp add: floorlog_def)
  have "(of_nat (2 ^ (floorlog 2 n - 1)) :: rat) \<le> of_nat n"
    and "(of_nat n :: rat) < of_nat (2 ^ floorlog 2 n)"
    using b by (simp_all only: of_nat_le_iff of_nat_less_iff)
  then have "(2::rat) ^ (floorlog 2 n - 1) \<le> of_nat n" "of_nat n < (2::rat) ^ floorlog 2 n"
    by simp_all
  moreover have "int (floorlog 2 n) - 1 = int (floorlog 2 n - 1)"
    using pos by simp
  ultimately show "pow2 (int (floorlog 2 (nat a)) - 1) \<le> of_int a"
    and "of_int a < pow2 (int (floorlog 2 (nat a)))"
    unfolding n_def [symmetric] n(2) by (simp_all only: pow2_nat)
qed

lemma ilog2_bounds:
  assumes "0 < x"
  shows "pow2 (ilog2 x) \<le> x" and "x < pow2 (ilog2 x + 1)"
proof -
  obtain a b where q: "quotient_of x = (a, b)" by (cases "quotient_of x")
  have x: "x = of_int a / of_int b" and b: "0 < b"
    using q quotient_of_div quotient_of_denom_pos by blast+
  have a: "0 < a"
    using assms x b by (simp add: zero_less_divide_iff)
  define ka kb where k_def: "ka = int (floorlog 2 (nat a))" "kb = int (floorlog 2 (nat b))"
  have A: "pow2 (ka - 1) \<le> of_int a" "of_int a < pow2 ka"
    and B: "pow2 (kb - 1) \<le> of_int b" "of_int b < pow2 kb"
    using floorlog_bounds_rat [OF a] floorlog_bounds_rat [OF b] by (simp_all add: k_def)
  have pb: "(0::rat) < of_int b" using b by simp
  have lo: "pow2 (ka - kb - 1) \<le> x"
  proof -
    have "pow2 (ka - kb - 1) * of_int b \<le> pow2 (ka - kb - 1) * pow2 kb"
      using B(2) by (intro mult_left_mono) (simp_all add: less_imp_le)
    also have "\<dots> = pow2 (ka - 1)" by (simp flip: pow2_add)
    also have "\<dots> \<le> of_int a" by (rule A(1))
    finally show ?thesis using pb by (simp add: x field_simps)
  qed
  have hi: "x < pow2 (ka - kb + 1)"
  proof -
    have "of_int a < pow2 (ka - kb + 1) * pow2 (kb - 1)"
      using A(2) by (simp flip: pow2_add)
    also have "\<dots> \<le> pow2 (ka - kb + 1) * of_int b"
      using B(1) by (intro mult_left_mono) (simp_all add: less_imp_le)
    finally show ?thesis using pb by (simp add: x field_simps)
  qed
  have il: "ilog2 x = (if pow2 (ka - kb) \<le> x then ka - kb else ka - kb - 1)"
    by (simp add: ilog2_def q k_def bitlen_def Let_def)
  show "pow2 (ilog2 x) \<le> x" and "x < pow2 (ilog2 x + 1)"
    using lo hi by (auto simp: il not_le)
qed

lemma ilog2_unique:
  assumes "pow2 k \<le> x" and "x < pow2 (k + 1)"
  shows "ilog2 x = k"
proof -
  have "0 < x" using assms(1) pow2_pos [of k] by linarith
  note b = ilog2_bounds [OF this]
  have "pow2 k < pow2 (ilog2 x + 1)" "pow2 (ilog2 x) < pow2 (k + 1)"
    using assms b by linarith+
  then show ?thesis by simp
qed

lemma ilog2_mono:
  assumes "0 < x" and "x \<le> y"
  shows "ilog2 x \<le> ilog2 y"
proof -
  have "pow2 (ilog2 x) < pow2 (ilog2 y + 1)"
    using ilog2_bounds(1) [OF assms(1)] ilog2_bounds(2) [of y] assms by linarith
  then show ?thesis by simp
qed

lemma ilog2_pow2 [simp]: "ilog2 (pow2 k) = k"
  by (rule ilog2_unique) simp_all

text \<open>Round to the nearest integer, ties to even.\<close>

definition rne :: "rat \<Rightarrow> int" where
  "rne y = (let f = \<lfloor>y\<rfloor>; d = y - of_int f
     in if d < 1 / 2 then f else if 1 / 2 < d then f + 1 else if even f then f else f + 1)"

lemma rne_of_int [simp]: "rne (of_int n) = n"
  by (simp add: rne_def)

lemma rne_bounds: "\<lfloor>y\<rfloor> \<le> rne y" "rne y \<le> \<lfloor>y\<rfloor> + 1"
  by (simp_all add: rne_def Let_def)

lemma rne_mono:
  assumes "y \<le> z"
  shows "rne y \<le> rne z"
proof (cases "\<lfloor>y\<rfloor> = \<lfloor>z\<rfloor>")
  case True
  then show ?thesis using assms by (auto simp: rne_def Let_def)
next
  case False
  then have "\<lfloor>y\<rfloor> + 1 \<le> \<lfloor>z\<rfloor>"
    using floor_mono [OF assms] by linarith
  then show ?thesis using rne_bounds(2) [of y] rne_bounds(1) [of z] by linarith
qed

section \<open>Binary64\<close>

definition fexp :: "rat \<Rightarrow> int" where
  "fexp x = max (ilog2 x - 52) (-1074)"

definition rnd_pos :: "rat \<Rightarrow> rat" where
  "rnd_pos x = of_int (rne (x / pow2 (fexp x))) * pow2 (fexp x)"

definition rnd64 :: "rat \<Rightarrow> rat" where
  "rnd64 x = (if x = 0 then 0 else if 0 < x then rnd_pos x else - rnd_pos (- x))"

lemma pow2_split: "a \<le> e \<Longrightarrow> pow2 e = of_int (2 ^ nat (e - a)) * pow2 a"
  using pow2_add [of "e - a" a] pow2_Ints [of "e - a"] by simp

lemma rnd_pos_grid:
  assumes "fexp x \<le> e" and "x \<le> of_int m * pow2 e"
  shows "rnd_pos x \<le> of_int m * pow2 e"
proof -
  have eq: "of_int m * pow2 e = of_int (m * 2 ^ nat (e - fexp x)) * pow2 (fexp x)"
    using pow2_split [OF assms(1)] by simp
  have "x / pow2 (fexp x) \<le> of_int (m * 2 ^ nat (e - fexp x))"
    using assms(2) unfolding eq by (simp add: divide_le_eq)
  then have "rne (x / pow2 (fexp x)) \<le> m * 2 ^ nat (e - fexp x)"
    using rne_mono rne_of_int by metis
  then have "rat_of_int (rne (x / pow2 (fexp x))) \<le> of_int (m * 2 ^ nat (e - fexp x))"
    by (simp only: of_int_le_iff)
  then show ?thesis
    unfolding eq rnd_pos_def by (intro mult_right_mono) (simp_all add: less_imp_le)
qed

lemma rnd_pos_grid_ge:
  assumes "fexp x \<le> e" and "of_int m * pow2 e \<le> x"
  shows "of_int m * pow2 e \<le> rnd_pos x"
proof -
  have eq: "of_int m * pow2 e = of_int (m * 2 ^ nat (e - fexp x)) * pow2 (fexp x)"
    using pow2_split [OF assms(1)] by simp
  have "of_int (m * 2 ^ nat (e - fexp x)) \<le> x / pow2 (fexp x)"
    using assms(2) unfolding eq by (simp add: le_divide_eq)
  then have "m * 2 ^ nat (e - fexp x) \<le> rne (x / pow2 (fexp x))"
    using rne_mono rne_of_int by metis
  then have "of_int (m * 2 ^ nat (e - fexp x)) \<le> rat_of_int (rne (x / pow2 (fexp x)))"
    by (simp only: of_int_le_iff)
  then show ?thesis
    unfolding eq rnd_pos_def by (intro mult_right_mono) (simp_all add: less_imp_le)
qed

lemma rnd_pos_nonneg: "0 < x \<Longrightarrow> 0 \<le> rnd_pos x"
  using rnd_pos_grid_ge [of x "fexp x" 0] by simp

lemma rnd_pos_mono:
  assumes "0 < x" and "x \<le> y"
  shows "rnd_pos x \<le> rnd_pos y"
proof (cases "fexp x = fexp y")
  case True
  have "x / pow2 (fexp y) \<le> y / pow2 (fexp y)"
    using assms by (intro divide_right_mono) (simp_all add: less_imp_le)
  from rne_mono [OF this] have "rat_of_int (rne (x / pow2 (fexp y))) \<le> of_int (rne (y / pow2 (fexp y)))"
    by (simp only: of_int_le_iff)
  then show ?thesis
    unfolding rnd_pos_def True by (intro mult_right_mono) (simp_all add: less_imp_le)
next
  case False
  have il: "ilog2 x \<le> ilog2 y" by (rule ilog2_mono [OF assms])
  with False have lt: "ilog2 x < ilog2 y" and fy: "fexp y = ilog2 y - 52" and fx: "fexp x \<le> ilog2 y"
    by (auto simp: fexp_def max_def split: if_splits)
  have "0 < y" using assms by simp
  have "x < pow2 (ilog2 x + 1)" using ilog2_bounds(2) [OF assms(1)] .
  also have "\<dots> \<le> pow2 (ilog2 y)" using lt by (intro pow2_mono) simp
  finally have "rnd_pos x \<le> of_int 1 * pow2 (ilog2 y)"
    using fx by (intro rnd_pos_grid) simp_all
  also have "\<dots> \<le> rnd_pos y"
    using fy ilog2_bounds(1) [OF \<open>0 < y\<close>] by (intro rnd_pos_grid_ge) simp_all
  finally show ?thesis .
qed

lemma rnd64_mono: "x \<le> y \<Longrightarrow> rnd64 x \<le> rnd64 y"
proof -
  assume xy: "x \<le> y"
  consider "0 < x" | "x \<le> 0" "0 \<le> y" | "y < 0" by linarith
  then show ?thesis
  proof cases
    case 1
    then show ?thesis using rnd_pos_mono [OF 1 xy] xy by (simp add: rnd64_def)
  next
    case 2
    then show ?thesis
      using rnd_pos_nonneg [of y] rnd_pos_nonneg [of "- x"]
      by (auto simp: rnd64_def order.order_iff_strict split: if_splits)
  next
    case 3
    then show ?thesis using rnd_pos_mono [of "- y" "- x"] xy by (simp add: rnd64_def)
  qed
qed

lemma rnd64_minus: "rnd64 (- x) = - rnd64 x"
  by (simp add: rnd64_def)

lemma rnd64_0 [simp]: "rnd64 0 = 0" by (simp add: rnd64_def)

lemma rnd64_nonneg: "0 \<le> x \<Longrightarrow> 0 \<le> rnd64 x"
  using rnd64_mono [of 0 x] by simp

text \<open>A value on a grid that the binade of \<open>x\<close> refines is kept.\<close>

lemma rnd_pos_exact: "fexp x \<le> e \<Longrightarrow> x = of_int m * pow2 e \<Longrightarrow> rnd_pos x = x"
  using rnd_pos_grid [of x e m] rnd_pos_grid_ge [of x e m] by simp

lemma rnd64_pow2: "-1022 \<le> k \<Longrightarrow> rnd64 (pow2 k) = pow2 k"
  using rnd_pos_exact [of "pow2 k" k 1] by (simp add: rnd64_def fexp_def)

lemma rnd64_of_nat:
  assumes "n \<le> 2 ^ 53"
  shows "rnd64 (of_nat n) = of_nat n"
proof (cases "n = 0 \<or> n = 2 ^ 53")
  case True
  then show ?thesis using rnd64_pow2 [of 53] by (auto simp: pow2_def)
next
  case False
  then have n: "0 < n" "n < 2 ^ 53" using assms by auto
  then have "(of_nat n :: rat) < of_nat (2 ^ 53)" by (simp only: of_nat_less_iff)
  then have "of_nat n < pow2 53" by (simp add: pow2_def)
  then have "pow2 (ilog2 (of_nat n)) < pow2 53"
    using ilog2_bounds(1) [of "of_nat n"] n(1) by (metis le_less_trans of_nat_0_less_iff)
  then have "fexp (of_nat n) \<le> 0" by (simp add: fexp_def)
  from rnd_pos_exact [OF this, of "int n"] n(1) show ?thesis
    by (simp add: rnd64_def)
qed

lemma rnd64_1 [simp]: "rnd64 1 = 1"
  using rnd64_of_nat [of 1] by simp

lemma rnd64_of_numeral: "numeral w \<le> (2 ^ 53 :: nat) \<Longrightarrow> rnd64 (numeral w) = numeral w"
  using rnd64_of_nat [of "numeral w"] by simp

lemma rnd64_le_1: "x \<le> 1 \<Longrightarrow> rnd64 x \<le> 1"
  using rnd64_mono [of x 1] by simp

section \<open>Values and operations\<close>

datatype f64 = FNan | FInf bool | FFin rat

text \<open>The boolean of \<open>FInf\<close> is the sign: \<open>FInf True\<close> is \<open>+Inf\<close>.\<close>

definition f_of_rat :: "rat \<Rightarrow> f64" where
  "f_of_rat x = (let r = rnd64 x
     in if r \<noteq> 0 \<and> 1024 \<le> ilog2 \<bar>r\<bar> then FInf (0 < r) else FFin r)"

definition f_of_int :: "int \<Rightarrow> f64" where
  "f_of_int k = f_of_rat (of_int k)"

definition f_of_u64 :: "u64 \<Rightarrow> f64" where
  "f_of_u64 w = f_of_rat (of_int (uint w))"

fun f_neg :: "f64 \<Rightarrow> f64" where
  "f_neg FNan = FNan"
| "f_neg (FInf s) = FInf (\<not> s)"
| "f_neg (FFin x) = FFin (- x)"

fun f_add :: "f64 \<Rightarrow> f64 \<Rightarrow> f64" where
  "f_add (FFin x) (FFin y) = f_of_rat (x + y)"
| "f_add (FInf s) (FInf t) = (if s = t then FInf s else FNan)"
| "f_add (FInf s) (FFin _) = FInf s"
| "f_add (FFin _) (FInf s) = FInf s"
| "f_add _ _ = FNan"

definition f_sub :: "f64 \<Rightarrow> f64 \<Rightarrow> f64" where
  "f_sub a b = f_add a (f_neg b)"

fun f_mul :: "f64 \<Rightarrow> f64 \<Rightarrow> f64" where
  "f_mul (FFin x) (FFin y) = f_of_rat (x * y)"
| "f_mul (FInf s) (FInf t) = FInf (s = t)"
| "f_mul (FInf s) (FFin x) = (if x = 0 then FNan else FInf (s = (0 < x)))"
| "f_mul (FFin x) (FInf s) = (if x = 0 then FNan else FInf (s = (0 < x)))"
| "f_mul _ _ = FNan"

fun f_div :: "f64 \<Rightarrow> f64 \<Rightarrow> f64" where
  "f_div (FFin x) (FFin y) =
     (if y = 0 then (if x = 0 then FNan else FInf (0 < x)) else f_of_rat (x / y))"
| "f_div (FInf s) (FFin y) = FInf (s = (0 \<le> y))"
| "f_div (FFin _) (FInf _) = FFin 0"
| "f_div _ _ = FNan"

fun f_lt :: "f64 \<Rightarrow> f64 \<Rightarrow> bool" where
  "f_lt (FFin x) (FFin y) \<longleftrightarrow> x < y"
| "f_lt (FInf s) (FInf t) \<longleftrightarrow> \<not> s \<and> t"
| "f_lt (FInf s) (FFin _) \<longleftrightarrow> \<not> s"
| "f_lt (FFin _) (FInf s) \<longleftrightarrow> s"
| "f_lt _ _ \<longleftrightarrow> False"

fun f_le :: "f64 \<Rightarrow> f64 \<Rightarrow> bool" where
  "f_le (FFin x) (FFin y) \<longleftrightarrow> x \<le> y"
| "f_le (FInf s) (FInf t) \<longleftrightarrow> \<not> s \<or> t"
| "f_le (FInf s) (FFin _) \<longleftrightarrow> \<not> s"
| "f_le (FFin _) (FInf s) \<longleftrightarrow> s"
| "f_le _ _ \<longleftrightarrow> False"

text \<open>\<open>==\<close>: a NaN equals nothing, itself included.\<close>

fun f_eq :: "f64 \<Rightarrow> f64 \<Rightarrow> bool" where
  "f_eq FNan _ \<longleftrightarrow> False"
| "f_eq _ FNan \<longleftrightarrow> False"
| "f_eq a b \<longleftrightarrow> a = b"

fun f_abs :: "f64 \<Rightarrow> f64" where
  "f_abs FNan = FNan"
| "f_abs (FInf _) = FInf True"
| "f_abs (FFin x) = FFin \<bar>x\<bar>"

fun f_ceil :: "f64 \<Rightarrow> f64" where
  "f_ceil (FFin x) = FFin (of_int \<lceil>x\<rceil>)"
| "f_ceil a = a"

definition f_max :: "f64 \<Rightarrow> f64 \<Rightarrow> f64" where
  "f_max a b = (if a = FInf True \<or> b = FInf True then FInf True
     else if a = FNan \<or> b = FNan then FNan else if f_lt a b then b else a)"

definition f_min :: "f64 \<Rightarrow> f64 \<Rightarrow> f64" where
  "f_min a b = (if a = FInf False \<or> b = FInf False then FInf False
     else if a = FNan \<or> b = FNan then FNan else if f_lt b a then b else a)"

fun f_finite :: "f64 \<Rightarrow> bool" where
  "f_finite (FFin _) \<longleftrightarrow> True"
| "f_finite _ \<longleftrightarrow> False"

definition trunc :: "rat \<Rightarrow> int" where
  "trunc x = (if x < 0 then \<lceil>x\<rceil> else \<lfloor>x\<rfloor>)"

text \<open>
  Conversions to integers. Go leaves a value outside the target's range to the implementation;
  here it is what amd64 produces, the bit pattern \<open>2 ^ 63\<close> of an invalid conversion.
\<close>

fun f_to_u64 :: "f64 \<Rightarrow> u64" where
  "f_to_u64 (FFin x) = (if 0 \<le> trunc x \<and> trunc x < 2 ^ 64 then word_of_int (trunc x) else 2 ^ 63)"
| "f_to_u64 _ = 2 ^ 63"

fun f_to_i64 :: "f64 \<Rightarrow> int" where
  "f_to_i64 (FFin x) = (if in_i64 (trunc x) then trunc x else MinInt64)"
| "f_to_i64 _ = MinInt64"

section \<open>What the components use\<close>

lemma f_of_rat_fin: "\<bar>x\<bar> \<le> 2 ^ 1023 \<Longrightarrow> f_of_rat x = FFin (rnd64 x)"
proof -
  assume "\<bar>x\<bar> \<le> 2 ^ 1023"
  then have "- pow2 1023 \<le> x" "x \<le> pow2 1023"
    by (simp_all add: pow2_def abs_le_iff)
  moreover have "rnd64 (- pow2 1023) = - pow2 1023" "rnd64 (pow2 1023) = pow2 1023"
    using rnd64_pow2 [of 1023] by (simp_all add: rnd64_minus)
  ultimately have "- pow2 1023 \<le> rnd64 x" "rnd64 x \<le> pow2 1023"
    using rnd64_mono by metis+
  then have lt: "\<bar>rnd64 x\<bar> < pow2 1024"
    using pow2_strict_mono [of 1023 1024] by linarith
  have "ilog2 \<bar>rnd64 x\<bar> < 1024" if "rnd64 x \<noteq> 0"
  proof -
    have "pow2 (ilog2 \<bar>rnd64 x\<bar>) \<le> \<bar>rnd64 x\<bar>"
      using that by (intro ilog2_bounds) simp
    from le_less_trans [OF this lt] show ?thesis by simp
  qed
  then show ?thesis
    by (auto simp: f_of_rat_def Let_def)
qed

lemma pow1023: "(1000000000000000000000000::rat) \<le> 2 ^ 1023"
proof -
  have "(1000000000000000000000000::rat) \<le> 2 ^ 80" by simp
  also have "\<dots> \<le> 2 ^ 1023" by (rule power_increasing) simp_all
  finally show ?thesis .
qed

lemma f_of_rat_small: "\<bar>x\<bar> \<le> 1000000000000000000000000 \<Longrightarrow> f_of_rat x = FFin (rnd64 x)"
  using f_of_rat_fin pow1023 by (meson order_trans)

lemma f_of_u64_fin: "f_of_u64 w = FFin (rnd64 (of_nat (unat w)))"
proof -
  have "(of_nat (unat w) :: rat) < of_nat (2 ^ 64)"
    using unat_u64_less [of w] by (simp only: of_nat_less_iff)
  then have "\<bar>of_nat (unat w) :: rat\<bar> \<le> 1000000000000000000000000"
    by (simp del: of_nat_unat)
  from f_of_rat_small [OF this] show ?thesis
    by (simp add: f_of_u64_def)
qed

lemma f_le_refl_fin [simp]: "f_le (FFin x) (FFin x)" by simp

lemma f_lt_not_le: "f_finite a \<Longrightarrow> f_finite b \<Longrightarrow> f_lt a b \<longleftrightarrow> \<not> f_le b a"
  by (cases a; cases b) auto
end
