(* ===== verification/Histogram.thy ===== *)
theory Histogram
  imports Float64
begin

text \<open>
  The log-scale latency histograms of \<open>orchestrator/run/metrics.go\<close>: their layout, the
  accumulation of one histogram into another (\<open>addHistogram\<close>), the percentiles
  (\<open>finalizeHistogram\<close>, \<open>histogramPercentile\<close>, \<open>histogramBinUpperNS\<close>), the version-2
  validation of one histogram and of an aggregate against its parts, and the two scalar helpers
  \<open>expectedReceives\<close> and \<open>ratioOrOne\<close>. A nil slice of bins is the empty list (a decoded but
  empty slice never reaches an accumulator: \<open>addHistogram\<close> refuses it as source). The lemmas
  give accumulation as bin-wise addition (an instance of \<open>commuting_accumulator\<close>), the edges of
  the version-2 bins over the naturals, and the percentiles as nearest ranks.
\<close>

section \<open>Data\<close>

record HistogramLayout =
  Scheme :: string
  Subbins :: u64
  MinNS :: u64
  MaxNS :: u64

record Histogram =
  hScheme :: string
  hMinNS :: u64
  hMaxNS :: u64
  Count :: u64
  P50NS :: u64
  P90NS :: u64
  P99NS :: u64
  Bins :: "u64 list"

definition zeroHistogram :: Histogram where
  "zeroHistogram = \<lparr>hScheme = [], hMinNS = 0, hMaxNS = 0, Count = 0,
     P50NS = 0, P90NS = 0, P99NS = 0, Bins = []\<rparr>"

definition v2HistogramBins :: nat where "v2HistogramBins = 448"

datatype hist_error =
    LayoutMismatch
  | AddLayout string u64 u64 HistogramLayout
  | MissingBins
  | BinsLen nat nat
  | CountMismatch u64 u64
  | BinMismatch nat u64 u64

section \<open>Accumulation\<close>

text \<open>The guard both \<open>addHistogram\<close> and \<open>validateV2Histogram\<close> start with.\<close>

definition layout_agrees :: "Histogram \<Rightarrow> HistogramLayout \<Rightarrow> bool" where
  "layout_agrees h layout \<longleftrightarrow>
     hScheme h = Scheme layout \<and> hMinNS h = MinNS layout \<and> hMaxNS h = MaxNS layout"

definition addHistogram :: "Histogram \<Rightarrow> Histogram \<Rightarrow> HistogramLayout \<Rightarrow> hist_error + Histogram" where
  "addHistogram dst src layout =
     (if \<not> layout_agrees src layout then Inl (AddLayout (hScheme src) (hMinNS src) (hMaxNS src) layout)
      else if length (Bins src) = 0 then Inl MissingBins
      else
        let dst = (if Bins dst = []
              then dst\<lparr>hScheme := Scheme layout, hMinNS := MinNS layout, hMaxNS := MaxNS layout,
                       Bins := replicate (length (Bins src)) 0\<rparr>
              else dst)
        in if length (Bins dst) \<noteq> length (Bins src)
           then Inl (BinsLen (length (Bins src)) (length (Bins dst)))
           else Inr (dst\<lparr>Bins := map2 (+) (Bins dst) (Bins src), Count := Count dst + Count src\<rparr>))"

section \<open>Percentiles\<close>

text \<open>The doubling loop of \<open>histogramBinUpperNS\<close>, with its saturation.\<close>

fun shiftLow :: "nat \<Rightarrow> u64 \<Rightarrow> u64" where
  "shiftLow 0 low = low"
| "shiftLow (Suc n) low = (if (2 ^ 63 - 1) < low then 2 ^ 64 - 1 else shiftLow n (low * 2))"

text \<open>
  The code panics when it divides by \<open>Subbins\<close> and that is zero; \<open>validateMetricsFile\<close> accepts no such
  layout (\<open>validated_subbins\<close> in \<open>Metrics\<close>).
\<close>

definition histogramBinUpperNS :: "HistogramLayout \<Rightarrow> nat \<Rightarrow> nat \<Rightarrow> u64" where
  "histogramBinUpperNS layout index bins =
     (if index = 0 then MinNS layout
      else if bins \<le> index + 1 then MaxNS layout
      else
        let major = index div unat (Subbins layout);
            sub = index mod unat (Subbins layout);
            low = shiftLow major (MinNS layout);
            upper = low + (low * of_nat (sub + 1) + Subbins layout - 1) div Subbins layout
        in if MaxNS layout < upper then MaxNS layout else upper)"

fun percentileScan :: "HistogramLayout \<Rightarrow> u64 \<Rightarrow> nat \<Rightarrow> nat \<Rightarrow> u64 \<Rightarrow> u64 list \<Rightarrow> u64" where
  "percentileScan layout rank n i cumulative [] = MaxNS layout"
| "percentileScan layout rank n i cumulative (v # vs) =
     (let cumulative = cumulative + v
      in if rank \<le> cumulative then histogramBinUpperNS layout i n
         else percentileScan layout rank n (Suc i) cumulative vs)"

definition percentileRank :: "u64 \<Rightarrow> f64 \<Rightarrow> u64" where
  "percentileRank cnt p =
     (let p = (if f_lt p (FFin 0) then FFin 0 else if f_lt (FFin 1) p then FFin 1 else p);
          rank = f_to_u64 (f_ceil (f_mul (f_of_u64 cnt) p))
      in if rank = 0 then 1 else rank)"

definition histogramPercentile :: "Histogram \<Rightarrow> HistogramLayout \<Rightarrow> f64 \<Rightarrow> u64" where
  "histogramPercentile h layout p =
     (if Count h = 0 then 0
      else percentileScan layout (percentileRank (Count h) p) (length (Bins h)) 0 0 (Bins h))"

definition finalizeHistogram :: "Histogram \<Rightarrow> HistogramLayout \<Rightarrow> Histogram" where
  "finalizeHistogram h layout =
     (let h = (if Bins h = []
            then h\<lparr>hScheme := Scheme layout, hMinNS := MinNS layout, hMaxNS := MaxNS layout\<rparr> else h);
          h = h\<lparr>Count := sum_list (Bins h)\<rparr>;
          h = h\<lparr>P50NS := histogramPercentile h layout (f_of_rat (50 / 100))\<rparr>;
          h = h\<lparr>P90NS := histogramPercentile h layout (f_of_rat (90 / 100))\<rparr>
      in h\<lparr>P99NS := histogramPercentile h layout (f_of_rat (99 / 100))\<rparr>)"

section \<open>Validation\<close>

definition validateV2Histogram :: "Histogram \<Rightarrow> HistogramLayout \<Rightarrow> hist_error + unit" where
  "validateV2Histogram h layout =
     (if \<not> layout_agrees h layout then Inl LayoutMismatch
      else if length (Bins h) \<noteq> v2HistogramBins then Inl (BinsLen (length (Bins h)) v2HistogramBins)
      else if Count h \<noteq> sum_list (Bins h) then Inl (CountMismatch (Count h) (sum_list (Bins h)))
      else Inr ())"

text \<open>The loop over the parts: it carries the expected bins and count.\<close>

fun sumParts :: "nat \<Rightarrow> u64 list \<times> u64 \<Rightarrow> Histogram list \<Rightarrow> hist_error + (u64 list \<times> u64)" where
  "sumParts n acc [] = Inr acc"
| "sumParts n (expected, expectedCount) (part # parts) =
     (if length (Bins part) \<noteq> n then Inl (BinsLen (length (Bins part)) n)
      else sumParts n (map2 (+) expected (Bins part), expectedCount + Count part) parts)"

fun firstBinMismatch :: "nat \<Rightarrow> u64 list \<Rightarrow> u64 list \<Rightarrow> hist_error + unit" where
  "firstBinMismatch i (value # vs) (e # es) =
     (if value \<noteq> e then Inl (BinMismatch i value e) else firstBinMismatch (Suc i) vs es)"
| "firstBinMismatch i _ _ = Inr ()"

definition validateHistogramSum :: "Histogram \<Rightarrow> Histogram list \<Rightarrow> hist_error + unit" where
  "validateHistogramSum aggregate parts =
     (if length (Bins aggregate) \<noteq> v2HistogramBins
      then Inl (BinsLen (length (Bins aggregate)) v2HistogramBins)
      else rbind (sumParts (length (Bins aggregate)) (replicate (length (Bins aggregate)) 0, 0) parts)
        (\<lambda>(expected, expectedCount).
          if Count aggregate \<noteq> expectedCount then Inl (CountMismatch (Count aggregate) expectedCount)
          else firstBinMismatch 0 (Bins aggregate) expected))"

section \<open>Scalars\<close>

definition expectedReceives :: "u64 \<Rightarrow> u64 \<Rightarrow> int \<Rightarrow> u64" where
  "expectedReceives slots broadcastSlots totalConns =
     (let totalConns = (if totalConns < 0 then 0 else totalConns)
      in (slots - broadcastSlots) + broadcastSlots * u64_of_int totalConns)"

definition ratioOrOne :: "u64 \<Rightarrow> u64 \<Rightarrow> f64" where
  "ratioOrOne num den = (if den = 0 then FFin 1 else f_div (f_of_u64 num) (f_of_u64 den))"

section \<open>What accumulation computes\<close>

text \<open>The bin-wise totals of a group of histograms with \<open>n\<close> bins.\<close>

definition binsTotal :: "nat \<Rightarrow> Histogram list \<Rightarrow> u64 list" where
  "binsTotal n parts = map (\<lambda>i. \<Sum>p \<leftarrow> parts. Bins p ! i) [0..<n]"

lemma length_binsTotal [simp]: "length (binsTotal n parts) = n"
  by (simp add: binsTotal_def)

lemma binsTotal_nth [simp]: "i < n \<Longrightarrow> binsTotal n parts ! i = (\<Sum>p \<leftarrow> parts. Bins p ! i)"
  by (simp add: binsTotal_def)

lemma binsTotal_Nil: "binsTotal n [] = replicate n 0"
  by (rule nth_equalityI) simp_all

lemma binsTotal_snoc:
  "length (Bins p) = n \<Longrightarrow> binsTotal n (parts @ [p]) = map2 (+) (binsTotal n parts) (Bins p)"
  by (rule nth_equalityI) simp_all

lemma binsTotal_single: "length (Bins p) = n \<Longrightarrow> binsTotal n [p] = Bins p"
  by (rule nth_equalityI) simp_all

lemma sum_list_map2_plus:
  "length xs = length ys \<Longrightarrow> sum_list (map2 (+) xs ys) = sum_list xs + sum_list (ys :: u64 list)"
  by (induction xs ys rule: list_induct2) simp_all

lemma sum_binsTotal:
  "\<forall>p \<in> set parts. length (Bins p) = n \<Longrightarrow>
   sum_list (binsTotal n parts) = (\<Sum>p \<leftarrow> parts. sum_list (Bins p))"
proof (induction parts rule: rev_induct)
  case (snoc p parts)
  then show ?case by (simp add: binsTotal_snoc sum_list_map2_plus)
qed (simp add: binsTotal_Nil sum_list_replicate)

definition accumulated :: "HistogramLayout \<Rightarrow> nat \<Rightarrow> Histogram list \<Rightarrow> Histogram" where
  "accumulated layout n parts =
     zeroHistogram\<lparr>hScheme := Scheme layout, hMinNS := MinNS layout, hMaxNS := MaxNS layout,
       Bins := binsTotal n parts, Count := (\<Sum>p \<leftarrow> parts. Count p)\<rparr>"

lemma addHistogram_Inr:
  "addHistogram d s layout = Inr h \<longleftrightarrow>
     layout_agrees s layout \<and> Bins s \<noteq> [] \<and> (Bins d = [] \<or> length (Bins d) = length (Bins s)) \<and>
     h = (if Bins d = []
          then d\<lparr>hScheme := Scheme layout, hMinNS := MinNS layout, hMaxNS := MaxNS layout,
                 Bins := Bins s, Count := Count d + Count s\<rparr>
          else d\<lparr>Bins := map2 (+) (Bins d) (Bins s), Count := Count d + Count s\<rparr>)"
proof -
  have "map2 (+) (replicate (length xs) 0) xs = xs" for xs :: "u64 list"
    by (rule nth_equalityI) simp_all
  then show ?thesis
    by (auto simp: addHistogram_def Let_def)
qed

lemma map2_plus_commute: "map2 (+) ys zs = map2 (+) zs (ys :: u64 list)"
  by (rule nth_equalityI) (simp_all add: add.commute)

lemma map2_plus_right_commute:
  "map2 (+) (map2 (+) (xs :: u64 list) ys) zs = map2 (+) (map2 (+) xs zs) ys"
  by (rule nth_equalityI) (simp_all add: add.assoc add.commute add.left_commute)

lemma addHistogram_commute_Inr:
  assumes "rbind (addHistogram d a layout) (\<lambda>t. addHistogram t b layout) = Inr h"
  shows "rbind (addHistogram d b layout) (\<lambda>t. addHistogram t a layout) = Inr h"
proof -
  obtain t where t: "addHistogram d a layout = Inr t" and h: "addHistogram t b layout = Inr h"
    using assms by (auto simp: rbind_eq_Inr_iff)
  note t' = t [unfolded addHistogram_Inr]
  note h' = h [unfolded addHistogram_Inr]
  have cnt: "Count d + Count a + Count b = Count d + Count b + Count a"
    by (simp only: add.assoc add.commute [of "Count b"])
  show ?thesis
  proof (cases "Bins d = []")
    case True
    then have "length (Bins a) = length (Bins b)" and ne: "Bins a \<noteq> []" "Bins b \<noteq> []"
      using t' h' by auto
    then show ?thesis
      using True t' h' cnt map2_plus_commute [of "Bins a" "Bins b"]
      by (simp add: rbind_eq_Inr_iff addHistogram_Inr)
  next
    case False
    then have len: "length (Bins d) = length (Bins a)" "length (Bins d) = length (Bins b)"
      and ne: "Bins a \<noteq> []" "Bins b \<noteq> []"
      using t' h' by auto
    then have ne2: "map2 (+) (Bins d) (Bins a) \<noteq> []" "map2 (+) (Bins d) (Bins b) \<noteq> []"
      using False by (auto simp flip: length_greater_0_conv)
    show ?thesis
      using False t' h' cnt len ne2 map2_plus_right_commute [of "Bins d" "Bins a" "Bins b"]
      by (simp add: rbind_eq_Inr_iff addHistogram_Inr)
  qed
qed

lemma addHistogram_commute:
  "success (rbind (addHistogram d a layout) (\<lambda>t. addHistogram t b layout)) =
   success (rbind (addHistogram d b layout) (\<lambda>t. addHistogram t a layout))"
  by (rule success_eqI; erule addHistogram_commute_Inr)

interpretation hist: commuting_accumulator "\<lambda>d s. addHistogram d s layout" "\<lambda>_. True" "\<lambda>_. True"
  for layout
  by unfold_locales (simp_all add: addHistogram_commute)

lemma fold_addHistogram:
  assumes "parts \<noteq> []"
  shows "foldM (\<lambda>d s. addHistogram d s layout) zeroHistogram parts = Inr h \<longleftrightarrow>
    (\<exists>n > 0. (\<forall>p \<in> set parts. layout_agrees p layout \<and> length (Bins p) = n) \<and>
      h = accumulated layout n parts)"
  using assms
proof (induction parts arbitrary: h rule: rev_nonempty_induct)
  case (single p)
  show ?case
    by (auto simp: rbind_eq_Inr_iff addHistogram_Inr accumulated_def zeroHistogram_def
        binsTotal_single)
next
  case (snoc p parts)
  have "foldM (\<lambda>d s. addHistogram d s layout) zeroHistogram (parts @ [p]) = Inr h \<longleftrightarrow>
     (\<exists>n > 0. (\<forall>q \<in> set parts. layout_agrees q layout \<and> length (Bins q) = n) \<and>
       addHistogram (accumulated layout n parts) p layout = Inr h)"
    by (auto simp: foldM_append rbind_eq_Inr_iff snoc.IH)
  also have "\<dots> \<longleftrightarrow> (\<exists>n > 0. (\<forall>q \<in> set (parts @ [p]). layout_agrees q layout \<and> length (Bins q) = n) \<and>
      h = accumulated layout n (parts @ [p]))"
  proof -
    have "addHistogram (accumulated layout n parts) p layout = Inr h \<longleftrightarrow>
      layout_agrees p layout \<and> length (Bins p) = n \<and> h = accumulated layout n (parts @ [p])"
      if "0 < n" for n
    proof -
      have "Bins (accumulated layout n parts) \<noteq> []" "length (Bins (accumulated layout n parts)) = n"
        using that by (simp_all add: accumulated_def binsTotal_def)
      moreover have "(accumulated layout n parts)\<lparr>Bins := map2 (+) (binsTotal n parts) (Bins p),
          Count := Count (accumulated layout n parts) + Count p\<rparr> = accumulated layout n (parts @ [p])"
        if "length (Bins p) = n"
        using that by (simp add: accumulated_def binsTotal_snoc)
      moreover have "Bins (accumulated layout n parts) = binsTotal n parts"
        by (simp add: accumulated_def)
      ultimately show ?thesis
        using that by (auto simp: addHistogram_Inr)
    qed
    then show ?thesis by auto
  qed
  finally show ?case .
qed

section \<open>The bins of the version-2 layout\<close>

definition v2Layout :: HistogramLayout where
  "v2Layout = \<lparr>Scheme = ''log2x16'', Subbins = 16, MinNS = 1000, MaxNS = 100000000000\<rparr>"

lemma v2Layout_simps [simp]:
  "Scheme v2Layout = ''log2x16''" "Subbins v2Layout = 16" "MinNS v2Layout = 1000"
  "MaxNS v2Layout = 100000000000"
  by (simp_all add: v2Layout_def)

text \<open>The upper edge of bin \<open>i\<close> over the naturals, before the cap at the layout's maximum.\<close>

definition edge :: "nat \<Rightarrow> nat" where
  "edge i = 1000 * 2 ^ (i div 16) + (1000 * 2 ^ (i div 16) * (i mod 16 + 1) + 15) div 16"

lemma shiftLow_unat:
  "unat low * 2 ^ n < 2 ^ 64 \<Longrightarrow> unat (shiftLow n low) = unat low * 2 ^ n"
proof (induction n low rule: shiftLow.induct)
  case (2 n low)
  have "unat low * 2 \<le> unat low * 2 ^ Suc n" by (simp add: mult_le_mono2)
  then have "unat low * 2 < 2 ^ 64" using 2 by linarith
  then have "\<not> (2 ^ 63 - 1) < low" and "unat (low * 2) = unat low * 2"
    using unat_u64_mult [of low 2] by (simp_all add: word_less_nat_alt)
  then show ?case using 2 by (simp add: mult.assoc)
qed simp

lemma edge_step: "edge i \<le> edge (Suc i)"
proof (cases "i mod 16 = 15")
  case True
  then have "Suc i div 16 = Suc (i div 16)" "Suc i mod 16 = 0"
    by (simp_all add: div_Suc mod_Suc)
  moreover have "edge i = 2 * (1000 * 2 ^ (i div 16))"
    using True by (simp add: edge_def)
  ultimately show ?thesis by (simp add: edge_def)
next
  case False
  then have eq: "Suc i div 16 = i div 16" "Suc i mod 16 = Suc (i mod 16)"
    by (simp_all add: div_Suc mod_Suc)
  show ?thesis unfolding edge_def eq by (intro add_left_mono div_le_mono) simp
qed

lemma edge_mono: "i \<le> j \<Longrightarrow> edge i \<le> edge j"
  by (rule lift_Suc_mono_le [where f = edge]) (rule edge_step)

lemma edge_bound:
  assumes "i < 448"
  shows "1000 * 2 ^ (i div 16) * 17 + 32 < (2::nat) ^ 64"
proof -
  have "(2::nat) ^ (i div 16) \<le> 2 ^ 27" using assms by (intro power_increasing) auto
  then show ?thesis by simp
qed

lemma v2_bin_upper:
  assumes "i < 448"
  shows "unat (histogramBinUpperNS v2Layout i 448) =
    (if i = 0 then 1000 else if i = 447 then 100000000000 else min (edge i) 100000000000)"
proof -
  define l where "l = 1000 * (2::nat) ^ (i div 16)"
  define low where "low = shiftLow (i div 16) 1000"
  have bound: "l * 17 + 32 < 2 ^ 64" using edge_bound [OF assms] by (simp add: l_def)
  have low: "unat low = l"
    using shiftLow_unat [of 1000 "i div 16"] bound by (simp add: l_def low_def)
  define w where "w = (of_nat (i mod 16 + 1) :: u64)"
  have s: "i mod 16 + 1 \<le> 16" by simp
  then have m: "l * (i mod 16 + 1) \<le> l * 16" by (intro mult_le_mono2)
  have sub: "unat w = i mod 16 + 1"
    unfolding w_def using s by (intro unat_u64_of_nat) simp
  have p: "unat (low * w) = l * (i mod 16 + 1)"
    using m bound unat_u64_mult [of low w] unfolding sub low by linarith
  have q: "unat (low * w + 15) = l * (i mod 16 + 1) + 15"
  proof -
    have "unat (15 :: u64) = 15" by simp
    then show ?thesis using m bound p unat_u64_add [of "low * w" 15] by linarith
  qed
  have d: "unat ((low * w + 15) div 16) = (l * (i mod 16 + 1) + 15) div 16"
    using q by (simp add: unat_div)
  have "(l * (i mod 16 + 1) + 15) div 16 \<le> (l * 16 + 15) div 16"
    using m by (intro div_le_mono) simp
  also have "\<dots> = l" by simp
  finally have u: "unat (low + (low * w + 15) div 16) = edge i"
    using d low bound unat_u64_add [of low "(low * w + 15) div 16"]
    by (simp add: edge_def l_def)
  define U where "U = low + (low * w + 15) div 16"
  have "histogramBinUpperNS v2Layout i 448 = (if i = 0 then 1000 else if 448 \<le> i + 1 then 100000000000
      else if 100000000000 < U then 100000000000 else U)"
    by (simp add: histogramBinUpperNS_def Let_def low_def w_def U_def add.commute [of _ 15])
  then show ?thesis
    using assms u by (auto simp: U_def [symmetric] word_less_nat_alt)
qed

lemma v2_bin_upper_mono:
  assumes "i \<le> j" and "j < 448"
  shows "histogramBinUpperNS v2Layout i 448 \<le> histogramBinUpperNS v2Layout j 448"
proof -
  have "edge 0 = 1063" by (simp add: edge_def)
  then have "1000 \<le> edge j" using edge_mono [of 0 j] by simp
  then show ?thesis
    using assms edge_mono [OF assms(1)]
    by (auto simp: word_le_nat_alt v2_bin_upper min_def)
qed

section \<open>Percentiles over the naturals\<close>

text \<open>How many samples the first \<open>k\<close> bins hold.\<close>

definition below :: "u64 list \<Rightarrow> nat \<Rightarrow> nat" where
  "below bins k = (\<Sum>v \<leftarrow> take k bins. unat v)"

lemma below_0 [simp]: "below bins 0 = 0"
  by (simp add: below_def)

lemma below_mono: "i \<le> j \<Longrightarrow> below bins i \<le> below bins j"
  by (auto simp: below_def le_iff_add take_add)

lemma below_all: "length bins \<le> k \<Longrightarrow> below bins k = (\<Sum>v \<leftarrow> bins. unat v)"
  by (simp add: below_def)

text \<open>The nearest rank of the fraction \<open>x\<close> of \<open>n\<close> samples, with the one rounding of the product.\<close>

definition nearestRank :: "nat \<Rightarrow> rat \<Rightarrow> nat" where
  "nearestRank n x = max 1 (nat \<lceil>rnd64 (of_nat n * x)\<rceil>)"

lemma ceil_product_le:
  assumes "n \<le> 2 ^ 53" and "0 \<le> x" and "x \<le> 1"
  shows "0 \<le> \<lceil>rnd64 (of_nat n * x)\<rceil>" and "\<lceil>rnd64 (of_nat n * x)\<rceil> \<le> int n"
proof -
  have "of_nat n * x \<le> of_nat n"
    using assms by (simp add: mult_left_le)
  then have "rnd64 (of_nat n * x) \<le> of_nat n"
    using rnd64_mono rnd64_of_nat [OF assms(1)] by metis
  then show "\<lceil>rnd64 (of_nat n * x)\<rceil> \<le> int n" by (simp add: ceiling_le_iff)
  have "0 \<le> rnd64 (of_nat n * x)" using assms by (intro rnd64_nonneg) simp
  then show "0 \<le> \<lceil>rnd64 (of_nat n * x)\<rceil>"
    by (simp add: le_ceiling_iff)
qed

lemma nearestRank_bounds:
  assumes "0 < n" and "n \<le> 2 ^ 53" and "0 \<le> x" and "x \<le> 1"
  shows "1 \<le> nearestRank n x" and "nearestRank n x \<le> n"
  using ceil_product_le [OF assms(2-4)] assms(1) by (simp_all add: nearestRank_def)

lemma nearestRank_mono:
  assumes "x \<le> y"
  shows "nearestRank n x \<le> nearestRank n y"
proof -
  have "rnd64 (of_nat n * x) \<le> rnd64 (of_nat n * y)"
    using assms by (intro rnd64_mono mult_left_mono) simp_all
  from nat_mono [OF ceiling_mono [OF this]] show ?thesis
    by (auto simp: nearestRank_def)
qed

lemma trunc_of_int [simp]: "trunc (of_int k) = k"
  by (simp add: trunc_def)

lemma percentileRank_nearest:
  assumes "unat c \<le> 2 ^ 53" and "0 \<le> x" and "x \<le> 1"
  shows "unat (percentileRank c (FFin x)) = nearestRank (unat c) x"
proof -
  define k where "k = \<lceil>rnd64 (of_nat (unat c) * x)\<rceil>"
  have k: "0 \<le> k" "k \<le> 2 ^ 53"
  proof -
    have "int (unat c) \<le> int (2 ^ 53)" using assms(1) by (simp only: of_nat_le_iff)
    moreover have "int (2 ^ 53) = 2 ^ 53" by simp
    ultimately have "int (unat c) \<le> 2 ^ 53" by (simp only:)
    then show "0 \<le> k" "k \<le> 2 ^ 53"
      using ceil_product_le [OF assms] unfolding k_def by linarith+
  qed
  have n: "(0::rat) \<le> of_nat (unat c)" "(of_nat (unat c) :: rat) \<le> 2 ^ 53"
  proof -
    show "(0::rat) \<le> of_nat (unat c)" by (rule of_nat_0_le_iff)
    have "(of_nat (unat c) :: rat) \<le> of_nat (2 ^ 53)" using assms(1) by (simp only: of_nat_le_iff)
    moreover have "(of_nat (2 ^ 53) :: rat) = 2 ^ 53" by simp
    ultimately show "(of_nat (unat c) :: rat) \<le> 2 ^ 53" by (simp only:)
  qed
  have "0 \<le> of_nat (unat c) * x" using n(1) assms(2) by (rule mult_nonneg_nonneg)
  moreover have "of_nat (unat c) * x \<le> 2 ^ 53 * 1"
    using n assms(2,3) by (intro mult_mono) simp_all
  ultimately have "\<bar>of_nat (unat c) * x\<bar> \<le> 1000000000000000000000000"
    by simp
  from f_of_rat_small [OF this]
  have "f_mul (f_of_u64 c) (FFin x) = FFin (rnd64 (of_nat (unat c) * x))"
    by (simp add: f_of_u64_fin rnd64_of_nat [OF assms(1)] del: of_nat_unat)
  then have r: "percentileRank c (FFin x) = (if word_of_int k = (0 :: u64) then 1 else word_of_int k)"
  proof -
    assume "f_mul (f_of_u64 c) (FFin x) = FFin (rnd64 (of_nat (unat c) * x))"
    then have "f_ceil (f_mul (f_of_u64 c) (FFin x)) = FFin (of_int k)"
      unfolding k_def by (simp only: f_ceil.simps)
    moreover have "f_to_u64 (FFin (of_int k)) = word_of_int k" using k by simp
    ultimately show ?thesis
      using assms(2,3) by (simp add: percentileRank_def Let_def)
  qed
  have w: "unat (word_of_int k :: u64) = nat k"
    using k by (simp add: unsigned_of_int nat_take_bit_eq take_bit_int_eq_self)
  show ?thesis
  proof -
    have "nearestRank (unat c) x = max 1 (nat k)" by (simp only: nearestRank_def k_def)
    then show ?thesis using r w k by (auto simp flip: unat_eq_zero)
  qed
qed

lemma percentileScan_finds:
  assumes "unat c + (\<Sum>v \<leftarrow> vs. unat v) < 2 ^ 64"
    and "unat c < unat rank" and "unat rank \<le> unat c + (\<Sum>v \<leftarrow> vs. unat v)"
  shows "\<exists>k < length vs. percentileScan layout rank n i c vs = histogramBinUpperNS layout (i + k) n \<and>
    unat c + below vs k < unat rank \<and> unat rank \<le> unat c + below vs (Suc k)"
  using assms
proof (induction vs arbitrary: i c)
  case (Cons v vs)
  have s: "unat (c + v) = unat c + unat v"
    using Cons.prems(1) by (intro unat_u64_add) simp
  show ?case
  proof (cases "rank \<le> c + v")
    case True
    then show ?thesis
      using Cons.prems s by (intro exI [of _ 0]) (simp add: below_def word_le_nat_alt)
  next
    case False
    then have "unat (c + v) < unat rank" by (simp add: word_le_nat_alt)
    then obtain k where "k < length vs"
      "percentileScan layout rank n (Suc i) (c + v) vs = histogramBinUpperNS layout (Suc i + k) n"
      "unat (c + v) + below vs k < unat rank" "unat rank \<le> unat (c + v) + below vs (Suc k)"
      using Cons.IH [of "c + v" "Suc i"] Cons.prems s by auto
    then show ?thesis
      using False s by (intro exI [of _ "Suc k"]) (simp add: below_def)
  qed
qed simp

lemma histogramPercentile_bin:
  assumes "Count h \<noteq> 0" and "Count h = sum_list (Bins h)"
    and "(\<Sum>v \<leftarrow> Bins h. unat v) \<le> 2 ^ 53" and "0 \<le> x" and "x \<le> 1"
  obtains i where "i < length (Bins h)"
    "histogramPercentile h layout (FFin x) = histogramBinUpperNS layout i (length (Bins h))"
    "below (Bins h) i < nearestRank (unat (Count h)) x"
    "nearestRank (unat (Count h)) x \<le> below (Bins h) (Suc i)"
proof -
  have s: "unat (Count h) = (\<Sum>v \<leftarrow> Bins h. unat v)"
    using assms(2,3) unat_u64_sum_list [of "Bins h"] by simp
  have c: "unat (Count h) \<le> 2 ^ 53" "0 < unat (Count h)"
    using assms(3) s unat_gt_0 [THEN iffD2, OF assms(1)] by simp_all
  have r: "unat (percentileRank (Count h) (FFin x)) = nearestRank (unat (Count h)) x"
    by (rule percentileRank_nearest [OF c(1) assms(4,5)])
  note b = nearestRank_bounds [OF c(2,1) assms(4,5)]
  obtain k where "k < length (Bins h)"
    "percentileScan layout (percentileRank (Count h) (FFin x)) (length (Bins h)) 0 0 (Bins h) =
       histogramBinUpperNS layout (0 + k) (length (Bins h))"
    "below (Bins h) k < nearestRank (unat (Count h)) x"
    "nearestRank (unat (Count h)) x \<le> below (Bins h) (Suc k)"
    using percentileScan_finds [of 0 "Bins h" "percentileRank (Count h) (FFin x)" layout
        "length (Bins h)" 0] r s b assms(3) by auto
  then show ?thesis
    using assms(1) by (intro that [of k]) (simp_all add: histogramPercentile_def)
qed

lemma percentile_mono:
  assumes "Count h = sum_list (Bins h)" and "length (Bins h) = 448"
    and "(\<Sum>v \<leftarrow> Bins h. unat v) \<le> 2 ^ 53" and "0 \<le> x" and "x \<le> y" and "y \<le> 1"
  shows "histogramPercentile h v2Layout (FFin x) \<le> histogramPercentile h v2Layout (FFin y)"
    and "histogramPercentile h v2Layout (FFin y) \<le> MaxNS v2Layout"
proof -
  show "histogramPercentile h v2Layout (FFin x) \<le> histogramPercentile h v2Layout (FFin y)"
  proof (cases "Count h = 0")
    case False
    have xy: "x \<le> 1" "0 \<le> y" using assms by simp_all
    obtain i where i: "i < 448" "histogramPercentile h v2Layout (FFin x) = histogramBinUpperNS v2Layout i 448"
      "below (Bins h) i < nearestRank (unat (Count h)) x"
      using histogramPercentile_bin [OF False assms(1,3,4) xy(1)] assms(2) by metis
    obtain j where j: "j < 448" "histogramPercentile h v2Layout (FFin y) = histogramBinUpperNS v2Layout j 448"
      "nearestRank (unat (Count h)) y \<le> below (Bins h) (Suc j)"
      using histogramPercentile_bin [OF False assms(1,3) xy(2) assms(6)] assms(2) by metis
    have "below (Bins h) i < below (Bins h) (Suc j)"
      using i(3) j(3) nearestRank_mono [OF assms(5)] by (meson less_le_trans order_trans)
    then have "i \<le> j" using below_mono [of "Suc j" i "Bins h"] by (meson not_less_eq_eq not_le)
    then show ?thesis using v2_bin_upper_mono j(1) i(2) j(2) by simp
  qed (simp add: histogramPercentile_def)
  show "histogramPercentile h v2Layout (FFin y) \<le> MaxNS v2Layout"
  proof (cases "Count h = 0")
    case False
    have "0 \<le> y" using assms by simp
    then obtain j where "j < 448" "histogramPercentile h v2Layout (FFin y) = histogramBinUpperNS v2Layout j 448"
      using histogramPercentile_bin [OF False assms(1,3) _ assms(6)] assms(2) by metis
    then show ?thesis by (simp add: word_le_nat_alt v2_bin_upper)
  qed (simp add: histogramPercentile_def)
qed

section \<open>Aggregates against their parts\<close>

lemma validateV2Histogram_Inr [simp]:
  "validateV2Histogram h layout = Inr u \<longleftrightarrow>
     layout_agrees h layout \<and> length (Bins h) = 448 \<and> Count h = sum_list (Bins h)"
  by (simp add: validateV2Histogram_def v2HistogramBins_def)

lemma sumParts_Inr:
  "sumParts n (binsTotal n pre, \<Sum>p \<leftarrow> pre. Count p) parts = Inr r \<longleftrightarrow>
     (\<forall>p \<in> set parts. length (Bins p) = n) \<and>
     r = (binsTotal n (pre @ parts), \<Sum>p \<leftarrow> pre @ parts. Count p)"
proof (induction parts arbitrary: pre)
  case (Cons p parts)
  show ?case
  proof (cases "length (Bins p) = n")
    case True
    then show ?thesis
      using Cons.IH [of "pre @ [p]"] by (simp add: binsTotal_snoc)
  qed simp
qed auto

lemma firstBinMismatch_Inr:
  "length vs = length es \<Longrightarrow> firstBinMismatch i vs es = Inr u \<longleftrightarrow> vs = es"
  by (induction i vs es rule: firstBinMismatch.induct) simp_all

lemma validateHistogramSum_Inr:
  "validateHistogramSum h parts = Inr u \<longleftrightarrow>
     length (Bins h) = 448 \<and> (\<forall>p \<in> set parts. length (Bins p) = 448) \<and>
     Count h = (\<Sum>p \<leftarrow> parts. Count p) \<and> Bins h = binsTotal 448 parts"
proof -
  have "sumParts 448 (replicate 448 0, 0) parts = Inr r \<longleftrightarrow>
      (\<forall>p \<in> set parts. length (Bins p) = 448) \<and> r = (binsTotal 448 parts, \<Sum>p \<leftarrow> parts. Count p)" for r
    using sumParts_Inr [of 448 "[]" parts r] by (simp add: binsTotal_Nil)
  then show ?thesis
    by (auto simp: validateHistogramSum_def v2HistogramBins_def rbind_eq_Inr_iff
        firstBinMismatch_Inr split: prod.splits if_splits)
qed

section \<open>Finalized histograms\<close>

lemma finalizeHistogram_simps [simp]:
  "Bins (finalizeHistogram h layout) = Bins h"
  "Count (finalizeHistogram h layout) = sum_list (Bins h)"
  by (simp_all add: finalizeHistogram_def Let_def)

lemma histogramPercentile_cong:
  "Count h = Count g \<Longrightarrow> Bins h = Bins g \<Longrightarrow> histogramPercentile h layout p = histogramPercentile g layout p"
  by (simp add: histogramPercentile_def)

lemma finalizeHistogram_percentiles:
  "P50NS (finalizeHistogram h layout) = histogramPercentile (finalizeHistogram h layout) layout (f_of_rat (50 / 100))"
  "P90NS (finalizeHistogram h layout) = histogramPercentile (finalizeHistogram h layout) layout (f_of_rat (90 / 100))"
  "P99NS (finalizeHistogram h layout) = histogramPercentile (finalizeHistogram h layout) layout (f_of_rat (99 / 100))"
  by (simp_all add: finalizeHistogram_def Let_def cong: histogramPercentile_cong)
     (auto intro!: histogramPercentile_cong)

lemma fraction_value:
  assumes "0 \<le> x" and "x \<le> 1"
  shows "f_of_rat x = FFin (rnd64 x)" and "0 \<le> rnd64 x" and "rnd64 x \<le> 1"
  using assms f_of_rat_small [of x] rnd64_nonneg [of x] rnd64_le_1 [of x] by simp_all

lemma accumulated_finalized_sum:
  assumes "foldM (\<lambda>d s. addHistogram d s layout) zeroHistogram parts = Inr h"
    and "parts \<noteq> []" and "\<forall>p \<in> set parts. validateV2Histogram p layout = Inr ()"
  shows "validateHistogramSum (finalizeHistogram h layout) parts = Inr ()"
proof -
  obtain n where n: "\<forall>p \<in> set parts. length (Bins p) = n" and h: "h = accumulated layout n parts"
    using assms(1,2) by (auto simp: fold_addHistogram)
  have "n = 448" using assms(2,3) n by (cases parts) auto
  moreover have "sum_list (binsTotal 448 parts) = (\<Sum>p \<leftarrow> parts. Count p)"
    using assms(3) sum_binsTotal [of parts 448]
    by (auto intro!: arg_cong [where f = sum_list] map_cong)
  ultimately show ?thesis
    using assms(3) by (simp add: validateHistogramSum_Inr h accumulated_def)
qed

section \<open>Properties\<close>

text \<open>
  C22. A percentile is the upper edge of the bin its nearest rank falls in: the bins before it
  hold fewer samples than the rank, the bins up to it hold at least that many. The counts are
  bounded by \<open>2 ^ 53\<close>, below which \<open>float64(h.Count)\<close> is exact.
\<close>

theorem percentile_is_rank_bin:
  assumes "Count h \<noteq> 0" and "Count h = sum_list (Bins h)"
    and "(\<Sum>v \<leftarrow> Bins h. unat v) \<le> 2 ^ 53" and "0 \<le> x" and "x \<le> 1"
  shows "\<exists>i < length (Bins h).
    histogramPercentile h layout (FFin x) = histogramBinUpperNS layout i (length (Bins h)) \<and>
    below (Bins h) i < nearestRank (unat (Count h)) x \<and>
    nearestRank (unat (Count h)) x \<le> below (Bins h) (Suc i)"
  using histogramPercentile_bin [OF assms] by metis

definition sampleHistogram :: Histogram where
  "sampleHistogram = zeroHistogram\<lparr>hScheme := ''log2x16'', hMinNS := 1000, hMaxNS := 100000000000,
     Count := 6, Bins := [1, 2, 3] @ replicate 445 0\<rparr>"

lemma sampleHistogram_sums:
  "Count sampleHistogram = 6" "length (Bins sampleHistogram) = 448"
  "sum_list (Bins sampleHistogram) = 6" "(\<Sum>v \<leftarrow> Bins sampleHistogram. unat v) = 6"
  by (simp_all add: sampleHistogram_def sum_list_replicate map_replicate)

lemma percentile_is_rank_bin_witness:
  "\<exists>i < length (Bins sampleHistogram).
    histogramPercentile sampleHistogram v2Layout (FFin (1 / 2)) =
      histogramBinUpperNS v2Layout i (length (Bins sampleHistogram)) \<and>
    below (Bins sampleHistogram) i < nearestRank (unat (Count sampleHistogram)) (1 / 2) \<and>
    nearestRank (unat (Count sampleHistogram)) (1 / 2) \<le> below (Bins sampleHistogram) (Suc i)"
  by (rule percentile_is_rank_bin) (simp_all add: sampleHistogram_sums)

text \<open>
  In the version-2 layout the three percentiles of a finalized histogram are ordered and
  never exceed the layout's maximum, and the recomputed count is the sum of the bins.
\<close>

theorem finalized_percentiles_ordered:
  assumes "length (Bins h) = v2HistogramBins" and "(\<Sum>v \<leftarrow> Bins h. unat v) \<le> 2 ^ 53"
  shows "P50NS (finalizeHistogram h v2Layout) \<le> P90NS (finalizeHistogram h v2Layout) \<and>
    P90NS (finalizeHistogram h v2Layout) \<le> P99NS (finalizeHistogram h v2Layout) \<and>
    P99NS (finalizeHistogram h v2Layout) \<le> MaxNS v2Layout \<and>
    unat (Count (finalizeHistogram h v2Layout)) = (\<Sum>v \<leftarrow> Bins h. unat v)"
proof -
  let ?g = "finalizeHistogram h v2Layout"
  have g: "Count ?g = sum_list (Bins ?g)" "length (Bins ?g) = 448"
    "(\<Sum>v \<leftarrow> Bins ?g. unat v) \<le> 2 ^ 53"
    using assms by (simp_all add: v2HistogramBins_def)
  have le: "rnd64 (50 / 100) \<le> rnd64 (90 / 100)" "rnd64 (90 / 100) \<le> rnd64 (99 / 100)"
    by (rule rnd64_mono, simp)+
  note f = fraction_value [of "50 / 100"] fraction_value [of "90 / 100"] fraction_value [of "99 / 100"]
  have "P50NS ?g \<le> P90NS ?g"
    unfolding finalizeHistogram_percentiles using percentile_mono(1) [OF g _ le(1)] f by simp
  moreover have "P90NS ?g \<le> P99NS ?g"
    unfolding finalizeHistogram_percentiles using percentile_mono(1) [OF g _ le(2)] f by simp
  moreover have "P99NS ?g \<le> MaxNS v2Layout"
    unfolding finalizeHistogram_percentiles using percentile_mono(2) [OF g _ le(2)] f by simp
  moreover have "unat (Count ?g) = (\<Sum>v \<leftarrow> Bins h. unat v)"
    using assms(2) unat_u64_sum_list [of "Bins h"] by simp
  ultimately show ?thesis by blast
qed

lemma finalized_percentiles_ordered_witness:
  "P50NS (finalizeHistogram sampleHistogram v2Layout) \<le> P90NS (finalizeHistogram sampleHistogram v2Layout)"
  using finalized_percentiles_ordered [of sampleHistogram]
  by (simp add: sampleHistogram_sums v2HistogramBins_def)

text \<open>
  Merging histograms is bin-wise addition: accumulating a non-empty series from the zero
  value succeeds exactly when every part has the layout and one common positive number of bins,
  and then yields the bin-wise totals and the total count, whatever the order of the parts.
\<close>

theorem accumulation_is_sum:
  assumes "parts \<noteq> []"
  shows "(foldM (\<lambda>d s. addHistogram d s layout) zeroHistogram parts = Inr h \<longleftrightarrow>
      (\<exists>n > 0. (\<forall>p \<in> set parts. layout_agrees p layout \<and> length (Bins p) = n) \<and>
        h = accumulated layout n parts)) \<and>
   (mset parts = mset parts' \<longrightarrow>
     success (foldM (\<lambda>d s. addHistogram d s layout) zeroHistogram parts) =
     success (foldM (\<lambda>d s. addHistogram d s layout) zeroHistogram parts'))"
  using fold_addHistogram [OF assms] hist.fold_permutation [where xs = parts and ys = parts' and s = zeroHistogram and layout = layout]
  by simp

lemma sampleHistogram_layout: "layout_agrees sampleHistogram v2Layout"
  by (simp add: layout_agrees_def sampleHistogram_def)

lemma accumulation_is_sum_witness:
  "foldM (\<lambda>d s. addHistogram d s v2Layout) zeroHistogram [sampleHistogram, sampleHistogram] =
     Inr (accumulated v2Layout 448 [sampleHistogram, sampleHistogram])"
  using accumulation_is_sum [of "[sampleHistogram, sampleHistogram]" v2Layout] sampleHistogram_sums(2)
    sampleHistogram_layout
  by (simp del: foldM.simps)

text \<open>
  C21. \<open>validateHistogramSum\<close> accepts an aggregate exactly when it is the bin-wise sum of its
  parts with the right count, and it accepts what accumulating and finalizing valid parts
  produces.
\<close>

theorem histogram_sum_check:
  "(validateHistogramSum h parts = Inr () \<longleftrightarrow>
      length (Bins h) = v2HistogramBins \<and> (\<forall>p \<in> set parts. length (Bins p) = v2HistogramBins) \<and>
      Count h = (\<Sum>p \<leftarrow> parts. Count p) \<and> Bins h = binsTotal v2HistogramBins parts) \<and>
   (foldM (\<lambda>d s. addHistogram d s layout) zeroHistogram parts = Inr g \<longrightarrow> parts \<noteq> [] \<longrightarrow>
      (\<forall>p \<in> set parts. validateV2Histogram p layout = Inr ()) \<longrightarrow>
      validateHistogramSum (finalizeHistogram g layout) parts = Inr ())"
  using validateHistogramSum_Inr [of h parts] accumulated_finalized_sum [of layout parts g]
  unfolding v2HistogramBins_def by blast

lemma histogram_sum_check_witness:
  "validateHistogramSum (finalizeHistogram (accumulated v2Layout 448 [sampleHistogram]) v2Layout)
     [sampleHistogram] = Inr ()"
proof -
  have "foldM (\<lambda>d s. addHistogram d s v2Layout) zeroHistogram [sampleHistogram] =
      Inr (accumulated v2Layout 448 [sampleHistogram])"
    and "validateV2Histogram sampleHistogram v2Layout = Inr ()"
    using fold_addHistogram [of "[sampleHistogram]" v2Layout] sampleHistogram_sums sampleHistogram_layout
    by (simp_all del: foldM.simps)
  then show ?thesis
    using histogram_sum_check [of sampleHistogram "[sampleHistogram]" v2Layout] by auto
qed

end
