(* ===== verification/MetricsData.thy ===== *)
theory MetricsData
  imports Histogram
begin

text \<open>
  The data of \<open>orchestrator/run/metrics.go\<close>: the counters, the files the clients write and the
  merged result. A Go map that is only ranged over in a file is an association list whose order
  stands for the iteration order; the merged class map is a HOL map and the keyed traffic a
  finite map, listed in the order the code sorts its keys (the \<open>linorder\<close> of \<open>TrafficKey\<close>).
\<close>

section \<open>Data\<close>

definition ClassLossTolerant :: string where "ClassLossTolerant = ''loss_tolerant''"
definition ClassMustDeliver :: string where "ClassMustDeliver = ''must_deliver''"

definition metricClassNames :: "string list" where
  "metricClassNames = [ClassLossTolerant, ClassMustDeliver]"

definition DirectionRoomRelay :: string where "DirectionRoomRelay = ''room_relay''"
definition DirectionClientToServer :: string where "DirectionClientToServer = ''client_to_server''"
definition DirectionServerToClient :: string where "DirectionServerToClient = ''server_to_client''"

record ClassCounts =
  Slots :: u64
  SlotsBroadcast :: u64
  Submitted :: u64
  DeliveredUnique :: u64
  Duplicates :: u64
  DeadlineHit :: u64
  ExpectedFlows :: u64
  ObservedFlows :: u64
  NeverReceivedFlows :: u64

definition zeroCounts :: ClassCounts where
  "zeroCounts = \<lparr>Slots = 0, SlotsBroadcast = 0, Submitted = 0, DeliveredUnique = 0, Duplicates = 0,
     DeadlineHit = 0, ExpectedFlows = 0, ObservedFlows = 0, NeverReceivedFlows = 0\<rparr>"

record RawCounts =
  rSlots :: u64
  rSubmitted :: u64
  RecvMeasured :: u64
  RecvUnmeasured :: u64
  TimestampOrderViolations :: u64

definition zeroRaw :: RawCounts where
  "zeroRaw = \<lparr>rSlots = 0, rSubmitted = 0, RecvMeasured = 0, RecvUnmeasured = 0,
     TimestampOrderViolations = 0\<rparr>"

record classMetric =
  cmCounts :: ClassCounts
  cmLatencySchedNS :: Histogram
  cmLatencySendNS :: Histogram
  cmUpdateGapNS :: Histogram

definition zeroClassMetric :: classMetric where
  "zeroClassMetric = \<lparr>cmCounts = zeroCounts, cmLatencySchedNS = zeroHistogram,
     cmLatencySendNS = zeroHistogram, cmUpdateGapNS = zeroHistogram\<rparr>"

record trafficMetric =
  tmTrafficID :: u8
  tmDirection :: string
  tmClass :: string
  tmDeadlineNS :: u64
  tmCounts :: ClassCounts
  tmLatencySchedNS :: Histogram
  tmLatencySendNS :: Histogram
  tmUpdateGapNS :: Histogram
  tmStalenessNS :: Histogram

record metricsFile =
  mfVersion :: int
  mfHistogram :: HistogramLayout
  mfClasses :: "(string \<times> classMetric) list option"
  mfStalenessNS :: Histogram
  mfUpdateGapNS :: Histogram
  mfRaw :: RawCounts
  mfTraffic :: "trafficMetric list"

record ClassAggregate =
  caUpdateGapNS :: Histogram
  caCounts :: ClassCounts
  caExpectedReceives :: u64
  caDeliveryRatio :: f64
  caAttemptedRatio :: f64
  caDeadlineHitRatio :: f64
  caLatencySchedNS :: Histogram
  caLatencySendNS :: Histogram

definition zeroClass :: ClassAggregate where
  "zeroClass = \<lparr>caUpdateGapNS = zeroHistogram, caCounts = zeroCounts, caExpectedReceives = 0,
     caDeliveryRatio = FFin 0, caAttemptedRatio = FFin 0, caDeadlineHitRatio = FFin 0,
     caLatencySchedNS = zeroHistogram, caLatencySendNS = zeroHistogram\<rparr>"

text \<open>The key of a traffic series, ordered as the comparison of \<open>finalize\<close> orders it.\<close>

datatype TrafficKey = TrafficKey (TrafficID: u8) (Direction: string) (KeyClass: string)

definition keyLess :: "TrafficKey \<Rightarrow> TrafficKey \<Rightarrow> bool" where
  "keyLess a b \<longleftrightarrow>
     (if TrafficID a \<noteq> TrafficID b then TrafficID a < TrafficID b
      else if Direction a \<noteq> Direction b then Direction a < Direction b
      else KeyClass a < KeyClass b)"

instantiation TrafficKey :: linorder
begin

definition less_TrafficKey :: "TrafficKey \<Rightarrow> TrafficKey \<Rightarrow> bool" where
  "less_TrafficKey a b \<longleftrightarrow> keyLess a b"

definition less_eq_TrafficKey :: "TrafficKey \<Rightarrow> TrafficKey \<Rightarrow> bool" where
  "less_eq_TrafficKey a b \<longleftrightarrow> a = b \<or> a < b"

instance
proof
  fix a b c :: TrafficKey
  show "(a < b) = (a \<le> b \<and> \<not> b \<le> a)"
    by (cases a; cases b) (auto simp: less_TrafficKey_def keyLess_def less_eq_TrafficKey_def split: if_splits)
  show "a \<le> a" by (simp add: less_eq_TrafficKey_def)
  show "a \<le> b \<Longrightarrow> b \<le> c \<Longrightarrow> a \<le> c"
    by (cases a; cases b; cases c)
      (auto simp: less_TrafficKey_def keyLess_def less_eq_TrafficKey_def split: if_splits)
  show "a \<le> b \<Longrightarrow> b \<le> a \<Longrightarrow> a = b"
    by (cases a; cases b) (auto simp: less_TrafficKey_def keyLess_def less_eq_TrafficKey_def split: if_splits)
  show "a \<le> b \<or> b \<le> a"
    by (cases a; cases b) (auto simp: less_TrafficKey_def keyLess_def less_eq_TrafficKey_def)
qed

end

record TrafficAggregate =
  taTrafficID :: u8
  taDirection :: string
  taClass :: string
  taDeadlineNS :: u64
  taCounts :: ClassCounts
  taExpectedReceives :: u64
  taDeliveryRatio :: f64
  taAttemptedRatio :: f64
  taDeadlineHitRatio :: f64
  taLatencySchedNS :: Histogram
  taLatencySendNS :: Histogram
  taUpdateGapNS :: Histogram
  taStalenessNS :: Histogram

definition zeroTraffic :: TrafficAggregate where
  "zeroTraffic = \<lparr>taTrafficID = 0, taDirection = [], taClass = [], taDeadlineNS = 0,
     taCounts = zeroCounts, taExpectedReceives = 0, taDeliveryRatio = FFin 0,
     taAttemptedRatio = FFin 0, taDeadlineHitRatio = FFin 0, taLatencySchedNS = zeroHistogram,
     taLatencySendNS = zeroHistogram, taUpdateGapNS = zeroHistogram, taStalenessNS = zeroHistogram\<rparr>"

record MergedMetrics =
  mmVersion :: int
  TotalConns :: int
  mmHistogram :: HistogramLayout
  mmClasses :: "string \<rightharpoonup> ClassAggregate"
  mmStalenessNS :: Histogram
  mmUpdateGapNS :: Histogram
  mmRaw :: RawCounts
  mmTraffic :: "TrafficAggregate list"
  trafficByKey :: "(TrafficKey, TrafficAggregate) fmap"

datatype metrics_error =
    MissingClass string
  | InClass string metrics_error
  | InTraffic nat metrics_error
  | InTrafficKey TrafficKey metrics_error
  | InField string hist_error
  | InArtifact string metrics_error
  | ExceedsSlots string u64 u64
  | FlowMismatch u64 u64
  | BadVersion int
  | IncompleteLayout HistogramLayout
  | NonV2Layout HistogramLayout
  | NoClasses
  | NoTraffic
  | UnknownDirection string
  | UnknownClass string
  | DuplicateTrafficKey TrafficKey
  | SumMismatch string u64 u64
  | ViolationsExceed string u64 u64
  | DeadlineDiffers u64 u64
  | DeliveredExceeds u64 u64
  | NoMetricsFiles
  | MixedVersions string int int
  | MixedLayouts string HistogramLayout HistogramLayout
  | Undecodable string

end
