(* ===== verification/Metrics.thy ===== *)
theory Metrics
  imports MetricsData
begin

text \<open>
  The operations on client metrics of \<open>orchestrator/run/metrics.go\<close>: validation of a file
  (\<open>validateMetricsFile\<close>, \<open>validateV2AggregateConsistency\<close>), the merge (\<open>newMergedMetrics\<close>,
  \<open>add\<close>, \<open>finalize\<close>, \<open>MergeMetricsData\<close>) and the checks and lookups on the merged result. The
  decoding of an artifact is the argument \<open>parse\<close> here and is given in \<open>MetricsJson\<close>.
\<close>

section \<open>Counters\<close>

definition addClassCounts :: "ClassCounts \<Rightarrow> ClassCounts \<Rightarrow> ClassCounts" where
  "addClassCounts a b = \<lparr>Slots = Slots a + Slots b, SlotsBroadcast = SlotsBroadcast a + SlotsBroadcast b,
     Submitted = Submitted a + Submitted b, DeliveredUnique = DeliveredUnique a + DeliveredUnique b,
     Duplicates = Duplicates a + Duplicates b, DeadlineHit = DeadlineHit a + DeadlineHit b,
     ExpectedFlows = ExpectedFlows a + ExpectedFlows b, ObservedFlows = ObservedFlows a + ObservedFlows b,
     NeverReceivedFlows = NeverReceivedFlows a + NeverReceivedFlows b\<rparr>"

definition validateClassCounts :: "ClassCounts \<Rightarrow> metrics_error + unit" where
  "validateClassCounts c =
     (if Slots c < SlotsBroadcast c then Inl (ExceedsSlots ''slots_broadcast'' (SlotsBroadcast c) (Slots c))
      else if Slots c < Submitted c then Inl (ExceedsSlots ''submitted'' (Submitted c) (Slots c))
      else if DeliveredUnique c < DeadlineHit c
      then Inl (ExceedsSlots ''deadline_hit'' (DeadlineHit c) (DeliveredUnique c))
      else if ExpectedFlows c < ObservedFlows c
      then Inl (ExceedsSlots ''observed_flows'' (ObservedFlows c) (ExpectedFlows c))
      else if NeverReceivedFlows c \<noteq> ExpectedFlows c - ObservedFlows c
      then Inl (FlowMismatch (NeverReceivedFlows c) (ExpectedFlows c - ObservedFlows c))
      else Inr ())"

definition firstClassCountMismatch :: "ClassCounts \<Rightarrow> ClassCounts \<Rightarrow> string \<times> u64 \<times> u64" where
  "firstClassCountMismatch got want =
     (case List.find (\<lambda>(n, g, w). g \<noteq> w)
        [(''slots'', Slots got, Slots want),
         (''slots_broadcast'', SlotsBroadcast got, SlotsBroadcast want),
         (''submitted'', Submitted got, Submitted want),
         (''delivered_unique'', DeliveredUnique got, DeliveredUnique want),
         (''duplicates'', Duplicates got, Duplicates want),
         (''deadline_hit'', DeadlineHit got, DeadlineHit want),
         (''expected_flows'', ExpectedFlows got, ExpectedFlows want),
         (''observed_flows'', ObservedFlows got, ObservedFlows want),
         (''never_received_flows'', NeverReceivedFlows got, NeverReceivedFlows want)]
      of Some r \<Rightarrow> r | None \<Rightarrow> ([], 0, 0))"

definition addRaw :: "RawCounts \<Rightarrow> RawCounts \<Rightarrow> RawCounts" where
  "addRaw a b = \<lparr>rSlots = rSlots a + rSlots b, rSubmitted = rSubmitted a + rSubmitted b,
     RecvMeasured = RecvMeasured a + RecvMeasured b,
     RecvUnmeasured = RecvUnmeasured a + RecvUnmeasured b,
     TimestampOrderViolations = TimestampOrderViolations a + TimestampOrderViolations b\<rparr>"

section \<open>Version-2 accounting\<close>

text \<open>The sums over the traffic series of one class, as the loops collect them.\<close>

definition ofClass :: "(trafficMetric \<Rightarrow> 'a) \<Rightarrow> string \<Rightarrow> trafficMetric list \<Rightarrow> 'a list" where
  "ofClass f class traffic = map f (filter (\<lambda>t. tmClass t = class) traffic)"

definition countSums :: "string \<Rightarrow> trafficMetric list \<Rightarrow> ClassCounts" where
  "countSums class traffic = foldl addClassCounts zeroCounts (ofClass tmCounts class traffic)"

definition checkClassSums :: "string \<Rightarrow> classMetric \<Rightarrow> trafficMetric list \<Rightarrow> metrics_error + unit" where
  "checkClassSums class aggregate traffic =
     (case firstClassCountMismatch (cmCounts aggregate) (countSums class traffic) of (field, got, want) \<Rightarrow>
       if field \<noteq> [] then Inl (InClass class (SumMismatch field got want))
       else
         checkM (\<lambda>(name, agg, parts). wrap_err (InClass class \<circ> InField name) (validateHistogramSum agg parts))
           [(''latency_sched_ns'', cmLatencySchedNS aggregate, ofClass tmLatencySchedNS class traffic),
            (''latency_send_ns'', cmLatencySendNS aggregate, ofClass tmLatencySendNS class traffic),
            (''update_gap_ns'', cmUpdateGapNS aggregate, ofClass tmUpdateGapNS class traffic)])"

text \<open>\<open>file.Classes[class]\<close>: a missing class reads as the zero value.\<close>

definition fileClass :: "metricsFile \<Rightarrow> string \<Rightarrow> classMetric" where
  "fileClass file name = (case mfClasses file of None \<Rightarrow> zeroClassMetric
     | Some cs \<Rightarrow> (case map_of cs name of None \<Rightarrow> zeroClassMetric | Some m \<Rightarrow> m))"

definition validateV2AggregateConsistency :: "metricsFile \<Rightarrow> metrics_error + unit" where
  "validateV2AggregateConsistency file =
     (let traffic = mfTraffic file;
          violations = TimestampOrderViolations (mfRaw file);
          lossDelivered = DeliveredUnique (countSums ClassLossTolerant traffic);
          mustDelivered = DeliveredUnique (countSums ClassMustDeliver traffic)
      in rbind (checkM (\<lambda>class. checkClassSums class (fileClass file class) traffic) metricClassNames) (\<lambda>_.
         rbind (wrap_err (InField ''staleness_ns'')
           (validateHistogramSum (mfStalenessNS file) (ofClass tmStalenessNS ClassLossTolerant traffic))) (\<lambda>_.
         rbind (fail_if (RecvMeasured (mfRaw file) < violations)
           (ViolationsExceed ''recv_measured'' violations (RecvMeasured (mfRaw file)))) (\<lambda>_.
         fail_if (lossDelivered < violations \<and> mustDelivered < violations - lossDelivered)
           (ViolationsExceed ''delivered_unique'' violations (lossDelivered + mustDelivered))))))"

section \<open>Validation of a file\<close>

definition trafficKey :: "trafficMetric \<Rightarrow> TrafficKey" where
  "trafficKey t = TrafficKey (tmTrafficID t) (tmDirection t) (tmClass t)"

definition validateTrafficEntry :: "HistogramLayout \<Rightarrow> nat \<Rightarrow> trafficMetric \<Rightarrow> metrics_error + unit" where
  "validateTrafficEntry layout i t =
     rbind (wrap_err (InTraffic i) (validateClassCounts (tmCounts t))) (\<lambda>_.
     checkM (\<lambda>(name, h). wrap_err (InTraffic i \<circ> InField name) (validateV2Histogram h layout))
       [(''latency_sched_ns'', tmLatencySchedNS t), (''latency_send_ns'', tmLatencySendNS t),
        (''update_gap_ns'', tmUpdateGapNS t), (''staleness_ns'', tmStalenessNS t)])"

fun validateTraffic :: "HistogramLayout \<Rightarrow> nat \<Rightarrow> TrafficKey list \<Rightarrow> trafficMetric list \<Rightarrow>
    metrics_error + unit" where
  "validateTraffic layout i seen [] = Inr ()"
| "validateTraffic layout i seen (t # ts) =
     (if tmDirection t \<noteq> DirectionRoomRelay \<and> tmDirection t \<noteq> DirectionClientToServer \<and>
         tmDirection t \<noteq> DirectionServerToClient
      then Inl (InTraffic i (UnknownDirection (tmDirection t)))
      else if tmClass t \<noteq> ClassLossTolerant \<and> tmClass t \<noteq> ClassMustDeliver
      then Inl (InTraffic i (UnknownClass (tmClass t)))
      else if trafficKey t \<in> set seen then Inl (DuplicateTrafficKey (trafficKey t))
      else rbind (validateTrafficEntry layout i t) (\<lambda>_.
        validateTraffic layout (Suc i) (trafficKey t # seen) ts))"

definition validateV2Histograms :: "metricsFile \<Rightarrow> (string \<times> classMetric) list \<Rightarrow> metrics_error + unit" where
  "validateV2Histograms file classes =
     rbind (fail_if (Scheme (mfHistogram file) \<noteq> ''log2x16'' \<or> Subbins (mfHistogram file) \<noteq> 16 \<or>
         MinNS (mfHistogram file) \<noteq> 1000 \<or> MaxNS (mfHistogram file) \<noteq> 100000000000)
       (NonV2Layout (mfHistogram file))) (\<lambda>_.
     rbind (checkM (\<lambda>(name, metric).
         checkM (\<lambda>(histName, h). wrap_err (InClass name \<circ> InField histName)
             (validateV2Histogram h (mfHistogram file)))
           [(''latency_sched_ns'', cmLatencySchedNS metric), (''latency_send_ns'', cmLatencySendNS metric),
            (''update_gap_ns'', cmUpdateGapNS metric)]) classes) (\<lambda>_.
     rbind (wrap_err (InField ''staleness_ns'')
         (validateV2Histogram (mfStalenessNS file) (mfHistogram file))) (\<lambda>_.
     if 0 < length (Bins (mfUpdateGapNS file))
     then wrap_err (InField ''update_gap_ns'') (validateV2Histogram (mfUpdateGapNS file) (mfHistogram file))
     else Inr ())))"

definition validateMetricsFile :: "metricsFile \<Rightarrow> bool \<Rightarrow> metrics_error + unit" where
  "validateMetricsFile file allowEmptyTraffic =
     rbind (fail_if (mfVersion file \<noteq> 1 \<and> mfVersion file \<noteq> 2) (BadVersion (mfVersion file))) (\<lambda>_.
     rbind (fail_if (Scheme (mfHistogram file) = [] \<or> Subbins (mfHistogram file) = 0 \<or>
         MinNS (mfHistogram file) = 0 \<or> MaxNS (mfHistogram file) = 0)
       (IncompleteLayout (mfHistogram file))) (\<lambda>_.
     case mfClasses file of None \<Rightarrow> Inl NoClasses
     | Some classes \<Rightarrow>
       rbind (checkM (\<lambda>name. case map_of classes name of None \<Rightarrow> Inl (MissingClass name)
           | Some metric \<Rightarrow> wrap_err (InClass name) (validateClassCounts (cmCounts metric)))
         metricClassNames) (\<lambda>_.
       rbind (fail_if (mfVersion file = 2 \<and> length (mfTraffic file) = 0 \<and> \<not> allowEmptyTraffic) NoTraffic) (\<lambda>_.
       rbind (if mfVersion file = 2 then validateV2Histograms file classes else Inr ()) (\<lambda>_.
       rbind (validateTraffic (mfHistogram file) 0 [] (mfTraffic file)) (\<lambda>_.
       if mfVersion file = 2 then validateV2AggregateConsistency file else Inr ()))))))"

section \<open>Merging\<close>

definition newMergedMetrics :: "int \<Rightarrow> HistogramLayout \<Rightarrow> int \<Rightarrow> MergedMetrics" where
  "newMergedMetrics version layout totalConns =
     \<lparr>mmVersion = version, TotalConns = totalConns, mmHistogram = layout,
      mmClasses = [ClassLossTolerant \<mapsto> zeroClass, ClassMustDeliver \<mapsto> zeroClass],
      mmStalenessNS = zeroHistogram, mmUpdateGapNS = zeroHistogram, mmRaw = zeroRaw,
      mmTraffic = [], trafficByKey = fmempty\<rparr>"

definition classOf :: "MergedMetrics \<Rightarrow> string \<Rightarrow> ClassAggregate" where
  "classOf m name = (case mmClasses m name of None \<Rightarrow> zeroClass | Some c \<Rightarrow> c)"

text \<open>Histograms an implementation may not emit are skipped when they have no bins.\<close>

definition addOptionalHistogram :: "Histogram \<Rightarrow> Histogram \<Rightarrow> HistogramLayout \<Rightarrow> hist_error + Histogram" where
  "addOptionalHistogram dst src layout =
     (if 0 < length (Bins src) then addHistogram dst src layout else Inr dst)"

definition addClass :: "HistogramLayout \<Rightarrow> string \<Rightarrow> ClassAggregate \<Rightarrow> classMetric \<Rightarrow>
    metrics_error + ClassAggregate" where
  "addClass layout name dst src =
     rbind (wrap_err (InClass name \<circ> InField ''latency_sched_ns'')
       (addHistogram (caLatencySchedNS dst) (cmLatencySchedNS src) layout)) (\<lambda>sched.
     rbind (wrap_err (InClass name \<circ> InField ''latency_send_ns'')
       (addHistogram (caLatencySendNS dst) (cmLatencySendNS src) layout)) (\<lambda>send.
     rbind (wrap_err (InClass name \<circ> InField ''update_gap_ns'')
       (addOptionalHistogram (caUpdateGapNS dst) (cmUpdateGapNS src) layout)) (\<lambda>gap.
     Inr (dst\<lparr>caCounts := addClassCounts (caCounts dst) (cmCounts src),
       caLatencySchedNS := sched, caLatencySendNS := send, caUpdateGapNS := gap\<rparr>))))"

text \<open>The body of the loop over \<open>file.Traffic\<close>: the entry of a key, updated with one series.\<close>

definition addTrafficEntry :: "HistogramLayout \<Rightarrow> TrafficAggregate \<Rightarrow> trafficMetric \<Rightarrow>
    metrics_error + TrafficAggregate" where
  "addTrafficEntry layout dst src =
     (let key = trafficKey src
      in rbind
        (if taDirection dst = []
         then Inr (dst\<lparr>taTrafficID := tmTrafficID src, taDirection := tmDirection src,
                       taClass := tmClass src, taDeadlineNS := tmDeadlineNS src\<rparr>)
         else if taDeadlineNS dst \<noteq> tmDeadlineNS src
         then Inl (InTrafficKey key (DeadlineDiffers (tmDeadlineNS src) (taDeadlineNS dst)))
         else Inr dst) (\<lambda>dst.
        rbind (wrap_err (InTrafficKey key \<circ> InField ''latency_sched_ns'')
          (addHistogram (taLatencySchedNS dst) (tmLatencySchedNS src) layout)) (\<lambda>sched.
        rbind (wrap_err (InTrafficKey key \<circ> InField ''latency_send_ns'')
          (addHistogram (taLatencySendNS dst) (tmLatencySendNS src) layout)) (\<lambda>send.
        rbind (wrap_err (InTrafficKey key \<circ> InField ''update_gap_ns'')
          (addOptionalHistogram (taUpdateGapNS dst) (tmUpdateGapNS src) layout)) (\<lambda>gap.
        rbind (wrap_err (InTrafficKey key \<circ> InField ''staleness_ns'')
          (addOptionalHistogram (taStalenessNS dst) (tmStalenessNS src) layout)) (\<lambda>stale.
        Inr (dst\<lparr>taCounts := addClassCounts (taCounts dst) (tmCounts src),
          taLatencySchedNS := sched, taLatencySendNS := send, taUpdateGapNS := gap,
          taStalenessNS := stale\<rparr>)))))))"

definition entryOf :: "(TrafficKey, TrafficAggregate) fmap \<Rightarrow> TrafficKey \<Rightarrow> TrafficAggregate" where
  "entryOf byKey key = (case fmlookup byKey key of None \<Rightarrow> zeroTraffic | Some t \<Rightarrow> t)"

definition addTraffic :: "HistogramLayout \<Rightarrow> (TrafficKey, TrafficAggregate) fmap \<Rightarrow> trafficMetric \<Rightarrow>
    metrics_error + (TrafficKey, TrafficAggregate) fmap" where
  "addTraffic layout byKey src =
     rbind (addTrafficEntry layout (entryOf byKey (trafficKey src)) src) (\<lambda>t.
     Inr (fmupd (trafficKey src) t byKey))"

definition addClassNamed :: "metricsFile \<Rightarrow> MergedMetrics \<Rightarrow> string \<Rightarrow> metrics_error + MergedMetrics" where
  "addClassNamed file m name =
     rbind (addClass (mmHistogram m) name (classOf m name) (fileClass file name)) (\<lambda>c.
     Inr (m\<lparr>mmClasses := (mmClasses m)(name \<mapsto> c)\<rparr>))"

definition add :: "MergedMetrics \<Rightarrow> metricsFile \<Rightarrow> metrics_error + MergedMetrics" where
  "add m file =
     rbind (foldM (addClassNamed file) m metricClassNames) (\<lambda>m.
     rbind (wrap_err (InField ''staleness_ns'')
       (addHistogram (mmStalenessNS m) (mfStalenessNS file) (mmHistogram m))) (\<lambda>stale.
     rbind (wrap_err (InField ''update_gap_ns'')
       (addOptionalHistogram (mmUpdateGapNS m) (mfUpdateGapNS file) (mmHistogram m))) (\<lambda>gap.
     rbind (foldM (addTraffic (mmHistogram m)) (trafficByKey m) (mfTraffic file)) (\<lambda>byKey.
     Inr (m\<lparr>mmStalenessNS := stale, mmUpdateGapNS := gap, trafficByKey := byKey,
       mmRaw := addRaw (mmRaw m) (mfRaw file)\<rparr>)))))"

section \<open>Finalization\<close>

definition finalizeClass :: "HistogramLayout \<Rightarrow> int \<Rightarrow> string \<Rightarrow> ClassAggregate \<Rightarrow>
    metrics_error + ClassAggregate" where
  "finalizeClass layout totalConns name c =
     (let n = caCounts c; expected = expectedReceives (Slots n) (SlotsBroadcast n) totalConns
      in if Slots n < SlotsBroadcast n
         then Inl (InClass name (ExceedsSlots ''slots_broadcast'' (SlotsBroadcast n) (Slots n)))
         else if expected < DeliveredUnique n
         then Inl (InClass name (DeliveredExceeds (DeliveredUnique n) expected))
         else Inr (c\<lparr>caExpectedReceives := expected,
           caDeliveryRatio := ratioOrOne (DeliveredUnique n) expected,
           caAttemptedRatio := ratioOrOne (Submitted n) (Slots n),
           caDeadlineHitRatio := ratioOrOne (DeadlineHit n) expected,
           caLatencySchedNS := finalizeHistogram (caLatencySchedNS c) layout,
           caLatencySendNS := finalizeHistogram (caLatencySendNS c) layout,
           caUpdateGapNS := finalizeHistogram (caUpdateGapNS c) layout\<rparr>))"

definition finalizeTraffic :: "HistogramLayout \<Rightarrow> int \<Rightarrow> TrafficKey \<Rightarrow> TrafficAggregate \<Rightarrow>
    metrics_error + TrafficAggregate" where
  "finalizeTraffic layout totalConns key t =
     (let n = taCounts t; expected = expectedReceives (Slots n) (SlotsBroadcast n) totalConns
      in if Slots n < SlotsBroadcast n
         then Inl (InTrafficKey key (ExceedsSlots ''slots_broadcast'' (SlotsBroadcast n) (Slots n)))
         else if expected < DeliveredUnique n
         then Inl (InTrafficKey key (DeliveredExceeds (DeliveredUnique n) expected))
         else Inr (t\<lparr>taExpectedReceives := expected,
           taDeliveryRatio := ratioOrOne (DeliveredUnique n) expected,
           taAttemptedRatio := ratioOrOne (Submitted n) (Slots n),
           taDeadlineHitRatio := ratioOrOne (DeadlineHit n) expected,
           taLatencySchedNS := finalizeHistogram (taLatencySchedNS t) layout,
           taLatencySendNS := finalizeHistogram (taLatencySendNS t) layout,
           taUpdateGapNS := finalizeHistogram (taUpdateGapNS t) layout,
           taStalenessNS := finalizeHistogram (taStalenessNS t) layout\<rparr>))"

definition finalizeClassNamed :: "MergedMetrics \<Rightarrow> string \<Rightarrow> metrics_error + MergedMetrics" where
  "finalizeClassNamed m name =
     rbind (finalizeClass (mmHistogram m) (TotalConns m) name (classOf m name)) (\<lambda>c.
     Inr (m\<lparr>mmClasses := (mmClasses m)(name \<mapsto> c)\<rparr>))"

definition finalizeKey :: "MergedMetrics \<Rightarrow> TrafficKey \<Rightarrow> metrics_error + MergedMetrics" where
  "finalizeKey m key =
     rbind (finalizeTraffic (mmHistogram m) (TotalConns m) key (entryOf (trafficByKey m) key)) (\<lambda>t.
     Inr (m\<lparr>trafficByKey := fmupd key t (trafficByKey m), mmTraffic := mmTraffic m @ [t]\<rparr>))"

definition finalize :: "MergedMetrics \<Rightarrow> metrics_error + MergedMetrics" where
  "finalize m =
     rbind (foldM finalizeClassNamed m metricClassNames) (\<lambda>m.
     let m = m\<lparr>mmStalenessNS := finalizeHistogram (mmStalenessNS m) (mmHistogram m),
               mmUpdateGapNS := finalizeHistogram (mmUpdateGapNS m) (mmHistogram m)\<rparr>;
         keys = sorted_list_of_fset (fmdom (trafficByKey m))
     in foldM finalizeKey (m\<lparr>mmTraffic := []\<rparr>) keys)"

text \<open>
  One turn of the loop of \<open>MergeMetricsData\<close>. Its state is the version expected so far and the
  merged metrics, which are nil before the first artifact.
\<close>

definition mergeStep :: "('a \<Rightarrow> string) \<Rightarrow> ('a \<Rightarrow> metrics_error + metricsFile) \<Rightarrow> int \<Rightarrow>
    int \<times> MergedMetrics option \<Rightarrow> 'a \<Rightarrow> metrics_error + int \<times> MergedMetrics option" where
  "mergeStep name parse totalConns st artifact =
     rbind (parse artifact) (\<lambda>file.
     rbind (if fst st = 0 then Inr (mfVersion file)
            else if mfVersion file \<noteq> fst st
            then Inl (MixedVersions (name artifact) (mfVersion file) (fst st))
            else Inr (fst st)) (\<lambda>expectedVersion.
     rbind (case snd st of
              None \<Rightarrow> Inr (newMergedMetrics (mfVersion file) (mfHistogram file) totalConns)
            | Some m \<Rightarrow> if mfHistogram file \<noteq> mmHistogram m
                then Inl (MixedLayouts (name artifact) (mfHistogram file) (mmHistogram m))
                else Inr m) (\<lambda>m.
     rbind (wrap_err (InArtifact (name artifact))
       (add (if mmVersion m < mfVersion file then m\<lparr>mmVersion := mfVersion file\<rparr> else m) file)) (\<lambda>m.
     Inr (expectedVersion, Some m)))))"

definition MergeMetricsData :: "('a \<Rightarrow> string) \<Rightarrow> ('a \<Rightarrow> metrics_error + metricsFile) \<Rightarrow> 'a list \<Rightarrow> int \<Rightarrow>
    metrics_error + MergedMetrics" where
  "MergeMetricsData name parse artifacts totalConns =
     (if artifacts = [] then Inl NoMetricsFiles
      else rbind (foldM (mergeStep name parse totalConns) (0, None) artifacts) (\<lambda>st.
        case snd st of None \<Rightarrow> Inl NoMetricsFiles | Some m \<Rightarrow> finalize m))"

section \<open>The merged result\<close>

definition ofMergedClass :: "(TrafficAggregate \<Rightarrow> 'a) \<Rightarrow> string \<Rightarrow> TrafficAggregate list \<Rightarrow> 'a list" where
  "ofMergedClass f class traffic = map f (filter (\<lambda>t. taClass t = class) traffic)"

definition checkMergedClass :: "MergedMetrics \<Rightarrow> string \<Rightarrow> metrics_error + unit" where
  "checkMergedClass m class =
     (case mmClasses m class of None \<Rightarrow> Inl (MissingClass class)
      | Some aggregate \<Rightarrow>
        (case firstClassCountMismatch (caCounts aggregate)
            (foldl addClassCounts zeroCounts (ofMergedClass taCounts class (mmTraffic m))) of
          (field, got, want) \<Rightarrow>
          if field \<noteq> [] then Inl (InClass class (SumMismatch field got want))
          else
            checkM (\<lambda>(name, agg, parts). wrap_err (InClass class \<circ> InField name) (validateHistogramSum agg parts))
              [(''latency_sched_ns'', caLatencySchedNS aggregate, ofMergedClass taLatencySchedNS class (mmTraffic m)),
               (''latency_send_ns'', caLatencySendNS aggregate, ofMergedClass taLatencySendNS class (mmTraffic m)),
               (''update_gap_ns'', caUpdateGapNS aggregate, ofMergedClass taUpdateGapNS class (mmTraffic m))]))"

definition ValidateMergedMetricsConsistency :: "MergedMetrics option \<Rightarrow> metrics_error + unit" where
  "ValidateMergedMetricsConsistency metrics =
     (case metrics of None \<Rightarrow> Inr ()
      | Some m \<Rightarrow>
        if mmVersion m \<noteq> 2 then Inr ()
        else
          rbind (checkM (\<lambda>t. fail_if (taClass t \<noteq> ClassLossTolerant \<and> taClass t \<noteq> ClassMustDeliver)
            (UnknownClass (taClass t))) (mmTraffic m)) (\<lambda>_.
          rbind (checkM (checkMergedClass m) metricClassNames) (\<lambda>_.
          rbind (wrap_err (InField ''staleness_ns'') (validateHistogramSum (mmStalenessNS m)
            (ofMergedClass taStalenessNS ClassLossTolerant (mmTraffic m)))) (\<lambda>_.
          fail_if (TimestampOrderViolations (mmRaw m) \<noteq> 0)
            (SumMismatch ''timestamp_order_violations'' (TimestampOrderViolations (mmRaw m)) 0)))))"

definition TrafficMetric :: "MergedMetrics option \<Rightarrow> u8 \<Rightarrow> string \<Rightarrow> string \<Rightarrow> TrafficAggregate option" where
  "TrafficMetric metrics trafficID direction class =
     (case metrics of None \<Rightarrow> None
      | Some m \<Rightarrow>
        (case fmlookup (trafficByKey m) (TrafficKey trafficID direction class) of
           Some t \<Rightarrow> Some t
         | None \<Rightarrow> List.find (\<lambda>c. taTrafficID c = trafficID \<and> taDirection c = direction \<and> taClass c = class)
             (mmTraffic m)))"

definition attemptedRatioWith :: "MergedMetrics \<Rightarrow> u64 \<Rightarrow> f64" where
  "attemptedRatioWith m extra =
     (let slots = sum_list (map (\<lambda>name. Slots (caCounts (classOf m name))) metricClassNames);
          submitted = sum_list (map (\<lambda>name. Submitted (caCounts (classOf m name))) metricClassNames)
      in ratioOrOne (submitted + extra) slots)"

definition attemptedRatio :: "MergedMetrics \<Rightarrow> f64" where
  "attemptedRatio m = attemptedRatioWith m 0"

text \<open>Every layout a percentile is read with has a positive number of subbins.\<close>

lemma validated_subbins: "validateMetricsFile file checkpoint = Inr () \<Longrightarrow> Subbins (mfHistogram file) \<noteq> 0"
  by (auto simp: validateMetricsFile_def rbind_eq_Inr_iff fail_if_def split: if_splits)

section \<open>Merging commutes\<close>

lemma commute_obtain:
  assumes "success (rbind (f s x) (\<lambda>t. f t y)) = success (rbind (f s y) (\<lambda>t. f t x))"
    and "f s x = Inr t" and "f t y = Inr u"
  obtains t' where "f s y = Inr t'" and "f t' x = Inr u"
proof -
  have "success (rbind (f s y) (\<lambda>t. f t x)) = Some u"
    using assms by (metis rbind_simps(2) success_simps(2))
  then show ?thesis using that by (auto simp: rbind_eq_Inr_iff)
qed

lemma addClassCounts_right_commute:
  "addClassCounts (addClassCounts c a) b = addClassCounts (addClassCounts c b) a"
  by (simp add: addClassCounts_def add.assoc add.commute add.left_commute)

lemma addRaw_right_commute: "addRaw (addRaw c a) b = addRaw (addRaw c b) a"
  by (simp add: addRaw_def add.assoc add.commute add.left_commute)

lemma addHistogram_Bins:
  "addHistogram d s layout = Inr h \<Longrightarrow> Bins h \<noteq> []"
  by (auto simp: addHistogram_Inr split: if_splits simp flip: length_greater_0_conv)

lemma addOptionalHistogram_commute:
  "success (rbind (addOptionalHistogram d a layout) (\<lambda>t. addOptionalHistogram t b layout)) =
   success (rbind (addOptionalHistogram d b layout) (\<lambda>t. addOptionalHistogram t a layout))"
  using addHistogram_commute [of d a layout b] by (auto simp: addOptionalHistogram_def)

lemma addClass_Inr:
  "addClass layout name dst src = Inr c \<longleftrightarrow>
    (\<exists>sched send gap. addHistogram (caLatencySchedNS dst) (cmLatencySchedNS src) layout = Inr sched \<and>
      addHistogram (caLatencySendNS dst) (cmLatencySendNS src) layout = Inr send \<and>
      addOptionalHistogram (caUpdateGapNS dst) (cmUpdateGapNS src) layout = Inr gap \<and>
      c = dst\<lparr>caCounts := addClassCounts (caCounts dst) (cmCounts src),
        caLatencySchedNS := sched, caLatencySendNS := send, caUpdateGapNS := gap\<rparr>)"
  by (auto simp: addClass_def rbind_eq_Inr_iff)

lemma addClass_commute_Inr:
  assumes "addClass layout name d a = Inr t" and "addClass layout name t b = Inr u"
  obtains t' where "addClass layout name d b = Inr t'" and "addClass layout name t' a = Inr u"
proof -
  from assms(1) obtain p1 q1 r1 where
    1: "addHistogram (caLatencySchedNS d) (cmLatencySchedNS a) layout = Inr p1"
      "addHistogram (caLatencySendNS d) (cmLatencySendNS a) layout = Inr q1"
      "addOptionalHistogram (caUpdateGapNS d) (cmUpdateGapNS a) layout = Inr r1"
    and t: "t = d\<lparr>caCounts := addClassCounts (caCounts d) (cmCounts a),
        caLatencySchedNS := p1, caLatencySendNS := q1, caUpdateGapNS := r1\<rparr>"
    by (auto simp: addClass_Inr)
  from assms(2) obtain p2 q2 r2 where
    2: "addHistogram p1 (cmLatencySchedNS b) layout = Inr p2"
      "addHistogram q1 (cmLatencySendNS b) layout = Inr q2"
      "addOptionalHistogram r1 (cmUpdateGapNS b) layout = Inr r2"
    and u: "u = t\<lparr>caCounts := addClassCounts (caCounts t) (cmCounts b),
        caLatencySchedNS := p2, caLatencySendNS := q2, caUpdateGapNS := r2\<rparr>"
    unfolding addClass_Inr by (auto simp: t)
  obtain p where p: "addHistogram (caLatencySchedNS d) (cmLatencySchedNS b) layout = Inr p"
      "addHistogram p (cmLatencySchedNS a) layout = Inr p2"
    using addHistogram_commute 1(1) 2(1)
    by (rule commute_obtain [where f = "\<lambda>d s. addHistogram d s layout"])
  obtain q where q: "addHistogram (caLatencySendNS d) (cmLatencySendNS b) layout = Inr q"
      "addHistogram q (cmLatencySendNS a) layout = Inr q2"
    using addHistogram_commute 1(2) 2(2)
    by (rule commute_obtain [where f = "\<lambda>d s. addHistogram d s layout"])
  obtain r where r: "addOptionalHistogram (caUpdateGapNS d) (cmUpdateGapNS b) layout = Inr r"
      "addOptionalHistogram r (cmUpdateGapNS a) layout = Inr r2"
    using addOptionalHistogram_commute 1(3) 2(3)
    by (rule commute_obtain [where f = "\<lambda>d s. addOptionalHistogram d s layout"])
  show ?thesis
    by (rule that [of "d\<lparr>caCounts := addClassCounts (caCounts d) (cmCounts b),
        caLatencySchedNS := p, caLatencySendNS := q, caUpdateGapNS := r\<rparr>"])
      (simp_all add: addClass_Inr p q r u t addClassCounts_right_commute)
qed

text \<open>The entry of a key after the sentinel test on its direction.\<close>

definition claimEntry :: "TrafficAggregate \<Rightarrow> trafficMetric \<Rightarrow> TrafficAggregate" where
  "claimEntry dst src = (if taDirection dst = []
     then dst\<lparr>taTrafficID := tmTrafficID src, taDirection := tmDirection src,
              taClass := tmClass src, taDeadlineNS := tmDeadlineNS src\<rparr> else dst)"

lemma addTrafficEntry_Inr:
  "addTrafficEntry layout dst src = Inr c \<longleftrightarrow>
    (taDirection dst = [] \<or> taDeadlineNS dst = tmDeadlineNS src) \<and>
    (\<exists>sched send gap stale. addHistogram (taLatencySchedNS dst) (tmLatencySchedNS src) layout = Inr sched \<and>
      addHistogram (taLatencySendNS dst) (tmLatencySendNS src) layout = Inr send \<and>
      addOptionalHistogram (taUpdateGapNS dst) (tmUpdateGapNS src) layout = Inr gap \<and>
      addOptionalHistogram (taStalenessNS dst) (tmStalenessNS src) layout = Inr stale \<and>
      c = (claimEntry dst src)\<lparr>taCounts := addClassCounts (taCounts dst) (tmCounts src),
        taLatencySchedNS := sched, taLatencySendNS := send, taUpdateGapNS := gap,
        taStalenessNS := stale\<rparr>)"
  by (auto simp: addTrafficEntry_def rbind_eq_Inr_iff claimEntry_def Let_def)

lemma claimEntry_histograms [simp]:
  "taCounts (claimEntry d a) = taCounts d"
  "taLatencySchedNS (claimEntry d a) = taLatencySchedNS d"
  "taLatencySendNS (claimEntry d a) = taLatencySendNS d"
  "taUpdateGapNS (claimEntry d a) = taUpdateGapNS d"
  "taStalenessNS (claimEntry d a) = taStalenessNS d"
  by (simp_all add: claimEntry_def)

lemma addTrafficEntry_commute_Inr:
  assumes "addTrafficEntry layout d a = Inr t" and "addTrafficEntry layout t b = Inr u"
    and key: "trafficKey a = trafficKey b" and dir: "tmDirection a \<noteq> []"
  obtains t' where "addTrafficEntry layout d b = Inr t'" and "addTrafficEntry layout t' a = Inr u"
proof -
  from assms(1) obtain p1 q1 r1 s1 where
    1: "addHistogram (taLatencySchedNS d) (tmLatencySchedNS a) layout = Inr p1"
      "addHistogram (taLatencySendNS d) (tmLatencySendNS a) layout = Inr q1"
      "addOptionalHistogram (taUpdateGapNS d) (tmUpdateGapNS a) layout = Inr r1"
      "addOptionalHistogram (taStalenessNS d) (tmStalenessNS a) layout = Inr s1"
    and d1: "taDirection d = [] \<or> taDeadlineNS d = tmDeadlineNS a"
    and t: "t = (claimEntry d a)\<lparr>taCounts := addClassCounts (taCounts d) (tmCounts a),
        taLatencySchedNS := p1, taLatencySendNS := q1, taUpdateGapNS := r1, taStalenessNS := s1\<rparr>"
    unfolding addTrafficEntry_Inr by blast
  from assms(2) obtain p2 q2 r2 s2 where
    2: "addHistogram p1 (tmLatencySchedNS b) layout = Inr p2"
      "addHistogram q1 (tmLatencySendNS b) layout = Inr q2"
      "addOptionalHistogram r1 (tmUpdateGapNS b) layout = Inr r2"
      "addOptionalHistogram s1 (tmStalenessNS b) layout = Inr s2"
    and d2: "taDirection t = [] \<or> taDeadlineNS t = tmDeadlineNS b"
    and u: "u = (claimEntry t b)\<lparr>taCounts := addClassCounts (taCounts t) (tmCounts b),
        taLatencySchedNS := p2, taLatencySendNS := q2, taUpdateGapNS := r2, taStalenessNS := s2\<rparr>"
    unfolding addTrafficEntry_Inr by (auto simp: t)
  obtain p where p: "addHistogram (taLatencySchedNS d) (tmLatencySchedNS b) layout = Inr p"
      "addHistogram p (tmLatencySchedNS a) layout = Inr p2"
    using addHistogram_commute 1(1) 2(1)
    by (rule commute_obtain [where f = "\<lambda>d s. addHistogram d s layout"])
  obtain q where q: "addHistogram (taLatencySendNS d) (tmLatencySendNS b) layout = Inr q"
      "addHistogram q (tmLatencySendNS a) layout = Inr q2"
    using addHistogram_commute 1(2) 2(2)
    by (rule commute_obtain [where f = "\<lambda>d s. addHistogram d s layout"])
  obtain r where r: "addOptionalHistogram (taUpdateGapNS d) (tmUpdateGapNS b) layout = Inr r"
      "addOptionalHistogram r (tmUpdateGapNS a) layout = Inr r2"
    using addOptionalHistogram_commute 1(3) 2(3)
    by (rule commute_obtain [where f = "\<lambda>d s. addOptionalHistogram d s layout"])
  obtain s where s: "addOptionalHistogram (taStalenessNS d) (tmStalenessNS b) layout = Inr s"
      "addOptionalHistogram s (tmStalenessNS a) layout = Inr s2"
    using addOptionalHistogram_commute 1(4) 2(4)
    by (rule commute_obtain [where f = "\<lambda>d s. addOptionalHistogram d s layout"])
  have same: "tmTrafficID a = tmTrafficID b" "tmDirection a = tmDirection b" "tmClass a = tmClass b"
    using key by (simp_all add: trafficKey_def)
  have dl: "taDirection d = [] \<Longrightarrow> tmDeadlineNS a = tmDeadlineNS b"
    "taDirection d \<noteq> [] \<Longrightarrow> taDeadlineNS d = tmDeadlineNS b"
    using d1 d2 dir by (auto simp: t claimEntry_def)
  let ?t = "(claimEntry d b)\<lparr>taCounts := addClassCounts (taCounts d) (tmCounts b),
        taLatencySchedNS := p, taLatencySendNS := q, taUpdateGapNS := r, taStalenessNS := s\<rparr>"
  show ?thesis
  proof (rule that [of ?t])
    show "addTrafficEntry layout d b = Inr ?t"
      unfolding addTrafficEntry_Inr using p(1) q(1) r(1) s(1) dl by blast
    have "claimEntry d b = claimEntry d a" using same dl by (simp add: claimEntry_def)
    moreover have "claimEntry ?t a = ?t" "claimEntry t b = t"
      using same dir by (simp_all add: claimEntry_def t)
    ultimately have "u = (claimEntry ?t a)\<lparr>taCounts := addClassCounts (taCounts ?t) (tmCounts a),
        taLatencySchedNS := p2, taLatencySendNS := q2, taUpdateGapNS := r2, taStalenessNS := s2\<rparr>"
      by (simp add: u t addClassCounts_right_commute)
    moreover have "taDirection ?t = [] \<or> taDeadlineNS ?t = tmDeadlineNS a"
      using dl d1 by (auto simp: claimEntry_def)
    ultimately show "addTrafficEntry layout ?t a = Inr u"
      unfolding addTrafficEntry_Inr using p(2) q(2) r(2) s(2) by auto
  qed
qed

lemma entryOf_fmupd [simp]: "entryOf (fmupd k t M) k' = (if k' = k then t else entryOf M k')"
  by (simp add: entryOf_def)

lemma fmupd_twist: "k \<noteq> k' \<Longrightarrow> fmupd k a (fmupd k' b M) = fmupd k' b (fmupd k a M)"
  by (rule fmap_ext) auto

lemma fmupd_again [simp]: "fmupd k a (fmupd k b M) = fmupd k a M"
  by (rule fmap_ext) simp

lemma addTraffic_Inr:
  "addTraffic layout M src = Inr N \<longleftrightarrow>
    (\<exists>t. addTrafficEntry layout (entryOf M (trafficKey src)) src = Inr t \<and>
      N = fmupd (trafficKey src) t M)"
  by (auto simp: addTraffic_def rbind_eq_Inr_iff)

lemma addTraffic_commute_Inr:
  assumes "rbind (addTraffic layout M a) (\<lambda>N. addTraffic layout N b) = Inr O'"
    and dir: "tmDirection a \<noteq> []"
  shows "rbind (addTraffic layout M b) (\<lambda>N. addTraffic layout N a) = Inr O'"
proof -
  let ?ka = "trafficKey a" and ?kb = "trafficKey b"
  obtain t u where t: "addTrafficEntry layout (entryOf M ?ka) a = Inr t"
    and u: "addTrafficEntry layout (entryOf (fmupd ?ka t M) ?kb) b = Inr u"
    and O': "O' = fmupd ?kb u (fmupd ?ka t M)"
    using assms by (auto simp: rbind_eq_Inr_iff addTraffic_Inr)
  show ?thesis
  proof (cases "?ka = ?kb")
    case True
    have "addTrafficEntry layout t b = Inr u" using u True by simp
    then obtain t' where "addTrafficEntry layout (entryOf M ?ka) b = Inr t'"
        "addTrafficEntry layout t' a = Inr u"
      using addTrafficEntry_commute_Inr [OF t _ True dir] by blast
    then show ?thesis using True O' by (auto simp: rbind_eq_Inr_iff addTraffic_Inr)
  next
    case False
    then have "addTrafficEntry layout (entryOf M ?kb) b = Inr u" using u by auto
    then have "addTraffic layout M b = Inr (fmupd ?kb u M)" by (simp add: addTraffic_Inr)
    moreover have "addTraffic layout (fmupd ?kb u M) a = Inr O'"
      using t False O' fmupd_twist [OF False, of t u M] by (simp add: addTraffic_Inr)
    ultimately show ?thesis by simp
  qed
qed

interpretation traffic: commuting_accumulator "addTraffic layout" "\<lambda>_. True"
    "\<lambda>t. tmDirection t \<noteq> []" for layout
proof
  fix M and a b :: trafficMetric
  assume "tmDirection a \<noteq> []" and "tmDirection b \<noteq> []"
  then show "success (rbind (addTraffic layout M a) (\<lambda>N. addTraffic layout N b)) =
      success (rbind (addTraffic layout M b) (\<lambda>N. addTraffic layout N a))"
    by (intro success_eqI) (auto intro: addTraffic_commute_Inr)
qed simp

lemma foldM_addTraffic_swap:
  assumes "foldM (addTraffic layout) M as = Inr N" and "foldM (addTraffic layout) N bs = Inr O'"
    and "\<forall>t \<in> set (as @ bs). tmDirection t \<noteq> []"
  obtains N' where "foldM (addTraffic layout) M bs = Inr N'" and "foldM (addTraffic layout) N' as = Inr O'"
proof -
  have "success (foldM (addTraffic layout) M (as @ bs)) = success (foldM (addTraffic layout) M (bs @ as))"
    by (rule traffic.fold_permutation) (use assms(3) in simp_all)
  moreover have "success (foldM (addTraffic layout) M (as @ bs)) = Some O'"
    using assms(1,2) by (simp add: foldM_append)
  ultimately have "foldM (addTraffic layout) M (bs @ as) = Inr O'"
    by (metis success_eq_Some)
  then show ?thesis using that by (auto simp: foldM_append rbind_eq_Inr_iff)
qed

lemma classNames_distinct [simp]: "ClassLossTolerant \<noteq> ClassMustDeliver" "ClassMustDeliver \<noteq> ClassLossTolerant"
  by (simp_all add: ClassLossTolerant_def ClassMustDeliver_def)

lemma add_Inr:
  "add m file = Inr m' \<longleftrightarrow>
    (\<exists>lt md stale gap byKey.
      addClass (mmHistogram m) ClassLossTolerant (classOf m ClassLossTolerant) (fileClass file ClassLossTolerant) = Inr lt \<and>
      addClass (mmHistogram m) ClassMustDeliver (classOf m ClassMustDeliver) (fileClass file ClassMustDeliver) = Inr md \<and>
      addHistogram (mmStalenessNS m) (mfStalenessNS file) (mmHistogram m) = Inr stale \<and>
      addOptionalHistogram (mmUpdateGapNS m) (mfUpdateGapNS file) (mmHistogram m) = Inr gap \<and>
      foldM (addTraffic (mmHistogram m)) (trafficByKey m) (mfTraffic file) = Inr byKey \<and>
      m' = m\<lparr>mmClasses := (mmClasses m)(ClassLossTolerant \<mapsto> lt, ClassMustDeliver \<mapsto> md),
        mmStalenessNS := stale, mmUpdateGapNS := gap, trafficByKey := byKey,
        mmRaw := addRaw (mmRaw m) (mfRaw file)\<rparr>)"
proof -
  have c: "foldM (addClassNamed file) m metricClassNames = Inr k \<longleftrightarrow>
    (\<exists>lt md. addClass (mmHistogram m) ClassLossTolerant (classOf m ClassLossTolerant) (fileClass file ClassLossTolerant) = Inr lt \<and>
      addClass (mmHistogram m) ClassMustDeliver (classOf m ClassMustDeliver) (fileClass file ClassMustDeliver) = Inr md \<and>
      k = m\<lparr>mmClasses := (mmClasses m)(ClassLossTolerant \<mapsto> lt, ClassMustDeliver \<mapsto> md)\<rparr>)" for k
    by (auto simp: metricClassNames_def addClassNamed_def rbind_eq_Inr_iff classOf_def)
  show ?thesis
    by (auto simp: add_def rbind_eq_Inr_iff c)
qed

lemma classOf_upd [simp]:
  "classOf (m\<lparr>mmClasses := (mmClasses m)(ClassLossTolerant \<mapsto> lt, ClassMustDeliver \<mapsto> md),
     mmStalenessNS := stale, mmUpdateGapNS := gap, trafficByKey := byKey, mmRaw := raw\<rparr>) name =
   (if name = ClassMustDeliver then md else if name = ClassLossTolerant then lt else classOf m name)"
  by (simp add: classOf_def)

lemma add_commute_Inr:
  assumes "add m a = Inr t" and "add t b = Inr u"
    and dir: "\<forall>s \<in> set (mfTraffic a @ mfTraffic b). tmDirection s \<noteq> []"
  obtains t' where "add m b = Inr t'" and "add t' a = Inr u"
proof -
  let ?L = "mmHistogram m" and ?lt = ClassLossTolerant and ?md = ClassMustDeliver
  from assms(1) obtain l1 d1 s1 g1 k1 where
    1: "addClass ?L ?lt (classOf m ?lt) (fileClass a ?lt) = Inr l1"
      "addClass ?L ?md (classOf m ?md) (fileClass a ?md) = Inr d1"
      "addHistogram (mmStalenessNS m) (mfStalenessNS a) ?L = Inr s1"
      "addOptionalHistogram (mmUpdateGapNS m) (mfUpdateGapNS a) ?L = Inr g1"
      "foldM (addTraffic ?L) (trafficByKey m) (mfTraffic a) = Inr k1"
    and t: "t = m\<lparr>mmClasses := (mmClasses m)(?lt \<mapsto> l1, ?md \<mapsto> d1),
        mmStalenessNS := s1, mmUpdateGapNS := g1, trafficByKey := k1, mmRaw := addRaw (mmRaw m) (mfRaw a)\<rparr>"
    unfolding add_Inr by blast
  from assms(2) obtain l2 d2 s2 g2 k2 where
    2: "addClass ?L ?lt l1 (fileClass b ?lt) = Inr l2"
      "addClass ?L ?md d1 (fileClass b ?md) = Inr d2"
      "addHistogram s1 (mfStalenessNS b) ?L = Inr s2"
      "addOptionalHistogram g1 (mfUpdateGapNS b) ?L = Inr g2"
      "foldM (addTraffic ?L) k1 (mfTraffic b) = Inr k2"
    and u: "u = t\<lparr>mmClasses := (mmClasses t)(?lt \<mapsto> l2, ?md \<mapsto> d2),
        mmStalenessNS := s2, mmUpdateGapNS := g2, trafficByKey := k2, mmRaw := addRaw (mmRaw t) (mfRaw b)\<rparr>"
    unfolding add_Inr t by simp blast
  obtain l where l: "addClass ?L ?lt (classOf m ?lt) (fileClass b ?lt) = Inr l"
      "addClass ?L ?lt l (fileClass a ?lt) = Inr l2"
    using addClass_commute_Inr [OF 1(1) 2(1)] .
  obtain d where d: "addClass ?L ?md (classOf m ?md) (fileClass b ?md) = Inr d"
      "addClass ?L ?md d (fileClass a ?md) = Inr d2"
    using addClass_commute_Inr [OF 1(2) 2(2)] .
  obtain s where s: "addHistogram (mmStalenessNS m) (mfStalenessNS b) ?L = Inr s"
      "addHistogram s (mfStalenessNS a) ?L = Inr s2"
    using addHistogram_commute 1(3) 2(3)
    by (rule commute_obtain [where f = "\<lambda>d s. addHistogram d s ?L"])
  obtain g where g: "addOptionalHistogram (mmUpdateGapNS m) (mfUpdateGapNS b) ?L = Inr g"
      "addOptionalHistogram g (mfUpdateGapNS a) ?L = Inr g2"
    using addOptionalHistogram_commute 1(4) 2(4)
    by (rule commute_obtain [where f = "\<lambda>d s. addOptionalHistogram d s ?L"])
  obtain k where k: "foldM (addTraffic ?L) (trafficByKey m) (mfTraffic b) = Inr k"
      "foldM (addTraffic ?L) k (mfTraffic a) = Inr k2"
    using foldM_addTraffic_swap [OF 1(5) 2(5) dir] .
  let ?t = "m\<lparr>mmClasses := (mmClasses m)(?lt \<mapsto> l, ?md \<mapsto> d),
        mmStalenessNS := s, mmUpdateGapNS := g, trafficByKey := k, mmRaw := addRaw (mmRaw m) (mfRaw b)\<rparr>"
  show ?thesis
  proof (rule that [of ?t])
    show "add m b = Inr ?t" unfolding add_Inr using l(1) d(1) s(1) g(1) k(1) by blast
    have "u = ?t\<lparr>mmClasses := (mmClasses ?t)(?lt \<mapsto> l2, ?md \<mapsto> d2),
        mmStalenessNS := s2, mmUpdateGapNS := g2, trafficByKey := k2, mmRaw := addRaw (mmRaw ?t) (mfRaw a)\<rparr>"
      by (simp add: u t addRaw_right_commute fun_upd_twist)
    then show "add ?t a = Inr u"
      unfolding add_Inr using l(2) d(2) s(2) g(2) k(2) by auto
  qed
qed

text \<open>
  The state of the loop over the artifacts: before the first one, or the metrics of a version
  that is not the sentinel zero.
\<close>

definition merging :: "int \<times> MergedMetrics option \<Rightarrow> bool" where
  "merging st \<longleftrightarrow> st = (0, None) \<or> (\<exists>m. st = (mmVersion m, Some m) \<and> mmVersion m \<noteq> 0)"

definition startOf :: "int \<Rightarrow> int \<times> MergedMetrics option \<Rightarrow> metricsFile \<Rightarrow> MergedMetrics" where
  "startOf totalConns st f = (case snd st of
     None \<Rightarrow> newMergedMetrics (mfVersion f) (mfHistogram f) totalConns | Some m \<Rightarrow> m)"

lemma newMergedMetrics_simps [simp]:
  "mmVersion (newMergedMetrics v layout n) = v"
  "mmHistogram (newMergedMetrics v layout n) = layout"
  "TotalConns (newMergedMetrics v layout n) = n"
  "mmTraffic (newMergedMetrics v layout n) = []"
  "trafficByKey (newMergedMetrics v layout n) = fmempty"
  "mmStalenessNS (newMergedMetrics v layout n) = zeroHistogram"
  "mmRaw (newMergedMetrics v layout n) = zeroRaw"
  by (simp_all add: newMergedMetrics_def)

lemma add_keeps:
  "add m f = Inr m' \<Longrightarrow> mmVersion m' = mmVersion m \<and> mmHistogram m' = mmHistogram m \<and>
    TotalConns m' = TotalConns m \<and> mmTraffic m' = mmTraffic m"
  by (auto simp: add_Inr)

lemma mergeStep_Inr:
  assumes "merging st"
  shows "mergeStep name parse totalConns st a = Inr st' \<longleftrightarrow>
    (\<exists>f m. parse a = Inr f \<and>
      (\<forall>m0. snd st = Some m0 \<longrightarrow> mfVersion f = mmVersion m0 \<and> mfHistogram f = mmHistogram m0) \<and>
      add (startOf totalConns st f) f = Inr m \<and> st' = (mfVersion f, Some m))"
proof (cases "snd st")
  case None
  then have st: "st = (0, None)" using assms by (auto simp: merging_def)
  show ?thesis
    by (cases "parse a") (auto simp: st mergeStep_def rbind_eq_Inr_iff startOf_def)
next
  case (Some m)
  then have st: "st = (mmVersion m, Some m)" and nz: "mmVersion m \<noteq> 0"
    using assms by (auto simp: merging_def)
  show ?thesis
    using nz by (cases "parse a") (auto simp: st mergeStep_def rbind_eq_Inr_iff startOf_def)
qed

definition acceptable :: "('a \<Rightarrow> metrics_error + metricsFile) \<Rightarrow> 'a \<Rightarrow> bool" where
  "acceptable parse a \<longleftrightarrow> (\<forall>f. parse a = Inr f \<longrightarrow>
     mfVersion f \<noteq> 0 \<and> (\<forall>t \<in> set (mfTraffic f). tmDirection t \<noteq> []))"

lemma merging_step:
  assumes "merging st" and "acceptable parse a" and "mergeStep name parse totalConns st a = Inr st'"
  shows "merging st'"
  using assms add_keeps
  by (fastforce simp: mergeStep_Inr merging_def acceptable_def startOf_def)

lemma mergeStep_commute_Inr:
  assumes st: "merging st" and ok: "acceptable parse a" "acceptable parse b"
    and step: "rbind (mergeStep name parse n st a) (\<lambda>t. mergeStep name parse n t b) = Inr st'"
  shows "rbind (mergeStep name parse n st b) (\<lambda>t. mergeStep name parse n t a) = Inr st'"
proof -
  obtain t where t: "mergeStep name parse n st a = Inr t" and t': "mergeStep name parse n t b = Inr st'"
    using step by (auto simp: rbind_eq_Inr_iff)
  have mt: "merging t" by (rule merging_step [OF st ok(1) t])
  obtain f m1 where f: "parse a = Inr f"
    "\<And>m0. snd st = Some m0 \<Longrightarrow> mfVersion f = mmVersion m0 \<and> mfHistogram f = mmHistogram m0"
    "add (startOf n st f) f = Inr m1" and te: "t = (mfVersion f, Some m1)"
    using t by (auto simp: mergeStep_Inr [OF st])
  obtain g m2 where g: "parse b = Inr g" "mfVersion g = mmVersion m1" "mfHistogram g = mmHistogram m1"
    "add m1 g = Inr m2" and st': "st' = (mfVersion g, Some m2)"
    using t' [unfolded mergeStep_Inr [OF mt]] by (auto simp: te startOf_def)
  have dir: "\<forall>s \<in> set (mfTraffic f @ mfTraffic g). tmDirection s \<noteq> []"
    using ok f(1) g(1) by (auto simp: acceptable_def)
  obtain m where m: "add (startOf n st f) g = Inr m" "add m f = Inr m2"
    using add_commute_Inr [OF f(3) g(4) dir] .
  have same: "mfVersion g = mfVersion f" "mfHistogram g = mfHistogram f"
    using g(2,3) add_keeps [OF f(3)] f(2) by (auto simp: startOf_def split: option.splits)
  then have start: "startOf n st g = startOf n st f"
    by (simp add: startOf_def split: option.split)
  have "mergeStep name parse n st b = Inr (mfVersion g, Some m)"
    unfolding mergeStep_Inr [OF st] using g(1) f(2) same m(1) start by auto
  moreover have "mergeStep name parse n (mfVersion g, Some m) a = Inr st'"
    unfolding mergeStep_Inr [OF merging_step [OF st ok(2) calculation]]
    using f(1) m(2) same st' add_keeps [OF m(1)] f(2)
    by (auto simp: startOf_def split: option.splits)
  ultimately show ?thesis by simp
qed

interpretation merge: commuting_accumulator "mergeStep name parse totalConns" merging "acceptable parse"
  for name parse totalConns
proof
  fix st a b
  assume "merging st" "acceptable parse a" "acceptable parse b"
  then show "success (rbind (mergeStep name parse totalConns st a) (\<lambda>t. mergeStep name parse totalConns t b)) =
      success (rbind (mergeStep name parse totalConns st b) (\<lambda>t. mergeStep name parse totalConns t a))"
    by (intro success_eqI) (auto intro: mergeStep_commute_Inr)
qed (rule merging_step)

lemma MergeMetricsData_permutation:
  assumes "mset as = mset bs" and "\<forall>a \<in> set as. acceptable parse a"
  shows "success (MergeMetricsData name parse as n) = success (MergeMetricsData name parse bs n)"
proof -
  have "success (foldM (mergeStep name parse n) (0, None) as) =
      success (foldM (mergeStep name parse n) (0, None) bs)"
    by (rule merge.fold_permutation [OF assms(1)]) (use assms(2) in \<open>simp_all add: merging_def\<close>)
  moreover have "as = [] \<longleftrightarrow> bs = []" using assms(1) by auto
  ultimately show ?thesis
    by (auto simp: MergeMetricsData_def success_rbind)
qed

section \<open>Sums over the keyed traffic\<close>

definition countFields :: "(ClassCounts \<Rightarrow> u64) list" where
  "countFields = [Slots, SlotsBroadcast, Submitted, DeliveredUnique, Duplicates, DeadlineHit,
     ExpectedFlows, ObservedFlows, NeverReceivedFlows]"

lemma countFields_add:
  "f \<in> set countFields \<Longrightarrow> f (addClassCounts a b) = f a + f b"
  "f \<in> set countFields \<Longrightarrow> f zeroCounts = 0"
  by (auto simp: countFields_def addClassCounts_def zeroCounts_def)

lemma countFields_eqI: "(\<And>f. f \<in> set countFields \<Longrightarrow> f a = f b) \<Longrightarrow> a = (b :: ClassCounts)"
  by (simp add: countFields_def)

lemma foldl_addClassCounts:
  "f \<in> set countFields \<Longrightarrow> f (foldl addClassCounts c cs) = f c + sum_list (map f cs)"
  by (induction cs arbitrary: c) (simp_all add: countFields_add add.assoc)

lemma firstClassCountMismatch_none:
  "firstClassCountMismatch got want = (field, g, w) \<Longrightarrow> field = [] \<longleftrightarrow> got = want"
  by (auto simp: firstClassCountMismatch_def split: if_splits)

definition bin :: "Histogram \<Rightarrow> nat \<Rightarrow> u64" where
  "bin h i = (if i < length (Bins h) then Bins h ! i else 0)"

lemma bin_zero [simp]: "bin zeroHistogram i = 0"
  by (simp add: bin_def zeroHistogram_def)

lemma addHistogram_bin: "addHistogram d s layout = Inr h \<Longrightarrow> bin h i = bin d i + bin s i"
  by (auto simp: addHistogram_Inr bin_def split: if_splits)

lemma addHistogram_length: "addHistogram d s layout = Inr h \<Longrightarrow> length (Bins h) = length (Bins s)"
  by (auto simp: addHistogram_Inr split: if_splits)

lemma addOptionalHistogram_bin: "addOptionalHistogram d s layout = Inr h \<Longrightarrow> bin h i = bin d i + bin s i"
  by (auto simp: addOptionalHistogram_def addHistogram_bin split: if_splits) (simp add: bin_def)

text \<open>
  A channel is one number kept for a class, a traffic entry, and their sources: a counter or one
  bin of a histogram. Adding adds in every channel.
\<close>

inductive channel :: "(ClassAggregate \<Rightarrow> u64) \<Rightarrow> (TrafficAggregate \<Rightarrow> u64) \<Rightarrow>
    (classMetric \<Rightarrow> u64) \<Rightarrow> (trafficMetric \<Rightarrow> u64) \<Rightarrow> bool" where
  counter: "f \<in> set countFields \<Longrightarrow>
    channel (\<lambda>c. f (caCounts c)) (\<lambda>t. f (taCounts t)) (\<lambda>c. f (cmCounts c)) (\<lambda>t. f (tmCounts t))"
| sched: "channel (\<lambda>c. bin (caLatencySchedNS c) i) (\<lambda>t. bin (taLatencySchedNS t) i)
    (\<lambda>c. bin (cmLatencySchedNS c) i) (\<lambda>t. bin (tmLatencySchedNS t) i)"
| send: "channel (\<lambda>c. bin (caLatencySendNS c) i) (\<lambda>t. bin (taLatencySendNS t) i)
    (\<lambda>c. bin (cmLatencySendNS c) i) (\<lambda>t. bin (tmLatencySendNS t) i)"
| gap: "channel (\<lambda>c. bin (caUpdateGapNS c) i) (\<lambda>t. bin (taUpdateGapNS t) i)
    (\<lambda>c. bin (cmUpdateGapNS c) i) (\<lambda>t. bin (tmUpdateGapNS t) i)"

definition additive :: "HistogramLayout \<Rightarrow> (TrafficAggregate \<Rightarrow> u64) \<Rightarrow> (trafficMetric \<Rightarrow> u64) \<Rightarrow> bool" where
  "additive layout f g \<longleftrightarrow> f zeroTraffic = 0 \<and>
     (\<forall>d s t. addTrafficEntry layout d s = Inr t \<longrightarrow> f t = f d + g s)"

lemma zeroTraffic_simps [simp]:
  "taCounts zeroTraffic = zeroCounts" "taLatencySchedNS zeroTraffic = zeroHistogram"
  "taLatencySendNS zeroTraffic = zeroHistogram" "taUpdateGapNS zeroTraffic = zeroHistogram"
  "taStalenessNS zeroTraffic = zeroHistogram" "taDirection zeroTraffic = []"
  by (simp_all add: zeroTraffic_def)

lemma zeroClass_simps [simp]:
  "caCounts zeroClass = zeroCounts" "caLatencySchedNS zeroClass = zeroHistogram"
  "caLatencySendNS zeroClass = zeroHistogram" "caUpdateGapNS zeroClass = zeroHistogram"
  by (simp_all add: zeroClass_def)

lemma channel_additive: "channel cp tp cm tm \<Longrightarrow> additive layout tp tm"
  by (cases rule: channel.cases)
    (auto simp: additive_def addTrafficEntry_Inr countFields_add addHistogram_bin addOptionalHistogram_bin)

lemma staleness_additive: "additive layout (\<lambda>t. bin (taStalenessNS t) i) (\<lambda>t. bin (tmStalenessNS t) i)"
  by (auto simp: additive_def addTrafficEntry_Inr addOptionalHistogram_bin)

lemma channel_class:
  assumes "channel cp tp cm tm"
  shows "addClass layout name d s = Inr c \<Longrightarrow> cp c = cp d + cm s" and "cp zeroClass = 0"
  using assms by (cases rule: channel.cases;
    auto simp: addClass_Inr countFields_add addHistogram_bin addOptionalHistogram_bin)+

definition keysOf :: "(TrafficKey, TrafficAggregate) fmap \<Rightarrow> string \<Rightarrow> TrafficKey set" where
  "keysOf M class = {k \<in> fset (fmdom M). KeyClass k = class}"

definition sumOver :: "(TrafficAggregate \<Rightarrow> u64) \<Rightarrow> (TrafficKey, TrafficAggregate) fmap \<Rightarrow> string \<Rightarrow> u64" where
  "sumOver f M class = (\<Sum>k \<in> keysOf M class. f (entryOf M k))"

lemma finite_keysOf [simp]: "finite (keysOf M class)"
  by (simp add: keysOf_def)

lemma keysOf_fmupd: "keysOf (fmupd k t M) class =
    (if KeyClass k = class then insert k (keysOf M class) else keysOf M class)"
  by (auto simp: keysOf_def)

lemma sumOver_fmupd:
  assumes "f zeroTraffic = 0"
  shows "sumOver f (fmupd k t M) class =
    sumOver f M class + (if KeyClass k = class then f t - f (entryOf M k) else 0)"
proof (cases "KeyClass k = class")
  case False
  then have "k \<notin> keysOf M class" by (simp add: keysOf_def)
  then have "(\<Sum>j \<in> keysOf M class. f (entryOf (fmupd k t M) j)) = sumOver f M class"
    unfolding sumOver_def by (intro sum.cong) auto
  then show ?thesis using False by (simp add: sumOver_def keysOf_fmupd)
next
  case True
  define R where "R = (\<Sum>j \<in> keysOf M class - {k}. f (entryOf M j))"
  have R: "(\<Sum>j \<in> keysOf M class - {k}. f (entryOf (fmupd k t M) j)) = R"
    unfolding R_def by (intro sum.cong) auto
  have "f (entryOf M k) = 0" if "k \<notin> keysOf M class"
    using that True assms by (simp add: keysOf_def entryOf_def fmdom_notD)
  then have old: "sumOver f M class = f (entryOf M k) + R"
    unfolding sumOver_def R_def by (cases "k \<in> keysOf M class") (simp_all add: sum.remove)
  have "sumOver f (fmupd k t M) class = f t + R"
    unfolding sumOver_def keysOf_fmupd using True R by (simp add: sum.insert_remove)
  then show ?thesis using True old by simp
qed

lemma sumOver_addTraffic:
  assumes "addTraffic layout M src = Inr N" and "additive layout f g"
  shows "sumOver f N class = sumOver f M class + (if tmClass src = class then g src else 0)"
proof -
  obtain t where t: "addTrafficEntry layout (entryOf M (trafficKey src)) src = Inr t"
    and N: "N = fmupd (trafficKey src) t M"
    using assms(1) by (auto simp: addTraffic_Inr)
  have "f t = f (entryOf M (trafficKey src)) + g src" using t assms(2) by (auto simp: additive_def)
  moreover have "KeyClass (trafficKey src) = tmClass src" by (simp add: trafficKey_def)
  ultimately show ?thesis using assms(2) by (simp add: N sumOver_fmupd additive_def)
qed

lemma sumOver_foldM:
  assumes "foldM (addTraffic layout) M ts = Inr N" and "additive layout f g"
  shows "sumOver f N class = sumOver f M class + sum_list (ofClass g class ts)"
  using assms(1)
proof (induction ts arbitrary: M)
  case (Cons t ts)
  then obtain M' where "addTraffic layout M t = Inr M'" "foldM (addTraffic layout) M' ts = Inr N"
    by (auto simp: rbind_eq_Inr_iff)
  then show ?case
    using Cons.IH sumOver_addTraffic [OF _ assms(2), of M t M' "class"] by (simp add: ofClass_def)
qed (simp add: ofClass_def)

section \<open>What validation guarantees\<close>

lemma unit_all_Inr: "(x :: 'e + unit) = Inr u \<longleftrightarrow> x = Inr ()"
  by simp

lemma validateTrafficEntry_Inr:
  "validateTrafficEntry layout i t = Inr () \<longleftrightarrow> validateClassCounts (tmCounts t) = Inr () \<and>
     (\<forall>h \<in> {tmLatencySchedNS t, tmLatencySendNS t, tmUpdateGapNS t, tmStalenessNS t}.
        validateV2Histogram h layout = Inr ())"
  by (simp add: validateTrafficEntry_def rbind_eq_Inr_iff)

lemma validateTraffic_Inr:
  "validateTraffic layout i seen ts = Inr () \<longleftrightarrow>
     (\<forall>t \<in> set ts. tmDirection t \<in> {DirectionRoomRelay, DirectionClientToServer, DirectionServerToClient} \<and>
        tmClass t \<in> set metricClassNames \<and> validateTrafficEntry layout 0 t = Inr ()) \<and>
     distinct (map trafficKey ts) \<and> trafficKey ` set ts \<inter> set seen = {}"
proof (induction ts arbitrary: i seen)
  case (Cons t ts)
  have "validateTrafficEntry layout i t = Inr () \<longleftrightarrow> validateTrafficEntry layout 0 t = Inr ()"
    by (simp add: validateTrafficEntry_Inr)
  then show ?case
    by (auto simp: rbind_eq_Inr_iff Cons.IH metricClassNames_def split: if_splits)
qed simp

lemma known_direction: "d \<in> {DirectionRoomRelay, DirectionClientToServer, DirectionServerToClient} \<Longrightarrow> d \<noteq> []"
  by (auto simp: DirectionRoomRelay_def DirectionClientToServer_def DirectionServerToClient_def)

lemma validateMetricsFile_Inr:
  assumes "validateMetricsFile f allowEmpty = Inr ()"
  shows "mfVersion f = 1 \<or> mfVersion f = 2"
    and "validateTraffic (mfHistogram f) 0 [] (mfTraffic f) = Inr ()"
    and "mfVersion f = 2 \<Longrightarrow> validateV2AggregateConsistency f = Inr ()"
  using assms
  by (auto simp: validateMetricsFile_def rbind_eq_Inr_iff split: option.splits)

lemma validateHistogramSum_bin:
  assumes "validateHistogramSum h parts = Inr ()"
  shows "bin h i = (\<Sum>p \<leftarrow> parts. bin p i)"
proof (cases "i < 448")
  case True
  then show ?thesis using assms
    by (auto simp: validateHistogramSum_Inr bin_def intro!: arg_cong [where f = sum_list] map_cong)
next
  case False
  then have "map (\<lambda>p. bin p i) parts = map (\<lambda>p. 0) parts"
    using assms by (intro map_cong) (auto simp: validateHistogramSum_Inr bin_def)
  then have "(\<Sum>p \<leftarrow> parts. bin p i) = 0" by (simp only: sum_list_0)
  moreover have "bin h i = 0" using assms False by (simp add: validateHistogramSum_Inr bin_def)
  ultimately show ?thesis by simp
qed

lemma sum_list_ofClass_comp:
  "(\<Sum>p \<leftarrow> ofClass h cl ts. f p) = sum_list (ofClass (\<lambda>t. f (h t)) cl ts)"
  by (simp add: ofClass_def comp_def)

lemma checkClassSums_Inr:
  assumes "checkClassSums cl agg ts = Inr ()"
  shows "cmCounts agg = countSums cl ts"
    and "validateHistogramSum (cmLatencySchedNS agg) (ofClass tmLatencySchedNS cl ts) = Inr ()"
    and "validateHistogramSum (cmLatencySendNS agg) (ofClass tmLatencySendNS cl ts) = Inr ()"
    and "validateHistogramSum (cmUpdateGapNS agg) (ofClass tmUpdateGapNS cl ts) = Inr ()"
proof -
  obtain fld got want where m: "firstClassCountMismatch (cmCounts agg) (countSums cl ts) = (fld, got, want)"
    by (cases "firstClassCountMismatch (cmCounts agg) (countSums cl ts)")
  show "cmCounts agg = countSums cl ts"
    and "validateHistogramSum (cmLatencySchedNS agg) (ofClass tmLatencySchedNS cl ts) = Inr ()"
    and "validateHistogramSum (cmLatencySendNS agg) (ofClass tmLatencySendNS cl ts) = Inr ()"
    and "validateHistogramSum (cmUpdateGapNS agg) (ofClass tmUpdateGapNS cl ts) = Inr ()"
    using assms firstClassCountMismatch_none [OF m]
    by (auto simp: checkClassSums_def m rbind_eq_Inr_iff split: if_splits)
qed

lemma file_channel:
  assumes "validateV2AggregateConsistency f = Inr ()" and "cl \<in> set metricClassNames"
    and "channel cp tp cm tm"
  shows "cm (fileClass f cl) = sum_list (ofClass tm cl (mfTraffic f))"
proof -
  have c: "checkClassSums cl (fileClass f cl) (mfTraffic f) = Inr ()"
    using assms(1,2) by (auto simp: validateV2AggregateConsistency_def rbind_eq_Inr_iff Let_def)
  note c' = checkClassSums_Inr [OF c]
  show ?thesis
    using assms(3)
  proof (cases rule: channel.cases)
    case (counter g)
    then show ?thesis
      using c'(1) foldl_addClassCounts [OF counter(5), of zeroCounts]
      by (simp add: countSums_def countFields_add ofClass_def comp_def)
  qed (simp_all add: validateHistogramSum_bin [OF c'(2)] validateHistogramSum_bin [OF c'(3)]
      validateHistogramSum_bin [OF c'(4)] sum_list_ofClass_comp)
qed

lemma file_shape:
  assumes "validateV2AggregateConsistency f = Inr ()"
  shows "validateHistogramSum (mfStalenessNS f) (ofClass tmStalenessNS ClassLossTolerant (mfTraffic f)) = Inr ()"
    and "cl \<in> set metricClassNames \<Longrightarrow> length (Bins (cmLatencySchedNS (fileClass f cl))) = 448 \<and>
      length (Bins (cmLatencySendNS (fileClass f cl))) = 448 \<and>
      length (Bins (cmUpdateGapNS (fileClass f cl))) = 448"
proof -
  show "validateHistogramSum (mfStalenessNS f) (ofClass tmStalenessNS ClassLossTolerant (mfTraffic f)) = Inr ()"
    using assms by (auto simp: validateV2AggregateConsistency_def rbind_eq_Inr_iff Let_def)
  assume "cl \<in> set metricClassNames"
  then have c: "checkClassSums cl (fileClass f cl) (mfTraffic f) = Inr ()"
    using assms by (auto simp: validateV2AggregateConsistency_def rbind_eq_Inr_iff Let_def)
  show "length (Bins (cmLatencySchedNS (fileClass f cl))) = 448 \<and>
      length (Bins (cmLatencySendNS (fileClass f cl))) = 448 \<and>
      length (Bins (cmUpdateGapNS (fileClass f cl))) = 448"
    using checkClassSums_Inr [OF c] by (simp add: validateHistogramSum_Inr)
qed

section \<open>The invariant of a version-2 merge\<close>

definition balanced :: "MergedMetrics \<Rightarrow> bool" where
  "balanced m \<longleftrightarrow>
     (\<forall>cp tp cm tm. channel cp tp cm tm \<longrightarrow>
        (\<forall>cl \<in> set metricClassNames. cp (classOf m cl) = sumOver tp (trafficByKey m) cl)) \<and>
     (\<forall>i. bin (mmStalenessNS m) i = sumOver (\<lambda>t. bin (taStalenessNS t) i) (trafficByKey m) ClassLossTolerant)"

definition entryShaped :: "TrafficKey \<Rightarrow> TrafficAggregate \<Rightarrow> bool" where
  "entryShaped k t \<longleftrightarrow> TrafficKey (taTrafficID t) (taDirection t) (taClass t) = k \<and> taDirection t \<noteq> [] \<and>
     taClass t \<in> set metricClassNames \<and>
     (\<forall>h \<in> {taLatencySchedNS t, taLatencySendNS t, taUpdateGapNS t, taStalenessNS t}. length (Bins h) = 448)"

definition classShaped :: "ClassAggregate \<Rightarrow> bool" where
  "classShaped c \<longleftrightarrow> (\<forall>h \<in> {caLatencySchedNS c, caLatencySendNS c, caUpdateGapNS c}. length (Bins h) = 448)"

definition keysShaped :: "(TrafficKey, TrafficAggregate) fmap \<Rightarrow> bool" where
  "keysShaped M \<longleftrightarrow> (\<forall>k t. fmlookup M k = Some t \<longrightarrow> entryShaped k t)"

lemma newMergedMetrics_balanced: "balanced (newMergedMetrics v layout n)" "keysShaped fmempty"
proof -
  have "classOf (newMergedMetrics v layout n) cl = zeroClass" for cl
    by (simp add: classOf_def newMergedMetrics_def)
  moreover have "sumOver g fmempty cl = 0" for g cl by (simp add: sumOver_def keysOf_def)
  ultimately show "balanced (newMergedMetrics v layout n)"
    by (auto simp: balanced_def channel_class(2))
  show "keysShaped fmempty" by (simp add: keysShaped_def)
qed

lemma add_balanced:
  assumes "add m f = Inr m'" and "validateV2AggregateConsistency f = Inr ()" and "balanced m"
  shows "balanced m'"
proof -
  obtain lt md st gap K where
    a: "addClass (mmHistogram m) ClassLossTolerant (classOf m ClassLossTolerant) (fileClass f ClassLossTolerant) = Inr lt"
      "addClass (mmHistogram m) ClassMustDeliver (classOf m ClassMustDeliver) (fileClass f ClassMustDeliver) = Inr md"
      "addHistogram (mmStalenessNS m) (mfStalenessNS f) (mmHistogram m) = Inr st"
    and K: "foldM (addTraffic (mmHistogram m)) (trafficByKey m) (mfTraffic f) = Inr K"
    and m': "m' = m\<lparr>mmClasses := (mmClasses m)(ClassLossTolerant \<mapsto> lt, ClassMustDeliver \<mapsto> md),
        mmStalenessNS := st, mmUpdateGapNS := gap, trafficByKey := K, mmRaw := addRaw (mmRaw m) (mfRaw f)\<rparr>"
    using assms(1) unfolding add_Inr by blast
  have c: "cp (classOf m' cl) = sumOver tp (trafficByKey m') cl"
    if ch: "channel cp tp cm tm" and cl: "cl \<in> set metricClassNames" for cp tp cm tm cl
  proof -
    have "cp (classOf m' cl) = cp (classOf m cl) + cm (fileClass f cl)"
      using cl channel_class(1) [OF ch a(1)] channel_class(1) [OF ch a(2)]
      by (auto simp: m' metricClassNames_def)
    also have "\<dots> = sumOver tp (trafficByKey m) cl + sum_list (ofClass tm cl (mfTraffic f))"
      using assms(3) ch cl file_channel [OF assms(2) cl ch] by (auto simp: balanced_def)
    also have "\<dots> = sumOver tp K cl"
      by (rule sumOver_foldM [OF K channel_additive [OF ch], symmetric])
    finally show ?thesis by (simp add: m')
  qed
  have "bin st i = sumOver (\<lambda>t. bin (taStalenessNS t) i) K ClassLossTolerant" for i
  proof -
    have "bin st i = bin (mmStalenessNS m) i + bin (mfStalenessNS f) i"
      by (rule addHistogram_bin [OF a(3)])
    also have "bin (mfStalenessNS f) i = sum_list (ofClass (\<lambda>t. bin (tmStalenessNS t) i) ClassLossTolerant (mfTraffic f))"
      by (simp add: validateHistogramSum_bin [OF file_shape(1) [OF assms(2)]] sum_list_ofClass_comp)
    finally show ?thesis
      using assms(3) sumOver_foldM [OF K staleness_additive] by (simp add: balanced_def)
  qed
  then show ?thesis using c by (auto simp: balanced_def m')
qed

lemma addTraffic_shaped:
  assumes "addTraffic layout M src = Inr N" and "keysShaped M"
    and "validateTrafficEntry layout' 0 src = Inr ()" and "tmDirection src \<noteq> []"
    and "tmClass src \<in> set metricClassNames"
  shows "keysShaped N"
proof -
  obtain t where t: "addTrafficEntry layout (entryOf M (trafficKey src)) src = Inr t"
    and N: "N = fmupd (trafficKey src) t M"
    using assms(1) by (auto simp: addTraffic_Inr)
  have e: "entryOf M (trafficKey src) = zeroTraffic \<or> entryShaped (trafficKey src) (entryOf M (trafficKey src))"
    using assms(2) by (auto simp: entryOf_def keysShaped_def split: option.split)
  have len: "length (Bins (tmLatencySchedNS src)) = 448" "length (Bins (tmLatencySendNS src)) = 448"
    "length (Bins (tmUpdateGapNS src)) = 448" "length (Bins (tmStalenessNS src)) = 448"
    using assms(3) by (simp_all add: validateTrafficEntry_Inr)
  have "addOptionalHistogram d s layout = Inr h \<Longrightarrow> length (Bins s) = 448 \<Longrightarrow> length (Bins h) = 448" for d s h
    by (auto simp: addOptionalHistogram_def addHistogram_length split: if_splits)
  then have "entryShaped (trafficKey src) t"
    using t e assms(4,5) len
    by (auto simp: addTrafficEntry_Inr entryShaped_def claimEntry_def trafficKey_def addHistogram_length)
  then show ?thesis using assms(2) by (simp add: keysShaped_def N)
qed

lemma add_shaped:
  assumes "add m f = Inr m'" and "validateMetricsFile f allowEmpty = Inr ()" and "keysShaped (trafficByKey m)"
  shows "keysShaped (trafficByKey m')"
    and "mfVersion f = 2 \<Longrightarrow> cl \<in> set metricClassNames \<Longrightarrow> classShaped (classOf m' cl)"
    and "mfVersion f = 2 \<Longrightarrow> length (Bins (mmStalenessNS m')) = 448"
proof -
  have K: "foldM (addTraffic (mmHistogram m)) (trafficByKey m) (mfTraffic f) = Inr (trafficByKey m')"
    using assms(1) by (auto simp: add_Inr)
  have v: "\<forall>t \<in> set (mfTraffic f). tmDirection t \<noteq> [] \<and> tmClass t \<in> set metricClassNames \<and>
      validateTrafficEntry (mfHistogram f) 0 t = Inr ()"
    using validateMetricsFile_Inr(2) [OF assms(2)] known_direction
    by (auto simp: validateTraffic_Inr)
  show "keysShaped (trafficByKey m')"
    by (rule foldM_invariant [OF K, where P = keysShaped]) (use assms(3) v addTraffic_shaped in blast)+
  assume "mfVersion f = 2"
  then have c: "validateV2AggregateConsistency f = Inr ()"
    using validateMetricsFile_Inr(3) [OF assms(2)] by simp
  show "length (Bins (mmStalenessNS m')) = 448"
    using assms(1) file_shape(1) [OF c] by (auto simp: add_Inr validateHistogramSum_Inr addHistogram_length)
  have opt: "addOptionalHistogram d s L = Inr h \<Longrightarrow> length (Bins s) = 448 \<Longrightarrow> length (Bins h) = 448" for d s h L
    by (auto simp: addOptionalHistogram_def addHistogram_length split: if_splits)
  assume cl: "cl \<in> set metricClassNames"
  show "classShaped (classOf m' cl)"
    using assms(1) cl file_shape(2) [OF c cl] opt
    by (auto simp: add_Inr metricClassNames_def classShaped_def addClass_Inr addHistogram_length)
qed

section \<open>Finalization\<close>

lemma finalizeClass_Inr:
  assumes "finalizeClass layout n name c = Inr c'"
  shows "caCounts c' = caCounts c"
    and "caLatencySchedNS c' = finalizeHistogram (caLatencySchedNS c) layout"
    and "caLatencySendNS c' = finalizeHistogram (caLatencySendNS c) layout"
    and "caUpdateGapNS c' = finalizeHistogram (caUpdateGapNS c) layout"
    and "caExpectedReceives c' = expectedReceives (Slots (caCounts c)) (SlotsBroadcast (caCounts c)) n"
    and "DeliveredUnique (caCounts c) \<le> caExpectedReceives c'"
    and "caDeliveryRatio c' = ratioOrOne (DeliveredUnique (caCounts c)) (caExpectedReceives c')"
  using assms by (auto simp: finalizeClass_def Let_def not_less split: if_splits)

lemma finalizeTraffic_Inr:
  assumes "finalizeTraffic layout n k t = Inr t'"
  shows "taCounts t' = taCounts t" and "taTrafficID t' = taTrafficID t"
    and "taDirection t' = taDirection t" and "taClass t' = taClass t"
    and "taLatencySchedNS t' = finalizeHistogram (taLatencySchedNS t) layout"
    and "taLatencySendNS t' = finalizeHistogram (taLatencySendNS t) layout"
    and "taUpdateGapNS t' = finalizeHistogram (taUpdateGapNS t) layout"
    and "taStalenessNS t' = finalizeHistogram (taStalenessNS t) layout"
    and "taExpectedReceives t' = expectedReceives (Slots (taCounts t)) (SlotsBroadcast (taCounts t)) n"
    and "DeliveredUnique (taCounts t) \<le> taExpectedReceives t'"
    and "taDeliveryRatio t' = ratioOrOne (DeliveredUnique (taCounts t)) (taExpectedReceives t')"
  using assms by (auto simp: finalizeTraffic_def Let_def not_less split: if_splits)

lemma finalizeKey_Inr:
  "finalizeKey m k = Inr m' \<longleftrightarrow>
    (\<exists>t. finalizeTraffic (mmHistogram m) (TotalConns m) k (entryOf (trafficByKey m) k) = Inr t \<and>
      m' = m\<lparr>trafficByKey := fmupd k t (trafficByKey m), mmTraffic := mmTraffic m @ [t]\<rparr>)"
  by (auto simp: finalizeKey_def rbind_eq_Inr_iff)

lemma foldM_finalizeKey:
  assumes "foldM finalizeKey m keys = Inr m'" and "distinct keys"
  shows "mmClasses m' = mmClasses m \<and> mmStalenessNS m' = mmStalenessNS m \<and> mmRaw m' = mmRaw m \<and>
    mmVersion m' = mmVersion m \<and> mmHistogram m' = mmHistogram m \<and> TotalConns m' = TotalConns m \<and>
    (\<exists>ts. mmTraffic m' = mmTraffic m @ ts \<and>
      list_all2 (\<lambda>k t. finalizeTraffic (mmHistogram m) (TotalConns m) k (entryOf (trafficByKey m) k) = Inr t) keys ts \<and>
      (\<forall>k. k \<notin> set keys \<longrightarrow> fmlookup (trafficByKey m') k = fmlookup (trafficByKey m) k) \<and>
      (\<forall>(k, t) \<in> set (zip keys ts). fmlookup (trafficByKey m') k = Some t))"
  using assms
proof (induction keys arbitrary: m)
  case (Cons k keys)
  then obtain t where t: "finalizeTraffic (mmHistogram m) (TotalConns m) k (entryOf (trafficByKey m) k) = Inr t"
    and rest: "foldM finalizeKey (m\<lparr>trafficByKey := fmupd k t (trafficByKey m), mmTraffic := mmTraffic m @ [t]\<rparr>) keys = Inr m'"
    by (auto simp: rbind_eq_Inr_iff finalizeKey_Inr)
  have k: "k \<notin> set keys" "distinct keys" using Cons.prems(2) by auto
  from Cons.IH [OF rest k(2)] obtain ts where ts:
    "mmTraffic m' = mmTraffic m @ t # ts"
    "list_all2 (\<lambda>j u. finalizeTraffic (mmHistogram m) (TotalConns m) j (entryOf (fmupd k t (trafficByKey m)) j) = Inr u) keys ts"
    "\<forall>j. j \<notin> set keys \<longrightarrow> fmlookup (trafficByKey m') j = fmlookup (fmupd k t (trafficByKey m)) j"
    "\<forall>(j, u) \<in> set (zip keys ts). fmlookup (trafficByKey m') j = Some u"
    and same: "mmClasses m' = mmClasses m" "mmStalenessNS m' = mmStalenessNS m" "mmRaw m' = mmRaw m"
    "mmVersion m' = mmVersion m" "mmHistogram m' = mmHistogram m" "TotalConns m' = TotalConns m"
    by auto
  have "list_all2 (\<lambda>j u. finalizeTraffic (mmHistogram m) (TotalConns m) j (entryOf (trafficByKey m) j) = Inr u) keys ts"
    by (rule list.rel_mono_strong [OF ts(2)]) (use k(1) in \<open>auto split: if_splits\<close>)
  then show ?case
    using t ts same k(1) by (intro conjI exI [of _ "t # ts"]) auto
qed simp

lemma finalize_Inr:
  assumes "finalize m = Inr m'"
  shows "cl \<in> set metricClassNames \<Longrightarrow>
      finalizeClass (mmHistogram m) (TotalConns m) cl (classOf m cl) = Inr (classOf m' cl) \<and> mmClasses m' cl \<noteq> None"
    and "mmStalenessNS m' = finalizeHistogram (mmStalenessNS m) (mmHistogram m)"
    and "mmRaw m' = mmRaw m" and "mmVersion m' = mmVersion m" and "TotalConns m' = TotalConns m"
    and "mmHistogram m' = mmHistogram m"
    and "list_all2 (\<lambda>k t. finalizeTraffic (mmHistogram m) (TotalConns m) k (entryOf (trafficByKey m) k) = Inr t)
      (sorted_list_of_fset (fmdom (trafficByKey m))) (mmTraffic m')"
    and "\<forall>(k, t) \<in> set (zip (sorted_list_of_fset (fmdom (trafficByKey m))) (mmTraffic m')).
      fmlookup (trafficByKey m') k = Some t"
proof -
  obtain lt md where c: "finalizeClass (mmHistogram m) (TotalConns m) ClassLossTolerant (classOf m ClassLossTolerant) = Inr lt"
    "finalizeClass (mmHistogram m) (TotalConns m) ClassMustDeliver (classOf m ClassMustDeliver) = Inr md"
    and f: "foldM finalizeKey (m\<lparr>mmClasses := (mmClasses m)(ClassLossTolerant \<mapsto> lt, ClassMustDeliver \<mapsto> md),
      mmStalenessNS := finalizeHistogram (mmStalenessNS m) (mmHistogram m),
      mmUpdateGapNS := finalizeHistogram (mmUpdateGapNS m) (mmHistogram m), mmTraffic := []\<rparr>)
      (sorted_list_of_fset (fmdom (trafficByKey m))) = Inr m'"
    using assms
    by (auto simp: finalize_def rbind_eq_Inr_iff metricClassNames_def finalizeClassNamed_def
        classOf_def Let_def)
  have d: "distinct (sorted_list_of_fset (fmdom (trafficByKey m)))"
    by (simp add: sorted_list_of_fset.rep_eq)
  note r = foldM_finalizeKey [OF f d, simplified]
  show "mmStalenessNS m' = finalizeHistogram (mmStalenessNS m) (mmHistogram m)"
    and "mmRaw m' = mmRaw m" and "mmVersion m' = mmVersion m" and "TotalConns m' = TotalConns m"
    and "mmHistogram m' = mmHistogram m"
    and "list_all2 (\<lambda>k t. finalizeTraffic (mmHistogram m) (TotalConns m) k (entryOf (trafficByKey m) k) = Inr t)
      (sorted_list_of_fset (fmdom (trafficByKey m))) (mmTraffic m')"
    and "\<forall>(k, t) \<in> set (zip (sorted_list_of_fset (fmdom (trafficByKey m))) (mmTraffic m')).
      fmlookup (trafficByKey m') k = Some t"
    using r by blast+
  have "mmClasses m' = (mmClasses m)(ClassLossTolerant \<mapsto> lt, ClassMustDeliver \<mapsto> md)" using r by blast
  then show "cl \<in> set metricClassNames \<Longrightarrow>
      finalizeClass (mmHistogram m) (TotalConns m) cl (classOf m cl) = Inr (classOf m' cl) \<and> mmClasses m' cl \<noteq> None"
    using c by (auto simp: metricClassNames_def classOf_def)
qed

section \<open>A merge of version-2 files passes its own consistency check\<close>

lemma sumOver_list:
  assumes "list_all2 R (sorted_list_of_fset (fmdom M)) ts"
    and "\<And>k t. R k t \<Longrightarrow> entryShaped k (entryOf M k) \<Longrightarrow> f t = f (entryOf M k) \<and> taClass t = KeyClass k"
    and "keysShaped M"
  shows "sum_list (ofMergedClass f cl ts) = sumOver f M cl"
proof -
  have *: "sum_list (ofMergedClass f cl us) = (\<Sum>k \<leftarrow> filter (\<lambda>k. KeyClass k = cl) ks. f (entryOf M k))"
    if "list_all2 R ks us" and "\<forall>k \<in> set ks. entryShaped k (entryOf M k)" for ks us
    using that assms(2)
    by (induction ks us rule: list_all2_induct) (auto simp: ofMergedClass_def)
  have sh: "entryShaped k (entryOf M k)" if "k |\<in>| fmdom M" for k
    using that assms(3) by (auto simp: keysShaped_def entryOf_def fmlookup_dom_iff)
  have "set (filter (\<lambda>k. KeyClass k = cl) (sorted_list_of_fset (fmdom M))) = keysOf M cl"
    by (auto simp: keysOf_def)
  moreover have "distinct (sorted_list_of_fset (fmdom M))"
    by (simp add: sorted_list_of_fset.rep_eq)
  ultimately have "(\<Sum>k \<leftarrow> filter (\<lambda>k. KeyClass k = cl) (sorted_list_of_fset (fmdom M)). f (entryOf M k))
      = sumOver f M cl"
    by (simp add: sumOver_def sum_list_distinct_conv_sum_set)
  then show ?thesis using * [OF assms(1)] sh by simp
qed

lemma sum_check_from_bins:
  assumes "length (Bins h) = 448" and "\<forall>p \<in> set parts. length (Bins p) = 448"
    and "Count h = sum_list (Bins h)" and "\<forall>p \<in> set parts. Count p = sum_list (Bins p)"
    and "\<And>i. bin h i = (\<Sum>p \<leftarrow> parts. bin p i)"
  shows "validateHistogramSum h parts = Inr ()"
proof -
  have "Bins h = binsTotal 448 parts"
  proof (rule nth_equalityI)
    fix i assume "i < length (Bins h)"
    then have "i < 448" using assms(1) by simp
    have "map (\<lambda>p. bin p i) parts = map (\<lambda>p. Bins p ! i) parts"
      using assms(2) \<open>i < 448\<close> by (intro map_cong) (auto simp: bin_def)
    then have "(\<Sum>p \<leftarrow> parts. bin p i) = (\<Sum>p \<leftarrow> parts. Bins p ! i)"
      by (simp only:)
    then show "Bins h ! i = binsTotal 448 parts ! i"
      using assms(5) [of i] assms(1) \<open>i < 448\<close> by (simp add: bin_def [of h])
  qed (simp add: assms(1))
  moreover have "map Count parts = map (\<lambda>p. sum_list (Bins p)) parts"
    using assms(4) by (intro map_cong) auto
  then have "sum_list (map Count parts) = (\<Sum>p \<leftarrow> parts. sum_list (Bins p))"
    by (simp only:)
  ultimately show ?thesis
    using assms sum_binsTotal [of parts 448] by (simp add: validateHistogramSum_Inr)
qed

lemma bin_finalize [simp]: "bin (finalizeHistogram h layout) i = bin h i"
  by (simp add: bin_def)

lemma class_keys: "keysShaped M \<Longrightarrow> fmlookup M k = Some t \<Longrightarrow> entryShaped k (entryOf M k)"
  by (simp add: keysShaped_def entryOf_def)

lemma entryShaped_class: "entryShaped k t \<Longrightarrow> taClass t = KeyClass k"
  by (cases k) (simp add: entryShaped_def)

lemma finalized_entry:
  assumes "finalize m = Inr m'" and "keysShaped (trafficByKey m)" and "t \<in> set (mmTraffic m')"
  obtains k where "k |\<in>| fmdom (trafficByKey m)" and "entryShaped k (entryOf (trafficByKey m) k)"
    and "finalizeTraffic (mmHistogram m) (TotalConns m) k (entryOf (trafficByKey m) k) = Inr t"
proof -
  obtain i where i: "i < length (mmTraffic m')" "t = mmTraffic m' ! i"
    using assms(3) by (auto simp: in_set_conv_nth)
  let ?ks = "sorted_list_of_fset (fmdom (trafficByKey m))"
  have l: "length ?ks = length (mmTraffic m')"
    and f: "finalizeTraffic (mmHistogram m) (TotalConns m) (?ks ! i) (entryOf (trafficByKey m) (?ks ! i)) = Inr t"
    using finalize_Inr(7) [OF assms(1)] i by (auto simp: list_all2_conv_all_nth)
  have "?ks ! i \<in> set ?ks" using i l by (intro nth_mem) simp
  then have k: "?ks ! i |\<in>| fmdom (trafficByKey m)" by simp
  then show ?thesis using that f class_keys [OF assms(2)] by (auto simp: fmlookup_dom_iff)
qed

lemma finalized_consistent:
  assumes fin: "finalize m = Inr m'" and bal: "balanced m" and ks: "keysShaped (trafficByKey m)"
    and cs: "\<And>cl. cl \<in> set metricClassNames \<Longrightarrow> classShaped (classOf m cl)"
    and st: "length (Bins (mmStalenessNS m)) = 448" and version: "mmVersion m = 2"
  shows "ValidateMergedMetricsConsistency (Some m') =
    fail_if (TimestampOrderViolations (mmRaw m') \<noteq> 0)
      (SumMismatch ''timestamp_order_violations'' (TimestampOrderViolations (mmRaw m')) 0)"
proof -
  let ?M = "trafficByKey m"
  note fi = finalize_Inr [OF fin]
  have ent: "taClass t \<in> set metricClassNames \<and> (\<forall>h \<in> {taLatencySchedNS t, taLatencySendNS t, taUpdateGapNS t, taStalenessNS t}.
      length (Bins h) = 448 \<and> Count h = sum_list (Bins h))"
    if t: "t \<in> set (mmTraffic m')" for t
  proof -
    obtain k where sh: "entryShaped k (entryOf ?M k)"
      and ft: "finalizeTraffic (mmHistogram m) (TotalConns m) k (entryOf ?M k) = Inr t"
      using finalized_entry [OF fin ks t] by blast
    show ?thesis using sh by (simp add: finalizeTraffic_Inr [OF ft] entryShaped_def)
  qed
  have sums: "sum_list (ofMergedClass f cl (mmTraffic m')) = sumOver f ?M cl"
    if f: "\<And>t t' k. finalizeTraffic (mmHistogram m) (TotalConns m) k t = Inr t' \<Longrightarrow> f t' = f t" for f cl
    by (rule sumOver_list [OF fi(7) _ ks]) (simp add: f finalizeTraffic_Inr(4) entryShaped_class)
  have chan: "cp (classOf m cl) = sum_list (ofMergedClass tp cl (mmTraffic m'))"
    if "channel cp tp cm tm" and "cl \<in> set metricClassNames" for cp tp cm tm cl
  proof -
    have "tp t' = tp t" if "finalizeTraffic (mmHistogram m) (TotalConns m) k t = Inr t'" for k t t'
      using \<open>channel cp tp cm tm\<close> by (cases rule: channel.cases) (simp_all add: finalizeTraffic_Inr [OF that])
    moreover have "cp (classOf m cl) = sumOver tp ?M cl"
      using bal that unfolding balanced_def by blast
    ultimately show ?thesis using sums [of tp cl] by simp
  qed
  have hist: "validateHistogramSum (finalizeHistogram h L) (ofMergedClass p cl (mmTraffic m')) = Inr ()"
    if "length (Bins h) = 448" and "\<And>i. bin h i = sum_list (ofMergedClass (\<lambda>t. bin (p t) i) cl (mmTraffic m'))"
      and "p \<in> {taLatencySchedNS, taLatencySendNS, taUpdateGapNS, taStalenessNS}" for h L p cl
    by (rule sum_check_from_bins) (use that ent in \<open>auto simp: ofMergedClass_def comp_def\<close>)
  have cls: "checkMergedClass m' cl = Inr ()" if cl: "cl \<in> set metricClassNames" for cl
  proof -
    note fc = fi(1) [OF cl]
    note c = finalizeClass_Inr [OF conjunct1 [OF fc]]
    obtain agg where agg: "mmClasses m' cl = Some agg" "classOf m' cl = agg"
      using fc by (auto simp: classOf_def)
    have cnt: "caCounts agg = foldl addClassCounts zeroCounts (ofMergedClass taCounts cl (mmTraffic m'))"
    proof (rule countFields_eqI)
      fix f assume f: "f \<in> set countFields"
      show "f (caCounts agg) = f (foldl addClassCounts zeroCounts (ofMergedClass taCounts cl (mmTraffic m')))"
        using chan [OF channel.counter [OF f] cl] c(1) agg foldl_addClassCounts [OF f, of zeroCounts]
        by (simp add: countFields_add(2) [OF f] ofMergedClass_def comp_def)
    qed
    obtain fld g w where fm: "firstClassCountMismatch (caCounts agg)
        (foldl addClassCounts zeroCounts (ofMergedClass taCounts cl (mmTraffic m'))) = (fld, g, w)"
      by (metis prod_cases3)
    have "fld = []" using firstClassCountMismatch_none [OF fm] cnt by simp
    moreover have "validateHistogramSum (caLatencySchedNS agg) (ofMergedClass taLatencySchedNS cl (mmTraffic m')) = Inr ()"
      "validateHistogramSum (caLatencySendNS agg) (ofMergedClass taLatencySendNS cl (mmTraffic m')) = Inr ()"
      "validateHistogramSum (caUpdateGapNS agg) (ofMergedClass taUpdateGapNS cl (mmTraffic m')) = Inr ()"
      using c(2-4) agg cs [OF cl] chan [OF channel.sched cl] chan [OF channel.send cl] chan [OF channel.gap cl]
      by (auto simp: classShaped_def intro!: hist)
    ultimately show ?thesis by (simp add: checkMergedClass_def agg fm)
  qed
  have stale: "validateHistogramSum (mmStalenessNS m') (ofMergedClass taStalenessNS ClassLossTolerant (mmTraffic m')) = Inr ()"
  proof -
    have "bin (mmStalenessNS m) i =
        sum_list (ofMergedClass (\<lambda>t. bin (taStalenessNS t) i) ClassLossTolerant (mmTraffic m'))" for i
      using bal sums [of "\<lambda>t. bin (taStalenessNS t) i" ClassLossTolerant]
      by (simp add: balanced_def finalizeTraffic_Inr)
    then show ?thesis unfolding fi(2) using st by (intro hist) auto
  qed
  have known: "checkM (\<lambda>t. fail_if (taClass t \<noteq> ClassLossTolerant \<and> taClass t \<noteq> ClassMustDeliver)
      (UnknownClass (taClass t))) (mmTraffic m') = Inr ()"
    using ent by (auto simp: metricClassNames_def)
  have classes: "checkM (checkMergedClass m') metricClassNames = Inr ()" using cls by auto
  show ?thesis by (simp add: ValidateMergedMetricsConsistency_def fi(4) version known classes stale)
qed

text \<open>The violations of timestamp order add up over the artifacts.\<close>

definition violationsOf :: "('a \<Rightarrow> metrics_error + metricsFile) \<Rightarrow> 'a \<Rightarrow> u64" where
  "violationsOf parse a = (case parse a of Inl _ \<Rightarrow> 0 | Inr f \<Rightarrow> TimestampOrderViolations (mfRaw f))"

definition countedViolations :: "int \<times> MergedMetrics option \<Rightarrow> u64" where
  "countedViolations st = (case snd st of None \<Rightarrow> 0 | Some m \<Rightarrow> TimestampOrderViolations (mmRaw m))"

lemma add_violations:
  "add m f = Inr m' \<Longrightarrow> TimestampOrderViolations (mmRaw m') = TimestampOrderViolations (mmRaw m) + TimestampOrderViolations (mfRaw f)"
  by (auto simp: add_Inr addRaw_def)

lemma mergeStep_violations:
  "mergeStep name parse n st a = Inr st' \<Longrightarrow> countedViolations st' = countedViolations st + violationsOf parse a"
  by (auto simp: mergeStep_def rbind_eq_Inr_iff countedViolations_def violationsOf_def zeroRaw_def
      dest!: add_violations split: option.splits if_splits)

lemma merged_violations:
  "foldM (mergeStep name parse n) st as = Inr st' \<Longrightarrow>
    countedViolations st' = countedViolations st + (\<Sum>a \<leftarrow> as. violationsOf parse a)"
  by (induction as arbitrary: st) (auto simp: rbind_eq_Inr_iff mergeStep_violations add.assoc)

lemma mergeStep_invariant:
  assumes "merging st" and "mergeStep name parse n st a = Inr st'"
    and "\<And>f. parse a = Inr f \<Longrightarrow> validateMetricsFile f False = Inr () \<and> mfVersion f = 2"
    and "\<forall>m. snd st = Some m \<longrightarrow> balanced m \<and> keysShaped (trafficByKey m)"
  shows "\<exists>m. snd st' = Some m \<and> balanced m \<and> keysShaped (trafficByKey m) \<and> mmVersion m = 2 \<and>
    (\<forall>cl \<in> set metricClassNames. classShaped (classOf m cl)) \<and> length (Bins (mmStalenessNS m)) = 448"
proof -
  obtain f m where f: "parse a = Inr f" and m: "add (startOf n st f) f = Inr m" and st': "st' = (mfVersion f, Some m)"
    and same: "\<And>m0. snd st = Some m0 \<Longrightarrow> mfVersion f = mmVersion m0"
    using assms(2) [unfolded mergeStep_Inr [OF assms(1)]] by auto
  note v = conjunct1 [OF assms(3) [OF f]] and v2 = conjunct2 [OF assms(3) [OF f]]
  have b: "balanced (startOf n st f)" and k: "keysShaped (trafficByKey (startOf n st f))"
    using assms(4) newMergedMetrics_balanced by (auto simp: startOf_def split: option.split)
  have "mmVersion m = 2"
    using add_keeps [OF m] v2 same by (auto simp: startOf_def split: option.splits)
  then show ?thesis
    using add_balanced [OF m validateMetricsFile_Inr(3) [OF v v2] b] add_shaped [OF m v k] v2 st' by simp
qed

end
