(* ===== verification/MetricsProperties.thy ===== *)
theory MetricsProperties
  imports Metrics
begin

text \<open>
  The properties of the metrics merge: order independence, the version-2 accounting contract of
  the merged result, the published ratios and series, and what validation of a file guarantees,
  with a sample file on which each is applied.
\<close>

definition emptyHistogram :: Histogram where
  "emptyHistogram = sampleHistogram\<lparr>Count := 0, Bins := replicate 448 0\<rparr>"

definition sampleCounts :: ClassCounts where
  "sampleCounts = \<lparr>Slots = 10, SlotsBroadcast = 2, Submitted = 9, DeliveredUnique = 6, Duplicates = 1,
     DeadlineHit = 5, ExpectedFlows = 4, ObservedFlows = 3, NeverReceivedFlows = 1\<rparr>"

definition sampleFile :: metricsFile where
  "sampleFile = \<lparr>mfVersion = 2, mfHistogram = v2Layout,
     mfClasses = Some [(ClassMustDeliver, \<lparr>cmCounts = zeroCounts, cmLatencySchedNS = emptyHistogram,
         cmLatencySendNS = emptyHistogram, cmUpdateGapNS = emptyHistogram\<rparr>),
       (ClassLossTolerant, \<lparr>cmCounts = sampleCounts, cmLatencySchedNS = sampleHistogram,
         cmLatencySendNS = sampleHistogram, cmUpdateGapNS = sampleHistogram\<rparr>)],
     mfStalenessNS = sampleHistogram, mfUpdateGapNS = zeroHistogram,
     mfRaw = \<lparr>rSlots = 10, rSubmitted = 9, RecvMeasured = 6, RecvUnmeasured = 1, TimestampOrderViolations = 0\<rparr>,
     mfTraffic = [\<lparr>tmTrafficID = 1, tmDirection = DirectionRoomRelay, tmClass = ClassLossTolerant,
       tmDeadlineNS = 5000, tmCounts = sampleCounts, tmLatencySchedNS = sampleHistogram,
       tmLatencySendNS = sampleHistogram, tmUpdateGapNS = sampleHistogram, tmStalenessNS = sampleHistogram\<rparr>]\<rparr>"

lemma sample_valid [simp]:
  "validateV2Histogram sampleHistogram v2Layout = Inr ()"
  "validateV2Histogram emptyHistogram v2Layout = Inr ()"
  "validateHistogramSum sampleHistogram [sampleHistogram] = Inr ()"
  "validateHistogramSum emptyHistogram [] = Inr ()"
  using sampleHistogram_sums sampleHistogram_layout
  by (simp_all add: validateHistogramSum_Inr binsTotal_single binsTotal_Nil emptyHistogram_def
      sum_list_replicate layout_agrees_def)

lemma sample_added [simp]:
  "addHistogram zeroHistogram sampleHistogram v2Layout = Inr sampleHistogram"
  "addHistogram zeroHistogram emptyHistogram v2Layout = Inr emptyHistogram"
  "addOptionalHistogram zeroHistogram sampleHistogram v2Layout = Inr sampleHistogram"
  "addOptionalHistogram zeroHistogram emptyHistogram v2Layout = Inr emptyHistogram"
  "addOptionalHistogram zeroHistogram zeroHistogram v2Layout = Inr zeroHistogram"
  by (simp_all add: addOptionalHistogram_def addHistogram_Inr sampleHistogram_def emptyHistogram_def
      zeroHistogram_def layout_agrees_def)

lemma sampleFile_valid: "validateMetricsFile sampleFile False = Inr ()"
  by (simp add: validateMetricsFile_def sampleFile_def metricClassNames_def fail_if_def
      validateV2Histograms_def validateTraffic_Inr validateTrafficEntry_Inr validateClassCounts_def
      sampleCounts_def zeroCounts_def DirectionRoomRelay_def zeroHistogram_def
      validateV2AggregateConsistency_def checkClassSums_def fileClass_def ofClass_def countSums_def
      firstClassCountMismatch_def addClassCounts_def Let_def)

lemma sorted_single [simp]: "sorted_list_of_fset {|k|} = [k :: 'a :: linorder]"
  by (simp add: sorted_list_of_fset.rep_eq)

text \<open>Merging the sample file succeeds.\<close>

definition sampleParse :: "string \<times> metricsFile \<Rightarrow> metrics_error + metricsFile" where
  "sampleParse a = (if validateMetricsFile (snd a) False = Inr () then Inr (snd a) else Inl (Undecodable (fst a)))"

lemma sampleParse_valid: "sampleParse a = Inr f \<Longrightarrow> validateMetricsFile f False = Inr ()"
  by (auto simp: sampleParse_def split: if_splits)

lemma sample_merges:
  "\<exists>m. MergeMetricsData fst sampleParse [(''a'', sampleFile)] 3 = Inr m \<and>
     TimestampOrderViolations (mmRaw m) = 0"
  by (simp add: MergeMetricsData_def mergeStep_def sampleParse_def sampleFile_valid)
    (simp add: sampleFile_def add_def metricClassNames_def addClassNamed_def addClass_def classOf_def
      fileClass_def addTraffic_def addTrafficEntry_def entryOf_def trafficKey_def Let_def
      newMergedMetrics_def finalize_def finalizeClassNamed_def finalizeClass_def finalizeKey_def
      finalizeTraffic_def expectedReceives_def addClassCounts_def sampleCounts_def zeroCounts_def
      zeroRaw_def addRaw_def)

section \<open>Ratios\<close>

lemma ratioOrOne_unit:
  assumes "a \<le> b"
  obtains r where "ratioOrOne a b = FFin r" and "0 \<le> r" and "r \<le> 1"
proof (cases "b = 0")
  case False
  have ab: "(of_nat (unat a) :: rat) \<le> of_nat (unat b)" "(1 :: rat) \<le> of_nat (unat b)"
  proof -
    show "(of_nat (unat a) :: rat) \<le> of_nat (unat b)"
      using assms by (simp only: of_nat_le_iff word_le_nat_alt)
    have "1 \<le> unat b" using False by (simp add: Suc_leI unat_gt_0)
    then have "(of_nat 1 :: rat) \<le> of_nat (unat b)" by (simp only: of_nat_le_iff)
    then show "(1 :: rat) \<le> of_nat (unat b)" by simp
  qed
  define x where "x = rnd64 (of_nat (unat a))"
  define y where "y = rnd64 (of_nat (unat b))"
  have x: "0 \<le> x" "x \<le> y"
    unfolding x_def y_def
    by (rule rnd64_nonneg, rule of_nat_0_le_iff) (rule rnd64_mono, rule ab(1))
  have y: "1 \<le> y" unfolding y_def using rnd64_mono [OF ab(2)] by simp
  have q: "0 \<le> x / y" "x / y \<le> 1" using x y by (simp_all add: divide_le_eq)
  have "ratioOrOne a b = f_of_rat (x / y)"
    using False y by (simp add: ratioOrOne_def f_of_u64_fin x_def y_def del: of_nat_unat)
  also have "\<dots> = FFin (rnd64 (x / y))" using q by (intro fraction_value(1))
  finally show ?thesis using that fraction_value [OF q] by blast
qed (use that [of 1] in \<open>simp add: ratioOrOne_def\<close>)

definition unitRatio :: "f64 \<Rightarrow> bool" where
  "unitRatio r \<longleftrightarrow> f_le (FFin 0) r \<and> f_le r (FFin 1)"

lemma unitRatio_ratioOrOne: "a \<le> b \<Longrightarrow> unitRatio (ratioOrOne a b)"
  by (rule ratioOrOne_unit [of a b]) (simp_all add: unitRatio_def)

section \<open>Properties of the merge\<close>

lemma valid_acceptable:
  assumes "\<And>f. parse a = Inr f \<Longrightarrow> validateMetricsFile f False = Inr ()"
  shows "acceptable parse a"
proof -
  have "mfVersion f \<noteq> 0 \<and> (\<forall>t \<in> set (mfTraffic f). tmDirection t \<noteq> [])" if "parse a = Inr f" for f
    using validateMetricsFile_Inr [OF assms [OF that]] known_direction
    by (auto simp: validateTraffic_Inr)
  then show ?thesis by (simp add: acceptable_def)
qed

lemma MergeMetricsData_Inr:
  assumes "MergeMetricsData name parse as n = Inr m"
  obtains st m0 where "as \<noteq> []" and "foldM (mergeStep name parse n) (0, None) as = Inr st"
    and "snd st = Some m0" and "finalize m0 = Inr m"
  using assms that
  by (auto simp: MergeMetricsData_def rbind_eq_Inr_iff split: if_splits option.splits)

lemma merge_last:
  assumes "foldM (mergeStep name parse n) (0, None) as = Inr st" and "as \<noteq> []"
    and "\<And>a f. a \<in> set as \<Longrightarrow> parse a = Inr f \<Longrightarrow> validateMetricsFile f False = Inr ()"
  obtains pre where "merging pre" and "mergeStep name parse n pre (last as) = Inr st"
    and "foldM (mergeStep name parse n) (0, None) (butlast as) = Inr pre"
proof -
  have "foldM (mergeStep name parse n) (0, None) (butlast as @ [last as]) = Inr st"
    using assms(1,2) by simp
  then obtain pre where p: "foldM (mergeStep name parse n) (0, None) (butlast as) = Inr pre"
    "mergeStep name parse n pre (last as) = Inr st"
    unfolding foldM_append by (auto simp: rbind_eq_Inr_iff)
  moreover have "\<forall>a \<in> set (butlast as). acceptable parse a"
    using assms(3) by (blast dest: in_set_butlastD intro: valid_acceptable)
  then have "merging pre"
    by (intro merge.fold_good [OF p(1)]) (simp_all add: merging_def)
  ultimately show ?thesis using that by blast
qed

lemma merge_keysShaped:
  assumes "foldM (mergeStep name parse n) (0, None) as = Inr st"
    and "\<And>a f. a \<in> set as \<Longrightarrow> parse a = Inr f \<Longrightarrow> validateMetricsFile f False = Inr ()"
  shows "merging st \<and> (\<forall>m. snd st = Some m \<longrightarrow> keysShaped (trafficByKey m))"
proof (rule foldM_invariant [OF assms(1), where P = "\<lambda>st. merging st \<and> (\<forall>m. snd st = Some m \<longrightarrow> keysShaped (trafficByKey m))"])
  show "merging (0, None) \<and> (\<forall>m. snd (0 :: int, None) = Some m \<longrightarrow> keysShaped (trafficByKey m))"
    by (simp add: merging_def)
  fix st a t
  assume a: "a \<in> set as" and inv: "merging st \<and> (\<forall>m. snd st = Some m \<longrightarrow> keysShaped (trafficByKey m))"
    and step: "mergeStep name parse n st a = Inr t"
  obtain f m where f: "parse a = Inr f" "add (startOf n st f) f = Inr m" "t = (mfVersion f, Some m)"
    using step [unfolded mergeStep_Inr [OF conjunct1 [OF inv]]] by auto
  have "keysShaped (trafficByKey (startOf n st f))"
    using inv newMergedMetrics_balanced(2) by (auto simp: startOf_def split: option.split)
  then show "merging t \<and> (\<forall>m. snd t = Some m \<longrightarrow> keysShaped (trafficByKey m))"
    using add_shaped(1) [OF f(2) assms(2) [OF a f(1)]] f(3) inv
      merging_step [OF conjunct1 [OF inv] valid_acceptable step] assms(2) [OF a] by auto
qed

lemma merge_order_independent:
  assumes "mset as = mset bs"
    and "\<And>a f. a \<in> set as \<Longrightarrow> parse a = Inr f \<Longrightarrow> validateMetricsFile f False = Inr ()"
  shows "success (MergeMetricsData name parse as n) = success (MergeMetricsData name parse bs n)"
  by (rule MergeMetricsData_permutation [OF assms(1)]) (use assms(2) in \<open>blast intro: valid_acceptable\<close>)

text \<open>
  C6. What merging validated version-2 files produces satisfies the version-2 accounting contract that is
  checked again on a persisted result, as far as the files do: their count of timestamp order violations,
  added up in 64 bits, is the only thing in them that \<open>ValidateMergedMetricsConsistency\<close> can refuse. It accepts the
  merged metrics when that sum is zero and reports it otherwise.
\<close>

theorem merged_metrics_consistent:
  assumes "MergeMetricsData name parse as n = Inr m"
    and "\<And>a f. a \<in> set as \<Longrightarrow> parse a = Inr f \<Longrightarrow> validateMetricsFile f False = Inr () \<and> mfVersion f = 2"
  shows "ValidateMergedMetricsConsistency (Some m) =
    (let violations = (\<Sum>a \<leftarrow> as. case parse a of Inl _ \<Rightarrow> 0 | Inr f \<Rightarrow> TimestampOrderViolations (mfRaw f))
     in if violations = 0 then Inr () else Inl (SumMismatch ''timestamp_order_violations'' violations 0))"
proof -
  obtain st m0 where ne: "as \<noteq> []" and fold: "foldM (mergeStep name parse n) (0, None) as = Inr st"
    and m0: "snd st = Some m0" "finalize m0 = Inr m"
    using MergeMetricsData_Inr [OF assms(1)] .
  obtain pre where pre: "merging pre" "mergeStep name parse n pre (last as) = Inr st"
    and fp: "foldM (mergeStep name parse n) (0, None) (butlast as) = Inr pre"
    using merge_last [OF fold ne] assms(2) by blast
  have inv: "merging pre \<and> (\<forall>m. snd pre = Some m \<longrightarrow> balanced m \<and> keysShaped (trafficByKey m))"
  proof (rule foldM_invariant [OF fp, where P = "\<lambda>st. merging st \<and> (\<forall>m. snd st = Some m \<longrightarrow> balanced m \<and> keysShaped (trafficByKey m))"])
    fix s a t
    assume a: "a \<in> set (butlast as)" and i: "merging s \<and> (\<forall>m. snd s = Some m \<longrightarrow> balanced m \<and> keysShaped (trafficByKey m))"
      and s: "mergeStep name parse n s a = Inr t"
    have v: "\<And>f. parse a = Inr f \<Longrightarrow> validateMetricsFile f False = Inr () \<and> mfVersion f = 2"
      using assms(2) a by (blast dest: in_set_butlastD)
    show "merging t \<and> (\<forall>m. snd t = Some m \<longrightarrow> balanced m \<and> keysShaped (trafficByKey m))"
      using mergeStep_invariant [OF conjunct1 [OF i] s v conjunct2 [OF i]]
        merging_step [OF conjunct1 [OF i] valid_acceptable s] v by auto
  qed (simp add: merging_def)
  have v: "\<And>f. parse (last as) = Inr f \<Longrightarrow> validateMetricsFile f False = Inr () \<and> mfVersion f = 2"
    using assms(2) [OF last_in_set [OF ne]] by blast
  have "ValidateMergedMetricsConsistency (Some m) = fail_if (TimestampOrderViolations (mmRaw m) \<noteq> 0)
      (SumMismatch ''timestamp_order_violations'' (TimestampOrderViolations (mmRaw m)) 0)"
    using mergeStep_invariant [OF pre v] inv m0 by (intro finalized_consistent [OF m0(2)]) auto
  moreover have "TimestampOrderViolations (mmRaw m) = (\<Sum>a \<leftarrow> as. violationsOf parse a)"
    using merged_violations [OF fold] m0(1) finalize_Inr(3) [OF m0(2)] by (simp add: countedViolations_def)
  ultimately show ?thesis by (simp add: fail_if_def violationsOf_def Let_def)
qed

lemma sampleParse_version: "sampleParse (n, sampleFile) = Inr f \<Longrightarrow> validateMetricsFile f False = Inr () \<and> mfVersion f = 2"
  by (simp add: sampleParse_def sampleFile_valid) (auto simp: sampleFile_valid, simp add: sampleFile_def)

text \<open>A file that reports two violations.\<close>

definition lateFile :: metricsFile where
  "lateFile = sampleFile\<lparr>mfRaw := (mfRaw sampleFile)\<lparr>TimestampOrderViolations := 2\<rparr>\<rparr>"

lemma lateFile_valid: "validateMetricsFile lateFile False = Inr ()" "mfVersion lateFile = 2"
  by (simp_all add: lateFile_def validateMetricsFile_def sampleFile_def metricClassNames_def fail_if_def
      validateV2Histograms_def validateTraffic_Inr validateTrafficEntry_Inr validateClassCounts_def
      sampleCounts_def zeroCounts_def DirectionRoomRelay_def zeroHistogram_def
      validateV2AggregateConsistency_def checkClassSums_def fileClass_def ofClass_def countSums_def
      firstClassCountMismatch_def addClassCounts_def Let_def)

lemma late_merges: "\<exists>m. MergeMetricsData fst sampleParse [(''a'', lateFile)] 3 = Inr m"
  by (simp add: MergeMetricsData_def mergeStep_def sampleParse_def lateFile_valid(1))
    (simp add: lateFile_def sampleFile_def add_def metricClassNames_def addClassNamed_def addClass_def classOf_def
      fileClass_def addTraffic_def addTrafficEntry_def entryOf_def trafficKey_def Let_def
      newMergedMetrics_def finalize_def finalizeClassNamed_def finalizeClass_def finalizeKey_def
      finalizeTraffic_def expectedReceives_def addClassCounts_def sampleCounts_def zeroCounts_def)

lemma merged_metrics_consistent_witness:
  "\<exists>m late. MergeMetricsData fst sampleParse [(''a'', sampleFile)] 3 = Inr m \<and>
     ValidateMergedMetricsConsistency (Some m) = Inr () \<and>
     MergeMetricsData fst sampleParse [(''a'', lateFile)] 3 = Inr late \<and>
     ValidateMergedMetricsConsistency (Some late) = Inl (SumMismatch ''timestamp_order_violations'' 2 0)"
proof -
  obtain m late where m: "MergeMetricsData fst sampleParse [(''a'', sampleFile)] 3 = Inr m"
      "MergeMetricsData fst sampleParse [(''a'', lateFile)] 3 = Inr late"
    using sample_merges late_merges by blast
  have late: "validateMetricsFile f False = Inr () \<and> mfVersion f = 2" if "sampleParse (n, lateFile) = Inr f" for n f
    using that lateFile_valid by (simp add: sampleParse_def)
  have "ValidateMergedMetricsConsistency (Some m) = Inr ()"
    using merged_metrics_consistent [OF m(1)] sampleParse_version
    by (auto simp: sampleParse_def sampleFile_valid Let_def) (auto simp: sampleFile_def zeroRaw_def)
  moreover have "ValidateMergedMetricsConsistency (Some late) = Inl (SumMismatch ''timestamp_order_violations'' 2 0)"
    using merged_metrics_consistent [OF m(2)] late
    by (auto simp: sampleParse_def lateFile_valid Let_def) (auto simp: lateFile_def)
  ultimately show ?thesis using m by blast
qed

lemma finalized_class:
  assumes "finalize m0 = Inr m" and "cl \<in> set metricClassNames"
  shows "\<exists>c. mmClasses m cl = Some c \<and>
    DeliveredUnique (caCounts c) \<le> caExpectedReceives c \<and>
    caExpectedReceives c = expectedReceives (Slots (caCounts c)) (SlotsBroadcast (caCounts c)) (TotalConns m) \<and>
    caDeliveryRatio c = ratioOrOne (DeliveredUnique (caCounts c)) (caExpectedReceives c) \<and>
    unitRatio (caDeliveryRatio c)"
proof -
  obtain c where c: "mmClasses m cl = Some c" "classOf m cl = c"
    using finalize_Inr(1) [OF assms] by (auto simp: classOf_def)
  note k = finalizeClass_Inr [OF conjunct1 [OF finalize_Inr(1) [OF assms]], unfolded c(2)]
  show ?thesis
    using c(1) k(1,5,6,7) finalize_Inr(5) [OF assms(1)] by (auto intro: unitRatio_ratioOrOne)
qed

definition keyOf :: "TrafficAggregate \<Rightarrow> TrafficKey" where
  "keyOf t = TrafficKey (taTrafficID t) (taDirection t) (taClass t)"

lemma finalized_keyed:
  assumes fin: "finalize m0 = Inr m" and ks: "keysShaped (trafficByKey m0)" and i: "i < length (mmTraffic m)"
  shows "sorted_list_of_fset (fmdom (trafficByKey m0)) ! i = keyOf (mmTraffic m ! i)"
    and "fmlookup (trafficByKey m) (keyOf (mmTraffic m ! i)) = Some (mmTraffic m ! i)"
    and "finalizeTraffic (mmHistogram m0) (TotalConns m0) (keyOf (mmTraffic m ! i))
      (entryOf (trafficByKey m0) (keyOf (mmTraffic m ! i))) = Inr (mmTraffic m ! i)"
proof -
  let ?ks = "sorted_list_of_fset (fmdom (trafficByKey m0))" and ?t = "mmTraffic m ! i"
  have l: "length ?ks = length (mmTraffic m)"
    and f: "finalizeTraffic (mmHistogram m0) (TotalConns m0) (?ks ! i) (entryOf (trafficByKey m0) (?ks ! i)) = Inr ?t"
    using finalize_Inr(7) [OF fin] i by (auto simp: list_all2_conv_all_nth)
  have "?ks ! i \<in> set ?ks" using i l by (intro nth_mem) simp
  then have "entryShaped (?ks ! i) (entryOf (trafficByKey m0) (?ks ! i))"
    using class_keys [OF ks] by (auto simp: fmlookup_dom_iff)
  then show k: "?ks ! i = keyOf ?t"
    using finalizeTraffic_Inr(2,3,4) [OF f] by (simp add: entryShaped_def keyOf_def)
  have "(?ks ! i, ?t) \<in> set (zip ?ks (mmTraffic m))"
    using i l by (auto simp: in_set_zip)
  then show "fmlookup (trafficByKey m) (keyOf ?t) = Some ?t"
    using finalize_Inr(8) [OF fin] by (auto simp: k)
  show "finalizeTraffic (mmHistogram m0) (TotalConns m0) (keyOf ?t) (entryOf (trafficByKey m0) (keyOf ?t)) = Inr ?t"
    using f unfolding k .
qed

lemma finalized_series:
  assumes "finalize m0 = Inr m" and "keysShaped (trafficByKey m0)" and "t \<in> set (mmTraffic m)"
  shows "DeliveredUnique (taCounts t) \<le> taExpectedReceives t"
    and "taDeliveryRatio t = ratioOrOne (DeliveredUnique (taCounts t)) (taExpectedReceives t)"
    and "TrafficMetric (Some m) (taTrafficID t) (taDirection t) (taClass t) = Some t"
proof -
  obtain i where i: "i < length (mmTraffic m)" "t = mmTraffic m ! i"
    using assms(3) by (auto simp: in_set_conv_nth)
  note k = finalized_keyed [OF assms(1,2) i(1), folded i(2)]
  show "DeliveredUnique (taCounts t) \<le> taExpectedReceives t"
    and "taDeliveryRatio t = ratioOrOne (DeliveredUnique (taCounts t)) (taExpectedReceives t)"
    using finalizeTraffic_Inr(1,10,11) [OF k(3)] by simp_all
  show "TrafficMetric (Some m) (taTrafficID t) (taDirection t) (taClass t) = Some t"
    using k(2) by (simp add: TrafficMetric_def keyOf_def)
qed

lemma finalized_sorted:
  assumes "finalize m0 = Inr m" and "keysShaped (trafficByKey m0)"
  shows "sorted_wrt (<) (map keyOf (mmTraffic m))"
proof -
  have "map keyOf (mmTraffic m) = sorted_list_of_fset (fmdom (trafficByKey m0))"
    by (rule nth_equalityI)
      (use finalize_Inr(7) [OF assms(1)] finalized_keyed(1) [OF assms] in \<open>auto simp: list_all2_lengthD\<close>)
  then show ?thesis by (simp add: sorted_list_of_fset.rep_eq)
qed

text \<open>
  C17. The published numbers of a successful merge make sense: in both classes and in every
  traffic series the unique deliveries do not exceed the expected receives and the delivery
  ratio is their quotient, a number in the unit interval; the series are listed in strictly
  increasing key order, and each is found by its key.
\<close>

theorem merged_metrics_published:
  assumes "MergeMetricsData name parse as n = Inr m"
    and "\<And>a f. a \<in> set as \<Longrightarrow> parse a = Inr f \<Longrightarrow> validateMetricsFile f False = Inr ()"
  shows "(\<forall>cl \<in> set metricClassNames. \<exists>c. mmClasses m cl = Some c \<and>
      DeliveredUnique (caCounts c) \<le> caExpectedReceives c \<and>
      caExpectedReceives c = expectedReceives (Slots (caCounts c)) (SlotsBroadcast (caCounts c)) (TotalConns m) \<and>
      caDeliveryRatio c = ratioOrOne (DeliveredUnique (caCounts c)) (caExpectedReceives c) \<and>
      unitRatio (caDeliveryRatio c)) \<and>
    (\<forall>t \<in> set (mmTraffic m). DeliveredUnique (taCounts t) \<le> taExpectedReceives t \<and>
      taDeliveryRatio t = ratioOrOne (DeliveredUnique (taCounts t)) (taExpectedReceives t) \<and>
      unitRatio (taDeliveryRatio t) \<and>
      TrafficMetric (Some m) (taTrafficID t) (taDirection t) (taClass t) = Some t) \<and>
    sorted_wrt (<) (map keyOf (mmTraffic m))"
proof -
  obtain st m0 where fold: "foldM (mergeStep name parse n) (0, None) as = Inr st"
    and m0: "snd st = Some m0" and fin: "finalize m0 = Inr m"
    using MergeMetricsData_Inr [OF assms(1)] .
  have ks: "keysShaped (trafficByKey m0)"
    using merge_keysShaped [where as = as, OF fold] assms(2) m0 by blast
  have "unitRatio (taDeliveryRatio t)" if "t \<in> set (mmTraffic m)" for t
    using finalized_series(1,2) [OF fin ks that] unitRatio_ratioOrOne by simp
  then show ?thesis
    using finalized_class [OF fin] finalized_series [OF fin ks] finalized_sorted [OF fin ks] by blast
qed

lemma merged_metrics_published_witness:
  "\<exists>m. MergeMetricsData fst sampleParse [(''a'', sampleFile)] 3 = Inr m \<and>
     sorted_wrt (<) (map keyOf (mmTraffic m))"
proof -
  obtain m where m: "MergeMetricsData fst sampleParse [(''a'', sampleFile)] 3 = Inr m"
    using sample_merges by blast
  show ?thesis using merged_metrics_published [OF m sampleParse_valid] m by auto
qed

lemma guarded_difference_bound:
  fixes v a b :: u64
  shows "\<not> (a < v \<and> b < v - a) \<longleftrightarrow> unat v \<le> unat a + unat b"
proof (cases "a < v")
  case True
  then have "unat (v - a) = unat v - unat a" by (intro unat_sub) simp
  then show ?thesis using True by (auto simp: word_less_nat_alt)
next
  case False
  then show ?thesis by (simp add: word_less_nat_alt)
qed

text \<open>
  C14. A version-2 file that passes validation accounts for itself: its traffic keys are
  distinct, every counter of a class is the sum of that counter over the class's series, every
  class histogram is the bin-wise sum of the series' histograms, and the timestamp order
  violations exceed neither the measured receives nor, without any wrap-around, the unique
  deliveries of the two classes together.
\<close>

theorem valid_v2_file_accounts:
  assumes "validateMetricsFile f allowEmpty = Inr ()" and "mfVersion f = 2"
  shows "distinct (map trafficKey (mfTraffic f)) \<and>
    (\<forall>cl \<in> set metricClassNames.
      (\<forall>g \<in> set countFields. g (cmCounts (fileClass f cl)) = sum_list (ofClass (\<lambda>t. g (tmCounts t)) cl (mfTraffic f))) \<and>
      Bins (cmLatencySchedNS (fileClass f cl)) = binsTotal v2HistogramBins (ofClass tmLatencySchedNS cl (mfTraffic f)) \<and>
      Bins (cmLatencySendNS (fileClass f cl)) = binsTotal v2HistogramBins (ofClass tmLatencySendNS cl (mfTraffic f)) \<and>
      Bins (cmUpdateGapNS (fileClass f cl)) = binsTotal v2HistogramBins (ofClass tmUpdateGapNS cl (mfTraffic f))) \<and>
    TimestampOrderViolations (mfRaw f) \<le> RecvMeasured (mfRaw f) \<and>
    unat (TimestampOrderViolations (mfRaw f)) \<le>
      unat (DeliveredUnique (cmCounts (fileClass f ClassLossTolerant))) +
      unat (DeliveredUnique (cmCounts (fileClass f ClassMustDeliver)))"
proof -
  note c = validateMetricsFile_Inr(3) [OF assms]
  have cls: "checkClassSums cl (fileClass f cl) (mfTraffic f) = Inr ()" if "cl \<in> set metricClassNames" for cl
    using c that by (auto simp: validateV2AggregateConsistency_def rbind_eq_Inr_iff Let_def)
  have sums: "g (cmCounts (fileClass f cl)) = sum_list (ofClass (\<lambda>t. g (tmCounts t)) cl (mfTraffic f))"
    if "cl \<in> set metricClassNames" "g \<in> set countFields" for cl g
    using file_channel [OF c that(1) channel.counter [OF that(2)]] .
  have "\<not> (DeliveredUnique (countSums ClassLossTolerant (mfTraffic f)) < TimestampOrderViolations (mfRaw f) \<and>
      DeliveredUnique (countSums ClassMustDeliver (mfTraffic f)) <
        TimestampOrderViolations (mfRaw f) - DeliveredUnique (countSums ClassLossTolerant (mfTraffic f)))"
    and "TimestampOrderViolations (mfRaw f) \<le> RecvMeasured (mfRaw f)"
    using c by (auto simp: validateV2AggregateConsistency_def rbind_eq_Inr_iff Let_def)
  note bound = this(1) [unfolded guarded_difference_bound] and measured = this(2)
  have "cmCounts (fileClass f ClassLossTolerant) = countSums ClassLossTolerant (mfTraffic f)"
    "cmCounts (fileClass f ClassMustDeliver) = countSums ClassMustDeliver (mfTraffic f)"
    using checkClassSums_Inr(1) [OF cls] by (simp_all add: metricClassNames_def)
  moreover have "distinct (map trafficKey (mfTraffic f))"
    using validateMetricsFile_Inr(2) [OF assms(1)] by (simp add: validateTraffic_Inr)
  ultimately show ?thesis
    using sums bound measured checkClassSums_Inr(2-4) [OF cls]
    by (simp add: validateHistogramSum_Inr v2HistogramBins_def)
qed

lemma valid_v2_file_accounts_witness:
  "distinct (map trafficKey (mfTraffic sampleFile)) \<and>
   unat (TimestampOrderViolations (mfRaw sampleFile)) \<le>
      unat (DeliveredUnique (cmCounts (fileClass sampleFile ClassLossTolerant))) +
      unat (DeliveredUnique (cmCounts (fileClass sampleFile ClassMustDeliver)))"
proof -
  have "mfVersion sampleFile = 2" by (simp add: sampleFile_def)
  from valid_v2_file_accounts [OF sampleFile_valid this] show ?thesis by simp
qed

end
