(* ===== verification/GoText.thy ===== *)
theory GoText
  imports GoBase
begin

text \<open>
  Decimal text: \<open>strconv.Itoa\<close> and the \<open>%d\<close> verb (\<open>itoa\<close>), \<open>strconv.Atoi\<close> and the integer
  literals of JSON (\<open>atoi\<close>, \<open>parseDigits\<close>), \<open>strings.Split\<close>, \<open>strings.TrimSpace\<close>,
  \<open>strings.HasPrefix\<close> and \<open>strings.Join\<close>, with the round trip of printing and parsing.
\<close>

section \<open>Digits\<close>

definition digitChar :: "nat \<Rightarrow> char" where
  "digitChar d = char_of (48 + d)"

definition digitValue :: "char \<Rightarrow> nat option" where
  "digitValue c = (let n = (of_char c :: nat) in if 48 \<le> n \<and> n \<le> 57 then Some (n - 48) else None)"

lemma digitValue_digitChar [simp]: "d < 10 \<Longrightarrow> digitValue (digitChar d) = Some d"
  by (simp add: digitValue_def digitChar_def Let_def)

fun parseFrom :: "nat \<Rightarrow> string \<Rightarrow> nat option" where
  "parseFrom acc [] = Some acc"
| "parseFrom acc (c # cs) = (case digitValue c of None \<Rightarrow> None | Some d \<Rightarrow> parseFrom (10 * acc + d) cs)"

text \<open>A non-empty run of decimal digits.\<close>

definition parseDigits :: "string \<Rightarrow> nat option" where
  "parseDigits s = (if s = [] then None else parseFrom 0 s)"

fun itoaNat :: "nat \<Rightarrow> string" where
  "itoaNat n = (if n < 10 then [digitChar n] else itoaNat (n div 10) @ [digitChar (n mod 10)])"

declare itoaNat.simps [simp del]

lemma itoaNat_neq_Nil [simp]: "itoaNat n \<noteq> []"
  by (subst itoaNat.simps) simp

lemma parseFrom_append:
  "parseFrom acc (s @ t) = Option.bind (parseFrom acc s) (\<lambda>a. parseFrom a t)"
  by (induction acc s rule: parseFrom.induct) (simp_all split: option.split)

lemma parseFrom_itoaNat: "parseFrom 0 (itoaNat n) = Some n"
proof (induction n rule: itoaNat.induct)
  case (1 n)
  show ?case
  proof (cases "n < 10")
    case True
    then show ?thesis by (subst itoaNat.simps) simp
  next
    case False
    then show ?thesis using 1 by (subst itoaNat.simps) (simp add: parseFrom_append)
  qed
qed

lemma parseDigits_itoaNat [simp]: "parseDigits (itoaNat n) = Some n"
  by (simp add: parseDigits_def parseFrom_itoaNat)

lemma itoaNat_inj: "itoaNat m = itoaNat n \<longleftrightarrow> m = n"
  by (metis parseFrom_itoaNat option.inject)

lemma itoaNat_digits: "c \<in> set (itoaNat n) \<Longrightarrow> digitValue c \<noteq> None"
proof (induction n rule: itoaNat.induct)
  case (1 n)
  then show ?case by (subst (asm) (2) itoaNat.simps) (auto split: if_splits)
qed

section \<open>Integers\<close>

definition itoa :: "int \<Rightarrow> string" where
  "itoa i = (if i < 0 then ''-'' @ itoaNat (nat (- i)) else itoaNat (nat i))"

text \<open>The kernel evaluates the digits of a number over \<open>int\<close>.\<close>

fun itoaInt :: "int \<Rightarrow> string" where
  "itoaInt i = (if i < 10 then [char_of (48 + i)] else itoaInt (i div 10) @ [char_of (48 + i mod 10)])"

declare itoaInt.simps [simp del]

lemma itoaNat_code [code]: "itoaNat n = itoaInt (int n)"
proof (induction n rule: itoaNat.induct)
  case (1 n)
  have char: "char_of (48 + int d) = digitChar d" for d
    using char_of_nat [of "48 + d"] by (simp add: digitChar_def)
  show ?case
    using 1 char [of n] char [of "n mod 10"]
    by (subst itoaNat.simps, subst itoaInt.simps) (simp add: zdiv_int zmod_int)
qed

lemma itoa_code [code]: "itoa i = (if i < 0 then CHR ''-'' # itoaInt (- i) else itoaInt i)"
  by (simp add: itoa_def itoaNat_code)

text \<open>\<open>strconv.Atoi\<close>: an optional sign, digits, and the range of a 64-bit \<open>int\<close>.\<close>

definition atoi :: "string \<Rightarrow> int option" where
  "atoi s = (let (neg, ds) = (case s of
         c # cs \<Rightarrow> if c = CHR ''-'' then (True, cs) else if c = CHR ''+'' then (False, cs) else (False, s)
       | [] \<Rightarrow> (False, []))
     in case parseDigits ds of None \<Rightarrow> None
        | Some n \<Rightarrow> let i = (if neg then - int n else int n) in if in_i64 i then Some i else None)"

lemma digitValue_sign [simp]: "digitValue CHR ''-'' = None" "digitValue CHR ''+'' = None" "digitValue CHR ''#'' = None"
  by (simp_all add: digitValue_def)

lemma itoaNat_hd: "itoaNat n = c # cs \<Longrightarrow> c \<noteq> CHR ''-'' \<and> c \<noteq> CHR ''+''"
  using itoaNat_digits [of c n] by auto

theorem atoi_itoa: "in_i64 i \<Longrightarrow> atoi (itoa i) = Some i"
proof (cases "i < 0")
  case True
  then show "in_i64 i \<Longrightarrow> ?thesis" by (simp add: itoa_def atoi_def Let_def)
next
  case False
  obtain c cs where c: "itoaNat (nat i) = c # cs" by (cases "itoaNat (nat i)") simp_all
  then have "parseDigits (c # cs) = Some (nat i)" by (simp flip: c)
  then show "in_i64 i \<Longrightarrow> ?thesis"
    using False itoaNat_hd [OF c] by (simp add: itoa_def atoi_def Let_def c)
qed

lemma itoa_chars: "c \<in> set (itoa i) \<Longrightarrow> c = CHR ''-'' \<or> digitValue c \<noteq> None"
  using itoaNat_digits by (auto simp: itoa_def split: if_splits)

lemma itoa_inj: "itoa i = itoa j \<longleftrightarrow> i = j"
proof -
  have "hd (itoaNat n) \<noteq> CHR ''-''" for n
    using itoaNat_hd [of n "hd (itoaNat n)" "tl (itoaNat n)"] by simp
  then show ?thesis
    by (auto simp: itoa_def itoaNat_inj split: if_splits) (metis list.sel(1))+
qed

text \<open>A text before a separator that the number cannot contain is recovered.\<close>

lemma itoa_no_hash: "CHR ''#'' \<notin> set (itoa i)"
  using itoa_chars [of "CHR ''#''" i] by auto

lemma takeWhile_sep: "c \<notin> set xs \<Longrightarrow> takeWhile (\<lambda>d. d \<noteq> c) (xs @ c # ys) = xs"
  by (induction xs) auto

lemma append_sep_inj:
  assumes "a @ c # x = b @ c # y" and "c \<notin> set x" and "c \<notin> set y"
  shows "a = b \<and> x = y"
proof -
  have r: "rev x @ c # rev a = rev y @ c # rev b"
    using assms(1) by (metis append.assoc append_Cons append_Nil rev.simps(2) rev_append)
  have t: "takeWhile (\<lambda>d. d \<noteq> c) (rev x @ c # rev a) = rev x"
    "takeWhile (\<lambda>d. d \<noteq> c) (rev y @ c # rev b) = rev y"
    using assms(2,3) by (simp_all add: takeWhile_sep)
  have "rev x = rev y" using t r by simp
  then show ?thesis using r by simp
qed

section \<open>Strings\<close>

definition lowerChar :: "char \<Rightarrow> char" where
  "lowerChar c = (let n = (of_char c :: nat) in if 65 \<le> n \<and> n \<le> 90 then char_of (n + 32) else c)"

definition hasPrefix :: "string \<Rightarrow> string \<Rightarrow> bool" where
  "hasPrefix s p \<longleftrightarrow> take (length p) s = p"

definition containsText :: "string \<Rightarrow> string \<Rightarrow> bool" where
  "containsText s t \<longleftrightarrow> (\<exists>i \<in> set [0..<Suc (length s)]. hasPrefix (drop i s) t)"

text \<open>\<open>strings.Split\<close> at one character: always at least one part.\<close>

fun splitAt :: "char \<Rightarrow> string \<Rightarrow> string list" where
  "splitAt c [] = [[]]"
| "splitAt c (x # xs) = (if x = c then [] # splitAt c xs
     else case splitAt c xs of [] \<Rightarrow> [[x]] | p # ps \<Rightarrow> (x # p) # ps)"

definition isSpace :: "char \<Rightarrow> bool" where
  "isSpace c \<longleftrightarrow> (of_char c :: nat) \<in> {9, 10, 11, 12, 13, 32}"

definition trimSpace :: "string \<Rightarrow> string" where
  "trimSpace s = rev (dropWhile isSpace (rev (dropWhile isSpace s)))"

text \<open>\<open>strings.Fields\<close>.\<close>

fun fieldsFrom :: "string \<Rightarrow> string \<Rightarrow> string list" where
  "fieldsFrom cur [] = (if cur = [] then [] else [rev cur])"
| "fieldsFrom cur (c # cs) = (if isSpace c then (if cur = [] then fieldsFrom [] cs else rev cur # fieldsFrom [] cs)
     else fieldsFrom (c # cur) cs)"

definition textFields :: "string \<Rightarrow> string list" where
  "textFields s = fieldsFrom [] s"

fun joinText :: "string \<Rightarrow> string list \<Rightarrow> string" where
  "joinText sep [] = []"
| "joinText sep [s] = s"
| "joinText sep (s # ss) = s @ sep @ joinText sep ss"

lemma splitAt_ne [simp]: "splitAt c s \<noteq> []"
  by (cases s) (auto split: list.split)

lemma splitAt_plain: "c \<notin> set s \<Longrightarrow> splitAt c s = [s]"
  by (induction s) (auto split: list.split)

lemma splitAt_append: "c \<notin> set s \<Longrightarrow> splitAt c (s @ c # t) = s # splitAt c t"
  by (induction s) auto

lemma splitAt_join:
  assumes "ss \<noteq> []" and "\<forall>s \<in> set ss. c \<notin> set s"
  shows "splitAt c (joinText [c] ss) = ss"
  using assms by (induction "[c]" ss rule: joinText.induct) (simp_all add: splitAt_plain splitAt_append)

lemma trimSpace_plain: "(\<And>c. c \<in> set s \<Longrightarrow> \<not> isSpace c) \<Longrightarrow> trimSpace s = s"
proof -
  assume h: "\<And>c. c \<in> set s \<Longrightarrow> \<not> isSpace c"
  have "dropWhile isSpace s = s" using h by (cases s) auto
  moreover have "dropWhile isSpace (rev s) = rev s"
    using h by (cases "rev s") (auto dest: arg_cong [where f = set])
  ultimately show ?thesis by (simp add: trimSpace_def)
qed

end
