(* ===== verification/GoJson.thy ===== *)
theory GoJson
  imports GoText "HOL-Library.AList"
begin

text \<open>
  What the orchestrator uses of \<open>encoding/json\<close>: JSON values, the token stream of a decoder, and
  decoding into Go structs. A struct is decoded member by member in the order of the text: a key
  selects the field of that name, or else the first field whose name agrees up to ASCII case, and
  unknown keys are skipped; \<open>null\<close> leaves a scalar or struct as it is and clears a slice or map.
  A decoding error discards the value, as every caller does.
\<close>

section \<open>Values and tokens\<close>

datatype json = JNull | JBool bool | JNum string | JStr string | JArr "json list" | JObj "(string \<times> json) list"

datatype token = TDelim char | TString string | TOther

fun tokens :: "json \<Rightarrow> token list" where
  "tokens (JStr s) = [TString s]"
| "tokens (JArr js) = TDelim CHR ''['' # concat (map tokens js) @ [TDelim CHR '']'']"
| "tokens (JObj kvs) = TDelim CHR ''{'' # concat (map (\<lambda>(k, v). TString k # tokens v) kvs) @ [TDelim CHR ''}'']"
| "tokens _ = [TOther]"

section \<open>Decoding into structs\<close>

definition lookupField :: "(string \<times> 'f) list \<Rightarrow> string \<Rightarrow> 'f option" where
  "lookupField fs k = (case map_of fs k of Some f \<Rightarrow> Some f
     | None \<Rightarrow> map_option snd (List.find (\<lambda>(n, _). map lowerChar n = map lowerChar k) fs))"

fun decodeMembers :: "(string \<times> ('s \<Rightarrow> json \<Rightarrow> 's option)) list \<Rightarrow> 's \<Rightarrow> (string \<times> json) list \<Rightarrow> 's option" where
  "decodeMembers fs s [] = Some s"
| "decodeMembers fs s ((k, v) # kvs) =
     (case lookupField fs k of None \<Rightarrow> decodeMembers fs s kvs
      | Some f \<Rightarrow> (case f s v of None \<Rightarrow> None | Some s' \<Rightarrow> decodeMembers fs s' kvs))"

definition decodeStruct :: "(string \<times> ('s \<Rightarrow> json \<Rightarrow> 's option)) list \<Rightarrow> 's \<Rightarrow> json \<Rightarrow> 's option" where
  "decodeStruct fs s v = (case v of JNull \<Rightarrow> Some s | JObj kvs \<Rightarrow> decodeMembers fs s kvs | _ \<Rightarrow> None)"

definition decString :: "((string \<Rightarrow> string) \<Rightarrow> 's \<Rightarrow> 's) \<Rightarrow> 's \<Rightarrow> json \<Rightarrow> 's option" where
  "decString upd s v = (case v of JNull \<Rightarrow> Some s | JStr x \<Rightarrow> Some (upd (\<lambda>_. x) s) | _ \<Rightarrow> None)"

definition decBool :: "((bool \<Rightarrow> bool) \<Rightarrow> 's \<Rightarrow> 's) \<Rightarrow> 's \<Rightarrow> json \<Rightarrow> 's option" where
  "decBool upd s v = (case v of JNull \<Rightarrow> Some s | JBool x \<Rightarrow> Some (upd (\<lambda>_. x) s) | _ \<Rightarrow> None)"

definition decInt :: "((int \<Rightarrow> int) \<Rightarrow> 's \<Rightarrow> 's) \<Rightarrow> 's \<Rightarrow> json \<Rightarrow> 's option" where
  "decInt upd s v = (case v of JNull \<Rightarrow> Some s
     | JNum l \<Rightarrow> (case atoi l of None \<Rightarrow> None | Some i \<Rightarrow> Some (upd (\<lambda>_. i) s)) | _ \<Rightarrow> None)"

definition decUint :: "(('a :: len word \<Rightarrow> 'a word) \<Rightarrow> 's \<Rightarrow> 's) \<Rightarrow> 's \<Rightarrow> json \<Rightarrow> 's option" where
  "decUint upd s v = (case v of JNull \<Rightarrow> Some s
     | JNum l \<Rightarrow> (case parseDigits l of None \<Rightarrow> None
         | Some n \<Rightarrow> if n < 2 ^ LENGTH('a) then Some (upd (\<lambda>_. of_nat n) s) else None)
     | _ \<Rightarrow> None)"

definition decNested :: "(('a \<Rightarrow> 'a) \<Rightarrow> 's \<Rightarrow> 's) \<Rightarrow> ('s \<Rightarrow> 'a) \<Rightarrow> ('a \<Rightarrow> json \<Rightarrow> 'a option) \<Rightarrow> 's \<Rightarrow> json \<Rightarrow> 's option" where
  "decNested upd get dec s v = map_option (\<lambda>a. upd (\<lambda>_. a) s) (dec (get s) v)"

fun decAll :: "(json \<Rightarrow> 'a option) \<Rightarrow> json list \<Rightarrow> 'a list option" where
  "decAll dec [] = Some []"
| "decAll dec (j # js) = (case dec j of None \<Rightarrow> None
     | Some a \<Rightarrow> (case decAll dec js of None \<Rightarrow> None | Some as \<Rightarrow> Some (a # as)))"

definition decSlice :: "(('a list \<Rightarrow> 'a list) \<Rightarrow> 's \<Rightarrow> 's) \<Rightarrow> (json \<Rightarrow> 'a option) \<Rightarrow> 's \<Rightarrow> json \<Rightarrow> 's option" where
  "decSlice upd dec s v = (case v of JNull \<Rightarrow> Some (upd (\<lambda>_. []) s)
     | JArr js \<Rightarrow> map_option (\<lambda>as. upd (\<lambda>_. as) s) (decAll dec js) | _ \<Rightarrow> None)"

text \<open>A map: nil before the first member; a repeated key replaces the entry.\<close>

fun decEntries :: "(json \<Rightarrow> 'a option) \<Rightarrow> (string \<times> 'a) list \<Rightarrow> (string \<times> json) list \<Rightarrow> (string \<times> 'a) list option" where
  "decEntries dec m [] = Some m"
| "decEntries dec m ((k, v) # kvs) = (case dec v of None \<Rightarrow> None
     | Some a \<Rightarrow> decEntries dec (AList.update k a m) kvs)"

definition decMap :: "(((string \<times> 'a) list option \<Rightarrow> (string \<times> 'a) list option) \<Rightarrow> 's \<Rightarrow> 's) \<Rightarrow>
    ('s \<Rightarrow> (string \<times> 'a) list option) \<Rightarrow> (json \<Rightarrow> 'a option) \<Rightarrow> 's \<Rightarrow> json \<Rightarrow> 's option" where
  "decMap upd get dec s v = (case v of JNull \<Rightarrow> Some (upd (\<lambda>_. None) s)
     | JObj kvs \<Rightarrow> map_option (\<lambda>m. upd (\<lambda>_. Some m) s)
         (decEntries dec (case get s of None \<Rightarrow> [] | Some m \<Rightarrow> m) kvs)
     | _ \<Rightarrow> None)"

end
