(* ===== verification/MetricsJson.thy ===== *)
theory MetricsJson
  imports MetricsProperties GoJson
begin

text \<open>
  The checks \<open>orchestrator/run/metrics.go\<close> makes on the JSON text of an artifact before it is
  decoded: the walk over the token stream that rejects duplicate keys
  (\<open>rejectDuplicateMetricsJSONKeys\<close>, \<open>walkMetricsJSONValue\<close>), the required fields of version 2
  (\<open>validateV2JSONShape\<close>, \<open>requireJSONObject\<close>) and their composition \<open>parseMetricsArtifact\<close>.
  The decoding into the structs follows \<open>GoJson\<close>. The text of an artifact is the value it
  denotes: malformed text is an error of the first token that cannot be read.
\<close>

section \<open>The walk over the token stream\<close>

datatype json_error =
    EOF
  | DuplicateKey string
  | KeyNotString
  | BadClosing
  | UnexpectedDelim char
  | TrailingValue
  | NotAnObject string
  | MissingField string string
  | NotAnArray string
  | OutOfFuel

text \<open>\<open>decoder.Token()\<close> and \<open>decoder.More()\<close>.\<close>

fun nextToken :: "token list \<Rightarrow> json_error + token \<times> token list" where
  "nextToken [] = Inl EOF"
| "nextToken (t # ts) = Inr (t, ts)"

fun hasMore :: "token list \<Rightarrow> bool" where
  "hasMore [] \<longleftrightarrow> False"
| "hasMore (t # ts) \<longleftrightarrow> t \<noteq> TDelim CHR '']'' \<and> t \<noteq> TDelim CHR ''}''"

text \<open>
  \<open>walkMetricsJSONValue\<close> with its two loops. Every call and every turn of a loop takes one unit
  of fuel; \<open>walk_fuel\<close> below shows the fuel the caller gives never runs out.
\<close>

fun walkMetricsJSONValue :: "nat \<Rightarrow> token list \<Rightarrow> json_error + token list"
  and walkMembers :: "nat \<Rightarrow> string list \<Rightarrow> token list \<Rightarrow> json_error + token list"
  and walkElements :: "nat \<Rightarrow> token list \<Rightarrow> json_error + token list" where
  "walkMetricsJSONValue 0 ts = Inl OutOfFuel"
| "walkMetricsJSONValue (Suc n) ts =
     rbind (nextToken ts) (\<lambda>(t, ts).
       case t of
         TDelim c \<Rightarrow> if c = CHR ''{'' then walkMembers n [] ts
           else if c = CHR ''['' then walkElements n ts
           else Inl (UnexpectedDelim c)
       | _ \<Rightarrow> Inr ts)"
| "walkMembers 0 seen ts = Inl OutOfFuel"
| "walkMembers (Suc n) seen ts =
     (if hasMore ts
      then rbind (nextToken ts) (\<lambda>(t, ts).
        case t of
          TString key \<Rightarrow> if key \<in> set seen then Inl (DuplicateKey key)
            else rbind (walkMetricsJSONValue n ts) (walkMembers n (key # seen))
        | _ \<Rightarrow> Inl KeyNotString)
      else rbind (nextToken ts) (\<lambda>(t, ts). if t \<noteq> TDelim CHR ''}'' then Inl BadClosing else Inr ts))"
| "walkElements 0 ts = Inl OutOfFuel"
| "walkElements (Suc n) ts =
     (if hasMore ts then rbind (walkMetricsJSONValue n ts) (walkElements n)
      else rbind (nextToken ts) (\<lambda>(t, ts). if t \<noteq> TDelim CHR '']'' then Inl BadClosing else Inr ts))"

definition rejectDuplicateMetricsJSONKeys :: "token list \<Rightarrow> json_error + unit" where
  "rejectDuplicateMetricsJSONKeys ts =
     rbind (walkMetricsJSONValue (2 * length ts + 1) ts) (\<lambda>ts.
     case nextToken ts of Inl EOF \<Rightarrow> Inr () | Inl e \<Rightarrow> Inl e | Inr _ \<Rightarrow> Inl TrailingValue)"

section \<open>The shape of version 2\<close>

definition v2CountFields :: "string list" where
  "v2CountFields = [''slots'', ''slots_broadcast'', ''submitted'', ''delivered_unique'', ''duplicates'',
     ''deadline_hit'', ''expected_flows'', ''observed_flows'', ''never_received_flows'']"

definition v2HistogramFields :: "string list" where
  "v2HistogramFields = [''scheme'', ''min_ns'', ''max_ns'', ''count'', ''p50_ns'', ''p90_ns'', ''p99_ns'', ''bins'']"

text \<open>\<open>json.Unmarshal\<close> into a \<open>map[string]json.RawMessage\<close>: the last member of a key wins.\<close>

fun rawObject :: "json \<Rightarrow> (string \<rightharpoonup> json) option" where
  "rawObject (JObj kvs) = Some (map_of (rev kvs))"
| "rawObject _ = None"

definition requireJSONObject :: "json \<Rightarrow> string \<Rightarrow> string list \<Rightarrow> json_error + (string \<rightharpoonup> json)" where
  "requireJSONObject data context required =
     (case rawObject data of None \<Rightarrow> Inl (NotAnObject context)
      | Some object \<Rightarrow>
          rbind (checkM (\<lambda>field. case object field of
              None \<Rightarrow> Inl (MissingField context field)
            | Some value \<Rightarrow> fail_if (value = JNull) (MissingField context field)) required)
          (\<lambda>_. Inr object))"

text \<open>A required member: present after \<open>requireJSONObject\<close> has accepted the object.\<close>

definition rawMember :: "(string \<rightharpoonup> json) \<Rightarrow> string \<Rightarrow> json" where
  "rawMember object field = (case object field of None \<Rightarrow> JNull | Some v \<Rightarrow> v)"

definition requireHistograms :: "(string \<rightharpoonup> json) \<Rightarrow> string \<Rightarrow> string list \<Rightarrow> json_error + unit" where
  "requireHistograms object context names =
     checkM (\<lambda>histogram. rbind (requireJSONObject (rawMember object histogram) (context @ '' '' @ histogram)
       v2HistogramFields) (\<lambda>_. Inr ())) names"

definition validateV2JSONShape :: "json \<Rightarrow> string \<Rightarrow> json_error + unit" where
  "validateV2JSONShape data path =
     rbind (requireJSONObject data (''metrics '' @ path)
       [''version'', ''histogram'', ''classes'', ''traffic'', ''staleness_ns'', ''raw'']) (\<lambda>top.
     rbind (requireJSONObject (rawMember top ''histogram'') (''metrics '' @ path @ '' histogram'')
       [''scheme'', ''subbins'', ''min_ns'', ''max_ns'']) (\<lambda>_.
     rbind (requireJSONObject (rawMember top ''classes'') (''metrics '' @ path @ '' classes'') metricClassNames) (\<lambda>classes.
     rbind (checkM (\<lambda>name.
       rbind (requireJSONObject (rawMember classes name) (''metrics '' @ path @ '' class '' @ name)
         (v2CountFields @ [''latency_sched_ns'', ''latency_send_ns'', ''update_gap_ns''])) (\<lambda>class.
       requireHistograms class (''metrics '' @ path @ '' class '' @ name)
         [''latency_sched_ns'', ''latency_send_ns'', ''update_gap_ns''])) metricClassNames) (\<lambda>_.
     rbind (requireJSONObject (rawMember top ''staleness_ns'') (''metrics '' @ path @ '' staleness_ns'') v2HistogramFields) (\<lambda>_.
     rbind (requireJSONObject (rawMember top ''raw'') (''metrics '' @ path @ '' raw'')
       [''slots'', ''submitted'', ''recv_measured'', ''recv_unmeasured'', ''timestamp_order_violations'']) (\<lambda>_.
     case rawMember top ''traffic'' of
       JArr traffic \<Rightarrow>
         checkM (\<lambda>(i, raw).
           rbind (requireJSONObject raw (''metrics '' @ path @ '' traffic['' @ itoaNat i @ '']'')
             (v2CountFields @ [''traffic_id'', ''direction'', ''class'', ''deadline_ns'',
               ''latency_sched_ns'', ''latency_send_ns'', ''update_gap_ns'', ''staleness_ns''])) (\<lambda>entry.
           requireHistograms entry (''metrics '' @ path @ '' traffic['' @ itoaNat i @ '']'')
             [''latency_sched_ns'', ''latency_send_ns'', ''update_gap_ns'', ''staleness_ns'']))
         (enumerate 0 traffic)
     | _ \<Rightarrow> Inl (NotAnArray path)))))))"

section \<open>Decoding a file\<close>

definition decHistogram :: "Histogram \<Rightarrow> json \<Rightarrow> Histogram option" where
  "decHistogram = decodeStruct
     [(''scheme'', decString hScheme_update), (''min_ns'', decUint hMinNS_update),
      (''max_ns'', decUint hMaxNS_update), (''count'', decUint Count_update),
      (''p50_ns'', decUint P50NS_update), (''p90_ns'', decUint P90NS_update),
      (''p99_ns'', decUint P99NS_update),
      (''bins'', decSlice Bins_update (decUint (\<lambda>f. f) (0 :: u64)))]"

definition decCounts :: "((ClassCounts \<Rightarrow> ClassCounts) \<Rightarrow> 's \<Rightarrow> 's) \<Rightarrow> (string \<times> ('s \<Rightarrow> json \<Rightarrow> 's option)) list" where
  "decCounts upd =
     [(''slots'', decUint (\<lambda>f. upd (Slots_update f))),
      (''slots_broadcast'', decUint (\<lambda>f. upd (SlotsBroadcast_update f))),
      (''submitted'', decUint (\<lambda>f. upd (Submitted_update f))),
      (''delivered_unique'', decUint (\<lambda>f. upd (DeliveredUnique_update f))),
      (''duplicates'', decUint (\<lambda>f. upd (Duplicates_update f))),
      (''deadline_hit'', decUint (\<lambda>f. upd (DeadlineHit_update f))),
      (''expected_flows'', decUint (\<lambda>f. upd (ExpectedFlows_update f))),
      (''observed_flows'', decUint (\<lambda>f. upd (ObservedFlows_update f))),
      (''never_received_flows'', decUint (\<lambda>f. upd (NeverReceivedFlows_update f)))]"

definition decLayout :: "HistogramLayout \<Rightarrow> json \<Rightarrow> HistogramLayout option" where
  "decLayout = decodeStruct
     [(''scheme'', decString Scheme_update), (''subbins'', decUint Subbins_update),
      (''min_ns'', decUint MinNS_update), (''max_ns'', decUint MaxNS_update)]"

definition decRaw :: "RawCounts \<Rightarrow> json \<Rightarrow> RawCounts option" where
  "decRaw = decodeStruct
     [(''slots'', decUint rSlots_update), (''submitted'', decUint rSubmitted_update),
      (''recv_measured'', decUint RecvMeasured_update), (''recv_unmeasured'', decUint RecvUnmeasured_update),
      (''timestamp_order_violations'', decUint TimestampOrderViolations_update)]"

definition decClassMetric :: "json \<Rightarrow> classMetric option" where
  "decClassMetric = decodeStruct (decCounts cmCounts_update @
     [(''latency_sched_ns'', decNested cmLatencySchedNS_update cmLatencySchedNS decHistogram),
      (''latency_send_ns'', decNested cmLatencySendNS_update cmLatencySendNS decHistogram),
      (''update_gap_ns'', decNested cmUpdateGapNS_update cmUpdateGapNS decHistogram)]) zeroClassMetric"

definition zeroTrafficMetric :: trafficMetric where
  "zeroTrafficMetric = \<lparr>tmTrafficID = 0, tmDirection = [], tmClass = [], tmDeadlineNS = 0,
     tmCounts = zeroCounts, tmLatencySchedNS = zeroHistogram, tmLatencySendNS = zeroHistogram,
     tmUpdateGapNS = zeroHistogram, tmStalenessNS = zeroHistogram\<rparr>"

definition decTrafficMetric :: "json \<Rightarrow> trafficMetric option" where
  "decTrafficMetric = decodeStruct (decCounts tmCounts_update @
     [(''traffic_id'', decUint tmTrafficID_update), (''direction'', decString tmDirection_update),
      (''class'', decString tmClass_update), (''deadline_ns'', decUint tmDeadlineNS_update),
      (''latency_sched_ns'', decNested tmLatencySchedNS_update tmLatencySchedNS decHistogram),
      (''latency_send_ns'', decNested tmLatencySendNS_update tmLatencySendNS decHistogram),
      (''update_gap_ns'', decNested tmUpdateGapNS_update tmUpdateGapNS decHistogram),
      (''staleness_ns'', decNested tmStalenessNS_update tmStalenessNS decHistogram)]) zeroTrafficMetric"

definition zeroLayout :: HistogramLayout where
  "zeroLayout = \<lparr>Scheme = [], Subbins = 0, MinNS = 0, MaxNS = 0\<rparr>"

definition unmarshalMetrics :: "json \<Rightarrow> metricsFile option" where
  "unmarshalMetrics = decodeStruct
     [(''version'', decInt mfVersion_update), (''histogram'', decNested mfHistogram_update mfHistogram decLayout),
      (''classes'', decMap mfClasses_update mfClasses decClassMetric),
      (''staleness_ns'', decNested mfStalenessNS_update mfStalenessNS decHistogram),
      (''update_gap_ns'', decNested mfUpdateGapNS_update mfUpdateGapNS decHistogram),
      (''raw'', decNested mfRaw_update mfRaw decRaw),
      (''traffic'', decSlice mfTraffic_update decTrafficMetric)]
     \<lparr>mfVersion = 0, mfHistogram = zeroLayout, mfClasses = None, mfStalenessNS = zeroHistogram,
      mfUpdateGapNS = zeroHistogram, mfRaw = zeroRaw, mfTraffic = []\<rparr>"

definition unmarshalVersion :: "json \<Rightarrow> int option" where
  "unmarshalVersion = decodeStruct [(''version'', decInt (\<lambda>f. f))] 0"

section \<open>Artifacts\<close>

record MetricsArtifactData =
  artifactName :: string
  artifactData :: json

definition parseMetricsArtifact :: "bool \<Rightarrow> MetricsArtifactData \<Rightarrow> metrics_error + metricsFile" where
  "parseMetricsArtifact allowEmptyTraffic artifact =
     (let path = artifactName artifact; data = artifactData artifact
      in rbind (wrap_err (\<lambda>_. Undecodable path) (rejectDuplicateMetricsJSONKeys (tokens data))) (\<lambda>_.
         rbind (case unmarshalVersion data of None \<Rightarrow> Inl (Undecodable path) | Some v \<Rightarrow> Inr v) (\<lambda>version.
         rbind (if version = 2 then wrap_err (\<lambda>_. Undecodable path) (validateV2JSONShape data path)
                else Inr ()) (\<lambda>_.
         rbind (case unmarshalMetrics data of None \<Rightarrow> Inl (Undecodable path) | Some file \<Rightarrow> Inr file) (\<lambda>file.
         rbind (wrap_err (InArtifact path) (validateMetricsFile file allowEmptyTraffic)) (\<lambda>_.
         Inr file))))))"

section \<open>The walk decides whether an object repeats a key\<close>

fun keysDistinct :: "json \<Rightarrow> bool" where
  "keysDistinct (JArr js) \<longleftrightarrow> (\<forall>j \<in> set js. keysDistinct j)"
| "keysDistinct (JObj kvs) \<longleftrightarrow> distinct (map fst kvs) \<and> (\<forall>(k, v) \<in> set kvs. keysDistinct v)"
| "keysDistinct _ \<longleftrightarrow> True"

text \<open>The outcome of walking a value: past it, or at a repeated key inside it.\<close>

definition walked :: "json_error + token list \<Rightarrow> bool \<Rightarrow> token list \<Rightarrow> bool" where
  "walked r ok rest \<longleftrightarrow> (if ok then r = Inr rest else \<exists>k. r = Inl (DuplicateKey k))"

definition walks :: "json \<Rightarrow> bool" where
  "walks j \<longleftrightarrow> (\<forall>n rest. 2 * length (tokens j) \<le> n + 1 \<longrightarrow>
     walked (walkMetricsJSONValue n (tokens j @ rest)) (keysDistinct j) rest)"

lemma tokens_start: "\<exists>t ts. tokens j = t # ts \<and> t \<noteq> TDelim CHR '']'' \<and> t \<noteq> TDelim CHR ''}''"
  by (cases j) auto

lemma hasMore_tokens [simp]: "hasMore (tokens j @ rest)"
  using tokens_start [of j] by auto

lemma walkElements_walks:
  assumes "\<forall>j \<in> set js. walks j" and "2 * length (concat (map tokens js)) < n"
  shows "walked (walkElements n (concat (map tokens js) @ TDelim CHR '']'' # rest))
    (\<forall>j \<in> set js. keysDistinct j) rest"
  using assms
proof (induction js arbitrary: n)
  case Nil
  then obtain n' where "n = Suc n'" by (cases n) auto
  then show ?case by (simp add: walked_def)
next
  case (Cons j js)
  then obtain n' where n: "n = Suc n'" by (cases n) auto
  let ?rest = "concat (map tokens js) @ TDelim CHR '']'' # rest"
  have w: "walked (walkMetricsJSONValue n' (tokens j @ ?rest)) (keysDistinct j) ?rest"
    using Cons.prems n by (simp add: walks_def)
  have "tokens j \<noteq> []" using tokens_start [of j] by auto
  then have "walked (walkElements n' ?rest) (\<forall>j \<in> set js. keysDistinct j) rest"
    using Cons.prems n by (intro Cons.IH) (auto simp: neq_Nil_conv)
  then show ?case
    using w by (cases "keysDistinct j") (auto simp: n walked_def)
qed

lemma walkMembers_walks:
  assumes "\<forall>(k, v) \<in> set kvs. walks v"
    and "2 * length (concat (map (\<lambda>(k, v). TString k # tokens v) kvs)) < n"
  shows "walked (walkMembers n seen (concat (map (\<lambda>(k, v). TString k # tokens v) kvs) @ TDelim CHR ''}'' # rest))
    (distinct (map fst kvs) \<and> set (map fst kvs) \<inter> set seen = {} \<and> (\<forall>(k, v) \<in> set kvs. keysDistinct v)) rest"
  using assms
proof (induction kvs arbitrary: n seen)
  case Nil
  then obtain n' where "n = Suc n'" by (cases n) auto
  then show ?case by (simp add: walked_def)
next
  case (Cons kv kvs)
  then obtain n' where n: "n = Suc n'" by (cases n) auto
  obtain k v where kv: "kv = (k, v)" by (cases kv)
  let ?rest = "concat (map (\<lambda>(k, v). TString k # tokens v) kvs) @ TDelim CHR ''}'' # rest"
  have w: "walked (walkMetricsJSONValue n' (tokens v @ ?rest)) (keysDistinct v) ?rest"
    using Cons.prems n kv by (simp add: walks_def)
  have "walked (walkMembers n' (k # seen) ?rest) (distinct (map fst kvs) \<and>
      set (map fst kvs) \<inter> set (k # seen) = {} \<and> (\<forall>(k, v) \<in> set kvs. keysDistinct v)) rest"
    using Cons.prems n kv by (intro Cons.IH) auto
  then show ?case
    using w by (cases "k \<in> set seen"; cases "keysDistinct v") (auto simp: n kv walked_def)
qed

lemma scalar_walks: "walks JNull" "walks (JBool b)" "walks (JNum s)" "walks (JStr s)"
proof -
  have "\<exists>n'. n = Suc n'" if "2 \<le> n + 1" for n :: nat using that by (cases n) auto
  then show "walks JNull" "walks (JBool b)" "walks (JNum s)" "walks (JStr s)"
    by (fastforce simp: walks_def walked_def)+
qed

lemma every_value_walks: "walks j"
proof (induction j)
  case (JArr js)
  have "walked (walkMetricsJSONValue n (tokens (JArr js) @ rest)) (keysDistinct (JArr js)) rest"
    if h: "2 * length (tokens (JArr js)) \<le> n + 1" for n rest
  proof -
    obtain n' where n: "n = Suc n'" using h by (cases n) auto
    then have "walked (walkElements n' (concat (map tokens js) @ TDelim CHR '']'' # rest))
        (\<forall>j \<in> set js. keysDistinct j) rest"
      using h JArr by (intro walkElements_walks) simp_all
    then show ?thesis by (simp add: n)
  qed
  then show ?case by (simp add: walks_def)
next
  case (JObj kvs)
  have "walked (walkMetricsJSONValue n (tokens (JObj kvs) @ rest)) (keysDistinct (JObj kvs)) rest"
    if h: "2 * length (tokens (JObj kvs)) \<le> n + 1" for n rest
  proof -
    obtain n' where n: "n = Suc n'" using h by (cases n) auto
    have "\<forall>(k, v) \<in> set kvs. walks v" using JObj by fastforce
    then have "walked (walkMembers n' [] (concat (map (\<lambda>(k, v). TString k # tokens v) kvs) @ TDelim CHR ''}'' # rest))
        (distinct (map fst kvs) \<and> set (map fst kvs) \<inter> set [] = {} \<and> (\<forall>(k, v) \<in> set kvs. keysDistinct v)) rest"
      using h n by (intro walkMembers_walks) simp_all
    then show ?thesis by (simp add: n)
  qed
  then show ?case by (simp add: walks_def)
qed (simp_all add: scalar_walks)

text \<open>
  C29. The token walk accepts an artifact exactly when no object anywhere in it repeats a key,
  and otherwise reports a repeated key; it never runs out of fuel. A second value after the
  first is refused.
\<close>

theorem duplicate_keys_rejected:
  "(rejectDuplicateMetricsJSONKeys (tokens j) = Inr () \<longleftrightarrow> keysDistinct j) \<and>
   (keysDistinct j \<or> (\<exists>k. rejectDuplicateMetricsJSONKeys (tokens j) = Inl (DuplicateKey k))) \<and>
   (keysDistinct j = False \<or> rejectDuplicateMetricsJSONKeys (tokens j @ tokens j') = Inl TrailingValue)"
proof -
  have w: "walked (walkMetricsJSONValue (2 * length (tokens j @ r) + 1) (tokens j @ r)) (keysDistinct j) r" for r
    using every_value_walks [of j, unfolded walks_def]
    by (elim allE [where x = "2 * length (tokens j @ r) + 1"] allE [where x = r]) (simp del: walkMetricsJSONValue.simps)
  obtain t ts where "tokens j' = t # ts" using tokens_start [of j'] by blast
  then show ?thesis
    using w [of "[]"] w [of "tokens j'"]
    by (cases "keysDistinct j") (auto simp: rejectDuplicateMetricsJSONKeys_def walked_def)
qed

text \<open>
  C9. Merging client metrics does not depend on the order of the artifacts: for any permutation
  of the artifacts the merge succeeds or fails alike, and yields the same merged metrics.
\<close>

theorem merge_artifacts_order_independent:
  assumes "mset artifacts = mset artifacts'"
  shows "success (MergeMetricsData artifactName (parseMetricsArtifact False) artifacts n) =
    success (MergeMetricsData artifactName (parseMetricsArtifact False) artifacts' n)"
  by (rule merge_order_independent [OF assms])
    (auto simp: parseMetricsArtifact_def Let_def rbind_eq_Inr_iff)

lemma merge_artifacts_order_independent_witness:
  "success (MergeMetricsData artifactName (parseMetricsArtifact False)
      [\<lparr>artifactName = ''a'', artifactData = JObj []\<rparr>, \<lparr>artifactName = ''b'', artifactData = JArr []\<rparr>] 3) =
   success (MergeMetricsData artifactName (parseMetricsArtifact False)
      [\<lparr>artifactName = ''b'', artifactData = JArr []\<rparr>, \<lparr>artifactName = ''a'', artifactData = JObj []\<rparr>] 3)"
  by (rule merge_artifacts_order_independent) simp

end
