(* ===== verification/ControlData.thy ===== *)
theory ControlData
  imports Float64 GoJson "HOL-Library.Product_Lexorder"
begin

text \<open>
  The data of the control plane (\<open>orchestrator/control\<close>): the messages of \<open>messages.go\<close>, the
  configuration, the participants, the state of a run and the events the readers decode from
  connections (\<open>server.go\<close>). \<open>time.Duration\<close> and \<open>int64\<close> nanoseconds are \<open>int\<close>. A Go map that
  the code ranges over is an association list in insertion order, a map that is only indexed is
  a HOL map; connections are named by their ids.
\<close>

record HelloMessage =
  Role :: string
  Transport :: string
  Lib :: string
  PID :: int
  ProcIndex :: int

record ScheduleMessage =
  StartAtNS :: int
  StopAtNS :: int
  DrainUntilNS :: int

record RateMessage =
  Sent :: u64
  Received :: u64

record Participant =
  ConnID :: int
  pHello :: HelloMessage
  ReadyConns :: int
  ReadyReceived :: bool
  AckMarginNS :: int
  AckReceived :: bool
  DoneStats :: json
  DoneReceived :: bool
  RateReports :: nat
  RateDSent :: "u64 list"
  RateDRecv :: "u64 list"

definition newParticipant :: "int \<Rightarrow> HelloMessage \<Rightarrow> Participant" where
  "newParticipant connID hello = \<lparr>ConnID = connID, pHello = hello, ReadyConns = 0, ReadyReceived = False,
     AckMarginNS = 0, AckReceived = False, DoneStats = JNull, DoneReceived = False, RateReports = 0,
     RateDSent = [], RateDRecv = []\<rparr>"

record Config =
  SocketPath :: string
  Expected :: int
  Warmup :: int
  Duration :: int
  Drain :: int
  SteadyWarmup :: bool
  SteadyBuckets :: int
  SteadyTolPct :: f64
  SteadyGuard :: int
  SteadyMinWarmup :: int
  SteadyExpectedSentPerConn :: f64
  SteadyExpectedRecvPerConn :: f64
  HelloTimeout :: int
  ReadyTimeout :: int
  AckTimeout :: int
  DoneTimeout :: int

record rateTrack =
  lastRate :: RateMessage
  hasLast :: bool
  dSent :: "u64 list"
  dRecv :: "u64 list"

record runState =
  expected :: int
  participants :: "(int \<times> Participant) list"
  procIndex :: "(string \<times> int) list"
  invalid :: "string list"
  schedule :: ScheduleMessage
  scheduleSent :: bool
  scheduleIssuedNS :: int
  windowSent :: bool
  steadyEnabled :: bool
  steadyReached :: bool
  rates :: "int \<rightharpoonup> rateTrack"
  windowAcked :: "int list"

definition zeroSchedule :: ScheduleMessage where
  "zeroSchedule = \<lparr>StartAtNS = 0, StopAtNS = 0, DrainUntilNS = 0\<rparr>"

definition newRunState :: "int \<Rightarrow> runState" where
  "newRunState n = \<lparr>expected = n, participants = [], procIndex = [], invalid = [],
     schedule = zeroSchedule, scheduleSent = False, scheduleIssuedNS = 0, windowSent = False,
     steadyEnabled = False, steadyReached = False, rates = Map.empty, windowAcked = []\<rparr>"

record Result =
  Valid :: bool
  InvalidReasons :: "string list"
  rSchedule :: ScheduleMessage
  Participants :: "Participant list"
  Stats :: "json list"
  SteadyEnabled :: bool
  SteadyReached :: bool
  WarmupActualNS :: int

text \<open>The stages in the order a run goes through them; \<open>Finished\<close> is the empty stage name.\<close>

datatype Stage = StageHello | StageReady | StageAck | StageWindow | StageWindowAck | StageDone | Finished

text \<open>An event: the payload of a decoded message with its connection.\<close>

datatype event =
    EvHello int HelloMessage
  | EvReady int int
  | EvAck int int
  | EvRate int RateMessage
  | EvWindowAck int int
  | EvDone int json
  | EvErr string

datatype control_error =
    DuplicateHello int
  | TooManyHellos int
  | DuplicateProcIndex string int int int
  | BeforeHello string int
  | DuplicateMessage string int
  | AckBeforeReady int
  | AckBeforeSchedule int
  | RateFromNonClient string int
  | DoneBeforeAck int
  | ClockFailed
  | SendFailed string int
  | TimeoutError Stage int
  | Cancelled
  | ReadError string
  | SocketPathRequired
  | ExpectedNotPositive int
  | NegativeDuration string
  | DecodeFailed string
  | UnknownMessageType string

text \<open>The order of the stages, which every transition increases.\<close>

fun stageRank :: "Stage \<Rightarrow> nat" where
  "stageRank StageHello = 0"
| "stageRank StageReady = 1"
| "stageRank StageAck = 2"
| "stageRank StageWindow = 3"
| "stageRank StageWindowAck = 4"
| "stageRank StageDone = 5"
| "stageRank Finished = 6"

lemma stageRank_inj: "stageRank a = stageRank b \<longleftrightarrow> a = b"
  by (cases a; cases b) simp_all

instantiation Stage :: linorder
begin

definition less_eq_Stage :: "Stage \<Rightarrow> Stage \<Rightarrow> bool" where
  "less_eq_Stage a b \<longleftrightarrow> stageRank a \<le> stageRank b"

definition less_Stage :: "Stage \<Rightarrow> Stage \<Rightarrow> bool" where
  "less_Stage a b \<longleftrightarrow> stageRank a < stageRank b"

instance
  by standard (auto simp: less_eq_Stage_def less_Stage_def stageRank_inj)

end

end
