(* ===== verification/Control.thy ===== *)
theory Control
  imports ControlData
begin

text \<open>
  The operations of \<open>orchestrator/control/server.go\<close>: decoding of messages, the effect of an event
  on the run (\<open>apply\<close>), the steady-state detector (\<open>steadyDetected\<close>, \<open>sumTail\<close>, \<open>flatWindows\<close>),
  the stage machine (\<open>advanceStageIfReady\<close>) and the event loop (\<open>Run\<close>). The environment of one
  turn of the loop is what \<open>CLOCK_MONOTONIC\<close> reads in each stage and which connections accept a
  write; no stage is examined twice in a turn.
\<close>

section \<open>Messages\<close>

definition unmarshalType :: "json \<Rightarrow> string option" where
  "unmarshalType = decodeStruct [(''type'', decString (\<lambda>f. f))] []"

definition unmarshalHello :: "json \<Rightarrow> HelloMessage option" where
  "unmarshalHello = decodeStruct
     [(''role'', decString Role_update), (''transport'', decString Transport_update),
      (''lib'', decString Lib_update), (''pid'', decInt PID_update), (''proc_index'', decInt ProcIndex_update)]
     \<lparr>Role = [], Transport = [], Lib = [], PID = 0, ProcIndex = 0\<rparr>"

definition unmarshalInt :: "string \<Rightarrow> json \<Rightarrow> int option" where
  "unmarshalInt field = decodeStruct [(field, decInt (\<lambda>f. f))] 0"

definition unmarshalRate :: "json \<Rightarrow> RateMessage option" where
  "unmarshalRate = decodeStruct [(''sent'', decUint Sent_update), (''received'', decUint Received_update)]
     \<lparr>Sent = 0, Received = 0\<rparr>"

definition unmarshalStats :: "json \<Rightarrow> json option" where
  "unmarshalStats = decodeStruct [(''stats'', \<lambda>_ v. Some v)] (JObj [])"

definition decodeEvent :: "int \<Rightarrow> json \<Rightarrow> control_error + event" where
  "decodeEvent connID raw =
     (case unmarshalType raw of None \<Rightarrow> Inl (DecodeFailed ''control envelope'')
      | Some t \<Rightarrow>
         if t = ''hello'' then (case unmarshalHello raw of None \<Rightarrow> Inl (DecodeFailed t)
           | Some m \<Rightarrow> Inr (EvHello connID m))
         else if t = ''ready'' then (case unmarshalInt ''conns'' raw of None \<Rightarrow> Inl (DecodeFailed t)
           | Some n \<Rightarrow> Inr (EvReady connID n))
         else if t = ''sched_ack'' then (case unmarshalInt ''margin_ns'' raw of None \<Rightarrow> Inl (DecodeFailed t)
           | Some n \<Rightarrow> Inr (EvAck connID n))
         else if t = ''rate'' then (case unmarshalRate raw of None \<Rightarrow> Inl (DecodeFailed t)
           | Some m \<Rightarrow> Inr (EvRate connID m))
         else if t = ''window_ack'' then (case unmarshalInt ''margin_ns'' raw of None \<Rightarrow> Inl (DecodeFailed t)
           | Some n \<Rightarrow> Inr (EvWindowAck connID n))
         else if t = ''done'' then (case unmarshalStats raw of None \<Rightarrow> Inl (DecodeFailed t)
           | Some s \<Rightarrow> Inr (EvDone connID s))
         else Inl (UnknownMessageType t))"

text \<open>
  What the reader of one connection sends to the loop: the events of the values it decodes, up to
  the end of the stream or the first error (\<open>None\<close> is a value that cannot be decoded).
\<close>

fun readConn :: "(control_error \<Rightarrow> string) \<Rightarrow> int \<Rightarrow> json option list \<Rightarrow> event list" where
  "readConn text connID [] = []"
| "readConn text connID (None # raws) = [EvErr ''decode control message'']"
| "readConn text connID (Some raw # raws) =
     (case decodeEvent connID raw of Inl e \<Rightarrow> [EvErr (text e)]
      | Inr ev \<Rightarrow> ev # readConn text connID raws)"

section \<open>Configuration\<close>

definition withDefaults :: "Config \<Rightarrow> Config" where
  "withDefaults cfg =
     (let d = 30 * 1000000000;
          cfg = (if HelloTimeout cfg = 0 then cfg\<lparr>HelloTimeout := d\<rparr> else cfg);
          cfg = (if ReadyTimeout cfg = 0 then cfg\<lparr>ReadyTimeout := d\<rparr> else cfg);
          cfg = (if AckTimeout cfg = 0 then cfg\<lparr>AckTimeout := d\<rparr> else cfg)
      in if DoneTimeout cfg = 0 then cfg\<lparr>DoneTimeout := d\<rparr> else cfg)"

definition validateConfig :: "Config \<Rightarrow> control_error + unit" where
  "validateConfig cfg =
     (if SocketPath cfg = [] then Inl SocketPathRequired
      else if Expected cfg \<le> 0 then Inl (ExpectedNotPositive (Expected cfg))
      else checkM (\<lambda>(name, d). fail_if (d < 0) (NegativeDuration name))
        [(''warmup'', Warmup cfg), (''duration'', Duration cfg), (''drain'', Drain cfg),
         (''hello_timeout'', HelloTimeout cfg), (''ready_timeout'', ReadyTimeout cfg),
         (''ack_timeout'', AckTimeout cfg), (''done_timeout'', DoneTimeout cfg)])"

definition steadyGuard :: "Config \<Rightarrow> int" where
  "steadyGuard cfg = (if 0 < SteadyGuard cfg then SteadyGuard cfg else 500 * 1000000)"

definition steadyBuckets :: "Config \<Rightarrow> int" where
  "steadyBuckets cfg = (if 0 < SteadyBuckets cfg then SteadyBuckets cfg else 4)"

definition timeoutForStage :: "Config \<Rightarrow> Stage \<Rightarrow> int" where
  "timeoutForStage cfg st = (case st of StageHello \<Rightarrow> HelloTimeout cfg | StageReady \<Rightarrow> ReadyTimeout cfg
     | StageAck \<Rightarrow> AckTimeout cfg | StageWindowAck \<Rightarrow> AckTimeout cfg | StageWindow \<Rightarrow> Warmup cfg
     | StageDone \<Rightarrow> DoneTimeout cfg | Finished \<Rightarrow> 0)"

section \<open>Events\<close>

definition procKey :: "HelloMessage \<Rightarrow> string" where
  "procKey h = Role h @ ''#'' @ itoa (ProcIndex h)"

definition marginReason :: "HelloMessage \<Rightarrow> string \<Rightarrow> int \<Rightarrow> string" where
  "marginReason h what margin = ''role='' @ Role h @ '' proc_index='' @ itoa (ProcIndex h) @ '' pid='' @
     itoa (PID h) @ '' negative '' @ what @ '' margin: '' @ itoa margin @ '' ns''"

definition setParticipant :: "int \<Rightarrow> Participant \<Rightarrow> runState \<Rightarrow> runState" where
  "setParticipant connID p s = s\<lparr>participants := AList.update connID p (participants s)\<rparr>"

text \<open>The history of one client after a report; \<open>keep\<close> is 32.\<close>

definition keepLast :: "nat \<Rightarrow> 'a list \<Rightarrow> 'a list" where
  "keepLast keep xs = drop (length xs - keep) xs"

definition increment :: "u64 \<Rightarrow> u64 \<Rightarrow> u64" where
  "increment new prev = (if prev \<le> new then new - prev else 0)"

definition trackRate :: "rateTrack \<Rightarrow> RateMessage \<Rightarrow> rateTrack" where
  "trackRate t r =
     (let t = (if hasLast t
            then t\<lparr>dSent := keepLast 32 (dSent t @ [increment (Sent r) (Sent (lastRate t))]),
                   dRecv := keepLast 32 (dRecv t @ [increment (Received r) (Received (lastRate t))])\<rparr>
            else t)
      in t\<lparr>lastRate := r, hasLast := True\<rparr>)"

definition newTrack :: rateTrack where
  "newTrack = \<lparr>lastRate = \<lparr>Sent = 0, Received = 0\<rparr>, hasLast = False, dSent = [], dRecv = []\<rparr>"

definition applyHello :: "runState \<Rightarrow> int \<Rightarrow> HelloMessage \<Rightarrow> control_error + runState" where
  "applyHello s connID hello =
     (if map_of (participants s) connID \<noteq> None then Inl (DuplicateHello connID)
      else if expected s \<le> int (length (participants s)) then Inl (TooManyHellos (expected s))
      else rbind
        (if 0 \<le> ProcIndex hello
         then (case map_of (procIndex s) (procKey hello) of
             Some other \<Rightarrow> Inl (DuplicateProcIndex (Role hello) (ProcIndex hello) other connID)
           | None \<Rightarrow> Inr (s\<lparr>procIndex := AList.update (procKey hello) connID (procIndex s)\<rparr>))
         else Inr s)
        (\<lambda>s. Inr (setParticipant connID (newParticipant connID hello) s)))"

definition withParticipant :: "string \<Rightarrow> runState \<Rightarrow> int \<Rightarrow> (Participant \<Rightarrow> control_error + runState) \<Rightarrow>
    control_error + runState" where
  "withParticipant what s connID k =
     (case map_of (participants s) connID of None \<Rightarrow> Inl (BeforeHello what connID) | Some p \<Rightarrow> k p)"

definition applyAck :: "runState \<Rightarrow> int \<Rightarrow> int \<Rightarrow> Participant \<Rightarrow> control_error + runState" where
  "applyAck s connID margin p =
     (if \<not> ReadyReceived p then Inl (AckBeforeReady connID)
      else if \<not> scheduleSent s then Inl (AckBeforeSchedule connID)
      else if AckReceived p then Inl (DuplicateMessage ''sched_ack'' connID)
      else
        let s = setParticipant connID (p\<lparr>AckMarginNS := margin, AckReceived := True\<rparr>) s
        in Inr (if margin < 0 then s\<lparr>invalid := invalid s @ [marginReason (pHello p) ''schedule'' margin]\<rparr> else s))"

definition applyRate :: "runState \<Rightarrow> int \<Rightarrow> RateMessage \<Rightarrow> Participant \<Rightarrow> control_error + runState" where
  "applyRate s connID r p =
     (if Role (pHello p) \<noteq> ''client'' then Inl (RateFromNonClient (Role (pHello p)) connID)
      else
        let t = (case rates s connID of None \<Rightarrow> newTrack | Some t \<Rightarrow> t);
            s = s\<lparr>rates := (rates s)(connID \<mapsto> trackRate t r)\<rparr>
        in Inr (setParticipant connID (p\<lparr>RateReports := RateReports p + 1\<rparr>) s))"

definition applyWindowAck :: "runState \<Rightarrow> int \<Rightarrow> int \<Rightarrow> Participant \<Rightarrow> control_error + runState" where
  "applyWindowAck s connID margin p =
     (if connID \<in> set (windowAcked s) then Inl (DuplicateMessage ''window_ack'' connID)
      else
        let s = s\<lparr>windowAcked := windowAcked s @ [connID]\<rparr>
        in Inr (if margin < 0 then s\<lparr>invalid := invalid s @ [marginReason (pHello p) ''window'' margin]\<rparr> else s))"

definition applyDone :: "runState \<Rightarrow> int \<Rightarrow> json \<Rightarrow> Participant \<Rightarrow> control_error + runState" where
  "applyDone s connID stats p =
     (if \<not> AckReceived p then Inl (DoneBeforeAck connID)
      else if DoneReceived p then Inl (DuplicateMessage ''done'' connID)
      else Inr (setParticipant connID (p\<lparr>DoneStats := stats, DoneReceived := True\<rparr>) s))"

fun apply_event :: "runState \<Rightarrow> event \<Rightarrow> control_error + runState" where
  "apply_event s (EvHello connID hello) = applyHello s connID hello"
| "apply_event s (EvReady connID conns) =
     withParticipant ''ready'' s connID (\<lambda>p.
       if ReadyReceived p then Inl (DuplicateMessage ''ready'' connID)
       else Inr (setParticipant connID (p\<lparr>ReadyConns := conns, ReadyReceived := True\<rparr>) s))"
| "apply_event s (EvAck connID margin) = withParticipant ''sched_ack'' s connID (applyAck s connID margin)"
| "apply_event s (EvRate connID r) = withParticipant ''rate'' s connID (applyRate s connID r)"
| "apply_event s (EvWindowAck connID margin) = withParticipant ''window_ack'' s connID (applyWindowAck s connID margin)"
| "apply_event s (EvDone connID stats) = withParticipant ''done'' s connID (applyDone s connID stats)"
| "apply_event s (EvErr msg) = Inl (ReadError msg)"

section \<open>Steady state\<close>

definition sumTail :: "u64 list \<Rightarrow> nat \<Rightarrow> nat \<Rightarrow> u64" where
  "sumTail d n back = (\<Sum>i \<leftarrow> [length d - back - n ..< length d - back]. d ! i)"

definition flatWindows :: "u64 \<Rightarrow> u64 \<Rightarrow> f64 \<Rightarrow> bool" where
  "flatWindows w1 w2 tolPct =
     (if w2 = 0 then False
      else
        let hi = f_of_u64 w1; lo = f_of_u64 w2;
            (hi, lo) = (if f_lt hi lo then (lo, hi) else (hi, lo))
        in f_le (f_sub hi lo) (f_div (f_mul hi tolPct) (FFin 100)))"

text \<open>The floor on a window: nine tenths of the expected count, evaluated left to right.\<close>

definition belowFloor :: "f64 \<Rightarrow> u64 \<Rightarrow> f64 \<Rightarrow> f64 \<Rightarrow> bool" where
  "belowFloor rate seen conns windowSec \<longleftrightarrow> f_lt (FFin 0) rate \<and>
     f_lt (f_of_u64 seen) (f_mul (f_mul (f_mul (f_of_rat (9 / 10)) rate) conns) windowSec)"

text \<open>
  Twice the number of buckets is computed without wrap-around. For \<open>2 ^ 62\<close> buckets and more, which the
  orchestrator never asks for, the code's product is negative and \<open>sumTail\<close> panics.
\<close>

definition clientSteady :: "Config \<Rightarrow> nat \<Rightarrow> f64 \<Rightarrow> Participant \<Rightarrow> rateTrack option \<Rightarrow> bool" where
  "clientSteady cfg buckets tolPct p track =
     (case track of None \<Rightarrow> False
      | Some t \<Rightarrow>
         if length (dSent t) < 2 * buckets then False
         else
           let sent2 = sumTail (dSent t) buckets 0; sent1 = sumTail (dSent t) buckets buckets;
               recv2 = sumTail (dRecv t) buckets 0; recv1 = sumTail (dRecv t) buckets buckets;
               conns = f_of_int (ReadyConns p);
               windowSec = f_mul (f_of_int (int buckets)) (FFin (1 / 4))
           in flatWindows sent1 sent2 tolPct \<and> flatWindows recv1 recv2 tolPct \<and>
              \<not> belowFloor (SteadyExpectedSentPerConn cfg) sent2 conns windowSec \<and>
              \<not> belowFloor (SteadyExpectedRecvPerConn cfg) recv2 conns windowSec)"

definition isClient :: "Participant \<Rightarrow> bool" where
  "isClient p \<longleftrightarrow> Role (pHello p) = ''client''"

definition steadyDetected :: "runState \<Rightarrow> Config \<Rightarrow> bool" where
  "steadyDetected s cfg =
     (let buckets = (if SteadyBuckets cfg \<le> 0 then 4 else SteadyBuckets cfg);
          tolPct = (if f_le (SteadyTolPct cfg) (FFin 0) then FFin 10 else SteadyTolPct cfg);
          clients = length (filter (\<lambda>(_, p). isClient p) (participants s))
      in if clients = 0 \<or> int clients \<noteq> Expected cfg - 1 then False
         else list_all (\<lambda>(connID, p). \<not> isClient p \<or>
                clientSteady cfg (nat buckets) tolPct p (rates s connID)) (participants s))"

section \<open>Counters and results\<close>

definition countOf :: "(Participant \<Rightarrow> bool) \<Rightarrow> runState \<Rightarrow> int" where
  "countOf f s = int (length (filter (\<lambda>(_, p). f p) (participants s)))"

definition helloCount :: "runState \<Rightarrow> int" where "helloCount s = int (length (participants s))"
definition readyCount :: "runState \<Rightarrow> int" where "readyCount s = countOf ReadyReceived s"
definition ackCount :: "runState \<Rightarrow> int" where "ackCount s = countOf AckReceived s"
definition doneCount :: "runState \<Rightarrow> int" where "doneCount s = countOf DoneReceived s"
definition windowAckCount :: "runState \<Rightarrow> int" where "windowAckCount s = int (length (windowAcked s))"

definition withRates :: "runState \<Rightarrow> int \<times> Participant \<Rightarrow> Participant" where
  "withRates s = (\<lambda>(connID, p). case rates s connID of None \<Rightarrow> p
     | Some t \<Rightarrow> p\<lparr>RateDSent := dSent t, RateDRecv := dRecv t\<rparr>)"

definition sortedParticipants :: "runState \<Rightarrow> Participant list" where
  "sortedParticipants s = sort_key (\<lambda>p. (ProcIndex (pHello p), ConnID p)) (map (withRates s) (participants s))"

definition result :: "runState \<Rightarrow> Result" where
  "result s =
     (let ps = sortedParticipants s
      in \<lparr>Valid = (length (invalid s) = 0), InvalidReasons = invalid s, rSchedule = schedule s,
          Participants = ps, Stats = map DoneStats (filter DoneReceived ps),
          SteadyEnabled = steadyEnabled s, SteadyReached = steadyReached s,
          WarmupActualNS = (if 0 < scheduleIssuedNS s \<and> scheduleIssuedNS s < StartAtNS (schedule s)
            then wrap64 (StartAtNS (schedule s) - scheduleIssuedNS s) else 0)\<rparr>)"

section \<open>The stage machine\<close>

text \<open>The loop's own state: the run, the stage, the timer and the one-shot channels.\<close>

record Control =
  rs :: runState
  stage :: Stage
  timerNS :: int
  published :: "ScheduleMessage option"
  serverReady :: bool

definition publishMeasurementWindow :: "ScheduleMessage \<Rightarrow> Control \<Rightarrow> Control" where
  "publishMeasurementWindow w c = (case published c of None \<Rightarrow> c\<lparr>published := Some w\<rparr> | Some _ \<Rightarrow> c)"

definition goto :: "int \<Rightarrow> Stage \<Rightarrow> Control \<Rightarrow> Control" where
  "goto timeout next c = c\<lparr>timerNS := timeout, stage := next\<rparr>"

record environment =
  clock :: "Stage \<Rightarrow> int option"
  sendOK :: "int \<Rightarrow> bool"

definition windowFrom :: "Config \<Rightarrow> int \<Rightarrow> ScheduleMessage" where
  "windowFrom cfg start = \<lparr>StartAtNS = start, StopAtNS = wrap64 (start + Duration cfg),
     DrainUntilNS = wrap64 (start + Duration cfg + Drain cfg)\<rparr>"

text \<open>The error of the first participant, in sorted order, a message cannot be sent to.\<close>

definition sendAll :: "environment \<Rightarrow> string \<Rightarrow> Control \<Rightarrow> (control_error \<times> Control) + unit" where
  "sendAll env what c = checkM (\<lambda>p. fail_if (\<not> sendOK env (ConnID p)) (SendFailed what (ConnID p), c))
     (sortedParticipants (rs c))"

definition advanceReady :: "Config \<Rightarrow> environment \<Rightarrow> Control \<Rightarrow> (control_error \<times> Control) + Control" where
  "advanceReady cfg env c =
     (if readyCount (rs c) < Expected cfg then Inr c
      else case clock env StageReady of None \<Rightarrow> Inl (ClockFailed, c)
      | Some now \<Rightarrow>
         let c = c\<lparr>rs := (rs c)\<lparr>scheduleIssuedNS := now, schedule := windowFrom cfg (wrap64 (now + Warmup cfg))\<rparr>\<rparr>
         in rbind (sendAll env ''schedule'' c) (\<lambda>_.
            let c = c\<lparr>rs := (rs c)\<lparr>scheduleSent := True\<rparr>\<rparr>;
                c = (if \<not> SteadyWarmup cfg then publishMeasurementWindow (schedule (rs c)) c else c)
            in Inr (goto (AckTimeout cfg) StageAck c)))"

definition advanceAck :: "Config \<Rightarrow> environment \<Rightarrow> Control \<Rightarrow> (control_error \<times> Control) + Control" where
  "advanceAck cfg env c =
     (if ackCount (rs c) < Expected cfg then Inr c
      else if \<not> SteadyWarmup cfg then Inr (goto (DoneTimeout cfg) StageDone c)
      else case clock env StageAck of None \<Rightarrow> Inl (ClockFailed, c)
      | Some now \<Rightarrow>
         let cutoff = wrap64 (wrap64 (StartAtNS (schedule (rs c)) - now) - steadyGuard cfg)
         in Inr (goto (if cutoff < 0 then 0 else cutoff) StageWindow c))"

definition advanceWindow :: "Config \<Rightarrow> environment \<Rightarrow> Control \<Rightarrow> (control_error \<times> Control) + Control" where
  "advanceWindow cfg env c =
     (if \<not> steadyDetected (rs c) cfg then Inr c
      else case clock env StageWindow of None \<Rightarrow> Inl (ClockFailed, c)
      | Some now \<Rightarrow>
         if 0 < SteadyMinWarmup cfg \<and> now < wrap64 (scheduleIssuedNS (rs c) + SteadyMinWarmup cfg) then Inr c
         else
           let startNS = wrap64 (now + steadyGuard cfg)
           in if StartAtNS (schedule (rs c)) \<le> startNS
              then
                let c = c\<lparr>rs := (rs c)\<lparr>steadyReached := False\<rparr>\<rparr>
                in Inr (goto (DoneTimeout cfg) StageDone (publishMeasurementWindow (schedule (rs c)) c))
              else rbind (sendAll env ''window'' c) (\<lambda>_.
                let c = c\<lparr>rs := (rs c)\<lparr>schedule := windowFrom cfg startNS, windowSent := True, steadyReached := True\<rparr>\<rparr>
                in Inr (goto (AckTimeout cfg) StageWindowAck (publishMeasurementWindow (schedule (rs c)) c))))"

definition advanceStageIfReady :: "Config \<Rightarrow> environment \<Rightarrow> Control \<Rightarrow> (control_error \<times> Control) + Control" where
  "advanceStageIfReady cfg env c =
     (case stage c of
        StageHello \<Rightarrow> Inr (if helloCount (rs c) < Expected cfg then c else goto (ReadyTimeout cfg) StageReady c)
      | StageReady \<Rightarrow> advanceReady cfg env c
      | StageAck \<Rightarrow> advanceAck cfg env c
      | StageWindow \<Rightarrow> advanceWindow cfg env c
      | StageWindowAck \<Rightarrow> Inr (if windowAckCount (rs c) < Expected cfg then c else goto (DoneTimeout cfg) StageDone c)
      | StageDone \<Rightarrow> Inr (if doneCount (rs c) < Expected cfg then c else c\<lparr>stage := Finished\<rparr>)
      | Finished \<Rightarrow> Inl (UnknownMessageType ''unknown control stage'', c))"

lemma goto_stage [simp]: "stage (goto t st c) = st"
  by (simp add: goto_def)

lemma publish_stage [simp]: "stage (publishMeasurementWindow w c) = stage c"
  by (simp add: publishMeasurementWindow_def split: option.split)

text \<open>Every transition of the stage machine goes forward.\<close>

lemma advance_forward:
  assumes "advanceStageIfReady cfg env c = Inr c'"
  shows "stage c \<le> stage c'"
  using assms
  by (auto simp: advanceStageIfReady_def advanceReady_def advanceAck_def advanceWindow_def Let_def
      rbind_eq_Inr_iff less_eq_Stage_def split: Stage.splits if_splits option.splits)

section \<open>The event loop\<close>

function advanceAll :: "Config \<Rightarrow> environment \<Rightarrow> Control \<Rightarrow> (control_error \<times> Control) + Control" where
  "advanceAll cfg env c =
     (case advanceStageIfReady cfg env c of
        Inl e \<Rightarrow> Inl e
      | Inr c' \<Rightarrow> if stage c' = stage c then Inr c'
          else if stage c' = Finished then Inr c' else advanceAll cfg env c')"
  by pat_completeness auto

termination
proof (relation "measure (\<lambda>(cfg, env, c). 6 - stageRank (stage c))")
  fix cfg env c c'
  assume a: "advanceStageIfReady cfg env c = Inr c'" and "stage c' \<noteq> stage c"
  then have "stageRank (stage c) < stageRank (stage c')"
    using advance_forward [OF a] by (simp add: less_eq_Stage_def le_less stageRank_inj eq_commute)
  moreover have "stageRank (stage c') \<le> 6" by (cases "stage c'") simp_all
  ultimately show "((cfg, env, c'), cfg, env, c) \<in> measure (\<lambda>(cfg, env, c). 6 - stageRank (stage c))"
    by simp
qed simp

declare advanceAll.simps [simp del]

datatype input = Cancel | Tick | Event event

text \<open>
  One turn of the loop: it goes on with a new state, or returns; the state it returns with shows
  the result and what was sent on the channels.
\<close>

definition runTick :: "Config \<Rightarrow> Control \<Rightarrow> (Control \<times> control_error option) + Control" where
  "runTick cfg c =
     (if stage c = StageWindow
      then
        let c = c\<lparr>rs := (rs c)\<lparr>steadyReached := False\<rparr>\<rparr>
        in Inr (goto (DoneTimeout cfg) StageDone (publishMeasurementWindow (schedule (rs c)) c))
      else Inl (c, Some (TimeoutError (stage c) (timeoutForStage cfg (stage c)))))"

definition noteServerReady :: "event \<Rightarrow> Control \<Rightarrow> Control" where
  "noteServerReady ev c = (case ev of EvReady connID _ \<Rightarrow>
       (case map_of (participants (rs c)) connID of None \<Rightarrow> c
        | Some p \<Rightarrow> if Role (pHello p) = ''server'' then c\<lparr>serverReady := True\<rparr> else c)
     | _ \<Rightarrow> c)"

definition runEvent :: "Config \<Rightarrow> environment \<Rightarrow> Control \<Rightarrow> event \<Rightarrow> (Control \<times> control_error option) + Control" where
  "runEvent cfg env c ev =
     (case apply_event (rs c) ev of Inl e \<Rightarrow> Inl (c, Some e)
      | Inr s \<Rightarrow>
         (case advanceAll cfg env (noteServerReady ev (c\<lparr>rs := s\<rparr>)) of
            Inl (e, c') \<Rightarrow> Inl (c', Some e)
          | Inr c' \<Rightarrow> if stage c' = Finished then Inl (c', None) else Inr c'))"

fun runStep :: "Config \<Rightarrow> environment \<Rightarrow> Control \<Rightarrow> input \<Rightarrow> (Control \<times> control_error option) + Control" where
  "runStep cfg env c Cancel = Inl (c, Some Cancelled)"
| "runStep cfg env c Tick = runTick cfg c"
| "runStep cfg env c (Event ev) = runEvent cfg env c ev"

definition startControl :: "Config \<Rightarrow> Control" where
  "startControl cfg = \<lparr>rs = (newRunState (Expected cfg))\<lparr>steadyEnabled := SteadyWarmup cfg\<rparr>,
     stage = StageHello, timerNS = HelloTimeout cfg, published = None, serverReady = False\<rparr>"

fun runLoop :: "Config \<Rightarrow> Control \<Rightarrow> (environment \<times> input) list \<Rightarrow> (Control \<times> control_error option) + Control" where
  "runLoop cfg c [] = Inr c"
| "runLoop cfg c ((env, inp) # rest) =
     (case runStep cfg env c inp of Inl r \<Rightarrow> Inl r | Inr c' \<Rightarrow> runLoop cfg c' rest)"

text \<open>The result and error of a run that has returned; \<open>None\<close> while it still waits for input.\<close>

definition Run :: "Config \<Rightarrow> (environment \<times> input) list \<Rightarrow> (Result \<times> control_error option) option" where
  "Run cfg inputs = (case runLoop cfg (startControl cfg) inputs of
     Inl (c, e) \<Rightarrow> Some (result (rs c), e) | Inr _ \<Rightarrow> None)"

section \<open>The invariant of the run state\<close>

definition participantOK :: "runState \<Rightarrow> int \<Rightarrow> Participant \<Rightarrow> bool" where
  "participantOK s i p \<longleftrightarrow> ConnID p = i \<and> (AckReceived p \<longrightarrow> ReadyReceived p \<and> scheduleSent s) \<and>
     (DoneReceived p \<longrightarrow> AckReceived p)"

definition trackOK :: "rateTrack \<Rightarrow> bool" where
  "trackOK t \<longleftrightarrow> length (dSent t) = length (dRecv t) \<and> length (dSent t) \<le> 32"

definition stateOK :: "runState \<Rightarrow> bool" where
  "stateOK s \<longleftrightarrow> distinct (map fst (participants s)) \<and> int (length (participants s)) \<le> expected s \<and>
     (\<forall>(i, p) \<in> set (participants s). participantOK s i p) \<and>
     distinct (windowAcked s) \<and> set (windowAcked s) \<subseteq> fst ` set (participants s) \<and>
     (\<forall>i t. rates s i = Some t \<longrightarrow> trackOK t)"

text \<open>Processes with an index are told apart by role and index.\<close>

definition indexed :: "runState \<Rightarrow> (int \<times> Participant) list" where
  "indexed s = filter (\<lambda>(i, p). 0 \<le> ProcIndex (pHello p)) (participants s)"

definition keysOK :: "runState \<Rightarrow> bool" where
  "keysOK s \<longleftrightarrow> map_of (procIndex s) = map_of (map (\<lambda>(i, p). (procKey (pHello p), i)) (rev (indexed s))) \<and>
     distinct (map (\<lambda>(i, p). procKey (pHello p)) (indexed s))"

lemma newRunState_OK: "0 \<le> n \<Longrightarrow> stateOK (newRunState n)" "keysOK (newRunState n)"
  by (simp_all add: stateOK_def newRunState_def keysOK_def indexed_def)

lemma update_new: "map_of xs k = None \<Longrightarrow> AList.update k v xs = xs @ [(k, v)]"
  by (induction xs) (auto split: if_splits)

definition replaceAt :: "'k \<Rightarrow> 'v \<Rightarrow> ('k \<times> 'v) list \<Rightarrow> ('k \<times> 'v) list" where
  "replaceAt k v xs = map (\<lambda>(i, u). (i, if i = k then v else u)) xs"

lemma replaceAt_keys [simp]: "map fst (replaceAt k v xs) = map fst xs" "fst ` set (replaceAt k v xs) = fst ` set xs"
  "length (replaceAt k v xs) = length xs"
  by (auto simp: replaceAt_def comp_def split_beta image_image intro!: map_cong)

lemma update_existing:
  "map_of xs k = Some w \<Longrightarrow> distinct (map fst xs) \<Longrightarrow> AList.update k v xs = replaceAt k v xs"
proof (induction xs)
  case (Cons x xs)
  obtain i u where x: "x = (i, u)" by (cases x)
  have "map (\<lambda>(i, u). (i, if i = k then v else u)) xs = xs" if "k \<notin> fst ` set xs"
    using that by (intro map_idI) (auto simp: image_iff split_beta)
  then show ?case using Cons x by (auto simp: replaceAt_def)
qed simp

lemma setParticipant_simps [simp]:
  "expected (setParticipant i p s) = expected s" "procIndex (setParticipant i p s) = procIndex s"
  "invalid (setParticipant i p s) = invalid s" "schedule (setParticipant i p s) = schedule s"
  "scheduleSent (setParticipant i p s) = scheduleSent s"
  "scheduleIssuedNS (setParticipant i p s) = scheduleIssuedNS s"
  "windowSent (setParticipant i p s) = windowSent s" "rates (setParticipant i p s) = rates s"
  "windowAcked (setParticipant i p s) = windowAcked s" "steadyReached (setParticipant i p s) = steadyReached s"
  "participants (setParticipant i p s) = AList.update i p (participants s)"
  by (simp_all add: setParticipant_def)

text \<open>Replacing the entry of a participant that is there.\<close>

lemma stateOK_setParticipant:
  assumes "stateOK s" and "map_of (participants s) i = Some p" and "participantOK s i q"
  shows "stateOK (setParticipant i q s)"
proof -
  have up: "AList.update i q (participants s) = replaceAt i q (participants s)"
    using assms by (intro update_existing) (auto simp: stateOK_def)
  have ok: "participantOK (setParticipant i q s) = participantOK s"
    by (simp add: participantOK_def fun_eq_iff)
  have "\<forall>(j, u) \<in> set (replaceAt i q (participants s)). participantOK s j u"
    using assms(1,3) by (auto simp: stateOK_def replaceAt_def)
  then show ?thesis
    using assms(1) by (simp add: stateOK_def up ok)
qed

lemma keysOK_setParticipant:
  assumes "stateOK s" and "map_of (participants s) i = Some p" and "pHello q = pHello p" and "keysOK s"
  shows "keysOK (setParticipant i q s)"
proof -
  have d: "distinct (map fst (participants s))" using assms(1) by (simp add: stateOK_def)
  have up: "AList.update i q (participants s) = replaceAt i q (participants s)"
    using assms d by (intro update_existing) auto
  have hello: "pHello (if j = i then q else u) = pHello u" if "(j, u) \<in> set (participants s)" for j u
  proof (cases "j = i")
    case True
    then have "map_of (participants s) i = Some u" using map_of_is_SomeI [OF d that] by simp
    then show ?thesis using assms(2,3) by simp
  qed simp
  have hello2: "pHello u = pHello q" if "(i, u) \<in> set (participants s)" for u
    using hello [OF that] by simp
  have ind: "indexed (setParticipant i q s) = replaceAt i q (indexed s)"
    unfolding indexed_def setParticipant_simps up replaceAt_def
    by (auto simp: filter_map comp_def hello hello2 split: if_splits intro!: arg_cong [where f = "map _"] filter_cong)
  have "map (\<lambda>(i, p). (procKey (pHello p), i)) (rev (replaceAt i q (indexed s))) =
      map (\<lambda>(i, p). (procKey (pHello p), i)) (rev (indexed s))"
    "map (\<lambda>(i, p). procKey (pHello p)) (replaceAt i q (indexed s)) = map (\<lambda>(i, p). procKey (pHello p)) (indexed s)"
    by (auto simp: replaceAt_def rev_map indexed_def hello2)
  then show ?thesis
    using assms(4) unfolding keysOK_def ind by simp
qed

lemma stateOK_frame:
  "stateOK (s\<lparr>invalid := x\<rparr>) = stateOK s" "keysOK (s\<lparr>invalid := x\<rparr>) = keysOK s"
  "stateOK (s\<lparr>procIndex := y\<rparr>) = stateOK s" "keysOK (s\<lparr>rates := z\<rparr>) = keysOK s"
  "keysOK (s\<lparr>windowAcked := w\<rparr>) = keysOK s"
  by (simp_all add: stateOK_def keysOK_def indexed_def participantOK_def)

lemma trackRate_OK: "trackOK t \<Longrightarrow> trackOK (trackRate t r)"
  by (auto simp: trackOK_def trackRate_def keepLast_def Let_def)

lemma newTrack_OK: "trackOK newTrack"
  by (simp add: trackOK_def newTrack_def)

lemma stateOK_rates:
  assumes "stateOK s"
  shows "stateOK (s\<lparr>rates := (rates s)(i \<mapsto> trackRate (case rates s i of None \<Rightarrow> newTrack | Some t \<Rightarrow> t) r)\<rparr>)"
proof -
  have "trackOK (case rates s i of None \<Rightarrow> newTrack | Some t \<Rightarrow> t)"
    using assms newTrack_OK by (auto simp: stateOK_def split: option.split)
  then show ?thesis
    using assms trackRate_OK by (auto simp: stateOK_def participantOK_def)
qed

text \<open>What an event changes of the participants: nothing, one more, or one of them.\<close>

definition laterThan :: "Participant \<Rightarrow> Participant \<Rightarrow> bool" where
  "laterThan q p \<longleftrightarrow> pHello q = pHello p \<and> ConnID q = ConnID p \<and>
     (ReadyReceived p \<longrightarrow> ReadyReceived q) \<and> (AckReceived p \<longrightarrow> AckReceived q) \<and>
     (DoneReceived p \<longrightarrow> DoneReceived q)"

definition sameRun :: "runState \<Rightarrow> runState \<Rightarrow> bool" where
  "sameRun s s' \<longleftrightarrow> expected s' = expected s \<and> schedule s' = schedule s \<and> scheduleSent s' = scheduleSent s \<and>
     scheduleIssuedNS s' = scheduleIssuedNS s \<and> windowSent s' = windowSent s \<and>
     steadyReached s' = steadyReached s"

lemma withParticipant_Inr:
  "withParticipant what s i k = Inr s' \<longleftrightarrow> (\<exists>p. map_of (participants s) i = Some p \<and> k p = Inr s')"
  by (auto simp: withParticipant_def split: option.splits)

lemma participant_in: "stateOK s \<Longrightarrow> map_of (participants s) i = Some p \<Longrightarrow> participantOK s i p"
  by (auto simp: stateOK_def dest: map_of_SomeD)

lemma apply_hello:
  assumes "applyHello s i h = Inr s'" and "stateOK s" and "keysOK s"
  shows "stateOK s' \<and> keysOK s' \<and> sameRun s s' \<and> participants s' = participants s @ [(i, newParticipant i h)] \<and>
    helloCount s < expected s"
proof -
  have new: "map_of (participants s) i = None" and room: "int (length (participants s)) < expected s"
    using assms(1) by (auto simp: applyHello_def split: if_splits)
  define pr where "pr = (if 0 \<le> ProcIndex h then AList.update (procKey h) i (procIndex s) else procIndex s)"
  have s': "s' = setParticipant i (newParticipant i h) (s\<lparr>procIndex := pr\<rparr>)"
    and key: "0 \<le> ProcIndex h \<Longrightarrow> map_of (procIndex s) (procKey h) = None"
    using assms(1) by (auto simp: applyHello_def rbind_eq_Inr_iff pr_def split: if_splits option.splits)
  have parts: "participants s' = participants s @ [(i, newParticipant i h)]"
    using update_new [OF new] by (simp add: s')
  have hp: "pHello (newParticipant i h) = h" and okp: "participantOK s' i (newParticipant i h)"
    by (simp_all add: newParticipant_def participantOK_def)
  have st: "stateOK s'"
    using assms(2) new room okp unfolding stateOK_def parts
    by (auto simp: s' participantOK_def map_of_eq_None_iff)
  have ind: "indexed s' = indexed s @ (if 0 \<le> ProcIndex h then [(i, newParticipant i h)] else [])"
    using hp by (simp add: indexed_def parts)
  have "procKey h \<notin> set (map (\<lambda>(i, p). procKey (pHello p)) (indexed s))" if "0 \<le> ProcIndex h"
  proof -
    have "map_of (map (\<lambda>(i, p). (procKey (pHello p), i)) (rev (indexed s))) (procKey h) = None"
      using key [OF that] assms(3) by (simp add: keysOK_def)
    then show ?thesis by (force simp: map_of_eq_None_iff)
  qed
  then have "keysOK s'"
    using assms(3) hp by (auto simp: keysOK_def ind update_conv) (auto simp: s' pr_def update_conv)
  then show ?thesis
    using st parts room by (simp add: sameRun_def s' helloCount_def)
qed

definition effect :: "runState \<Rightarrow> runState \<Rightarrow> bool" where
  "effect s s' \<longleftrightarrow> stateOK s' \<and> keysOK s' \<and> sameRun s s' \<and>
    ((\<exists>i h. participants s' = participants s @ [(i, newParticipant i h)] \<and> helloCount s < expected s) \<or>
     participants s' = participants s \<or>
     (\<exists>i p q. map_of (participants s) i = Some p \<and> laterThan q p \<and> participants s' = replaceAt i q (participants s)))"

lemma effect_update:
  assumes "stateOK s" and "keysOK t" and "stateOK t" and p: "map_of (participants s) i = Some p"
    and "laterThan q p" and "participantOK s i q" and "sameRun s t" and "participants t = participants s"
  shows "effect s (setParticipant i q t)"
proof -
  have d: "distinct (map fst (participants s))" using assms(1) by (simp add: stateOK_def)
  have "participantOK t i q" using assms by (simp add: participantOK_def sameRun_def)
  then have "stateOK (setParticipant i q t)" and "keysOK (setParticipant i q t)"
    using assms stateOK_setParticipant [of t i p q] keysOK_setParticipant [of t i p q]
    by (auto simp: laterThan_def)
  moreover have "participants (setParticipant i q t) = replaceAt i q (participants s)"
    using update_existing [OF p d] assms by simp
  moreover have "sameRun s (setParticipant i q t)" using assms(7) by (simp add: sameRun_def)
  ultimately show ?thesis using p assms(5) unfolding effect_def by blast
qed

lemma effect_invalid: "effect s s' \<Longrightarrow> effect s (s'\<lparr>invalid := x\<rparr>)"
  by (simp add: effect_def stateOK_frame sameRun_def)

lemma effect_ack:
  assumes "applyAck s i m p = Inr s'" and "map_of (participants s) i = Some p" and "stateOK s" and "keysOK s"
  shows "effect s s'"
proof -
  let ?q = "p\<lparr>AckMarginNS := m, AckReceived := True\<rparr>"
  have p: "ReadyReceived p" "scheduleSent s"
    and s': "s' = setParticipant i ?q s \<or> s' = (setParticipant i ?q s)\<lparr>invalid :=
      invalid (setParticipant i ?q s) @ [marginReason (pHello p) ''schedule'' m]\<rparr>"
    using assms(1) by (auto simp: applyAck_def Let_def split: if_splits)
  have "effect s (setParticipant i ?q s)"
    using assms p participant_in [OF assms(3,2)]
    by (intro effect_update [where p = p]) (auto simp: laterThan_def participantOK_def sameRun_def)
  then show ?thesis using s' effect_invalid by blast
qed

lemma effect_rate:
  assumes "applyRate s i r p = Inr s'" and "map_of (participants s) i = Some p" and "stateOK s" and "keysOK s"
  shows "effect s s'"
proof -
  let ?t = "s\<lparr>rates := (rates s)(i \<mapsto> trackRate (case rates s i of None \<Rightarrow> newTrack | Some t \<Rightarrow> t) r)\<rparr>"
  have s': "s' = setParticipant i (p\<lparr>RateReports := RateReports p + 1\<rparr>) ?t"
    using assms(1) by (auto simp: applyRate_def Let_def split: if_splits)
  show ?thesis
    unfolding s' using assms stateOK_rates [OF assms(3), of i r] participant_in [OF assms(3,2)]
    by (intro effect_update [where p = p]) (auto simp: laterThan_def participantOK_def sameRun_def stateOK_frame)
qed

lemma effect_window_ack:
  assumes "applyWindowAck s i m p = Inr s'" and "map_of (participants s) i = Some p" and "stateOK s" and "keysOK s"
  shows "effect s s'"
proof -
  let ?t = "s\<lparr>windowAcked := windowAcked s @ [i]\<rparr>"
  have new: "i \<notin> set (windowAcked s)"
    and s': "s' = ?t \<or> s' = ?t\<lparr>invalid := invalid ?t @ [marginReason (pHello p) ''window'' m]\<rparr>"
    using assms(1) by (auto simp: applyWindowAck_def Let_def split: if_splits)
  have "i \<in> fst ` set (participants s)" using assms(2) by (force dest: map_of_SomeD)
  then have "stateOK ?t"
    using assms(3) new by (auto simp: stateOK_def participantOK_def)
  then have "effect s ?t"
    using assms(4) by (simp add: effect_def stateOK_frame sameRun_def)
  then show ?thesis using s' effect_invalid by blast
qed

lemma effect_done:
  assumes "applyDone s i st p = Inr s'" and "map_of (participants s) i = Some p" and "stateOK s" and "keysOK s"
  shows "effect s s'"
proof -
  have "AckReceived p" and s': "s' = setParticipant i (p\<lparr>DoneStats := st, DoneReceived := True\<rparr>) s"
    using assms(1) by (auto simp: applyDone_def split: if_splits)
  then show ?thesis
    unfolding s' using assms participant_in [OF assms(3,2)]
    by (intro effect_update [where p = p]) (auto simp: laterThan_def participantOK_def sameRun_def)
qed

lemma apply_event_effect:
  assumes "apply_event s ev = Inr s'" and "stateOK s" and "keysOK s"
  shows "effect s s'"
proof (cases ev)
  case (EvHello i h)
  then have "applyHello s i h = Inr s'" using assms(1) by simp
  from apply_hello [OF this assms(2,3)] show ?thesis unfolding effect_def by blast
next
  case (EvReady i n)
  then obtain p where p: "map_of (participants s) i = Some p"
    and s': "s' = setParticipant i (p\<lparr>ReadyConns := n, ReadyReceived := True\<rparr>) s"
    using assms(1) by (auto simp: withParticipant_Inr split: if_splits)
  show ?thesis
    unfolding s' using assms p participant_in [OF assms(2) p]
    by (intro effect_update [where p = p]) (auto simp: laterThan_def participantOK_def sameRun_def)
qed (use assms in \<open>auto simp: withParticipant_Inr intro: effect_ack effect_rate effect_window_ack effect_done\<close>)

section \<open>The invariant of the loop\<close>

definition allOf :: "(Participant \<Rightarrow> bool) \<Rightarrow> runState \<Rightarrow> bool" where
  "allOf f s \<longleftrightarrow> (\<forall>(i, p) \<in> set (participants s). f p)"

definition passed :: "Stage \<Rightarrow> Control \<Rightarrow> bool" where
  "passed st c \<longleftrightarrow> st < stage c"

lemma passed_rank: "passed st c \<longleftrightarrow> stageRank st < stageRank (stage c)"
  by (simp add: passed_def less_Stage_def)

definition loopOK :: "Config \<Rightarrow> Control \<Rightarrow> bool" where
  "loopOK cfg c \<longleftrightarrow> stateOK (rs c) \<and> keysOK (rs c) \<and> expected (rs c) = Expected cfg \<and>
     (passed StageHello c \<longrightarrow> helloCount (rs c) = Expected cfg) \<and>
     (scheduleSent (rs c) \<longleftrightarrow> passed StageReady c) \<and>
     (passed StageReady c \<longrightarrow> allOf ReadyReceived (rs c)) \<and>
     (passed StageAck c \<longrightarrow> allOf AckReceived (rs c)) \<and>
     (windowSent (rs c) \<longrightarrow> passed StageWindow c \<and> SteadyWarmup cfg) \<and>
     (stage c = StageWindow \<or> stage c = StageWindowAck \<longrightarrow> SteadyWarmup cfg) \<and>
     (stage c = StageWindowAck \<longrightarrow> windowSent (rs c)) \<and>
     (windowSent (rs c) \<and> passed StageWindowAck c \<longrightarrow> windowAckCount (rs c) = Expected cfg) \<and>
     (stage c = Finished \<longrightarrow> allOf DoneReceived (rs c)) \<and>
     (steadyReached (rs c) \<longleftrightarrow> windowSent (rs c)) \<and>
     published c = (if passed StageWindow c \<or> \<not> SteadyWarmup cfg \<and> passed StageReady c
       then Some (schedule (rs c)) else None)"

lemma countOf_full:
  assumes "stateOK s" and "expected s \<le> countOf f s"
  shows "allOf f s \<and> helloCount s = expected s"
proof -
  let ?g = "\<lambda>(i :: int, p). f p"
  have le: "length (filter ?g (participants s)) \<le> length (participants s)" by simp
  have "int (length (participants s)) \<le> expected s" using assms(1) by (simp add: stateOK_def)
  then have eq: "length (filter ?g (participants s)) = length (participants s)"
    using assms(2) le unfolding countOf_def by linarith
  then have "\<forall>x \<in> set (participants s). ?g x"
    by (metis length_filter_less less_irrefl)
  then show ?thesis
    using assms le eq by (auto simp: allOf_def helloCount_def countOf_def stateOK_def)
qed

lemma windowAckCount_le: "stateOK s \<Longrightarrow> windowAckCount s \<le> helloCount s"
proof -
  assume s: "stateOK s"
  then have "card (set (windowAcked s)) \<le> card (fst ` set (participants s))"
    by (intro card_mono) (auto simp: stateOK_def)
  moreover have "card (set (windowAcked s)) = length (windowAcked s)"
    "card (fst ` set (participants s)) = length (participants s)"
    using s distinct_card [of "map fst (participants s)"] by (auto simp: stateOK_def distinct_card)
  ultimately show ?thesis by (simp add: windowAckCount_def helloCount_def)
qed

lemma apply_event_windowAcked:
  "apply_event s ev = Inr s' \<Longrightarrow> windowAckCount s \<le> windowAckCount s'"
  by (cases ev) (auto simp: withParticipant_Inr applyHello_def applyAck_def applyRate_def
      applyWindowAck_def applyDone_def Let_def rbind_eq_Inr_iff windowAckCount_def
      split: if_splits option.splits)

lemma allOf_replaceAt:
  assumes "allOf f s" and "map_of (participants s) i = Some p" and "f p \<Longrightarrow> f q"
    and "participants s' = replaceAt i q (participants s)"
  shows "allOf f s'"
proof -
  have "f p" using assms(1) map_of_SomeD [OF assms(2)] by (auto simp: allOf_def)
  then show ?thesis using assms(1,3,4) by (auto simp: allOf_def replaceAt_def)
qed

lemma effect_full:
  assumes "effect s s'" and "helloCount s = expected s"
  shows "helloCount s' = expected s'"
    and "allOf ReadyReceived s \<Longrightarrow> allOf ReadyReceived s'"
    and "allOf AckReceived s \<Longrightarrow> allOf AckReceived s'"
    and "allOf DoneReceived s \<Longrightarrow> allOf DoneReceived s'"
proof -
  consider "participants s' = participants s"
    | i p q where "map_of (participants s) i = Some p" "laterThan q p" "participants s' = replaceAt i q (participants s)"
    using assms unfolding effect_def by auto
  note cases = this
  have ex: "expected s' = expected s" using assms(1) by (simp add: effect_def sameRun_def)
  show "helloCount s' = expected s'"
    using cases by cases (use assms(2) ex in \<open>simp_all add: helloCount_def\<close>)
  show "allOf ReadyReceived s'" if "allOf ReadyReceived s"
    using cases
  proof cases
    case 2
    then show ?thesis using allOf_replaceAt [OF that 2(1) _ 2(3)] by (simp add: laterThan_def)
  qed (use that in \<open>simp add: allOf_def\<close>)
  show "allOf AckReceived s'" if "allOf AckReceived s"
    using cases
  proof cases
    case 2
    then show ?thesis using allOf_replaceAt [OF that 2(1) _ 2(3)] by (simp add: laterThan_def)
  qed (use that in \<open>simp add: allOf_def\<close>)
  show "allOf DoneReceived s'" if "allOf DoneReceived s"
    using cases
  proof cases
    case 2
    then show ?thesis using allOf_replaceAt [OF that 2(1) _ 2(3)] by (simp add: laterThan_def)
  qed (use that in \<open>simp add: allOf_def\<close>)
qed

lemma loopOK_apply:
  assumes "apply_event (rs c) ev = Inr s" and "loopOK cfg c" and "stage c \<noteq> Finished"
  shows "loopOK cfg (c\<lparr>rs := s\<rparr>)"
proof -
  have e: "effect (rs c) s"
    using assms by (intro apply_event_effect) (auto simp: loopOK_def)
  then have st: "stateOK s" "keysOK s" "sameRun (rs c) s" by (simp_all add: effect_def)
  have p: "passed x (c\<lparr>rs := s\<rparr>) = passed x c" for x by (simp add: passed_def)
  have full: "passed StageHello c \<Longrightarrow> helloCount (rs c) = expected (rs c)"
    using assms(2) by (simp add: loopOK_def)
  have mono: "passed StageReady c \<Longrightarrow> passed StageHello c" "passed StageAck c \<Longrightarrow> passed StageHello c"
    "passed StageWindowAck c \<Longrightarrow> passed StageHello c"
    by (simp_all add: passed_rank)
  have wa: "windowAckCount s = Expected cfg" if "windowSent (rs c)" "passed StageWindowAck c"
  proof -
    have "windowAckCount (rs c) = Expected cfg" using assms(2) that by (simp add: loopOK_def)
    moreover have "helloCount s = Expected cfg"
      using effect_full(1) [OF e full] mono(3) that(2) st(3) assms(2) by (simp add: sameRun_def loopOK_def)
    ultimately show ?thesis
      using windowAckCount_le [OF st(1)] apply_event_windowAcked [OF assms(1)] by simp
  qed
  show ?thesis
    using assms(2,3) st wa effect_full [OF e full] mono
    by (auto simp: loopOK_def p sameRun_def)
qed

lemma loopOK_serverReady: "loopOK cfg (noteServerReady ev c) = loopOK cfg c" "stage (noteServerReady ev c) = stage c"
  by (auto simp: noteServerReady_def loopOK_def passed_def split: event.split option.split)

lemma loopOK_start: "0 \<le> Expected cfg \<Longrightarrow> loopOK cfg (startControl cfg)"
  using newRunState_OK [of "Expected cfg"]
  by (simp add: loopOK_def startControl_def passed_rank stateOK_def keysOK_def indexed_def participantOK_def)
    (simp add: newRunState_def)

text \<open>One advance keeps the invariant.\<close>

lemma stateOK_sent:
  "stateOK s \<Longrightarrow> stateOK (s\<lparr>scheduleIssuedNS := now, schedule := w, scheduleSent := True\<rparr>)"
  "stateOK s \<Longrightarrow> stateOK (s\<lparr>schedule := w, windowSent := True, steadyReached := True\<rparr>)"
  "stateOK s \<Longrightarrow> stateOK (s\<lparr>steadyReached := b\<rparr>)"
  by (auto simp: stateOK_def participantOK_def)

lemma loopOK_from_Hello:
  assumes "advanceStageIfReady cfg env c = Inr c'" and "loopOK cfg c" and at: "stage c = StageHello"
    and moved: "stage c' \<noteq> stage c"
  shows "loopOK cfg c'"
proof -
  have st: "stateOK (rs c)" and ex: "expected (rs c) = Expected cfg"
    using assms(2) by (simp_all add: loopOK_def)
  note full = countOf_full [OF st, unfolded ex]
  from at have "c' = goto (ReadyTimeout cfg) StageReady c" "helloCount (rs c) = Expected cfg"
    using assms(1) moved st ex by (auto simp: advanceStageIfReady_def stateOK_def helloCount_def split: if_splits)
  then show ?thesis
    using assms(2) at by (simp add: loopOK_def goto_def passed_rank)
qed

lemma loopOK_from_Ready:
  assumes "advanceStageIfReady cfg env c = Inr c'" and "loopOK cfg c" and at: "stage c = StageReady"
    and moved: "stage c' \<noteq> stage c"
  shows "loopOK cfg c'"
proof -
  have st: "stateOK (rs c)" and ex: "expected (rs c) = Expected cfg"
    using assms(2) by (simp_all add: loopOK_def)
  note full = countOf_full [OF st, unfolded ex]
  let ?s = "\<lambda>now. (rs c)\<lparr>scheduleIssuedNS := now, schedule := windowFrom cfg (wrap64 (now + Warmup cfg)), scheduleSent := True\<rparr>"
  have none: "published c = None" and all: "allOf ReadyReceived (rs c)"
    using assms at moved full
    by (auto simp: loopOK_def passed_rank advanceStageIfReady_def advanceReady_def readyCount_def split: if_splits)
  obtain now where c': "c' = goto (AckTimeout cfg) StageAck (if SteadyWarmup cfg then c\<lparr>rs := ?s now\<rparr>
      else publishMeasurementWindow (schedule (?s now)) (c\<lparr>rs := ?s now\<rparr>))"
    using assms(1) moved at
    by (auto simp: advanceStageIfReady_def advanceReady_def Let_def rbind_eq_Inr_iff split: if_splits option.splits)
  have c2: "rs c' = ?s now" "stage c' = StageAck" "published c' = (if SteadyWarmup cfg then None else Some (schedule (?s now)))"
    using none by (simp_all add: c' goto_def publishMeasurementWindow_def)
  have "keysOK (rs c') = keysOK (rs c)" "helloCount (rs c') = helloCount (rs c)" "allOf f (rs c') = allOf f (rs c)" for f
    by (simp_all add: c2 keysOK_def indexed_def helloCount_def allOf_def)
  then show ?thesis
    using assms(2) at stateOK_sent(1) [OF st] c2 all by (simp add: loopOK_def passed_rank)
qed

lemma loopOK_from_Ack:
  assumes "advanceStageIfReady cfg env c = Inr c'" and "loopOK cfg c" and at: "stage c = StageAck"
    and moved: "stage c' \<noteq> stage c"
  shows "loopOK cfg c'"
proof -
  have st: "stateOK (rs c)" and ex: "expected (rs c) = Expected cfg"
    using assms(2) by (simp_all add: loopOK_def)
  note full = countOf_full [OF st, unfolded ex]
  from at have a: "allOf AckReceived (rs c)" and c': "rs c' = rs c" "published c' = published c"
    "stage c' = (if SteadyWarmup cfg then StageWindow else StageDone)"
    using assms(1) moved full
    by (auto simp: advanceStageIfReady_def advanceAck_def ackCount_def Let_def goto_def
        split: if_splits option.splits)
  show ?thesis
    using assms(2) at a c' by (auto simp: loopOK_def passed_rank)
qed

lemma loopOK_from_Window:
  assumes "advanceStageIfReady cfg env c = Inr c'" and "loopOK cfg c" and at: "stage c = StageWindow"
    and moved: "stage c' \<noteq> stage c"
  shows "loopOK cfg c'"
proof -
  have st: "stateOK (rs c)" and ex: "expected (rs c) = Expected cfg"
    using assms(2) by (simp_all add: loopOK_def)
  note full = countOf_full [OF st, unfolded ex]
  let ?k = "(rs c)\<lparr>steadyReached := False\<rparr>"
  let ?w = "\<lambda>now. (rs c)\<lparr>schedule := windowFrom cfg now, windowSent := True, steadyReached := True\<rparr>"
  have none: "published c = None"
    using assms(2) at by (auto simp: loopOK_def passed_rank)
  consider (keep) "c' = goto (DoneTimeout cfg) StageDone (publishMeasurementWindow (schedule ?k) (c\<lparr>rs := ?k\<rparr>))"
    | (adopt) now where "c' = goto (AckTimeout cfg) StageWindowAck (publishMeasurementWindow (schedule (?w now)) (c\<lparr>rs := ?w now\<rparr>))"
    using assms(1) moved at
    by (auto simp: advanceStageIfReady_def advanceWindow_def Let_def rbind_eq_Inr_iff split: if_splits option.splits)
  then show ?thesis
  proof cases
    case keep
    then have c2: "rs c' = ?k" "stage c' = StageDone" "published c' = Some (schedule ?k)"
      using none by (simp_all add: goto_def publishMeasurementWindow_def)
    have "keysOK (rs c') = keysOK (rs c)" "helloCount (rs c') = helloCount (rs c)" "allOf f (rs c') = allOf f (rs c)"
      "windowAckCount (rs c') = windowAckCount (rs c)" for f
      by (simp_all add: c2 keysOK_def indexed_def helloCount_def allOf_def windowAckCount_def)
    then show ?thesis
      using assms(2) at stateOK_sent(3) [OF st] c2 by (simp add: loopOK_def passed_rank)
  next
    case adopt
    then have c2: "rs c' = ?w now" "stage c' = StageWindowAck" "published c' = Some (schedule (?w now))"
      using none by (simp_all add: goto_def publishMeasurementWindow_def)
    have "keysOK (rs c') = keysOK (rs c)" "helloCount (rs c') = helloCount (rs c)" "allOf f (rs c') = allOf f (rs c)" for f
      by (simp_all add: c2 keysOK_def indexed_def helloCount_def allOf_def)
    then show ?thesis
      using assms(2) at stateOK_sent(2) [OF st] c2 by (simp add: loopOK_def passed_rank)
  qed
qed

lemma loopOK_from_WindowAck:
  assumes "advanceStageIfReady cfg env c = Inr c'" and "loopOK cfg c" and at: "stage c = StageWindowAck"
    and moved: "stage c' \<noteq> stage c"
  shows "loopOK cfg c'"
proof -
  have st: "stateOK (rs c)" and ex: "expected (rs c) = Expected cfg"
    using assms(2) by (simp_all add: loopOK_def)
  note full = countOf_full [OF st, unfolded ex]
  from at have "c' = goto (DoneTimeout cfg) StageDone c" "windowAckCount (rs c) = Expected cfg"
    using assms(1,2) moved windowAckCount_le [OF st]
    by (auto simp: advanceStageIfReady_def loopOK_def passed_rank split: if_splits)
  then show ?thesis
    using assms(2) at by (simp add: loopOK_def goto_def passed_rank)
qed

lemma loopOK_from_Done:
  assumes "advanceStageIfReady cfg env c = Inr c'" and "loopOK cfg c" and at: "stage c = StageDone"
    and moved: "stage c' \<noteq> stage c"
  shows "loopOK cfg c'"
proof -
  have st: "stateOK (rs c)" and ex: "expected (rs c) = Expected cfg"
    using assms(2) by (simp_all add: loopOK_def)
  note full = countOf_full [OF st, unfolded ex]
  from at have "c' = c\<lparr>stage := Finished\<rparr>" "allOf DoneReceived (rs c)"
    using assms(1) moved full by (auto simp: advanceStageIfReady_def doneCount_def split: if_splits)
  then show ?thesis
    using assms(2) at by (simp add: loopOK_def passed_rank)
qed

lemma loopOK_advance:
  assumes "advanceStageIfReady cfg env c = Inr c'" and "loopOK cfg c" and "stage c \<noteq> Finished"
  shows "loopOK cfg c'"
proof (cases "stage c' = stage c")
  case True
  then have "c' = c"
    using assms(1)
    by (auto simp: advanceStageIfReady_def advanceReady_def advanceAck_def advanceWindow_def Let_def
        rbind_eq_Inr_iff split: Stage.splits if_splits option.splits)
  then show ?thesis using assms(2) by simp
next
  case False
  show ?thesis
    using assms loopOK_from_Hello [OF assms(1,2) _ False] loopOK_from_Ready [OF assms(1,2) _ False]
      loopOK_from_Ack [OF assms(1,2) _ False] loopOK_from_Window [OF assms(1,2) _ False]
      loopOK_from_WindowAck [OF assms(1,2) _ False] loopOK_from_Done [OF assms(1,2) _ False]
    by (cases "stage c") simp_all
qed

end
