(* ===== verification/ControlProperties.thy ===== *)
theory ControlProperties
  imports Control
begin

text \<open>
  What the control plane promises: the states a run can reach, the barrier every participant has
  passed when a run finishes, the times of the measured window, the turns at which a run cannot
  stay in a stage, the meaning of a steady warmup and the history kept for each client. The sample
  run of this theory is the concrete input at which the properties are applied.
\<close>

section \<open>Reachable states\<close>

inductive reachable :: "Config \<Rightarrow> Control \<Rightarrow> bool" for cfg where
  start: "reachable cfg (startControl cfg)"
| step: "reachable cfg c \<Longrightarrow> runStep cfg env c inp = Inr c' \<Longrightarrow> reachable cfg c'"

lemma advanceAll_step:
  "advanceStageIfReady cfg env c = Inr d \<Longrightarrow> advanceAll cfg env c =
    (if stage d = stage c then Inr d else if stage d = Finished then Inr d else advanceAll cfg env d)"
  by (subst advanceAll.simps) simp

lemma advanceAll_Inr:
  "advanceAll cfg env c = Inr c' \<Longrightarrow> \<exists>d. advanceStageIfReady cfg env c = Inr d"
  by (subst (asm) advanceAll.simps) (auto split: sum.splits)

lemma advanceAll_OK:
  "advanceAll cfg env c = Inr c' \<Longrightarrow> loopOK cfg c \<Longrightarrow> stage c \<noteq> Finished \<Longrightarrow> loopOK cfg c'"
proof (induction cfg env c rule: advanceAll.induct)
  case (1 cfg env c)
  obtain d where d: "advanceStageIfReady cfg env c = Inr d"
    using advanceAll_Inr [OF "1.prems"(1)] by blast
  have "loopOK cfg d" by (rule loopOK_advance [OF d "1.prems"(2,3)])
  then show ?case
    using 1 d advanceAll_step [OF d] by (auto split: if_splits)
qed

lemma runEvent_cases:
  assumes "runEvent cfg env c ev = r" and "loopOK cfg c" and "stage c \<noteq> Finished"
  shows "(\<forall>c'. r = Inr c' \<longrightarrow> loopOK cfg c' \<and> stage c' \<noteq> Finished) \<and>
    (\<forall>c'. r = Inl (c', None) \<longrightarrow> loopOK cfg c' \<and> stage c' = Finished)"
proof (cases "apply_event (rs c) ev")
  case (Inl e)
  then show ?thesis using assms(1) by (auto simp: runEvent_def)
next
  case (Inr s)
  have a: "loopOK cfg (noteServerReady ev (c\<lparr>rs := s\<rparr>))" "stage (noteServerReady ev (c\<lparr>rs := s\<rparr>)) \<noteq> Finished"
    using loopOK_apply [OF Inr assms(2,3)] assms(3) loopOK_serverReady by simp_all
  show ?thesis
    using assms(1) Inr advanceAll_OK [OF _ a]
    by (auto simp: runEvent_def split: sum.splits if_splits)
qed

lemma runTick_OK:
  assumes "runTick cfg c = Inr c'" and "loopOK cfg c"
  shows "loopOK cfg c' \<and> stage c' = StageDone"
proof -
  let ?k = "(rs c)\<lparr>steadyReached := False\<rparr>"
  have at: "stage c = StageWindow"
    and c': "c' = goto (DoneTimeout cfg) StageDone (publishMeasurementWindow (schedule ?k) (c\<lparr>rs := ?k\<rparr>))"
    using assms(1) by (auto simp: runTick_def Let_def split: if_splits)
  have "published c = None" using assms(2) at by (auto simp: loopOK_def passed_rank)
  then have c2: "rs c' = ?k" "stage c' = StageDone" "published c' = Some (schedule ?k)"
    by (simp_all add: c' goto_def publishMeasurementWindow_def)
  have "keysOK (rs c') = keysOK (rs c)" "helloCount (rs c') = helloCount (rs c)" "allOf f (rs c') = allOf f (rs c)"
    "windowAckCount (rs c') = windowAckCount (rs c)" for f
    by (simp_all add: c2 keysOK_def indexed_def helloCount_def allOf_def windowAckCount_def)
  then show ?thesis
    using assms(2) at stateOK_sent(3) [of "rs c" False] c2 by (simp add: loopOK_def passed_rank)
qed

lemma reachable_OK:
  assumes "reachable cfg c" and "0 \<le> Expected cfg"
  shows "loopOK cfg c \<and> stage c \<noteq> Finished"
  using assms
proof (induction rule: reachable.induct)
  case start
  then show ?case using loopOK_start by (simp add: startControl_def)
next
  case (step c env inp c')
  have ih: "loopOK cfg c" "stage c \<noteq> Finished" using step.IH step.prems by simp_all
  show ?case
  proof (cases inp)
    case Tick
    then have "runTick cfg c = Inr c'" using step.hyps(2) by simp
    then show ?thesis using runTick_OK [OF _ ih(1)] by simp
  next
    case (Event ev)
    then have "runEvent cfg env c ev = Inr c'" using step.hyps(2) by simp
    then show ?thesis using runEvent_cases [OF _ ih] by blast
  qed (use step.hyps(2) in simp)
qed

lemma runStep_returns:
  assumes "runStep cfg env c inp = Inl (c', None)"
  obtains ev s where "inp = Event ev" and "runEvent cfg env c ev = Inl (c', None)"
    and "apply_event (rs c) ev = Inr s" and "advanceAll cfg env (noteServerReady ev (c\<lparr>rs := s\<rparr>)) = Inr c'"
proof (cases inp)
  case (Event ev)
  then have r: "runEvent cfg env c ev = Inl (c', None)" using assms by simp
  then obtain s where s: "apply_event (rs c) ev = Inr s"
    by (cases "apply_event (rs c) ev") (simp_all add: runEvent_def)
  have "advanceAll cfg env (noteServerReady ev (c\<lparr>rs := s\<rparr>)) = Inr c'"
    using r s by (cases "advanceAll cfg env (noteServerReady ev (c\<lparr>rs := s\<rparr>))")
      (auto simp: runEvent_def split: if_splits)
  then show ?thesis using that Event r s by blast
next
  case Tick
  then show ?thesis using assms by (cases "stage c = StageWindow") (simp_all add: runTick_def Let_def)
qed (use assms in simp)

lemma finished_OK:
  assumes "reachable cfg c" and "0 \<le> Expected cfg" and "runStep cfg env c inp = Inl (c', None)"
  shows "loopOK cfg c' \<and> stage c' = Finished"
proof -
  have ok: "loopOK cfg c" "stage c \<noteq> Finished" using reachable_OK [OF assms(1,2)] by simp_all
  obtain ev where "runEvent cfg env c ev = Inl (c', None)"
    using runStep_returns [OF assms(3)] by metis
  then show ?thesis using runEvent_cases [OF _ ok] by blast
qed

section \<open>Safety of a run\<close>

lemma withRates_simps [simp]:
  "ConnID (withRates s (i, p)) = ConnID p" "ReadyReceived (withRates s (i, p)) = ReadyReceived p"
  "AckReceived (withRates s (i, p)) = AckReceived p" "DoneReceived (withRates s (i, p)) = DoneReceived p"
  "pHello (withRates s (i, p)) = pHello p" "DoneStats (withRates s (i, p)) = DoneStats p"
  by (simp_all add: withRates_def split: option.split)

lemma sortedParticipants_set: "set (sortedParticipants s) = withRates s ` set (participants s)"
  "length (sortedParticipants s) = length (participants s)"
  by (simp_all add: sortedParticipants_def)

lemma finished_result:
  assumes "loopOK cfg c" and "stage c = Finished"
  shows "int (length (Participants (result (rs c)))) = Expected cfg \<and>
    distinct (map ConnID (Participants (result (rs c)))) \<and>
    (\<forall>p \<in> set (Participants (result (rs c))). ReadyReceived p \<and> AckReceived p \<and> DoneReceived p) \<and>
    int (length (Stats (result (rs c)))) = Expected cfg"
proof -
  let ?s = "rs c"
  have s: "stateOK ?s" "helloCount ?s = Expected cfg"
    and all: "allOf ReadyReceived ?s" "allOf AckReceived ?s" "allOf DoneReceived ?s"
    using assms by (simp_all add: loopOK_def passed_rank)
  have fin: "\<forall>p \<in> set (sortedParticipants ?s). ReadyReceived p \<and> AckReceived p \<and> DoneReceived p"
    using all by (auto simp: sortedParticipants_set allOf_def)
  then have "filter DoneReceived (sortedParticipants ?s) = sortedParticipants ?s"
    by (simp add: filter_id_conv)
  moreover have "distinct (map ConnID (sortedParticipants ?s))"
  proof -
    have "map ConnID (map (withRates ?s) (participants ?s)) = map fst (participants ?s)"
      using s(1) by (auto simp: stateOK_def participantOK_def)
    moreover have "mset (map ConnID (sortedParticipants ?s)) = mset (map ConnID (map (withRates ?s) (participants ?s)))"
      by (simp add: sortedParticipants_def multiset.map_comp)
    ultimately have "mset (map ConnID (sortedParticipants ?s)) = mset (map fst (participants ?s))"
      by (simp only:)
    from mset_eq_imp_distinct_iff [OF this] show ?thesis using s(1) by (simp add: stateOK_def)
  qed
  ultimately show ?thesis
    using fin s(2) by (simp add: result_def Let_def sortedParticipants_set helloCount_def)
qed

lemma runLoop_reachable:
  "runLoop cfg c inputs = Inr c' \<Longrightarrow> reachable cfg c \<Longrightarrow> reachable cfg c'"
proof (induction inputs arbitrary: c)
  case (Cons x inputs)
  then show ?case by (cases x) (auto split: sum.splits intro: reachable.step)
qed simp

lemma runLoop_returns:
  "runLoop cfg c inputs = Inl r \<Longrightarrow> reachable cfg c \<Longrightarrow>
    \<exists>d env inp. reachable cfg d \<and> runStep cfg env d inp = Inl r"
proof (induction inputs arbitrary: c)
  case (Cons x inputs)
  obtain env inp where x: "x = (env, inp)" by (cases x)
  show ?case
  proof (cases "runStep cfg env c inp")
    case (Inl r')
    then show ?thesis using Cons.prems x by auto
  next
    case (Inr d)
    then show ?thesis using Cons x reachable.step [OF Cons.prems(2) Inr] by auto
  qed
qed simp

text \<open>
  C5. A run that returns without an error has gone through the whole barrier protocol with
  every expected process: the result lists exactly the expected number of participants, on
  distinct connections, each of which was ready, acknowledged the schedule and reported done, and
  one statistics entry per participant.
\<close>

theorem run_completes_the_barrier:
  assumes "Run cfg inputs = Some (r, None)" and "0 \<le> Expected cfg"
  shows "int (length (Participants r)) = Expected cfg \<and> distinct (map ConnID (Participants r)) \<and>
    (\<forall>p \<in> set (Participants r). ReadyReceived p \<and> AckReceived p \<and> DoneReceived p) \<and>
    int (length (Stats r)) = Expected cfg"
proof -
  obtain c where c: "runLoop cfg (startControl cfg) inputs = Inl (c, None)" "r = result (rs c)"
    using assms(1) by (auto simp: Run_def split: sum.splits)
  obtain d env inp where "reachable cfg d" "runStep cfg env d inp = Inl (c, None)"
    using runLoop_returns [OF c(1) reachable.start] by blast
  from finished_OK [OF this(1) assms(2) this(2)] show ?thesis
    using finished_result [of cfg c] c(2) by simp
qed

lemma advance_published:
  "advanceStageIfReady cfg env c = Inr c' \<Longrightarrow> published c = Some w \<Longrightarrow> published c' = Some w"
  by (auto simp: advanceStageIfReady_def advanceReady_def advanceAck_def advanceWindow_def Let_def
      rbind_eq_Inr_iff goto_def publishMeasurementWindow_def split: Stage.splits if_splits option.splits)

lemma advanceAll_published:
  "advanceAll cfg env c = Inr c' \<Longrightarrow> published c = Some w \<Longrightarrow> published c' = Some w"
proof (induction cfg env c rule: advanceAll.induct)
  case (1 cfg env c)
  obtain d where d: "advanceStageIfReady cfg env c = Inr d"
    using advanceAll_Inr [OF "1.prems"(1)] by blast
  then show ?case
    using 1 advanceAll_step [OF d] advance_published [OF d] by (auto split: if_splits)
qed

lemma noteServerReady_published [simp]: "published (noteServerReady ev c) = published c"
  by (simp add: noteServerReady_def split: event.split option.split)

lemma runStep_published:
  assumes "runStep cfg env c inp = Inl (c', None)" and "published c = Some w"
  shows "published c' = Some w"
proof -
  obtain ev s where "advanceAll cfg env (noteServerReady ev (c\<lparr>rs := s\<rparr>)) = Inr c'"
    using runStep_returns [OF assms(1)] by metis
  then show ?thesis by (rule advanceAll_published) (simp add: assms(2))
qed

text \<open>
  C16. The measurement window is published exactly once, and it is the window the result
  reports: nothing is published before the schedule is committed (with steady warmup, before the
  window stage is left), from then on the published window is the current schedule, and when the
  run ends it has been published.
\<close>

theorem published_window_is_the_schedule:
  assumes "reachable cfg c" and "0 \<le> Expected cfg"
  shows "published c = (if passed StageWindow c \<or> \<not> SteadyWarmup cfg \<and> passed StageReady c
      then Some (rSchedule (result (rs c))) else None) \<and>
    (\<forall>env inp c'. runStep cfg env c inp = Inl (c', None) \<longrightarrow>
      published c' = Some (rSchedule (result (rs c'))) \<and>
      (published c \<noteq> None \<longrightarrow> published c' = published c))"
proof -
  have r: "rSchedule (result s) = schedule s" for s by (simp add: result_def Let_def)
  have ok: "loopOK cfg c" using reachable_OK [OF assms] by simp
  then have "published c = (if passed StageWindow c \<or> \<not> SteadyWarmup cfg \<and> passed StageReady c
      then Some (schedule (rs c)) else None)"
    by (simp add: loopOK_def)
  moreover have "published c' = Some (schedule (rs c'))" if "runStep cfg env c inp = Inl (c', None)" for env inp c'
    using finished_OK [OF assms that] by (simp add: loopOK_def passed_rank)
  moreover have "published c' = published c" if "published c \<noteq> None" "runStep cfg env c inp = Inl (c', None)" for env inp c'
    using that runStep_published by fastforce
  ultimately show ?thesis by (simp add: r)
qed

section \<open>A sample run\<close>

definition sampleConfig :: Config where
  "sampleConfig = \<lparr>SocketPath = ''/tmp/control.sock'', Expected = 2, Warmup = 3000000000, Duration = 10000000000,
     Drain = 1000000000, SteadyWarmup = False, SteadyBuckets = 0, SteadyTolPct = FFin 0, SteadyGuard = 0,
     SteadyMinWarmup = 0, SteadyExpectedSentPerConn = FFin 0, SteadyExpectedRecvPerConn = FFin 0,
     HelloTimeout = 0, ReadyTimeout = 0, AckTimeout = 0, DoneTimeout = 0\<rparr>"

definition helloFrom :: "string \<Rightarrow> int \<Rightarrow> HelloMessage" where
  "helloFrom role i = \<lparr>Role = role, Transport = ''udp'', Lib = [], PID = 100 + i, ProcIndex = i\<rparr>"

definition calmEnv :: "int \<Rightarrow> environment" where
  "calmEnv now = \<lparr>clock = \<lambda>_. Some now, sendOK = \<lambda>_. True\<rparr>"

definition sampleEvents :: "event list" where
  "sampleEvents =
     [EvHello 0 (helloFrom ''server'' 0), EvHello 1 (helloFrom ''client'' 0), EvReady 0 0, EvReady 1 8,
      EvAck 0 2000, EvAck 1 1000, EvDone 1 (JObj []), EvDone 0 (JObj [])]"

definition sampleInputs :: "(environment \<times> input) list" where
  "sampleInputs = map (\<lambda>ev. (calmEnv 5000, Event ev)) sampleEvents"

lemma sample_run: "case Run sampleConfig sampleInputs of Some (r, None) \<Rightarrow> Valid r | _ \<Rightarrow> False"
  by code_simp

lemma run_completes_the_barrier_witness:
  "\<exists>r. Run sampleConfig sampleInputs = Some (r, None) \<and> int (length (Participants r)) = 2"
proof -
  obtain r where r: "Run sampleConfig sampleInputs = Some (r, None)"
    using sample_run by (auto split: option.splits prod.splits)
  have "0 \<le> Expected sampleConfig" by (simp add: sampleConfig_def)
  from run_completes_the_barrier [OF r this] show ?thesis
    using r by (simp add: sampleConfig_def)
qed

lemma sample_waiting:
  "case runLoop sampleConfig (startControl sampleConfig) (take 7 sampleInputs) of
     Inr c \<Rightarrow> published c \<noteq> None \<and> stage c = StageDone | _ \<Rightarrow> False"
  by code_simp

lemma published_window_is_the_schedule_witness:
  "\<exists>c. reachable sampleConfig c \<and> published c = Some (rSchedule (result (rs c)))"
proof -
  obtain c where c: "runLoop sampleConfig (startControl sampleConfig) (take 7 sampleInputs) = Inr c"
    and s: "stage c = StageDone"
    using sample_waiting by (auto split: sum.splits)
  have r: "reachable sampleConfig c" by (rule runLoop_reachable [OF c reachable.start])
  have "0 \<le> Expected sampleConfig" by (simp add: sampleConfig_def)
  from published_window_is_the_schedule [OF r this] show ?thesis
    using r s by (auto simp: passed_rank)
qed

section \<open>Validity\<close>

fun negativeMargin :: "input \<Rightarrow> bool" where
  "negativeMargin (Event (EvAck _ m)) \<longleftrightarrow> m < 0"
| "negativeMargin (Event (EvWindowAck _ m)) \<longleftrightarrow> m < 0"
| "negativeMargin _ \<longleftrightarrow> False"

lemma advance_invalid: "advanceStageIfReady cfg env c = Inr c' \<Longrightarrow> invalid (rs c') = invalid (rs c)"
  by (auto simp: advanceStageIfReady_def advanceReady_def advanceAck_def advanceWindow_def Let_def
      rbind_eq_Inr_iff goto_def publishMeasurementWindow_def split: Stage.splits if_splits option.splits)

lemma advanceAll_invalid: "advanceAll cfg env c = Inr c' \<Longrightarrow> invalid (rs c') = invalid (rs c)"
proof (induction cfg env c rule: advanceAll.induct)
  case (1 cfg env c)
  obtain d where d: "advanceStageIfReady cfg env c = Inr d"
    using advanceAll_Inr [OF "1.prems"(1)] by blast
  then show ?case
    using 1 advanceAll_step [OF d] advance_invalid [OF d] by (auto split: if_splits)
qed

lemma apply_event_invalid:
  "apply_event s ev = Inr s' \<Longrightarrow> invalid s' = [] \<longleftrightarrow> invalid s = [] \<and> \<not> negativeMargin (Event ev)"
  by (cases ev) (auto simp: withParticipant_Inr applyHello_def applyAck_def applyRate_def
      applyWindowAck_def applyDone_def Let_def rbind_eq_Inr_iff split: if_splits option.splits)

lemma noteServerReady_rs [simp]: "rs (noteServerReady ev c) = rs c"
  by (simp add: noteServerReady_def split: event.split option.split)

lemma runStep_goes_on:
  assumes "runStep cfg env c inp = Inr c'"
  shows "(inp = Tick \<and> runTick cfg c = Inr c') \<or>
    (\<exists>ev s. inp = Event ev \<and> apply_event (rs c) ev = Inr s \<and>
      advanceAll cfg env (noteServerReady ev (c\<lparr>rs := s\<rparr>)) = Inr c')"
proof (cases inp)
  case (Event ev)
  then have r: "runEvent cfg env c ev = Inr c'" using assms by simp
  then obtain s where s: "apply_event (rs c) ev = Inr s"
    by (cases "apply_event (rs c) ev") (simp_all add: runEvent_def)
  have "advanceAll cfg env (noteServerReady ev (c\<lparr>rs := s\<rparr>)) = Inr c'"
    using r s by (cases "advanceAll cfg env (noteServerReady ev (c\<lparr>rs := s\<rparr>))")
      (auto simp: runEvent_def split: if_splits)
  then show ?thesis using Event s by blast
qed (use assms in simp_all)

lemma runTick_rs:
  assumes "runTick cfg c = Inr c'"
  shows "stage c = StageWindow \<and> stage c' = StageDone \<and> rs c' = (rs c)\<lparr>steadyReached := False\<rparr>"
proof (cases "stage c = StageWindow")
  case True
  then have "c' = goto (DoneTimeout cfg) StageDone
      (publishMeasurementWindow (schedule (rs c)) (c\<lparr>rs := (rs c)\<lparr>steadyReached := False\<rparr>\<rparr>))"
    using assms by (simp add: runTick_def Let_def)
  then show ?thesis
    using True by (simp add: goto_def publishMeasurementWindow_def split: option.split)
qed (use assms in \<open>simp add: runTick_def\<close>)

lemma runStep_invalid:
  assumes "runStep cfg env c inp = Inr c' \<or> runStep cfg env c inp = Inl (c', None)"
  shows "invalid (rs c') = [] \<longleftrightarrow> invalid (rs c) = [] \<and> \<not> negativeMargin inp"
proof -
  consider "inp = Tick" "runTick cfg c = Inr c'"
    | ev s where "inp = Event ev" "apply_event (rs c) ev = Inr s"
        "advanceAll cfg env (noteServerReady ev (c\<lparr>rs := s\<rparr>)) = Inr c'"
    using assms runStep_goes_on runStep_returns by metis
  then show ?thesis
  proof cases
    case 1
    then show ?thesis using runTick_rs [OF 1(2)] by simp
  next
    case (2 ev s)
    then show ?thesis using apply_event_invalid [OF 2(2)] advanceAll_invalid [OF 2(3)] by simp
  qed
qed

lemma runLoop_invalid:
  "runLoop cfg c inputs = Inr c' \<Longrightarrow>
    invalid (rs c') = [] \<longleftrightarrow> invalid (rs c) = [] \<and> (\<forall>x \<in> set inputs. \<not> negativeMargin (snd x))"
proof (induction inputs arbitrary: c)
  case (Cons x inputs)
  obtain env inp where x: "x = (env, inp)" by (cases x)
  then obtain d where d: "runStep cfg env c inp = Inr d" "runLoop cfg d inputs = Inr c'"
    using Cons.prems by (auto split: sum.splits)
  then show ?case using Cons.IH [OF d(2)] runStep_invalid [of cfg env c inp d] x by auto
qed simp

text \<open>
  The result of a run is marked valid exactly when no process acknowledged the schedule or
  the window with a negative margin, both while the run goes on and when it returns.
\<close>

theorem valid_iff_margins:
  assumes "runLoop cfg (startControl cfg) inputs = Inr c"
  shows "(Valid (result (rs c)) \<longleftrightarrow> (\<forall>x \<in> set inputs. \<not> negativeMargin (snd x))) \<and>
    (\<forall>env inp c'. runStep cfg env c inp = Inl (c', None) \<longrightarrow>
      (Valid (result (rs c')) \<longleftrightarrow> (\<forall>x \<in> set (inputs @ [(env, inp)]). \<not> negativeMargin (snd x))))"
proof -
  have v: "Valid (result s) \<longleftrightarrow> invalid s = []" for s by (simp add: result_def Let_def)
  have "invalid (rs (startControl cfg)) = []" by (simp add: startControl_def newRunState_def)
  then have "invalid (rs c) = [] \<longleftrightarrow> (\<forall>x \<in> set inputs. \<not> negativeMargin (snd x))"
    using runLoop_invalid [OF assms] by simp
  moreover have "invalid (rs c') = [] \<longleftrightarrow> invalid (rs c) = [] \<and> \<not> negativeMargin inp"
    if "runStep cfg env c inp = Inl (c', None)" for env inp c'
    using runStep_invalid that by blast
  ultimately show ?thesis by (simp add: v) blast
qed

lemma valid_iff_margins_witness:
  "\<exists>c. runLoop sampleConfig (startControl sampleConfig) (take 7 sampleInputs) = Inr c \<and> Valid (result (rs c))"
proof -
  obtain c where c: "runLoop sampleConfig (startControl sampleConfig) (take 7 sampleInputs) = Inr c"
    using sample_waiting by (auto split: sum.splits)
  from valid_iff_margins [OF c] show ?thesis
    using c by (auto simp: sampleInputs_def sampleEvents_def)
qed

section \<open>The times of the window\<close>

text \<open>Clock readings and durations far from the ends of \<open>int64\<close>: no sum of them wraps.\<close>

definition saneEnv :: "environment \<Rightarrow> bool" where
  "saneEnv env \<longleftrightarrow> (\<forall>st now. clock env st = Some now \<longrightarrow> 0 \<le> now \<and> now \<le> 2 ^ 62)"

definition saneConfig :: "Config \<Rightarrow> bool" where
  "saneConfig cfg \<longleftrightarrow> 0 \<le> Expected cfg \<and>
     (\<forall>d \<in> {Warmup cfg, Duration cfg, Drain cfg, SteadyMinWarmup cfg, SteadyGuard cfg}. 0 \<le> d \<and> d \<le> 2 ^ 59)"

definition timesOK :: "Config \<Rightarrow> runState \<Rightarrow> bool" where
  "timesOK cfg s \<longleftrightarrow> (scheduleSent s \<longrightarrow>
     0 \<le> scheduleIssuedNS s \<and> scheduleIssuedNS s \<le> 2 ^ 62 \<and>
     StopAtNS (schedule s) = StartAtNS (schedule s) + Duration cfg \<and>
     DrainUntilNS (schedule s) = StopAtNS (schedule s) + Drain cfg \<and>
     (\<not> windowSent s \<longrightarrow> StartAtNS (schedule s) = scheduleIssuedNS s + Warmup cfg) \<and>
     (windowSent s \<longrightarrow> StartAtNS (schedule s) < scheduleIssuedNS s + Warmup cfg \<and>
       (0 < SteadyMinWarmup cfg \<longrightarrow>
         scheduleIssuedNS s + SteadyMinWarmup cfg + steadyGuard cfg \<le> StartAtNS (schedule s))))"

lemma wrap64_sane: "- (2 ^ 62) \<le> x \<Longrightarrow> x \<le> 2 ^ 62 + 2 ^ 61 \<Longrightarrow> wrap64 x = x"
  by (rule wrap64_id) (simp add: in_i64_def MaxInt64_def MinInt64_def)

lemma windowFrom_sane:
  assumes "saneConfig cfg" and "0 \<le> start" and "start \<le> 2 ^ 62 + 2 ^ 60"
  shows "StopAtNS (windowFrom cfg start) = start + Duration cfg"
    and "DrainUntilNS (windowFrom cfg start) = start + Duration cfg + Drain cfg"
    and "StartAtNS (windowFrom cfg start) = start"
proof -
  have d: "0 \<le> Duration cfg" "Duration cfg \<le> 2 ^ 59" "0 \<le> Drain cfg" "Drain cfg \<le> 2 ^ 59"
    using assms(1) by (simp_all add: saneConfig_def)
  have p: "(2::int) ^ 59 + 2 ^ 59 = 2 ^ 60" "(2::int) ^ 60 + 2 ^ 60 = 2 ^ 61" "(0::int) \<le> 2 ^ 62" by simp_all
  show "StopAtNS (windowFrom cfg start) = start + Duration cfg"
    and "DrainUntilNS (windowFrom cfg start) = start + Duration cfg + Drain cfg"
    and "StartAtNS (windowFrom cfg start) = start"
    using d p assms(2,3) by (simp_all add: windowFrom_def wrap64_sane)
qed

lemma steadyGuard_sane: "saneConfig cfg \<Longrightarrow> 0 \<le> steadyGuard cfg \<and> steadyGuard cfg \<le> 2 ^ 59"
  by (auto simp: saneConfig_def steadyGuard_def)

lemma timesOK_schedule:
  assumes "saneConfig cfg" and "0 \<le> now" and "now \<le> 2 ^ 62" and "\<not> windowSent s"
  shows "timesOK cfg (s\<lparr>scheduleIssuedNS := now, schedule := windowFrom cfg (wrap64 (now + Warmup cfg)), scheduleSent := True\<rparr>)"
proof -
  have w: "0 \<le> Warmup cfg" "Warmup cfg \<le> 2 ^ 59" using assms(1) by (simp_all add: saneConfig_def)
  have "now + Warmup cfg \<le> 2 ^ 62 + 2 ^ 60" using w assms(3) by simp
  moreover have "wrap64 (now + Warmup cfg) = now + Warmup cfg"
    using w assms(2,3) by (intro wrap64_sane) simp_all
  ultimately show ?thesis
    using windowFrom_sane [OF assms(1), of "now + Warmup cfg"] w assms(2-4) by (simp add: timesOK_def)
qed

lemma timesOK_window:
  assumes "saneConfig cfg" and "0 \<le> now" and "now \<le> 2 ^ 62" and "timesOK cfg s" and "scheduleSent s"
    and "\<not> windowSent s"
    and "\<not> (0 < SteadyMinWarmup cfg \<and> now < wrap64 (scheduleIssuedNS s + SteadyMinWarmup cfg))"
    and "wrap64 (now + steadyGuard cfg) < StartAtNS (schedule s)"
  shows "timesOK cfg (s\<lparr>schedule := windowFrom cfg (wrap64 (now + steadyGuard cfg)), windowSent := True, steadyReached := True\<rparr>)"
proof -
  note g = steadyGuard_sane [OF assms(1)]
  have m: "0 \<le> SteadyMinWarmup cfg" "SteadyMinWarmup cfg \<le> 2 ^ 59" using assms(1) by (simp_all add: saneConfig_def)
  have i: "0 \<le> scheduleIssuedNS s" "scheduleIssuedNS s \<le> 2 ^ 62" "StartAtNS (schedule s) = scheduleIssuedNS s + Warmup cfg"
    using assms(4-6) by (simp_all add: timesOK_def)
  have w1: "wrap64 (now + steadyGuard cfg) = now + steadyGuard cfg"
    using g assms(2,3) by (intro wrap64_sane) simp_all
  have w2: "wrap64 (scheduleIssuedNS s + SteadyMinWarmup cfg) = scheduleIssuedNS s + SteadyMinWarmup cfg"
    using m i by (intro wrap64_sane) simp_all
  have "now + steadyGuard cfg \<le> 2 ^ 62 + 2 ^ 60" "0 \<le> now + steadyGuard cfg" using g assms(2,3) by simp_all
  from windowFrom_sane [OF assms(1) this(2,1)] show ?thesis
    using assms(5,7,8) i unfolding w1 w2 by (auto simp: timesOK_def)
qed

text \<open>How an advance changes the run.\<close>

lemma advanced_state:
  assumes "advanceStageIfReady cfg env c = Inr c'"
  shows "rs c' = rs c \<or> rs c' = (rs c)\<lparr>steadyReached := False\<rparr> \<or>
    (\<exists>now. stage c = StageReady \<and> clock env StageReady = Some now \<and>
      rs c' = (rs c)\<lparr>scheduleIssuedNS := now, schedule := windowFrom cfg (wrap64 (now + Warmup cfg)), scheduleSent := True\<rparr>) \<or>
    (\<exists>now. stage c = StageWindow \<and> clock env StageWindow = Some now \<and>
      \<not> (0 < SteadyMinWarmup cfg \<and> now < wrap64 (scheduleIssuedNS (rs c) + SteadyMinWarmup cfg)) \<and>
      wrap64 (now + steadyGuard cfg) < StartAtNS (schedule (rs c)) \<and>
      rs c' = (rs c)\<lparr>schedule := windowFrom cfg (wrap64 (now + steadyGuard cfg)), windowSent := True, steadyReached := True\<rparr>)"
proof (cases "stage c")
  case StageReady
  then show ?thesis using assms
    by (auto simp: advanceStageIfReady_def advanceReady_def Let_def rbind_eq_Inr_iff goto_def
        publishMeasurementWindow_def split: if_splits option.splits)
next
  case StageWindow
  then show ?thesis using assms
    by (auto simp: advanceStageIfReady_def advanceWindow_def Let_def rbind_eq_Inr_iff goto_def
        publishMeasurementWindow_def not_le split: if_splits option.splits)
qed (use assms in \<open>auto simp: advanceStageIfReady_def advanceAck_def Let_def goto_def split: if_splits option.splits\<close>)

lemma timesOK_advance:
  assumes "advanceStageIfReady cfg env c = Inr c'" and "loopOK cfg c" and "stage c \<noteq> Finished"
    and "saneConfig cfg" and "saneEnv env" and "timesOK cfg (rs c)"
  shows "timesOK cfg (rs c')"
proof (cases "rs c' = rs c")
  case False
  then consider (ready) now where "stage c = StageReady" "clock env StageReady = Some now"
      "rs c' = (rs c)\<lparr>scheduleIssuedNS := now, schedule := windowFrom cfg (wrap64 (now + Warmup cfg)), scheduleSent := True\<rparr>"
    | (keep) "rs c' = (rs c)\<lparr>steadyReached := False\<rparr>"
    | (adopt) now where "stage c = StageWindow" "clock env StageWindow = Some now"
      "\<not> (0 < SteadyMinWarmup cfg \<and> now < wrap64 (scheduleIssuedNS (rs c) + SteadyMinWarmup cfg))"
      "wrap64 (now + steadyGuard cfg) < StartAtNS (schedule (rs c))"
      "rs c' = (rs c)\<lparr>schedule := windowFrom cfg (wrap64 (now + steadyGuard cfg)), windowSent := True, steadyReached := True\<rparr>"
    using assms(1) advanced_state [OF assms(1)] by metis
  then show ?thesis
  proof cases
    case ready
    moreover have "\<not> windowSent (rs c)" using assms(2) ready(1) by (auto simp: loopOK_def passed_rank)
    ultimately show ?thesis
      using timesOK_schedule [OF assms(4)] assms(5) by (simp add: saneEnv_def)
  next
    case keep
    then show ?thesis using assms(6) by (simp add: timesOK_def)
  next
    case adopt
    moreover have "\<not> windowSent (rs c)" "scheduleSent (rs c)" using assms(2) adopt(1) by (auto simp: loopOK_def passed_rank)
    ultimately show ?thesis
      using timesOK_window [OF assms(4) _ _ assms(6)] assms(5) by (simp add: saneEnv_def)
  qed
qed (use assms(6) in simp)

lemma timesOK_advanceAll:
  "advanceAll cfg env c = Inr c' \<Longrightarrow> loopOK cfg c \<Longrightarrow> stage c \<noteq> Finished \<Longrightarrow> saneConfig cfg \<Longrightarrow>
    saneEnv env \<Longrightarrow> timesOK cfg (rs c) \<Longrightarrow> timesOK cfg (rs c')"
proof (induction cfg env c rule: advanceAll.induct)
  case (1 cfg env c)
  obtain d where d: "advanceStageIfReady cfg env c = Inr d"
    using advanceAll_Inr [OF "1.prems"(1)] by blast
  have "loopOK cfg d" and "timesOK cfg (rs d)"
    using loopOK_advance [OF d "1.prems"(2,3)] timesOK_advance [OF d "1.prems"(2-6)] by simp_all
  then show ?case
    using 1 d advanceAll_step [OF d] by (auto split: if_splits)
qed

lemma timesOK_apply: "effect s s' \<Longrightarrow> timesOK cfg s' = timesOK cfg s"
  by (simp add: effect_def sameRun_def timesOK_def)

lemma timesOK_step:
  assumes "runStep cfg env c inp = Inr c'" and "loopOK cfg c" and "stage c \<noteq> Finished"
    and "saneConfig cfg" and "saneEnv env" and "timesOK cfg (rs c)"
  shows "timesOK cfg (rs c')"
  using runStep_goes_on [OF assms(1)]
proof (elim disjE exE conjE)
  assume "runTick cfg c = Inr c'"
  then show ?thesis using runTick_rs assms(6) by (simp add: timesOK_def)
next
  fix ev s
  assume s: "apply_event (rs c) ev = Inr s"
    and a: "advanceAll cfg env (noteServerReady ev (c\<lparr>rs := s\<rparr>)) = Inr c'"
  have "effect (rs c) s" using s assms(2) by (intro apply_event_effect) (auto simp: loopOK_def)
  then have "timesOK cfg s" using timesOK_apply assms(6) by simp
  then show ?thesis
    using timesOK_advanceAll [OF a] loopOK_apply [OF s assms(2,3)] assms(3-5)
    by (simp add: loopOK_serverReady)
qed

text \<open>
  C24. The times of the window are right as long as no sum overflows: once the schedule is sent
  the window starts the full warmup after it was issued, or, when a steady window was adopted,
  strictly earlier than that but never before the declared minimum warmup and the guard have
  passed; it lasts the configured duration and is followed by the configured drain.
\<close>

theorem window_times:
  assumes "runLoop cfg (startControl cfg) inputs = Inr c" and "saneConfig cfg"
    and "\<forall>x \<in> set inputs. saneEnv (fst x)" and "scheduleSent (rs c)"
  shows "StopAtNS (schedule (rs c)) = StartAtNS (schedule (rs c)) + Duration cfg \<and>
    DrainUntilNS (schedule (rs c)) = StopAtNS (schedule (rs c)) + Drain cfg \<and>
    (if windowSent (rs c)
     then StartAtNS (schedule (rs c)) < scheduleIssuedNS (rs c) + Warmup cfg \<and>
       (0 < SteadyMinWarmup cfg \<longrightarrow>
         scheduleIssuedNS (rs c) + SteadyMinWarmup cfg + steadyGuard cfg \<le> StartAtNS (schedule (rs c)))
     else StartAtNS (schedule (rs c)) = scheduleIssuedNS (rs c) + Warmup cfg)"
proof -
  have "timesOK cfg (rs d)"
    if "runLoop cfg e ins = Inr d" "reachable cfg e" "timesOK cfg (rs e)" "\<forall>x \<in> set ins. saneEnv (fst x)" for d e ins
    using that
  proof (induction ins arbitrary: e)
    case (Cons x ins)
    obtain env inp where x: "x = (env, inp)" by (cases x)
    then obtain f where f: "runStep cfg env e inp = Inr f" "runLoop cfg f ins = Inr d"
      using Cons.prems(1) by (auto split: sum.splits)
    have "timesOK cfg (rs f)"
      using timesOK_step [OF f(1)] reachable_OK [OF Cons.prems(2)] assms(2) Cons.prems(3,4) x
      by (simp add: saneConfig_def)
    then show ?case
      using Cons.IH [OF f(2) reachable.step [OF Cons.prems(2) f(1)]] Cons.prems(4) by simp
  qed simp
  from this [OF assms(1) reachable.start _ assms(3)] have "timesOK cfg (rs c)"
    by (simp add: timesOK_def startControl_def newRunState_def)
  then show ?thesis using assms(4) by (simp add: timesOK_def)
qed

lemma sample_scheduled:
  "case runLoop sampleConfig (startControl sampleConfig) (take 7 sampleInputs) of
     Inr c \<Rightarrow> scheduleSent (rs c) | _ \<Rightarrow> False"
  by code_simp

lemma window_times_witness:
  "\<exists>c. runLoop sampleConfig (startControl sampleConfig) (take 7 sampleInputs) = Inr c \<and>
     StopAtNS (schedule (rs c)) = StartAtNS (schedule (rs c)) + 10000000000"
proof -
  obtain c where c: "runLoop sampleConfig (startControl sampleConfig) (take 7 sampleInputs) = Inr c"
    and s: "scheduleSent (rs c)"
    using sample_scheduled by (auto split: sum.splits)
  have "saneConfig sampleConfig" by (simp add: saneConfig_def sampleConfig_def)
  moreover have "\<forall>x \<in> set (take 7 sampleInputs). saneEnv (fst x)"
    by (auto simp: sampleInputs_def saneEnv_def calmEnv_def dest!: in_set_takeD)
  ultimately show ?thesis
    using window_times [OF c _ _ s] c by (auto simp: sampleConfig_def)
qed

section \<open>Progress\<close>

text \<open>What the machine waits for in each stage.\<close>

definition waitsFor :: "Config \<Rightarrow> environment \<Rightarrow> Control \<Rightarrow> bool" where
  "waitsFor cfg env c \<longleftrightarrow> (case stage c of
      StageHello \<Rightarrow> helloCount (rs c) < Expected cfg
    | StageReady \<Rightarrow> readyCount (rs c) < Expected cfg
    | StageAck \<Rightarrow> ackCount (rs c) < Expected cfg
    | StageWindow \<Rightarrow> \<not> steadyDetected (rs c) cfg \<or>
        (\<exists>now. clock env StageWindow = Some now \<and> now < wrap64 (scheduleIssuedNS (rs c) + SteadyMinWarmup cfg))
    | StageWindowAck \<Rightarrow> windowAckCount (rs c) < Expected cfg
    | StageDone \<Rightarrow> doneCount (rs c) < Expected cfg
    | Finished \<Rightarrow> False)"

lemma advance_blocked:
  "advanceStageIfReady cfg env c = Inr c' \<Longrightarrow> stage c' = stage c \<Longrightarrow> waitsFor cfg env c \<and> c' = c"
  by (auto simp: waitsFor_def advanceStageIfReady_def advanceReady_def advanceAck_def advanceWindow_def Let_def
      rbind_eq_Inr_iff split: Stage.splits if_splits option.splits)

lemma advanceAll_blocked:
  "advanceAll cfg env c = Inr c' \<Longrightarrow> stage c' \<noteq> Finished \<Longrightarrow> waitsFor cfg env c'"
proof (induction cfg env c rule: advanceAll.induct)
  case (1 cfg env c)
  obtain d where d: "advanceStageIfReady cfg env c = Inr d"
    using advanceAll_Inr [OF "1.prems"(1)] by blast
  then show ?case
    using 1 advanceAll_step [OF d] advance_blocked [OF d] by (auto split: if_splits)
qed

text \<open>
  C15. The loop never sits on a barrier that is already met: after every event it handles
  without returning, something the current stage waits for is still missing. The one turn this
  does not hold after is the timeout that ends the steady warmup: it enters the last stage
  without looking at the reports already received, so that when every process has reported by
  then, the next timeout fails the run although nothing is missing.
\<close>

theorem no_event_leaves_a_met_barrier:
  "(runStep cfg env c (Event ev) = Inr c' \<longrightarrow> waitsFor cfg env c') \<and>
   (stage c = StageWindow \<longrightarrow>
     (\<exists>c'. runStep cfg env c Tick = Inr c' \<and> doneCount (rs c') = doneCount (rs c) \<and>
       runStep cfg env c' Tick = Inl (c', Some (TimeoutError StageDone (DoneTimeout cfg)))))"
proof (intro conjI impI)
  assume r: "runStep cfg env c (Event ev) = Inr c'"
  obtain s where a: "advanceAll cfg env (noteServerReady ev (c\<lparr>rs := s\<rparr>)) = Inr c'"
    using runStep_goes_on [OF r] by auto
  have "stage c' \<noteq> Finished"
    using r by (auto simp: runEvent_def split: sum.splits if_splits)
  then show "waitsFor cfg env c'" by (rule advanceAll_blocked [OF a])
next
  assume at: "stage c = StageWindow"
  then obtain c' where c': "runTick cfg c = Inr c'"
    by (simp add: runTick_def Let_def)
  have "doneCount (rs c') = doneCount (rs c)" "stage c' = StageDone"
    using runTick_rs [OF c'] by (simp_all add: doneCount_def countOf_def)
  then show "\<exists>c'. runStep cfg env c Tick = Inr c' \<and> doneCount (rs c') = doneCount (rs c) \<and>
      runStep cfg env c' Tick = Inl (c', Some (TimeoutError StageDone (DoneTimeout cfg)))"
    using c' by (intro exI [of _ c']) (simp add: runTick_def timeoutForStage_def)
qed

definition steadySample :: Config where
  "steadySample = sampleConfig\<lparr>SteadyWarmup := True\<rparr>"

lemma no_event_leaves_a_met_barrier_witness:
  "\<exists>c env c'. runLoop steadySample (startControl steadySample) sampleInputs = Inr c \<and>
     doneCount (rs c) = Expected steadySample \<and>
     runStep steadySample env c Tick = Inr c' \<and> runStep steadySample env c' Tick =
       Inl (c', Some (TimeoutError StageDone (DoneTimeout steadySample)))"
proof -
  have "case runLoop steadySample (startControl steadySample) sampleInputs of
     Inr c \<Rightarrow> stage c = StageWindow \<and> doneCount (rs c) = Expected steadySample | _ \<Rightarrow> False"
    by code_simp
  then obtain c where c: "runLoop steadySample (startControl steadySample) sampleInputs = Inr c"
    "stage c = StageWindow" "doneCount (rs c) = Expected steadySample"
    by (auto split: sum.splits)
  then show ?thesis
    using no_event_leaves_a_met_barrier [of steadySample "calmEnv 0" c] by blast
qed

section \<open>Steady detection\<close>

lemma map_nth_upt_take_drop: "b \<le> length d \<Longrightarrow> map ((!) d) [a..<b] = take (b - a) (drop a d)"
  by (rule nth_equalityI) (auto simp: min_def)

lemma sumTail_windows:
  assumes "2 * n \<le> length d"
  shows "sumTail d n 0 = sum_list (drop (length d - n) d)"
    and "sumTail d n n = sum_list (take n (drop (length d - 2 * n) d))"
  using assms by (simp_all add: sumTail_def map_nth_upt_take_drop mult_2)

lemma split_windows:
  assumes "2 * n \<le> length d"
  shows "d = take (length d - 2 * n) d @ take n (drop (length d - 2 * n) d) @ drop (length d - n) d"
proof -
  have "drop n (drop (length d - 2 * n) d) = drop (length d - n) d"
    using assms by (simp add: mult_2)
  then show ?thesis
    using append_take_drop_id [of n "drop (length d - 2 * n) d"] append_take_drop_id [of "length d - 2 * n" d]
    by simp
qed

text \<open>A history that ends in two windows of \<open>n\<close> increments whose sums agree.\<close>

definition flatTail :: "nat \<Rightarrow> f64 \<Rightarrow> u64 list \<Rightarrow> bool" where
  "flatTail n tol d \<longleftrightarrow> (\<exists>d0 d1 d2. d = d0 @ d1 @ d2 \<and> length d1 = n \<and> length d2 = n \<and>
     flatWindows (sum_list d1) (sum_list d2) tol \<and> sum_list d2 \<noteq> 0)"

lemma flatTail_sums:
  assumes "2 * n \<le> length d" and "flatWindows (sumTail d n n) (sumTail d n 0) tol"
  shows "flatTail n tol d"
proof -
  have "sumTail d n 0 \<noteq> 0" using assms(2) by (auto simp: flatWindows_def)
  moreover have "length (take n (drop (length d - 2 * n) d)) = n" "length (drop (length d - n) d) = n"
    using assms(1) by simp_all
  ultimately show ?thesis
    using split_windows [OF assms(1)] assms(2) sumTail_windows [OF assms(1)]
    unfolding flatTail_def by metis
qed

lemma clientSteady_tails:
  assumes "clientSteady cfg n tol p (Some t)" and "trackOK t"
  shows "2 * n \<le> 32 \<and> flatTail n tol (dSent t) \<and> flatTail n tol (dRecv t)"
proof -
  have h: "2 * n \<le> length (dSent t)" "flatWindows (sumTail (dSent t) n n) (sumTail (dSent t) n 0) tol"
    "flatWindows (sumTail (dRecv t) n n) (sumTail (dRecv t) n 0) tol"
    using assms(1) by (auto simp: clientSteady_def Let_def split: if_splits)
  then show ?thesis
    using assms(2) flatTail_sums [of n "dSent t" tol] flatTail_sums [of n "dRecv t" tol] by (simp add: trackOK_def)
qed

text \<open>
  C30. When the detector declares the run steady, every expected client has reported: its history
  ends in two consecutive windows of the configured number of increments, whose sums agree within
  the tolerance for sends and receives alike, and the last window is not empty. Because 32
  increments are kept, no configuration that asks for more than 16 per window is ever steady.
\<close>

theorem steady_means_two_flat_windows:
  assumes "reachable cfg c" and "0 \<le> Expected cfg" and "steadyDetected (rs c) cfg"
  shows "steadyBuckets cfg \<le> 16 \<and>
    int (length (filter (\<lambda>(_, p). isClient p) (participants (rs c)))) = Expected cfg - 1 \<and>
    (\<forall>(i, p) \<in> set (participants (rs c)). isClient p \<longrightarrow> (\<exists>t. rates (rs c) i = Some t \<and>
      flatTail (nat (steadyBuckets cfg)) (if f_le (SteadyTolPct cfg) (FFin 0) then FFin 10 else SteadyTolPct cfg) (dSent t) \<and>
      flatTail (nat (steadyBuckets cfg)) (if f_le (SteadyTolPct cfg) (FFin 0) then FFin 10 else SteadyTolPct cfg) (dRecv t)))"
proof -
  let ?n = "nat (steadyBuckets cfg)"
  let ?tol = "if f_le (SteadyTolPct cfg) (FFin 0) then FFin 10 else SteadyTolPct cfg"
  have n: "nat (if SteadyBuckets cfg \<le> 0 then 4 else SteadyBuckets cfg) = ?n" by (simp add: steadyBuckets_def)
  have cl: "filter (\<lambda>(_, p). isClient p) (participants (rs c)) \<noteq> []"
    "int (length (filter (\<lambda>(_, p). isClient p) (participants (rs c)))) = Expected cfg - 1"
    and each: "\<forall>(i, p) \<in> set (participants (rs c)). isClient p \<longrightarrow> clientSteady cfg ?n ?tol p (rates (rs c) i)"
    using assms(3) by (auto simp: steadyDetected_def Let_def n list_all_iff split: if_splits)
  have ok: "stateOK (rs c)" using reachable_OK [OF assms(1,2)] by (simp add: loopOK_def)
  have w: "2 * ?n \<le> 32 \<and> (\<exists>t. rates (rs c) i = Some t \<and> flatTail ?n ?tol (dSent t) \<and> flatTail ?n ?tol (dRecv t))"
    if ip: "(i, p) \<in> set (participants (rs c))" "isClient p" for i p
  proof -
    have cs: "clientSteady cfg ?n ?tol p (rates (rs c) i)" using each ip by auto
    then obtain t where t: "rates (rs c) i = Some t" by (auto simp: clientSteady_def split: option.splits)
    have "trackOK t" using ok t by (auto simp: stateOK_def)
    then show ?thesis using clientSteady_tails [OF cs [unfolded t]] t by blast
  qed
  obtain i p where "(i, p) \<in> set (participants (rs c))" "isClient p"
    using cl(1) by (auto simp: filter_empty_conv)
  from w [OF this] have "steadyBuckets cfg \<le> 16" by auto
  then show ?thesis using cl(2) w by blast
qed

definition warmSample :: Config where
  "warmSample = sampleConfig\<lparr>SteadyWarmup := True, SteadyBuckets := 1\<rparr>"

definition warmInputs :: "(environment \<times> input) list" where
  "warmInputs = map (\<lambda>ev. (calmEnv 5000, Event ev))
     (take 5 sampleEvents @ map (\<lambda>n. EvRate 1 \<lparr>Sent = n * 100, Received = n * 90\<rparr>) [1, 2, 3])"

lemma warm_steady:
  "case runLoop warmSample (startControl warmSample) warmInputs of
     Inr c \<Rightarrow> stage c = StageAck \<and> steadyDetected (rs c) warmSample | _ \<Rightarrow> False"
  by code_simp

lemma steady_means_two_flat_windows_witness:
  "\<exists>c t. runLoop warmSample (startControl warmSample) warmInputs = Inr c \<and> steadyDetected (rs c) warmSample \<and>
     int (length (filter (\<lambda>(_, p). isClient p) (participants (rs c)))) = 1"
proof -
  obtain c where c: "runLoop warmSample (startControl warmSample) warmInputs = Inr c" "steadyDetected (rs c) warmSample"
    using warm_steady by (auto split: sum.splits)
  have "reachable warmSample c" by (rule runLoop_reachable [OF c(1) reachable.start])
  from steady_means_two_flat_windows [OF this _ c(2)] show ?thesis
    using c by (simp add: warmSample_def sampleConfig_def)
qed

section \<open>Identity and history\<close>

lemma procKey_inj: "procKey a = procKey b \<longleftrightarrow> Role a = Role b \<and> ProcIndex a = ProcIndex b"
proof
  assume "procKey a = procKey b"
  then have "Role a @ CHR ''#'' # itoa (ProcIndex a) = Role b @ CHR ''#'' # itoa (ProcIndex b)"
    by (simp add: procKey_def)
  from append_sep_inj [OF this itoa_no_hash itoa_no_hash] show "Role a = Role b \<and> ProcIndex a = ProcIndex b"
    by (simp add: itoa_inj)
qed (simp add: procKey_def)

text \<open>
  C31. Which hellos are accepted: in every state of a run, exactly those of a connection that has not said hello,
  while a seat is free, and whose process index, if it is not negative, no process of the same role
  claims. So two accepted processes of one role never share an index, and the server and the first client
  may. An accepted hello adds its participant and changes no other.
\<close>

theorem hello_accepted_iff_unclaimed:
  assumes "reachable cfg c" and "0 \<le> Expected cfg"
  shows "((\<exists>s. apply_event (rs c) (EvHello i h) = Inr s) \<longleftrightarrow>
      i \<notin> fst ` set (participants (rs c)) \<and> int (length (participants (rs c))) < Expected cfg \<and>
      \<not> (0 \<le> ProcIndex h \<and> (\<exists>(j, p) \<in> set (participants (rs c)).
        Role (pHello p) = Role h \<and> ProcIndex (pHello p) = ProcIndex h))) \<and>
    (\<forall>s. apply_event (rs c) (EvHello i h) = Inr s \<longrightarrow>
      participants s = participants (rs c) @ [(i, newParticipant i h)])"
proof -
  have ok: "keysOK (rs c)" "stateOK (rs c)" "expected (rs c) = Expected cfg"
    using reachable_OK [OF assms] by (simp_all add: loopOK_def)
  define claimed where "claimed \<longleftrightarrow> 0 \<le> ProcIndex h \<and> (\<exists>(j, p) \<in> set (participants (rs c)).
    Role (pHello p) = Role h \<and> ProcIndex (pHello p) = ProcIndex h)"
  have "map_of (procIndex (rs c)) (procKey h) = None \<longleftrightarrow>
      (\<forall>(j, p) \<in> set (indexed (rs c)). procKey (pHello p) \<noteq> procKey h)"
    using ok(1) by (auto simp: keysOK_def map_of_eq_None_iff image_iff)
  then have free: "(0 \<le> ProcIndex h \<longrightarrow> map_of (procIndex (rs c)) (procKey h) = None) \<longleftrightarrow> \<not> claimed"
    by (auto simp: indexed_def procKey_inj claimed_def) (metis order.trans order_refl)
  have new: "map_of (participants (rs c)) i = None \<longleftrightarrow> i \<notin> fst ` set (participants (rs c))"
    by (rule map_of_eq_None_iff)
  have "(\<exists>s. apply_event (rs c) (EvHello i h) = Inr s) \<longleftrightarrow>
      map_of (participants (rs c)) i = None \<and> int (length (participants (rs c))) < Expected cfg \<and>
      (0 \<le> ProcIndex h \<longrightarrow> map_of (procIndex (rs c)) (procKey h) = None)"
    using ok(3) by (auto simp: applyHello_def rbind_eq_Inr_iff split: option.splits)
  then have "(\<exists>s. apply_event (rs c) (EvHello i h) = Inr s) \<longleftrightarrow>
      i \<notin> fst ` set (participants (rs c)) \<and> int (length (participants (rs c))) < Expected cfg \<and> \<not> claimed"
    by (simp only: free new)
  moreover have "participants s = participants (rs c) @ [(i, newParticipant i h)]"
    if "apply_event (rs c) (EvHello i h) = Inr s" for s
    using apply_hello [OF _ ok(2,1), of i h s] that by simp
  ultimately show ?thesis unfolding claimed_def by blast
qed

lemma hello_accepted_iff_unclaimed_witness:
  "\<exists>c. reachable sampleConfig c \<and> (\<exists>s. apply_event (rs c) (EvHello 1 (helloFrom ''client'' 0)) = Inr s)"
proof -
  have "case runLoop sampleConfig (startControl sampleConfig) (take 1 sampleInputs) of
      Inr c \<Rightarrow> map_of (participants (rs c)) 1 = None \<and> helloCount (rs c) < 2 \<and>
        map (\<lambda>(i, p). Role (pHello p)) (participants (rs c)) = [''server''] | _ \<Rightarrow> False"
    by code_simp
  then obtain c where c: "runLoop sampleConfig (startControl sampleConfig) (take 1 sampleInputs) = Inr c"
    "map_of (participants (rs c)) 1 = None" "helloCount (rs c) < 2"
    "map (\<lambda>(i, p). Role (pHello p)) (participants (rs c)) = [''server'']"
    by (auto split: sum.splits)
  have r: "reachable sampleConfig c" by (rule runLoop_reachable [OF c(1) reachable.start])
  have server: "Role (pHello p) = ''server''" if "(j, p) \<in> set (participants (rs c))" for j p
    using arg_cong [OF c(4), where f = set] that by force
  then have "\<not> (\<exists>(j, p) \<in> set (participants (rs c)). Role (pHello p) = Role (helloFrom ''client'' 0) \<and>
      ProcIndex (pHello p) = ProcIndex (helloFrom ''client'' 0))"
    by (auto simp: helloFrom_def)
  moreover have "1 \<notin> fst ` set (participants (rs c))" "int (length (participants (rs c))) < Expected sampleConfig"
    using c(2,3) by (simp_all add: map_of_eq_None_iff helloCount_def sampleConfig_def)
  ultimately have "\<exists>s. apply_event (rs c) (EvHello 1 (helloFrom ''client'' 0)) = Inr s"
    using hello_accepted_iff_unclaimed [OF r, of 1 "helloFrom ''client'' 0"] by (simp add: sampleConfig_def)
  then show ?thesis using r by blast
qed

definition increments :: "u64 list \<Rightarrow> u64 list" where
  "increments xs = map2 increment (tl xs) xs"

lemma keepLast_snoc: "0 < k \<Longrightarrow> keepLast k (keepLast k xs @ [x]) = keepLast k (xs @ [x])"
proof -
  assume "0 < k"
  show ?thesis
  proof (cases "length xs < k")
    case True
    then show ?thesis by (simp add: keepLast_def)
  next
    case False
    then obtain m where "length xs = k + m" by (metis le_Suc_ex linorder_not_less)
    with \<open>0 < k\<close> show ?thesis by (simp add: keepLast_def Suc_diff_le)
  qed
qed

lemma zip_within: "length xs \<le> length ys \<Longrightarrow> zip xs (ys @ zs) = zip xs ys"
  by (simp add: zip_append2)

lemma increments_snoc: "xs \<noteq> [] \<Longrightarrow> increments (xs @ [y]) = increments xs @ [increment y (last xs)]"
proof -
  assume ne: "xs \<noteq> []"
  have len: "length (tl xs) = length (butlast xs)" by simp
  have "zip (tl xs @ [y]) (butlast xs @ [last xs]) = zip (tl xs) (butlast xs) @ [(y, last xs)]"
    using len by (simp only: zip_append) simp
  moreover have "zip (tl xs) (butlast xs @ [last xs]) = zip (tl xs) (butlast xs)"
    using len by (simp add: zip_append2)
  moreover have "zip (tl (xs @ [y])) (xs @ [y]) = zip (tl xs @ [y]) xs"
    using ne by (simp add: zip_within del: zip_append2)
  ultimately show ?thesis using ne by (simp add: increments_def)
qed

text \<open>
  The rate history of a client is what its reports say: after any non-empty sequence of
  reports it holds the last 32 increments between consecutive cumulative counters, a counter that
  went back counting as no increment, and the last report.
\<close>

theorem track_holds_last_increments:
  assumes "reports \<noteq> []"
  shows "dSent (foldl trackRate newTrack reports) = keepLast 32 (increments (map Sent reports)) \<and>
    dRecv (foldl trackRate newTrack reports) = keepLast 32 (increments (map Received reports)) \<and>
    lastRate (foldl trackRate newTrack reports) = last reports"
proof -
  have "dSent (foldl trackRate newTrack reports) = keepLast 32 (increments (map Sent reports)) \<and>
    dRecv (foldl trackRate newTrack reports) = keepLast 32 (increments (map Received reports)) \<and>
    lastRate (foldl trackRate newTrack reports) = last reports \<and> hasLast (foldl trackRate newTrack reports)"
    using assms
  proof (induction reports rule: rev_nonempty_induct)
    case (single r)
    then show ?case by (simp add: trackRate_def newTrack_def increments_def keepLast_def)
  next
    case (snoc r rs)
    then show ?case
      by (simp add: trackRate_def Let_def increments_snoc keepLast_snoc last_map)
  qed
  then show ?thesis by blast
qed

lemma track_holds_last_increments_witness:
  "dSent (foldl trackRate newTrack [\<lparr>Sent = 5, Received = 1\<rparr>, \<lparr>Sent = 9, Received = 0\<rparr>]) = [4]"
  using track_holds_last_increments [of "[\<lparr>Sent = 5, Received = 1\<rparr>, \<lparr>Sent = 9, Received = 0\<rparr>]"]
  by (simp add: increments_def increment_def keepLast_def)

end
