(* ===== verification/GoFormat.thy ===== *)
theory GoFormat
  imports Float64 GoText
begin

text \<open>
  How Go prints numbers: \<open>strconv.FormatFloat(x, 'f', -1, 64)\<close> and the verbs \<open>%.6f\<close>, \<open>%g\<close> and
  \<open>%q\<close>. The shortest digits of a number are those of the shortest decimal that rounds to it.
\<close>

definition itoaU :: "u64 \<Rightarrow> string" where
  "itoaU w = itoa (uint w)"

section \<open>Shortest decimals\<close>

text \<open>The decimals \<open>m / 10 ^ k\<close> next to a positive \<open>x\<close> that round to it, the closest one first.\<close>

definition pow10 :: "int \<Rightarrow> rat" where
  "pow10 k = (if 0 \<le> k then of_int (10 ^ nat k) else 1 / of_int (10 ^ nat (- k)))"

definition decimalAt :: "rat \<Rightarrow> int \<Rightarrow> int option" where
  "decimalAt x k =
     (let y = x * pow10 k;
          lo = \<lfloor>y\<rfloor>;
          ok = (\<lambda>m. 0 < m \<and> rnd64 (of_int m / pow10 k) = x);
          low = (y - of_int lo \<le> 1 / 2);
          near = (if low then lo else lo + 1);
          far = (if low then lo + 1 else lo)
      in if ok near then Some near else if ok far then Some far else None)"

text \<open>The digits and the number of them after the point, for the fewest digits.\<close>

fun shortestFrom :: "nat \<Rightarrow> rat \<Rightarrow> int \<Rightarrow> int \<times> int" where
  "shortestFrom 0 x k = (0, k)"
| "shortestFrom (Suc n) x k = (case decimalAt x k of Some m \<Rightarrow> (m, k) | None \<Rightarrow> shortestFrom n x (k + 1))"

definition shortest :: "rat \<Rightarrow> int \<times> int" where
  "shortest x = shortestFrom 1500 x (- int (length (itoa \<lfloor>x\<rfloor>)))"

definition pointAt :: "string \<Rightarrow> nat \<Rightarrow> string" where
  "pointAt ds k =
     (let ds = replicate (Suc k - length ds) CHR ''0'' @ ds
      in if k = 0 then ds else take (length ds - k) ds @ CHR ''.'' # drop (length ds - k) ds)"

definition plainDecimal :: "int \<times> int \<Rightarrow> string" where
  "plainDecimal = (\<lambda>(m, k). if k \<le> 0 then itoa m @ replicate (nat (- k)) CHR ''0'' else pointAt (itoa m) (nat k))"

definition signed :: "rat \<Rightarrow> string \<Rightarrow> string" where
  "signed x s = (if x < 0 then CHR ''-'' # s else s)"

fun formatFloat :: "f64 \<Rightarrow> string" where
  "formatFloat FNan = ''NaN''"
| "formatFloat (FInf pos) = (if pos then ''+Inf'' else ''-Inf'')"
| "formatFloat (FFin x) = (if x = 0 then ''0'' else signed x (plainDecimal (shortest \<bar>x\<bar>)))"

text \<open>\<open>%g\<close>: with an exponent below \<open>10 ^ - 4\<close> and from \<open>10 ^ 6\<close> on.\<close>

definition exponentText :: "int \<Rightarrow> string" where
  "exponentText e = (if e < 0 then ''e-'' else ''e+'') @
     (if \<bar>e\<bar> < 10 then ''0'' else []) @ itoa \<bar>e\<bar>"

definition scientific :: "int \<times> int \<Rightarrow> string" where
  "scientific = (\<lambda>(m, k). let ds = itoa m; e = int (length ds) - k - 1
     in (if length ds = 1 then ds else hd ds # CHR ''.'' # tl ds) @ exponentText e)"

fun formatG :: "f64 \<Rightarrow> string" where
  "formatG FNan = ''NaN''"
| "formatG (FInf pos) = (if pos then ''+Inf'' else ''-Inf'')"
| "formatG (FFin x) =
     (if x = 0 then ''0''
      else let d = shortest \<bar>x\<bar>; e = int (length (itoa (fst d))) - snd d - 1
        in signed x (if e < - 4 \<or> 6 \<le> e then scientific d else plainDecimal d))"

section \<open>Fixed digits\<close>

fun formatFixed :: "nat \<Rightarrow> f64 \<Rightarrow> string" where
  "formatFixed k FNan = ''NaN''"
| "formatFixed k (FInf pos) = (if pos then ''+Inf'' else ''-Inf'')"
| "formatFixed k (FFin x) = signed x (pointAt (itoa (rne (\<bar>x\<bar> * of_int (10 ^ k)))) k)"

section \<open>Quoting\<close>

text \<open>\<open>%q\<close> for text in ASCII.\<close>

definition hexDigit :: "nat \<Rightarrow> char" where
  "hexDigit d = (if d < 10 then char_of (48 + d) else char_of (87 + d))"

definition quoteChar :: "char \<Rightarrow> string" where
  "quoteChar c =
     (let n = (of_char c :: nat)
      in if n = 34 then [char_of (92 :: nat), c] else if n = 92 then [c, c]
         else if n = 7 then [char_of (92 :: nat), CHR ''a''] else if n = 8 then [char_of (92 :: nat), CHR ''b'']
         else if n = 9 then [char_of (92 :: nat), CHR ''t''] else if n = 10 then [char_of (92 :: nat), CHR ''n'']
         else if n = 11 then [char_of (92 :: nat), CHR ''v''] else if n = 12 then [char_of (92 :: nat), CHR ''f'']
         else if n = 13 then [char_of (92 :: nat), CHR ''r'']
         else if 32 \<le> n \<and> n < 127 then [c]
         else [char_of (92 :: nat), CHR ''x'', hexDigit (n div 16), hexDigit (n mod 16)])"

definition quoteText :: "string \<Rightarrow> string" where
  "quoteText s = char_of (34 :: nat) # concat (map quoteChar s) @ [char_of (34 :: nat)]"

end
