(* ===== verification/Netops.thy ===== *)
theory Netops
  imports GoFormat
begin

text \<open>
  The emulated link (\<open>orchestrator/netops/netops.go\<close>): the netem treatment of an egress and its
  \<open>tc\<close> arguments, the pair of network namespaces and the commands that build, show and remove it.
  The commands are data; running them is I/O. The order in which \<open>validatePair\<close> visits its fields
  only decides which missing field is reported.
\<close>

section \<open>Commands\<close>

record Command =
  cmdName :: string
  cmdArgs :: "string list"

abbreviation command :: "string \<Rightarrow> string list \<Rightarrow> Command" where
  "command name args \<equiv> \<lparr>cmdName = name, cmdArgs = args\<rparr>"

definition needsQuote :: "string \<Rightarrow> bool" where
  "needsQuote s \<longleftrightarrow> list_ex (\<lambda>c. (of_char c :: nat) \<in> {32, 9, 10, 34, 39, 92}) s"

definition commandString :: "Command \<Rightarrow> string" where
  "commandString c = joinText '' '' (map (\<lambda>p. if needsQuote p then quoteText p else p) (cmdName c # cmdArgs c))"

definition CommandsString :: "Command list \<Rightarrow> string" where
  "CommandsString cmds = concat (map (\<lambda>c. commandString c @ [char_of (10 :: nat)]) cmds)"

section \<open>The netem of an egress\<close>

record Netem =
  DelayMS :: int
  JitterMS :: int
  LossPercent :: f64
  LossBurstLen :: f64
  LossSeed :: u64
  TraceBits :: int
  Rate :: string
  Limit :: int

datatype netem_error =
    DelayNegative
  | JitterNegative
  | LossOutside
  | LimitNegative
  | GemodelLoss f64
  | GemodelBurst f64
  | GemodelInfeasible f64 f64
  | SelfExeRequired
  | PairFieldRequired string
  | LinkMTUOutside

definition f_nonzero :: "f64 \<Rightarrow> bool" where
  "f_nonzero x \<longleftrightarrow> \<not> f_eq x (FFin 0)"

definition gemodelParams :: "Netem \<Rightarrow> netem_error + f64 \<times> f64" where
  "gemodelParams n =
     (let loss = f_div (LossPercent n) (FFin 100)
      in if f_le loss (FFin 0) \<or> f_le (FFin 1) loss then Inl (GemodelLoss (LossPercent n))
         else if f_lt (LossBurstLen n) (FFin 1) then Inl (GemodelBurst (LossBurstLen n))
         else
           let r = f_div (FFin 1) (LossBurstLen n);
               p = f_div (f_mul loss r) (f_sub (FFin 1) loss)
           in if f_le (FFin 1) p then Inl (GemodelInfeasible (LossPercent n) (LossBurstLen n))
              else Inr (f_mul p (FFin 100), f_mul r (FFin 100)))"

definition Enabled :: "Netem \<Rightarrow> bool" where
  "Enabled n \<longleftrightarrow> DelayMS n \<noteq> 0 \<or> JitterMS n \<noteq> 0 \<or> f_nonzero (LossPercent n) \<or> Rate n \<noteq> [] \<or> Limit n \<noteq> 0"

text \<open>\<open>math.Round\<close>: to the nearest integer, halves away from zero.\<close>

fun f_round :: "f64 \<Rightarrow> f64" where
  "f_round (FFin x) = f_of_rat (if x < 0 then of_int \<lceil>x - 1 / 2\<rceil> else of_int \<lfloor>x + 1 / 2\<rfloor>)"
| "f_round x = x"

definition roundPct :: "f64 \<Rightarrow> string" where
  "roundPct v = formatFloat (f_div (f_round (f_mul v (FFin 10000))) (FFin 10000))"

definition limitOf :: "Netem \<Rightarrow> int" where
  "limitOf n = (if Limit n = 0 then 10000 else Limit n)"

definition delayArgs :: "Netem \<Rightarrow> string list" where
  "delayArgs n =
     (if DelayMS n \<noteq> 0 \<or> JitterMS n \<noteq> 0
      then [''delay'', itoa (DelayMS n) @ ''ms''] @
        (if JitterMS n \<noteq> 0 then [itoa (JitterMS n) @ ''ms'', ''distribution'', ''normal''] else [])
      else [])"

definition lossArgs :: "Netem \<Rightarrow> netem_error + string list" where
  "lossArgs n =
     (if f_nonzero (LossPercent n) \<and> LossSeed n = 0
      then if f_lt (FFin 0) (LossBurstLen n)
        then rbind (gemodelParams n) (\<lambda>(p, r).
          Inr [''loss'', ''gemodel'', roundPct p @ ''%'', roundPct r @ ''%'', ''100%'', ''0%''])
        else Inr [''loss'', formatFloat (LossPercent n) @ ''%'']
      else Inr [])"

definition Args :: "Netem \<Rightarrow> netem_error + string list" where
  "Args n =
     (if DelayMS n < 0 then Inl DelayNegative
      else if JitterMS n < 0 then Inl JitterNegative
      else if f_lt (LossPercent n) (FFin 0) \<or> f_lt (FFin 100) (LossPercent n) then Inl LossOutside
      else if limitOf n < 0 then Inl LimitNegative
      else rbind (lossArgs n) (\<lambda>loss.
        Inr ([''limit'', itoa (limitOf n)] @ delayArgs n @ loss @ (if Rate n \<noteq> [] then [''rate'', Rate n] else []))))"

section \<open>The pair of namespaces\<close>

record PairSpec =
  ServerNS :: string
  ClientNS :: string
  ServerVeth :: string
  ClientVeth :: string
  ServerAddrCIDR :: string
  ClientAddrCIDR :: string
  LinkMTUBytes :: int
  ServerEgress :: Netem
  ClientEgress :: Netem
  DisableOffloads :: bool
  SelfExe :: string

definition lossTraceBpffs :: string where
  "lossTraceBpffs = ''/run/rudpbench-bpf''"

definition lossTracePinDir :: "string \<Rightarrow> string" where
  "lossTracePinDir ns = lossTraceBpffs @ ''/'' @ ns"

definition lossTraceMountCommand :: Command where
  "lossTraceMountCommand = command ''sh'' [''-c'',
     ''mountpoint -q '' @ lossTraceBpffs @ '' || { mkdir -p '' @ lossTraceBpffs @
     '' && mount -t bpf bpf '' @ lossTraceBpffs @ ''; }'']"

definition traced :: "Netem \<Rightarrow> bool" where
  "traced egress \<longleftrightarrow> LossSeed egress \<noteq> 0 \<and> f_lt (FFin 0) (LossPercent egress)"

definition LossTraceEnabled :: "PairSpec \<Rightarrow> bool" where
  "LossTraceEnabled spec \<longleftrightarrow> traced (ServerEgress spec) \<or> traced (ClientEgress spec)"

definition lossTraceCommands :: "PairSpec \<Rightarrow> string \<Rightarrow> string \<Rightarrow> Netem \<Rightarrow> netem_error + Command list" where
  "lossTraceCommands spec ns veth egress =
     (if LossSeed egress = 0 \<or> f_le (LossPercent egress) (FFin 0) then Inr []
      else if SelfExe spec = [] then Inl SelfExeRequired
      else Inr [command ''ip''
        ([''netns'', ''exec'', ns, SelfExe spec, ''losstrace'', ''attach'', ''-dev'', veth,
          ''-seed'', itoaU (LossSeed egress), ''-loss-pct'', formatFloat (LossPercent egress),
          ''-pin-dir'', lossTracePinDir ns] @
         (if f_lt (FFin 0) (LossBurstLen egress) then [''-burst'', formatFloat (LossBurstLen egress)] else []) @
         (if 0 < TraceBits egress then [''-bits'', itoa (TraceBits egress)] else []))])"

definition zeroNetem :: Netem where
  "zeroNetem = \<lparr>DelayMS = 0, JitterMS = 0, LossPercent = FFin 0, LossBurstLen = FFin 0, LossSeed = 0,
     TraceBits = 0, Rate = [], Limit = 0\<rparr>"

definition DefaultPair :: "string \<Rightarrow> PairSpec" where
  "DefaultPair pre =
     (let pre = (if pre = [] then ''rudpbench'' else pre)
      in \<lparr>ServerNS = pre @ ''-srv'', ClientNS = pre @ ''-cli'', ServerVeth = pre @ ''-vs'',
          ClientVeth = pre @ ''-vc'', ServerAddrCIDR = ''10.200.0.1/24'', ClientAddrCIDR = ''10.200.0.2/24'',
          LinkMTUBytes = 1500, ServerEgress = zeroNetem, ClientEgress = zeroNetem,
          DisableOffloads = False, SelfExe = []\<rparr>)"

definition serverVethMAC :: string where "serverVethMAC = ''02:00:0a:c8:00:01''"
definition clientVethMAC :: string where "clientVethMAC = ''02:00:0a:c8:00:02''"

definition hostAddr :: "string \<Rightarrow> string" where
  "hostAddr cidr = takeWhile (\<lambda>c. c \<noteq> CHR ''/'') cidr"

definition validatePair :: "PairSpec \<Rightarrow> netem_error + unit" where
  "validatePair spec =
     rbind (checkM (\<lambda>(name, value). fail_if (value = []) (PairFieldRequired name))
       [(''server_ns'', ServerNS spec), (''client_ns'', ClientNS spec), (''server_veth'', ServerVeth spec),
        (''client_veth'', ClientVeth spec), (''server_addr_cidr'', ServerAddrCIDR spec),
        (''client_addr_cidr'', ClientAddrCIDR spec)]) (\<lambda>_.
     fail_if (LinkMTUBytes spec \<le> 0 \<or> 65535 < LinkMTUBytes spec) LinkMTUOutside)"

section \<open>Building and removing the pair\<close>

definition offloadAliases :: "string list" where
  "offloadAliases = [''tso'', ''gso'', ''gro'', ''lro'', ''tx-udp-segmentation'', ''rx-udp-gro-forwarding'']"

definition buildDisableOffloadsCommand :: "string \<Rightarrow> string \<Rightarrow> Command" where
  "buildDisableOffloadsCommand namespace device =
     command ''ip'' ([''netns'', ''exec'', namespace, ''ethtool'', ''-K'', device] @
       concat (map (\<lambda>alias. [alias, ''off'']) offloadAliases))"

definition linkCommands :: "PairSpec \<Rightarrow> Command list" where
  "linkCommands spec =
     (let sns = ServerNS spec; cns = ClientNS spec; sv = ServerVeth spec; cv = ClientVeth spec
      in [command ''ip'' [''netns'', ''add'', sns],
          command ''ip'' [''netns'', ''add'', cns],
          command ''ip'' [''link'', ''add'', sv, ''address'', serverVethMAC, ''type'', ''veth'', ''peer'', ''name'', cv,
            ''address'', clientVethMAC],
          command ''ip'' [''link'', ''set'', sv, ''netns'', sns],
          command ''ip'' [''link'', ''set'', cv, ''netns'', cns],
          command ''ip'' [''-n'', sns, ''link'', ''set'', ''dev'', sv, ''mtu'', itoa (LinkMTUBytes spec)],
          command ''ip'' [''-n'', cns, ''link'', ''set'', ''dev'', cv, ''mtu'', itoa (LinkMTUBytes spec)],
          command ''ip'' [''-n'', sns, ''addr'', ''add'', ServerAddrCIDR spec, ''dev'', sv],
          command ''ip'' [''-n'', cns, ''addr'', ''add'', ClientAddrCIDR spec, ''dev'', cv],
          command ''ip'' [''-n'', sns, ''neigh'', ''replace'', hostAddr (ClientAddrCIDR spec), ''lladdr'', clientVethMAC,
            ''dev'', sv, ''nud'', ''permanent''],
          command ''ip'' [''-n'', cns, ''neigh'', ''replace'', hostAddr (ServerAddrCIDR spec), ''lladdr'', serverVethMAC,
            ''dev'', cv, ''nud'', ''permanent''],
          command ''ip'' [''-n'', sns, ''link'', ''set'', ''lo'', ''up''],
          command ''ip'' [''-n'', cns, ''link'', ''set'', ''lo'', ''up''],
          command ''ip'' [''-n'', sns, ''link'', ''set'', sv, ''up''],
          command ''ip'' [''-n'', cns, ''link'', ''set'', cv, ''up'']])"

definition qdiscCommands :: "string \<Rightarrow> string \<Rightarrow> Netem \<Rightarrow> netem_error + Command list" where
  "qdiscCommands ns veth egress =
     (if Enabled egress
      then rbind (Args egress) (\<lambda>args. Inr [command ''tc''
        ([''-n'', ns, ''qdisc'', ''replace'', ''dev'', veth, ''root'', ''netem''] @ args)])
      else Inr [])"

definition BuildSetupCommands :: "PairSpec \<Rightarrow> netem_error + Command list" where
  "BuildSetupCommands spec =
     rbind (validatePair spec) (\<lambda>_.
     rbind (qdiscCommands (ServerNS spec) (ServerVeth spec) (ServerEgress spec)) (\<lambda>srvQdisc.
     rbind (qdiscCommands (ClientNS spec) (ClientVeth spec) (ClientEgress spec)) (\<lambda>cliQdisc.
     rbind (lossTraceCommands spec (ServerNS spec) (ServerVeth spec) (ServerEgress spec)) (\<lambda>srvTrace.
     rbind (lossTraceCommands spec (ClientNS spec) (ClientVeth spec) (ClientEgress spec)) (\<lambda>cliTrace.
     Inr (linkCommands spec @
       (if DisableOffloads spec
        then [buildDisableOffloadsCommand (ServerNS spec) (ServerVeth spec),
              buildDisableOffloadsCommand (ClientNS spec) (ClientVeth spec)] else []) @
       srvQdisc @ cliQdisc @
       (if srvTrace \<noteq> [] \<or> cliTrace \<noteq> [] then [lossTraceMountCommand] else []) @
       srvTrace @ cliTrace))))))"

definition BuildQdiscShowCommands :: "PairSpec \<Rightarrow> netem_error + Command list" where
  "BuildQdiscShowCommands spec =
     rbind (validatePair spec) (\<lambda>_.
     Inr [command ''tc'' [''-n'', ServerNS spec, ''-s'', ''qdisc'', ''show'', ''dev'', ServerVeth spec],
          command ''tc'' [''-n'', ClientNS spec, ''-s'', ''qdisc'', ''show'', ''dev'', ClientVeth spec]])"

definition BuildTeardownCommands :: "PairSpec \<Rightarrow> netem_error + Command list" where
  "BuildTeardownCommands spec =
     rbind (validatePair spec) (\<lambda>_.
     Inr ([command ''ip'' [''netns'', ''del'', ServerNS spec], command ''ip'' [''netns'', ''del'', ClientNS spec]] @
       (if LossSeed (ServerEgress spec) \<noteq> 0 then [command ''rm'' [''-rf'', lossTracePinDir (ServerNS spec)]] else []) @
       (if LossSeed (ClientEgress spec) \<noteq> 0 then [command ''rm'' [''-rf'', lossTracePinDir (ClientNS spec)]] else [])))"

text \<open>
  Running a list of commands, each of which succeeds or fails: up to the first failure, and to the
  end with all failures. The results are the commands run and the errors.
\<close>

fun RunCommands :: "(Command \<Rightarrow> 'e option) \<Rightarrow> Command list \<Rightarrow> Command list \<times> 'e option" where
  "RunCommands exec [] = ([], None)"
| "RunCommands exec (c # cs) =
     (case exec c of Some e \<Rightarrow> ([c], Some e)
      | None \<Rightarrow> (case RunCommands exec cs of (done, e) \<Rightarrow> (c # done, e)))"

definition RunCommandsBestEffort :: "(Command \<Rightarrow> 'e option) \<Rightarrow> Command list \<Rightarrow> Command list \<times> 'e list" where
  "RunCommandsBestEffort exec cmds = (cmds, List.map_filter exec cmds)"

section \<open>Loss has one source\<close>

lemma lossArgs_loss: "lossArgs n = Inr args \<Longrightarrow> ''loss'' \<in> set args \<longleftrightarrow> f_nonzero (LossPercent n) \<and> LossSeed n = 0"
  by (auto simp: lossArgs_def rbind_eq_Inr_iff split: if_splits)

lemma delayArgs_no_loss: "''loss'' \<notin> set (delayArgs n)"
proof -
  have "itoa k @ ''ms'' \<noteq> ''loss''" for k
  proof
    assume "itoa k @ ''ms'' = ''loss''"
    then have "last (itoa k @ ''ms'') = last ''loss'' \<and> last (butlast (itoa k @ ''ms'')) = last (butlast ''loss'')" by simp
    then show False by (simp add: butlast_append)
  qed
  then show ?thesis by (auto simp: delayArgs_def eq_commute [of "''loss''"])
qed

lemma itoa_neq_loss: "itoa k \<noteq> ''loss''"
proof
  assume "itoa k = ''loss''"
  then have "CHR ''l'' \<in> set (itoa k)" by simp
  then show False using itoa_chars [of "CHR ''l''" k] by (auto simp: digitValue_def)
qed

lemma Args_loss:
  assumes "Args n = Inr args" and "Rate n \<noteq> ''loss''"
  shows "''loss'' \<in> set args \<longleftrightarrow> f_nonzero (LossPercent n) \<and> LossSeed n = 0"
proof -
  obtain loss where l: "lossArgs n = Inr loss" and a: "args = [''limit'', itoa (limitOf n)] @ delayArgs n @ loss @
      (if Rate n \<noteq> [] then [''rate'', Rate n] else [])"
    using assms(1) by (auto simp: Args_def rbind_eq_Inr_iff split: if_splits)
  show ?thesis
    using lossArgs_loss [OF l] delayArgs_no_loss [of n] itoa_neq_loss [of "limitOf n"] assms(2)
    by (auto simp: a eq_commute [of "''loss''"])
qed

definition randomLoss :: "Command list \<Rightarrow> bool" where
  "randomLoss cmds \<longleftrightarrow> list_ex (\<lambda>c. ''loss'' \<in> set (cmdArgs c)) cmds"

lemma qdiscCommands_loss:
  assumes "qdiscCommands ns veth e = Inr cmds" and "ns \<noteq> ''loss''" and "veth \<noteq> ''loss''" and "Rate e \<noteq> ''loss''"
  shows "randomLoss cmds \<longleftrightarrow> f_nonzero (LossPercent e) \<and> LossSeed e = 0"
proof (cases "Enabled e")
  case True
  then obtain args where "Args e = Inr args" and "cmds = [command ''tc''
      ([''-n'', ns, ''qdisc'', ''replace'', ''dev'', veth, ''root'', ''netem''] @ args)]"
    using assms(1) by (auto simp: qdiscCommands_def rbind_eq_Inr_iff)
  then show ?thesis
    using Args_loss [of e args] assms by (auto simp: randomLoss_def eq_commute [of "''loss''"])
next
  case False
  then show ?thesis using assms(1) by (auto simp: qdiscCommands_def Enabled_def randomLoss_def)
qed

lemma loss_sources:
  assumes "qdiscCommands ns veth egress = Inr qdisc" and "lossTraceCommands spec ns veth egress = Inr attach"
    and "ns \<noteq> ''loss''" and "veth \<noteq> ''loss''" and "Rate egress \<noteq> ''loss''"
  shows "(randomLoss qdisc \<or> attach \<noteq> []) = f_nonzero (LossPercent egress)"
    and "\<not> (randomLoss qdisc \<and> attach \<noteq> [])"
proof -
  note q = qdiscCommands_loss [OF assms(1,3,4,5)]
  have a: "attach \<noteq> [] \<longleftrightarrow> LossSeed egress \<noteq> 0 \<and> \<not> f_le (LossPercent egress) (FFin 0)"
    using assms(2) by (auto simp: lossTraceCommands_def split: if_splits)
  show "\<not> (randomLoss qdisc \<and> attach \<noteq> [])" using q a by simp
  show "(randomLoss qdisc \<or> attach \<noteq> []) = f_nonzero (LossPercent egress)"
  proof (cases "Enabled egress")
    case True
    then have "\<not> f_lt (LossPercent egress) (FFin 0)"
      using assms(1) by (auto simp: qdiscCommands_def Args_def rbind_eq_Inr_iff split: if_splits)
    then have "f_nonzero (LossPercent egress) \<longleftrightarrow> \<not> f_le (LossPercent egress) (FFin 0)"
      by (cases "LossPercent egress") (auto simp: f_nonzero_def)
    then show ?thesis using q a by auto
  next
    case False
    then have "\<not> f_nonzero (LossPercent egress)" by (simp add: Enabled_def)
    moreover from this have "f_le (LossPercent egress) (FFin 0)"
      by (cases "LossPercent egress") (auto simp: f_nonzero_def)
    ultimately show ?thesis using q a by simp
  qed
qed

text \<open>
  C35. The loss of an egress has one source: when its commands can be built, an egress with a
  positive loss rate drops packets either by the random loss of netem or by the loss trace,
  never by both, and an egress without loss by neither.
\<close>

theorem loss_has_one_source:
  assumes "qdiscCommands ns veth egress = Inr qdisc" and "lossTraceCommands spec ns veth egress = Inr attach"
    and "ns \<noteq> ''loss''" and "veth \<noteq> ''loss''" and "Rate egress \<noteq> ''loss''"
  shows "(randomLoss qdisc \<or> attach \<noteq> []) = f_nonzero (LossPercent egress) \<and> (randomLoss qdisc \<longrightarrow> attach = [])"
  using loss_sources [OF assms] by blast

definition sampleEgress :: Netem where
  "sampleEgress = zeroNetem\<lparr>DelayMS := 25, LossPercent := FFin 3, LossSeed := 7\<rparr>"

lemma loss_has_one_source_witness:
  "\<exists>qdisc attach. qdiscCommands ''a'' ''b'' sampleEgress = Inr qdisc \<and>
    lossTraceCommands ((DefaultPair [])\<lparr>SelfExe := ''/x''\<rparr>) ''a'' ''b'' sampleEgress = Inr attach \<and>
    (randomLoss qdisc \<or> attach \<noteq> []) = f_nonzero (LossPercent sampleEgress) \<and> (randomLoss qdisc \<longrightarrow> attach = [])"
proof -
  define cs where "cs = [command ''tc'' [''-n'', ''a'', ''qdisc'', ''replace'', ''dev'', ''b'', ''root'', ''netem'',
    ''limit'', ''10000'', ''delay'', ''25ms'']]"
  define ts where "ts = [command ''ip'' [''netns'', ''exec'', ''a'', ''/x'', ''losstrace'', ''attach'', ''-dev'', ''b'',
    ''-seed'', ''7'', ''-loss-pct'', ''3'', ''-pin-dir'', ''/run/rudpbench-bpf/a'']]"
  have q: "qdiscCommands ''a'' ''b'' sampleEgress = Inr cs" unfolding cs_def by code_simp
  have t: "lossTraceCommands ((DefaultPair [])\<lparr>SelfExe := ''/x''\<rparr>) ''a'' ''b'' sampleEgress = Inr ts"
    unfolding ts_def by code_simp
  show ?thesis
    using q t loss_has_one_source [OF q t] by (simp add: sampleEgress_def zeroNetem_def)
qed

section \<open>Namespaces\<close>

text \<open>The namespaces a command adds, deletes and refers to, as \<open>ip\<close> and \<open>tc\<close> name them.\<close>

definition addsNS :: "Command \<Rightarrow> string list" where
  "addsNS c = (if take 2 (cmdArgs c) = [''netns'', ''add''] then [cmdArgs c ! 2] else [])"

definition deletesNS :: "Command \<Rightarrow> string list" where
  "deletesNS c = (if take 2 (cmdArgs c) = [''netns'', ''del''] then [cmdArgs c ! 2] else [])"

definition usesNS :: "Command \<Rightarrow> string list" where
  "usesNS c =
     (let a = cmdArgs c
      in if take 1 a = [''-n''] then [a ! 1]
         else if take 2 a = [''netns'', ''exec''] then [a ! 2]
         else if take 2 a = [''link'', ''set''] \<and> drop 3 (take 4 a) = [''netns''] then [a ! 4] else [])"

text \<open>Every command refers only to namespaces that were added before it.\<close>

fun wellOrdered :: "string set \<Rightarrow> Command list \<Rightarrow> bool" where
  "wellOrdered known [] \<longleftrightarrow> True"
| "wellOrdered known (c # cs) \<longleftrightarrow> set (usesNS c) \<subseteq> known \<and> wellOrdered (known \<union> set (addsNS c)) cs"

definition addedBy :: "Command list \<Rightarrow> string set" where
  "addedBy cmds = (\<Union>c \<in> set cmds. set (addsNS c))"

definition deletedBy :: "Command list \<Rightarrow> string set" where
  "deletedBy cmds = (\<Union>c \<in> set cmds. set (deletesNS c))"

lemma wellOrdered_append:
  "wellOrdered known (xs @ ys) \<longleftrightarrow> wellOrdered known xs \<and> wellOrdered (known \<union> addedBy xs) ys"
  by (induction xs arbitrary: known) (auto simp: addedBy_def Un_assoc)

lemma addedBy_simps [simp]: "addedBy [] = {}" "addedBy (c # cs) = set (addsNS c) \<union> addedBy cs"
  "addedBy (xs @ ys) = addedBy xs \<union> addedBy ys"
  by (auto simp: addedBy_def)

text \<open>Commands inside a namespace that is there.\<close>

definition insideNS :: "string set \<Rightarrow> Command \<Rightarrow> bool" where
  "insideNS known c \<longleftrightarrow> set (usesNS c) \<subseteq> known \<and> addsNS c = []"

lemma within_ordered: "(\<forall>c \<in> set cs. insideNS known c) \<Longrightarrow> wellOrdered known cs \<and> addedBy cs = {}"
  by (induction cs) (auto simp: insideNS_def)

lemma linkCommands_ordered:
  "wellOrdered {} (linkCommands spec) \<and> addedBy (linkCommands spec) = {ServerNS spec, ClientNS spec}"
  by (simp add: linkCommands_def Let_def usesNS_def addsNS_def insert_commute)

lemma qdiscCommands_within:
  "qdiscCommands ns veth e = Inr cs \<Longrightarrow> ns \<in> known \<Longrightarrow> \<forall>c \<in> set cs. insideNS known c"
  by (auto simp: qdiscCommands_def rbind_eq_Inr_iff insideNS_def usesNS_def addsNS_def split: if_splits)

lemma lossTraceCommands_within:
  "lossTraceCommands spec ns veth e = Inr cs \<Longrightarrow> ns \<in> known \<Longrightarrow> \<forall>c \<in> set cs. insideNS known c"
  by (auto simp: lossTraceCommands_def insideNS_def usesNS_def addsNS_def split: if_splits)

lemma offloads_within: "ns \<in> known \<Longrightarrow> insideNS known (buildDisableOffloadsCommand ns dev)"
  by (simp add: buildDisableOffloadsCommand_def insideNS_def usesNS_def addsNS_def)

lemma mount_within: "insideNS known lossTraceMountCommand"
  by (simp add: lossTraceMountCommand_def insideNS_def usesNS_def addsNS_def)

lemma setup_ordered:
  assumes "BuildSetupCommands spec = Inr cmds"
  shows "wellOrdered {} cmds \<and> addedBy cmds = {ServerNS spec, ClientNS spec}"
proof -
  let ?known = "{ServerNS spec, ClientNS spec}"
  obtain sq cq st ct where q: "qdiscCommands (ServerNS spec) (ServerVeth spec) (ServerEgress spec) = Inr sq"
      "qdiscCommands (ClientNS spec) (ClientVeth spec) (ClientEgress spec) = Inr cq"
    and t: "lossTraceCommands spec (ServerNS spec) (ServerVeth spec) (ServerEgress spec) = Inr st"
      "lossTraceCommands spec (ClientNS spec) (ClientVeth spec) (ClientEgress spec) = Inr ct"
    and c: "cmds = linkCommands spec @
       (if DisableOffloads spec
        then [buildDisableOffloadsCommand (ServerNS spec) (ServerVeth spec),
              buildDisableOffloadsCommand (ClientNS spec) (ClientVeth spec)] else []) @
       sq @ cq @ (if st \<noteq> [] \<or> ct \<noteq> [] then [lossTraceMountCommand] else []) @ st @ ct"
    using assms by (auto simp: BuildSetupCommands_def rbind_eq_Inr_iff)
  have "\<forall>c \<in> set (drop (length (linkCommands spec)) cmds). insideNS ?known c"
    using qdiscCommands_within [OF q(1), of ?known] qdiscCommands_within [OF q(2), of ?known]
      lossTraceCommands_within [OF t(1), of ?known] lossTraceCommands_within [OF t(2), of ?known]
      offloads_within [of _ ?known] mount_within [of ?known]
    by (auto simp: c)
  then have rest: "wellOrdered ?known (drop (length (linkCommands spec)) cmds) \<and>
      addedBy (drop (length (linkCommands spec)) cmds) = {}"
    by (rule within_ordered)
  have "cmds = linkCommands spec @ drop (length (linkCommands spec)) cmds" by (simp add: c)
  then show ?thesis
    using rest linkCommands_ordered [of spec] by (metis Un_empty_left Un_empty_right addedBy_simps(3) wellOrdered_append)
qed

lemma teardown_deletes:
  "BuildTeardownCommands spec = Inr cmds \<Longrightarrow> deletedBy cmds = {ServerNS spec, ClientNS spec}"
  by (auto simp: BuildTeardownCommands_def rbind_eq_Inr_iff deletedBy_def deletesNS_def)

lemma RunCommands_prefix: "fst (RunCommands exec cmds) = take (length (fst (RunCommands exec cmds))) cmds"
  by (induction exec cmds rule: RunCommands.induct) (auto split: option.split prod.split)

lemma addedBy_ran: "addedBy (fst (RunCommands exec cmds)) \<subseteq> addedBy cmds"
  by (subst RunCommands_prefix) (auto simp: addedBy_def dest: in_set_takeD)

text \<open>
  C36. No namespace is left behind: the setup of a pair refers to a namespace only after adding it,
  and wherever its run stops, the teardown of the same pair can be built and asks, whatever fails
  on the way, for the deletion of every namespace the setup may have added.
\<close>

theorem teardown_covers_setup:
  assumes "BuildSetupCommands spec = Inr up"
  shows "\<exists>down. BuildTeardownCommands spec = Inr down \<and> wellOrdered {} up \<and>
    addedBy (fst (RunCommands exec up)) \<subseteq> deletedBy (fst (RunCommandsBestEffort exec' down))"
proof -
  have "validatePair spec = Inr ()"
    using assms by (auto simp: BuildSetupCommands_def rbind_eq_Inr_iff)
  then obtain down where d: "BuildTeardownCommands spec = Inr down"
    by (simp add: BuildTeardownCommands_def)
  then show ?thesis
    using setup_ordered [OF assms] teardown_deletes [OF d] addedBy_ran [of exec up]
    by (auto simp: RunCommandsBestEffort_def)
qed

lemma teardown_covers_setup_witness:
  "\<exists>up down. BuildSetupCommands (DefaultPair []) = Inr up \<and> BuildTeardownCommands (DefaultPair []) = Inr down \<and>
    wellOrdered {} up \<and>
    addedBy (fst (RunCommands (\<lambda>c. if addsNS c = [] then Some ''denied'' else None) up)) \<subseteq>
      deletedBy (fst (RunCommandsBestEffort (\<lambda>c. Some ''busy'') down))"
proof -
  obtain up where up: "BuildSetupCommands (DefaultPair []) = Inr up"
    by (auto simp: BuildSetupCommands_def DefaultPair_def validatePair_def qdiscCommands_def Enabled_def zeroNetem_def
        f_nonzero_def lossTraceCommands_def fail_if_def)
  from teardown_covers_setup [OF up] show ?thesis using up by blast
qed

end
