(* ===== verification/Qdisc.thy ===== *)
theory Qdisc
  imports Netops
begin

text \<open>
  Reading the kernel's counters back (\<open>orchestrator/netops/parse.go\<close>, \<open>qdisc_evidence.go\<close>): the
  output of \<open>tc -s qdisc show\<close> and of \<open>/proc/net/snmp\<close>, the comparison with the configured netem,
  and the differences of two snapshots. Running \<open>tc\<close> and reading the clock are parameters of
  \<open>readQdiscSample\<close>. Decimal numbers are read exactly; the hexadecimal floating-point notation that
  \<open>strconv.ParseFloat\<close> also knows, which \<open>tc\<close> never prints, is a syntax error here.
\<close>

section \<open>Text\<close>

definition newline :: char where "newline = char_of (10 :: nat)"

definition stripCR :: "string \<Rightarrow> string" where
  "stripCR l = (if l \<noteq> [] \<and> last l = char_of (13 :: nat) then butlast l else l)"

text \<open>The lines a \<open>bufio.Scanner\<close> yields.\<close>

definition scanLines :: "string \<Rightarrow> string list" where
  "scanLines s = (let ls = splitAt newline s in map stripCR (if last ls = [] then butlast ls else ls))"

definition hasSuffix :: "string \<Rightarrow> string \<Rightarrow> bool" where
  "hasSuffix s t \<longleftrightarrow> length t \<le> length s \<and> drop (length s - length t) s = t"

definition trimSuffix :: "string \<Rightarrow> string \<Rightarrow> string" where
  "trimSuffix s t = (if hasSuffix s t then take (length s - length t) s else s)"

definition isDigit :: "char \<Rightarrow> bool" where
  "isDigit c \<longleftrightarrow> digitValue c \<noteq> None"

definition parseUint :: "string \<Rightarrow> u64 option" where
  "parseUint s = (case parseDigits s of None \<Rightarrow> None | Some n \<Rightarrow> if n < 2 ^ 64 then Some (of_nat n) else None)"

text \<open>The value \<open>strconv.Atoi\<close> returns beside an error: 0, or the end of the range.\<close>

definition atoiValue :: "string \<Rightarrow> int" where
  "atoiValue s = (case atoi s of Some i \<Rightarrow> i
     | None \<Rightarrow>
        (case s of [] \<Rightarrow> 0
         | c # ds \<Rightarrow>
            if c = CHR ''-'' then (if parseDigits ds = None then 0 else MinInt64)
            else if c = CHR ''+'' then (if parseDigits ds = None then 0 else MaxInt64)
            else if parseDigits s = None then 0 else MaxInt64))"

definition equalFold :: "string \<Rightarrow> string \<Rightarrow> bool" where
  "equalFold a b \<longleftrightarrow> map lowerChar a = map lowerChar b"

text \<open>A decimal with an optional fraction and exponent: its value, \<open>None\<close> for a syntax error.\<close>

definition decimalValue :: "string \<Rightarrow> rat option" where
  "decimalValue s =
     (let whole = takeWhile isDigit s; rest = dropWhile isDigit s;
          (frac, rest) = (case rest of c # r \<Rightarrow> if c = CHR ''.'' then (takeWhile isDigit r, dropWhile isDigit r) else ([], rest)
             | [] \<Rightarrow> ([], []));
          ds = whole @ frac
      in case parseDigits ds of None \<Rightarrow> None
         | Some n \<Rightarrow>
            (let m = of_nat n / 10 ^ length frac
             in case rest of [] \<Rightarrow> Some m
                | c # e \<Rightarrow> if lowerChar c = CHR ''e'' then map_option (\<lambda>k. m * pow10 k)
                     (if e \<noteq> [] \<and> hd e = CHR ''-'' then map_option (\<lambda>n. - int n) (parseDigits (tl e))
                      else map_option int (parseDigits (if e \<noteq> [] \<and> hd e = CHR ''+'' then tl e else e)))
                    else None))"

definition specialFloat :: "string \<Rightarrow> f64 option" where
  "specialFloat s = (let l = map lowerChar s in
     if l = ''nan'' then Some FNan else if l = ''inf'' \<or> l = ''infinity'' then Some (FInf True) else None)"

text \<open>\<open>strconv.ParseFloat\<close>: the value and whether there is no error.\<close>

definition parseFloat :: "string \<Rightarrow> f64 \<times> bool" where
  "parseFloat s =
     (let neg = (s \<noteq> [] \<and> hd s = CHR ''-'');
          body = (if s \<noteq> [] \<and> (hd s = CHR ''-'' \<or> hd s = CHR ''+'') then tl s else s);
          sign = (\<lambda>x. if neg then f_neg x else x)
      in case specialFloat body of
           Some x \<Rightarrow> if x = FNan \<and> body \<noteq> s then (FFin 0, False) else (sign x, True)
         | None \<Rightarrow> (case decimalValue body of None \<Rightarrow> (FFin 0, False)
             | Some q \<Rightarrow> let x = f_of_rat q in (sign x, f_finite x)))"

section \<open>Regular expressions\<close>

text \<open>
  The expressions the code uses are sequences of literals, runs of blanks and captured runs of
  digits in which no run is followed by a piece that its characters could begin: matching needs no
  backtracking.
\<close>

datatype piece = Lit string | Blanks | Digits

definition isBlank :: "char \<Rightarrow> bool" where
  "isBlank c \<longleftrightarrow> (of_char c :: nat) \<in> {9, 10, 12, 13, 32}"

fun matchAt :: "piece list \<Rightarrow> string \<Rightarrow> string list option" where
  "matchAt [] s = Some []"
| "matchAt (Lit l # ps) s = (if hasPrefix s l then matchAt ps (drop (length l) s) else None)"
| "matchAt (Blanks # ps) s = (if s \<noteq> [] \<and> isBlank (hd s) then matchAt ps (dropWhile isBlank s) else None)"
| "matchAt (Digits # ps) s =
     (if s \<noteq> [] \<and> isDigit (hd s)
      then map_option (\<lambda>m. takeWhile isDigit s # m) (matchAt ps (dropWhile isDigit s)) else None)"

fun findMatch :: "piece list \<Rightarrow> string \<Rightarrow> string list option" where
  "findMatch ps [] = matchAt ps []"
| "findMatch ps (c # s) = (case matchAt ps (c # s) of Some m \<Rightarrow> Some m | None \<Rightarrow> findMatch ps s)"

definition sentLineRE :: "piece list" where
  "sentLineRE = [Lit ''Sent'', Blanks, Digits, Blanks, Lit ''bytes'', Blanks, Digits, Blanks, Lit ''pkt'', Blanks,
     Lit ''(dropped'', Blanks, Digits, Lit '','', Blanks, Lit ''overlimits'', Blanks, Digits, Blanks,
     Lit ''requeues'', Blanks, Digits, Lit '')'']"

section \<open>The output of tc\<close>

record QdiscStats =
  Kind :: string
  Root :: bool
  qLimit :: int
  qDelayMS :: f64
  qJitterMS :: f64
  qLossPercent :: f64
  LossCorrelationPercent :: f64
  qLossBurstLen :: f64
  qRate :: string
  SentBytes :: u64
  SentPackets :: u64
  Dropped :: u64
  Overlimits :: u64
  Requeues :: u64

datatype parse_error =
    SentLine string
  | BadUint string
  | NoQdiscRecords
  | RootQdiscs nat
  | UdpWithoutHeader
  | UdpLengthMismatch nat nat
  | UdpValue string string
  | UdpNotFound

definition uintErrorText :: "string \<Rightarrow> string" where
  "uintErrorText s = ''strconv.ParseUint: parsing '' @ quoteText s @
     (if parseDigits s = None then '': invalid syntax'' else '': value out of range'')"

fun parseText :: "parse_error \<Rightarrow> string" where
  "parseText (SentLine l) = ''parse tc sent line: '' @ quoteText l"
| "parseText (BadUint s) = uintErrorText s"
| "parseText NoQdiscRecords = ''no qdisc records found''"
| "parseText (RootQdiscs n) = ''found '' @ itoa (int n) @ '' root qdiscs, want 1''"
| "parseText UdpWithoutHeader = ''Udp values without header''"
| "parseText (UdpLengthMismatch m n) = ''Udp header/value length mismatch: '' @ itoa (int m) @ '' != '' @ itoa (int n)"
| "parseText (UdpValue name v) = ''Udp '' @ name @ '': '' @ uintErrorText v"
| "parseText UdpNotFound = ''Udp section not found''"

definition newQdiscStats :: "string \<Rightarrow> QdiscStats" where
  "newQdiscStats kind = \<lparr>Kind = kind, Root = False, qLimit = 0, qDelayMS = FFin 0, qJitterMS = FFin 0,
     qLossPercent = FFin 0, LossCorrelationPercent = FFin 0, qLossBurstLen = FFin 0, qRate = [],
     SentBytes = 0, SentPackets = 0, Dropped = 0, Overlimits = 0, Requeues = 0\<rparr>"

definition looksLikeTCDuration :: "string \<Rightarrow> bool" where
  "looksLikeTCDuration s \<longleftrightarrow> hasSuffix s ''us'' \<or> hasSuffix s ''ms'' \<or> hasSuffix s ''s''"

text \<open>The value of \<open>parseTCMS\<close>; its callers ignore the error.\<close>

definition parseTCMS :: "string \<Rightarrow> f64" where
  "parseTCMS s =
     (if hasSuffix s ''us'' then f_div (fst (parseFloat (trimSuffix s ''us''))) (FFin 1000)
      else if hasSuffix s ''ms'' then fst (parseFloat (trimSuffix s ''ms''))
      else if hasSuffix s ''s'' then f_mul (fst (parseFloat (trimSuffix s ''s''))) (FFin 1000)
      else FFin 0)"

text \<open>The labelled probabilities after \<open>loss gemodel\<close>.\<close>

fun gemodelPairs :: "string list \<Rightarrow> f64 \<times> f64 \<Rightarrow> f64 \<times> f64" where
  "gemodelPairs (label # value # rest) (p, r) =
     (if label \<notin> {''p'', ''r'', ''1-h'', ''1-k''} then (p, r)
      else case parseFloat (trimSuffix value ''%'') of (v, ok) \<Rightarrow>
        if \<not> ok then (p, r)
        else gemodelPairs rest (if label = ''p'' then v else p, if label = ''r'' then v else r))"
| "gemodelPairs _ pr = pr"

definition lossFields :: "string list \<Rightarrow> QdiscStats \<Rightarrow> QdiscStats" where
  "lossFields rest stat =
     (if rest \<noteq> [] \<and> hd rest = ''gemodel''
      then
        (case gemodelPairs (tl rest) (FFin 0, FFin 0) of (p, r) \<Rightarrow>
          let stat = (if f_lt (FFin 0) (f_add p r) then stat\<lparr>qLossPercent := f_mul (f_div p (f_add p r)) (FFin 100)\<rparr> else stat)
          in if f_lt (FFin 0) r then stat\<lparr>qLossBurstLen := f_div (FFin 100) r\<rparr> else stat)
      else
        let percentages = map fst (filter snd (map (\<lambda>f. parseFloat (trimSuffix f ''%'')) (filter (\<lambda>f. hasSuffix f ''%'') rest)));
            stat = (if percentages \<noteq> [] then stat\<lparr>qLossPercent := percentages ! 0\<rparr> else stat)
        in if 1 < length percentages then stat\<lparr>LossCorrelationPercent := percentages ! 1\<rparr> else stat)"

text \<open>One field of a qdisc line and the fields after it.\<close>

definition parseField :: "string \<Rightarrow> string list \<Rightarrow> QdiscStats \<Rightarrow> QdiscStats" where
  "parseField f rest stat =
     (if f = ''root'' then stat\<lparr>Root := True\<rparr>
      else if f = ''limit'' then (if rest \<noteq> [] then stat\<lparr>qLimit := atoiValue (rest ! 0)\<rparr> else stat)
      else if f = ''delay'' then
        let stat = (if rest \<noteq> [] then stat\<lparr>qDelayMS := parseTCMS (rest ! 0)\<rparr> else stat)
        in if 1 < length rest \<and> looksLikeTCDuration (rest ! 1) then stat\<lparr>qJitterMS := parseTCMS (rest ! 1)\<rparr> else stat
      else if f = ''loss'' then lossFields rest stat
      else if f = ''rate'' then (if rest \<noteq> [] then stat\<lparr>qRate := rest ! 0\<rparr> else stat)
      else stat)"

fun parseQdiscFields :: "string list \<Rightarrow> QdiscStats \<Rightarrow> QdiscStats" where
  "parseQdiscFields [] stat = stat"
| "parseQdiscFields (f # rest) stat = parseQdiscFields rest (parseField f rest stat)"

definition parseSentLine :: "string \<Rightarrow> QdiscStats \<Rightarrow> parse_error + QdiscStats" where
  "parseSentLine line stat =
     (case findMatch sentLineRE line of None \<Rightarrow> Inl (SentLine line)
      | Some m \<Rightarrow>
         rbind (mapM (\<lambda>part. case parseUint part of None \<Rightarrow> Inl (BadUint part) | Some v \<Rightarrow> Inr v) m) (\<lambda>values.
         Inr (stat\<lparr>SentBytes := values ! 0, SentPackets := values ! 1, Dropped := values ! 2,
           Overlimits := values ! 3, Requeues := values ! 4\<rparr>)))"

text \<open>One line: \<open>current\<close> is the last record read.\<close>

definition showLine :: "QdiscStats list \<Rightarrow> string \<Rightarrow> parse_error + QdiscStats list" where
  "showLine out text =
     (let line = trimSpace text; fs = textFields line
      in if line = [] then Inr out
         else if 2 \<le> length fs \<and> fs ! 0 = ''qdisc'' then Inr (out @ [parseQdiscFields fs (newQdiscStats (fs ! 1))])
         else if out \<noteq> [] \<and> hasPrefix line ''Sent ''
           then rbind (parseSentLine line (last out)) (\<lambda>stat. Inr (butlast out @ [stat]))
         else Inr out)"

definition ParseQdiscShow :: "string \<Rightarrow> parse_error + QdiscStats list" where
  "ParseQdiscShow output =
     rbind (foldM showLine [] (scanLines output)) (\<lambda>out. if out = [] then Inl NoQdiscRecords else Inr out)"

section \<open>The echo of the configuration\<close>

definition closeFloat :: "f64 \<Rightarrow> f64 \<Rightarrow> bool" where
  "closeFloat a b \<longleftrightarrow> f_lt (f_abs (f_sub a b)) (f_of_rat (1 / 1000000))"

definition closeRelative :: "f64 \<Rightarrow> f64 \<Rightarrow> f64 \<Rightarrow> bool" where
  "closeRelative a b tol =
     (if f_eq b (FFin 0) then f_lt (f_abs a) tol
      else f_le (f_div (f_abs (f_sub a b)) (f_abs b)) tol)"

definition lossEcho :: "Netem \<Rightarrow> QdiscStats \<Rightarrow> string + unit" where
  "lossEcho wanted actual =
     (if f_lt (FFin 0) (LossBurstLen wanted)
      then
        if \<not> closeRelative (qLossPercent actual) (LossPercent wanted) (f_of_rat (1 / 10))
        then Inl (''netem gemodel loss = '' @ formatG (qLossPercent actual) @ ''%, want '' @ formatG (LossPercent wanted) @ ''%'')
        else if \<not> closeRelative (qLossBurstLen actual) (LossBurstLen wanted) (f_of_rat (1 / 10))
        then Inl (''netem gemodel burst_len = '' @ formatG (qLossBurstLen actual) @ '', want '' @ formatG (LossBurstLen wanted))
        else Inr ()
      else fail_if (\<not> closeFloat (qLossPercent actual) (LossPercent wanted))
        (''netem loss_percent = '' @ formatG (qLossPercent actual) @ '', want '' @ formatG (LossPercent wanted)))"

definition ValidateNetemEcho :: "Netem \<Rightarrow> QdiscStats \<Rightarrow> string + unit" where
  "ValidateNetemEcho wanted actual =
     (if \<not> Enabled wanted then fail_if (Kind actual = ''netem'') ''unexpected netem qdisc present''
      else if Kind actual \<noteq> ''netem'' then Inl (''qdisc kind = '' @ quoteText (Kind actual) @ '', want netem'')
      else if qLimit actual \<noteq> limitOf wanted
        then Inl (''netem limit = '' @ itoa (qLimit actual) @ '', want '' @ itoa (limitOf wanted))
      else if \<not> closeFloat (qDelayMS actual) (f_of_int (DelayMS wanted))
        then Inl (''netem delay_ms = '' @ formatG (qDelayMS actual) @ '', want '' @ itoa (DelayMS wanted))
      else if \<not> closeFloat (qJitterMS actual) (f_of_int (JitterMS wanted))
        then Inl (''netem jitter_ms = '' @ formatG (qJitterMS actual) @ '', want '' @ itoa (JitterMS wanted))
      else rbind (lossEcho wanted actual) (\<lambda>_.
        if f_nonzero (LossCorrelationPercent actual)
        then Inl (''netem loss correlation = '' @ formatG (LossCorrelationPercent actual) @ ''%, want independent random loss (0%)'')
        else fail_if (Rate wanted \<noteq> [] \<and> \<not> equalFold (qRate actual) (Rate wanted))
          (''netem rate = '' @ quoteText (qRate actual) @ '', want '' @ quoteText (Rate wanted))))"

section \<open>UDP counters\<close>

record UDPStats =
  InErrors :: u64
  RcvbufErrors :: u64

text \<open>The loop over the lines; \<open>headers\<close> is the last header line of the section.\<close>

fun udpLines :: "string list option \<Rightarrow> string list \<Rightarrow> parse_error + UDPStats" where
  "udpLines headers [] = Inl UdpNotFound"
| "udpLines headers (l # ls) =
     (let fs = textFields l
      in if length fs < 2 \<or> fs ! 0 \<noteq> ''Udp:'' then udpLines headers ls
         else if parseUint (fs ! 1) = None then udpLines (Some (tl fs)) ls
         else case headers of None \<Rightarrow> Inl UdpWithoutHeader
           | Some names \<Rightarrow>
               if length (tl fs) \<noteq> length names then Inl (UdpLengthMismatch (length names) (length (tl fs)))
               else rbind (mapM (\<lambda>(name, v). case parseUint v of None \<Rightarrow> Inl (UdpValue name v) | Some n \<Rightarrow> Inr (name, n))
                   (zip names (tl fs))) (\<lambda>kvs.
                 let byName = (\<lambda>name. case map_of (rev kvs) name of None \<Rightarrow> 0 | Some v \<Rightarrow> v)
                 in Inr \<lparr>InErrors = byName ''InErrors'', RcvbufErrors = byName ''RcvbufErrors''\<rparr>))"

definition ParseUDPStats :: "string \<Rightarrow> parse_error + UDPStats" where
  "ParseUDPStats snmp = udpLines None (scanLines snmp)"

definition saturatingDelta :: "u64 \<Rightarrow> u64 \<Rightarrow> u64" where
  "saturatingDelta before after = (if after < before then 0 else after - before)"

definition DeltaUDPStats :: "UDPStats \<Rightarrow> UDPStats \<Rightarrow> UDPStats" where
  "DeltaUDPStats before after =
     \<lparr>InErrors = saturatingDelta (InErrors before) (InErrors after),
      RcvbufErrors = saturatingDelta (RcvbufErrors before) (RcvbufErrors after)\<rparr>"

section \<open>Snapshots\<close>

record QdiscSample =
  sNamespace :: string
  sDevice :: string
  sCaptureStartNS :: int
  sCaptureFinishNS :: int
  sStats :: "QdiscStats option"
  sRaw :: string
  sError :: string

record QdiscPairSnapshot =
  CaptureStartNS :: int
  CaptureFinishNS :: int
  snServer :: QdiscSample
  snClient :: QdiscSample

record QdiscCounterDelta =
  dSentBytes :: u64
  dSentPackets :: u64
  dDropped :: u64
  dOverlimits :: u64
  dRequeues :: u64

record QdiscPairDelta =
  pdServer :: "QdiscCounterDelta option"
  pdClient :: "QdiscCounterDelta option"
  pdErrors :: "string list"

definition selectRootQdisc :: "QdiscStats list \<Rightarrow> parse_error + QdiscStats" where
  "selectRootQdisc stats =
     (case filter Root stats of [r] \<Rightarrow> Inr r | roots \<Rightarrow> Inl (RootQdiscs (length roots)))"

text \<open>One read: the clock before, the output and failure of \<open>tc\<close>, and the clock after.\<close>

definition readQdiscSample :: "string \<Rightarrow> string \<Rightarrow> string + int \<Rightarrow> string \<times> string option \<Rightarrow>
    string + int \<Rightarrow> QdiscSample" where
  "readQdiscSample namespace device start tc finish =
     (let sample = \<lparr>sNamespace = namespace, sDevice = device, sCaptureStartNS = 0, sCaptureFinishNS = 0,
        sStats = None, sRaw = [], sError = []\<rparr>
      in case start of Inl e \<Rightarrow> sample\<lparr>sError := ''capture start clock: '' @ e\<rparr>
       | Inr startNS \<Rightarrow>
          let sample = sample\<lparr>sCaptureStartNS := startNS, sRaw := fst tc\<rparr>
          in case finish of Inl e \<Rightarrow> sample\<lparr>sError := ''capture finish clock: '' @ e\<rparr>
           | Inr finishNS \<Rightarrow>
              let sample = sample\<lparr>sCaptureFinishNS := finishNS\<rparr>
              in case snd tc of Some e \<Rightarrow> sample\<lparr>sError := ''tc qdisc show: '' @ e\<rparr>
               | None \<Rightarrow>
                  (case rbind (ParseQdiscShow (sRaw sample)) selectRootQdisc of
                     Inl e \<Rightarrow> sample\<lparr>sError := parseText e\<rparr>
                   | Inr r \<Rightarrow> sample\<lparr>sStats := Some r\<rparr>))"

text \<open>Go's comparison of two records: the numbers as floating-point numbers compare.\<close>

definition sameStats :: "QdiscStats \<Rightarrow> QdiscStats \<Rightarrow> bool" where
  "sameStats a b \<longleftrightarrow> a = b \<and> f_eq (qDelayMS a) (qDelayMS b) \<and> f_eq (qJitterMS a) (qJitterMS b) \<and>
     f_eq (qLossPercent a) (qLossPercent b) \<and> f_eq (LossCorrelationPercent a) (LossCorrelationPercent b) \<and>
     f_eq (qLossBurstLen a) (qLossBurstLen b)"

definition ValidateQdiscSampleReadback :: "QdiscSample \<Rightarrow> string + unit" where
  "ValidateQdiscSampleReadback sample =
     (if sError sample \<noteq> [] then Inl (''read failed: '' @ sError sample)
      else case sStats sample of None \<Rightarrow> Inl ''stats are missing''
       | Some stats \<Rightarrow>
          if sRaw sample = [] then Inl ''raw tc readback is empty''
          else case ParseQdiscShow (sRaw sample) of Inl e \<Rightarrow> Inl (''raw tc readback cannot be parsed: '' @ parseText e)
           | Inr parsed \<Rightarrow>
              (case selectRootQdisc parsed of Inl e \<Rightarrow> Inl (''raw tc readback root: '' @ parseText e)
               | Inr r \<Rightarrow> if sameStats r stats then Inr () else Inl ''stored stats do not match raw tc readback''))"

text \<open>The difference of two samples of one direction, and the errors found.\<close>

definition sampleErrors :: "string \<Rightarrow> QdiscSample \<Rightarrow> QdiscSample \<Rightarrow> string list" where
  "sampleErrors direction before after =
     (if sError before \<noteq> [] then [direction @ '' before: '' @ sError before] else []) @
     (if sError after \<noteq> [] then [direction @ '' after: '' @ sError after] else [])"

definition deltaQdiscSample :: "string \<Rightarrow> QdiscSample \<Rightarrow> QdiscSample \<Rightarrow> QdiscCounterDelta option \<times> string list" where
  "deltaQdiscSample direction before after =
     (let errs = sampleErrors direction before after
      in case (sStats before, sStats after) of
           (Some b, Some a) \<Rightarrow>
             if Kind b \<noteq> Kind a
             then (None, errs @ [direction @ '' qdisc kind changed: '' @ quoteText (Kind b) @ '' -> '' @ quoteText (Kind a)])
             else if SentBytes a < SentBytes b \<or> SentPackets a < SentPackets b \<or> Dropped a < Dropped b \<or>
               Overlimits a < Overlimits b \<or> Requeues a < Requeues b
             then (None, errs @ [direction @ '' qdisc counters regressed''])
             else (Some \<lparr>dSentBytes = SentBytes a - SentBytes b, dSentPackets = SentPackets a - SentPackets b,
               dDropped = Dropped a - Dropped b, dOverlimits = Overlimits a - Overlimits b,
               dRequeues = Requeues a - Requeues b\<rparr>, errs)
         | _ \<Rightarrow> (None, errs @
             (if sError before = [] \<and> sStats before = None then [direction @ '' before stats are missing''] else []) @
             (if sError after = [] \<and> sStats after = None then [direction @ '' after stats are missing''] else [])))"

definition DeltaQdiscPair :: "QdiscPairSnapshot \<Rightarrow> QdiscPairSnapshot \<Rightarrow> QdiscPairDelta" where
  "DeltaQdiscPair before after =
     (case deltaQdiscSample ''server_egress'' (snServer before) (snServer after) of (server, errs1) \<Rightarrow>
      case deltaQdiscSample ''client_egress'' (snClient before) (snClient after) of (client, errs2) \<Rightarrow>
        \<lparr>pdServer = server, pdClient = client, pdErrors = errs1 @ errs2\<rparr>)"

section \<open>The counters of a line\<close>

definition sentLine :: "QdiscStats \<Rightarrow> string" where
  "sentLine s = ''Sent '' @ itoaU (SentBytes s) @ '' bytes '' @ itoaU (SentPackets s) @ '' pkt (dropped '' @
     itoaU (Dropped s) @ '', overlimits '' @ itoaU (Overlimits s) @ '' requeues '' @ itoaU (Requeues s) @ '')''"

lemma itoaU_nat: "itoaU w = itoaNat (unat w)"
  by (simp add: itoaU_def itoa_def unsigned_of_int nat_uint_eq)

lemma itoaU_digits: "c \<in> set (itoaU w) \<Longrightarrow> isDigit c"
  using itoaNat_digits by (simp add: itoaU_nat isDigit_def)

lemma itoaU_ne [simp]: "itoaU w \<noteq> []"
  by (simp add: itoaU_nat)

lemma parseUint_itoaU [simp]: "parseUint (itoaU w) = Some w"
  using unat_u64_less [of w] by (simp add: parseUint_def itoaU_nat)

lemma hasPrefix_append [simp]: "hasPrefix (l @ s) l"
  by (simp add: hasPrefix_def)

lemma match_lit: "matchAt (Lit l # ps) (l @ s) = matchAt ps s"
  by simp

lemma match_digits:
  assumes "s = [] \<or> \<not> isDigit (hd s)"
  shows "matchAt (Digits # ps) (itoaU w @ s) = map_option (\<lambda>m. itoaU w # m) (matchAt ps s)"
proof -
  have d: "\<forall>c \<in> set (itoaU w). isDigit c" using itoaU_digits by blast
  then have "isDigit (hd (itoaU w))" by simp
  moreover have "takeWhile isDigit (itoaU w @ s) = itoaU w" "dropWhile isDigit (itoaU w @ s) = s"
    using d assms by (cases s; simp add: takeWhile_append dropWhile_append)+
  ultimately show ?thesis by (simp add: hd_append)
qed

lemma match_blank:
  assumes "s = [] \<or> \<not> isBlank (hd s)"
  shows "matchAt (Blanks # ps) (CHR '' '' # s) = matchAt ps s"
proof -
  have "isBlank CHR '' ''" by (simp add: isBlank_def)
  moreover have "dropWhile isBlank s = s" using assms by (cases s) auto
  ultimately show ?thesis by simp
qed

lemma digit_not_blank: "isDigit c \<Longrightarrow> \<not> isBlank c"
  by (auto simp: isDigit_def isBlank_def digitValue_def Let_def split: if_splits)

lemma itoaU_not_blank: "\<not> isBlank (hd (itoaU w @ s))"
proof -
  have "isDigit (hd (itoaU w))" by (rule itoaU_digits [of _ w]) simp
  then have "\<not> isBlank (hd (itoaU w))" by (rule digit_not_blank)
  then show ?thesis by (simp add: hd_append)
qed

lemma match_sentLine:
  "matchAt sentLineRE (sentLine s) = Some [itoaU (SentBytes s), itoaU (SentPackets s), itoaU (Dropped s),
     itoaU (Overlimits s), itoaU (Requeues s)]"
proof -
  have blank: "isBlank CHR ''b'' = False" "isBlank CHR ''p'' = False" "isBlank CHR ''('' = False"
    "isBlank CHR ''o'' = False" "isBlank CHR ''r'' = False"
    and digit: "isDigit CHR '' '' = False" "isDigit CHR '','' = False" "isDigit CHR '')'' = False"
    by (simp_all add: isBlank_def isDigit_def digitValue_def)
  have lit: "hasPrefix (l @ t) l" "drop (length l) (l @ t) = t" for l t by simp_all
  have b: "matchAt (Blanks # ps) (CHR '' '' # itoaU w @ t) = matchAt ps (itoaU w @ t)" for ps w t
    by (rule match_blank, rule disjI2, rule itoaU_not_blank)
  show ?thesis
    unfolding sentLineRE_def sentLine_def
    using match_lit [of "''Sent''"] match_lit [of "''bytes''"] match_lit [of "''pkt''"] match_lit [of "''(dropped''"]
      match_lit [of "'',''"] match_lit [of "''overlimits''"] match_lit [of "''requeues''"] match_lit [of "'')''"]
    by (simp add: b match_blank match_digits blank digit del: matchAt.simps(2,3,4))
qed

text \<open>
  Reading a counter line back: the line \<open>tc\<close> prints for any five 64-bit counters parses to
  exactly these counters, whatever the record held before.
\<close>

theorem sent_line_round_trip:
  "parseSentLine (sentLine c) stat = Inr (stat\<lparr>SentBytes := SentBytes c, SentPackets := SentPackets c,
     Dropped := Dropped c, Overlimits := Overlimits c, Requeues := Requeues c\<rparr>)"
proof -
  have "findMatch sentLineRE (sentLine c) = matchAt sentLineRE (sentLine c)"
    using match_sentLine [of c] by (cases "sentLine c") simp_all
  then show ?thesis by (simp add: parseSentLine_def match_sentLine)
qed

section \<open>Differences of counters\<close>

text \<open>The difference of two readings of one qdisc: no counter went back.\<close>

definition exactDelta :: "QdiscSample \<Rightarrow> QdiscSample \<Rightarrow> QdiscCounterDelta option \<Rightarrow> bool" where
  "exactDelta before after delta \<longleftrightarrow>
     (\<exists>b a d. sStats before = Some b \<and> sStats after = Some a \<and> delta = Some d \<and> Kind a = Kind b \<and>
        unat (SentBytes a) = unat (SentBytes b) + unat (dSentBytes d) \<and>
        unat (SentPackets a) = unat (SentPackets b) + unat (dSentPackets d) \<and>
        unat (Dropped a) = unat (Dropped b) + unat (dDropped d) \<and>
        unat (Overlimits a) = unat (Overlimits b) + unat (dOverlimits d) \<and>
        unat (Requeues a) = unat (Requeues b) + unat (dRequeues d))"

lemma unat_delta: "\<not> a < b \<Longrightarrow> unat a = unat b + unat (a - b :: u64)"
  by (simp add: unat_sub word_le_nat_alt word_less_nat_alt)

lemma deltaQdiscSample_exact:
  assumes "deltaQdiscSample direction before after = (delta, [])"
  shows "exactDelta before after delta"
proof (cases "sStats before")
  case None
  then show ?thesis using assms
    by (auto simp: deltaQdiscSample_def sampleErrors_def Let_def split: if_splits option.splits)
next
  case (Some b)
  then obtain a where a: "sStats after = Some a"
    using assms by (cases "sStats after")
      (auto simp: deltaQdiscSample_def sampleErrors_def Let_def split: if_splits)
  then show ?thesis
    using assms Some unat_delta
    by (auto simp: deltaQdiscSample_def exactDelta_def Let_def split: if_splits)
qed

text \<open>
  A difference without errors is exact: when \<open>DeltaQdiscPair\<close> reports no error, both
  directions have a difference, taken over one kind of qdisc, and adding it to the counters of the
  first snapshot gives those of the second without wrap-around; a missing reading, a replaced qdisc
  and a counter that went back are always reported.
\<close>

theorem qdisc_delta_exact:
  assumes "pdErrors (DeltaQdiscPair before after) = []"
  shows "exactDelta (snServer before) (snServer after) (pdServer (DeltaQdiscPair before after)) \<and>
    exactDelta (snClient before) (snClient after) (pdClient (DeltaQdiscPair before after))"
proof -
  obtain s e1 c e2 where d: "deltaQdiscSample ''server_egress'' (snServer before) (snServer after) = (s, e1)"
    "deltaQdiscSample ''client_egress'' (snClient before) (snClient after) = (c, e2)" by fastforce
  then show ?thesis
    using assms deltaQdiscSample_exact [of "''server_egress''" "snServer before" "snServer after" s]
      deltaQdiscSample_exact [of "''client_egress''" "snClient before" "snClient after" c]
    by (simp add: DeltaQdiscPair_def)
qed

definition sampleAt :: "u64 \<Rightarrow> QdiscSample" where
  "sampleAt n = \<lparr>sNamespace = ''a'', sDevice = ''b'', sCaptureStartNS = 1, sCaptureFinishNS = 2,
     sStats = Some ((newQdiscStats ''netem'')\<lparr>SentPackets := n, Dropped := 3\<rparr>), sRaw = ''raw'', sError = []\<rparr>"

lemma qdisc_delta_exact_witness:
  "exactDelta (sampleAt 5) (sampleAt 9) (pdServer (DeltaQdiscPair
     \<lparr>CaptureStartNS = 0, CaptureFinishNS = 3, snServer = sampleAt 5, snClient = sampleAt 7\<rparr>
     \<lparr>CaptureStartNS = 5, CaptureFinishNS = 8, snServer = sampleAt 9, snClient = sampleAt 7\<rparr>))"
  using qdisc_delta_exact [of "\<lparr>CaptureStartNS = 0, CaptureFinishNS = 3, snServer = sampleAt 5, snClient = sampleAt 7\<rparr>"
      "\<lparr>CaptureStartNS = 5, CaptureFinishNS = 8, snServer = sampleAt 9, snClient = sampleAt 7\<rparr>"]
  by (simp add: DeltaQdiscPair_def deltaQdiscSample_def sampleAt_def newQdiscStats_def sampleErrors_def)

section \<open>The UDP section\<close>

definition plainWord :: "string \<Rightarrow> bool" where
  "plainWord w \<longleftrightarrow> w \<noteq> [] \<and> list_all (\<lambda>c. \<not> isSpace c) w"

lemma fieldsFrom_word: "list_all (\<lambda>c. \<not> isSpace c) w \<Longrightarrow> fieldsFrom cur (w @ s) = fieldsFrom (rev w @ cur) s"
  by (induction w arbitrary: cur) simp_all

lemma textFields_words: "list_all plainWord ws \<Longrightarrow> textFields (joinText '' '' ws) = ws"
  unfolding textFields_def
proof (induction "'' ''" ws rule: joinText.induct)
  case (2 w)
  then show ?case using fieldsFrom_word [of w "[]" "[]"] by (simp add: plainWord_def)
next
  case (3 w v ws)
  have "isSpace CHR '' ''" by (simp add: isSpace_def)
  then show ?case
    using 3 fieldsFrom_word [of w "[]" "CHR '' '' # joinText '' '' (v # ws)"] by (simp add: plainWord_def)
qed simp

lemma newline_space: "isSpace newline"
  by (simp add: isSpace_def newline_def)

lemma not_space_char: "newline \<noteq> CHR '' ''" "char_of (13 :: nat) \<noteq> CHR '' ''" "char_of (10 :: nat) \<noteq> CHR '' ''"
  by code_simp+

lemma joined_no_newline: "list_all plainWord ws \<Longrightarrow> c = newline \<or> c = char_of (13 :: nat) \<Longrightarrow> c \<notin> set (joinText '' '' ws)"
proof (induction "'' ''" ws rule: joinText.induct)
  case (2 w)
  then show ?case by (auto simp: plainWord_def list_all_iff newline_def isSpace_def)
next
  case (3 w v ws)
  then show ?case using not_space_char by (auto simp: plainWord_def list_all_iff newline_def isSpace_def)
qed simp

definition unlines :: "string list \<Rightarrow> string" where
  "unlines ls = concat (map (\<lambda>l. l @ [newline]) ls)"

lemma splitAt_unlines: "\<forall>l \<in> set ls. newline \<notin> set l \<Longrightarrow> splitAt newline (unlines ls) = ls @ [[]]"
  by (induction ls) (simp_all add: unlines_def splitAt_append)

lemma stripCR_plain: "char_of (13 :: nat) \<notin> set l \<Longrightarrow> stripCR l = l"
  by (auto simp: stripCR_def dest: last_in_set)

lemma scanLines_words:
  "\<forall>ws \<in> set wss. list_all plainWord ws \<Longrightarrow> scanLines (unlines (map (joinText '' '') wss)) = map (joinText '' '') wss"
  by (simp add: scanLines_def splitAt_unlines joined_no_newline stripCR_plain)

lemma digit_no_space: "isDigit c \<Longrightarrow> \<not> isSpace c"
  by (auto simp: isDigit_def isSpace_def digitValue_def Let_def split: if_splits)

lemma itoaU_plain: "plainWord (itoaU w)"
  unfolding plainWord_def list_all_iff
  by (simp, intro ballI, rule digit_no_space, erule itoaU_digits)

text \<open>One line of the loop, by its fields.\<close>

lemma udpLines_fields:
  "list_all plainWord ws \<Longrightarrow> udpLines headers (joinText '' '' ws # ls) =
     (if length ws < 2 \<or> ws ! 0 \<noteq> ''Udp:'' then udpLines headers ls
      else if parseUint (ws ! 1) = None then udpLines (Some (tl ws)) ls
      else case headers of None \<Rightarrow> Inl UdpWithoutHeader
        | Some names \<Rightarrow>
            if length (tl ws) \<noteq> length names then Inl (UdpLengthMismatch (length names) (length (tl ws)))
            else rbind (mapM (\<lambda>(name, v). case parseUint v of None \<Rightarrow> Inl (UdpValue name v) | Some n \<Rightarrow> Inr (name, n))
                (zip names (tl ws))) (\<lambda>kvs.
              let byName = (\<lambda>name. case map_of (rev kvs) name of None \<Rightarrow> 0 | Some v \<Rightarrow> v)
              in Inr \<lparr>InErrors = byName ''InErrors'', RcvbufErrors = byName ''RcvbufErrors''\<rparr>))"
  by (subst udpLines.simps(2)) (simp only: textFields_words Let_def)

lemma udpLines_other: "\<forall>ws \<in> set wss. list_all plainWord ws \<and> (ws = [] \<or> hd ws \<noteq> ''Udp:'') \<Longrightarrow>
    udpLines h (map (joinText '' '') wss @ ls) = udpLines h ls"
proof (induction wss)
  case (Cons ws wss)
  then have "length ws < 2 \<or> ws ! 0 \<noteq> ''Udp:''" by (cases ws) simp_all
  then show ?case using Cons by (simp only: list.map append_Cons) (simp add: udpLines_fields del: udpLines.simps)
qed simp

lemma mapM_vals:
  "mapM (\<lambda>(name, v). case parseUint v of None \<Rightarrow> Inl (UdpValue name v) | Some n \<Rightarrow> Inr (name, n))
     (zip names (map itoaU vals)) = Inr (zip names vals)"
proof (induction names arbitrary: vals)
  case (Cons a names)
  then show ?case by (cases vals) simp_all
qed simp

text \<open>
  Reading \<open>/proc/net/snmp\<close> back: whatever other sections precede it, a UDP section that names
  its columns once and gives a value for each yields exactly the values of \<open>InErrors\<close> and
  \<open>RcvbufErrors\<close>, and zero for a column that is absent.
\<close>

theorem udp_stats_round_trip:
  assumes "\<forall>ws \<in> set other. list_all plainWord ws \<and> (ws = [] \<or> hd ws \<noteq> ''Udp:'')"
    and "list_all plainWord names" and "distinct names" and "names \<noteq> []" and "parseUint (hd names) = None"
    and "length vals = length names"
  shows "ParseUDPStats (unlines (map (joinText '' '') (other @ [''Udp:'' # names, ''Udp:'' # map itoaU vals]))) =
    Inr \<lparr>InErrors = (case map_of (zip names vals) ''InErrors'' of None \<Rightarrow> 0 | Some v \<Rightarrow> v),
      RcvbufErrors = (case map_of (zip names vals) ''RcvbufErrors'' of None \<Rightarrow> 0 | Some v \<Rightarrow> v)\<rparr>"
proof -
  have w: "list_all plainWord (''Udp:'' # names)" "list_all plainWord (''Udp:'' # map itoaU vals)"
    using assms(2) itoaU_plain by (simp_all add: plainWord_def isSpace_def list_all_iff)
  have l: "1 < length (''Udp:'' # names)" "1 < length (''Udp:'' # map itoaU vals)"
    using assms(4,6) by (cases names; cases vals; simp)+
  have v: "parseUint (map itoaU vals ! 0) \<noteq> None" "(''Udp:'' # names) ! 1 = hd names"
    using assms(4,6) by (cases names; cases vals; simp)+
  have "map_of (rev (zip names vals)) = map_of (zip names vals)"
    using assms(3) using assms(6) by (subst map_of_inject_set) (simp_all add: rev_map [symmetric])
  then have body: "udpLines None [joinText '' '' (''Udp:'' # names), joinText '' '' (''Udp:'' # map itoaU vals)] =
    Inr \<lparr>InErrors = (case map_of (zip names vals) ''InErrors'' of None \<Rightarrow> 0 | Some v \<Rightarrow> v),
      RcvbufErrors = (case map_of (zip names vals) ''RcvbufErrors'' of None \<Rightarrow> 0 | Some v \<Rightarrow> v)\<rparr>"
    using l v assms(5,6)
    by (simp only: udpLines_fields [OF w(1)] udpLines_fields [OF w(2)]) (simp add: mapM_vals)
  have "\<forall>ws \<in> set (other @ [''Udp:'' # names, ''Udp:'' # map itoaU vals]). list_all plainWord ws"
    using assms(1) w by auto
  then have "ParseUDPStats (unlines (map (joinText '' '') (other @ [''Udp:'' # names, ''Udp:'' # map itoaU vals]))) =
      udpLines None (map (joinText '' '') (other @ [''Udp:'' # names, ''Udp:'' # map itoaU vals]))"
    by (simp only: ParseUDPStats_def scanLines_words)
  then show ?thesis
    using udpLines_other [OF assms(1)] by (simp only: map_append list.map body)
qed

lemma udp_stats_round_trip_witness:
  "ParseUDPStats (unlines (map (joinText '' '') ([[''Ip:'', ''1'']] @
     [''Udp:'' # [''InDatagrams'', ''InErrors''], ''Udp:'' # map itoaU [9, 4]]))) =
   Inr \<lparr>InErrors = (case map_of (zip [''InDatagrams'', ''InErrors''] [9, 4]) ''InErrors'' of None \<Rightarrow> 0 | Some v \<Rightarrow> v),
     RcvbufErrors = (case map_of (zip [''InDatagrams'', ''InErrors''] [9, 4]) ''RcvbufErrors'' of None \<Rightarrow> 0 | Some v \<Rightarrow> v)\<rparr>"
  by (rule udp_stats_round_trip) (simp_all add: plainWord_def isSpace_def parseUint_def parseDigits_def digitValue_def)

end
