(* ===== verification/Scenario.thy ===== *)
theory Scenario
  imports MetricsJson Netops
begin

text \<open>
  Scenarios and workloads (\<open>orchestrator/run/scenario.go\<close>, \<open>workload.go\<close>): what an application
  sends, the validation of a scenario, the command-line arguments both expand to, and the duration
  derived from the loss of the link. A map the code ranges over is a list in the order of its
  literal; the order only decides which of several errors is reported.
\<close>

section \<open>Specifications\<close>

definition ScenarioEnvironmentBaseline :: string where "ScenarioEnvironmentBaseline = ''environment_baseline''"
definition ScenarioAuthoritativeState :: string where "ScenarioAuthoritativeState = ''authoritative_state''"
definition ScenarioRoomRelay :: string where "ScenarioRoomRelay = ''room_relay''"

lemmas scenario_kinds = ScenarioEnvironmentBaseline_def ScenarioAuthoritativeState_def ScenarioRoomRelay_def

record TrafficClassSpec =
  RateHz :: f64
  PayloadBytes :: int
  sDeadlineNS :: u64
  StalenessP99NS :: u64
  MinDeliveryRatio :: f64
  MinDeadlineHitRatio :: f64
  MinEventualDeliveryRatio :: f64

record TrafficSpec =
  sTrafficID :: u8
  LossTolerant :: TrafficClassSpec
  MustDeliver :: TrafficClassSpec

record ScenarioSpec =
  ScenarioName :: string
  scKind :: string
  ClientInput :: "TrafficSpec option"
  ServerState :: "TrafficSpec option"
  RoomPublish :: "TrafficSpec option"

datatype scenario_error =
    ZeroTrafficID string
  | NegativeRate string string
  | DisabledWithSettings string string
  | PayloadTooSmall string string int
  | RatioOutside string string string
  | NoEnabledClass string
  | WrongSLO string string
  | DeadlineRequired string
  | UnsafeName
  | MissingTraffic string
  | UnexpectedTraffic string
  | LatestValueRequired
  | SameTrafficID
  | UnknownKind string

definition zeroClassSpec :: TrafficClassSpec where
  "zeroClassSpec = \<lparr>RateHz = FFin 0, PayloadBytes = 0, sDeadlineNS = 0, StalenessP99NS = 0,
     MinDeliveryRatio = FFin 0, MinDeadlineHitRatio = FFin 0, MinEventualDeliveryRatio = FFin 0\<rparr>"

text \<open>\<open>class != (TrafficClassSpec{})\<close>: Go compares the fields, numbers as numbers compare.\<close>

definition hasSettings :: "TrafficClassSpec \<Rightarrow> bool" where
  "hasSettings c \<longleftrightarrow> f_nonzero (RateHz c) \<or> PayloadBytes c \<noteq> 0 \<or> sDeadlineNS c \<noteq> 0 \<or> StalenessP99NS c \<noteq> 0 \<or>
     f_nonzero (MinDeliveryRatio c) \<or> f_nonzero (MinDeadlineHitRatio c) \<or> f_nonzero (MinEventualDeliveryRatio c)"

definition rate :: "TrafficSpec \<Rightarrow> f64" where
  "rate t = f_add (RateHz (LossTolerant t)) (RateHz (MustDeliver t))"

definition validateClassSpec :: "string \<Rightarrow> int \<Rightarrow> string \<Rightarrow> TrafficClassSpec \<Rightarrow> scenario_error + unit" where
  "validateClassSpec name minPayload className c =
     (if f_lt (RateHz c) (FFin 0) then Inl (NegativeRate name className)
      else if f_eq (RateHz c) (FFin 0) \<and> hasSettings c then Inl (DisabledWithSettings name className)
      else if f_lt (FFin 0) (RateHz c) \<and> PayloadBytes c < minPayload then Inl (PayloadTooSmall name className minPayload)
      else checkM (\<lambda>(field, ratio). fail_if (f_lt ratio (FFin 0) \<or> f_lt (FFin 1) ratio) (RatioOutside name className field))
        [(''min_delivery_ratio'', MinDeliveryRatio c), (''min_deadline_hit_ratio'', MinDeadlineHitRatio c),
         (''min_eventual_delivery_ratio'', MinEventualDeliveryRatio c)])"

definition validateTrafficSpec :: "string \<Rightarrow> int \<Rightarrow> TrafficSpec \<Rightarrow> scenario_error + unit" where
  "validateTrafficSpec name minPayload t =
     (if sTrafficID t = 0 then Inl (ZeroTrafficID name)
      else rbind (validateClassSpec name minPayload ''loss_tolerant'' (LossTolerant t)) (\<lambda>_.
        rbind (validateClassSpec name minPayload ''must_deliver'' (MustDeliver t)) (\<lambda>_.
        if f_eq (rate t) (FFin 0) then Inl (NoEnabledClass name)
        else if sDeadlineNS (LossTolerant t) \<noteq> 0 \<or> f_nonzero (MinDeadlineHitRatio (LossTolerant t)) \<or>
          f_nonzero (MinEventualDeliveryRatio (LossTolerant t)) then Inl (WrongSLO name ''loss_tolerant'')
        else if StalenessP99NS (MustDeliver t) \<noteq> 0 \<or> f_nonzero (MinDeliveryRatio (MustDeliver t))
          then Inl (WrongSLO name ''must_deliver'')
        else fail_if (f_lt (FFin 0) (MinDeadlineHitRatio (MustDeliver t)) \<and> sDeadlineNS (MustDeliver t) = 0)
          (DeadlineRequired name))))"

definition safeChar :: "nat \<Rightarrow> char \<Rightarrow> bool" where
  "safeChar i c \<longleftrightarrow>
     (let n = (of_char c :: nat)
      in (97 \<le> n \<and> n \<le> 122) \<or> (65 \<le> n \<and> n \<le> 90) \<or> (48 \<le> n \<and> n \<le> 57) \<or>
         (0 < i \<and> (c = CHR ''-'' \<or> c = CHR ''_'' \<or> c = CHR ''.'')))"

definition IsSafeName :: "string \<Rightarrow> bool" where
  "IsSafeName value \<longleftrightarrow> value \<noteq> [] \<and> length value \<le> 96 \<and> list_all (\<lambda>(i, c). safeChar i c) (enumerate 0 value)"

definition ValidateScenario :: "ScenarioSpec \<Rightarrow> scenario_error + unit" where
  "ValidateScenario s =
     (if \<not> IsSafeName (ScenarioName s) then Inl UnsafeName
      else if scKind s = ScenarioEnvironmentBaseline then
        (case ClientInput s of None \<Rightarrow> Inl (MissingTraffic ''client_input'')
         | Some input \<Rightarrow>
            if ServerState s \<noteq> None \<or> RoomPublish s \<noteq> None then Inl (UnexpectedTraffic ''environment_baseline'')
            else validateTrafficSpec ''scenario.client_input'' 32 input)
      else if scKind s = ScenarioAuthoritativeState then
        (case (ClientInput s, ServerState s) of
           (Some input, Some st) \<Rightarrow>
             if RoomPublish s \<noteq> None then Inl (UnexpectedTraffic ''room_publish'')
             else if f_le (RateHz (LossTolerant input)) (FFin 0) \<or> f_le (RateHz (LossTolerant st)) (FFin 0)
               then Inl LatestValueRequired
             else if sTrafficID input = sTrafficID st then Inl SameTrafficID
             else rbind (validateTrafficSpec ''scenario.client_input'' 32 input) (\<lambda>_.
               validateTrafficSpec ''scenario.server_state'' 40 st)
         | _ \<Rightarrow> Inl (MissingTraffic ''client_input server_state''))
      else if scKind s = ScenarioRoomRelay then
        (case RoomPublish s of None \<Rightarrow> Inl (MissingTraffic ''room_publish'')
         | Some publish \<Rightarrow>
            if ClientInput s \<noteq> None \<or> ServerState s \<noteq> None then Inl (UnexpectedTraffic ''room_relay'')
            else validateTrafficSpec ''scenario.room_publish'' 32 publish)
      else Inl (UnknownKind (scKind s)))"

section \<open>Traffic series\<close>

record scenarioMetricCase =
  mcName :: string
  mcDirection :: string
  mcSpec :: "TrafficSpec option"

definition scenarioMetricCases :: "ScenarioSpec \<Rightarrow> scenarioMetricCase list" where
  "scenarioMetricCases s =
     (if scKind s = ScenarioEnvironmentBaseline
      then [\<lparr>mcName = ''baseline'', mcDirection = DirectionRoomRelay, mcSpec = ClientInput s\<rparr>]
      else if scKind s = ScenarioAuthoritativeState
      then [\<lparr>mcName = ''client_input'', mcDirection = DirectionClientToServer, mcSpec = ClientInput s\<rparr>,
            \<lparr>mcName = ''server_state'', mcDirection = DirectionServerToClient, mcSpec = ServerState s\<rparr>]
      else if scKind s = ScenarioRoomRelay
      then [\<lparr>mcName = ''room_publish'', mcDirection = DirectionRoomRelay, mcSpec = RoomPublish s\<rparr>]
      else [])"

definition enabledTrafficClasses :: "TrafficSpec \<Rightarrow> (string \<times> TrafficClassSpec) list" where
  "enabledTrafficClasses spec =
     (if f_lt (FFin 0) (RateHz (LossTolerant spec)) then [(ClassLossTolerant, LossTolerant spec)] else []) @
     (if f_lt (FFin 0) (RateHz (MustDeliver spec)) then [(ClassMustDeliver, MustDeliver spec)] else [])"

text \<open>The series of a scenario: the two loops the code nests wherever it visits them.\<close>

record trafficSeries =
  tsName :: string
  tsDirection :: string
  tsSpec :: TrafficSpec
  tsClass :: string
  tsClassSpec :: TrafficClassSpec

definition enabledSeries :: "ScenarioSpec \<Rightarrow> trafficSeries list" where
  "enabledSeries s = concat (map (\<lambda>c. case mcSpec c of None \<Rightarrow> []
     | Some spec \<Rightarrow> map (\<lambda>(className, classSpec). \<lparr>tsName = mcName c, tsDirection = mcDirection c, tsSpec = spec,
         tsClass = className, tsClassSpec = classSpec\<rparr>) (enabledTrafficClasses spec)) (scenarioMetricCases s))"

definition missingOfSpec :: "string \<Rightarrow> TrafficSpec \<Rightarrow> string list" where
  "missingOfSpec name spec =
     (let lt = LossTolerant spec; md = MustDeliver spec
      in (if f_lt (FFin 0) (RateHz lt) \<and> f_eq (MinDeliveryRatio lt) (FFin 0) \<and> StalenessP99NS lt = 0
          then [name @ ''/'' @ ClassLossTolerant] else []) @
         (if f_lt (FFin 0) (RateHz md) \<and> f_eq (MinDeadlineHitRatio md) (FFin 0) \<and> f_eq (MinEventualDeliveryRatio md) (FFin 0)
          then [name @ ''/'' @ ClassMustDeliver] else []))"

definition MissingPrimarySLOs :: "ScenarioSpec \<Rightarrow> string list" where
  "MissingPrimarySLOs s = concat (map (\<lambda>c. case mcSpec c of None \<Rightarrow> []
     | Some spec \<Rightarrow> missingOfSpec (mcName c) spec) (scenarioMetricCases s))"

definition HasCompletePrimarySLOs :: "ScenarioSpec \<Rightarrow> bool" where
  "HasCompletePrimarySLOs s \<longleftrightarrow> length (MissingPrimarySLOs s) = 0"

section \<open>Arguments\<close>

definition trafficArgs :: "string \<Rightarrow> TrafficSpec option \<Rightarrow> string list" where
  "trafficArgs pre t = (case t of None \<Rightarrow> []
     | Some t \<Rightarrow>
        [''--'' @ pre @ ''-traffic-id'', itoa (uint (sTrafficID t)),
         ''--'' @ pre @ ''-rate-lt'', formatFloat (RateHz (LossTolerant t)),
         ''--'' @ pre @ ''-rate-md'', formatFloat (RateHz (MustDeliver t)),
         ''--'' @ pre @ ''-payload-lt'', itoa (PayloadBytes (LossTolerant t)),
         ''--'' @ pre @ ''-payload-md'', itoa (PayloadBytes (MustDeliver t)),
         ''--'' @ pre @ ''-deadline-ns'', itoaU (sDeadlineNS (MustDeliver t))])"

definition CommonArgs :: "ScenarioSpec \<Rightarrow> int \<Rightarrow> string list" where
  "CommonArgs s totalConns =
     [''--scenario'', scKind s, ''--total-conns'', itoa totalConns] @ trafficArgs ''input'' (ClientInput s) @
     trafficArgs ''state'' (ServerState s) @ trafficArgs ''publish'' (RoomPublish s)"

section \<open>Workloads\<close>

record Workload =
  wName :: string
  RateLT :: f64
  RateMD :: f64
  PayloadLT :: int
  PayloadMD :: int
  BroadcastLT :: bool
  BroadcastMD :: bool

definition planeRates :: "int list" where "planeRates = [10, 20, 60]"
definition planePayloads :: "int list" where "planePayloads = [128, 200, 1000]"

definition planeCellName :: "int \<Rightarrow> int \<Rightarrow> string" where
  "planeCellName hz payload = ''r'' @ itoa hz @ ''p'' @ itoa payload"

definition planeCells :: "(int \<times> int) list" where
  "planeCells = List.product planeRates planePayloads"

definition LookupWorkload :: "string \<Rightarrow> Workload option" where
  "LookupWorkload name =
     (if name = ''echo'' then Some \<lparr>wName = name, RateLT = FFin 50, RateMD = FFin 50, PayloadLT = 64, PayloadMD = 64,
        BroadcastLT = False, BroadcastMD = False\<rparr>
      else if name = ''reliable_echo'' then Some \<lparr>wName = name, RateLT = FFin 0, RateMD = FFin 50, PayloadLT = 0,
        PayloadMD = 64, BroadcastLT = False, BroadcastMD = False\<rparr>
      else map_option (\<lambda>(r, p). \<lparr>wName = name, RateLT = f_of_int r, RateMD = FFin 1, PayloadLT = p, PayloadMD = 128,
        BroadcastLT = True, BroadcastMD = True\<rparr>) (List.find (\<lambda>(r, p). name = planeCellName r p) planeCells))"

definition WorkloadNames :: "string list" where
  "WorkloadNames = map (\<lambda>(r, p). planeCellName r p) planeCells @ [''echo'', ''reliable_echo'']"

definition ClientArgs :: "Workload \<Rightarrow> string list" where
  "ClientArgs w =
     [''--rate-lt'', formatFloat (RateLT w), ''--rate-md'', formatFloat (RateMD w)] @
     (if f_lt (FFin 0) (RateLT w) then [''--payload-lt'', itoa (PayloadLT w)] else []) @
     (if f_lt (FFin 0) (RateMD w) then [''--payload-md'', itoa (PayloadMD w)] else []) @
     (if BroadcastLT w then [''--broadcast-lt''] else []) @ (if BroadcastMD w then [''--broadcast-md''] else [])"

section \<open>Durations\<close>

record NetemRegime =
  nrPrefix :: string
  nrServerNS :: string
  nrClientNS :: string
  nrServerVeth :: string
  nrClientVeth :: string
  nrServerAddrCIDR :: string
  nrClientAddrCIDR :: string
  nrLinkMTUBytes :: int
  nrDisableOffloads :: bool
  nrServerEgress :: Netem
  nrClientEgress :: Netem

definition second :: int where "second = 1000000000"
definition autoDurationMin :: int where "autoDurationMin = 10 * second"
definition autoDurationMax :: int where "autoDurationMax = 120 * second"

definition lossEventDuration :: "f64 \<Rightarrow> f64 \<Rightarrow> f64 \<Rightarrow> int" where
  "lossEventDuration lossPercent burstLen pps =
     (if f_le lossPercent (FFin 0) \<or> f_le pps (FFin 0) then 0
      else
        let burstLen = (if f_lt burstLen (FFin 1) then FFin 1 else burstLen);
            seconds = f_div (f_mul (FFin 30) burstLen) (f_mul (f_div lossPercent (FFin 100)) pps)
        in f_to_i64 (f_mul seconds (f_of_int second)))"

text \<open>The larger of the minimum and the needs of the two directions, clamped.\<close>

definition longestNeed :: "(f64 \<times> f64 \<times> f64) list \<Rightarrow> int" where
  "longestNeed directions = foldl (\<lambda>need (loss, burst, pps). let d = lossEventDuration loss burst pps
     in if need < d then d else need) autoDurationMin directions"

definition clampDuration :: "int \<Rightarrow> int" where
  "clampDuration need = (if autoDurationMax < need then autoDurationMax else need)"

definition lossDirections :: "NetemRegime \<Rightarrow> f64 \<times> f64 \<Rightarrow> (f64 \<times> f64 \<times> f64) list" where
  "lossDirections netem = (\<lambda>(clientPPS, serverPPS).
     [(LossPercent (nrClientEgress netem), LossBurstLen (nrClientEgress netem), clientPPS),
      (LossPercent (nrServerEgress netem), LossBurstLen (nrServerEgress netem), serverPPS)])"

definition perConnRate :: "Workload \<Rightarrow> f64" where
  "perConnRate w = f_add (RateLT w) (RateMD w)"

definition workloadPPS :: "Workload \<Rightarrow> int \<Rightarrow> f64 \<times> f64" where
  "workloadPPS w totalConns =
     (let n = f_of_int totalConns;
          uplink = f_mul n (perConnRate w);
          downlink = foldl (\<lambda>acc (hz, broadcast). let out = f_mul n hz
            in f_add acc (if broadcast then f_mul out n else out)) (FFin 0)
            [(RateLT w, BroadcastLT w), (RateMD w, BroadcastMD w)]
      in (uplink, downlink))"

definition autoDuration :: "Workload \<Rightarrow> int \<Rightarrow> NetemRegime option \<Rightarrow> int" where
  "autoDuration w totalConns netem =
     clampDuration (case netem of None \<Rightarrow> autoDurationMin
       | Some netem \<Rightarrow> longestNeed (lossDirections netem (workloadPPS w totalConns)))"

definition scenarioPPS :: "ScenarioSpec \<Rightarrow> int \<Rightarrow> f64 \<times> f64" where
  "scenarioPPS s totalConns =
     (let n = f_of_int totalConns;
          pps = (\<lambda>t. case t of None \<Rightarrow> FFin 0 | Some t \<Rightarrow> f_mul n (rate t))
      in if scKind s = ScenarioEnvironmentBaseline then (pps (ClientInput s), pps (ClientInput s))
         else if scKind s = ScenarioAuthoritativeState then (pps (ClientInput s), pps (ServerState s))
         else if scKind s = ScenarioRoomRelay
           then (pps (RoomPublish s), case RoomPublish s of None \<Rightarrow> FFin 0 | Some _ \<Rightarrow> f_mul (pps (RoomPublish s)) n)
         else (FFin 0, FFin 0))"

definition autoDurationScenario :: "ScenarioSpec \<Rightarrow> int \<Rightarrow> NetemRegime option \<Rightarrow> int" where
  "autoDurationScenario s totalConns netem =
     (case netem of None \<Rightarrow> autoDurationMin
      | Some netem \<Rightarrow> clampDuration (longestNeed (lossDirections netem (scenarioPPS s totalConns))))"

section \<open>What validation guarantees\<close>

text \<open>What a class of a valid specification satisfies when it is enabled.\<close>

definition ratioOK :: "f64 \<Rightarrow> bool" where
  "ratioOK r \<longleftrightarrow> \<not> f_lt r (FFin 0) \<and> \<not> f_lt (FFin 1) r"

definition wellFormedSeries :: "trafficSeries \<Rightarrow> bool" where
  "wellFormedSeries ts \<longleftrightarrow>
     sTrafficID (tsSpec ts) \<noteq> 0 \<and> 32 \<le> PayloadBytes (tsClassSpec ts) \<and> f_lt (FFin 0) (RateHz (tsClassSpec ts)) \<and>
     ratioOK (MinDeliveryRatio (tsClassSpec ts)) \<and> ratioOK (MinDeadlineHitRatio (tsClassSpec ts)) \<and>
     ratioOK (MinEventualDeliveryRatio (tsClassSpec ts)) \<and>
     (if tsClass ts = ClassLossTolerant
      then sDeadlineNS (tsClassSpec ts) = 0 \<and> \<not> f_nonzero (MinDeadlineHitRatio (tsClassSpec ts)) \<and>
        \<not> f_nonzero (MinEventualDeliveryRatio (tsClassSpec ts))
      else tsClass ts = ClassMustDeliver \<and> StalenessP99NS (tsClassSpec ts) = 0 \<and>
        \<not> f_nonzero (MinDeliveryRatio (tsClassSpec ts)) \<and>
        (f_lt (FFin 0) (MinDeadlineHitRatio (tsClassSpec ts)) \<longrightarrow> sDeadlineNS (tsClassSpec ts) \<noteq> 0))"

definition seriesKey :: "trafficSeries \<Rightarrow> TrafficKey" where
  "seriesKey ts = TrafficKey (sTrafficID (tsSpec ts)) (tsDirection ts) (tsClass ts)"

text \<open>A decoded rate is a finite number.\<close>

definition finiteRates :: "ScenarioSpec \<Rightarrow> bool" where
  "finiteRates s \<longleftrightarrow> (\<forall>t \<in> set_option (ClientInput s) \<union> set_option (ServerState s) \<union> set_option (RoomPublish s).
     f_finite (RateHz (LossTolerant t)) \<and> f_finite (RateHz (MustDeliver t)))"

lemma validClassSpec:
  "validateClassSpec name minPayload className c = Inr () \<Longrightarrow>
     \<not> f_lt (RateHz c) (FFin 0) \<and> (f_lt (FFin 0) (RateHz c) \<longrightarrow> minPayload \<le> PayloadBytes c) \<and>
     ratioOK (MinDeliveryRatio c) \<and> ratioOK (MinDeadlineHitRatio c) \<and> ratioOK (MinEventualDeliveryRatio c)"
  by (auto simp: validateClassSpec_def ratioOK_def rbind_eq_Inr_iff split: if_splits)

lemma rate_zero:
  "f_finite a \<Longrightarrow> f_finite b \<Longrightarrow> \<not> f_lt (FFin 0) a \<Longrightarrow> \<not> f_lt (FFin 0) b \<Longrightarrow> \<not> f_lt a (FFin 0) \<Longrightarrow> \<not> f_lt b (FFin 0) \<Longrightarrow>
   f_eq (f_add a b) (FFin 0)"
  by (cases a; cases b) (auto simp: f_of_rat_small)

lemma validTrafficSpec:
  assumes "validateTrafficSpec name minPayload t = Inr ()" and "32 \<le> minPayload"
  shows "list_all (\<lambda>(className, c). wellFormedSeries \<lparr>tsName = n, tsDirection = d, tsSpec = t, tsClass = className, tsClassSpec = c\<rparr>)
      (enabledTrafficClasses t) \<and>
    (f_finite (RateHz (LossTolerant t)) \<longrightarrow> f_finite (RateHz (MustDeliver t)) \<longrightarrow> enabledTrafficClasses t \<noteq> [])"
  using assms validClassSpec [of name minPayload "''loss_tolerant''" "LossTolerant t"]
    validClassSpec [of name minPayload "''must_deliver''" "MustDeliver t"]
    rate_zero [of "RateHz (LossTolerant t)" "RateHz (MustDeliver t)"]
  by (auto simp: validateTrafficSpec_def rate_def rbind_eq_Inr_iff wellFormedSeries_def enabledTrafficClasses_def
      ClassLossTolerant_def ClassMustDeliver_def split: if_splits)

definition specsOf :: "ScenarioSpec \<Rightarrow> (string \<times> string \<times> TrafficSpec) list" where
  "specsOf s = concat (map (\<lambda>c. case mcSpec c of None \<Rightarrow> [] | Some spec \<Rightarrow> [(mcName c, mcDirection c, spec)])
     (scenarioMetricCases s))"

lemma enabledSeries_specs:
  "enabledSeries s = concat (map (\<lambda>(n, d, spec). map (\<lambda>(className, classSpec).
     \<lparr>tsName = n, tsDirection = d, tsSpec = spec, tsClass = className, tsClassSpec = classSpec\<rparr>) (enabledTrafficClasses spec))
     (specsOf s))"
  unfolding enabledSeries_def specsOf_def
  by (rule list.induct [of _ "scenarioMetricCases s"]) (simp_all split: option.split)

lemma validated_specs:
  assumes "ValidateScenario s = Inr ()"
  shows "specsOf s \<noteq> [] \<and> distinct (map (\<lambda>(n, d, spec). d) (specsOf s)) \<and>
    list_all (\<lambda>(n, d, spec). (\<exists>name minPayload. 32 \<le> minPayload \<and> validateTrafficSpec name minPayload spec = Inr ()) \<and>
      Some spec \<in> {ClientInput s, ServerState s, RoomPublish s}) (specsOf s)"
proof -
  have 32: "(32 :: int) \<le> 40" "(32 :: int) \<le> 32" by simp_all
  show ?thesis
    using assms
    by (auto simp: ValidateScenario_def specsOf_def scenarioMetricCases_def scenario_kinds rbind_eq_Inr_iff
        DirectionClientToServer_def DirectionServerToClient_def split: if_splits option.splits intro: 32)
qed

text \<open>
  C37. What validation of a scenario guarantees: it has at least one series with a positive rate,
  no two of its series share a traffic identifier, direction and class, and every series has a
  non-zero identifier, a payload of at least 32 bytes, ratios in [0, 1] and only the thresholds of
  its class.
\<close>

theorem valid_scenario_series:
  assumes "ValidateScenario s = Inr ()" and "finiteRates s"
  shows "enabledSeries s \<noteq> [] \<and> distinct (map seriesKey (enabledSeries s)) \<and> list_all wellFormedSeries (enabledSeries s)"
proof -
  have specs: "specsOf s \<noteq> []" "distinct (map (\<lambda>(n, d, spec). d) (specsOf s))"
    and each: "\<And>n d spec. (n, d, spec) \<in> set (specsOf s) \<Longrightarrow>
      (\<exists>name minPayload. 32 \<le> minPayload \<and> validateTrafficSpec name minPayload spec = Inr ()) \<and>
      Some spec \<in> {ClientInput s, ServerState s, RoomPublish s}"
    using validated_specs [OF assms(1)] by (auto simp: list_all_iff)
  have "enabledTrafficClasses spec \<noteq> []" if "(n, d, spec) \<in> set (specsOf s)" for n d spec
    using each [OF that] validTrafficSpec assms(2) by (auto simp: finiteRates_def)
  then have "enabledSeries s \<noteq> []"
    using specs(1) by (cases "specsOf s") (auto simp: enabledSeries_specs)
  moreover have "distinct (map seriesKey (concat (map (\<lambda>(n, d, spec). map (\<lambda>(className, classSpec).
      \<lparr>tsName = n, tsDirection = d, tsSpec = spec, tsClass = className, tsClassSpec = classSpec\<rparr>)
      (enabledTrafficClasses spec)) xs)))" if "distinct (map (\<lambda>(n, d, spec). d) xs)" for xs
    using that by (induction xs)
      (auto simp: seriesKey_def enabledTrafficClasses_def ClassLossTolerant_def ClassMustDeliver_def image_iff split: if_splits)
  then have "distinct (map seriesKey (enabledSeries s))"
    using specs(2) by (simp add: enabledSeries_specs)
  moreover have "list_all wellFormedSeries (enabledSeries s)"
    using each validTrafficSpec by (fastforce simp: enabledSeries_specs list_all_iff)
  ultimately show ?thesis by blast
qed

definition sampleClass :: "f64 \<Rightarrow> TrafficClassSpec" where
  "sampleClass hz = zeroClassSpec\<lparr>RateHz := hz, PayloadBytes := 64\<rparr>"

definition sampleScenario :: ScenarioSpec where
  "sampleScenario = \<lparr>ScenarioName = ''state'', scKind = ScenarioAuthoritativeState,
     ClientInput = Some \<lparr>sTrafficID = 1, LossTolerant = sampleClass (FFin 30), MustDeliver = sampleClass (FFin 1)\<rparr>,
     ServerState = Some \<lparr>sTrafficID = 2, LossTolerant = sampleClass (FFin 20), MustDeliver = zeroClassSpec\<rparr>,
     RoomPublish = None\<rparr>"

lemma valid_scenario_series_witness:
  "enabledSeries sampleScenario \<noteq> [] \<and> distinct (map seriesKey (enabledSeries sampleScenario)) \<and>
    list_all wellFormedSeries (enabledSeries sampleScenario)"
proof (rule valid_scenario_series)
  show "ValidateScenario sampleScenario = Inr ()" by code_simp
qed (simp add: finiteRates_def sampleScenario_def sampleClass_def zeroClassSpec_def)

section \<open>The derived duration\<close>

lemma longestNeed_two:
  "longestNeed [(l1, b1, p1), (l2, b2, p2)] =
     max autoDurationMin (max (lossEventDuration l1 b1 p1) (lossEventDuration l2 b2 p2))"
  by (auto simp: longestNeed_def Let_def max_def)

text \<open>
  The duration derived for a run is the longest time either direction needs to see its
  loss events, kept between ten seconds and two minutes; without an emulated link it is the
  minimum. It holds for a scenario and for a workload alike.
\<close>

theorem derived_duration_is_clamped:
  "autoDurationScenario s n netem =
     (case netem of None \<Rightarrow> autoDurationMin
      | Some e \<Rightarrow> max autoDurationMin (min autoDurationMax
          (max (lossEventDuration (LossPercent (nrClientEgress e)) (LossBurstLen (nrClientEgress e)) (fst (scenarioPPS s n)))
               (lossEventDuration (LossPercent (nrServerEgress e)) (LossBurstLen (nrServerEgress e)) (snd (scenarioPPS s n)))))) \<and>
   autoDuration w n netem =
     (case netem of None \<Rightarrow> autoDurationMin
      | Some e \<Rightarrow> max autoDurationMin (min autoDurationMax
          (max (lossEventDuration (LossPercent (nrClientEgress e)) (LossBurstLen (nrClientEgress e)) (fst (workloadPPS w n)))
               (lossEventDuration (LossPercent (nrServerEgress e)) (LossBurstLen (nrServerEgress e)) (snd (workloadPPS w n))))))"
proof -
  have "clampDuration (max autoDurationMin d) = max autoDurationMin (min autoDurationMax d)" for d
    by (auto simp: clampDuration_def max_def min_def autoDurationMin_def autoDurationMax_def second_def)
  moreover have "clampDuration autoDurationMin = autoDurationMin"
    by (simp add: clampDuration_def autoDurationMin_def autoDurationMax_def second_def)
  ultimately show ?thesis
    by (simp add: autoDurationScenario_def autoDuration_def lossDirections_def longestNeed_two split: option.split prod.split)
qed

end
