(* ===== verification/ScenarioMetrics.thy ===== *)
theory ScenarioMetrics
  imports Scenario
begin

text \<open>
  The contract between a scenario and the metrics it produces (\<open>orchestrator/run/scenario_metrics.go\<close>)
  and the judgement of the application thresholds (\<open>scenario_judge.go\<close>): how many slots, flows and
  staleness samples a process must report, the checks of the process files and of the merged
  metrics, and the evaluation with its causes.
\<close>

section \<open>Expected ranges\<close>

datatype contract_error =
    NonPositiveRange
  | InvalidRate f64
  | RangeOverflow
  | NotVersion2 string int
  | MissingSeries string string string
  | DeadlineMismatch string string string u64 u64
  | SlotsOutside string string string u64 u64 u64
  | FlowsDiffer string string string u64 int
  | InSeries string string string contract_error
  | PartitionCount nat nat
  | ArtifactError metrics_error
  | ZeroSlots string string
  | SamplesOutside string string u64

definition slotInterval :: "f64 \<Rightarrow> f64" where
  "slotInterval rateHz = f_div (FFin 1000000000) rateHz"

definition roundedInterval :: "f64 \<Rightarrow> u64" where
  "roundedInterval interval = f_to_u64 (f_add interval (FFin (1 / 2)))"

definition expectedSlotRange :: "f64 \<Rightarrow> int \<Rightarrow> int \<Rightarrow> contract_error + u64 \<times> u64" where
  "expectedSlotRange rateHz duration streams =
     (if f_le rateHz (FFin 0) \<or> duration \<le> 0 \<or> streams \<le> 0 then Inl NonPositiveRange
      else
        let intervalFloat = slotInterval rateHz
        in if \<not> f_finite intervalFloat \<or> f_lt intervalFloat (FFin 1) \<or> f_lt (f_of_u64 (- 1)) intervalFloat
           then Inl (InvalidRate rateHz)
           else
             let interval = roundedInterval intervalFloat;
                 durationNS = u64_of_int duration;
                 perStreamMin = durationNS div interval;
                 perStreamMax = (if durationNS mod interval \<noteq> 0 then perStreamMin + 1 else perStreamMin)
             in if (- 1) div u64_of_int streams < perStreamMax then Inl RangeOverflow
                else Inr (perStreamMin * u64_of_int streams, perStreamMax * u64_of_int streams))"

definition expectedStalenessSampleRange :: "int \<Rightarrow> u64 \<Rightarrow> int \<Rightarrow> contract_error + u64 \<times> u64" where
  "expectedStalenessSampleRange duration periodNS flows =
     (if duration \<le> 0 \<or> periodNS = 0 \<or> flows \<le> 0 then Inl NonPositiveRange
      else
        let ticks = u64_of_int duration div periodNS;
            ticks = (if u64_of_int duration mod periodNS \<noteq> 0 then ticks + 1 else ticks);
            minTicks = (if 2 < ticks then ticks - 2 else 1);
            maxTicks = ticks + 2
        in if (- 1) div u64_of_int flows < maxTicks then Inl RangeOverflow
           else Inr (minTicks * u64_of_int flows, maxTicks * u64_of_int flows))"

text \<open>An \<open>int\<close> product wraps at 64 bits.\<close>

definition expectedLatestFlows :: "string \<Rightarrow> string \<Rightarrow> string \<Rightarrow> int \<Rightarrow> int \<Rightarrow> int" where
  "expectedLatestFlows kind role direction localConns totalConns =
     (if kind = ScenarioEnvironmentBaseline then
        (if role = ''client'' \<or> role = ''merged'' then localConns else 0)
      else if kind = ScenarioRoomRelay then
        (if role = ''client'' \<or> role = ''merged'' then wrap64 (localConns * totalConns) else 0)
      else if kind = ScenarioAuthoritativeState then
        (if role = ''server'' \<and> direction = DirectionClientToServer then totalConns
         else if role = ''client'' \<and> direction = DirectionServerToClient then localConns
         else if role = ''merged'' then totalConns else 0)
      else 0)"

definition scenarioProcessSendsTraffic :: "string \<Rightarrow> string \<Rightarrow> string \<Rightarrow> bool" where
  "scenarioProcessSendsTraffic role direction kind \<longleftrightarrow>
     (if kind \<noteq> ScenarioAuthoritativeState then role = ''client''
      else (role = ''client'' \<and> direction = DirectionClientToServer) \<or>
           (role = ''server'' \<and> direction = DirectionServerToClient))"

definition scenarioProcessRequiresTraffic :: "string \<Rightarrow> string \<Rightarrow> string \<Rightarrow> string \<Rightarrow> bool" where
  "scenarioProcessRequiresTraffic role direction className kind \<longleftrightarrow>
     (if kind \<noteq> ScenarioAuthoritativeState then role = ''client''
      else scenarioProcessSendsTraffic role direction kind \<or> className = ClassLossTolerant)"

section \<open>The contract of the metrics\<close>

definition fileTrafficMetric :: "metricsFile \<Rightarrow> u8 \<Rightarrow> string \<Rightarrow> string \<Rightarrow> trafficMetric option" where
  "fileTrafficMetric file trafficID direction class =
     List.find (\<lambda>m. tmTrafficID m = trafficID \<and> tmDirection m = direction \<and> tmClass m = class) (mfTraffic file)"

definition checkSlots :: "string \<Rightarrow> trafficSeries \<Rightarrow> u64 \<Rightarrow> int \<Rightarrow> int \<Rightarrow> contract_error + unit" where
  "checkSlots path ts slots duration streams =
     (case expectedSlotRange (RateHz (tsClassSpec ts)) duration streams of
        Inl err \<Rightarrow> Inl (InSeries path (tsName ts) (tsClass ts) err)
      | Inr (minSlots, maxSlots) \<Rightarrow>
          fail_if (slots < minSlots \<or> maxSlots < slots) (SlotsOutside path (tsName ts) (tsClass ts) slots minSlots maxSlots))"

definition validateSeries ::
    "metricsFile \<Rightarrow> string \<Rightarrow> string \<Rightarrow> int \<Rightarrow> int \<Rightarrow> int \<Rightarrow> string \<Rightarrow> trafficSeries \<Rightarrow> contract_error + unit" where
  "validateSeries file path role localConns totalConns duration kind ts =
     (let sender = scenarioProcessSendsTraffic role (tsDirection ts) kind
      in if \<not> sender \<and> \<not> scenarioProcessRequiresTraffic role (tsDirection ts) (tsClass ts) kind then Inr ()
      else case fileTrafficMetric file (sTrafficID (tsSpec ts)) (tsDirection ts) (tsClass ts) of
          None \<Rightarrow> Inl (MissingSeries path (tsName ts) (tsClass ts))
        | Some metric \<Rightarrow>
            rbind (fail_if (tmDeadlineNS metric \<noteq> sDeadlineNS (MustDeliver (tsSpec ts)))
              (DeadlineMismatch path (tsName ts) (tsClass ts) (tmDeadlineNS metric) (sDeadlineNS (MustDeliver (tsSpec ts))))) (\<lambda>_.
            rbind (if sender then checkSlots path ts (Slots (tmCounts metric)) duration
                (if role = ''server'' then totalConns else localConns) else Inr ()) (\<lambda>_.
            if tsClass ts \<noteq> ClassLossTolerant then Inr ()
            else
              let expectedFlows = expectedLatestFlows kind role (tsDirection ts) localConns totalConns
              in fail_if (ExpectedFlows (tmCounts metric) \<noteq> u64_of_int expectedFlows)
                (FlowsDiffer path (tsName ts) (tsClass ts) (ExpectedFlows (tmCounts metric)) expectedFlows))))"

definition validateScenarioProcessMetrics ::
    "metricsFile \<Rightarrow> string \<Rightarrow> string \<Rightarrow> int \<Rightarrow> int \<Rightarrow> int \<Rightarrow> ScenarioSpec \<Rightarrow> contract_error + unit" where
  "validateScenarioProcessMetrics file path role localConns totalConns duration scenario =
     (if mfVersion file \<noteq> 2 then Inl (NotVersion2 path (mfVersion file))
      else if role = ''server'' \<and> scKind scenario \<noteq> ScenarioAuthoritativeState then Inr ()
      else checkM (validateSeries file path role localConns totalConns duration (scKind scenario)) (enabledSeries scenario))"

definition validateMergedSeries ::
    "MergedMetrics \<Rightarrow> int \<Rightarrow> int \<Rightarrow> u64 \<Rightarrow> string \<Rightarrow> trafficSeries \<Rightarrow> contract_error + unit" where
  "validateMergedSeries merged totalConns duration stalenessPeriodNS kind ts =
     (case TrafficMetric (Some merged) (sTrafficID (tsSpec ts)) (tsDirection ts) (tsClass ts) of
        None \<Rightarrow> Inl (MissingSeries ''merged'' (tsName ts) (tsClass ts))
      | Some metric \<Rightarrow>
          rbind (fail_if (Slots (taCounts metric) = 0) (ZeroSlots (tsName ts) (tsClass ts))) (\<lambda>_.
          rbind (fail_if (taDeadlineNS metric \<noteq> sDeadlineNS (MustDeliver (tsSpec ts)))
            (DeadlineMismatch ''merged'' (tsName ts) (tsClass ts) (taDeadlineNS metric) (sDeadlineNS (MustDeliver (tsSpec ts))))) (\<lambda>_.
          if tsClass ts \<noteq> ClassLossTolerant then Inr ()
          else
            let expectedFlows = expectedLatestFlows kind ''merged'' (tsDirection ts) totalConns totalConns
            in rbind (fail_if (ExpectedFlows (taCounts metric) \<noteq> u64_of_int expectedFlows)
                 (FlowsDiffer ''merged'' (tsName ts) (tsClass ts) (ExpectedFlows (taCounts metric)) expectedFlows)) (\<lambda>_.
               let samples = Count (taStalenessNS metric)
               in fail_if (case expectedStalenessSampleRange duration stalenessPeriodNS expectedFlows of
                    Inl _ \<Rightarrow> True | Inr (minSamples, maxSamples) \<Rightarrow> samples < minSamples \<or> maxSamples < samples)
                  (SamplesOutside (tsName ts) (tsClass ts) samples)))))"

definition ValidateScenarioMetricsData ::
    "MetricsArtifactData \<Rightarrow> MetricsArtifactData list \<Rightarrow> int list \<Rightarrow> int \<Rightarrow> int \<Rightarrow> u64 \<Rightarrow> ScenarioSpec \<Rightarrow>
     MergedMetrics option \<Rightarrow> contract_error + unit" where
  "ValidateScenarioMetricsData serverArtifact clientArtifacts clientConns totalConns duration stalenessPeriodNS scenario merged =
     (if length clientArtifacts \<noteq> length clientConns then Inl (PartitionCount (length clientArtifacts) (length clientConns))
      else
        rbind (wrap_err ArtifactError (parseMetricsArtifact True serverArtifact)) (\<lambda>server.
        rbind (validateScenarioProcessMetrics server (artifactName serverArtifact) ''server'' totalConns totalConns duration scenario) (\<lambda>_.
        rbind (checkM (\<lambda>(artifact, conns).
          rbind (wrap_err ArtifactError (parseMetricsArtifact False artifact)) (\<lambda>client.
          validateScenarioProcessMetrics client (artifactName artifact) ''client'' conns totalConns duration scenario))
          (zip clientArtifacts clientConns)) (\<lambda>_.
        case merged of
          None \<Rightarrow> Inl (NotVersion2 ''merged'' 0)
        | Some m \<Rightarrow>
            if mmVersion m \<noteq> 2 then Inl (NotVersion2 ''merged'' (mmVersion m))
            else checkM (validateMergedSeries m totalConns duration stalenessPeriodNS (scKind scenario)) (enabledSeries scenario)))))"

section \<open>The judgement\<close>

record TrafficEvaluation =
  teName :: string
  teTrafficID :: u8
  teDirection :: string
  teClass :: string
  teOK :: bool
  teCause :: string
  teDeliveryRatio :: f64
  teDeadlineHitRatio :: f64
  teResolvedDeadlineNS :: u64
  teStalenessP99NS :: u64
  teExpectedFlows :: u64
  teNeverReceivedFlows :: u64

record ScenarioEvaluation =
  seOK :: bool
  CompletePrimarySLOs :: bool
  seMissingPrimarySLOs :: "string list"
  seCause :: string
  seTraffic :: "TrafficEvaluation list"

text \<open>The causes one series fails with, in the order the code collects them.\<close>

definition trafficCauses :: "TrafficSpec \<Rightarrow> string \<Rightarrow> TrafficClassSpec \<Rightarrow> TrafficAggregate \<Rightarrow> string list" where
  "trafficCauses spec className c metric =
     (if Duplicates (taCounts metric) \<noteq> 0 \<and> className = ClassMustDeliver
      then [''duplicates='' @ itoaU (Duplicates (taCounts metric))] else []) @
     (if taDeadlineNS metric \<noteq> sDeadlineNS (MustDeliver spec)
      then [''resolved_deadline_ns='' @ itoaU (taDeadlineNS metric) @ '', want '' @ itoaU (sDeadlineNS (MustDeliver spec))]
      else []) @
     (if f_lt (FFin 0) (MinDeliveryRatio c) \<and> f_lt (taDeliveryRatio metric) (MinDeliveryRatio c)
      then [''delivery='' @ formatFixed 6 (taDeliveryRatio metric) @ '' below '' @ formatFixed 6 (MinDeliveryRatio c)]
      else []) @
     (if f_lt (FFin 0) (MinEventualDeliveryRatio c) \<and> f_lt (taDeliveryRatio metric) (MinEventualDeliveryRatio c)
      then [''eventual_delivery='' @ formatFixed 6 (taDeliveryRatio metric) @ '' below '' @
        formatFixed 6 (MinEventualDeliveryRatio c)] else []) @
     (if f_lt (FFin 0) (MinDeadlineHitRatio c) \<and> f_lt (taDeadlineHitRatio metric) (MinDeadlineHitRatio c)
      then [''deadline_hit='' @ formatFixed 6 (taDeadlineHitRatio metric) @ '' below '' @ formatFixed 6 (MinDeadlineHitRatio c)]
      else []) @
     (if NeverReceivedFlows (taCounts metric) \<noteq> 0
      then [''never_received_flows='' @ itoaU (NeverReceivedFlows (taCounts metric))] else []) @
     (if StalenessP99NS c = 0 then []
      else if Count (taStalenessNS metric) = 0 then [''staleness histogram empty'']
      else if StalenessP99NS c < P99NS (taStalenessNS metric)
      then [''staleness_p99='' @ itoaU (P99NS (taStalenessNS metric) div 1000000) @ ''ms over '' @
        itoaU (StalenessP99NS c div 1000000) @ ''ms'']
      else [])"

definition evaluateSeries :: "MergedMetrics \<Rightarrow> trafficSeries \<Rightarrow> TrafficEvaluation" where
  "evaluateSeries metrics ts =
     (let found = TrafficMetric (Some metrics) (sTrafficID (tsSpec ts)) (tsDirection ts) (tsClass ts);
          causes = (case found of None \<Rightarrow> [''metrics missing'']
            | Some metric \<Rightarrow> trafficCauses (tsSpec ts) (tsClass ts) (tsClassSpec ts) metric);
          field = (\<lambda>zero f. case found of None \<Rightarrow> zero | Some metric \<Rightarrow> f metric)
      in \<lparr>teName = tsName ts, teTrafficID = sTrafficID (tsSpec ts), teDirection = tsDirection ts, teClass = tsClass ts,
          teOK = (causes = []), teCause = joinText ''; '' causes,
          teDeliveryRatio = (case found of None \<Rightarrow> FFin 0 | Some metric \<Rightarrow> taDeliveryRatio metric),
          teDeadlineHitRatio = (case found of None \<Rightarrow> FFin 0 | Some metric \<Rightarrow> taDeadlineHitRatio metric),
          teResolvedDeadlineNS = field 0 taDeadlineNS,
          teStalenessP99NS = field 0 (\<lambda>m. P99NS (taStalenessNS m)),
          teExpectedFlows = field 0 (\<lambda>m. ExpectedFlows (taCounts m)),
          teNeverReceivedFlows = field 0 (\<lambda>m. NeverReceivedFlows (taCounts m))\<rparr>)"

text \<open>The series the judge visits: the classes whose rate is not \<open><= 0\<close>.\<close>

definition judgedSeries :: "ScenarioSpec \<Rightarrow> trafficSeries list" where
  "judgedSeries s = concat (map (\<lambda>c. case mcSpec c of None \<Rightarrow> []
     | Some spec \<Rightarrow> map (\<lambda>(className, classSpec). \<lparr>tsName = mcName c, tsDirection = mcDirection c, tsSpec = spec,
         tsClass = className, tsClassSpec = classSpec\<rparr>)
         (filter (\<lambda>(_, classSpec). \<not> f_le (RateHz classSpec) (FFin 0))
           [(ClassLossTolerant, LossTolerant spec), (ClassMustDeliver, MustDeliver spec)])) (scenarioMetricCases s))"

definition seriesCause :: "TrafficEvaluation \<Rightarrow> string" where
  "seriesCause t = teName t @ ''/'' @ teClass t @ '': '' @ teCause t"

definition EvaluateScenarioMetrics :: "MergedMetrics option \<Rightarrow> ScenarioSpec \<Rightarrow> ScenarioEvaluation" where
  "EvaluateScenarioMetrics metrics scenario =
     (let evaluation = \<lparr>seOK = False, CompletePrimarySLOs = HasCompletePrimarySLOs scenario,
          seMissingPrimarySLOs = MissingPrimarySLOs scenario, seCause = [], seTraffic = []\<rparr>
      in case metrics of None \<Rightarrow> evaluation\<lparr>seCause := ''metrics missing''\<rparr>
         | Some m \<Rightarrow>
            if scKind scenario \<notin> {ScenarioEnvironmentBaseline, ScenarioAuthoritativeState, ScenarioRoomRelay}
            then evaluation\<lparr>seCause := ''unknown scenario kind '' @ quoteText (scKind scenario)\<rparr>
            else
              let traffic = map (evaluateSeries m) (judgedSeries scenario);
                  causes = map seriesCause (filter (\<lambda>t. \<not> teOK t) traffic)
              in evaluation\<lparr>seOK := (causes = []), seCause := joinText ''; '' causes, seTraffic := traffic\<rparr>)"

section \<open>The slot range covers every phase\<close>

text \<open>The slots a periodic sender opens in a window, when its first slot is at \<open>phase\<close>.\<close>

definition slotsInWindow :: "nat \<Rightarrow> nat \<Rightarrow> nat \<Rightarrow> nat" where
  "slotsInWindow interval duration phase = card {k. phase + k * interval < duration}"

definition ceilDiv :: "nat \<Rightarrow> nat \<Rightarrow> nat" where
  "ceilDiv a b = (if a mod b \<noteq> 0 then a div b + 1 else a div b)"

lemma ceilDiv_above: "0 < b \<Longrightarrow> k * b < a \<Longrightarrow> k < ceilDiv a b"
proof -
  assume b: "0 < b" and k: "k * b < a"
  have "a \<le> ceilDiv a b * b"
  proof (cases "a mod b = 0")
    case False
    then have "ceilDiv a b * b = a div b * b + b" by (simp add: ceilDiv_def)
    then show ?thesis using div_mult_mod_eq [of a b] mod_less_divisor [OF b, of a] by linarith
  qed (use div_mult_mod_eq [of a b] in \<open>simp add: ceilDiv_def\<close>)
  with k have "k * b < ceilDiv a b * b" by linarith
  then show ?thesis by simp
qed

lemma slots_below: "0 < interval \<Longrightarrow> {k :: nat. phase + k * interval < duration} \<subseteq> {..<ceilDiv duration interval}"
  by (auto intro!: ceilDiv_above)

lemma slots_above:
  assumes "phase < interval"
  shows "{..<duration div interval} \<subseteq> {k :: nat. phase + k * interval < duration}"
proof clarsimp
  fix k :: nat assume "k < duration div interval"
  then have "Suc k * interval \<le> duration div interval * interval" by (intro mult_le_mono1) simp
  also have "\<dots> \<le> duration" by simp
  finally show "phase + k * interval < duration" using assms by simp
qed

lemma slotsInWindow_bounds:
  assumes "phase < interval"
  shows "duration div interval \<le> slotsInWindow interval duration phase \<and>
    slotsInWindow interval duration phase \<le> ceilDiv duration interval"
proof -
  have "finite {k. phase + k * interval < duration}"
    using slots_below [of interval phase duration] assms finite_subset by fastforce
  then show ?thesis
    using card_mono [OF _ slots_above [OF assms, of duration]]
      card_mono [OF _ slots_below [of interval phase duration]] assms
    by (auto simp: slotsInWindow_def)
qed

lemma sum_list_bounds:
  "(\<And>x. x \<in> set xs \<Longrightarrow> lo \<le> f x \<and> f x \<le> hi) \<Longrightarrow>
   length xs * lo \<le> (\<Sum>x\<leftarrow>xs. f x) \<and> (\<Sum>x\<leftarrow>xs. f x) \<le> length xs * (hi :: nat)"
  by (induction xs) (fastforce simp: algebra_simps)+

lemma roundedInterval_pos:
  assumes "f_finite x" and "\<not> f_lt x (FFin 1)" and "\<not> f_lt (f_of_u64 (- 1)) x"
  shows "0 < unat (roundedInterval x)"
proof -
  obtain r where x: "x = FFin r" using assms(1) by (cases x) auto
  have "r \<le> rnd64 (of_nat (unat (- 1 :: u64)))" and r1: "1 \<le> r"
    using assms(2, 3) by (simp_all add: x f_of_u64_fin)
  moreover have "(of_nat (unat (- 1 :: u64)) :: rat) \<le> of_nat (2 ^ 64)"
    using unat_u64_less [of "- 1"] by (simp only: of_nat_le_iff less_imp_le)
  then have "rnd64 (of_nat (unat (- 1 :: u64))) \<le> rnd64 (pow2 64)"
    by (intro rnd64_mono) (simp add: pow2_def)
  ultimately have "r \<le> pow2 64" by (simp add: rnd64_pow2)
  then have "f_add x (FFin (1 / 2)) = FFin (rnd64 (r + 1 / 2))"
    using r1 by (simp add: x f_of_rat_small pow2_def)
  moreover have "1 \<le> rnd64 (r + 1 / 2)"
    using rnd64_mono [of 1 "r + 1 / 2"] r1 by simp
  then have "1 \<le> trunc (rnd64 (r + 1 / 2))" by (simp add: trunc_def)
  then have "f_to_u64 (FFin (rnd64 (r + 1 / 2))) \<noteq> 0"
    by (auto simp: word_of_int_eq_0_iff dvd_def)
  ultimately show ?thesis by (simp add: roundedInterval_def unat_gt_0)
qed

lemma u64_of_positive: "0 < n \<Longrightarrow> n \<le> MaxInt64 \<Longrightarrow> unat (u64_of_int n) = nat n"
  by (simp add: unsigned_of_int take_bit_int_eq_self MaxInt64_def)

lemma u64_scaled:
  assumes "\<not> (- 1) div n < w" and "v \<le> w" and "n \<noteq> 0"
  shows "unat (v * n :: u64) = unat v * unat n"
proof -
  have "unat v \<le> unat ((- 1 :: u64) div n)" using assms by (meson linorder_not_less order_trans word_le_nat_alt)
  then have "unat v * unat n \<le> unat (- 1 :: u64) div unat n * unat n" by (simp add: unat_div)
  also have "\<dots> \<le> unat (- 1 :: u64)" by simp
  finally show ?thesis using unat_u64_less [of "- 1"] by (intro unat_u64_mult) linarith
qed

lemma unat_ceil:
  assumes "d < (2 ^ 63 :: u64)"
  shows "unat (if d mod i \<noteq> 0 then d div i + 1 else d div i) = ceilDiv (unat d) (unat i)"
proof -
  have "unat (d div i) \<le> unat d" by (simp add: unat_div)
  moreover have "unat d < 2 ^ 63" using assms by (simp add: word_less_nat_alt)
  ultimately have "unat (d div i + 1) = unat d div unat i + 1"
    by (subst unat_u64_add) (simp_all add: unat_div le_less_trans [OF div_le_dividend])
  moreover have "d mod i = 0 \<longleftrightarrow> unat d mod unat i = 0" by (metis unat_mod unat_eq_zero)
  ultimately show ?thesis by (simp add: ceilDiv_def unat_div)
qed

text \<open>
  C38. The slot range a sender's metrics are checked against covers every sender that is periodic
  with the rounded interval: whatever the phase of each of its streams, the number of slots the
  streams open inside the window lies in the range, neither bound wraps, and the range is no
  wider than one slot per stream.
\<close>

theorem slot_range_covers:
  assumes "expectedSlotRange rateHz duration streams = Inr (lo, hi)"
    and "duration \<le> MaxInt64" and "streams \<le> MaxInt64" and "length phases = nat streams"
    and "interval = unat (roundedInterval (slotInterval rateHz))" and "\<forall>p \<in> set phases. p < interval"
  shows "0 < interval \<and> unat lo \<le> (\<Sum>p\<leftarrow>phases. slotsInWindow interval (nat duration) p) \<and>
    (\<Sum>p\<leftarrow>phases. slotsInWindow interval (nat duration) p) \<le> unat hi \<and> unat hi \<le> unat lo + length phases"
proof -
  let ?i = "roundedInterval (slotInterval rateHz)" and ?d = "u64_of_int duration" and ?n = "u64_of_int streams"
  let ?max = "if ?d mod ?i \<noteq> 0 then ?d div ?i + 1 else ?d div ?i"
  from assms(1) have pos: "0 < duration" "0 < streams"
    and x: "f_finite (slotInterval rateHz)" "\<not> f_lt (slotInterval rateHz) (FFin 1)"
      "\<not> f_lt (f_of_u64 (- 1)) (slotInterval rateHz)"
    and fits: "\<not> (- 1) div ?n < ?max" and lo: "lo = ?d div ?i * ?n" and hi: "hi = ?max * ?n"
    by (auto simp: expectedSlotRange_def Let_def split: if_splits)
  have d: "unat ?d = nat duration" and n: "unat ?n = length phases"
    using u64_of_positive pos assms(2-4) by simp_all
  then have n0: "?n \<noteq> 0" using pos assms(4) by auto
  have d63: "?d < 2 ^ 63" using d assms(2) pos by (simp add: word_less_nat_alt MaxInt64_def)
  have max: "unat ?max = ceilDiv (nat duration) interval"
    using unat_ceil [OF d63, of ?i] d assms(5) by simp
  have "unat (?d div ?i) \<le> unat ?max"
    using max d assms(5) by (simp add: unat_div ceilDiv_def)
  then have "unat lo = nat duration div interval * length phases"
    using u64_scaled [OF fits _ n0, of "?d div ?i"] lo d n assms(5)
    by (simp add: unat_div word_le_nat_alt)
  moreover have "unat hi = ceilDiv (nat duration) interval * length phases"
    using u64_scaled [OF fits order_refl n0] hi n max by simp
  moreover have "0 < interval" using roundedInterval_pos [OF x] assms(5) by simp
  moreover have "length phases * (nat duration div interval) \<le> (\<Sum>p\<leftarrow>phases. slotsInWindow interval (nat duration) p) \<and>
      (\<Sum>p\<leftarrow>phases. slotsInWindow interval (nat duration) p) \<le> length phases * ceilDiv (nat duration) interval"
    using assms(6) slotsInWindow_bounds by (intro sum_list_bounds) blast
  ultimately show ?thesis by (simp add: ceilDiv_def algebra_simps)
qed

lemma slot_range_covers_witness:
  "0 < (33333333 :: nat) \<and> unat (90 :: u64) \<le> (\<Sum>p\<leftarrow>[0, 7, 33333332]. slotsInWindow 33333333 (nat 1000000000) p) \<and>
    (\<Sum>p\<leftarrow>[0, 7, 33333332]. slotsInWindow 33333333 (nat 1000000000) p) \<le> unat (93 :: u64) \<and>
    unat (93 :: u64) \<le> unat (90 :: u64) + length [0 :: nat, 7, 33333332]"
proof (rule slot_range_covers [where streams = 3 and rateHz = "FFin 30"])
  show "expectedSlotRange (FFin 30) 1000000000 3 = Inr (90, 93)" by code_simp
  show "(33333333 :: nat) = unat (roundedInterval (slotInterval (FFin 30)))"
  proof -
    have "roundedInterval (slotInterval (FFin 30)) = 33333333" by code_simp
    then show ?thesis by simp
  qed
qed (simp_all add: MaxInt64_def)

lemma word_of_wrap64: "u64_of_int (wrap64 x) = u64_of_int x"
proof -
  have "((x + 2 ^ 63) mod 2 ^ 64 - 2 ^ 63) mod 2 ^ 64 = x mod (2 ^ 64 :: int)"
    by (simp only: mod_diff_left_eq) simp
  then show ?thesis by (simp only: wrap64_def word_of_int_eq_iff take_bit_eq_mod) simp
qed

text \<open>
  The flows the processes are expected to report add up to the flows the merged metrics are
  checked against: for every kind of scenario and every partition of the connections over the
  clients, the expectations of the clients and of the server sum, in the 64-bit counters the merge
  adds, to the expectation of the merged series.
\<close>

theorem flows_partition:
  assumes "kind = ScenarioAuthoritativeState \<Longrightarrow> direction \<in> {DirectionClientToServer, DirectionServerToClient}"
    and "sum_list conns = totalConns"
  shows "(\<Sum>c\<leftarrow>conns. u64_of_int (expectedLatestFlows kind ''client'' direction c totalConns)) +
      u64_of_int (expectedLatestFlows kind ''server'' direction totalConns totalConns) =
    u64_of_int (expectedLatestFlows kind ''merged'' direction totalConns totalConns)"
proof -
  have sum: "(\<Sum>c\<leftarrow>conns. u64_of_int c) = u64_of_int totalConns"
    unfolding assms(2) [symmetric] by (induction conns) simp_all
  have prod: "(\<Sum>c\<leftarrow>conns. u64_of_int (wrap64 (c * totalConns))) = u64_of_int (wrap64 (totalConns * totalConns))"
    unfolding word_of_wrap64 by (simp add: sum_list_mult_const sum)
  show ?thesis
    using assms(1) sum prod
    by (auto simp: expectedLatestFlows_def scenario_kinds DirectionClientToServer_def DirectionServerToClient_def)
qed

lemma flows_partition_witness:
  "(\<Sum>c\<leftarrow>[2, 0, 3]. u64_of_int (expectedLatestFlows ScenarioAuthoritativeState ''client'' DirectionServerToClient c 5)) +
      u64_of_int (expectedLatestFlows ScenarioAuthoritativeState ''server'' DirectionServerToClient 5 5) =
    u64_of_int (expectedLatestFlows ScenarioAuthoritativeState ''merged'' DirectionServerToClient 5 5)"
  by (rule flows_partition) simp_all

section \<open>What the judge decides\<close>

text \<open>The thresholds a series must meet, and the series an evaluation covers.\<close>

definition atLeast :: "f64 \<Rightarrow> f64 \<Rightarrow> bool" where
  "atLeast value minimum \<longleftrightarrow> (f_lt (FFin 0) minimum \<longrightarrow> \<not> f_lt value minimum)"

definition meetsThresholds :: "trafficSeries \<Rightarrow> TrafficAggregate \<Rightarrow> bool" where
  "meetsThresholds ts a \<longleftrightarrow>
     (tsClass ts = ClassMustDeliver \<longrightarrow> Duplicates (taCounts a) = 0) \<and>
     taDeadlineNS a = sDeadlineNS (MustDeliver (tsSpec ts)) \<and>
     NeverReceivedFlows (taCounts a) = 0 \<and>
     atLeast (taDeliveryRatio a) (MinDeliveryRatio (tsClassSpec ts)) \<and>
     atLeast (taDeliveryRatio a) (MinEventualDeliveryRatio (tsClassSpec ts)) \<and>
     atLeast (taDeadlineHitRatio a) (MinDeadlineHitRatio (tsClassSpec ts)) \<and>
     (StalenessP99NS (tsClassSpec ts) \<noteq> 0 \<longrightarrow> Count (taStalenessNS a) \<noteq> 0 \<and>
        P99NS (taStalenessNS a) \<le> StalenessP99NS (tsClassSpec ts))"

definition seriesPasses :: "MergedMetrics \<Rightarrow> trafficSeries \<Rightarrow> bool" where
  "seriesPasses m ts \<longleftrightarrow> (\<exists>a. TrafficMetric (Some m) (sTrafficID (tsSpec ts)) (tsDirection ts) (tsClass ts) = Some a \<and>
     meetsThresholds ts a)"

definition knownKind :: "string \<Rightarrow> bool" where
  "knownKind kind \<longleftrightarrow> kind \<in> {ScenarioEnvironmentBaseline, ScenarioAuthoritativeState, ScenarioRoomRelay}"

lemma no_causes: "trafficCauses (tsSpec ts) (tsClass ts) (tsClassSpec ts) a = [] \<longleftrightarrow> meetsThresholds ts a"
  unfolding trafficCauses_def meetsThresholds_def atLeast_def by (auto simp: not_less)

lemma evaluated_ok: "teOK (evaluateSeries m ts) \<longleftrightarrow> seriesPasses m ts"
  by (auto simp: evaluateSeries_def Let_def seriesPasses_def no_causes split: option.splits)

lemma joinText_Nil: "joinText sep xs = [] \<longleftrightarrow> xs = [] \<or> xs = [[]] \<or> (sep = [] \<and> (\<forall>x \<in> set xs. x = []))"
  by (induction sep xs rule: joinText.induct) auto

text \<open>
  C39. A scenario is judged to pass exactly when metrics are present, its kind is known, and every
  series with a positive rate has metrics that meet all of its thresholds; the cause is empty
  exactly then, and each evaluated series is marked by its own thresholds.
\<close>

theorem scenario_passes_iff:
  "(seOK (EvaluateScenarioMetrics metrics scenario) \<longleftrightarrow>
      (\<exists>m. metrics = Some m \<and> knownKind (scKind scenario) \<and> list_all (seriesPasses m) (judgedSeries scenario))) \<and>
   (seCause (EvaluateScenarioMetrics metrics scenario) = [] \<longleftrightarrow> seOK (EvaluateScenarioMetrics metrics scenario)) \<and>
   (map teOK (seTraffic (EvaluateScenarioMetrics metrics scenario)) =
      (case metrics of None \<Rightarrow> [] | Some m \<Rightarrow>
        if knownKind (scKind scenario) then map (seriesPasses m) (judgedSeries scenario) else []))"
proof (cases "\<exists>m. metrics = Some m \<and> knownKind (scKind scenario)")
  case True
  then obtain m where m: "metrics = Some m" and k: "knownKind (scKind scenario)" by blast
  have "seriesCause t \<noteq> []" for t by (simp add: seriesCause_def)
  then have "joinText ''; '' (map seriesCause ts) = [] \<longleftrightarrow> ts = []" for ts
    by (auto simp: joinText_Nil)
  then show ?thesis
    using k by (simp add: m EvaluateScenarioMetrics_def Let_def knownKind_def evaluated_ok comp_def
        filter_empty_conv list_all_iff del: joinText.simps)
next
  case False
  then show ?thesis
    by (auto simp: EvaluateScenarioMetrics_def Let_def knownKind_def split: option.splits)
qed

end
