(* ===== verification/Rig.thy ===== *)
theory Rig
  imports GoText
begin

text \<open>
  The description of the machine a benchmark runs on (\<open>orchestrator/rig/rig.go\<close>): the syntax of
  CPU sets and the validation of a layout. A Go set \<open>map[int]bool\<close> is the list of its keys; the
  order in which \<open>Validate\<close> visits the fields, a map in the code, only decides which of several
  errors is reported.
\<close>

section \<open>CPU sets\<close>

datatype rig_error =
    InvalidCPUSet string
  | InField string rig_error
  | NotDisjoint string
  | NotSubset
  | NotAllCPUs
  | NotBenchCPUs
  | GovernorConflict
  | FieldRequired string
  | Endless

text \<open>
  \<open>Endless\<close> is no error of the code: it stands for a call that does not return. The loop over a range
  that ends in the largest \<open>int\<close> is one, because its counter wraps around and stays below the end.
\<close>

definition inField :: "string \<Rightarrow> rig_error \<Rightarrow> rig_error" where
  "inField name e = (if e = Endless then Endless else InField name e)"

text \<open>\<open>strings.Cut\<close> at one character.\<close>

definition cutAt :: "char \<Rightarrow> string \<Rightarrow> string \<times> string \<times> bool" where
  "cutAt c s = (takeWhile (\<lambda>x. x \<noteq> c) s, tl (dropWhile (\<lambda>x. x \<noteq> c) s), c \<in> set s)"

text \<open>The range one part of a set denotes; an empty part is skipped.\<close>

definition parsePart :: "string \<Rightarrow> string \<Rightarrow> rig_error + (int \<times> int) option" where
  "parsePart value part =
     (let part = trimSpace part
      in if part = [] then Inr None
         else case cutAt CHR ''-'' part of (loText, hiText, ranged) \<Rightarrow>
           (case atoi loText of
              None \<Rightarrow> Inl (InvalidCPUSet value)
            | Some lo \<Rightarrow>
                if lo < 0 then Inl (InvalidCPUSet value)
                else if \<not> ranged then Inr (Some (lo, lo))
                else (case atoi hiText of
                    None \<Rightarrow> Inl (InvalidCPUSet value)
                  | Some hi \<Rightarrow> if hi < lo then Inl (InvalidCPUSet value) else Inr (Some (lo, hi)))))"

definition addPart :: "string \<Rightarrow> int list \<Rightarrow> string \<Rightarrow> rig_error + int list" where
  "addPart value seen part =
     rbind (parsePart value part) (\<lambda>range.
       case range of None \<Rightarrow> Inr seen
       | Some (lo, hi) \<Rightarrow> if hi = MaxInt64 then Inl Endless else Inr (foldl (\<lambda>s cpu. List.insert cpu s) seen [lo..hi]))"

definition commas :: "string \<Rightarrow> string" where
  "commas value = map (\<lambda>c. if c = CHR '' '' then CHR '','' else c) value"

definition ParseCPUSet :: "string \<Rightarrow> rig_error + int list" where
  "ParseCPUSet value =
     rbind (foldM (addPart (commas value)) [] (splitAt CHR '','' (commas value))) (\<lambda>seen. Inr (sort seen))"

definition subset_cpus :: "int list \<Rightarrow> int list \<Rightarrow> bool" where
  "subset_cpus a b \<longleftrightarrow> list_all (\<lambda>cpu. cpu \<in> set b) a"

definition sameSet :: "int list \<Rightarrow> int list \<Rightarrow> bool" where
  "sameSet a b \<longleftrightarrow> length a = length b \<and> subset_cpus a b"

definition overlap :: "int list \<Rightarrow> int list \<Rightarrow> bool" where
  "overlap a b \<longleftrightarrow> list_ex (\<lambda>cpu. cpu \<in> set a) b"

definition union_cpus :: "int list \<Rightarrow> int list \<Rightarrow> int list" where
  "union_cpus a b = sort (remdups (a @ b))"

text \<open>Both answer no when a set does not parse, and nothing when the parsing does not return.\<close>

definition parsedCPUs :: "string \<Rightarrow> bool option \<Rightarrow> (int list \<Rightarrow> bool option) \<Rightarrow> bool option" where
  "parsedCPUs value refused k = (case ParseCPUSet value of Inr cpus \<Rightarrow> k cpus
     | Inl e \<Rightarrow> if e = Endless then None else refused)"

definition IsSubset :: "string \<Rightarrow> string \<Rightarrow> bool option" where
  "IsSubset value container =
     parsedCPUs value (Some False) (\<lambda>a. parsedCPUs container (Some False) (\<lambda>b. Some (subset_cpus a b)))"

definition Intersects :: "string \<Rightarrow> string \<Rightarrow> bool option" where
  "Intersects a b =
     parsedCPUs a (Some False) (\<lambda>left. parsedCPUs b (Some False) (\<lambda>right. Some (overlap left right)))"

section \<open>Rigs\<close>

record Rig =
  rigName :: string
  OSCPUs :: string
  BenchCPUs :: string
  ClientCPUs :: string
  ServerCPUs :: string
  InstrumentCPUs :: string
  AllCPUs :: string
  ExpectedClocksource :: string
  RequirePerformanceGovernor :: bool
  ExpectFixedFrequency :: bool
  RequireIsolation :: bool
  MinNoFile :: u64
  MinRmemMax :: u64
  MinWmemMax :: u64

definition cpuField :: "string \<Rightarrow> string \<Rightarrow> rig_error + int list" where
  "cpuField name value =
     (case ParseCPUSet value of
        Inl e \<Rightarrow> Inl (if e = Endless then Endless else InField name (InvalidCPUSet value))
      | Inr cpus \<Rightarrow> if cpus = [] then Inl (InField name (InvalidCPUSet value)) else Inr cpus)"

definition instrumentField :: "Rig \<Rightarrow> rig_error + int list" where
  "instrumentField r = (if InstrumentCPUs r = [] then Inr [] else cpuField ''instrument_cpus'' (InstrumentCPUs r))"

definition checkLayout :: "Rig \<Rightarrow> int list \<Rightarrow> int list \<Rightarrow> int list \<Rightarrow> int list \<Rightarrow> int list \<Rightarrow> int list \<Rightarrow> rig_error + unit" where
  "checkLayout r os bench client server instrument allCPUs =
     (if overlap client server then Inl (NotDisjoint ''client_cpus server_cpus'')
      else if overlap instrument client \<or> overlap instrument server then Inl (NotDisjoint ''instrument_cpus'')
      else if \<not> subset_cpus client bench \<or> \<not> subset_cpus server bench then Inl NotSubset
      else if \<not> sameSet (union_cpus os bench) allCPUs then Inl NotAllCPUs
      else if \<not> sameSet (union_cpus (union_cpus client server) instrument) bench then Inl NotBenchCPUs
      else if RequirePerformanceGovernor r \<and> ExpectFixedFrequency r then Inl GovernorConflict
      else Inr ())"

definition Validate :: "Rig \<Rightarrow> rig_error + unit" where
  "Validate r =
     rbind (cpuField ''os_cpus'' (OSCPUs r)) (\<lambda>os.
     rbind (cpuField ''bench_cpus'' (BenchCPUs r)) (\<lambda>bench.
     rbind (cpuField ''client_cpus'' (ClientCPUs r)) (\<lambda>client.
     rbind (cpuField ''server_cpus'' (ServerCPUs r)) (\<lambda>server.
     rbind (cpuField ''all_cpus'' (AllCPUs r)) (\<lambda>allCPUs.
     if overlap os bench then Inl (NotDisjoint ''os_cpus bench_cpus'')
     else rbind (instrumentField r) (\<lambda>instrument.
       checkLayout r os bench client server instrument allCPUs))))))"

text \<open>The checks \<open>Load\<close> makes on the decoded object.\<close>

definition checkLoaded :: "string \<Rightarrow> Rig \<Rightarrow> rig_error + unit" where
  "checkLoaded path r =
     rbind (checkM (\<lambda>(name, v). fail_if (v = []) (InField path (FieldRequired name)))
       [(''name'', rigName r), (''os_cpus'', OSCPUs r), (''bench_cpus'', BenchCPUs r),
        (''client_cpus'', ClientCPUs r), (''server_cpus'', ServerCPUs r), (''all_cpus'', AllCPUs r)]) (\<lambda>_.
     wrap_err (inField path) (Validate r))"

section \<open>Parsing\<close>

lemma set_insert_all: "set (foldl (\<lambda>s cpu. List.insert cpu s) seen cpus) = set seen \<union> set cpus"
  by (induction cpus arbitrary: seen) auto

lemma distinct_insert_all: "distinct seen \<Longrightarrow> distinct (foldl (\<lambda>s cpu. List.insert cpu s) seen cpus)"
  by (induction cpus arbitrary: seen) auto

lemma addPart_Inr:
  assumes "addPart value seen part = Inr seen'" and "distinct seen" and "\<forall>c \<in> set seen. 0 \<le> c"
  shows "distinct seen' \<and> (\<forall>c \<in> set seen'. 0 \<le> c)"
proof -
  obtain range where p: "parsePart value part = Inr range"
    and s: "(case range of None \<Rightarrow> Inr seen | Some (lo, hi) \<Rightarrow>
      if hi = MaxInt64 then Inl Endless else Inr (foldl (\<lambda>s cpu. List.insert cpu s) seen [lo..hi])) = Inr seen'"
    using assms(1) by (auto simp: addPart_def rbind_eq_Inr_iff)
  show ?thesis
  proof (cases range)
    case None
    then show ?thesis using s assms by simp
  next
    case (Some r)
    obtain lo hi where r: "r = (lo, hi)" by (cases r)
    have "0 \<le> lo" using p by (auto simp: parsePart_def Let_def Some r split: option.splits if_splits prod.splits)
    then show ?thesis using s assms(2,3) by (auto simp: Some r set_insert_all distinct_insert_all split: if_splits)
  qed
qed

lemma parsed_sorted:
  assumes "ParseCPUSet value = Inr cpus"
  shows "sorted cpus \<and> distinct cpus \<and> (\<forall>c \<in> set cpus. 0 \<le> c)"
proof -
  obtain seen where f: "foldM (addPart (commas value)) [] (splitAt CHR '','' (commas value)) = Inr seen"
    and cpus: "cpus = sort seen"
    using assms by (auto simp: ParseCPUSet_def rbind_eq_Inr_iff)
  have "distinct seen \<and> (\<forall>c \<in> set seen. 0 \<le> c)"
    by (rule foldM_invariant [OF f, where P = "\<lambda>s. distinct s \<and> (\<forall>c \<in> set s. 0 \<le> c)"])
      (auto dest: addPart_Inr)
  then show ?thesis by (simp add: cpus)
qed

text \<open>The text of a list of ranges.\<close>

definition rangeText :: "int \<times> int \<Rightarrow> string" where
  "rangeText = (\<lambda>(lo, hi). if lo = hi then itoa lo else itoa lo @ CHR ''-'' # itoa hi)"

definition goodRange :: "int \<times> int \<Rightarrow> bool" where
  "goodRange = (\<lambda>(lo, hi). 0 \<le> lo \<and> lo \<le> hi \<and> in_i64 hi)"

definition cpusOf :: "(int \<times> int) list \<Rightarrow> int set" where
  "cpusOf rs = (\<Union>(lo, hi) \<in> set rs. {lo..hi})"

lemma itoa_nonneg_chars: "0 \<le> i \<Longrightarrow> c \<in> set (itoa i) \<Longrightarrow> digitValue c \<noteq> None"
  using itoaNat_digits by (auto simp: itoa_def)

lemma itoa_neq_Nil [simp]: "itoa i \<noteq> []"
  by (simp add: itoa_def)

lemma rangeText_chars:
  assumes "goodRange r" and "c \<in> set (rangeText r)"
  shows "c = CHR ''-'' \<or> digitValue c \<noteq> None"
proof -
  obtain lo hi where "r = (lo, hi)" by (cases r)
  then show ?thesis
    using assms itoa_nonneg_chars [of lo c] itoa_nonneg_chars [of hi c]
    by (auto simp: rangeText_def goodRange_def split: if_splits)
qed

lemma digit_not_space: "digitValue c \<noteq> None \<Longrightarrow> \<not> isSpace c"
  by (auto simp: digitValue_def isSpace_def Let_def split: if_splits)

lemma dash_not_space [simp]: "\<not> isSpace CHR ''-''"
  by (simp add: isSpace_def)

lemma itoa_no_dash: "0 \<le> i \<Longrightarrow> CHR ''-'' \<notin> set (itoa i)"
  using itoa_nonneg_chars [of i "CHR ''-''"] by auto

lemma cut_plain: "c \<notin> set s \<Longrightarrow> cutAt c s = (s, [], False)"
  by (induction s) (auto simp: cutAt_def)

lemma cut_sep: "c \<notin> set s \<Longrightarrow> cutAt c (s @ c # t) = (s, t, True)"
  by (induction s) (auto simp: cutAt_def)

lemma parsePart_rangeText: "goodRange r \<Longrightarrow> parsePart value (rangeText r) = Inr (Some r)"
proof -
  assume g: "goodRange r"
  obtain lo hi where r: "r = (lo, hi)" by (cases r)
  have b: "0 \<le> lo" "lo \<le> hi" "in_i64 hi" "in_i64 lo" using g by (auto simp: goodRange_def r in_i64_def MinInt64_def)
  have "\<not> isSpace c" if "c \<in> set (rangeText r)" for c
    using rangeText_chars [OF g that] digit_not_space [of c] by auto
  then have "trimSpace (rangeText r) = rangeText r"
    by (rule trimSpace_plain)
  moreover have "rangeText r \<noteq> []" by (simp add: rangeText_def r)
  ultimately show ?thesis
    using b itoa_no_dash [of lo] itoa_no_dash [of hi] by (simp add: parsePart_def Let_def rangeText_def r atoi_itoa cut_plain cut_sep)
qed

text \<open>A range up to the largest \<open>int\<close>.\<close>

definition endlessRange :: "int \<times> int \<Rightarrow> bool" where
  "endlessRange r \<longleftrightarrow> snd r = MaxInt64"

lemma addPart_range:
  "goodRange r \<Longrightarrow> addPart value seen (rangeText r) =
    (if endlessRange r then Inl Endless else Inr (foldl (\<lambda>s cpu. List.insert cpu s) seen [fst r..snd r]))"
  by (simp add: addPart_def parsePart_rangeText endlessRange_def split: prod.split)

lemma parse_ranges:
  assumes "\<forall>r \<in> set rs. goodRange r" and "\<not> list_ex endlessRange rs"
  shows "\<exists>seen'. foldM (addPart value) seen (map rangeText rs) = Inr seen' \<and> set seen' = set seen \<union> cpusOf rs"
  using assms
proof (induction rs arbitrary: seen)
  case (Cons r rs)
  then show ?case
    using Cons.IH [of "foldl (\<lambda>s cpu. List.insert cpu s) seen [fst r..snd r]"]
    by (auto simp: addPart_range set_insert_all cpusOf_def)
qed (simp add: cpusOf_def)

lemma endless_ranges:
  assumes "\<forall>r \<in> set rs. goodRange r" and "list_ex endlessRange rs"
  shows "foldM (addPart value) seen (map rangeText rs) = Inl Endless"
  using assms by (induction rs arbitrary: seen) (auto simp: addPart_range)

lemma range_no_sep: "goodRange r \<Longrightarrow> CHR '','' \<notin> set (rangeText r) \<and> CHR '' '' \<notin> set (rangeText r)"
  using rangeText_chars [of r "CHR '',''"] rangeText_chars [of r "CHR '' ''"] by (auto simp: digitValue_def)

lemma joinText_chars: "c \<in> set (joinText sep ss) \<Longrightarrow> c \<in> set sep \<or> (\<exists>s \<in> set ss. c \<in> set s)"
  by (induction sep ss rule: joinText.induct) auto

lemma commas_plain: "CHR '' '' \<notin> set s \<Longrightarrow> commas s = s"
  unfolding commas_def by (rule map_idI) auto

lemma split_ranges:
  assumes "\<forall>r \<in> set rs. goodRange r" and "rs \<noteq> []"
  shows "splitAt CHR '','' (commas (joinText '','' (map rangeText rs))) = map rangeText rs"
proof -
  have "CHR '' '' \<notin> set (joinText '','' (map rangeText rs))"
    using joinText_chars [of "CHR '' ''" "'',''" "map rangeText rs"] range_no_sep assms by auto
  moreover have "splitAt CHR '','' (joinText '','' (map rangeText rs)) = map rangeText rs"
    using range_no_sep assms by (intro splitAt_join) auto
  ultimately show ?thesis by (simp add: commas_plain)
qed

text \<open>
  C33. Parsing a CPU set: the comma-separated text of any list of ranges parses to the sorted list,
  without repetition, of the CPUs in their union; overlapping and repeated ranges are merged. A list
  with a range that ends in the largest integer is the only exception: on it the call never returns.
\<close>

theorem cpu_set_round_trip:
  assumes "\<forall>r \<in> set rs. goodRange r"
  shows "ParseCPUSet (joinText '','' (map rangeText rs)) =
    (if list_ex endlessRange rs then Inl Endless else Inr (sorted_list_of_set (cpusOf rs)))"
proof (cases "rs = []")
  case True
  then show ?thesis by (simp add: ParseCPUSet_def commas_def addPart_def parsePart_def trimSpace_def cpusOf_def)
next
  case False
  define s where "s = joinText '','' (map rangeText rs)"
  note split = split_ranges [OF assms False, folded s_def]
  show ?thesis
  proof (cases "list_ex endlessRange rs")
    case True
    then show ?thesis using endless_ranges [OF assms] by (simp add: ParseCPUSet_def split flip: s_def)
  next
    case ends: False
    obtain seen where f: "foldM (addPart (commas s)) [] (map rangeText rs) = Inr seen" and seen: "set seen = cpusOf rs"
      using parse_ranges [OF assms ends, of "commas s" "[]"] by auto
    have p: "ParseCPUSet s = Inr (sort seen)" by (simp add: ParseCPUSet_def split f)
    then have "distinct (sort seen)" using parsed_sorted by blast
    then have "sort seen = sorted_list_of_set (set seen)"
      by (simp add: sorted_list_of_set_sort_remdups distinct_remdups_id)
    then show ?thesis using p ends by (simp add: seen flip: s_def)
  qed
qed

lemma cpu_set_round_trip_witness:
  "ParseCPUSet (joinText '','' (map rangeText [(8, 15), (2, 2), (10, 17)])) = Inr (sorted_list_of_set (cpusOf [(8, 15), (2, 2), (10, 17)]))"
  using cpu_set_round_trip [of "[(8, 15), (2, 2), (10, 17)]"]
  by (simp add: goodRange_def in_i64_def MinInt64_def MaxInt64_def endlessRange_def)

section \<open>Validation\<close>

lemma union_cpus_simps [simp]: "set (union_cpus a b) = set a \<union> set b" "distinct (union_cpus a b)"
  by (simp_all add: union_cpus_def)

lemma sameSet_iff: "distinct a \<Longrightarrow> distinct b \<Longrightarrow> sameSet a b \<longleftrightarrow> set a = set b"
proof
  assume "distinct a" "distinct b" "sameSet a b"
  then have "card (set a) = card (set b)" and "set a \<subseteq> set b"
    by (auto simp: sameSet_def subset_cpus_def list_all_iff distinct_card)
  then show "set a = set b" by (simp add: card_subset_eq)
next
  assume "distinct a" "distinct b" "set a = set b"
  then have "length a = length b" by (metis distinct_card)
  then show "sameSet a b" using \<open>set a = set b\<close> by (simp add: sameSet_def subset_cpus_def list_all_iff)
qed

lemma overlap_iff: "overlap a b \<longleftrightarrow> set a \<inter> set b \<noteq> {}"
  by (auto simp: overlap_def list_ex_iff)

lemma subset_iff: "subset_cpus a b \<longleftrightarrow> set a \<subseteq> set b"
  by (auto simp: subset_cpus_def list_all_iff)

lemma mset_parts:
  assumes "distinct a" and "distinct b" and "distinct c"
  shows "mset a + mset b = mset c \<longleftrightarrow> set a \<inter> set b = {} \<and> set a \<union> set b = set c"
proof
  assume "mset a + mset b = mset c"
  then have m: "mset (a @ b) = mset c" by simp
  show "set a \<inter> set b = {} \<and> set a \<union> set b = set c"
    using mset_eq_imp_distinct_iff [OF m] mset_eq_setD [OF m] assms(3) by auto
next
  assume "set a \<inter> set b = {} \<and> set a \<union> set b = set c"
  then have "distinct (a @ b)" and "set (a @ b) = set c" using assms by auto
  then have "mset (a @ b) = mset c" using assms(3) by (simp only: set_eq_iff_mset_eq_distinct)
  then show "mset a + mset b = mset c" by simp
qed

lemma cpuField_distinct: "cpuField name value = Inr cpus \<Longrightarrow> distinct cpus"
  using parsed_sorted by (auto simp: cpuField_def split: sum.splits if_splits)

lemma instrumentField_distinct: "instrumentField r = Inr cpus \<Longrightarrow> distinct cpus"
  using cpuField_distinct by (auto simp: instrumentField_def split: if_splits)

text \<open>The layout the parsed sets have to form.\<close>

definition partition :: "int list \<Rightarrow> int list \<Rightarrow> int list \<Rightarrow> int list \<Rightarrow> int list \<Rightarrow> int list \<Rightarrow> bool" where
  "partition os bench client server instrument allCPUs \<longleftrightarrow>
     mset os + mset bench = mset allCPUs \<and> mset client + mset server + mset instrument = mset bench"

lemma checkLayout_iff:
  assumes "distinct os" "distinct bench" "distinct client" "distinct server" "distinct instrument" "distinct allCPUs"
  shows "\<not> overlap os bench \<and> checkLayout r os bench client server instrument allCPUs = Inr () \<longleftrightarrow>
    partition os bench client server instrument allCPUs \<and> \<not> (RequirePerformanceGovernor r \<and> ExpectFixedFrequency r)"
proof -
  have cs: "mset client + mset server + mset instrument = mset bench \<longleftrightarrow>
      set client \<inter> set server = {} \<and> (set client \<union> set server) \<inter> set instrument = {} \<and>
      set client \<union> set server \<union> set instrument = set bench"
  proof (cases "set client \<inter> set server = {}")
    case True
    then have "distinct (client @ server)" using assms by auto
    then show ?thesis using mset_parts [of "client @ server" instrument bench] assms True by simp
  next
    case False
    have "\<not> distinct (client @ server @ instrument)" using False by auto
    then have "mset (client @ server @ instrument) \<noteq> mset bench"
      using assms(2) mset_eq_imp_distinct_iff by blast
    then show ?thesis using False by (auto simp: add.assoc)
  qed
  show ?thesis
    unfolding partition_def cs mset_parts [OF assms(1,2,6)] checkLayout_def overlap_iff subset_iff
      sameSet_iff [OF union_cpus_simps(2) assms(6)] sameSet_iff [OF union_cpus_simps(2) assms(2)] union_cpus_simps(1)
    by auto
qed

text \<open>
  C34. What a validated rig is: \<open>Validate\<close> accepts exactly the rigs whose fields parse to
  non-empty CPU sets (the instrument set may be absent) such that every CPU of the machine belongs
  to the operating system or to the benchmark, every CPU of the benchmark to the client, the server
  or the instruments, and none to two of them; and that do not both require a governor and declare
  a fixed frequency.
\<close>

theorem valid_rig_is_a_partition:
  "Validate r = Inr () \<longleftrightarrow>
    (\<exists>os bench client server instrument allCPUs.
       cpuField ''os_cpus'' (OSCPUs r) = Inr os \<and> cpuField ''bench_cpus'' (BenchCPUs r) = Inr bench \<and>
       cpuField ''client_cpus'' (ClientCPUs r) = Inr client \<and> cpuField ''server_cpus'' (ServerCPUs r) = Inr server \<and>
       cpuField ''all_cpus'' (AllCPUs r) = Inr allCPUs \<and> instrumentField r = Inr instrument \<and>
       mset os + mset bench = mset allCPUs \<and> mset client + mset server + mset instrument = mset bench) \<and>
    \<not> (RequirePerformanceGovernor r \<and> ExpectFixedFrequency r)"
  (is "?valid \<longleftrightarrow> ?parts \<and> ?flags")
proof
  assume ?valid
  then obtain os bench client server instrument allCPUs where p:
    "cpuField ''os_cpus'' (OSCPUs r) = Inr os" "cpuField ''bench_cpus'' (BenchCPUs r) = Inr bench"
    "cpuField ''client_cpus'' (ClientCPUs r) = Inr client" "cpuField ''server_cpus'' (ServerCPUs r) = Inr server"
    "cpuField ''all_cpus'' (AllCPUs r) = Inr allCPUs" "instrumentField r = Inr instrument"
    and v: "\<not> overlap os bench \<and> checkLayout r os bench client server instrument allCPUs = Inr ()"
    by (auto simp: Validate_def rbind_eq_Inr_iff split: if_splits)
  then show "?parts \<and> ?flags"
    using checkLayout_iff [of os bench client server instrument allCPUs r] cpuField_distinct instrumentField_distinct
    unfolding partition_def by blast
next
  assume "?parts \<and> ?flags"
  then obtain os bench client server instrument allCPUs where p:
    "cpuField ''os_cpus'' (OSCPUs r) = Inr os" "cpuField ''bench_cpus'' (BenchCPUs r) = Inr bench"
    "cpuField ''client_cpus'' (ClientCPUs r) = Inr client" "cpuField ''server_cpus'' (ServerCPUs r) = Inr server"
    "cpuField ''all_cpus'' (AllCPUs r) = Inr allCPUs" "instrumentField r = Inr instrument"
    and v: "partition os bench client server instrument allCPUs" and ?flags
    unfolding partition_def by blast
  then have "\<not> overlap os bench \<and> checkLayout r os bench client server instrument allCPUs = Inr ()"
    using checkLayout_iff [of os bench client server instrument allCPUs r] cpuField_distinct instrumentField_distinct
    by blast
  then show ?valid using p by (simp add: Validate_def)
qed

text \<open>The description of the repository's own machine, \<open>rigs/home.json\<close>.\<close>

definition homeRig :: Rig where
  "homeRig = \<lparr>rigName = ''home-5750ge'', OSCPUs = ''0-2,8-10'', BenchCPUs = ''3-7,11-15'',
     ClientCPUs = ''3,4,5,6,11,12,13,14'', ServerCPUs = ''7,15'', InstrumentCPUs = [], AllCPUs = ''0-15'',
     ExpectedClocksource = ''tsc'', RequirePerformanceGovernor = True, ExpectFixedFrequency = False,
     RequireIsolation = True, MinNoFile = 65535, MinRmemMax = 0, MinWmemMax = 0\<rparr>"

lemma homeRig_valid: "checkLoaded ''home.json'' homeRig = Inr ()"
  by code_simp

end
