(* ===== verification/Config.thy ===== *)
theory Config
  imports ScenarioMetrics Rig "HOL-Library.Signed_Division"
begin

text \<open>
  The configuration of a run (\<open>orchestrator/run/config.go\<close>, \<open>preset.go\<close>, \<open>netem_schedule.go\<close>): the
  connection levels of a ramp, the expansion of a preset, a scenario or a workload, the defaults, the
  validation, the split of the connections over the client processes and the command templates.
  Decoding the file is in \<open>ConfigJson\<close>. The errors \<open>joinErrors\<close> renders are kept as a list; where the code ranges
  over a map the list follows the literal, whose order only decides the order of the errors.
  Durations are \<open>int64\<close> nanoseconds, so the model's integers stay in that range where a check keeps them.
\<close>

section \<open>The configuration\<close>

record CommandConfig =
  Path :: string
  CmdArgs :: "string list"
  Env :: "string list"
  Dir :: string

record RampConfig =
  StartConns :: int
  StepConns :: int
  Guard :: int
  Sample :: int
  rDrain :: int

record NetemStep =
  At :: int
  stepServerEgress :: Netem
  stepClientEgress :: Netem

record RunConfig =
  cTransport :: string
  cClassMappingSHA256 :: string
  cWorkload :: string
  cPreset :: string
  cScenario :: "ScenarioSpec option"
  cServerCommand :: CommandConfig
  cClientCommand :: CommandConfig
  cClientProcs :: int
  cTotalConns :: int
  cRamp :: "RampConfig option"
  cWarmup :: int
  cSteadyWarmup :: bool
  cSteadyMinWarmup :: int
  cDuration :: int
  cDrain :: int
  cDeadlineNS :: u64
  cStalenessPeriodNS :: u64
  cNetem :: "NetemRegime option"
  cNetemGateOff :: bool
  cNetemSchedule :: "NetemStep list"
  cServerCPUs :: string
  cClientCPUs :: string
  cSchedIsMeasurand :: bool
  cOutputDir :: string
  cAttemptedThreshold :: f64
  cControlTimeout :: int
  cSamplerInterval :: int
  cProcessExitTimeout :: int

datatype config_error =
    RampConnRange
  | RampPhaseDuration
  | RampDurationOverflows
  | UnknownPreset string
  | PresetPins string string
  | PresetCPUBudget string nat string
  | ScenarioAndWorkload
  | BadScenario scenario_error
  | ArgConflict string string
  | UnknownWorkload string
  | BadTransport
  | FieldRequired string
  | NotPositive string int
  | RampRequires string
  | RampStartRange int
  | RampTooManyConns int
  | NegativeTime string
  | DeadlineOutOfRange u64
  | DrainTooShort int u64
  | RampDurationDiffers int int
  | TooShortForSlot string int string string
  | ThresholdOutside f64
  | NetemMTUOutside
  | SeedWithoutLoss string
  | MixedLoss string
  | ScheduleRequires string
  | ScheduleUnordered
  | ScheduleSeed nat string
  | ScheduleStep nat string netem_error
  | ServerCPUsEndless

text \<open>\<open>ServerCPUsEndless\<close> stands for a call that does not return (\<open>Endless\<close> in \<open>Rig\<close>).\<close>

text \<open>\<open>joinErrors\<close>: no error when the list is empty.\<close>

definition joinErrors :: "'e list \<Rightarrow> 'e list + unit" where
  "joinErrors errs = (if errs = [] then Inr () else Inl errs)"

section \<open>The levels of a ramp\<close>

definition levels :: "RampConfig \<Rightarrow> int \<Rightarrow> config_error + int" where
  "levels r totalConns =
     (if StartConns r \<le> 0 \<or> totalConns < StartConns r \<or> StepConns r \<le> 0 then Inl RampConnRange
      else
        let remaining = totalConns - StartConns r;
            n = 1 + remaining sdiv StepConns r
        in Inr (if remaining smod StepConns r \<noteq> 0 then n + 1 else n))"

definition rampDuration :: "RampConfig \<Rightarrow> int \<Rightarrow> config_error + int" where
  "rampDuration r totalConns =
     rbind (levels r totalConns) (\<lambda>n.
     if Guard r < 0 \<or> Sample r \<le> 0 \<or> rDrain r < 0 \<or> MaxInt64 - Sample r < Guard r then Inl RampPhaseDuration
     else
       let phase = Guard r + Sample r
       in if MaxInt64 - rDrain r < phase then Inl RampPhaseDuration
          else
            let phase = phase + rDrain r
            in if MaxInt64 sdiv phase < n then Inl RampDurationOverflows else Inr (n * phase))"

text \<open>A step of zero, which no valid configuration has, makes the division panic: \<open>None\<close>.\<close>

definition activeConns :: "RampConfig \<Rightarrow> int \<Rightarrow> int \<Rightarrow> int option" where
  "activeConns r index totalConns =
     (if index \<le> 0 then Some (StartConns r)
      else if StepConns r = 0 then None
      else
        let remaining = totalConns - StartConns r
        in if remaining sdiv StepConns r < index then Some totalConns
           else Some (StartConns r + index * StepConns r))"

section \<open>The pair of a regime\<close>

definition orDefault :: "string \<Rightarrow> string \<Rightarrow> string" where
  "orDefault value fallback = (if value \<noteq> [] then value else fallback)"

text \<open>\<open>exe\<close> is what \<open>os.Executable\<close> returns.\<close>

definition pairSpec :: "string option \<Rightarrow> NetemRegime \<Rightarrow> PairSpec" where
  "pairSpec exe n =
     (let spec = DefaultPair (nrPrefix n);
          spec = spec\<lparr>ServerNS := orDefault (nrServerNS n) (ServerNS spec),
            ClientNS := orDefault (nrClientNS n) (ClientNS spec),
            ServerVeth := orDefault (nrServerVeth n) (ServerVeth spec),
            ClientVeth := orDefault (nrClientVeth n) (ClientVeth spec),
            ServerAddrCIDR := orDefault (nrServerAddrCIDR n) (ServerAddrCIDR spec),
            ClientAddrCIDR := orDefault (nrClientAddrCIDR n) (ClientAddrCIDR spec),
            LinkMTUBytes := (if nrLinkMTUBytes n \<noteq> 0 then nrLinkMTUBytes n else LinkMTUBytes spec),
            ServerEgress := nrServerEgress n, ClientEgress := nrClientEgress n,
            DisableOffloads := nrDisableOffloads n\<rparr>
      in if LossSeed (nrServerEgress n) \<noteq> 0 \<or> LossSeed (nrClientEgress n) \<noteq> 0
         then (case exe of None \<Rightarrow> spec | Some path \<Rightarrow> spec\<lparr>SelfExe := path\<rparr>)
         else spec)"

definition configuredLoss :: "NetemRegime option \<Rightarrow> bool" where
  "configuredLoss netem \<longleftrightarrow> (case netem of None \<Rightarrow> False
     | Some n \<Rightarrow> f_lt (FFin 0) (LossPercent (nrServerEgress n)) \<or> f_lt (FFin 0) (LossPercent (nrClientEgress n)))"

definition deterministicLoss :: "NetemRegime option \<Rightarrow> bool" where
  "deterministicLoss netem \<longleftrightarrow> (case netem of None \<Rightarrow> False
     | Some n \<Rightarrow> (f_lt (FFin 0) (LossPercent (nrServerEgress n)) \<and> LossSeed (nrServerEgress n) \<noteq> 0) \<or>
         (f_lt (FFin 0) (LossPercent (nrClientEgress n)) \<and> LossSeed (nrClientEgress n) \<noteq> 0))"

section \<open>Splitting the connections\<close>

text \<open>\<open>procs\<close> is positive here: \<open>make\<close> and the division panic otherwise.\<close>

definition splitConns :: "int \<Rightarrow> int \<Rightarrow> int list" where
  "splitConns n procs =
     (let base = n sdiv procs; rem = n smod procs
      in map (\<lambda>i. if i < rem then base + 1 else base) [0..procs - 1])"

text \<open>The range of origin identifiers every client process gets, in the order they are started.\<close>

fun originRanges :: "int \<Rightarrow> int list \<Rightarrow> (int \<times> int) list" where
  "originRanges originStart [] = []"
| "originRanges originStart (conns # rest) =
     (originStart, originStart + conns) # originRanges (originStart + conns) rest"

section \<open>Command templates\<close>

record templateVars =
  vTransport :: string
  vProcIndex :: int
  vConns :: int
  vOriginIDStart :: int
  vOriginIDEnd :: int
  vTotalConns :: int

definition templateValues :: "templateVars \<Rightarrow> (string \<times> string) list" where
  "templateValues vars =
     [(''transport'', vTransport vars), (''proc_index'', itoa (vProcIndex vars)), (''conns'', itoa (vConns vars)),
      (''origin_id_start'', itoa (vOriginIDStart vars)), (''origin_id_end'', itoa (vOriginIDEnd vars)),
      (''origin_start'', itoa (vOriginIDStart vars)), (''origin_end'', itoa (vOriginIDEnd vars)),
      (''origin_id_range'', itoa (vOriginIDStart vars) @ '':'' @ itoa (vOriginIDEnd vars)),
      (''total_conns'', itoa (vTotalConns vars))]"

definition templateReplacements :: "templateVars \<Rightarrow> (string \<times> string) list" where
  "templateReplacements vars =
     concat (map (\<lambda>(key, value). [(''{{'' @ key @ ''}}'', value), (''{'' @ key @ ''}'', value)]) (templateValues vars))"

text \<open>
  \<open>strings.NewReplacer\<close>: at each position the first replacement whose key starts there, without
  overlap. The fuel is the length of the text.
\<close>

fun replaceFrom :: "nat \<Rightarrow> (string \<times> string) list \<Rightarrow> string \<Rightarrow> string" where
  "replaceFrom 0 rs s = s"
| "replaceFrom (Suc n) rs [] = []"
| "replaceFrom (Suc n) rs (c # cs) =
     (case List.find (\<lambda>(key, value). hasPrefix (c # cs) key) rs of
        None \<Rightarrow> c # replaceFrom n rs cs
      | Some (key, value) \<Rightarrow> value @ replaceFrom n rs (drop (length key) (c # cs)))"

definition expandTemplate :: "string \<Rightarrow> templateVars \<Rightarrow> string" where
  "expandTemplate s vars = replaceFrom (length s) (templateReplacements vars) s"

definition expandCommandTemplate :: "CommandConfig \<Rightarrow> templateVars \<Rightarrow> CommandConfig" where
  "expandCommandTemplate cmd vars =
     \<lparr>Path = expandTemplate (Path cmd) vars, CmdArgs = map (\<lambda>a. expandTemplate a vars) (CmdArgs cmd),
      Env = map (\<lambda>e. expandTemplate e vars) (Env cmd), Dir = expandTemplate (Dir cmd) vars\<rparr>"

text \<open>The processes \<open>Run\<close> starts for the clients: index, connections, origins and command.\<close>

record clientLaunch =
  clProcIndex :: int
  clConns :: int
  clOriginIDStart :: int
  clOriginIDEnd :: int
  clCommand :: CommandConfig

definition clientLaunches :: "RunConfig \<Rightarrow> clientLaunch list" where
  "clientLaunches cfg =
     (let connSplit = splitConns (cTotalConns cfg) (cClientProcs cfg)
      in map (\<lambda>(i, conns, originStart, originEnd).
           \<lparr>clProcIndex = int i, clConns = conns, clOriginIDStart = originStart, clOriginIDEnd = originEnd,
            clCommand = expandCommandTemplate (cClientCommand cfg)
              \<lparr>vTransport = cTransport cfg, vProcIndex = int i, vConns = conns, vOriginIDStart = originStart,
               vOriginIDEnd = originEnd, vTotalConns = cTotalConns cfg\<rparr>\<rparr>)
         (enumerate 0 (zip connSplit (originRanges 0 connSplit))))"

definition serverCommand :: "RunConfig \<Rightarrow> CommandConfig" where
  "serverCommand cfg = expandCommandTemplate (cServerCommand cfg)
     \<lparr>vTransport = cTransport cfg, vProcIndex = -1, vConns = 0, vOriginIDStart = 0, vOriginIDEnd = 0,
      vTotalConns = cTotalConns cfg\<rparr>"

section \<open>Reference presets\<close>

record ReferencePreset =
  rpName :: string
  rpScenario :: ScenarioSpec
  rpClientEgress :: Netem
  rpServerEgress :: Netem
  rpLinkMTUBytes :: int
  rpDisableOffloads :: bool
  rpWarmup :: int
  rpDuration :: int
  rpDrain :: int
  rpStalenessPeriodNS :: u64
  ServerVCPUs :: nat

definition defaultStalenessPeriodNS :: u64 where "defaultStalenessPeriodNS = 10000000"

definition presetRegime :: "ReferencePreset \<Rightarrow> NetemRegime" where
  "presetRegime p = \<lparr>nrPrefix = [], nrServerNS = [], nrClientNS = [], nrServerVeth = [], nrClientVeth = [],
     nrServerAddrCIDR = [], nrClientAddrCIDR = [], nrLinkMTUBytes = rpLinkMTUBytes p,
     nrDisableOffloads = rpDisableOffloads p, nrServerEgress = rpServerEgress p, nrClientEgress = rpClientEgress p\<rparr>"

definition refLT :: "f64 \<Rightarrow> int \<Rightarrow> TrafficClassSpec" where
  "refLT rateHz payloadBytes = zeroClassSpec\<lparr>RateHz := rateHz, PayloadBytes := payloadBytes,
     StalenessP99NS := 300000000, MinDeliveryRatio := f_of_rat (95 / 100)\<rparr>"

definition refMD :: TrafficClassSpec where
  "refMD = zeroClassSpec\<lparr>RateHz := FFin 10, PayloadBytes := 64, sDeadlineNS := 200000000,
     MinDeadlineHitRatio := f_of_rat (95 / 100), MinEventualDeliveryRatio := FFin 1\<rparr>"

definition refRegimes :: "(string \<times> Netem) list" where
  "refRegimes = [(''lan'', zeroNetem\<lparr>DelayMS := 1\<rparr>), (''wan'', zeroNetem\<lparr>DelayMS := 25, LossPercent := FFin 1\<rparr>)]"

definition referencePreset :: "string \<Rightarrow> ScenarioSpec \<Rightarrow> Netem \<Rightarrow> ReferencePreset" where
  "referencePreset name scenario egress =
     \<lparr>rpName = name, rpScenario = scenario\<lparr>ScenarioName := name\<rparr>, rpClientEgress = egress, rpServerEgress = egress,
      rpLinkMTUBytes = 1500, rpDisableOffloads = True, rpWarmup = 25 * second, rpDuration = 60 * second, rpDrain = 5 * second,
      rpStalenessPeriodNS = defaultStalenessPeriodNS, ServerVCPUs = 2\<rparr>"

definition authPreset :: "string \<Rightarrow> Netem \<Rightarrow> int \<Rightarrow> ReferencePreset" where
  "authPreset regime egress statePayload =
     referencePreset (''ref-auth-'' @ regime @ ''-s'' @ itoa statePayload @ ''-v1'')
       \<lparr>ScenarioName = [], scKind = ScenarioAuthoritativeState,
        ClientInput = Some \<lparr>sTrafficID = 1, LossTolerant = refLT (FFin 30) 64, MustDeliver = refMD\<rparr>,
        ServerState = Some \<lparr>sTrafficID = 2, LossTolerant = refLT (FFin 20) statePayload, MustDeliver = refMD\<rparr>,
        RoomPublish = None\<rparr> egress"

definition roomPreset :: "string \<Rightarrow> Netem \<Rightarrow> ReferencePreset" where
  "roomPreset regime egress =
     referencePreset (''ref-room-'' @ regime @ ''-v1'')
       \<lparr>ScenarioName = [], scKind = ScenarioRoomRelay, ClientInput = None, ServerState = None,
        RoomPublish = Some \<lparr>sTrafficID = 3, LossTolerant = refLT (FFin 20) 128, MustDeliver = refMD\<rparr>\<rparr> egress"

definition referencePresets :: "ReferencePreset list" where
  "referencePresets = concat (map (\<lambda>(regime, egress).
     map (authPreset regime egress) [1000, 4000] @ [roomPreset regime egress]) refRegimes)"

definition LookupReferencePreset :: "string \<Rightarrow> ReferencePreset option" where
  "LookupReferencePreset name = List.find (\<lambda>p. rpName p = name) referencePresets"

definition ReferencePresetNames :: "string list" where
  "ReferencePresetNames = sort (map rpName referencePresets)"

text \<open>What a preset fixes, with whether the configuration sets it too.\<close>

definition overridden :: "RunConfig \<Rightarrow> (string \<times> bool) list" where
  "overridden cfg =
     [(''scenario'', cScenario cfg \<noteq> None), (''workload'', cWorkload cfg \<noteq> []), (''netem'', cNetem cfg \<noteq> None),
      (''warmup'', cWarmup cfg \<noteq> 0), (''duration'', cDuration cfg \<noteq> 0), (''drain'', cDrain cfg \<noteq> 0),
      (''staleness_period_ns'', cStalenessPeriodNS cfg \<noteq> 0), (''steady_warmup'', cSteadyWarmup cfg), (''ramp'', cRamp cfg \<noteq> None)]"

definition applyPreset :: "RunConfig \<Rightarrow> config_error + RunConfig" where
  "applyPreset cfg =
     (if cPreset cfg = [] then Inr cfg
      else case LookupReferencePreset (cPreset cfg) of
        None \<Rightarrow> Inl (UnknownPreset (cPreset cfg))
      | Some preset \<Rightarrow>
          rbind (checkM (\<lambda>(field, set). fail_if set (PresetPins (cPreset cfg) field)) (overridden cfg)) (\<lambda>_.
          rbind (let refused = PresetCPUBudget (cPreset cfg) (ServerVCPUs preset) (cServerCPUs cfg)
              in case ParseCPUSet (cServerCPUs cfg) of Inl e \<Rightarrow> Inl (if e = Endless then ServerCPUsEndless else refused)
              | Inr cpus \<Rightarrow> fail_if (length cpus \<noteq> ServerVCPUs preset) refused) (\<lambda>_.
          Inr (cfg\<lparr>cScenario := Some (rpScenario preset), cNetem := Some (presetRegime preset),
            cWarmup := rpWarmup preset, cSteadyWarmup := True, cDuration := rpDuration preset,
            cDrain := rpDrain preset, cStalenessPeriodNS := rpStalenessPeriodNS preset\<rparr>))))"

section \<open>Expansion of the scenario and the workload\<close>

definition scenarioConflict :: "string \<Rightarrow> bool" where
  "scenarioConflict arg \<longleftrightarrow> hasPrefix arg ''--scenario'' \<or> hasPrefix arg ''--input-'' \<or> hasPrefix arg ''--state-'' \<or>
     hasPrefix arg ''--publish-'' \<or> arg = ''--staleness-period-ns''"

definition refuseArgs :: "(string \<Rightarrow> bool) \<Rightarrow> string \<Rightarrow> CommandConfig \<Rightarrow> config_error + unit" where
  "refuseArgs conflicts name cmd = checkM (\<lambda>arg. fail_if (conflicts arg) (ArgConflict name arg)) (CmdArgs cmd)"

definition applyScenario :: "RunConfig \<Rightarrow> config_error + RunConfig" where
  "applyScenario cfg =
     (case cScenario cfg of None \<Rightarrow> Inr cfg
      | Some scenario \<Rightarrow>
          if cWorkload cfg \<noteq> [] then Inl ScenarioAndWorkload
          else rbind (wrap_err BadScenario (ValidateScenario scenario)) (\<lambda>_.
            let period = (if cStalenessPeriodNS cfg = 0 then defaultStalenessPeriodNS else cStalenessPeriodNS cfg);
                args = CommonArgs scenario (cTotalConns cfg) @
                  (if 0 < period then [''--staleness-period-ns'', itoaU period] else [])
            in rbind (refuseArgs scenarioConflict (ScenarioName scenario) (cServerCommand cfg)) (\<lambda>_.
               rbind (refuseArgs scenarioConflict (ScenarioName scenario) (cClientCommand cfg)) (\<lambda>_.
               Inr (cfg\<lparr>cStalenessPeriodNS := period,
                 cServerCommand := (cServerCommand cfg)\<lparr>CmdArgs := CmdArgs (cServerCommand cfg) @ args\<rparr>,
                 cClientCommand := (cClientCommand cfg)\<lparr>CmdArgs := CmdArgs (cClientCommand cfg) @ args\<rparr>,
                 cDuration := (if cDuration cfg = 0 then autoDurationScenario scenario (cTotalConns cfg) (cNetem cfg)
                   else cDuration cfg)\<rparr>)))))"

definition workloadConflict :: "string \<Rightarrow> bool" where
  "workloadConflict arg \<longleftrightarrow> hasPrefix arg ''--rate-'' \<or> hasPrefix arg ''--payload'' \<or> hasPrefix arg ''--broadcast-''"

definition applyWorkload :: "RunConfig \<Rightarrow> config_error + RunConfig" where
  "applyWorkload cfg =
     (if cWorkload cfg = [] then Inr cfg
      else case LookupWorkload (cWorkload cfg) of
        None \<Rightarrow> Inl (UnknownWorkload (cWorkload cfg))
      | Some w \<Rightarrow>
          rbind (refuseArgs workloadConflict (cWorkload cfg) (cClientCommand cfg)) (\<lambda>_.
          Inr (cfg\<lparr>cClientCommand := (cClientCommand cfg)\<lparr>CmdArgs := CmdArgs (cClientCommand cfg) @ ClientArgs w\<rparr>,
            cDuration := (if cDuration cfg = 0 then autoDuration w (cTotalConns cfg) (cNetem cfg) else cDuration cfg)\<rparr>)))"

section \<open>Defaults\<close>

definition runDefaults :: "RunConfig \<Rightarrow> RunConfig" where
  "runDefaults cfg =
     (let cfg = (case cRamp cfg of None \<Rightarrow> cfg
            | Some r \<Rightarrow> (case rampDuration r (cTotalConns cfg) of Inl _ \<Rightarrow> cfg | Inr d \<Rightarrow> cfg\<lparr>cDuration := d\<rparr>));
          cfg = (if f_eq (cAttemptedThreshold cfg) (FFin 0) then cfg\<lparr>cAttemptedThreshold := f_of_rat (99 / 100)\<rparr> else cfg);
          cfg = (if 0 < cTotalConns cfg \<and> cTotalConns cfg < cClientProcs cfg then cfg\<lparr>cClientProcs := cTotalConns cfg\<rparr> else cfg);
          cfg = (if cControlTimeout cfg = 0 then cfg\<lparr>cControlTimeout := 30 * second\<rparr> else cfg)
      in if cProcessExitTimeout cfg = 0 then cfg\<lparr>cProcessExitTimeout := 5 * second\<rparr> else cfg)"

section \<open>Validation\<close>

definition stepCommands :: "PairSpec \<Rightarrow> NetemStep \<Rightarrow> (string \<times> netem_error) + Command list" where
  "stepCommands pair step =
     rbind (wrap_err (Pair ''server_egress'') (Args (stepServerEgress step))) (\<lambda>serverArgs.
     rbind (wrap_err (Pair ''client_egress'') (Args (stepClientEgress step))) (\<lambda>clientArgs.
     Inr [command ''tc'' ([''-n'', ServerNS pair, ''qdisc'', ''replace'', ''dev'', ServerVeth pair, ''root'', ''netem''] @ serverArgs),
          command ''tc'' ([''-n'', ClientNS pair, ''qdisc'', ''replace'', ''dev'', ClientVeth pair, ''root'', ''netem''] @ clientArgs)]))"

definition stepErrors :: "nat \<Rightarrow> NetemStep \<Rightarrow> config_error list" where
  "stepErrors i step =
     concat (map (\<lambda>(name, egress). if LossSeed egress \<noteq> 0 then [ScheduleSeed i name] else [])
       [(''server_egress'', stepServerEgress step), (''client_egress'', stepClientEgress step)]) @
     (case stepCommands (DefaultPair []) step of Inl (name, e) \<Rightarrow> [ScheduleStep i name e] | Inr _ \<Rightarrow> [])"

definition validateNetemSchedule :: "RunConfig \<Rightarrow> config_error list" where
  "validateNetemSchedule cfg =
     (if cNetemSchedule cfg = [] then []
      else
        (if cNetem cfg = None then [ScheduleRequires ''netem''] else []) @
        (if cSteadyWarmup cfg then [ScheduleRequires ''fixed warmup''] else []) @
        (if configuredLoss (cNetem cfg) then [ScheduleRequires ''loss-free base regime''] else []) @
        concat (map (\<lambda>(i, step).
          (if 0 < i \<and> At step < At (cNetemSchedule cfg ! (i - 1)) then [ScheduleUnordered] else []) @ stepErrors i step)
          (enumerate 0 (cNetemSchedule cfg))))"

definition scenarioMaxMustDeliverDeadlineNS :: "ScenarioSpec \<Rightarrow> u64" where
  "scenarioMaxMustDeliverDeadlineNS s =
     foldl (\<lambda>top c. case mcSpec c of None \<Rightarrow> top
       | Some spec \<Rightarrow> if f_le (RateHz (MustDeliver spec)) (FFin 0) then top
           else if top < sDeadlineNS (MustDeliver spec) then sDeadlineNS (MustDeliver spec) else top) 0 (scenarioMetricCases s)"

definition tooShort :: "string \<Rightarrow> int \<Rightarrow> ScenarioSpec \<Rightarrow> config_error list" where
  "tooShort field duration s =
     concat (map (\<lambda>ts. case expectedSlotRange (RateHz (tsClassSpec ts)) duration 1 of
         Inl _ \<Rightarrow> [TooShortForSlot field duration (tsName ts) (tsClass ts)]
       | Inr (minSlots, _) \<Rightarrow> if minSlots = 0 then [TooShortForSlot field duration (tsName ts) (tsClass ts)] else [])
       (enabledSeries s))"

definition rampErrors :: "RunConfig \<Rightarrow> RampConfig \<Rightarrow> config_error list" where
  "rampErrors cfg r =
     (if cClientProcs cfg \<noteq> 1 then [RampRequires ''client_procs=1''] else []) @
     (if cScenario cfg = None then [RampRequires ''scenario SLOs''] else []) @
     (if cSteadyWarmup cfg then [RampRequires ''no steady_warmup''] else []) @
     (if StartConns r \<le> 0 \<or> cTotalConns cfg < StartConns r then [RampStartRange (StartConns r)] else []) @
     (if StepConns r \<le> 0 then [NotPositive ''ramp.step_conns'' (StepConns r)] else []) @
     (if 999999 < cTotalConns cfg then [RampTooManyConns (cTotalConns cfg)] else []) @
     (if Guard r < 0 then [NegativeTime ''ramp.guard''] else []) @
     (if Sample r \<le> 0 then [NotPositive ''ramp.sample'' (Sample r)] else []) @
     (if rDrain r < 0 then [NegativeTime ''ramp.drain''] else []) @
     (case cScenario cfg of None \<Rightarrow> []
      | Some s \<Rightarrow>
          let deadline = scenarioMaxMustDeliverDeadlineNS s
          in if MaxInt64 < uint deadline then [DeadlineOutOfRange deadline]
             else if rDrain r < uint deadline then [DrainTooShort (rDrain r) deadline] else []) @
     (case rampDuration r (cTotalConns cfg) of Inl e \<Rightarrow> [e]
      | Inr d \<Rightarrow> if cDuration cfg \<noteq> d then [RampDurationDiffers (cDuration cfg) d] else []) @
     (case cScenario cfg of None \<Rightarrow> [] | Some s \<Rightarrow> if 0 < Sample r then tooShort ''ramp.sample'' (Sample r) s else [])"

definition netemErrors :: "NetemRegime \<Rightarrow> config_error list" where
  "netemErrors n =
     concat (map (\<lambda>(name, egress).
       (if LossSeed egress \<noteq> 0 \<and> f_le (LossPercent egress) (FFin 0) then [SeedWithoutLoss name] else []) @
       (if deterministicLoss (Some n) \<and> f_lt (FFin 0) (LossPercent egress) \<and> LossSeed egress = 0 then [MixedLoss name] else []))
       [(''server_egress'', nrServerEgress n), (''client_egress'', nrClientEgress n)])"

definition validateRunConfig :: "RunConfig \<Rightarrow> config_error list + unit" where
  "validateRunConfig cfg = joinErrors (
     (if \<not> IsSafeName (cTransport cfg) then [BadTransport] else []) @
     (if Path (cServerCommand cfg) = [] then [FieldRequired ''server_command.path''] else []) @
     (if Path (cClientCommand cfg) = [] then [FieldRequired ''client_command.path''] else []) @
     (if cClientProcs cfg \<le> 0 then [NotPositive ''client_procs'' (cClientProcs cfg)] else []) @
     (if cTotalConns cfg \<le> 0 then [NotPositive ''total_conns'' (cTotalConns cfg)] else []) @
     (case cRamp cfg of None \<Rightarrow> [] | Some r \<Rightarrow> rampErrors cfg r) @
     (if cDuration cfg < 0 \<or> cWarmup cfg < 0 \<or> cDrain cfg < 0 then [NegativeTime ''warmup, duration, and drain''] else []) @
     (case cScenario cfg of None \<Rightarrow> [] | Some s \<Rightarrow> tooShort ''duration'' (cDuration cfg) s) @
     (if cOutputDir cfg = [] then [FieldRequired ''output_dir''] else []) @
     (if f_lt (cAttemptedThreshold cfg) (FFin 0) \<or> f_lt (FFin 1) (cAttemptedThreshold cfg)
      then [ThresholdOutside (cAttemptedThreshold cfg)] else []) @
     (case cNetem cfg of None \<Rightarrow> []
      | Some n \<Rightarrow> (if nrLinkMTUBytes n < 0 \<or> 65535 < nrLinkMTUBytes n then [NetemMTUOutside] else []) @ netemErrors n) @
     validateNetemSchedule cfg @
     (if cControlTimeout cfg < 0 \<or> cSamplerInterval cfg < 0 \<or> cProcessExitTimeout cfg < 0
      then [NegativeTime ''timeouts and sampler_interval''] else []))"

definition Prepare :: "RunConfig \<Rightarrow> config_error list + RunConfig" where
  "Prepare cfg =
     rbind (wrap_err (\<lambda>e. [e]) (applyPreset cfg)) (\<lambda>cfg.
     rbind (wrap_err (\<lambda>e. [e]) (applyScenario cfg)) (\<lambda>cfg.
     rbind (wrap_err (\<lambda>e. [e]) (applyWorkload cfg)) (\<lambda>cfg.
     let cfg = runDefaults cfg in rbind (validateRunConfig cfg) (\<lambda>_. Inr cfg))))"

end
