(* ===== verification/Ramp.thy ===== *)
theory Ramp
  imports Qdisc Config
begin

text \<open>
  The capacity ramp (\<open>orchestrator/run/ramp.go\<close>): locating the snapshot an endpoint publishes for a
  phase, judging a pair of snapshots, the score as the first level that breaks, and the watcher that
  stops the endpoints. The file system is a parameter: what \<open>os.ReadDir\<close> lists for a directory (name
  and whether it is a directory) and what reading an artifact yields. A base path is its directory and
  file name.
\<close>

section \<open>Snapshots\<close>

record snapshotFiles =
  readDir :: "string \<Rightarrow> (string \<times> bool) list option"
  readArtifact :: "string \<Rightarrow> MetricsArtifactData option"

type_synonym basePath = "string \<times> string"

record rampSnapshot =
  rsIndex :: int
  rsActiveConns :: int
  rsPath :: string

record rampTrafficBreak =
  brName :: string
  brClass :: string
  brCause :: string

record RampPoint =
  ptIndex :: int
  ActiveConns :: int
  Evaluation :: ScenarioEvaluation

record RampResult =
  Timeline :: "RampPoint list"
  ScoreConns :: int
  Censored :: bool
  rrCause :: string

datatype ramp_error =
    NoRampConfig
  | ReadDirFailed string
  | SnapshotName string
  | SnapshotPending string int
  | DuplicateSnapshot int "string list"
  | ActiveConnsDiffer int int int
  | OfEndpoint string ramp_error
  | ReadFailed string
  | RampMetrics metrics_error
  | RampMetricsVersion int
  | RampContract string string contract_error
  | RampDeadline string string u64 u64
  | TooManySlots string string u64 u64
  | RampFlows string string u64 int
  | TooManySamples string string u64 u64
  | RampKind string
  | RampLevels config_error
  | InPhase int ramp_error
  | ClientBases nat
  | RampPanics

text \<open>\<open>%06d\<close> of a phase index, which is not negative.\<close>

definition sixDigits :: "int \<Rightarrow> string" where
  "sixDigits i = replicate (6 - length (itoa i)) CHR ''0'' @ itoa i"

text \<open>The pattern \<open>^c([0-9]{6})\.json$\<close> and its group as a number.\<close>

definition rampActiveSuffix :: "string \<Rightarrow> int option" where
  "rampActiveSuffix s =
     (if length s = 12 \<and> hd s = CHR ''c'' \<and> drop 7 s = ''.json'' \<and> list_all isDigit (take 6 (tl s))
      then map_option int (parseDigits (take 6 (tl s))) else None)"

definition joinPath :: "string \<Rightarrow> string \<Rightarrow> string" where
  "joinPath dir name = dir @ ''/'' @ name"

definition snapshotEntry :: "string \<Rightarrow> string \<Rightarrow> int \<Rightarrow> rampSnapshot list \<Rightarrow> string \<times> bool \<Rightarrow> ramp_error + rampSnapshot list" where
  "snapshotEntry dir pre index found entry =
     (case entry of (name, isDir) \<Rightarrow>
        if isDir \<or> \<not> hasPrefix name pre then Inr found
        else case rampActiveSuffix (drop (length pre) name) of
            None \<Rightarrow> Inl (SnapshotName (joinPath dir name))
          | Some active \<Rightarrow> Inr (found @ [\<lparr>rsIndex = index, rsActiveConns = active, rsPath = joinPath dir name\<rparr>]))"

definition locateRampSnapshot :: "snapshotFiles \<Rightarrow> basePath \<Rightarrow> int \<Rightarrow> int \<Rightarrow> ramp_error + rampSnapshot" where
  "locateRampSnapshot fs basePath index wantActive =
     (case basePath of (dir, file) \<Rightarrow>
        case readDir fs dir of None \<Rightarrow> Inl (ReadDirFailed dir)
        | Some entries \<Rightarrow>
            rbind (foldM (snapshotEntry dir (file @ ''.ramp-'' @ sixDigits index @ ''-'') index) [] entries) (\<lambda>found.
            if length found = 0 then Inl (SnapshotPending (joinPath dir file) index)
            else if length found \<noteq> 1 then Inl (DuplicateSnapshot index (map rsPath found))
            else if rsActiveConns (found ! 0) \<noteq> wantActive
              then Inl (ActiveConnsDiffer index (rsActiveConns (found ! 0)) wantActive)
            else Inr (found ! 0)))"

section \<open>Judging a phase\<close>

definition assessSeries :: "MergedMetrics \<Rightarrow> RunConfig \<Rightarrow> int \<Rightarrow> string \<Rightarrow> int \<Rightarrow> trafficSeries \<Rightarrow> ramp_error + rampTrafficBreak list" where
  "assessSeries metrics cfg sample kind active ts =
     (let brk = (\<lambda>cause. \<lparr>brName = tsName ts, brClass = tsClass ts, brCause = cause\<rparr>)
      in case TrafficMetric (Some metrics) (sTrafficID (tsSpec ts)) (tsDirection ts) (tsClass ts) of
        None \<Rightarrow> Inr [brk ''metrics missing'']
      | Some metric \<Rightarrow>
          rbind (fail_if (taDeadlineNS metric \<noteq> sDeadlineNS (MustDeliver (tsSpec ts)))
            (RampDeadline (tsName ts) (tsClass ts) (taDeadlineNS metric) (sDeadlineNS (MustDeliver (tsSpec ts))))) (\<lambda>_.
          rbind (wrap_err (RampContract (tsName ts) (tsClass ts))
            (expectedSlotRange (RateHz (tsClassSpec ts)) sample active)) (\<lambda>(minSlots, maxSlots).
          rbind (fail_if (maxSlots < Slots (taCounts metric))
            (TooManySlots (tsName ts) (tsClass ts) (Slots (taCounts metric)) maxSlots)) (\<lambda>_.
          let breaks =
            (if Slots (taCounts metric) < minSlots
             then [brk (''slots='' @ itoaU (Slots (taCounts metric)) @ '' below expected minimum '' @ itoaU minSlots)] else []) @
            (if f_lt (taAttemptedRatio metric) (cAttemptedThreshold cfg)
             then [brk (''attempted='' @ formatFixed 6 (taAttemptedRatio metric) @ '' below '' @ formatFixed 6 (cAttemptedThreshold cfg))]
             else [])
          in if tsClass ts \<noteq> ClassLossTolerant then Inr breaks
             else
               let expectedFlows = expectedLatestFlows kind ''merged'' (tsDirection ts) active active;
                   samples = Count (taStalenessNS metric)
               in rbind (fail_if (ExpectedFlows (taCounts metric) \<noteq> u64_of_int expectedFlows)
                    (RampFlows (tsName ts) (tsClass ts) (ExpectedFlows (taCounts metric)) expectedFlows)) (\<lambda>_.
                  rbind (wrap_err (RampContract (tsName ts) (tsClass ts))
                    (expectedStalenessSampleRange sample (cStalenessPeriodNS cfg) expectedFlows)) (\<lambda>(minSamples, maxSamples).
                  rbind (fail_if (maxSamples < samples) (TooManySamples (tsName ts) (tsClass ts) samples maxSamples)) (\<lambda>_.
                  Inr (breaks @ (if samples < minSamples
                    then [brk (''staleness samples='' @ itoaU samples @ '' below expected minimum '' @ itoaU minSamples)]
                    else [])))))))))"

definition assessRampTraffic :: "MergedMetrics \<Rightarrow> RunConfig \<Rightarrow> int \<Rightarrow> ramp_error + rampTrafficBreak list" where
  "assessRampTraffic metrics cfg active =
     (case (cRamp cfg, cScenario cfg) of
        (Some ramp, Some scenario) \<Rightarrow>
          rbind (mapM (assessSeries metrics cfg (Sample ramp) (scKind scenario) active) (enabledSeries scenario)) (\<lambda>breaks.
          Inr (concat breaks))
      | _ \<Rightarrow> Inl NoRampConfig)"

definition rebuildScenarioEvaluationCause :: "ScenarioEvaluation \<Rightarrow> ScenarioEvaluation" where
  "rebuildScenarioEvaluationCause e =
     (let causes = map seriesCause (filter (\<lambda>t. \<not> teOK t) (seTraffic e))
      in e\<lparr>seOK := (causes = []), seCause := joinText ''; '' causes\<rparr>)"

definition breakTraffic :: "rampTrafficBreak \<Rightarrow> TrafficEvaluation \<Rightarrow> TrafficEvaluation" where
  "breakTraffic failure t = t\<lparr>teOK := False,
     teCause := (if teCause t = [] then brCause failure
       else if \<not> containsText (teCause t) (brCause failure) then teCause t @ ''; '' @ brCause failure
       else teCause t)\<rparr>"

text \<open>The first series of the failure's name and class is marked.\<close>

fun breakFirst :: "rampTrafficBreak \<Rightarrow> TrafficEvaluation list \<Rightarrow> TrafficEvaluation list" where
  "breakFirst failure [] = []"
| "breakFirst failure (t # ts) =
     (if teName t \<noteq> brName failure \<or> teClass t \<noteq> brClass failure then t # breakFirst failure ts
      else breakTraffic failure t # ts)"

definition addRampTrafficBreak :: "ScenarioEvaluation \<Rightarrow> rampTrafficBreak \<Rightarrow> ScenarioEvaluation" where
  "addRampTrafficBreak e failure =
     rebuildScenarioEvaluationCause (e\<lparr>seTraffic := breakFirst failure (seTraffic e)\<rparr>)"

text \<open>Reading an artifact and the files a phase merges.\<close>

definition readSnapshot :: "snapshotFiles \<Rightarrow> string \<Rightarrow> ramp_error + MetricsArtifactData" where
  "readSnapshot fs path = (case readArtifact fs path of None \<Rightarrow> Inl (ReadFailed path) | Some a \<Rightarrow> Inr a)"

definition mergeInputs :: "snapshotFiles \<Rightarrow> string \<Rightarrow> string \<Rightarrow> string \<Rightarrow> ramp_error + MetricsArtifactData list" where
  "mergeInputs fs kind serverPath clientPath =
     (if kind = ScenarioAuthoritativeState then mapM (readSnapshot fs) [serverPath, clientPath]
      else if kind = ScenarioRoomRelay \<or> kind = ScenarioEnvironmentBaseline then
        rbind (readSnapshot fs serverPath) (\<lambda>server.
        rbind (wrap_err RampMetrics (parseMetricsArtifact True server)) (\<lambda>_.
        mapM (readSnapshot fs) [clientPath]))
      else Inl (RampKind kind))"

definition phaseMetrics :: "snapshotFiles \<Rightarrow> RunConfig \<Rightarrow> int \<Rightarrow> basePath \<Rightarrow> basePath \<Rightarrow> ramp_error + int \<times> MergedMetrics" where
  "phaseMetrics fs cfg index serverBase clientBase =
     (case (cRamp cfg, cScenario cfg) of
        (Some ramp, Some scenario) \<Rightarrow>
          (case activeConns ramp index (cTotalConns cfg) of None \<Rightarrow> Inl RampPanics
           | Some wantActive \<Rightarrow>
              rbind (wrap_err (OfEndpoint ''server'') (locateRampSnapshot fs serverBase index wantActive)) (\<lambda>server.
              rbind (wrap_err (OfEndpoint ''client'') (locateRampSnapshot fs clientBase index wantActive)) (\<lambda>client.
              rbind (mergeInputs fs (scKind scenario) (rsPath server) (rsPath client)) (\<lambda>artifacts.
              rbind (wrap_err RampMetrics
                (MergeMetricsData artifactName (parseMetricsArtifact False) artifacts wantActive)) (\<lambda>metrics.
              rbind (fail_if (mmVersion metrics \<noteq> 2) (RampMetricsVersion (mmVersion metrics))) (\<lambda>_.
              rbind (wrap_err RampMetrics (ValidateMergedMetricsConsistency (Some metrics))) (\<lambda>_.
              Inr (wantActive, metrics))))))))
      | _ \<Rightarrow> Inl NoRampConfig)"

definition judgePhase :: "RunConfig \<Rightarrow> ScenarioSpec \<Rightarrow> int \<Rightarrow> int \<Rightarrow> MergedMetrics \<Rightarrow> ramp_error + RampPoint" where
  "judgePhase cfg scenario index wantActive metrics =
     rbind (assessRampTraffic metrics cfg wantActive) (\<lambda>breaks.
     Inr \<lparr>ptIndex = index, ActiveConns = wantActive,
       Evaluation = foldl addRampTrafficBreak (EvaluateScenarioMetrics (Some metrics) scenario) breaks\<rparr>)"

definition evaluateRampPhase :: "snapshotFiles \<Rightarrow> RunConfig \<Rightarrow> basePath \<Rightarrow> basePath \<Rightarrow> int \<Rightarrow> ramp_error + RampPoint" where
  "evaluateRampPhase fs cfg serverBase clientBase index =
     (case cScenario cfg of None \<Rightarrow> Inl NoRampConfig
      | Some scenario \<Rightarrow>
          rbind (phaseMetrics fs cfg index serverBase clientBase) (\<lambda>(wantActive, metrics).
          judgePhase cfg scenario index wantActive metrics))"

section \<open>The score\<close>

text \<open>The loop over the levels that are left; a point that fails ends it.\<close>

fun scoreFrom :: "(int \<Rightarrow> ramp_error + RampPoint) \<Rightarrow> nat \<Rightarrow> int \<Rightarrow> RampPoint list \<Rightarrow> ramp_error + RampPoint list \<times> RampPoint option" where
  "scoreFrom phase 0 index timeline = Inr (timeline, None)"
| "scoreFrom phase (Suc n) index timeline =
     rbind (wrap_err (InPhase index) (phase index)) (\<lambda>point.
     if \<not> seOK (Evaluation point) then Inr (timeline @ [point], Some point)
     else scoreFrom phase n (index + 1) (timeline @ [point]))"

definition rampResult :: "int \<Rightarrow> RampPoint list \<times> RampPoint option \<Rightarrow> RampResult" where
  "rampResult totalConns r = (case r of
     (timeline, Some point) \<Rightarrow> \<lparr>Timeline = timeline, ScoreConns = ActiveConns point, Censored = False,
        rrCause = seCause (Evaluation point)\<rparr>
   | (timeline, None) \<Rightarrow> \<lparr>Timeline = timeline, ScoreConns = 0, Censored = True,
        rrCause = ''no SLO violation through '' @ itoa totalConns @ '' connections''\<rparr>)"

definition scoreRampSnapshots :: "snapshotFiles \<Rightarrow> RunConfig \<Rightarrow> basePath \<Rightarrow> basePath list \<Rightarrow> ramp_error + RampResult" where
  "scoreRampSnapshots fs cfg serverBase clientBases =
     (case (cRamp cfg, cScenario cfg) of
        (Some ramp, Some _) \<Rightarrow>
          if length clientBases \<noteq> 1 then Inl (ClientBases (length clientBases))
          else
            rbind (wrap_err RampLevels (levels ramp (cTotalConns cfg))) (\<lambda>n.
            rbind (scoreFrom (evaluateRampPhase fs cfg serverBase (clientBases ! 0)) (nat n) 0 []) (\<lambda>r.
            Inr (rampResult (cTotalConns cfg) r)))
      | _ \<Rightarrow> Inl NoRampConfig)"

section \<open>The watcher\<close>

text \<open>
  The watcher evaluates the next phase again and again; every attempt sees the files as they are
  then, so the attempts are a list of file systems, which ends when the run is cancelled. The result
  is the point it stops the endpoints with.
\<close>

fun watchFrom :: "(snapshotFiles \<Rightarrow> int \<Rightarrow> ramp_error + RampPoint) \<Rightarrow> int \<Rightarrow> int \<Rightarrow> snapshotFiles list \<Rightarrow> RampPoint option" where
  "watchFrom phase n index [] = None"
| "watchFrom phase n index (fs # later) =
     (if n \<le> index then None
      else case phase fs index of
          Inr point \<Rightarrow> if \<not> seOK (Evaluation point) then Some point else watchFrom phase n (index + 1) later
        | Inl _ \<Rightarrow> watchFrom phase n index later)"

definition rampStopContents :: "RampPoint \<Rightarrow> string" where
  "rampStopContents point =
     ''phase='' @ itoa (ptIndex point) @ [newline] @ ''active_conns='' @ itoa (ActiveConns point) @ [newline] @
     ''cause='' @ seCause (Evaluation point) @ [newline]"

definition watchRampSnapshots :: "RunConfig \<Rightarrow> basePath \<Rightarrow> basePath list \<Rightarrow> string \<Rightarrow> snapshotFiles list \<Rightarrow>
    ramp_error + RampPoint option" where
  "watchRampSnapshots cfg serverBase clientBases stopPath attempts =
     (case cRamp cfg of None \<Rightarrow> Inl NoRampConfig
      | Some ramp \<Rightarrow>
          if length clientBases \<noteq> 1 \<or> stopPath = [] then Inl (ClientBases (length clientBases))
          else
            rbind (wrap_err RampLevels (levels ramp (cTotalConns cfg))) (\<lambda>n.
            Inr (watchFrom (\<lambda>fs. evaluateRampPhase fs cfg serverBase (clientBases ! 0)) n 0 attempts)))"

end
