(* ===== verification/ConfigProperties.thy ===== *)
theory ConfigProperties
  imports Config
begin

text \<open>
  What the configuration of a run guarantees: the levels of a ramp, the partition of the connections
  over the client processes, and the conditions a reference preset fixes.
\<close>

lemma sdiv_nonneg: "0 \<le> a \<Longrightarrow> 0 < b \<Longrightarrow> (a :: int) sdiv b = a div b"
  by (auto simp: signed_divide_int_def sgn_if)

lemma smod_nonneg: "0 \<le> a \<Longrightarrow> 0 < b \<Longrightarrow> (a :: int) smod b = a mod b"
  by (auto simp: signed_modulo_int_def sgn_if)

lemmas go_division = sdiv_nonneg smod_nonneg

section \<open>The levels of a ramp\<close>

lemma levels_ok:
  assumes "levels r n = Inr k"
  shows "0 < StartConns r \<and> StartConns r \<le> n \<and> 0 < StepConns r \<and>
    k = (if (n - StartConns r) mod StepConns r \<noteq> 0 then (n - StartConns r) div StepConns r + 2
         else (n - StartConns r) div StepConns r + 1)"
  using assms by (auto simp: levels_def Let_def go_division split: if_splits)

lemma int_div_less: "0 < b \<Longrightarrow> (a :: int) div b < i \<longleftrightarrow> a < i * b"
proof -
  assume b: "0 < b"
  have a: "a = a div b * b + a mod b" and m: "0 \<le> a mod b" "a mod b < b" using b by simp_all
  show ?thesis
  proof
    assume "a div b < i"
    then have "(a div b + 1) * b \<le> i * b" using b by (intro mult_right_mono) simp_all
    moreover have "(a div b + 1) * b = a div b * b + b" by (simp add: distrib_right)
    ultimately show "a < i * b" using a m(2) by linarith
  next
    assume "a < i * b"
    then have "a div b * b < i * b" using a m(1) by linarith
    then show "a div b < i" using b by simp
  qed
qed

text \<open>The connections of a level: a step more per level, up to the ceiling.\<close>

lemma activeConns_min:
  assumes "levels r n = Inr k" and "0 \<le> i"
  shows "activeConns r i n = Some (min n (StartConns r + i * StepConns r))"
proof -
  from levels_ok [OF assms(1)] have p: "0 < StartConns r" "StartConns r \<le> n" "0 < StepConns r" by auto
  let ?q = "(n - StartConns r) div StepConns r"
  have "?q < i \<longleftrightarrow> n - StartConns r < i * StepConns r"
    using p(3) by (rule int_div_less)
  then show ?thesis using p assms(2) by (auto simp: activeConns_def Let_def go_division min_def)
qed

lemma levels_reach:
  assumes "levels r n = Inr k"
  shows "n - StartConns r \<le> (k - 1) * StepConns r \<and> (k - 2) * StepConns r < n - StartConns r \<or> k = 1 \<and> n = StartConns r"
proof -
  from levels_ok [OF assms] have p: "StartConns r \<le> n" "0 < StepConns r" and
    k: "k = (if (n - StartConns r) mod StepConns r \<noteq> 0 then (n - StartConns r) div StepConns r + 2
         else (n - StartConns r) div StepConns r + 1)" by auto
  have "n - StartConns r < (k - 1) * StepConns r + 1 \<and> (k - 2) * StepConns r < n - StartConns r \<or> k = 1"
  proof (cases "(n - StartConns r) mod StepConns r = 0")
    case True
    then have "n - StartConns r = (k - 1) * StepConns r" using k by (auto simp: mod_eq_0_iff_dvd)
    then show ?thesis using p by (simp add: algebra_simps)
  next
    case False
    then have "(k - 2) * StepConns r = (n - StartConns r) div StepConns r * StepConns r" using k by simp
    moreover have "(n - StartConns r) div StepConns r * StepConns r + (n - StartConns r) mod StepConns r = n - StartConns r"
      by (rule div_mult_mod_eq)
    moreover have "0 < (n - StartConns r) mod StepConns r" "(n - StartConns r) mod StepConns r < StepConns r"
      using p False by (simp_all add: order_neq_le_trans)
    ultimately have "(k - 2) * StepConns r < n - StartConns r" "n - StartConns r < (k - 2) * StepConns r + StepConns r"
      by linarith+
    then show ?thesis by (simp add: algebra_simps)
  qed
  moreover have "n = StartConns r" if "k = 1"
  proof -
    have "(n - StartConns r) div StepConns r = 0" "(n - StartConns r) mod StepConns r = 0"
      using k that p pos_imp_zdiv_nonneg_iff [of "StepConns r" "n - StartConns r"] by (auto split: if_splits)
    then show ?thesis using div_mult_mod_eq [of "n - StartConns r" "StepConns r"] by simp
  qed
  ultimately show ?thesis by auto
qed

lemma rampDuration_exact:
  assumes "levels r n = Inr k" and "rampDuration r n = Inr d" and "0 < k"
  shows "d = k * (Guard r + Sample r + rDrain r) \<and> 0 < d \<and> d \<le> MaxInt64"
proof -
  let ?phase = "Guard r + Sample r + rDrain r"
  have g: "0 \<le> Guard r" "0 < Sample r" "0 \<le> rDrain r" "\<not> MaxInt64 sdiv ?phase < k" and d: "d = k * ?phase"
    using assms by (auto simp: rampDuration_def Let_def split: if_splits)
  then have "k * ?phase \<le> MaxInt64 div ?phase * ?phase"
    by (intro mult_right_mono) (simp_all add: go_division MaxInt64_def)
  also have "\<dots> \<le> MaxInt64" using g by (metis add_nonneg_pos add_pos_nonneg div_mult_mod_eq le_add_same_cancel1 pos_mod_sign)
  finally show ?thesis using d assms(3) g by simp
qed

text \<open>
  C40. The levels of a ramp climb: as many levels as the code counts start at the configured number of
  connections, each adds at least one and at most a step, and the last is the ceiling. The derived
  duration gives every level one guard, one sample and one drain and fits in 64 bits.
\<close>

theorem ramp_levels_climb:
  assumes "levels r n = Inr k" and "rampDuration r n = Inr d"
  shows "\<exists>cs. map (\<lambda>i. activeConns r i n) [0..k - 1] = map Some cs \<and> int (length cs) = k \<and>
    cs ! 0 = StartConns r \<and> last cs = n \<and> sorted_wrt (<) cs \<and>
    (\<forall>i. Suc i < length cs \<longrightarrow> cs ! Suc i \<le> cs ! i + StepConns r) \<and>
    d = k * (Guard r + Sample r + rDrain r) \<and> 0 < d \<and> d \<le> MaxInt64"
proof -
  from levels_ok [OF assms(1)] have p: "0 < StartConns r" "StartConns r \<le> n" "0 < StepConns r" and k: "0 < k"
    by (auto intro: add_nonneg_pos simp: pos_imp_zdiv_nonneg_iff)
  define f where "f = (\<lambda>i :: nat. min n (StartConns r + int i * StepConns r))"
  define cs where "cs = map f [0..<nat k]"
  have "map (\<lambda>i. activeConns r i n) [0..k - 1] = map (\<lambda>i. activeConns r (int i) n) [0..<nat k]"
    using k by (intro nth_equalityI) (simp_all add: nth_upto)
  also have "\<dots> = map Some cs"
    using activeConns_min [OF assms(1)] by (simp add: cs_def f_def)
  finally have active: "map (\<lambda>i. activeConns r i n) [0..k - 1] = map Some cs" .
  have reach: "n \<le> StartConns r + (k - 1) * StepConns r" and before: "(k - 2) * StepConns r < n - StartConns r \<or> k = 1"
    using levels_reach [OF assms(1)] by auto
  have below: "StartConns r + int i * StepConns r < n" if "Suc i < nat k" for i
  proof -
    have "int i \<le> k - 2" "k \<noteq> 1" using that by auto
    then have "int i * StepConns r \<le> (k - 2) * StepConns r" using p(3) by (intro mult_right_mono) auto
    then show ?thesis using before \<open>k \<noteq> 1\<close> by linarith
  qed
  have "sorted_wrt (<) cs"
    unfolding cs_def sorted_wrt_map
  proof (rule sorted_wrt_mono_rel [OF _ sorted_wrt_upt])
    fix i j assume ij: "i \<in> set [0..<nat k]" "j \<in> set [0..<nat k]" "i < j"
    then have "StartConns r + int i * StepConns r < n" by (intro below) auto
    moreover have "int i * StepConns r < int j * StepConns r" using ij(3) p(3) by simp
    ultimately show "f i < f j" by (simp add: f_def)
  qed
  moreover have "cs ! 0 = StartConns r" using k p by (simp add: cs_def f_def)
  moreover have "last cs = n" using k reach by (simp add: cs_def f_def last_map)
  moreover have "\<forall>i. Suc i < length cs \<longrightarrow> cs ! Suc i \<le> cs ! i + StepConns r"
  proof (intro allI impI)
    fix i assume i: "Suc i < length cs"
    then have "f i = StartConns r + int i * StepConns r" using below [of i] by (simp add: f_def cs_def)
    moreover have "f (Suc i) \<le> StartConns r + int i * StepConns r + StepConns r" by (simp add: f_def algebra_simps)
    ultimately show "cs ! Suc i \<le> cs ! i + StepConns r" using i by (simp add: cs_def)
  qed
  moreover have "d = k * (Guard r + Sample r + rDrain r) \<and> 0 < d \<and> d \<le> MaxInt64"
    by (rule rampDuration_exact [OF assms k])
  ultimately show ?thesis using active k by (intro exI [of _ cs]) (simp add: cs_def)
qed

definition sampleRamp :: RampConfig where
  "sampleRamp = \<lparr>StartConns = 10, StepConns = 40, Guard = 1, Sample = 5, rDrain = 2\<rparr>"

lemma ramp_levels_climb_witness:
  "\<exists>cs. map (\<lambda>i. activeConns sampleRamp i 100) [0..4 - 1] = map Some cs \<and> int (length cs) = 4 \<and>
    cs ! 0 = StartConns sampleRamp \<and> last cs = 100 \<and> sorted_wrt (<) cs \<and>
    (\<forall>i. Suc i < length cs \<longrightarrow> cs ! Suc i \<le> cs ! i + StepConns sampleRamp) \<and>
    (32 :: int) = 4 * (Guard sampleRamp + Sample sampleRamp + rDrain sampleRamp) \<and> (0 :: int) < 32 \<and> 32 \<le> MaxInt64"
proof (rule ramp_levels_climb)
  show "levels sampleRamp 100 = Inr 4" by code_simp
  show "rampDuration sampleRamp 100 = Inr 32" by code_simp
qed

section \<open>The partition of the connections\<close>

lemma length_originRanges [simp]: "length (originRanges s cs) = length cs"
  by (induction s cs rule: originRanges.induct) simp_all

lemma originRanges_cover:
  "\<forall>c \<in> set cs. 0 \<le> c \<Longrightarrow> concat (map (\<lambda>(a, b). [a..b - 1]) (originRanges s cs)) = [s..s + sum_list cs - 1]"
proof (induction s cs rule: originRanges.induct)
  case (2 s c cs)
  have "0 \<le> sum_list cs" using 2(2) by (intro sum_list_nonneg) simp
  moreover have "[s..s + c - 1] @ [s + c..s + c + m - 1] = [s..s + c + m - 1]" if "0 \<le> m" for m
    using 2(2) that upto_split1 [of s "s + c" "s + c + m - 1", symmetric] by (cases "m = 0") simp_all
  ultimately show ?case using 2 by (simp add: add.assoc)
qed simp

lemma sum_list_threshold:
  "sum_list (map (\<lambda>i. if i < r then b + 1 else b) [0..<n]) = int n * b + int (min r n)"
  by (induction n) (auto simp: algebra_simps min_def)

lemma splitConns_upt:
  assumes "0 \<le> n" and "0 < procs"
  shows "splitConns n procs = map (\<lambda>i. if i < nat (n mod procs) then n div procs + 1 else n div procs) [0..<nat procs]"
  using assms by (intro nth_equalityI) (auto simp: splitConns_def Let_def go_division nth_upto)

lemma splitConns_sum:
  assumes "0 \<le> n" and "0 < procs"
  shows "sum_list (splitConns n procs) = n"
proof -
  have "nat (n mod procs) \<le> nat procs" using assms by (intro nat_mono less_imp_le pos_mod_bound)
  then have "sum_list (splitConns n procs) = procs * (n div procs) + n mod procs"
    using assms by (simp add: splitConns_upt sum_list_threshold min_def)
  then show ?thesis by simp
qed

lemma splitConns_even:
  assumes "0 \<le> n" and "0 < procs" and "c \<in> set (splitConns n procs)"
  shows "n div procs \<le> c \<and> c \<le> n div procs + 1"
  using assms by (auto simp: splitConns_upt split: if_splits)

lemma clientLaunches_parts:
  fixes cfg
  defines "split \<equiv> splitConns (cTotalConns cfg) (cClientProcs cfg)"
  shows "map clConns (clientLaunches cfg) = split"
    and "map (\<lambda>l. (clOriginIDStart l, clOriginIDEnd l)) (clientLaunches cfg) = originRanges 0 split"
  by (simp_all add: clientLaunches_def split_def Let_def comp_def case_prod_beta nth_equalityI)
    (simp_all add: list_eq_iff_nth_eq nth_enumerate_eq)

lemma joinErrors_Inr [simp]: "joinErrors es = Inr u \<longleftrightarrow> es = []"
  by (simp add: joinErrors_def)

lemma prepared:
  assumes "Prepare cfg = Inr prepared"
  shows "validateRunConfig prepared = Inr () \<and> (\<exists>applied. prepared = runDefaults applied)"
  using assms by (auto simp: Prepare_def Let_def rbind_eq_Inr_iff)

lemma runDefaults_conns:
  "cTotalConns (runDefaults c) = cTotalConns c"
  "cClientProcs (runDefaults c) =
     (if 0 < cTotalConns c \<and> cTotalConns c < cClientProcs c then cTotalConns c else cClientProcs c)"
  by (simp_all add: runDefaults_def Let_def split: option.split sum.split)

lemma prepared_conns:
  assumes "Prepare cfg = Inr prepared"
  shows "0 < cTotalConns prepared \<and> 0 < cClientProcs prepared \<and> cClientProcs prepared \<le> cTotalConns prepared"
proof -
  obtain applied where p: "validateRunConfig prepared = Inr ()" "prepared = runDefaults applied"
    using prepared [OF assms] by blast
  have "0 < cTotalConns prepared" "0 < cClientProcs prepared"
    using p(1) by (auto simp: validateRunConfig_def split: if_splits)
  moreover have "cClientProcs prepared \<le> cTotalConns prepared"
    using calculation(1) unfolding p(2) by (auto simp: runDefaults_conns)
  ultimately show ?thesis by blast
qed

text \<open>
  C18. The client processes of a prepared configuration partition the connections: there are as many
  as configured, each has at least one connection and no two differ by more than one, the
  connections add up to the total, and their ranges of origin identifiers follow each other
  without gap or overlap from zero to the total.
\<close>

theorem clients_partition:
  assumes "Prepare cfg = Inr prepared"
  shows "int (length (clientLaunches prepared)) = cClientProcs prepared \<and>
    sum_list (map clConns (clientLaunches prepared)) = cTotalConns prepared \<and>
    list_all (\<lambda>l. 0 < clConns l \<and> clOriginIDEnd l = clOriginIDStart l + clConns l) (clientLaunches prepared) \<and>
    list_all (\<lambda>l. list_all (\<lambda>k. clConns l \<le> clConns k + 1) (clientLaunches prepared)) (clientLaunches prepared) \<and>
    concat (map (\<lambda>l. [clOriginIDStart l..clOriginIDEnd l - 1]) (clientLaunches prepared)) = [0..cTotalConns prepared - 1]"
proof -
  let ?n = "cTotalConns prepared" and ?p = "cClientProcs prepared" and ?L = "clientLaunches prepared"
  note p = prepared_conns [OF assms]
  have even: "?n div ?p \<le> c \<and> c \<le> ?n div ?p + 1" if "c \<in> set (splitConns ?n ?p)" for c
    using splitConns_even [OF _ _ that] p by auto
  have one: "0 < ?n div ?p" using p by (simp add: pos_imp_zdiv_pos_iff)
  have conns: "clConns l \<in> set (splitConns ?n ?p)" if "l \<in> set ?L" for l
    using that clientLaunches_parts(1) [of prepared] by (metis image_eqI list.set_map)
  have "length ?L = length (splitConns ?n ?p)"
    using clientLaunches_parts(1) [of prepared] by (metis length_map)
  moreover have "length (splitConns ?n ?p) = nat ?p" using p by (simp add: splitConns_upt)
  ultimately have "int (length ?L) = ?p" using p by simp
  moreover have "sum_list (map clConns ?L) = ?n"
    unfolding clientLaunches_parts(1) using p by (intro splitConns_sum) auto
  moreover have "clOriginIDEnd l = clOriginIDStart l + clConns l" if "l \<in> set ?L" for l
  proof -
    have ranges: "i < length cs \<Longrightarrow> snd (originRanges s cs ! i) = fst (originRanges s cs ! i) + cs ! i" for s cs i
      by (induction s cs arbitrary: i rule: originRanges.induct) (auto simp: nth_Cons')
    show ?thesis
      using that ranges by (auto simp: clientLaunches_def Let_def in_set_enumerate_eq in_set_conv_nth nth_enumerate_eq
          split: prod.splits) (metis fst_conv snd_conv)
  qed
  moreover have "concat (map (\<lambda>l. [clOriginIDStart l..clOriginIDEnd l - 1]) ?L) =
      concat (map (\<lambda>(a, b). [a..b - 1]) (map (\<lambda>l. (clOriginIDStart l, clOriginIDEnd l)) ?L))"
    by (simp add: comp_def)
  then have "concat (map (\<lambda>l. [clOriginIDStart l..clOriginIDEnd l - 1]) ?L) = [0..?n - 1]"
    using originRanges_cover [of "splitConns ?n ?p" 0] splitConns_sum [of ?n ?p] even one p
    unfolding clientLaunches_parts(2) by fastforce
  ultimately show ?thesis
    using conns even one unfolding list_all_iff by (meson add_right_mono less_le_trans order_trans)
qed

definition sampleConfig :: RunConfig where
  "sampleConfig = \<lparr>cTransport = ''enet'', cClassMappingSHA256 = [], cWorkload = [], cPreset = ''ref-room-lan-v1'', cScenario = None,
     cServerCommand = \<lparr>Path = ''server'', CmdArgs = [], Env = [], Dir = []\<rparr>,
     cClientCommand = \<lparr>Path = ''client'', CmdArgs = [''--conns'', ''{{conns}}''], Env = [], Dir = []\<rparr>,
     cClientProcs = 4, cTotalConns = 10, cRamp = None, cWarmup = 0, cSteadyWarmup = False, cSteadyMinWarmup = 0, cDuration = 0,
     cDrain = 0, cDeadlineNS = 0, cStalenessPeriodNS = 0, cNetem = None, cNetemGateOff = False, cNetemSchedule = [],
     cServerCPUs = ''7,15'', cClientCPUs = ''3-6'', cSchedIsMeasurand = False, cOutputDir = ''out'', cAttemptedThreshold = FFin 0,
     cControlTimeout = 0, cSamplerInterval = 0, cProcessExitTimeout = 0\<rparr>"

definition samplePrepared :: RunConfig where
  "samplePrepared = projr (Prepare sampleConfig)"

definition samplePreset :: ReferencePreset where
  "samplePreset = roomPreset ''lan'' (zeroNetem\<lparr>DelayMS := 1\<rparr>)"

lemma sample_preset:
  "LookupReferencePreset ''ref-room-lan-v1'' = Some samplePreset"
  "ParseCPUSet ''7,15'' = Inr [7, 15]" "ServerVCPUs samplePreset = 2"
  "ValidateScenario (rpScenario samplePreset) = Inr ()"
  "tooShort field 60000000000 (rpScenario samplePreset) = []"
  "configuredLoss (Some (presetRegime samplePreset)) = False" "netemErrors (presetRegime samplePreset) = []"
  "rpDuration samplePreset = 60000000000" "rpWarmup samplePreset = 25000000000" "rpDrain samplePreset = 5000000000"
  "nrLinkMTUBytes (presetRegime samplePreset) = 1500" "rpStalenessPeriodNS samplePreset = 10000000"
  by code_simp+

lemma sample_args:
  "refuseArgs scenarioConflict name (cServerCommand sampleConfig) = Inr ()"
  "refuseArgs scenarioConflict name (cClientCommand sampleConfig) = Inr ()"
  by code_simp+

lemma sample_prepared: "Prepare sampleConfig = Inr samplePrepared"
proof -
  have "applyPreset sampleConfig = Inr (sampleConfig\<lparr>cScenario := Some (rpScenario samplePreset),
      cNetem := Some (presetRegime samplePreset), cWarmup := rpWarmup samplePreset, cSteadyWarmup := True,
      cDuration := rpDuration samplePreset, cDrain := rpDrain samplePreset,
      cStalenessPeriodNS := rpStalenessPeriodNS samplePreset\<rparr>)"
    by (simp add: applyPreset_def overridden_def sample_preset sampleConfig_def)
  moreover have "IsSafeName ''enet''" by code_simp
  moreover have "\<not> f_lt (f_of_rat (99 / 100)) (FFin 0)" "\<not> f_lt (FFin 1) (f_of_rat (99 / 100))" by code_simp+
  ultimately have "\<exists>c. Prepare sampleConfig = Inr c"
    using sample_args
    by (simp add: Prepare_def applyScenario_def applyWorkload_def runDefaults_def validateRunConfig_def sample_preset
        validateNetemSchedule_def Let_def sampleConfig_def second_def joinErrors_def)
  then show ?thesis by (auto simp: samplePrepared_def)
qed

lemma clients_partition_witness:
  "int (length (clientLaunches samplePrepared)) = cClientProcs samplePrepared \<and>
    sum_list (map clConns (clientLaunches samplePrepared)) = cTotalConns samplePrepared \<and>
    list_all (\<lambda>l. 0 < clConns l \<and> clOriginIDEnd l = clOriginIDStart l + clConns l) (clientLaunches samplePrepared) \<and>
    list_all (\<lambda>l. list_all (\<lambda>k. clConns l \<le> clConns k + 1) (clientLaunches samplePrepared)) (clientLaunches samplePrepared) \<and>
    concat (map (\<lambda>l. [clOriginIDStart l..clOriginIDEnd l - 1]) (clientLaunches samplePrepared)) = [0..cTotalConns samplePrepared - 1]"
  by (rule clients_partition [OF sample_prepared])

section \<open>Reference presets\<close>

definition soundPreset :: "ReferencePreset \<Rightarrow> bool" where
  "soundPreset p \<longleftrightarrow> ValidateScenario (rpScenario p) = Inr () \<and> MissingPrimarySLOs (rpScenario p) = []"

lemma reference_presets_valid: "list_all soundPreset referencePresets"
  by code_simp

text \<open>
  C19. A reference preset fixes the conditions of a run: when a configuration that names a preset is
  prepared, its scenario, link, warmup, duration, drain and sampling period are the preset's,
  whatever else the configuration says, the server has the preset's number of CPUs, and the scenario
  is valid and has a threshold for every series.
\<close>

theorem preset_fixes_conditions:
  assumes "Prepare cfg = Inr prepared" and "cPreset cfg \<noteq> []"
  shows "\<exists>p. LookupReferencePreset (cPreset cfg) = Some p \<and> rpName p = cPreset cfg \<and>
    cScenario prepared = Some (rpScenario p) \<and> cNetem prepared = Some (presetRegime p) \<and> cRamp prepared = None \<and>
    cWarmup prepared = rpWarmup p \<and> cSteadyWarmup prepared \<and> cDuration prepared = rpDuration p \<and> cDrain prepared = rpDrain p \<and>
    cStalenessPeriodNS prepared = rpStalenessPeriodNS p \<and>
    map_sum (\<lambda>_. ()) length (ParseCPUSet (cServerCPUs prepared)) = Inr (ServerVCPUs p) \<and>
    ValidateScenario (rpScenario p) = Inr () \<and> HasCompletePrimarySLOs (rpScenario p)"
proof -
  obtain c1 c2 c3 where steps: "applyPreset cfg = Inr c1" "applyScenario c1 = Inr c2" "applyWorkload c2 = Inr c3"
    and prepared: "prepared = runDefaults c3"
    using assms(1) by (auto simp: Prepare_def Let_def rbind_eq_Inr_iff)
  obtain p cpus where p: "LookupReferencePreset (cPreset cfg) = Some p"
    and cpus: "ParseCPUSet (cServerCPUs cfg) = Inr cpus" "length cpus = ServerVCPUs p"
    and plain: "cWorkload cfg = []" "cRamp cfg = None"
    and c1: "c1 = cfg\<lparr>cScenario := Some (rpScenario p), cNetem := Some (presetRegime p),
      cWarmup := rpWarmup p, cSteadyWarmup := True, cDuration := rpDuration p,
      cDrain := rpDrain p, cStalenessPeriodNS := rpStalenessPeriodNS p\<rparr>"
    using steps(1) assms(2) by (auto simp: applyPreset_def overridden_def rbind_eq_Inr_iff Let_def split: option.splits sum.splits)
  have mem: "p \<in> set referencePresets" "rpName p = cPreset cfg"
    using p by (auto simp: LookupReferencePreset_def find_Some_iff)
  have fixed: "rpDuration p = 60 * second" "rpStalenessPeriodNS p = defaultStalenessPeriodNS"
    using mem(1) by (auto simp: referencePresets_def refRegimes_def authPreset_def roomPreset_def referencePreset_def)
  have c2: "c2 = c1\<lparr>cServerCommand := cServerCommand c2, cClientCommand := cClientCommand c2\<rparr>"
    using steps(2) fixed by (auto simp: applyScenario_def c1 rbind_eq_Inr_iff Let_def defaultStalenessPeriodNS_def second_def
        split: if_splits)
  have "cWorkload c2 = []" by (subst c2) (simp add: c1 plain)
  then have "c3 = c2" using steps(3) by (simp add: applyWorkload_def)
  then have "cScenario prepared = cScenario c2 \<and> cNetem prepared = cNetem c2 \<and> cRamp prepared = cRamp c2 \<and>
      cWarmup prepared = cWarmup c2 \<and> cSteadyWarmup prepared = cSteadyWarmup c2 \<and> cDrain prepared = cDrain c2 \<and>
      cStalenessPeriodNS prepared = cStalenessPeriodNS c2 \<and> cServerCPUs prepared = cServerCPUs c2 \<and>
      (cRamp c2 = None \<longrightarrow> cDuration prepared = cDuration c2)"
    by (simp add: prepared runDefaults_def Let_def split: option.split sum.split)
  moreover have "cScenario c2 = Some (rpScenario p) \<and> cNetem c2 = Some (presetRegime p) \<and> cRamp c2 = None \<and>
      cWarmup c2 = rpWarmup p \<and> cSteadyWarmup c2 \<and> cDuration c2 = rpDuration p \<and> cDrain c2 = rpDrain p \<and>
      cStalenessPeriodNS c2 = rpStalenessPeriodNS p \<and> cServerCPUs c2 = cServerCPUs cfg"
    by (subst (1 2 3 4 5 6 7 8 9) c2) (simp add: c1 plain)
  moreover have "ValidateScenario (rpScenario p) = Inr () \<and> HasCompletePrimarySLOs (rpScenario p)"
    using reference_presets_valid mem(1) by (auto simp: list_all_iff HasCompletePrimarySLOs_def soundPreset_def)
  ultimately show ?thesis using p mem(2) cpus by simp
qed

lemma preset_fixes_conditions_witness:
  "\<exists>p. LookupReferencePreset ''ref-room-lan-v1'' = Some p \<and> rpName p = ''ref-room-lan-v1'' \<and>
    cScenario samplePrepared = Some (rpScenario p) \<and> cNetem samplePrepared = Some (presetRegime p) \<and> cRamp samplePrepared = None \<and>
    cWarmup samplePrepared = rpWarmup p \<and> cSteadyWarmup samplePrepared \<and> cDuration samplePrepared = rpDuration p \<and>
    cDrain samplePrepared = rpDrain p \<and> cStalenessPeriodNS samplePrepared = rpStalenessPeriodNS p \<and>
    map_sum (\<lambda>_. ()) length (ParseCPUSet (cServerCPUs samplePrepared)) = Inr (ServerVCPUs p) \<and>
    ValidateScenario (rpScenario p) = Inr () \<and> HasCompletePrimarySLOs (rpScenario p)"
  using preset_fixes_conditions [OF sample_prepared] by (simp add: sampleConfig_def)

end
