(* ===== verification/SampleArtifact.thy ===== *)
theory SampleArtifact
  imports MetricsJson
begin

text \<open>
  The text of a metrics artifact as an endpoint writes it, for the properties that need one: it
  decodes to the sample file, and merging it succeeds.
\<close>

abbreviation num :: "string \<Rightarrow> json" where "num \<equiv> JNum"

definition histogramJson :: "string \<Rightarrow> string list \<Rightarrow> json" where
  "histogramJson samples bs = JObj [(''scheme'', JStr ''log2x16''), (''min_ns'', num ''1000''),
     (''max_ns'', num ''100000000000''), (''count'', num samples), (''p50_ns'', num ''0''), (''p90_ns'', num ''0''),
     (''p99_ns'', num ''0''), (''bins'', JArr (map num bs))]"

definition sampleHistogramJson :: json where
  "sampleHistogramJson = histogramJson ''6'' ([''1'', ''2'', ''3''] @ replicate 445 ''0'')"

definition emptyHistogramJson :: json where
  "emptyHistogramJson = histogramJson ''0'' (replicate 448 ''0'')"

definition countsJson :: "string list \<Rightarrow> (string \<times> json) list" where
  "countsJson vs = zip v2CountFields (map num vs)"

definition sampleCountsJson :: "(string \<times> json) list" where
  "sampleCountsJson = countsJson [''10'', ''2'', ''9'', ''6'', ''1'', ''5'', ''4'', ''3'', ''1'']"

definition zeroCountsJson :: "(string \<times> json) list" where
  "zeroCountsJson = countsJson [''0'', ''0'', ''0'', ''0'', ''0'', ''0'', ''0'', ''0'', ''0'']"

definition sampleJson :: json where
  "sampleJson = JObj [(''version'', num ''2''),
     (''histogram'', JObj [(''scheme'', JStr ''log2x16''), (''subbins'', num ''16''), (''min_ns'', num ''1000''),
       (''max_ns'', num ''100000000000'')]),
     (''classes'', JObj
       [(ClassMustDeliver, JObj (zeroCountsJson @ [(''latency_sched_ns'', emptyHistogramJson),
           (''latency_send_ns'', emptyHistogramJson), (''update_gap_ns'', emptyHistogramJson)])),
        (ClassLossTolerant, JObj (sampleCountsJson @ [(''latency_sched_ns'', sampleHistogramJson),
           (''latency_send_ns'', sampleHistogramJson), (''update_gap_ns'', sampleHistogramJson)]))]),
     (''traffic'', JArr [JObj (sampleCountsJson @ [(''traffic_id'', num ''1''), (''direction'', JStr DirectionRoomRelay),
       (''class'', JStr ClassLossTolerant), (''deadline_ns'', num ''5000''), (''latency_sched_ns'', sampleHistogramJson),
       (''latency_send_ns'', sampleHistogramJson), (''update_gap_ns'', sampleHistogramJson),
       (''staleness_ns'', sampleHistogramJson)])]),
     (''staleness_ns'', sampleHistogramJson),
     (''raw'', JObj [(''slots'', num ''10''), (''submitted'', num ''9''), (''recv_measured'', num ''6''),
       (''recv_unmeasured'', num ''1''), (''timestamp_order_violations'', num ''0'')])]"

lemma parse_samples [simp]:
  "parseDigits ''0'' = Some 0" "parseDigits ''1'' = Some 1" "parseDigits ''2'' = Some 2" "parseDigits ''3'' = Some 3"
  "parseDigits ''4'' = Some 4" "parseDigits ''5'' = Some 5" "parseDigits ''6'' = Some 6" "parseDigits ''9'' = Some 9"
  "parseDigits ''10'' = Some 10" "parseDigits ''16'' = Some 16" "parseDigits ''1000'' = Some 1000"
  "parseDigits ''5000'' = Some 5000" "parseDigits ''100000000000'' = Some 100000000000"
  by (simp_all add: parseDigits_def digitValue_def)

lemma decAll_zeros: "decAll (decUint (\<lambda>f. f) (0 :: u64)) (replicate n (num ''0'')) = Some (replicate n 0)"
  by (induction n) (simp_all add: decUint_def)

lemma decHistogram_samples [simp]:
  "decHistogram zeroHistogram sampleHistogramJson = Some sampleHistogram"
  "decHistogram zeroHistogram emptyHistogramJson = Some emptyHistogram"
  by (simp_all add: decHistogram_def sampleHistogramJson_def emptyHistogramJson_def histogramJson_def decodeStruct_def
      lookupField_def decString_def decUint_def decSlice_def decAll_zeros sampleHistogram_def emptyHistogram_def zeroHistogram_def
      map_replicate)

lemmas decoders = decodeStruct_def lookupField_def decString_def decUint_def decInt_def decSlice_def decNested_def decMap_def

lemma decCounts_samples:
  "decodeMembers (decCounts upd @ fs) s (sampleCountsJson @ rest) =
     decodeMembers (decCounts upd @ fs) (foldl (\<lambda>s f. f s) s [upd (Slots_update (\<lambda>_. 10)), upd (SlotsBroadcast_update (\<lambda>_. 2)),
       upd (Submitted_update (\<lambda>_. 9)), upd (DeliveredUnique_update (\<lambda>_. 6)), upd (Duplicates_update (\<lambda>_. 1)),
       upd (DeadlineHit_update (\<lambda>_. 5)), upd (ExpectedFlows_update (\<lambda>_. 4)), upd (ObservedFlows_update (\<lambda>_. 3)),
       upd (NeverReceivedFlows_update (\<lambda>_. 1))]) rest"
  "decodeMembers (decCounts upd @ fs) s (zeroCountsJson @ rest) =
     decodeMembers (decCounts upd @ fs) (foldl (\<lambda>s f. f s) s [upd (Slots_update (\<lambda>_. 0)), upd (SlotsBroadcast_update (\<lambda>_. 0)),
       upd (Submitted_update (\<lambda>_. 0)), upd (DeliveredUnique_update (\<lambda>_. 0)), upd (Duplicates_update (\<lambda>_. 0)),
       upd (DeadlineHit_update (\<lambda>_. 0)), upd (ExpectedFlows_update (\<lambda>_. 0)), upd (ObservedFlows_update (\<lambda>_. 0)),
       upd (NeverReceivedFlows_update (\<lambda>_. 0))]) rest"
  by (simp_all add: sampleCountsJson_def zeroCountsJson_def countsJson_def v2CountFields_def decCounts_def decoders)

lemma decClassMetric_samples:
  "decClassMetric (JObj (zeroCountsJson @ [(''latency_sched_ns'', emptyHistogramJson),
      (''latency_send_ns'', emptyHistogramJson), (''update_gap_ns'', emptyHistogramJson)])) =
    Some \<lparr>cmCounts = zeroCounts, cmLatencySchedNS = emptyHistogram, cmLatencySendNS = emptyHistogram, cmUpdateGapNS = emptyHistogram\<rparr>"
  "decClassMetric (JObj (sampleCountsJson @ [(''latency_sched_ns'', sampleHistogramJson),
      (''latency_send_ns'', sampleHistogramJson), (''update_gap_ns'', sampleHistogramJson)])) =
    Some \<lparr>cmCounts = sampleCounts, cmLatencySchedNS = sampleHistogram, cmLatencySendNS = sampleHistogram, cmUpdateGapNS = sampleHistogram\<rparr>"
  by (simp_all add: decClassMetric_def decodeStruct_def decCounts_samples)
    (simp_all add: decCounts_def decoders zeroClassMetric_def zeroCounts_def sampleCounts_def)

lemma decTrafficMetric_sample:
  "decTrafficMetric (JObj (sampleCountsJson @ [(''traffic_id'', num ''1''), (''direction'', JStr DirectionRoomRelay),
       (''class'', JStr ClassLossTolerant), (''deadline_ns'', num ''5000''), (''latency_sched_ns'', sampleHistogramJson),
       (''latency_send_ns'', sampleHistogramJson), (''update_gap_ns'', sampleHistogramJson),
       (''staleness_ns'', sampleHistogramJson)])) = Some (hd (mfTraffic sampleFile))"
  by (simp add: decTrafficMetric_def decodeStruct_def decCounts_samples)
    (simp add: decCounts_def decoders zeroTrafficMetric_def zeroCounts_def sampleCounts_def sampleFile_def)

lemma unmarshal_sample: "unmarshalMetrics sampleJson = Some sampleFile" "unmarshalVersion sampleJson = Some 2"
proof -
  have atoi: "atoi ''2'' = Some 2" by (simp add: atoi_def MaxInt64_def MinInt64_def in_i64_def)
  show "unmarshalMetrics sampleJson = Some sampleFile"
    by (simp add: unmarshalMetrics_def sampleJson_def decoders decLayout_def decRaw_def decClassMetric_samples
        decTrafficMetric_sample zeroLayout_def zeroRaw_def atoi)
      (simp add: sampleFile_def v2Layout_def ClassMustDeliver_def ClassLossTolerant_def)
  show "unmarshalVersion sampleJson = Some 2"
    by (simp add: unmarshalVersion_def sampleJson_def decoders atoi lowerChar_def)
qed

lemma keysDistinct_nums: "keysDistinct (JArr (map num bs))" "keysDistinct (num s)" "keysDistinct (JStr s)"
  by auto

lemma sample_keys: "keysDistinct sampleJson"
proof -
  have "keysDistinct (histogramJson n bs)" for n bs by (simp add: histogramJson_def)
  then show ?thesis
    by (simp add: sampleJson_def sampleHistogramJson_def emptyHistogramJson_def sampleCountsJson_def zeroCountsJson_def
        countsJson_def v2CountFields_def ClassMustDeliver_def ClassLossTolerant_def)
qed

lemma sample_shape: "validateV2JSONShape sampleJson path = Inr ()"
  by (simp add: validateV2JSONShape_def sampleJson_def requireJSONObject_def requireHistograms_def rawMember_def
      metricClassNames_def ClassMustDeliver_def ClassLossTolerant_def v2CountFields_def v2HistogramFields_def
      sampleCountsJson_def zeroCountsJson_def countsJson_def sampleHistogramJson_def emptyHistogramJson_def histogramJson_def fail_if_def)

lemma sample_walk: "rejectDuplicateMetricsJSONKeys (tokens sampleJson) = Inr ()"
proof -
  let ?n = "2 * length (tokens sampleJson) + 1"
  have "walked (walkMetricsJSONValue ?n (tokens sampleJson @ [])) True []"
    using every_value_walks [of sampleJson] sample_keys unfolding walks_def
    by (elim allE [where x = ?n] allE [where x = "[] :: token list"]) (simp del: walkMetricsJSONValue.simps)
  then show ?thesis by (simp add: rejectDuplicateMetricsJSONKeys_def walked_def del: walkMetricsJSONValue.simps)
qed

definition sampleArtifact :: "string \<Rightarrow> MetricsArtifactData" where
  "sampleArtifact path = \<lparr>artifactName = path, artifactData = sampleJson\<rparr>"

lemma sample_parses: "parseMetricsArtifact allow (sampleArtifact path) = Inr sampleFile"
proof -
  have "validateMetricsFile sampleFile allow = Inr ()"
    using sampleFile_valid by (simp add: validateMetricsFile_def sampleFile_def)
  then show ?thesis
    by (simp add: parseMetricsArtifact_def sampleArtifact_def sample_walk unmarshal_sample sample_shape)
qed

lemma sample_finalized [simp]:
  "validateHistogramSum (finalizeHistogram sampleHistogram v2Layout) [finalizeHistogram sampleHistogram v2Layout] = Inr ()"
  "validateHistogramSum (finalizeHistogram emptyHistogram v2Layout) [] = Inr ()"
  using sampleHistogram_sums
  by (simp_all add: validateHistogramSum_Inr binsTotal_single binsTotal_Nil emptyHistogram_def sum_list_replicate)

lemma sample_artifacts_merge:
  "\<exists>m. MergeMetricsData artifactName (parseMetricsArtifact False) [sampleArtifact path] 10 = Inr m \<and> mmVersion m = 2 \<and>
     ValidateMergedMetricsConsistency (Some m) = Inr () \<and> TrafficMetric (Some m) 2 direction class = None"
  by (simp add: MergeMetricsData_def mergeStep_def sample_parses)
    (simp add: sampleFile_def add_def metricClassNames_def addClassNamed_def addClass_def classOf_def
      fileClass_def addTraffic_def addTrafficEntry_def entryOf_def trafficKey_def Let_def
      newMergedMetrics_def finalize_def finalizeClassNamed_def finalizeClass_def finalizeKey_def
      finalizeTraffic_def expectedReceives_def addClassCounts_def sampleCounts_def zeroCounts_def
      zeroRaw_def addRaw_def TrafficMetric_def ValidateMergedMetricsConsistency_def checkMergedClass_def ofMergedClass_def
      ClassMustDeliver_def ClassLossTolerant_def firstClassCountMismatch_def fail_if_def)

end
