(* ===== verification/RampProperties.thy ===== *)
theory RampProperties
  imports Ramp ConfigProperties SampleArtifact
begin

text \<open>
  What the ramp decides: a level passes when its thresholds are met under the full load, the score is
  the first level that does not pass, and the watcher stops the endpoints at the point the score names.
\<close>

section \<open>A sample ramp\<close>

definition rampScenario :: ScenarioSpec where
  "rampScenario = \<lparr>ScenarioName = ''probe'', scKind = ScenarioEnvironmentBaseline,
     ClientInput = Some \<lparr>sTrafficID = 2, LossTolerant = sampleClass (FFin 10), MustDeliver = zeroClassSpec\<rparr>,
     ServerState = None, RoomPublish = None\<rparr>"

definition rampConfig :: RunConfig where
  "rampConfig = sampleConfig\<lparr>cPreset := [], cTotalConns := 100, cClientProcs := 1, cRamp := Some sampleRamp,
     cScenario := Some rampScenario\<rparr>"

lemma rampConfig_scenario: "cScenario rampConfig = Some rampScenario"
  and rampConfig_ramp: "cRamp rampConfig = Some sampleRamp" "cTotalConns rampConfig = 100"
  by (simp_all add: rampConfig_def)

definition rampFiles :: snapshotFiles where
  "rampFiles = \<lparr>readDir = (\<lambda>_. Some [(''logs'', True), (''server.ramp-000000-c000010.json'', False),
     (''client.ramp-000000-c000010.json'', False)]), readArtifact = (\<lambda>path. Some (sampleArtifact path))\<rparr>"

lemma sample_snapshot:
  "locateRampSnapshot rampFiles (''out'', ''server'') 0 10 =
     Inr \<lparr>rsIndex = 0, rsActiveConns = 10, rsPath = ''out/server.ramp-000000-c000010.json''\<rparr>"
  "locateRampSnapshot rampFiles (''out'', ''client'') 0 10 =
     Inr \<lparr>rsIndex = 0, rsActiveConns = 10, rsPath = ''out/client.ramp-000000-c000010.json''\<rparr>"
proof -
  have "sixDigits 0 = ''000000''" "rampActiveSuffix ''c000010.json'' = Some 10" by code_simp+
  then show "locateRampSnapshot rampFiles (''out'', ''server'') 0 10 =
     Inr \<lparr>rsIndex = 0, rsActiveConns = 10, rsPath = ''out/server.ramp-000000-c000010.json''\<rparr>"
    "locateRampSnapshot rampFiles (''out'', ''client'') 0 10 =
     Inr \<lparr>rsIndex = 0, rsActiveConns = 10, rsPath = ''out/client.ramp-000000-c000010.json''\<rparr>"
    by (simp_all add: locateRampSnapshot_def rampFiles_def snapshotEntry_def hasPrefix_def joinPath_def)
qed

section \<open>A level passes when its load and its thresholds do\<close>

lemma enabled_judged: "set (enabledSeries s) \<subseteq> set (judgedSeries s)"
proof -
  have "f_lt (FFin 0) x \<Longrightarrow> \<not> f_le x (FFin 0)" for x by (cases x) auto
  then show ?thesis
    by (auto simp: enabledSeries_def judgedSeries_def enabledTrafficClasses_def split: option.splits)
qed

lemma breakFirst_names: "map (\<lambda>t. (teName t, teClass t)) (breakFirst b ts) = map (\<lambda>t. (teName t, teClass t)) ts"
  by (induction b ts rule: breakFirst.induct) (auto simp: breakTraffic_def)

lemma breakFirst_broken:
  "(brName b, brClass b) \<in> (\<lambda>t. (teName t, teClass t)) ` set ts \<Longrightarrow> \<exists>t \<in> set (breakFirst b ts). \<not> teOK t"
  by (induction b ts rule: breakFirst.induct) (auto simp: breakTraffic_def)

lemma breakFirst_stays: "\<exists>t \<in> set ts. \<not> teOK t \<Longrightarrow> \<exists>t \<in> set (breakFirst b ts). \<not> teOK t"
  by (induction b ts rule: breakFirst.induct) (auto simp: breakTraffic_def)

lemma rebuilt [simp]:
  "seTraffic (rebuildScenarioEvaluationCause e) = seTraffic e"
  "seOK (rebuildScenarioEvaluationCause e) \<longleftrightarrow> (\<forall>t \<in> set (seTraffic e). teOK t)"
  by (auto simp: rebuildScenarioEvaluationCause_def Let_def filter_empty_conv)

text \<open>Breaks of series the evaluation has: the outcome is that of the evaluation unless there is one.\<close>

lemma broken_stays:
  "\<exists>t \<in> set (seTraffic e). \<not> teOK t \<Longrightarrow> \<exists>t \<in> set (seTraffic (foldl addRampTrafficBreak e bs)). \<not> teOK t"
proof (induction bs arbitrary: e)
  case (Cons b bs)
  have "\<exists>t \<in> set (seTraffic (addRampTrafficBreak e b)). \<not> teOK t"
    using breakFirst_stays [OF Cons.prems] by (simp add: addRampTrafficBreak_def)
  then show ?case using Cons.IH by simp
qed simp

lemma added_ok:
  "bs \<noteq> [] \<Longrightarrow> seOK (foldl addRampTrafficBreak e bs) \<longleftrightarrow> (\<forall>t \<in> set (seTraffic (foldl addRampTrafficBreak e bs)). teOK t)"
  by (induction bs rule: rev_induct) (simp_all add: addRampTrafficBreak_def)

lemma breaks_fail:
  assumes "\<forall>b \<in> set bs. (brName b, brClass b) \<in> (\<lambda>t. (teName t, teClass t)) ` set (seTraffic e)"
  shows "seOK (foldl addRampTrafficBreak e bs) \<longleftrightarrow> bs = [] \<and> seOK e"
proof (cases bs)
  case (Cons b bs')
  have "\<exists>t \<in> set (breakFirst b (seTraffic e)). \<not> teOK t"
    using assms Cons by (intro breakFirst_broken) simp
  then have "\<exists>t \<in> set (seTraffic (addRampTrafficBreak e b)). \<not> teOK t" by (simp add: addRampTrafficBreak_def)
  from broken_stays [OF this, of bs'] show ?thesis
    using added_ok [of "b # bs'" e] by (auto simp: Cons)
qed simp

text \<open>The break a series causes when it has none of its load.\<close>

lemma assessSeries_breaks:
  "assessSeries metrics cfg sample kind active ts = Inr bs \<Longrightarrow> b \<in> set bs \<Longrightarrow> brName b = tsName ts \<and> brClass b = tsClass ts"
  by (auto simp: assessSeries_def Let_def rbind_eq_Inr_iff split: option.splits prod.splits if_splits)

lemma assessRampTraffic_breaks:
  assumes "assessRampTraffic metrics cfg active = Inr bs" and "cScenario cfg = Some scenario" and "b \<in> set bs"
  shows "\<exists>ts \<in> set (enabledSeries scenario). brName b = tsName ts \<and> brClass b = tsClass ts"
proof -
  obtain ramp where ramp: "cRamp cfg = Some ramp"
    using assms(1, 2) by (auto simp: assessRampTraffic_def split: option.splits)
  obtain bss where m: "mapM (assessSeries metrics cfg (Sample ramp) (scKind scenario) active) (enabledSeries scenario) = Inr bss"
    and "bs = concat bss"
    using assms(1, 2) ramp by (auto simp: assessRampTraffic_def rbind_eq_Inr_iff)
  then obtain i where i: "i < length bss" "b \<in> set (bss ! i)"
    using assms(3) by simp (metis in_set_conv_nth)
  from m have "list_all2 (\<lambda>ts bs. assessSeries metrics cfg (Sample ramp) (scKind scenario) active ts = Inr bs)
    (enabledSeries scenario) bss" unfolding mapM_Inr .
  from list_all2_nthD2 [OF this i(1)] list_all2_lengthD [OF this] show ?thesis
    using i assessSeries_breaks by (metis nth_mem)
qed

lemma judged_names:
  assumes "knownKind (scKind scenario)"
  shows "map (\<lambda>t. (teName t, teClass t)) (seTraffic (EvaluateScenarioMetrics (Some m) scenario)) =
    map (\<lambda>ts. (tsName ts, tsClass ts)) (judgedSeries scenario)"
  using assms by (simp add: EvaluateScenarioMetrics_def Let_def knownKind_def evaluateSeries_def comp_def)

lemma judged_point:
  assumes "judgePhase cfg scenario index wantActive metrics = Inr point" and "cScenario cfg = Some scenario"
    and "knownKind (scKind scenario)"
  obtains breaks where "assessRampTraffic metrics cfg wantActive = Inr breaks"
    and "ptIndex point = index" and "ActiveConns point = wantActive"
    and "seOK (Evaluation point) \<longleftrightarrow> seOK (EvaluateScenarioMetrics (Some metrics) scenario) \<and> breaks = []"
proof -
  obtain breaks where br: "assessRampTraffic metrics cfg wantActive = Inr breaks"
    and point: "point = \<lparr>ptIndex = index, ActiveConns = wantActive,
      Evaluation = foldl addRampTrafficBreak (EvaluateScenarioMetrics (Some metrics) scenario) breaks\<rparr>"
    using assms(1) by (auto simp: judgePhase_def rbind_eq_Inr_iff)
  have "(brName b, brClass b) \<in> (\<lambda>t. (teName t, teClass t)) `
      set (seTraffic (EvaluateScenarioMetrics (Some metrics) scenario))" if "b \<in> set breaks" for b
  proof -
    have "(brName b, brClass b) \<in> set (map (\<lambda>ts. (tsName ts, tsClass ts)) (judgedSeries scenario))"
      using assessRampTraffic_breaks [OF br assms(2) that] enabled_judged [of scenario] by auto
    then show ?thesis unfolding judged_names [OF assms(3), of metrics, symmetric] set_map .
  qed
  then show ?thesis using that br breaks_fail by (auto simp: point)
qed

lemma phaseMetrics_known:
  "phaseMetrics fs cfg index serverBase clientBase = Inr r \<Longrightarrow> cScenario cfg = Some scenario \<Longrightarrow> knownKind (scKind scenario)"
  by (auto simp: phaseMetrics_def mergeInputs_def knownKind_def rbind_eq_Inr_iff split: option.splits if_splits)

text \<open>
  A level of the ramp passes exactly when its metrics meet every threshold of the scenario and
  show no shortage of load: for every phase that can be judged, the point is OK if and only if the
  evaluation of the merged metrics is OK and the assessment of the offered load finds no break.
\<close>

theorem level_passes_iff:
  assumes "evaluateRampPhase fs cfg serverBase clientBase index = Inr point" and "cScenario cfg = Some scenario"
  shows "\<exists>wantActive metrics breaks. phaseMetrics fs cfg index serverBase clientBase = Inr (wantActive, metrics) \<and>
    ptIndex point = index \<and> ActiveConns point = wantActive \<and>
    assessRampTraffic metrics cfg wantActive = Inr breaks \<and>
    (seOK (Evaluation point) \<longleftrightarrow> seOK (EvaluateScenarioMetrics (Some metrics) scenario) \<and> breaks = [])"
proof -
  obtain wantActive metrics where pm: "phaseMetrics fs cfg index serverBase clientBase = Inr (wantActive, metrics)"
    and jp: "judgePhase cfg scenario index wantActive metrics = Inr point"
    using assms by (auto simp: evaluateRampPhase_def rbind_eq_Inr_iff)
  from judged_point [OF jp assms(2) phaseMetrics_known [OF pm assms(2)]] show ?thesis using pm by metis
qed

lemma sample_level:
  "\<exists>point. evaluateRampPhase rampFiles rampConfig (''out'', ''server'') (''out'', ''client'') 0 = Inr point \<and> \<not> seOK (Evaluation point)"
proof -
  obtain m where m: "MergeMetricsData artifactName (parseMetricsArtifact False)
      [sampleArtifact ''out/client.ramp-000000-c000010.json''] 10 = Inr m" "mmVersion m = 2"
    "ValidateMergedMetricsConsistency (Some m) = Inr ()" "TrafficMetric (Some m) 2 DirectionRoomRelay ClassLossTolerant = None"
    using sample_artifacts_merge by blast
  have phase: "phaseMetrics rampFiles rampConfig 0 (''out'', ''server'') (''out'', ''client'') = Inr (10, m)"
    by (simp add: phaseMetrics_def rampConfig_def rampScenario_def activeConns_def sampleRamp_def sample_snapshot mergeInputs_def
        readSnapshot_def sample_parses m scenario_kinds)
      (simp add: rampFiles_def m sample_parses)
  have enabled: "enabledSeries rampScenario = [\<lparr>tsName = ''baseline'', tsDirection = DirectionRoomRelay,
      tsSpec = the (ClientInput rampScenario), tsClass = ClassLossTolerant, tsClassSpec = sampleClass (FFin 10)\<rparr>]"
    by (simp add: enabledSeries_def rampScenario_def scenarioMetricCases_def scenario_kinds enabledTrafficClasses_def
        sampleClass_def zeroClassSpec_def)
  have breaks: "assessRampTraffic m rampConfig 10 = Inr [\<lparr>brName = ''baseline'', brClass = ClassLossTolerant, brCause = ''metrics missing''\<rparr>]"
    using m(4) by (simp add: assessRampTraffic_def rampConfig_def enabled assessSeries_def)
      (simp add: rampScenario_def)
  then obtain point where point: "judgePhase rampConfig rampScenario 0 10 m = Inr point"
    by (simp add: judgePhase_def)
  obtain brk where "assessRampTraffic m rampConfig 10 = Inr brk"
    and "seOK (Evaluation point) \<longleftrightarrow> seOK (EvaluateScenarioMetrics (Some m) rampScenario) \<and> brk = []"
    by (rule judged_point [OF point rampConfig_scenario phaseMetrics_known [OF phase rampConfig_scenario]])
  then have "\<not> seOK (Evaluation point)" using breaks by auto
  moreover have "evaluateRampPhase rampFiles rampConfig (''out'', ''server'') (''out'', ''client'') 0 = Inr point"
    using phase point by (simp add: evaluateRampPhase_def rampConfig_scenario)
  ultimately show ?thesis by blast
qed

lemma level_passes_iff_witness:
  "\<exists>(point :: RampPoint) wantActive metrics breaks.
    phaseMetrics rampFiles rampConfig 0 (''out'', ''server'') (''out'', ''client'') = Inr (wantActive, metrics) \<and>
    ptIndex point = 0 \<and> ActiveConns point = wantActive \<and> assessRampTraffic metrics rampConfig wantActive = Inr breaks \<and>
    (seOK (Evaluation point) \<longleftrightarrow> seOK (EvaluateScenarioMetrics (Some metrics) rampScenario) \<and> breaks = [])"
proof -
  obtain point where "evaluateRampPhase rampFiles rampConfig (''out'', ''server'') (''out'', ''client'') 0 = Inr point"
    using sample_level by blast
  from level_passes_iff [OF this rampConfig_scenario] show ?thesis by (rule exI [where x = point])
qed

section \<open>The score is the first level that breaks\<close>

lemma scoreFrom_prefix:
  assumes "scoreFrom phase n index timeline = Inr (timeline', stop)"
  shows "\<exists>points. timeline' = timeline @ points \<and> length points \<le> n \<and>
    (\<forall>i < length points. phase (index + int i) = Inr (points ! i)) \<and>
    (case stop of None \<Rightarrow> length points = n \<and> (\<forall>p \<in> set points. seOK (Evaluation p))
     | Some p \<Rightarrow> points \<noteq> [] \<and> last points = p \<and> \<not> seOK (Evaluation p) \<and> (\<forall>p \<in> set (butlast points). seOK (Evaluation p)))"
  using assms
proof (induction n arbitrary: index timeline)
  case (Suc n)
  then obtain point where point: "phase index = Inr point"
    by (auto simp: rbind_eq_Inr_iff)
  show ?case
  proof (cases "seOK (Evaluation point)")
    case True
    have "scoreFrom phase n (index + 1) (timeline @ [point]) = Inr (timeline', stop)"
      using Suc.prems point True by simp
    from Suc.IH [OF this] obtain points where p: "timeline' = (timeline @ [point]) @ points" "length points \<le> n"
      "\<forall>i < length points. phase (index + 1 + int i) = Inr (points ! i)"
      "case stop of None \<Rightarrow> length points = n \<and> (\<forall>p \<in> set points. seOK (Evaluation p))
       | Some p \<Rightarrow> points \<noteq> [] \<and> last points = p \<and> \<not> seOK (Evaluation p) \<and> (\<forall>p \<in> set (butlast points). seOK (Evaluation p))"
      by blast
    have "phase (index + int i) = Inr ((point # points) ! i)" if "i < Suc (length points)" for i
      using p(3) point that by (cases i) (auto simp: add.assoc)
    then show ?thesis using p True by (intro exI [of _ "point # points"]) (auto split: option.splits)
  next
    case False
    then show ?thesis using Suc.prems point by (intro exI [of _ "[point]"]) auto
  qed
qed simp

text \<open>
  C13. The score of a ramp is its first level that breaks: the timeline is the evaluation of the
  levels in order, every level before the last passes, and either a level fails and the score is its
  number of connections, or every configured level was evaluated, passed and the result is
  censored.
\<close>

theorem ramp_score_is_first_break:
  assumes "scoreRampSnapshots fs cfg serverBase clientBases = Inr result"
  shows "\<exists>ramp n. cRamp cfg = Some ramp \<and> levels ramp (cTotalConns cfg) = Inr n \<and> int (length (Timeline result)) \<le> n \<and>
    (\<forall>i < length (Timeline result). evaluateRampPhase fs cfg serverBase (hd clientBases) (int i) = Inr (Timeline result ! i)) \<and>
    (if Censored result
     then int (length (Timeline result)) = n \<and> ScoreConns result = 0 \<and> (\<forall>p \<in> set (Timeline result). seOK (Evaluation p))
     else Timeline result \<noteq> [] \<and> \<not> seOK (Evaluation (last (Timeline result))) \<and>
       ScoreConns result = ActiveConns (last (Timeline result)) \<and> rrCause result = seCause (Evaluation (last (Timeline result))) \<and>
       (\<forall>p \<in> set (butlast (Timeline result)). seOK (Evaluation p)))"
proof -
  obtain ramp n timeline stop where ramp: "cRamp cfg = Some ramp" "levels ramp (cTotalConns cfg) = Inr n"
    and one: "length clientBases = 1"
    and score: "scoreFrom (evaluateRampPhase fs cfg serverBase (clientBases ! 0)) (nat n) 0 [] = Inr (timeline, stop)"
    and result: "result = rampResult (cTotalConns cfg) (timeline, stop)"
    using assms by (auto simp: scoreRampSnapshots_def rbind_eq_Inr_iff split: option.splits if_splits)
  have base: "clientBases ! 0 = hd clientBases" using one by (cases clientBases) simp_all
  have n: "0 \<le> n" using levels_reach [OF ramp(2)] levels_ok [OF ramp(2)]
    by (auto simp: pos_imp_zdiv_nonneg_iff intro!: add_nonneg_nonneg)
  have timeline: "Timeline result = timeline" by (auto simp: result rampResult_def split: option.split)
  obtain points where "timeline = points" and p: "length points \<le> nat n"
    "\<forall>i < length points. evaluateRampPhase fs cfg serverBase (clientBases ! 0) (0 + int i) = Inr (points ! i)"
    "case stop of None \<Rightarrow> length points = nat n \<and> (\<forall>p \<in> set points. seOK (Evaluation p))
     | Some p \<Rightarrow> points \<noteq> [] \<and> last points = p \<and> \<not> seOK (Evaluation p) \<and> (\<forall>p \<in> set (butlast points). seOK (Evaluation p))"
    using scoreFrom_prefix [OF score] by auto
  then show ?thesis
    using ramp n base unfolding timeline result rampResult_def by (auto split: option.splits)
qed

lemma sample_score:
  "\<exists>result. scoreRampSnapshots rampFiles rampConfig (''out'', ''server'') [(''out'', ''client'')] = Inr result"
proof -
  obtain point where point: "evaluateRampPhase rampFiles rampConfig (''out'', ''server'') (''out'', ''client'') 0 = Inr point"
    "\<not> seOK (Evaluation point)" using sample_level by blast
  have "levels sampleRamp 100 = Inr 4" by code_simp
  moreover have "scoreFrom (evaluateRampPhase rampFiles rampConfig (''out'', ''server'') (''out'', ''client'')) (Suc 3) 0 [] =
      Inr ([point], Some point)"
    by (simp only: scoreFrom.simps point wrap_err_simps rbind_simps append_Nil if_True not_False_eq_True)
  ultimately show ?thesis
    by (simp add: scoreRampSnapshots_def rampConfig_ramp rampConfig_scenario del: scoreFrom.simps)
qed

lemma ramp_score_is_first_break_witness:
  "\<exists>result ramp n. scoreRampSnapshots rampFiles rampConfig (''out'', ''server'') [(''out'', ''client'')] = Inr result \<and>
    cRamp rampConfig = Some ramp \<and> levels ramp (cTotalConns rampConfig) = Inr n \<and> int (length (Timeline result)) \<le> n \<and>
    (\<forall>i < length (Timeline result). evaluateRampPhase rampFiles rampConfig (''out'', ''server'') (hd [(''out'', ''client'')]) (int i) =
      Inr (Timeline result ! i)) \<and>
    (if Censored result
     then int (length (Timeline result)) = n \<and> ScoreConns result = 0 \<and> (\<forall>p \<in> set (Timeline result). seOK (Evaluation p))
     else Timeline result \<noteq> [] \<and> \<not> seOK (Evaluation (last (Timeline result))) \<and>
       ScoreConns result = ActiveConns (last (Timeline result)) \<and> rrCause result = seCause (Evaluation (last (Timeline result))) \<and>
       (\<forall>p \<in> set (butlast (Timeline result)). seOK (Evaluation p)))"
proof -
  obtain result where r: "scoreRampSnapshots rampFiles rampConfig (''out'', ''server'') [(''out'', ''client'')] = Inr result"
    using sample_score by blast
  from ramp_score_is_first_break [OF r] show ?thesis using r by (intro exI [of _ result]) (elim exE, intro exI conjI; elim conjE; assumption)
qed

section \<open>The watcher stops at the score\<close>

lemma watchFrom_scores:
  assumes "watchFrom phase n index attempts = Some point"
    and "\<And>fs i p. fs \<in> set attempts \<Longrightarrow> phase fs i = Inr p \<Longrightarrow> final i = Inr p"
  shows "\<exists>timeline'. scoreFrom final (nat (n - index)) index timeline = Inr (timeline', Some point)"
  using assms
proof (induction attempts arbitrary: index timeline)
  case (Cons fs later)
  have later: "f \<in> set later \<Longrightarrow> phase f i = Inr p \<Longrightarrow> final i = Inr p" for f i p
    by (rule Cons.prems(2)) auto
  have index: "index < n" using Cons.prems(1) by (auto split: if_splits)
  then have k: "nat (n - index) = Suc (nat (n - (index + 1)))" by simp
  show ?case
  proof (cases "phase fs index")
    case (Inl e)
    then have "watchFrom phase n index later = Some point" using Cons.prems(1) index by simp
    then show ?thesis by (rule Cons.IH) (erule (1) later)
  next
    case (Inr p)
    then have final: "final index = Inr p" by (rule Cons.prems(2) [rotated]) simp
    show ?thesis
    proof (cases "seOK (Evaluation p)")
      case True
      then have "watchFrom phase n (index + 1) later = Some point" using Cons.prems(1) index Inr by simp
      then have "\<exists>timeline'. scoreFrom final (nat (n - (index + 1))) (index + 1) (timeline @ [p]) = Inr (timeline', Some point)"
        by (rule Cons.IH) (erule (1) later)
      then show ?thesis unfolding k using final True by simp
    next
      case False
      then show ?thesis using Cons.prems(1) index Inr final unfolding k by simp
    qed
  qed
qed simp

text \<open>
  C23. The watcher agrees with the score: if a snapshot pair that could once be judged stays as it
  is, then whenever the watcher stops the endpoints, scoring the final files succeeds, is not
  censored and names the connections and the cause of the point the watcher stopped at.
\<close>

theorem watcher_agrees_with_score:
  assumes "watchRampSnapshots cfg serverBase clientBases stopPath attempts = Inr (Some point)"
    and "cScenario cfg \<noteq> None"
    and "\<And>fs i p. fs \<in> set attempts \<Longrightarrow> evaluateRampPhase fs cfg serverBase (hd clientBases) i = Inr p \<Longrightarrow>
      evaluateRampPhase final cfg serverBase (hd clientBases) i = Inr p"
  shows "\<exists>result. scoreRampSnapshots final cfg serverBase clientBases = Inr result \<and> \<not> Censored result \<and>
    last (Timeline result) = point \<and> ScoreConns result = ActiveConns point \<and> rrCause result = seCause (Evaluation point)"
proof -
  obtain ramp n where ramp: "cRamp cfg = Some ramp" "levels ramp (cTotalConns cfg) = Inr n" and one: "length clientBases = 1"
    and watch: "watchFrom (\<lambda>fs. evaluateRampPhase fs cfg serverBase (clientBases ! 0)) n 0 attempts = Some point"
    using assms(1) by (auto simp: watchRampSnapshots_def rbind_eq_Inr_iff split: option.splits if_splits)
  have base: "clientBases ! 0 = hd clientBases" using one by (cases clientBases) simp_all
  obtain timeline where score: "scoreFrom (evaluateRampPhase final cfg serverBase (clientBases ! 0)) (nat n) 0 [] =
      Inr (timeline, Some point)"
    using watchFrom_scores [OF watch, of "evaluateRampPhase final cfg serverBase (clientBases ! 0)" "[]"] assms(3)
    unfolding base by auto
  then have "last timeline = point" using scoreFrom_prefix [OF score] by auto
  then show ?thesis
    using assms(2) ramp one score by (auto simp: scoreRampSnapshots_def rampResult_def)
qed

lemma watcher_agrees_with_score_witness:
  "\<exists>point result. watchRampSnapshots rampConfig (''out'', ''server'') [(''out'', ''client'')] ''stop'' [rampFiles] = Inr (Some point) \<and>
    scoreRampSnapshots rampFiles rampConfig (''out'', ''server'') [(''out'', ''client'')] = Inr result \<and> \<not> Censored result \<and>
    last (Timeline result) = point \<and> ScoreConns result = ActiveConns point \<and> rrCause result = seCause (Evaluation point)"
proof -
  obtain point where point: "evaluateRampPhase rampFiles rampConfig (''out'', ''server'') (''out'', ''client'') 0 = Inr point"
    "\<not> seOK (Evaluation point)" using sample_level by blast
  have "levels sampleRamp 100 = Inr 4" by code_simp
  then have watch: "watchRampSnapshots rampConfig (''out'', ''server'') [(''out'', ''client'')] ''stop'' [rampFiles] = Inr (Some point)"
    using point by (simp add: watchRampSnapshots_def rampConfig_ramp)
  have "cScenario rampConfig \<noteq> None" by (simp add: rampConfig_scenario)
  from watcher_agrees_with_score [OF watch this, of rampFiles] show ?thesis using watch by auto
qed

end
