(* ===== verification/LossTrace.thy ===== *)
theory LossTrace
  imports Float64
begin

text \<open>
  The deterministic loss trace (\<open>orchestrator/netops/losstrace\<close>): its generation by a
  Gilbert-Elliott chain (\<open>Generate\<close>), its replay by the egress program (\<open>bpf/losstrace.c\<close>) and
  the count of the drops of a range of packets (\<open>CountDropsInRange\<close>). The numbers
  \<open>rng.Float64()\<close> returns are a parameter: one of them is drawn for every bit.
\<close>

section \<open>The code\<close>

datatype trace_error =
    BitsNotPowerOfTwo int
  | LossOutOfRange f64
  | Infeasible f64 f64
  | TraceNotPowerOfTwo u64
  | InvalidRange u64 u64
  | IndexPanic

text \<open>One turn of the loop of \<open>Generate\<close>: the state is \<open>bad\<close>, \<open>words\<close> and \<open>dropped\<close>.\<close>

definition chainStep :: "(nat \<Rightarrow> f64) \<Rightarrow> f64 \<Rightarrow> f64 \<Rightarrow> bool \<Rightarrow> nat \<Rightarrow> bool" where
  "chainStep draws p r bad i = (if bad then \<not> f_lt (draws i) r else f_lt (draws i) p)"

definition setBit :: "u64 list \<Rightarrow> nat \<Rightarrow> u64 list" where
  "setBit words i = words[i div 64 := words ! (i div 64) OR push_bit (i mod 64) 1]"

definition generateStep :: "(nat \<Rightarrow> f64) \<Rightarrow> f64 \<Rightarrow> f64 \<Rightarrow> bool \<times> u64 list \<times> nat \<Rightarrow> nat \<Rightarrow>
    trace_error + bool \<times> u64 list \<times> nat" where
  "generateStep draws p r = (\<lambda>(bad, words, dropped) i.
     let bad = chainStep draws p r bad i
     in if bad
        then if i div 64 < length words
             then Inr (bad, setBit words i, dropped + 1) else Inl IndexPanic
        else Inr (bad, words, dropped))"

text \<open>The probabilities of the chain: of leaving and of entering the bad state.\<close>

definition burstOf :: "f64 \<Rightarrow> f64" where
  "burstOf burstLen = (if f_lt burstLen (FFin 1) then FFin 1 else burstLen)"

definition leaveBad :: "f64 \<Rightarrow> f64" where
  "leaveBad burstLen = f_div (FFin 1) (burstOf burstLen)"

definition enterBad :: "f64 \<Rightarrow> f64 \<Rightarrow> f64" where
  "enterBad lossPct burstLen =
     (let loss = f_div lossPct (FFin 100) in f_div (f_mul loss (leaveBad burstLen)) (f_sub (FFin 1) loss))"

definition lossRate :: "nat \<Rightarrow> int \<Rightarrow> f64" where
  "lossRate dropped bits = f_mul (f_div (f_of_int (int dropped)) (f_of_int bits)) (FFin 100)"

definition Generate :: "(nat \<Rightarrow> f64) \<Rightarrow> f64 \<Rightarrow> f64 \<Rightarrow> int \<Rightarrow> trace_error + u64 list \<times> f64" where
  "Generate draws lossPct burstLen bits =
     (if bits \<le> 0 \<or> bits AND (bits - 1) \<noteq> 0 then Inl (BitsNotPowerOfTwo bits)
      else if f_le lossPct (FFin 0) \<or> f_le (FFin 100) lossPct then Inl (LossOutOfRange lossPct)
      else
        let r = leaveBad burstLen; p = enterBad lossPct burstLen
        in if f_le (FFin 1) p then Inl (Infeasible lossPct (burstOf burstLen))
           else rbind (foldM (generateStep draws p r) (False, replicate (nat (bits div 64)) 0, 0) [0..<nat bits])
             (\<lambda>(bad, words, dropped). Inr (words, lossRate dropped bits)))"

text \<open>\<open>bits2.OnesCount64\<close>.\<close>

definition onesCount :: "u64 \<Rightarrow> nat" where
  "onesCount w = length (filter (bit w) [0..<64])"

text \<open>The loop over the words of the last, incomplete round of the trace.\<close>

definition chunkFrom :: "u64 \<Rightarrow> u64 \<Rightarrow> u64 \<Rightarrow> u64" where
  "chunkFrom offset rest counted =
     (let chunk = 64 - offset; remaining = rest - counted in if remaining < chunk then remaining else chunk)"

definition chunkMask :: "u64 \<Rightarrow> u64" where
  "chunkMask chunk = (if chunk < 64 then push_bit (unat chunk) 1 - 1 else - 1)"

lemma and_63: "unat (idx AND 63 :: u64) = unat idx mod 64"
proof -
  have "idx AND 63 = take_bit 6 idx"
    by (simp add: take_bit_eq_mask mask_eq_exp_minus_1)
  then show ?thesis by (simp only: unsigned_take_bit_eq) (simp add: take_bit_eq_mod)
qed

lemma unat_chunkFrom:
  assumes "counted < rest"
  shows "unat (chunkFrom (idx AND 63) rest counted) = min (64 - unat idx mod 64) (unat rest - unat counted)"
proof -
  have o: "unat (64 - (idx AND 63)) = 64 - unat idx mod 64"
    by (subst unat_sub) (simp_all add: and_63 word_le_nat_alt)
  have r: "unat (rest - counted) = unat rest - unat counted"
    using assms by (intro unat_sub) simp
  show ?thesis
    by (simp add: chunkFrom_def Let_def word_less_nat_alt o r min_def)
qed

lemma unat_counted:
  assumes "counted < rest" and "unat chunk \<le> unat rest - unat counted"
  shows "unat (counted + chunk :: u64) = unat counted + unat chunk"
  using assms unat_u64_less [of rest] by (intro unat_u64_add) (simp add: word_less_nat_alt)

function countTail :: "u64 list \<Rightarrow> u64 \<Rightarrow> u64 \<Rightarrow> u64 \<Rightarrow> u64 \<Rightarrow> u64 \<Rightarrow> trace_error + u64" where
  "countTail words bits start rest counted drops =
     (if counted < rest
      then
        let idx = (start + counted) AND (bits - 1);
            offset = idx AND 63;
            chunk = chunkFrom offset rest counted
        in if unat (drop_bit 6 idx) < length words
           then countTail words bits start rest (counted + chunk)
             (drops + of_nat (onesCount (drop_bit (unat offset) (words ! unat (drop_bit 6 idx)) AND chunkMask chunk)))
           else Inl IndexPanic
      else Inr drops)"
  by pat_completeness auto

termination
proof (relation "measure (\<lambda>(words, bits, start, rest, counted, drops). unat rest - unat counted)")
  fix words :: "u64 list" and bits start rest counted drops idx offset chunk :: u64
  assume less: "counted < rest" and offset: "offset = idx AND 63" and chunk: "chunk = chunkFrom offset rest counted"
  have c: "unat chunk = min (64 - unat idx mod 64) (unat rest - unat counted)"
    using unat_chunkFrom [OF less] offset chunk by simp
  have "unat (counted + chunk) = unat counted + unat chunk"
    using unat_counted [OF less] c by simp
  moreover have "0 < unat chunk" using c less by (simp add: word_less_nat_alt)
  ultimately show "((words, bits, start, rest, counted + chunk, drops + of_nat (onesCount
      (drop_bit (unat offset) (words ! unat (drop_bit 6 idx)) AND chunkMask chunk))),
     (words, bits, start, rest, counted, drops)) \<in> measure (\<lambda>(words, bits, start, rest, counted, drops). unat rest - unat counted)"
    using less by (simp add: word_less_nat_alt)
qed simp

declare countTail.simps [simp del]

definition CountDropsInRange :: "u64 list \<Rightarrow> u64 \<Rightarrow> u64 \<Rightarrow> trace_error + u64" where
  "CountDropsInRange words from to =
     (let bits = of_nat (length words) * 64
      in if bits = 0 \<or> bits AND (bits - 1) \<noteq> 0 then Inl (TraceNotPowerOfTwo bits)
         else if to < from then Inl (InvalidRange from to)
         else
           let packets = to - from;
               total = foldl (\<lambda>t word. t + of_nat (onesCount word)) 0 words
           in countTail words bits (from AND (bits - 1)) (packets mod bits) 0 (packets div bits * total))"

type_synonym u32 = "32 word"

text \<open>
  The egress program: the counter after a packet, and whether the packet is dropped. The key of a word
  has 32 bits; a key without an entry lets the packet pass.
\<close>

definition losstrace_egress :: "u64 list \<Rightarrow> u64 \<Rightarrow> u64 \<Rightarrow> u64 \<times> bool" where
  "losstrace_egress trace lt_mask cnt =
     (let idx = cnt AND lt_mask; word = ucast (drop_bit 6 idx) :: u32
      in (cnt + 1, unat word < length trace \<and> drop_bit (unat (idx AND 63)) (trace ! unat word) AND 1 \<noteq> 0))"

text \<open>
  What \<open>loadProgram\<close> and the puts of \<open>Attach\<close> hand to the program: the entries of the trace map and the
  mask. The size of the map is the number of words cut to 32 bits; the kernel accepts no map without
  entries and no key beyond them.
\<close>

definition traceMask :: "u64 list \<Rightarrow> u64" where
  "traceMask words = of_nat (length words * 64 - 1)"

definition loadTrace :: "u64 list \<Rightarrow> (u64 list \<times> u64) option" where
  "loadTrace words =
     (let entries = unat (of_nat (length words) :: u32)
      in if entries = 0 \<or> list_ex (\<lambda>i. entries \<le> unat (of_nat i :: u32)) [0..<length words] then None
         else Some (words, traceMask words))"

text \<open>The drops of \<open>n\<close> packets replayed from a counter.\<close>

fun replay :: "u64 list \<times> u64 \<Rightarrow> nat \<Rightarrow> u64 \<Rightarrow> u64 \<times> nat" where
  "replay program 0 cnt = (cnt, 0)"
| "replay program (Suc n) cnt =
     (case losstrace_egress (fst program) (snd program) cnt of (cnt, dropped) \<Rightarrow>
      case replay program n cnt of (cnt, drops) \<Rightarrow> (cnt, (if dropped then 1 else 0) + drops))"

section \<open>Periodic drops\<close>

text \<open>
  An oracle that says for every packet number whether the packet is dropped and repeats after
  \<open>period\<close> packets; the number of drops of a range of packets follows from one round of it.
\<close>

locale periodic_drops =
  fixes dropped :: "nat \<Rightarrow> bool" and period :: nat
  assumes repeats: "dropped (i + period) = dropped i"
begin

definition drops :: "nat \<Rightarrow> nat \<Rightarrow> nat" where
  "drops a n = length (filter dropped [a..<a + n])"

lemma drops_0 [simp]: "drops a 0 = 0"
  by (simp add: drops_def)

lemma drops_Suc: "drops a (Suc n) = drops a n + (if dropped (a + n) then 1 else 0)"
  by (simp add: drops_def)

lemma drops_add: "drops a (m + n) = drops a m + drops (a + m) n"
  by (induction n) (simp_all add: drops_Suc add.assoc)

lemma drops_head: "drops a (Suc n) = (if dropped a then 1 else 0) + drops (Suc a) n"
  using drops_add [of a 1 n] by (simp add: drops_Suc)

lemma drops_shift: "drops (a + period) n = drops a n"
proof (induction n)
  case (Suc n)
  have "dropped (a + period + n) = dropped (a + n)"
    using repeats [of "a + n"] by (simp add: algebra_simps)
  then show ?case using Suc.IH by (simp add: drops_Suc)
qed simp

lemma drops_round: "drops a period = drops 0 period"
proof (induction a)
  case (Suc a)
  have "(if dropped a then 1 else 0) + drops (Suc a) period = drops a (Suc period)"
    by (simp add: drops_head)
  also have "\<dots> = drops a period + (if dropped a then 1 else 0)"
    by (simp add: drops_Suc repeats)
  finally show ?case using Suc.IH by simp
qed simp

lemma drops_rounds: "drops a (q * period) = q * drops 0 period"
proof (induction q)
  case (Suc q)
  have "drops a (Suc q * period) = drops a (period + q * period)" by simp
  also have "\<dots> = drops a period + drops (a + period) (q * period)"
    by (rule drops_add)
  also have "\<dots> = drops 0 period + q * drops 0 period"
    using Suc.IH by (simp only: drops_round [of a] drops_shift)
  finally show ?case by simp
qed simp

lemma drops_shifts: "drops (a + q * period) n = drops a n"
proof (induction q)
  case (Suc q)
  have "drops (a + Suc q * period) n = drops (a + q * period + period) n"
    by (simp add: algebra_simps)
  then show ?case using Suc.IH by (simp only: drops_shift)
qed simp

lemma drops_start: "drops (a mod period) n = drops a n"
  using drops_shifts [of "a mod period" "a div period" n] by (simp add: mult.commute)

text \<open>The count of a range is that of its whole rounds and of the rest.\<close>

lemma drops_range:
  "drops a n = n div period * drops 0 period + drops (a mod period) (n mod period)"
proof -
  have "drops a n = drops a (n div period * period + n mod period)" by simp
  also have "\<dots> = n div period * drops 0 period + drops (a + n div period * period) (n mod period)"
    by (simp only: drops_add drops_rounds)
  finally show ?thesis by (simp only: drops_shifts drops_start)
qed

lemma drops_le: "drops a n \<le> n"
  unfolding drops_def by (rule order_trans [OF length_filter_le]) simp

end

section \<open>The oracle of a trace\<close>

text \<open>Bit \<open>i mod 64\<close> of word \<open>i div 64\<close> decides packet \<open>i\<close>, the trace repeating.\<close>

definition traceBit :: "u64 list \<Rightarrow> nat \<Rightarrow> bool" where
  "traceBit words i = bit (words ! (i div 64)) (i mod 64)"

definition packetDropped :: "u64 list \<Rightarrow> nat \<Rightarrow> bool" where
  "packetDropped words i = traceBit words (i mod (64 * length words))"

interpretation lt: periodic_drops "packetDropped words" "64 * length words" for words
  by unfold_locales (simp add: packetDropped_def)

text \<open>The drops among the packets \<open>a \<dots> a + n - 1\<close>.\<close>

definition dropsAmong :: "u64 list \<Rightarrow> nat \<Rightarrow> nat \<Rightarrow> nat" where
  "dropsAmong words a n = length (filter (packetDropped words) [a..<a + n])"

lemma dropsAmong_drops: "dropsAmong words = lt.drops words"
  by (simp add: fun_eq_iff dropsAmong_def lt.drops_def)

lemma bit_chunkMask:
  assumes "unat chunk \<le> 64"
  shows "bit (chunkMask chunk) j \<longleftrightarrow> j < 64 \<and> j < unat chunk"
proof (cases "chunk < 64")
  case True
  have "push_bit (unat chunk) 1 - 1 = (mask (unat chunk) :: u64)"
    by (simp add: mask_eq_exp_minus_1 push_bit_eq_mult)
  then show ?thesis using True by (auto simp: chunkMask_def bit_mask_iff)
next
  case False
  then have "unat chunk = 64" using assms by (simp add: word_less_nat_alt)
  then show ?thesis using False by (auto simp: chunkMask_def)
qed

lemma filter_upt_bounded: "m \<le> n \<Longrightarrow> filter (\<lambda>j. j < m \<and> P j) [0..<n] = filter P [0..<m]"
proof (induction n)
  case (Suc n)
  show ?case
  proof (cases "m = Suc n")
    case True
    then show ?thesis by (auto intro: filter_cong)
  next
    case False
    then show ?thesis using Suc by simp
  qed
qed simp

lemma onesCount_chunk:
  assumes "unat chunk + o1 \<le> 64"
  shows "onesCount (drop_bit o1 w AND chunkMask chunk) = length (filter (\<lambda>j. bit w (o1 + j)) [0..<unat chunk])"
proof -
  have "filter (bit (drop_bit o1 w AND chunkMask chunk)) [0..<64] =
      filter (\<lambda>j. j < unat chunk \<and> bit w (o1 + j)) [0..<64]"
    using assms by (intro filter_cong) (auto simp: bit_and_iff bit_drop_bit_eq bit_chunkMask)
  then show ?thesis
    using assms by (simp add: onesCount_def filter_upt_bounded)
qed

lemma length_filter_shift: "length (filter P [a..<a + n]) = length (filter (\<lambda>j. P (a + j)) [0..<n])"
  by (induction n) simp_all

lemma dropsAmong_in_word:
  assumes "a mod (64 * length words) mod 64 + n \<le> 64" and "words \<noteq> []"
  shows "dropsAmong words a n = length (filter (\<lambda>j. bit (words ! (a mod (64 * length words) div 64))
    (a mod (64 * length words) mod 64 + j)) [0..<n])"
proof -
  define N i where "N = 64 * length words" and "i = a mod N"
  have "packetDropped words (a + j) = bit (words ! (i div 64)) (i mod 64 + j)" if "j < n" for j
  proof -
    have "i < N" using assms(2) by (simp add: i_def N_def)
    then have "i div 64 < length words" by (simp add: N_def less_mult_imp_div_less mult.commute)
    have "i mod 64 + j < 64" using assms(1) that by (simp add: i_def N_def)
    then have "(i + j) div 64 = i div 64" and m: "(i + j) mod 64 = i mod 64 + j"
      by (metis div_mult_mod_eq add.assoc div_mult_self3 div_less add.right_neutral zero_neq_numeral,
          metis mod_add_left_eq mod_less)
    moreover have "i + j < N"
    proof -
      have "i + j = 64 * (i div 64) + (i mod 64 + j)" by simp
      also have "\<dots> < 64 * Suc (i div 64)" using \<open>i mod 64 + j < 64\<close>
        by (simp only: mult_Suc_right add.commute [of 64] nat_add_left_cancel_less)
      also have "\<dots> \<le> 64 * length words" using \<open>i div 64 < length words\<close> by (intro mult_le_mono) simp_all
      finally show ?thesis by (simp add: N_def)
    qed
    then have "(a + j) mod N = i + j"
      by (metis i_def mod_add_left_eq mod_less)
    ultimately show ?thesis by (simp add: packetDropped_def traceBit_def N_def [symmetric] i_def)
  qed
  then have "filter (\<lambda>j. packetDropped words (a + j)) [0..<n] =
      filter (\<lambda>j. bit (words ! (i div 64)) (i mod 64 + j)) [0..<n]"
    by (intro filter_cong) simp_all
  then show ?thesis
    by (simp only: dropsAmong_def length_filter_shift) (simp add: i_def N_def)
qed

section \<open>Powers of two\<close>

lemma power_of_two_nat: "0 < n \<Longrightarrow> n AND (n - 1) = 0 \<Longrightarrow> \<exists>k. n = 2 ^ k" for n :: nat
proof (induction n rule: less_induct)
  case (less n)
  show ?case
  proof (cases "even n")
    case True
    then obtain m where m: "n = 2 * m" by blast
    have "0 < m" using less.prems m by simp
    then obtain j where j: "m = Suc j" by (cases m) simp_all
    have "(2 * Suc j) AND (2 * j + 1) = 2 * (Suc j AND j)"
      by (subst and_rec) simp
    then have "(2 * m) AND (2 * m - 1) = 2 * (m AND (m - 1))"
      using j by simp
    then obtain k where "m = 2 ^ k" using less m \<open>0 < m\<close> by (metis less_add_same_cancel1 mult_2 mult_eq_0_iff zero_neq_numeral)
    then have "n = 2 ^ Suc k" using m by simp
    then show ?thesis by blast
  next
    case False
    then obtain m where m: "n = 2 * m + 1" using oddE by blast
    have "n AND (n - 1) = 2 * m"
      using m by (simp add: and_nat_rec [of "Suc _"])
    then show ?thesis using less.prems(2) m by (intro exI [of _ 0]) simp
  qed
qed

lemma unat_2p: "k < 64 \<Longrightarrow> unat (2 ^ k :: u64) = 2 ^ k"
proof -
  assume "k < 64"
  then have "(2 :: nat) ^ k < 2 ^ 64" by (simp only: power_strict_increasing_iff)
  then show ?thesis using unat_u64_of_nat [of "2 ^ k"] by simp
qed

lemma power_of_two_u64:
  fixes n :: u64
  assumes "n \<noteq> 0" and "n AND (n - 1) = 0"
  shows "\<exists>k < 64. n = 2 ^ k"
proof -
  have pos: "0 < unat n" using assms(1) by (simp add: unat_gt_0)
  have "unat (n AND (n - 1)) = unat n AND unat (n - 1)" by (rule unsigned_and_eq)
  moreover have "unat (n - 1) = unat n - 1"
    using pos by (subst unat_sub) (simp_all add: word_le_nat_alt)
  ultimately obtain k where k: "unat n = 2 ^ k"
    using power_of_two_nat [of "unat n"] pos assms(2) by auto
  have "(2 :: nat) ^ k < 2 ^ 64" using unat_u64_less [of n] k by simp
  then have "k < 64" by (simp only: power_strict_increasing_iff)
  moreover have "n = 2 ^ k"
    using k \<open>k < 64\<close> by (simp add: word_eq_iff_unsigned [where ?'a = nat] unat_2p)
  ultimately show ?thesis by blast
qed

lemma and_mask_u64:
  fixes x n :: u64
  assumes "n \<noteq> 0" and "n AND (n - 1) = 0"
  shows "unat (x AND (n - 1)) = unat x mod unat n"
proof -
  obtain k where k: "k < 64" "n = 2 ^ k" using power_of_two_u64 [OF assms] by blast
  have "x AND (n - 1) = take_bit k x"
    by (simp add: k take_bit_eq_mask mask_eq_exp_minus_1)
  then show ?thesis using k by (simp add: unsigned_take_bit_eq take_bit_eq_mod unat_2p unat_mod_distrib)
qed

section \<open>The count of a range\<close>

lemma drop_bit_6: "unat (drop_bit 6 idx :: u64) = unat idx div 64"
  by (simp add: drop_bit_eq_div unat_div_distrib)

lemma unat_of_length:
  "length words < 2 ^ 58 \<Longrightarrow> unat (of_nat (length words) * 64 :: u64) = 64 * length words"
proof -
  assume l: "length words < 2 ^ 58"
  then have "unat (of_nat (length words) :: u64) = length words" by (intro unat_u64_of_nat) simp
  then show ?thesis using l by (subst unat_u64_mult) simp_all
qed

text \<open>What holds of a trace the code accepts.\<close>

definition traceOK :: "u64 list \<Rightarrow> u64 \<Rightarrow> bool" where
  "traceOK words bits \<longleftrightarrow> bits \<noteq> 0 \<and> bits AND (bits - 1) = 0 \<and> unat bits = 64 * length words"

lemma traceOK_index:
  assumes "traceOK words bits"
  shows "unat ((a + b) AND (bits - 1)) = (unat a + unat b) mod (64 * length words)"
    and "unat (drop_bit 6 ((a + b) AND (bits - 1))) < length words" and "words \<noteq> []"
proof -
  obtain k where k: "k < 64" "bits = 2 ^ k"
    using power_of_two_u64 [of bits] assms by (auto simp: traceOK_def)
  have N: "64 * length words = 2 ^ k" using assms k by (simp add: traceOK_def unat_2p)
  have "(2 :: nat) ^ k dvd 2 ^ 64" using k by (intro le_imp_power_dvd) simp
  then have "(2 :: nat) ^ k dvd 18446744073709551616" by simp
  then have "unat (a + b) mod 2 ^ k = (unat a + unat b) mod 2 ^ k"
    by (simp add: unat_word_ariths mod_mod_cancel)
  then show m: "unat ((a + b) AND (bits - 1)) = (unat a + unat b) mod (64 * length words)"
    using and_mask_u64 [of bits "a + b"] assms by (simp add: traceOK_def N)
  show ne: "words \<noteq> []" using assms by (auto simp: traceOK_def unat_eq_0)
  have "(unat a + unat b) mod (64 * length words) < 64 * length words" using ne by simp
  then show "unat (drop_bit 6 ((a + b) AND (bits - 1))) < length words"
    by (simp only: drop_bit_6 m)
qed

lemma countTail_counts:
  "traceOK words bits \<Longrightarrow> countTail words bits start rest counted drops =
    Inr (drops + of_nat (dropsAmong words (unat start + unat counted) (unat rest - unat counted)))"
proof (induction words bits start rest counted drops rule: countTail.induct)
  case (1 words bits start rest counted drops)
  show ?case
  proof (cases "counted < rest")
    case True
    define idx chunk where "idx = (start + counted) AND (bits - 1)"
      and "chunk = chunkFrom (idx AND 63) rest counted"
    note index = traceOK_index(1,2) [OF 1(2), of start counted, folded idx_def] traceOK_index(3) [OF 1(2)]
    have c: "unat chunk = min (64 - unat idx mod 64) (unat rest - unat counted)"
      using unat_chunkFrom [OF True] by (simp add: chunk_def)
    have c': "unat (counted + chunk) = unat counted + unat chunk"
      using unat_counted [OF True] c by simp
    have fit: "unat chunk + unat idx mod 64 \<le> 64"
      using c mod_less_divisor [of 64 "unat idx"] by linarith
    define a where "a = unat start + unat counted"
    have i: "unat idx = a mod (64 * length words)" by (simp add: index(1) a_def)
    have "onesCount (drop_bit (unat (idx AND 63)) (words ! unat (drop_bit 6 idx)) AND chunkMask chunk) =
        dropsAmong words a (unat chunk)"
      using fit index(3)
      by (simp add: onesCount_chunk and_63 drop_bit_6 dropsAmong_in_word i add.commute)
    moreover have "dropsAmong words a (unat chunk) + dropsAmong words (a + unat chunk) (unat rest - unat (counted + chunk)) =
        dropsAmong words a (unat rest - unat counted)"
    proof -
      have "unat chunk + (unat rest - unat (counted + chunk)) = unat rest - unat counted"
        using c c' by linarith
      then show ?thesis
        using lt.drops_add [of words a "unat chunk" "unat rest - unat (counted + chunk)"]
        by (simp only: dropsAmong_drops)
    qed
    ultimately show ?thesis
      using 1(1) [OF True idx_def refl chunk_def] 1(2) True index(2)
      by (simp add: countTail.simps [of words bits start rest counted] Let_def idx_def [symmetric]
          chunk_def [symmetric] a_def c' add.assoc of_nat_add [symmetric] del: of_nat_add)
  next
    case False
    then show ?thesis
      by (simp add: countTail.simps [of words bits start rest counted] dropsAmong_def word_less_nat_alt)
  qed
qed

lemma dropsAmong_words:
  "m \<le> length words \<Longrightarrow> dropsAmong words 0 (64 * m) = sum_list (map onesCount (take m words))"
proof (induction m)
  case (Suc m)
  have ne: "words \<noteq> []" using Suc.prems by auto
  have "64 * m mod (64 * length words) = 64 * m" using Suc.prems by simp
  then have "dropsAmong words (64 * m) 64 = onesCount (words ! m)"
    using dropsAmong_in_word [of "64 * m" words 64] ne by (simp add: onesCount_def)
  moreover have "dropsAmong words 0 (64 * Suc m) = dropsAmong words 0 (64 * m) + dropsAmong words (64 * m) 64"
    using lt.drops_add [of words 0 "64 * m" 64] by (simp add: dropsAmong_drops add.commute)
  moreover have "take (Suc m) words = take m words @ [words ! m]"
    using Suc.prems by (simp add: take_Suc_conv_app_nth)
  ultimately show ?case using Suc by simp
qed (simp add: dropsAmong_def)

lemma foldl_total: "foldl (\<lambda>t word. t + of_nat (onesCount word)) t words =
    t + (of_nat (sum_list (map onesCount words)) :: u64)"
  by (induction words arbitrary: t) (simp_all add: add.assoc)

lemma dropsAmong_le: "dropsAmong words a n \<le> n"
  by (simp only: dropsAmong_drops lt.drops_le)

lemma power_of_two_traceOK:
  assumes "length words = 2 ^ k" and "k < 58"
  shows "traceOK words (of_nat (length words) * 64)"
proof -
  have "length words < 2 ^ 58" using assms by (simp only: power_strict_increasing_iff)
  then have u: "unat (of_nat (length words) * 64 :: u64) = 64 * length words" by (rule unat_of_length)
  have b: "of_nat (length words) * 64 = (2 ^ (k + 6) :: u64)" using assms by (simp add: power_add)
  have "(2 :: u64) ^ (k + 6) AND (2 ^ (k + 6) - 1) = take_bit (k + 6) (2 ^ (k + 6))"
    by (simp add: take_bit_eq_mask mask_eq_exp_minus_1)
  also have "\<dots> = 0" by (simp add: take_bit_eq_mod)
  finally have "(2 :: u64) ^ (k + 6) AND (2 ^ (k + 6) - 1) = 0" .
  moreover have "(2 :: u64) ^ (k + 6) \<noteq> 0" using u assms by (simp add: b [symmetric] unat_eq_0 [symmetric])
  ultimately show ?thesis using u by (simp add: traceOK_def b)
qed

lemma count_drops:
  assumes "length words = 2 ^ k" and "k < 58" and "lo \<le> hi"
  shows "\<exists>n. CountDropsInRange words lo hi = Inr n \<and>
    unat n = dropsAmong words (unat lo) (unat hi - unat lo)"
proof -
  define bits :: u64 where "bits = of_nat (length words) * 64"
  define a n where "a = unat lo" and "n = unat hi - unat lo"
  have ok: "traceOK words bits" unfolding bits_def by (rule power_of_two_traceOK [OF assms(1,2)])
  then have N: "unat bits = 64 * length words" by (simp add: traceOK_def)
  have d: "unat (hi - lo) = n" using assms(3) by (simp add: n_def unat_sub)
  have start: "unat (lo AND (bits - 1)) = a mod (64 * length words)"
    using and_mask_u64 [of bits lo] ok by (simp add: traceOK_def a_def)
  have total: "foldl (\<lambda>t word. t + of_nat (onesCount word)) 0 words =
      (of_nat (dropsAmong words 0 (64 * length words)) :: u64)"
    by (simp only: foldl_total) (simp add: dropsAmong_words)
  have "(hi - lo) div bits * of_nat (dropsAmong words 0 (64 * length words)) +
      of_nat (dropsAmong words (a mod (64 * length words)) (unat ((hi - lo) mod bits))) =
      (of_nat (dropsAmong words a n) :: u64)"
    unfolding dropsAmong_drops using lt.drops_range [of words a n]
    by (simp add: unat_mod_distrib d N word_arith_nat_div)
  then have "CountDropsInRange words lo hi = Inr (of_nat (dropsAmong words a n))"
    using ok assms(3) unfolding CountDropsInRange_def Let_def bits_def [symmetric] total
    by (simp add: traceOK_def countTail_counts [OF ok] start linorder_not_less)
  moreover have "dropsAmong words a n < 2 ^ 64"
    using dropsAmong_le [of words a n] unat_u64_less [of hi] by (simp add: n_def)
  ultimately show ?thesis by (simp add: a_def n_def unat_u64_of_nat del: of_nat_unat)
qed

text \<open>
  C11. Counting the drops of a range: for a trace whose length is a power of two
  \<open>CountDropsInRange\<close> never panics, and its result is the number of packets of the range
  \<open>[from, to)\<close> whose bit is set in the trace repeated for ever; no sum wraps around.
\<close>

theorem count_drops_exact:
  assumes "length words = 2 ^ k" and "k < 58" and "lo \<le> hi"
  shows "\<exists>n. CountDropsInRange words lo hi = Inr n \<and>
    unat n = dropsAmong words (unat lo) (unat hi - unat lo)"
  by (rule count_drops [OF assms])

lemma count_drops_exact_witness:
  "\<exists>n. CountDropsInRange [5, 6] 126 131 = Inr n \<and> unat n = dropsAmong [5, 6] 126 5"
  using count_drops_exact [of "[5, 6]" 1 126 131] by simp

section \<open>The replay\<close>

lemma and_one_drop_bit: "drop_bit n w AND 1 \<noteq> (0 :: u64) \<longleftrightarrow> bit w n"
  by (simp add: and_one_eq bit_iff_odd_drop_bit mod_2_eq_odd)

text \<open>A trace that could be loaded has fewer words than 32-bit keys.\<close>

lemma loaded_length:
  assumes "loadTrace words = Some program" and "length words = 2 ^ k"
  shows "k < 32" and "program = (words, traceMask words)"
proof -
  have "unat (of_nat (length words) :: u32) \<noteq> 0" using assms(1) by (auto simp: loadTrace_def Let_def split: if_splits)
  then have "\<not> 2 ^ 32 dvd length words" by (simp add: unat_of_nat dvd_eq_mod_eq_0)
  then show "k < 32" using assms(2) by (metis le_imp_power_dvd not_less)
  show "program = (words, traceMask words)" using assms(1) by (auto simp: loadTrace_def Let_def split: if_splits)
qed

lemma egress_drops:
  assumes "length words = 2 ^ k" and "k < 32"
  shows "losstrace_egress words (traceMask words) cnt = (cnt + 1, packetDropped words (unat cnt))"
proof -
  define bits :: u64 where "bits = of_nat (length words) * 64"
  have ok: "traceOK words bits" unfolding bits_def using assms(2) by (intro power_of_two_traceOK [OF assms(1)]) simp
  have lt_mask: "traceMask words = bits - 1"
    using assms(1) by (simp add: traceMask_def bits_def of_nat_diff)
  have i: "unat (cnt AND (bits - 1)) = unat cnt mod (64 * length words)"
    using traceOK_index(1) [OF ok, of cnt 0] by simp
  have w: "unat cnt mod (64 * length words) div 64 < length words"
    using traceOK_index(2) [OF ok, of cnt 0, unfolded drop_bit_6] i by simp
  moreover have "length words < 2 ^ 32" using assms by (simp only: power_strict_increasing_iff)
  ultimately have "unat cnt mod (64 * length words) div 64 < 2 ^ 32" by linarith
  then have key: "unat (ucast (drop_bit 6 (cnt AND (bits - 1))) :: u32) = unat cnt mod (64 * length words) div 64"
    using i by (simp add: unsigned_ucast_eq take_bit_eq_mod drop_bit_6 del: drop_bit_and)
  show ?thesis using i w
    by (simp add: losstrace_egress_def lt_mask Let_def key and_one_drop_bit and_63 packetDropped_def traceBit_def del: drop_bit_and)
qed

lemma filter_packets_cong:
  assumes "\<And>j. packetDropped words (a + j) = packetDropped words (b + j)"
  shows "dropsAmong words a n = dropsAmong words b n"
  by (simp add: dropsAmong_def length_filter_shift assms)

lemma replay_drops:
  assumes "length words = 2 ^ k" and "k < 32"
  shows "replay (words, traceMask words) n cnt = (cnt + of_nat n, dropsAmong words (unat cnt) n)"
proof (induction n arbitrary: cnt)
  case (Suc n)
  have "unat (cnt + 1) mod (64 * length words) = Suc (unat cnt) mod (64 * length words)"
    using power_of_two_traceOK [OF assms(1)] assms(2) traceOK_index(1) [of words _ "cnt + 1" 0]
      traceOK_index(1) [of words _ cnt 1] by simp
  then have "(unat (cnt + 1) + j) mod (64 * length words) = (Suc (unat cnt) + j) mod (64 * length words)" for j
    by (rule mod_add_cong) simp
  then have "packetDropped words (unat (cnt + 1) + j) = packetDropped words (Suc (unat cnt) + j)" for j
    by (simp only: packetDropped_def)
  then have "dropsAmong words (unat (cnt + 1)) n = dropsAmong words (Suc (unat cnt)) n"
    by (rule filter_packets_cong)
  then show ?case
    using Suc.IH [of "cnt + 1"] lt.drops_head [of words "unat cnt" n]
    by (simp add: egress_drops [OF assms] dropsAmong_drops)
qed (simp add: dropsAmong_def)

text \<open>
  C12. What the kernel drops is what the orchestrator counts: a program loaded with a trace of a power of two
  words replays the packets of a range, from any counter that does not overflow on the way, so that the counter
  advances by their number and as many of them are dropped as \<open>CountDropsInRange\<close> returns for the range.
\<close>

theorem replayed_drops_are_counted:
  assumes "length words = 2 ^ k" and "loadTrace words = Some program" and "unat cnt + n < 2 ^ 64"
  shows "\<exists>d. CountDropsInRange words cnt (cnt + of_nat n) = Inr d \<and>
    replay program n cnt = (cnt + of_nat n, unat d)"
proof -
  note k = loaded_length [OF assms(2,1)]
  have "unat (of_nat n :: u64) = n" using assms(3) by (intro unat_u64_of_nat) simp
  then have "unat (cnt + of_nat n) = unat cnt + n"
    using assms(3) by (subst unat_u64_add) simp_all
  then show ?thesis
    using count_drops [OF assms(1), of cnt "cnt + of_nat n"] replay_drops [OF assms(1) k(1), of n cnt] k
    by (auto simp: word_le_nat_alt)
qed

lemma replayed_drops_are_counted_witness:
  "\<exists>program d. loadTrace [5, 6] = Some program \<and> CountDropsInRange [5, 6] 126 (126 + of_nat 5) = Inr d \<and>
    replay program 5 126 = (126 + of_nat 5, unat d)"
proof -
  have "loadTrace [5, 6] = Some ([5, 6], traceMask [5, 6])" by code_simp
  then show ?thesis using replayed_drops_are_counted [of "[5, 6]" 1 _ 126 5] by simp
qed

section \<open>Generation\<close>

text \<open>The state of the chain after the draw of bit \<open>i\<close>.\<close>

fun chain :: "(nat \<Rightarrow> f64) \<Rightarrow> f64 \<Rightarrow> f64 \<Rightarrow> nat \<Rightarrow> bool" where
  "chain draws p r 0 = chainStep draws p r False 0"
| "chain draws p r (Suc i) = chainStep draws p r (chain draws p r i) (Suc i)"

definition generated :: "(nat \<Rightarrow> f64) \<Rightarrow> f64 \<Rightarrow> f64 \<Rightarrow> nat \<Rightarrow> nat \<Rightarrow> bool \<times> u64 list \<times> nat \<Rightarrow> bool" where
  "generated draws p r L n = (\<lambda>(bad, words, dropped).
     length words = L \<and> bad = (0 < n \<and> chain draws p r (n - 1)) \<and>
     (\<forall>i < 64 * L. traceBit words i \<longleftrightarrow> i < n \<and> chain draws p r i) \<and>
     dropped = length (filter (chain draws p r) [0..<n]))"

lemma chainStep_chain: "chainStep draws p r (0 < n \<and> chain draws p r (n - 1)) n = chain draws p r n"
  by (cases n) simp_all

lemma traceBit_set:
  assumes "n div 64 < length words" and "i < 64 * length words"
  shows "traceBit (setBit words n) i \<longleftrightarrow> traceBit words i \<or> i = n"
proof -
  have "i = n \<longleftrightarrow> i div 64 = n div 64 \<and> i mod 64 = n mod 64"
    by (metis div_mult_mod_eq)
  moreover have "i div 64 < length words" using assms(2) by (simp add: less_mult_imp_div_less mult.commute)
  ultimately show ?thesis
    using assms(1)
    by (auto simp: traceBit_def setBit_def nth_list_update bit_or_iff bit_push_bit_iff bit_1_iff simp del: push_bit_of_1)
qed

lemma length_setBit [simp]: "length (setBit words n) = length words"
  by (simp add: setBit_def)

lemma generateStep_generated:
  assumes "generated draws p r L n s" and "n < 64 * L"
  shows "\<exists>t. generateStep draws p r s n = Inr t \<and> generated draws p r L (Suc n) t"
proof -
  obtain bad words dropped where s: "s = (bad, words, dropped)" by (cases s)
  have i: "n div 64 < L" using assms(2) by (simp add: less_mult_imp_div_less mult.commute)
  have st: "chainStep draws p r bad n = chain draws p r n"
    using assms(1) chainStep_chain by (simp add: generated_def s)
  show ?thesis
  proof (cases "chain draws p r n")
    case True
    then have "generateStep draws p r s n = Inr (True, setBit words n, dropped + 1)"
      using assms(1) i st by (simp add: s generateStep_def generated_def)
    moreover have "generated draws p r L (Suc n) (True, setBit words n, dropped + 1)"
      using assms i True by (auto simp: generated_def s traceBit_set less_Suc_eq)
    ultimately show ?thesis by blast
  next
    case False
    then have "generateStep draws p r s n = Inr (False, words, dropped)"
      using st by (simp add: s generateStep_def)
    moreover have "generated draws p r L (Suc n) (False, words, dropped)"
      using assms False by (auto simp: generated_def s less_Suc_eq)
    ultimately show ?thesis by blast
  qed
qed

lemma generated_foldM:
  assumes "n \<le> 64 * L"
  shows "\<exists>t. foldM (generateStep draws p r) (False, replicate L 0, 0) [0..<n] = Inr t \<and> generated draws p r L n t"
  using assms
proof (induction n)
  case 0
  then show ?case by (auto simp: generated_def traceBit_def less_mult_imp_div_less mult.commute)
next
  case (Suc n)
  then obtain t where "foldM (generateStep draws p r) (False, replicate L 0, 0) [0..<n] = Inr t"
    and "generated draws p r L n t" by auto
  then show ?case
    using generateStep_generated [of draws p r L n t] Suc.prems by (simp add: foldM_append)
qed

lemma int_power_and: "(2 :: int) ^ k AND (2 ^ k - 1) = 0"
proof -
  have "(2 :: int) ^ k AND (2 ^ k - 1) = take_bit k (2 ^ k)"
    by (simp add: take_bit_eq_mask mask_eq_exp_minus_1)
  then show ?thesis by (simp add: take_bit_eq_mod)
qed

text \<open>
  C32. Generating a trace: for every length that is a power of two of at least 64 bits, and a loss
  rate and burst length the chain can have, \<open>Generate\<close> succeeds with a trace of that length; its
  bits are the states of the Gilbert-Elliott chain over the draws, and the rate it reports is that
  of the bits set, which \<open>CountDropsInRange\<close> counts.
\<close>

theorem generated_trace_is_the_chain:
  assumes "bits = 2 ^ k" and "6 \<le> k" and "k < 64"
    and "f_lt (FFin 0) lossPct" and "f_lt lossPct (FFin 100)"
    and "\<not> f_le (FFin 1) (enterBad lossPct burstLen)"
  shows "\<exists>words d. Generate draws lossPct burstLen bits = Inr (words, lossRate d bits) \<and>
    64 * length words = nat bits \<and>
    (\<forall>i < nat bits. traceBit words i \<longleftrightarrow> chain draws (enterBad lossPct burstLen) (leaveBad burstLen) i) \<and>
    CountDropsInRange words 0 (word_of_int bits) = Inr (of_nat d)"
proof -
  define p r L where "p = enterBad lossPct burstLen" and "r = leaveBad burstLen" and "L = (2 :: nat) ^ (k - 6)"
  have "(2 :: nat) ^ k = 2 ^ (6 + (k - 6))" using assms(2) by simp
  then have k: "(2 :: nat) ^ k = 64 * L" by (simp only: power_add L_def) simp
  then have bits: "bits = int (64 * L)" "bits = int (2 ^ k)" by (simp_all add: assms(1) flip: of_nat_power k)
  obtain bad words d where run: "foldM (generateStep draws p r) (False, replicate L 0, 0) [0..<nat bits] =
      Inr (bad, words, d)" and g: "generated draws p r L (nat bits) (bad, words, d)"
    using generated_foldM [of "nat bits" L draws p r] bits by fastforce
  have "Generate draws lossPct burstLen bits = Inr (words, lossRate d bits)"
  proof -
    have "nat (bits div 64) = L" using bits(1) by simp
    moreover have "\<not> bits \<le> 0" and "bits AND (bits - 1) = 0" using int_power_and [of k] by (simp_all add: assms(1))
    moreover have "\<not> f_le lossPct (FFin 0)" and "\<not> f_le (FFin 100) lossPct" using assms(4,5) by (cases lossPct; simp)+
    ultimately show ?thesis using assms(6) run by (simp add: Generate_def Let_def p_def r_def)
  qed
  moreover have len: "64 * length words = nat bits" using g bits by (simp add: generated_def)
  moreover have tb: "\<forall>i < nat bits. traceBit words i \<longleftrightarrow> chain draws p r i"
    using g bits by (simp add: generated_def)
  moreover have "CountDropsInRange words 0 (word_of_int bits) = Inr (of_nat d)"
  proof -
    have u: "unat (word_of_int bits :: u64) = nat bits"
      using unat_2p [OF assms(3)] assms(1) by simp
    obtain n where n: "CountDropsInRange words 0 (word_of_int bits) = Inr n" "unat n = dropsAmong words 0 (nat bits)"
    proof -
      have "length words = 2 ^ (k - 6)" using g by (simp add: generated_def L_def)
      moreover have "k - 6 < 58" using assms(2,3) by linarith
      ultimately show ?thesis
        using count_drops [of words "k - 6" 0 "word_of_int bits"] u that by auto
    qed
    have "dropsAmong words 0 (nat bits) = length (filter (chain draws p r) [0..<nat bits])"
      unfolding dropsAmong_def using tb len
      by (intro arg_cong [where f = length] filter_cong) (auto simp: packetDropped_def)
    also have "\<dots> = d" using g by (simp add: generated_def)
    finally have "of_nat d = n" using n(2) unat_u64_less [of n] by (simp add: word_eq_iff_unsigned [where ?'a = nat] unat_of_nat)
    then show ?thesis using n(1) by simp
  qed
  ultimately show ?thesis unfolding p_def r_def by blast
qed

lemma generated_trace_is_the_chain_witness:
  "\<exists>words d. Generate (\<lambda>i. if i mod 7 = 3 then FFin 0 else FFin (1 / 2)) (FFin 5) (FFin 2) 64 = Inr (words, lossRate d 64) \<and>
    64 * length words = nat 64 \<and>
    (\<forall>i < nat 64. traceBit words i \<longleftrightarrow> chain (\<lambda>i. if i mod 7 = 3 then FFin 0 else FFin (1 / 2))
      (enterBad (FFin 5) (FFin 2)) (leaveBad (FFin 2)) i) \<and>
    CountDropsInRange words 0 (word_of_int 64) = Inr (of_nat d)"
proof (rule generated_trace_is_the_chain [of 64 6])
  show "\<not> f_le (FFin 1) (enterBad (FFin 5) (FFin 2))" by code_simp
qed simp_all

section \<open>Counting in a generated trace\<close>

lemma int_and_pred:
  fixes n :: int
  assumes "0 < n" and "n AND (n - 1) = 0"
  obtains k where "n = 2 ^ k"
proof -
  define m where "m = nat n"
  have n: "n = int m" "0 < m" using assms(1) by (auto simp: m_def)
  have "int (m AND (m - 1)) = int m AND int (m - 1)" by (rule of_nat_and_eq)
  also have "int (m - 1) = n - 1" using n by simp
  finally have "m AND (m - 1) = 0" using assms(2) n(1) by simp
  then obtain k where "m = 2 ^ k" using power_of_two_nat [OF n(2)] by blast
  then have "n = 2 ^ k" by (simp add: n(1))
  then show thesis by (rule that)
qed

lemma Generate_chain:
  assumes "Generate draws pct burst bits = Inr (words, rt)"
  obtains k where "bits = 2 ^ k" and "k < 6 \<Longrightarrow> words = []"
    and "6 \<le> k \<Longrightarrow> length words = 2 ^ (k - 6) \<and>
      (\<forall>i < nat bits. traceBit words i \<longleftrightarrow> chain draws (enterBad pct burst) (leaveBad burst) i)"
proof -
  have g: "0 < bits" "bits AND (bits - 1) = 0"
    using assms by (auto simp: Generate_def Let_def split: if_splits)
  obtain k where k: "bits = 2 ^ k" by (rule int_and_pred [OF g])
  define L where "L = nat (bits div 64)"
  obtain bad d where run: "foldM (generateStep draws (enterBad pct burst) (leaveBad burst)) (False, replicate L 0, 0)
      [0..<nat bits] = Inr (bad, words, d)"
    using assms by (auto simp: Generate_def Let_def rbind_eq_Inr_iff L_def split: if_splits)
  show thesis
  proof (cases "6 \<le> k")
    case True
    have "(2 :: int) ^ k = 2 ^ (6 + (k - 6))" using True by simp
    then have b: "bits = 64 * 2 ^ (k - 6)" by (simp only: k power_add) simp
    then have "L = 2 ^ (k - 6)" by (simp add: L_def nat_power_eq)
    moreover have "nat bits = 64 * L" by (simp add: b L_def)
    moreover obtain t where "foldM (generateStep draws (enterBad pct burst) (leaveBad burst)) (False, replicate L 0, 0)
        [0..<nat bits] = Inr t" "generated draws (enterBad pct burst) (leaveBad burst) L (nat bits) t"
      using generated_foldM [of "nat bits" L] \<open>nat bits = 64 * L\<close> by fastforce
    ultimately show thesis
      using that [OF k] run True by (auto simp: generated_def)
  next
    case False
    then have "(2 :: int) ^ k < 2 ^ 6" by (intro power_strict_increasing) auto
    then have "L = 0" by (simp add: L_def k)
    moreover have "length words = L" if "foldM (generateStep draws p r) (bad0, ws, d0) xs = Inr (bad, words, d)"
        "length ws = L" for p r bad0 ws d0 xs
      using that
      by (induction xs arbitrary: bad0 ws d0)
        (auto simp: generateStep_def Let_def rbind_eq_Inr_iff split: if_splits)
    ultimately show thesis using that [OF k] run False by auto
  qed
qed

lemma counted_chain:
  assumes "Generate draws pct burst bits = Inr (words, rt)" and "bits < 2 ^ 63"
    and "CountDropsInRange words lo hi = Inr n" and "lo \<le> hi"
  shows "unat n = length (filter (\<lambda>i. chain draws (enterBad pct burst) (leaveBad burst) (i mod nat bits)) [unat lo..<unat hi])"
proof -
  obtain k where k: "bits = 2 ^ k" and short: "k < 6 \<Longrightarrow> words = []"
    and long: "6 \<le> k \<Longrightarrow> length words = 2 ^ (k - 6) \<and>
      (\<forall>i < nat bits. traceBit words i \<longleftrightarrow> chain draws (enterBad pct burst) (leaveBad burst) i)"
    by (rule Generate_chain [OF assms(1)]) blast
  have "words \<noteq> []" using assms(3) by (auto simp: CountDropsInRange_def Let_def)
  then have ge: "6 \<le> k" using short by fastforce
  have "(2 :: int) ^ k < 2 ^ 63" using assms(2) by (simp only: k)
  then have k63: "k < 63" by (rule power_less_imp_less_exp [rotated]) simp
  have len: "length words = 2 ^ (k - 6)" using long [OF ge] by blast
  have period: "64 * length words = nat bits"
  proof -
    have "(2 :: nat) ^ k = 2 ^ (6 + (k - 6))" using ge by simp
    then show ?thesis by (simp only: k len power_add nat_power_eq) simp
  qed
  have "k - 6 < 58" using k63 by linarith
  then obtain m where "CountDropsInRange words lo hi = Inr m" "unat m = dropsAmong words (unat lo) (unat hi - unat lo)"
    using count_drops [OF len _ assms(4)] by blast
  then have "unat n = dropsAmong words (unat lo) (unat hi - unat lo)" using assms(3) by simp
  also have "\<dots> = length (filter (\<lambda>i. chain draws (enterBad pct burst) (leaveBad burst) (i mod nat bits)) [unat lo..<unat hi])"
  proof -
    have "0 < nat bits" by (simp add: k)
    then have "packetDropped words i \<longleftrightarrow> chain draws (enterBad pct burst) (leaveBad burst) (i mod nat bits)" for i
      unfolding packetDropped_def period using long [OF ge] by simp
    moreover have "unat lo + (unat hi - unat lo) = unat hi" using assms(4) by (simp add: word_le_nat_alt)
    ultimately show ?thesis
      by (auto simp: dropsAmong_def intro!: arg_cong [where f = length] filter_cong)
  qed
  finally show ?thesis .
qed

end
