(* ===== verification/NetemEvidence.thy ===== *)
theory NetemEvidence
  imports Qdisc Config LossTrace ControlData
begin

text \<open>
  The evidence of the injected loss (\<open>orchestrator/run/netem_evidence.go\<close>, \<open>result.go\<close>): the counters
  of the loss trace or of the qdiscs, sampled inside the measured window. The clock, the channel of the
  window, the context, the pinned counters and \<open>tc\<close> are fields of \<open>captureEnv\<close>, the generator of
  random numbers and \<open>HashValue\<close> (SHA-256 of the JSON text) are arguments. A collection either returns
  its evidence or halts: it still waits when the clock readings end before the target, or it panics
  when \<open>Generate\<close> does.
\<close>

section \<open>The evidence\<close>

record DeterministicLossDirection =
  dlNamespace :: string
  dlDev :: string
  dlTraceBits :: int
  dlCounterBefore :: u64
  dlCounterAfter :: u64
  dlPackets :: u64
  dlExpectedDrops :: u64
  dlRealizedLossPct :: f64
  dlTraceSHA256 :: string

record DeterministicLossEvidence =
  deBeforeStartNS :: int
  deBeforeFinishNS :: int
  deAfterStartNS :: int
  deAfterFinishNS :: int
  deServer :: "DeterministicLossDirection option"
  deClient :: "DeterministicLossDirection option"

record NetemLossEvidence =
  leVersion :: int
  leMode :: string
  leSupported :: bool
  leDeterministic :: "DeterministicLossEvidence option"
  leScope :: string
  leSchedule :: ScheduleMessage
  leBefore :: "QdiscPairSnapshot option"
  leAfter :: "QdiscPairSnapshot option"
  leDelta :: "QdiscPairDelta option"
  leErrors :: "string list"

datatype halt = Waiting | Panicked

definition lossEvidenceModeRandomNetem :: string where
  "lossEvidenceModeRandomNetem = ''random_netem_qdisc''"

definition lossEvidenceModeDeterministicTrace :: string where
  "lossEvidenceModeDeterministicTrace = ''deterministic_losstrace''"

definition lossEvidenceScopeEffectiveInner :: string where
  "lossEvidenceScopeEffectiveInner = ''effective_measurement_window_inner''"

definition newEvidence :: "string \<Rightarrow> NetemLossEvidence" where
  "newEvidence mode = \<lparr>leVersion = 1, leMode = mode, leSupported = True, leDeterministic = None,
     leScope = lossEvidenceScopeEffectiveInner, leSchedule = zeroSchedule, leBefore = None, leAfter = None,
     leDelta = None, leErrors = []\<rparr>"

definition noteError :: "string \<Rightarrow> NetemLossEvidence \<Rightarrow> NetemLossEvidence" where
  "noteError e evidence = evidence\<lparr>leErrors := leErrors evidence @ [e]\<rparr>"

section \<open>Directions and traces\<close>

definition traceBitsOrDefault :: "Netem \<Rightarrow> int" where
  "traceBitsOrDefault egress = (if 0 < TraceBits egress then TraceBits egress else 1048576)"

definition seeded :: "Netem \<Rightarrow> bool" where
  "seeded egress \<longleftrightarrow> f_lt (FFin 0) (LossPercent egress) \<and> LossSeed egress \<noteq> 0"

definition newDirection :: "string \<Rightarrow> string \<Rightarrow> Netem \<Rightarrow> DeterministicLossDirection" where
  "newDirection ns dev egress = \<lparr>dlNamespace = ns, dlDev = dev, dlTraceBits = traceBitsOrDefault egress,
     dlCounterBefore = 0, dlCounterAfter = 0, dlPackets = 0, dlExpectedDrops = 0, dlRealizedLossPct = FFin 0,
     dlTraceSHA256 = []\<rparr>"

text \<open>The records the code points to: a direction names the one of the server or of the client.\<close>

datatype side = ServerSide | ClientSide

fun record_of :: "side \<Rightarrow> DeterministicLossEvidence \<Rightarrow> DeterministicLossDirection option" where
  "record_of ServerSide det = deServer det"
| "record_of ClientSide det = deClient det"

fun set_record :: "side \<Rightarrow> DeterministicLossDirection \<Rightarrow> DeterministicLossEvidence \<Rightarrow> DeterministicLossEvidence" where
  "set_record ServerSide d det = det\<lparr>deServer := Some d\<rparr>"
| "set_record ClientSide d det = det\<lparr>deClient := Some d\<rparr>"

definition deterministicDirections :: "DeterministicLossEvidence \<Rightarrow> PairSpec \<Rightarrow> NetemRegime option \<Rightarrow>
    DeterministicLossEvidence \<times> (Netem \<times> side) list" where
  "deterministicDirections det pair netem = (case netem of None \<Rightarrow> (det, [])
     | Some n \<Rightarrow>
        let s = nrServerEgress n; c = nrClientEgress n;
            det = (if seeded s then set_record ServerSide (newDirection (ServerNS pair) (ServerVeth pair) s) det else det);
            det = (if seeded c then set_record ClientSide (newDirection (ClientNS pair) (ClientVeth pair) c) det else det)
        in (det, (if seeded s then [(s, ServerSide)] else []) @ (if seeded c then [(c, ClientSide)] else [])))"

fun traceText :: "trace_error \<Rightarrow> string" where
  "traceText (BitsNotPowerOfTwo bits) = ''trace bits must be a positive power of two, got '' @ itoa bits"
| "traceText (LossOutOfRange p) = ''loss_pct must be in (0, 100), got '' @ formatG p"
| "traceText (Infeasible p burst) =
     ''loss_pct '' @ formatG p @ '' with burst_len '' @ formatG burst @ '' is infeasible (p >= 1)''"
| "traceText (TraceNotPowerOfTwo bits) = ''trace length must be a positive power of two, got '' @ itoaU bits @ '' bits''"
| "traceText (InvalidRange a b) = ''invalid packet range ['' @ itoaU a @ '', '' @ itoaU b @ '')''"
| "traceText IndexPanic = []"

text \<open>\<open>Generate\<close> for an egress: the generator is seeded with the loss seed. An error is a text, a panic halts.\<close>

definition regenerate :: "(u64 \<Rightarrow> nat \<Rightarrow> f64) \<Rightarrow> Netem \<Rightarrow> int \<Rightarrow> halt + (string + u64 list \<times> f64)" where
  "regenerate draws egress bits =
     (case Generate (draws (LossSeed egress)) (LossPercent egress) (LossBurstLen egress) bits of
        Inl IndexPanic \<Rightarrow> Inl Panicked
      | Inl e \<Rightarrow> Inr (Inl (traceText e))
      | Inr r \<Rightarrow> Inr (Inr r))"

definition recount :: "u64 list \<Rightarrow> DeterministicLossDirection \<Rightarrow> halt + (string + u64)" where
  "recount words d =
     (case CountDropsInRange words (dlCounterBefore d) (dlCounterAfter d) of
        Inl IndexPanic \<Rightarrow> Inl Panicked
      | Inl e \<Rightarrow> Inr (Inl (traceText e))
      | Inr n \<Rightarrow> Inr (Inr n))"

section \<open>Waiting and sampling\<close>

text \<open>
  One turn of \<open>waitUntilMonotonic\<close> reads the clock and, before the target, sleeps until the timer
  fires (\<open>None\<close>) or the context ends (\<open>Some\<close> of its error).
\<close>

fun waitUntilMonotonic :: "int \<Rightarrow> ((string + int) \<times> string option) list \<Rightarrow> halt + (string + unit)" where
  "waitUntilMonotonic target [] = Inl Waiting"
| "waitUntilMonotonic target ((clk, wake) # turns) =
     (case clk of Inl e \<Rightarrow> Inr (Inl e)
      | Inr nowNS \<Rightarrow> if target \<le> nowNS then Inr (Inr ())
          else (case wake of None \<Rightarrow> waitUntilMonotonic target turns | Some e \<Rightarrow> Inr (Inl e)))"

record sampling =
  smStart :: "string + int"
  smCounter :: "string \<Rightarrow> string \<Rightarrow> string + u64"
  smTC :: "string \<Rightarrow> string \<Rightarrow> (string + int) \<times> (string \<times> string option) \<times> (string + int)"
  smFinish :: "string + int"

record captureEnv =
  window :: "string + ScheduleMessage"
  startTurns :: "((string + int) \<times> string option) list"
  beforeSampling :: sampling
  finalTurns :: "((string + int) \<times> string option) list"
  afterSampling :: sampling

text \<open>The counters read before a failure stay assigned.\<close>

fun assignCounters :: "sampling \<Rightarrow> (u64 \<Rightarrow> DeterministicLossDirection \<Rightarrow> DeterministicLossDirection) \<Rightarrow>
    (Netem \<times> side) list \<Rightarrow> DeterministicLossEvidence \<Rightarrow> DeterministicLossEvidence \<times> string option" where
  "assignCounters env assign [] det = (det, None)"
| "assignCounters env assign ((egress, sd) # directions) det =
     (case record_of sd det of None \<Rightarrow> (det, None)
      | Some d \<Rightarrow>
         (case smCounter env (dlNamespace d) (dlDev d) of
            Inl e \<Rightarrow> (det, Some (dlNamespace d @ ''/'' @ dlDev d @ '': '' @ e))
          | Inr value \<Rightarrow> assignCounters env assign directions (set_record sd (assign value d) det)))"

definition sampleTraceCounters :: "sampling \<Rightarrow> (u64 \<Rightarrow> DeterministicLossDirection \<Rightarrow> DeterministicLossDirection) \<Rightarrow>
    (Netem \<times> side) list \<Rightarrow> DeterministicLossEvidence \<Rightarrow> DeterministicLossEvidence \<times> (int \<times> int) \<times> string option" where
  "sampleTraceCounters env assign directions det =
     (case smStart env of Inl e \<Rightarrow> (det, (0, 0), Some e)
      | Inr startNS \<Rightarrow>
         (case assignCounters env assign directions det of
            (det, Some e) \<Rightarrow> (det, (0, 0), Some e)
          | (det, None) \<Rightarrow> (case smFinish env of Inl e \<Rightarrow> (det, (0, 0), Some e)
              | Inr finishNS \<Rightarrow> (det, (startNS, finishNS), None))))"

definition ReadQdiscPairSnapshot :: "sampling \<Rightarrow> PairSpec \<Rightarrow> QdiscPairSnapshot \<times> string option" where
  "ReadQdiscPairSnapshot env spec =
     (let noSample = \<lparr>sNamespace = [], sDevice = [], sCaptureStartNS = 0, sCaptureFinishNS = 0, sStats = None,
        sRaw = [], sError = []\<rparr>
      in case smStart env of
         Inl e \<Rightarrow> (\<lparr>CaptureStartNS = 0, CaptureFinishNS = 0, snServer = noSample, snClient = noSample\<rparr>,
           Some (''qdisc snapshot start clock: '' @ e))
       | Inr startNS \<Rightarrow>
          let read = (\<lambda>ns dev. case smTC env ns dev of (start, tc, finish) \<Rightarrow> readQdiscSample ns dev start tc finish);
              snapshot = \<lparr>CaptureStartNS = startNS, CaptureFinishNS = 0,
                snServer = read (ServerNS spec) (ServerVeth spec), snClient = read (ClientNS spec) (ClientVeth spec)\<rparr>
          in case smFinish env of Inl e \<Rightarrow> (snapshot, Some (''qdisc snapshot finish clock: '' @ e))
             | Inr finishNS \<Rightarrow> (snapshot\<lparr>CaptureFinishNS := finishNS\<rparr>, None))"

text \<open>The time of the final capture: ahead of the stop by four captures and ten milliseconds, at least fifty.\<close>

definition finalCaptureAt :: "ScheduleMessage \<Rightarrow> int \<Rightarrow> int \<Rightarrow> int" where
  "finalCaptureAt sched startNS finishNS =
     (let captureDuration = wrap64 (finishNS - startNS);
          lead = wrap64 (4 * captureDuration + 10000000);
          lead = (if lead < 50000000 then 50000000 else lead)
      in wrap64 (StopAtNS sched - lead))"

section \<open>Collecting\<close>

definition windowInvalid :: "ScheduleMessage \<Rightarrow> bool" where
  "windowInvalid sched \<longleftrightarrow> StartAtNS sched \<le> 0 \<or> StopAtNS sched \<le> StartAtNS sched"

text \<open>The wait for the final capture; a window that is too short is noted and the capture follows at once.\<close>

definition awaitFinal :: "captureEnv \<Rightarrow> string \<Rightarrow> int \<Rightarrow> int \<Rightarrow> NetemLossEvidence \<Rightarrow>
    halt + (NetemLossEvidence \<times> bool)" where
  "awaitFinal env what startNS finishNS evidence =
     (let finalAt = finalCaptureAt (leSchedule evidence) startNS finishNS
      in if finalAt \<le> finishNS
         then Inr (noteError (''measurement window too short for non-overlapping '' @ what @
           '' samples: before_finish_ns='' @ itoa finishNS @ '' final_capture_target_ns='' @ itoa finalAt) evidence, True)
         else rbind (waitUntilMonotonic finalAt (finalTurns env)) (\<lambda>r. case r of
             Inl e \<Rightarrow> Inr (noteError (''wait for final in-window '' @ what @ '' capture: '' @ e) evidence, False)
           | Inr _ \<Rightarrow> Inr (evidence, True)))"

definition accountDirection :: "(u64 \<Rightarrow> nat \<Rightarrow> f64) \<Rightarrow> (u64 list \<Rightarrow> string) \<Rightarrow>
    NetemLossEvidence \<times> DeterministicLossEvidence \<Rightarrow> Netem \<times> side \<Rightarrow>
    halt + NetemLossEvidence \<times> DeterministicLossEvidence" where
  "accountDirection draws hash = (\<lambda>(evidence, det) (egress, sd).
     case record_of sd det of None \<Rightarrow> Inr (evidence, det)
     | Some d \<Rightarrow>
        if dlCounterAfter d < dlCounterBefore d
        then Inr (noteError (dlDev d @ '' trace counter went backwards: before='' @ itoaU (dlCounterBefore d) @
          '' after='' @ itoaU (dlCounterAfter d)) evidence, det)
        else
          let d = d\<lparr>dlPackets := dlCounterAfter d - dlCounterBefore d\<rparr>
          in rbind (regenerate draws egress (dlTraceBits d)) (\<lambda>r. case r of
              Inl e \<Rightarrow> Inr (noteError (''regenerate '' @ dlDev d @ '' trace: '' @ e) evidence, set_record sd d det)
            | Inr (words, realized) \<Rightarrow>
                let d = d\<lparr>dlRealizedLossPct := realized, dlTraceSHA256 := hash words\<rparr>
                in rbind (recount words d) (\<lambda>c. case c of
                    Inl e \<Rightarrow> Inr (noteError (''count '' @ dlDev d @ '' trace drops: '' @ e) evidence, set_record sd d det)
                  | Inr n \<Rightarrow> Inr (evidence, set_record sd (d\<lparr>dlExpectedDrops := n\<rparr>) det))))"

definition collectDeterministicLossEvidence :: "captureEnv \<Rightarrow> (u64 \<Rightarrow> nat \<Rightarrow> f64) \<Rightarrow> (u64 list \<Rightarrow> string) \<Rightarrow> PairSpec \<Rightarrow>
    NetemRegime option \<Rightarrow> halt + NetemLossEvidence" where
  "collectDeterministicLossEvidence env draws hash pair netem =
     (let evidence = newEvidence lossEvidenceModeDeterministicTrace
      in case window env of
        Inl e \<Rightarrow> Inr (noteError (''effective measurement window unavailable: '' @ e) evidence)
      | Inr sched \<Rightarrow>
         let evidence = evidence\<lparr>leSchedule := sched\<rparr>
         in if windowInvalid sched then Inr (noteError ''effective measurement window is invalid'' evidence)
         else
           case deterministicDirections \<lparr>deBeforeStartNS = 0, deBeforeFinishNS = 0, deAfterStartNS = 0,
               deAfterFinishNS = 0, deServer = None, deClient = None\<rparr> pair netem of (det, directions) \<Rightarrow>
           if directions = [] then Inr (noteError ''no seeded loss direction is configured'' evidence)
           else rbind (waitUntilMonotonic (StartAtNS sched) (startTurns env)) (\<lambda>w. case w of
               Inl e \<Rightarrow> Inr (noteError (''wait for measurement start: '' @ e) (evidence\<lparr>leDeterministic := Some det\<rparr>))
             | Inr _ \<Rightarrow>
                (case sampleTraceCounters (beforeSampling env) (\<lambda>v d. d\<lparr>dlCounterBefore := v\<rparr>) directions det of
                   (det, (startNS, finishNS), failure) \<Rightarrow>
                   let det = det\<lparr>deBeforeStartNS := startNS, deBeforeFinishNS := finishNS\<rparr>
                   in case failure of
                     Some e \<Rightarrow> Inr (noteError (''read trace counters after measurement start: '' @ e)
                       (evidence\<lparr>leDeterministic := Some det\<rparr>))
                   | None \<Rightarrow>
                      rbind (awaitFinal env ''trace counter'' startNS finishNS evidence) (\<lambda>(evidence, goOn).
                      if \<not> goOn then Inr (evidence\<lparr>leDeterministic := Some det\<rparr>)
                      else case sampleTraceCounters (afterSampling env) (\<lambda>v d. d\<lparr>dlCounterAfter := v\<rparr>) directions det of
                        (det, (startNS, finishNS), failure) \<Rightarrow>
                        let det = det\<lparr>deAfterStartNS := startNS, deAfterFinishNS := finishNS\<rparr>
                        in case failure of
                          Some e \<Rightarrow> Inr (noteError (''read trace counters before measurement stop: '' @ e)
                            (evidence\<lparr>leDeterministic := Some det\<rparr>))
                        | None \<Rightarrow> rbind (foldM (accountDirection draws hash) (evidence, det) directions) (\<lambda>(evidence, det).
                            Inr (evidence\<lparr>leDeterministic := Some det\<rparr>))))))"

definition collectRandomNetemLossEvidence :: "captureEnv \<Rightarrow> PairSpec \<Rightarrow> halt + NetemLossEvidence" where
  "collectRandomNetemLossEvidence env pair =
     (let evidence = newEvidence lossEvidenceModeRandomNetem
      in case window env of
        Inl e \<Rightarrow> Inr (noteError (''effective measurement window unavailable: '' @ e) evidence)
      | Inr sched \<Rightarrow>
         let evidence = evidence\<lparr>leSchedule := sched\<rparr>
         in if windowInvalid sched then Inr (noteError ''effective measurement window is invalid'' evidence)
         else rbind (waitUntilMonotonic (StartAtNS sched) (startTurns env)) (\<lambda>w. case w of
             Inl e \<Rightarrow> Inr (noteError (''wait for measurement start: '' @ e) evidence)
           | Inr _ \<Rightarrow>
              (case ReadQdiscPairSnapshot (beforeSampling env) pair of (before, failure) \<Rightarrow>
                 let evidence = evidence\<lparr>leBefore := Some before\<rparr>
                 in case failure of
                   Some e \<Rightarrow> Inr (noteError (''read qdisc counters after measurement start: '' @ e) evidence)
                 | None \<Rightarrow>
                    rbind (awaitFinal env ''qdisc'' (CaptureStartNS before) (CaptureFinishNS before) evidence)
                      (\<lambda>(evidence, goOn).
                    if \<not> goOn then Inr evidence
                    else case ReadQdiscPairSnapshot (afterSampling env) pair of (after, failure) \<Rightarrow>
                      let evidence = evidence\<lparr>leAfter := Some after\<rparr>
                      in case failure of
                        Some e \<Rightarrow> Inr (noteError (''read qdisc counters before measurement stop: '' @ e) evidence)
                      | None \<Rightarrow> Inr (evidence\<lparr>leDelta := Some (DeltaQdiscPair before after)\<rparr>)))))"

end
