(* ===== verification/Offloads.thy ===== *)
theory Offloads
  imports Qdisc GoJson Rig
begin

text \<open>
  The packet-shaping offloads of the two link ends (\<open>orchestrator/netops/offloads.go\<close>): the features
  that are switched off, the parsing of \<open>ethtool -k\<close> and \<open>ip -j link show\<close>, the readback of both
  ends and its validation. What the commands print and whether they fail are arguments; scanning JSON
  text, the text of its errors and SHA-256 of a JSON rendering are fields of \<open>library\<close>.
\<close>

section \<open>Features\<close>

record OffloadFeatureState =
  ofEnabled :: bool
  ofFixed :: bool

record OffloadInterfaceEvidence =
  oiNamespace :: string
  oiDevice :: string
  oiLinkMTUBytes :: int
  oiFeatures :: "(string \<times> OffloadFeatureState) list"
  oiRaw :: string
  oiLinkRaw :: string
  oiError :: string

record OffloadEvidence =
  oeVersion :: int
  oeRequiredFeatures :: "string list"
  oeServer :: OffloadInterfaceEvidence
  oeClient :: OffloadInterfaceEvidence
  oeSHA256 :: string

record library =
  scanJSON :: "string \<Rightarrow> json option"
  jsonErrorText :: "string \<Rightarrow> string"
  hashOffloads :: "OffloadEvidence \<Rightarrow> string"
  executablePath :: "string option"
  hashWords :: "u64 list \<Rightarrow> string"
  randomDraws :: "u64 \<Rightarrow> nat \<Rightarrow> f64"

definition RequiredOffloadFeatures :: "string list" where
  "RequiredOffloadFeatures =
     [''tcp-segmentation-offload'', ''generic-segmentation-offload'', ''generic-receive-offload'',
      ''large-receive-offload'', ''tx-udp-segmentation'', ''rx-udp-gro-forwarding'']"

text \<open>One line of \<open>ethtool -k\<close>: a name and its state, or nothing.\<close>

definition featureLine :: "string \<Rightarrow> (string \<times> OffloadFeatureState) option" where
  "featureLine line =
     (case cutAt CHR '':'' (trimSpace line) of (name, value, ok) \<Rightarrow>
        if \<not> ok \<or> name = [] then None
        else
          let fs = textFields value
          in if fs = [] \<or> hd fs \<noteq> ''on'' \<and> hd fs \<noteq> ''off'' then None
             else Some (name, \<lparr>ofEnabled = (hd fs = ''on''), ofFixed = list_ex (\<lambda>f. f = ''[fixed]'') (tl fs)\<rparr>))"

definition addFeature :: "(string \<times> OffloadFeatureState) list \<Rightarrow> string \<Rightarrow>
    string + (string \<times> OffloadFeatureState) list" where
  "addFeature fs line =
     (case featureLine line of None \<Rightarrow> Inr fs
      | Some (name, state) \<Rightarrow>
         (case map_of fs name of
            Some previous \<Rightarrow> if previous \<noteq> state then Inl (''conflicting states for feature '' @ quoteText name)
              else Inr (AList.update name state fs)
          | None \<Rightarrow> Inr (AList.update name state fs)))"

definition ParseOffloadFeatures :: "string \<Rightarrow> string + (string \<times> OffloadFeatureState) list" where
  "ParseOffloadFeatures raw =
     rbind (foldM addFeature [] (splitAt newline raw)) (\<lambda>fs.
     if fs = [] then Inl ''no ethtool feature states found'' else Inr fs)"

section \<open>The link\<close>

record linkRecord =
  lkIfName :: string
  lkMTU :: int

definition decLink :: "json \<Rightarrow> linkRecord option" where
  "decLink = decodeStruct [(''ifname'', decString lkIfName_update), (''mtu'', decInt lkMTU_update)] \<lparr>lkIfName = [], lkMTU = 0\<rparr>"

definition decLinks :: "json \<Rightarrow> linkRecord list option" where
  "decLinks v = (case v of JNull \<Rightarrow> Some [] | JArr js \<Rightarrow> decAll decLink js | _ \<Rightarrow> None)"

definition ParseLinkMTU :: "library \<Rightarrow> string \<Rightarrow> string + string \<times> int" where
  "ParseLinkMTU lib raw =
     (case Option.bind (scanJSON lib raw) decLinks of
        None \<Rightarrow> Inl (jsonErrorText lib raw)
      | Some links \<Rightarrow>
          if length links \<noteq> 1 \<or> lkIfName (links ! 0) = [] \<or> lkMTU (links ! 0) \<le> 0
          then Inl ''link readback must contain one named interface with a positive MTU''
          else Inr (lkIfName (links ! 0), lkMTU (links ! 0)))"

section \<open>The readback\<close>

text \<open>\<open>ethtool\<close> and \<open>link\<close> are the output and the failure of the two commands.\<close>

definition readFeatures :: "string \<times> string option \<Rightarrow> OffloadInterfaceEvidence \<Rightarrow> OffloadInterfaceEvidence" where
  "readFeatures ethtool sample =
     (let sample = sample\<lparr>oiRaw := fst ethtool\<rparr>;
          parsed = ParseOffloadFeatures (oiRaw sample);
          details = (case snd ethtool of None \<Rightarrow> [] | Some e \<Rightarrow> [''ethtool -k failed: '' @ e]) @
            (case parsed of Inl e \<Rightarrow> [''parse failed: '' @ e] | Inr _ \<Rightarrow> []);
          sample = (case parsed of Inl _ \<Rightarrow> sample | Inr fs \<Rightarrow> sample\<lparr>oiFeatures := fs\<rparr>)
      in if details = [] then sample else sample\<lparr>oiError := joinText ''; '' details\<rparr>)"

definition readLink :: "library \<Rightarrow> string \<Rightarrow> string \<times> string option \<Rightarrow> OffloadInterfaceEvidence \<Rightarrow> OffloadInterfaceEvidence" where
  "readLink lib device link sample =
     (let sample = sample\<lparr>oiLinkRaw := fst link\<rparr>;
          parsed = ParseLinkMTU lib (oiLinkRaw sample);
          cmdDetail = (case snd link of None \<Rightarrow> [] | Some e \<Rightarrow> [''ip link readback failed: '' @ e]);
          parseDetail = (case parsed of Inl e \<Rightarrow> [''link readback parse failed: '' @ e]
            | Inr (ifName, _) \<Rightarrow> if ifName \<noteq> device
                then [''link readback ifname='' @ quoteText ifName @ '', want '' @ quoteText device] else [])
      in case parsed of
           Inr (ifName, mtu) \<Rightarrow>
             if snd link = None \<and> ifName = device then sample\<lparr>oiLinkMTUBytes := mtu\<rparr>
             else sample\<lparr>oiError := joinText ''; '' ((if oiError sample \<noteq> [] then [oiError sample] else []) @ cmdDetail @ parseDetail)\<rparr>
         | Inl _ \<Rightarrow>
             sample\<lparr>oiError := joinText ''; '' ((if oiError sample \<noteq> [] then [oiError sample] else []) @ cmdDetail @ parseDetail)\<rparr>)"

definition readOffloadInterface :: "library \<Rightarrow> string \<Rightarrow> string \<Rightarrow> string \<times> string option \<Rightarrow> string \<times> string option \<Rightarrow>
    OffloadInterfaceEvidence" where
  "readOffloadInterface lib namespace device ethtool link =
     readLink lib device link (readFeatures ethtool
       \<lparr>oiNamespace = namespace, oiDevice = device, oiLinkMTUBytes = 0, oiFeatures = [], oiRaw = [], oiLinkRaw = [], oiError = []\<rparr>)"

text \<open>The hash covers every field but itself.\<close>

definition HashOffloadEvidence :: "library \<Rightarrow> OffloadEvidence \<Rightarrow> string" where
  "HashOffloadEvidence lib evidence = hashOffloads lib (evidence\<lparr>oeSHA256 := []\<rparr>)"

definition ReadOffloadEvidence :: "library \<Rightarrow> (string \<Rightarrow> string \<Rightarrow> (string \<times> string option) \<times> (string \<times> string option)) \<Rightarrow>
    PairSpec \<Rightarrow> OffloadEvidence" where
  "ReadOffloadEvidence lib run spec =
     (let endpoint = (\<lambda>ns dev. case run ns dev of (ethtool, link) \<Rightarrow> readOffloadInterface lib ns dev ethtool link);
          evidence = \<lparr>oeVersion = 2, oeRequiredFeatures = RequiredOffloadFeatures,
            oeServer = endpoint (ServerNS spec) (ServerVeth spec), oeClient = endpoint (ClientNS spec) (ClientVeth spec),
            oeSHA256 = []\<rparr>
      in evidence\<lparr>oeSHA256 := HashOffloadEvidence lib evidence\<rparr>)"

section \<open>Validation\<close>

definition reasonIf :: "bool \<Rightarrow> string \<Rightarrow> string list" where
  "reasonIf b reason = (if b then [reason] else [])"

lemma reasonIf_simps [simp]: "reasonIf True r = [r]" "reasonIf False r = []"
  by (simp_all add: reasonIf_def)

lemma reasonIf_Nil [simp]: "reasonIf b r = [] \<longleftrightarrow> \<not> b"
  by (simp add: reasonIf_def)

text \<open>\<open>maps.Equal\<close>.\<close>

definition mapsEqual :: "('k \<times> 'v) list \<Rightarrow> ('k \<times> 'v) list \<Rightarrow> bool" where
  "mapsEqual a b \<longleftrightarrow> length a = length b \<and> list_all (\<lambda>(k, v). map_of b k = Some v) a"

definition featureReasons :: "string \<Rightarrow> OffloadInterfaceEvidence \<Rightarrow> string list" where
  "featureReasons role sample =
     (if oiRaw sample = [] then [role @ '' raw readback is empty'']
      else case ParseOffloadFeatures (oiRaw sample) of
          Inl e \<Rightarrow> [role @ '' raw readback cannot be parsed: '' @ e]
        | Inr parsed \<Rightarrow> reasonIf (\<not> mapsEqual parsed (oiFeatures sample))
            (role @ '' normalized feature map does not match raw readback''))"

definition linkReasons :: "library \<Rightarrow> string \<Rightarrow> string \<Rightarrow> OffloadInterfaceEvidence \<Rightarrow> string list" where
  "linkReasons lib role device sample =
     (if oiLinkRaw sample = [] then [role @ '' link readback is empty'']
      else case ParseLinkMTU lib (oiLinkRaw sample) of
          Inl e \<Rightarrow> [role @ '' link readback cannot be parsed: '' @ e]
        | Inr (ifName, mtu) \<Rightarrow>
            reasonIf (ifName \<noteq> device) (role @ '' link readback ifname='' @ quoteText ifName @ '', want '' @ quoteText device) @
            reasonIf (mtu \<noteq> oiLinkMTUBytes sample)
              (role @ '' stored link_mtu_bytes='' @ itoa (oiLinkMTUBytes sample) @ '' does not match raw readback='' @ itoa mtu))"

definition requiredReasons :: "string \<Rightarrow> OffloadInterfaceEvidence \<Rightarrow> string list" where
  "requiredReasons role sample = concat (map (\<lambda>name.
     case map_of (oiFeatures sample) name of
       None \<Rightarrow> [role @ '' feature '' @ name @ '' is unavailable'']
     | Some state \<Rightarrow> reasonIf (ofEnabled state) (role @ '' feature '' @ name @ '' is on'')) RequiredOffloadFeatures)"

definition endpointReasons :: "library \<Rightarrow> int \<Rightarrow> string \<Rightarrow> string \<Rightarrow> string \<Rightarrow> OffloadInterfaceEvidence \<Rightarrow> string list" where
  "endpointReasons lib wantMTU role namespace device sample =
     reasonIf (oiNamespace sample \<noteq> namespace \<or> oiDevice sample \<noteq> device)
       (role @ '' readback target='' @ oiNamespace sample @ ''/'' @ oiDevice sample @ '', want '' @ namespace @ ''/'' @ device) @
     reasonIf (oiError sample \<noteq> []) (role @ '' readback: '' @ oiError sample) @
     featureReasons role sample @
     linkReasons lib role device sample @
     reasonIf (oiLinkMTUBytes sample \<noteq> wantMTU)
       (role @ '' link_mtu_bytes='' @ itoa (oiLinkMTUBytes sample) @ '', want configured '' @ itoa wantMTU) @
     requiredReasons role sample"

definition ValidateOffloadEvidence :: "library \<Rightarrow> PairSpec \<Rightarrow> OffloadEvidence option \<Rightarrow> string list" where
  "ValidateOffloadEvidence lib spec evidence = (case evidence of None \<Rightarrow> [''missing'']
     | Some e \<Rightarrow>
        reasonIf (oeVersion e \<noteq> 2) (''version='' @ itoa (oeVersion e) @ '', want 2'') @
        reasonIf (oeRequiredFeatures e \<noteq> RequiredOffloadFeatures)
          ''required feature set does not match the benchmark contract'' @
        (if oeSHA256 e = [] then [''sha256 is missing'']
         else reasonIf (oeSHA256 e \<noteq> HashOffloadEvidence lib e)
           (''sha256='' @ quoteText (oeSHA256 e) @ '' does not match evidence='' @ quoteText (HashOffloadEvidence lib e))) @
        endpointReasons lib (LinkMTUBytes spec) ''server'' (ServerNS spec) (ServerVeth spec) (oeServer e) @
        endpointReasons lib (LinkMTUBytes spec) ''client'' (ClientNS spec) (ClientVeth spec) (oeClient e))"

end
