(* ===== verification/NetemGate.thy ===== *)
theory NetemGate
  imports Offloads LossTrace
begin

text \<open>
  The pre-run gate of the emulated link (\<open>orchestrator/netops/gate.go\<close>): what \<open>ping\<close> and \<open>iperf3\<close>
  measured is compared with the configured delay and loss, and a stored report is judged again. The
  outputs and failures of the commands are arguments. Floating-point operations round once each, as on
  amd64.
\<close>

section \<open>Square roots\<close>

function isqrt :: "int \<Rightarrow> int" where
  "isqrt n = (if n \<le> 0 then 0 else let r = 2 * isqrt (n div 4) in if (r + 1) * (r + 1) \<le> n then r + 1 else r)"
  by pat_completeness auto
termination by (relation "measure nat") auto

declare isqrt.simps [simp del]

text \<open>
  \<open>math.Sqrt\<close>: the argument is scaled by a power of four until its integer root has sixty bits, and
  half a unit stands for the part cut off; rounding to 53 bits is then the rounding of the root.
\<close>

fun f_sqrt :: "f64 \<Rightarrow> f64" where
  "f_sqrt FNan = FNan"
| "f_sqrt (FInf pos) = (if pos then FInf True else FNan)"
| "f_sqrt (FFin x) =
     (if x < 0 then FNan else if x = 0 then FFin 0
      else
        let k = (120 - ilog2 x) div 2; y = x * pow2 (2 * k); s = isqrt \<lfloor>y\<rfloor>;
            r = (if of_int (s * s) = y then of_int s else of_int s + 1 / 2)
        in FFin (rnd64 (r * pow2 (- k))))"

lemma isqrt_bounds:
  assumes "0 \<le> n"
  shows "0 \<le> isqrt n \<and> isqrt n * isqrt n \<le> n \<and> n < (isqrt n + 1) * (isqrt n + 1)"
  using assms
proof (induction n rule: isqrt.induct)
  case (1 n)
  show ?case
  proof (cases "n = 0")
    case False
    define q where "q = isqrt (n div 4)"
    have q: "0 \<le> q" "q * q \<le> n div 4" "n div 4 < (q + 1) * (q + 1)"
      using 1 False by (auto simp: q_def)
    have "4 * (n div 4) \<le> n" "n < 4 * (n div 4) + 4" by auto
    moreover have "4 * (n div 4) + 4 \<le> 4 * ((q + 1) * (q + 1))" using q(3) by simp
    ultimately have "4 * (q * q) \<le> n" "n < 4 * ((q + 1) * (q + 1))" using q(2) by linarith+
    then show ?thesis
      using q(1) False 1(2) by (simp add: isqrt.simps [of n] flip: q_def) (simp add: Let_def algebra_simps)
  qed (simp add: isqrt.simps)
qed

section \<open>Reading the measurements\<close>

record NetemGateReport =
  grPingAvgMS :: f64
  grExpectedRTTMS :: f64
  grLossC2SPct :: f64
  grLossC2SPackets :: u64
  grLossS2CPct :: f64
  grLossS2CPackets :: u64
  grExpectedC2SPct :: f64
  grExpectedS2CPct :: f64
  grFailures :: "string list"

definition numberChar :: "char \<Rightarrow> bool" where
  "numberChar c \<longleftrightarrow> isDigit c \<or> c = CHR ''.''"

text \<open>The expression \<open>rtt [^=]*= *[0-9.]+/([0-9.]+)/\<close>, which needs no backtracking.\<close>

definition pingRTTAt :: "string \<Rightarrow> string option" where
  "pingRTTAt s =
     (if \<not> hasPrefix s ''rtt '' then None
      else
        let r = dropWhile (\<lambda>c. c \<noteq> CHR ''='') (drop 4 s)
        in if r = [] then None
           else
             let r = dropWhile (\<lambda>c. c = CHR '' '') (tl r); r' = dropWhile numberChar r
             in if takeWhile numberChar r = [] \<or> \<not> hasPrefix r' ''/'' then None
                else
                  let avg = takeWhile numberChar (tl r'); rest = dropWhile numberChar (tl r')
                  in if avg = [] \<or> \<not> hasPrefix rest ''/'' then None else Some avg)"

fun findPingRTT :: "string \<Rightarrow> string option" where
  "findPingRTT [] = None"
| "findPingRTT (c # s) = (case pingRTTAt (c # s) of Some avg \<Rightarrow> Some avg | None \<Rightarrow> findPingRTT s)"

definition ParsePingAvgMS :: "string \<Rightarrow> string + f64" where
  "ParsePingAvgMS output = (case findPingRTT output of None \<Rightarrow> Inl ''parse ping output: rtt line not found''
     | Some avg \<Rightarrow> (case parseFloat avg of (x, ok) \<Rightarrow>
         if ok then Inr x
         else Inl (''strconv.ParseFloat: parsing '' @ quoteText avg @
           (if f_finite x then '': invalid syntax'' else '': value out of range''))))"

record IperfLossSample =
  ipLossPercent :: f64
  ipPackets :: u64

record iperfLossDocument =
  ipLost :: "f64 option"
  ipCount :: "u64 option"
  ipError :: string

definition decFloat :: "json \<Rightarrow> f64 option" where
  "decFloat v = (case v of JNum l \<Rightarrow> (case parseFloat l of (x, ok) \<Rightarrow> if ok then Some x else None) | _ \<Rightarrow> None)"

definition decU64 :: "json \<Rightarrow> u64 option" where
  "decU64 v = (case v of JNum l \<Rightarrow> parseUint l | _ \<Rightarrow> None)"

text \<open>A pointer to a scalar: \<open>null\<close> clears it.\<close>

definition decPointer :: "(('a option \<Rightarrow> 'a option) \<Rightarrow> 's \<Rightarrow> 's) \<Rightarrow> (json \<Rightarrow> 'a option) \<Rightarrow> 's \<Rightarrow> json \<Rightarrow> 's option" where
  "decPointer upd dec s v = (case v of JNull \<Rightarrow> Some (upd (\<lambda>_. None) s)
     | _ \<Rightarrow> map_option (\<lambda>a. upd (\<lambda>_. Some a) s) (dec v))"

definition decIperf :: "json \<Rightarrow> iperfLossDocument option" where
  "decIperf = decodeStruct
     [(''end'', decodeStruct [(''sum'', decodeStruct
        [(''lost_percent'', decPointer ipLost_update decFloat), (''packets'', decPointer ipCount_update decU64)])]),
      (''error'', decString ipError_update)]
     \<lparr>ipLost = None, ipCount = None, ipError = []\<rparr>"

definition parseIperfLossDocument :: "library \<Rightarrow> string \<Rightarrow> string + iperfLossDocument" where
  "parseIperfLossDocument lib out = (case Option.bind (scanJSON lib out) decIperf of
       None \<Rightarrow> Inl (''parse iperf3 json: '' @ jsonErrorText lib out)
     | Some doc \<Rightarrow>
         if ipError doc \<noteq> [] then Inl (''iperf3: '' @ ipError doc)
         else (case ipLost doc of None \<Rightarrow> Inl ''iperf3 json has no end.sum.lost_percent''
           | Some p \<Rightarrow> if \<not> f_finite p \<or> f_lt p (FFin 0) \<or> f_lt (FFin 100) p
               then Inl ''iperf3 lost_percent is outside [0,100]'' else Inr doc))"

definition lostPercent :: "iperfLossDocument \<Rightarrow> f64" where
  "lostPercent doc = (case ipLost doc of Some p \<Rightarrow> p | None \<Rightarrow> FFin 0)"

definition ParseIperfLossSample :: "library \<Rightarrow> string \<Rightarrow> string + IperfLossSample" where
  "ParseIperfLossSample lib out = rbind (parseIperfLossDocument lib out) (\<lambda>doc.
     case ipCount doc of None \<Rightarrow> Inl ''iperf3 json has no positive end.sum.packets''
     | Some n \<Rightarrow> if n = 0 then Inl ''iperf3 json has no positive end.sum.packets''
         else Inr \<lparr>ipLossPercent = lostPercent doc, ipPackets = n\<rparr>)"

definition ParseIperfLossPct :: "library \<Rightarrow> string \<Rightarrow> string + f64" where
  "ParseIperfLossPct lib out = rbind (parseIperfLossDocument lib out) (\<lambda>doc. Inr (lostPercent doc))"

section \<open>Tolerances\<close>

definition plusMinus :: string where "plusMinus = [char_of (194 :: nat), char_of (177 :: nat)]"

definition rttTolerance :: "f64 \<Rightarrow> f64" where
  "rttTolerance wanted = f_add (f_mul wanted (f_of_rat (1 / 5))) (FFin 2)"

definition checkRTT :: "f64 \<Rightarrow> f64 \<Rightarrow> string + unit" where
  "checkRTT actual wanted =
     (let tol = rttTolerance wanted; diff = f_sub actual wanted
      in fail_if (f_lt tol diff \<or> f_lt diff (f_neg tol))
        (''ping avg '' @ formatFixed 2 actual @ ''ms, want '' @ formatFixed 2 wanted @ ''ms '' @ plusMinus @
          formatFixed 2 tol @ ''ms''))"

text \<open>The band of the loss of \<open>packets\<close> packets: five standard deviations, widened by the burst length.\<close>

definition sigmaPct :: "f64 \<Rightarrow> f64 \<Rightarrow> u64 \<Rightarrow> f64" where
  "sigmaPct wanted burst packets =
     (let p = f_div wanted (FFin 100)
      in f_mul (f_mul (FFin 100) (f_sqrt (f_div (f_mul p (f_sub (FFin 1) p)) (f_of_u64 packets)))) (f_sqrt burst))"

definition lossLower :: "f64 \<Rightarrow> f64 \<Rightarrow> u64 \<Rightarrow> f64" where
  "lossLower wanted burst packets =
     (let p = f_div wanted (FFin 100)
      in if f_le (FFin 5) (f_div (f_mul (f_of_u64 packets) p) burst)
         then f_max (f_mul wanted (f_of_rat (1 / 20))) (f_sub wanted (f_mul (FFin 5) (sigmaPct wanted burst packets)))
         else FFin 0)"

definition lossUpper :: "f64 \<Rightarrow> f64 \<Rightarrow> u64 \<Rightarrow> f64" where
  "lossUpper wanted burst packets =
     f_min (FFin 100) (f_add wanted (f_mul (FFin 5) (sigmaPct wanted burst packets)))"

definition checkLoss :: "f64 \<Rightarrow> f64 \<Rightarrow> f64 \<Rightarrow> u64 \<Rightarrow> string \<Rightarrow> string + unit" where
  "checkLoss actual wanted burstLen packets direction =
     (if packets < 1000
      then Inl (''iperf3 '' @ direction @ '' packet sample='' @ itoaU packets @ '', want at least 1000'')
      else
        let burst = burstOf burstLen
        in if f_eq wanted (FFin 0)
           then fail_if (f_lt (f_of_rat (3 / 10)) actual)
             (''iperf3 '' @ direction @ '' loss '' @ formatFixed 3 actual @ ''%, want at most 0.300%'')
           else
             let lower = lossLower wanted burst packets; upper = lossUpper wanted burst packets
             in fail_if (f_lt upper actual \<or> f_lt actual lower)
               (''iperf3 '' @ direction @ '' loss '' @ formatFixed 3 actual @ ''%, want '' @ formatFixed 3 wanted @
                 ''% (allowed '' @ formatFixed 3 lower @ ''%..'' @ formatFixed 3 upper @ ''%, burst='' @ formatG burst @ '')''))"

section \<open>Judging a stored report\<close>

definition errorTexts :: "string + unit \<Rightarrow> string list" where
  "errorTexts r = (case r of Inl e \<Rightarrow> [e] | Inr _ \<Rightarrow> [])"

definition wantRTT :: "PairSpec \<Rightarrow> f64" where
  "wantRTT spec = f_of_int (wrap64 (DelayMS (ServerEgress spec) + DelayMS (ClientEgress spec)))"

definition lossFailures :: "string \<Rightarrow> f64 \<Rightarrow> u64 \<Rightarrow> Netem \<Rightarrow> f64 \<Rightarrow> string list" where
  "lossFailures direction actual packets egress stored =
     (if \<not> f_finite actual \<or> \<not> f_finite stored \<or> \<not> f_eq stored (LossPercent egress)
      then [''netem gate '' @ direction @ '' expected loss='' @ formatG stored @ '' does not match config='' @
        formatG (LossPercent egress)]
      else if LossSeed egress = 0
      then errorTexts (checkLoss actual (LossPercent egress) (LossBurstLen egress) packets direction)
      else [])"

definition storedFailure :: "string \<Rightarrow> string" where
  "storedFailure failure = (if trimSpace failure = [] then ''netem gate contains an empty stored failure''
     else ''stored netem gate failure: '' @ failure)"

definition dedupeGateFailures :: "string list \<Rightarrow> string list" where
  "dedupeGateFailures xs = foldl (\<lambda>out x. if x \<in> set out then out else out @ [x]) [] xs"

definition ValidateNetemGateReport :: "PairSpec \<Rightarrow> NetemGateReport option \<Rightarrow> string list" where
  "ValidateNetemGateReport spec report = (case report of None \<Rightarrow> [''netem gate report is missing'']
     | Some r \<Rightarrow> dedupeGateFailures
         ((if \<not> f_finite (grPingAvgMS r) \<or> \<not> f_finite (grExpectedRTTMS r) \<or> \<not> f_eq (grExpectedRTTMS r) (wantRTT spec)
           then [''netem gate expected_rtt_ms='' @ formatG (grExpectedRTTMS r) @ '' does not match config='' @ formatG (wantRTT spec)]
           else errorTexts (checkRTT (grPingAvgMS r) (wantRTT spec))) @
          lossFailures ''c2s'' (grLossC2SPct r) (grLossC2SPackets r) (ClientEgress spec) (grExpectedC2SPct r) @
          lossFailures ''s2c'' (grLossS2CPct r) (grLossS2CPackets r) (ServerEgress spec) (grExpectedS2CPct r) @
          map storedFailure (grFailures r)))"

section \<open>Running the gate\<close>

text \<open>
  One try of \<open>iperf3\<close>: whether the server starts, the output and failure of the client, the failure
  and output of the server.
\<close>

record iperfTry =
  itStart :: "string option"
  itClient :: "string \<times> string option"
  itServer :: "string option"
  itServerOut :: string

definition runIperfOnce :: "library \<Rightarrow> iperfTry \<Rightarrow> string + IperfLossSample" where
  "runIperfOnce lib t = (case itStart t of Some e \<Rightarrow> Inl (''iperf3 server: '' @ e)
     | None \<Rightarrow> (case snd (itClient t) of Some e \<Rightarrow> Inl (e @ '' ('' @ trimSpace (fst (itClient t)) @ '')'')
       | None \<Rightarrow> (case itServer t of Some e \<Rightarrow> Inl (''iperf3 server: '' @ e @ '' ('' @ trimSpace (itServerOut t) @ '')'')
         | None \<Rightarrow> ParseIperfLossSample lib (fst (itClient t)))))"

text \<open>Five attempts: the first sample, or the errors of all of them.\<close>

fun tryClient :: "library \<Rightarrow> (nat \<Rightarrow> iperfTry) \<Rightarrow> nat \<Rightarrow> nat \<Rightarrow> string list \<Rightarrow> string list + IperfLossSample" where
  "tryClient lib tries attempt 0 errs = Inl errs"
| "tryClient lib tries attempt (Suc left) errs = (case runIperfOnce lib (tries attempt) of
       Inr sample \<Rightarrow> Inr sample
     | Inl e \<Rightarrow> tryClient lib tries (attempt + 1) left (errs @ [''attempt '' @ itoa (int attempt + 1) @ '': '' @ e]))"

definition runClient :: "library \<Rightarrow> (nat \<Rightarrow> iperfTry) \<Rightarrow> bool \<Rightarrow> string + IperfLossSample" where
  "runClient lib tries reversed = (case tryClient lib tries 0 5 [] of Inr sample \<Rightarrow> Inr sample
     | Inl errs \<Rightarrow> Inl (''iperf3 client(reverse='' @ (if reversed then ''true'' else ''false'') @ ''): '' @ joinText ''; '' errs))"

definition RunNetemGate :: "library \<Rightarrow> PairSpec \<Rightarrow> string \<times> string option \<Rightarrow> (bool \<Rightarrow> nat \<Rightarrow> iperfTry) \<Rightarrow>
    NetemGateReport \<times> string option" where
  "RunNetemGate lib spec ping iperf =
     (let report = \<lparr>grPingAvgMS = FFin 0, grExpectedRTTMS = wantRTT spec, grLossC2SPct = FFin 0, grLossC2SPackets = 0,
        grLossS2CPct = FFin 0, grLossS2CPackets = 0, grExpectedC2SPct = LossPercent (ClientEgress spec),
        grExpectedS2CPct = LossPercent (ServerEgress spec), grFailures = []\<rparr>
      in case snd ping of Some e \<Rightarrow> (report, Some (''ping: '' @ e @ '' ('' @ trimSpace (fst ping) @ '')''))
       | None \<Rightarrow> (case ParsePingAvgMS (fst ping) of Inl e \<Rightarrow> (report, Some e)
         | Inr avg \<Rightarrow>
            let report = report\<lparr>grPingAvgMS := avg, grFailures := errorTexts (checkRTT avg (wantRTT spec))\<rparr>
            in case runClient lib (iperf False) False of Inl e \<Rightarrow> (report, Some e)
             | Inr up \<Rightarrow>
                let c = ClientEgress spec;
                    report = report\<lparr>grLossC2SPct := ipLossPercent up, grLossC2SPackets := ipPackets up,
                      grFailures := grFailures report @ (if LossSeed c = 0
                        then errorTexts (checkLoss (ipLossPercent up) (LossPercent c) (LossBurstLen c) (ipPackets up) ''c2s'')
                        else [])\<rparr>
                in case runClient lib (iperf True) True of Inl e \<Rightarrow> (report, Some e)
                 | Inr down \<Rightarrow>
                    let s = ServerEgress spec
                    in (report\<lparr>grLossS2CPct := ipLossPercent down, grLossS2CPackets := ipPackets down,
                      grFailures := grFailures report @ (if LossSeed s = 0
                        then errorTexts (checkLoss (ipLossPercent down) (LossPercent s) (LossBurstLen s) (ipPackets down) ''s2c'')
                        else [])\<rparr>, None)))"

end
