(* ===== verification/Gate.thy ===== *)
theory Gate
  imports NetemEvidence NetemGate
begin

text \<open>
  The gate of a finished run (\<open>orchestrator/run/gate.go\<close>): every reason that makes the measurement
  invalid and every failure of the system under test. The library functions the evidence is recomputed
  with are the argument \<open>lib\<close>. A check panics only where \<open>Generate\<close> indexes past a trace shorter than
  a word, or where an authoritative scenario has no server state.
\<close>

section \<open>Input and result\<close>

record ProcessResult =
  prRole :: string
  prProcIndex :: int
  prPID :: int
  prConns :: int
  prOriginIDStart :: int
  prOriginIDEnd :: int
  prCommand :: "string list"
  prMetricsOut :: string
  prExited :: bool
  prExitCode :: int
  prError :: string

record GateInput =
  giControl :: "Result option"
  giMetrics :: "MergedMetrics option"
  giProcesses :: "ProcessResult list"
  giAttemptedThreshold :: f64
  giNetemEnabled :: bool
  giUDPDropDelta :: UDPStats
  giServerUDPDropDelta :: UDPStats
  giOffloads :: "OffloadEvidence option"
  giOffloadsAfter :: "OffloadEvidence option"
  giLossEvidence :: "NetemLossEvidence option"
  giExtraReasons :: "string list"
  giSUTFailureReasons :: "string list"
  giConfig :: "RunConfig option"

record GateResult =
  grVerdict :: string
  grReasons :: "string list"
  grAttemptedRatio :: f64
  grSUTFailureReasons :: "string list"

definition VerdictValid :: string where "VerdictValid = ''VALID''"
definition VerdictInvalid :: string where "VerdictInvalid = ''INVALID''"

text \<open>The first occurrences of the texts that are not empty, in order.\<close>

definition dedupeStrings :: "string list \<Rightarrow> string list" where
  "dedupeStrings xs = foldl (\<lambda>out s. if s = [] \<or> s \<in> set out then out else out @ [s]) [] xs"

section \<open>Offload evidence\<close>

definition offloadsRequired :: "RunConfig option \<Rightarrow> NetemRegime option" where
  "offloadsRequired cfg = (case cfg of None \<Rightarrow> None
     | Some c \<Rightarrow> (case cNetem c of None \<Rightarrow> None | Some n \<Rightarrow> if nrDisableOffloads n then Some n else None))"

definition ValidateRunOffloads :: "library \<Rightarrow> RunConfig option \<Rightarrow> OffloadEvidence option \<Rightarrow> string list" where
  "ValidateRunOffloads lib cfg evidence = (case offloadsRequired cfg of None \<Rightarrow> []
     | Some n \<Rightarrow> map (\<lambda>r. ''offload evidence: '' @ r)
         (ValidateOffloadEvidence lib (pairSpec (executablePath lib) n) evidence))"

definition ValidateOffloadIntervalEvidence :: "library \<Rightarrow> RunConfig option \<Rightarrow> OffloadEvidence option \<Rightarrow>
    OffloadEvidence option \<Rightarrow> bool \<Rightarrow> string list" where
  "ValidateOffloadIntervalEvidence lib cfg before after allowMissingAfter =
     ValidateRunOffloads lib cfg before @
     (case offloadsRequired cfg of None \<Rightarrow> []
      | Some n \<Rightarrow> if after = None then reasonIf (\<not> allowMissingAfter) ''offload evidence after measurement: missing''
          else map (\<lambda>r. ''offload evidence after measurement: '' @ r)
            (ValidateOffloadEvidence lib (pairSpec (executablePath lib) n) after))"

section \<open>Loss evidence\<close>

definition evidencePrefix :: "string \<Rightarrow> string" where
  "evidencePrefix reason = ''netem loss evidence: '' @ reason"

text \<open>The checks both kinds of evidence begin with.\<close>

definition envelopeReasons :: "string \<Rightarrow> string \<Rightarrow> Result option \<Rightarrow> NetemLossEvidence \<Rightarrow> string list" where
  "envelopeReasons mode unsupported control e =
     reasonIf (leVersion e \<noteq> 1) (''version='' @ itoa (leVersion e) @ '', want 1'') @
     reasonIf (leMode e \<noteq> mode) (''mode='' @ quoteText (leMode e) @ '', want '' @ quoteText mode) @
     reasonIf (\<not> leSupported e) unsupported @
     reasonIf (leScope e \<noteq> lossEvidenceScopeEffectiveInner)
       (''scope='' @ quoteText (leScope e) @ '' does not prove in-window loss'') @
     leErrors e @
     (case control of None \<Rightarrow> [''control schedule is unavailable'']
      | Some c \<Rightarrow> reasonIf (leSchedule e \<noteq> rSchedule c) ''captured schedule does not match effective control schedule'')"

definition outsideText :: "string \<Rightarrow> int \<Rightarrow> string \<Rightarrow> int \<Rightarrow> string" where
  "outsideText what a rel b = what @ '' outside measurement window: '' @ itoa a @ '' '' @ rel @ '' '' @ itoa b"

definition sampleReasons :: "ScheduleMessage \<Rightarrow> DeterministicLossEvidence \<Rightarrow> string list" where
  "sampleReasons sched det =
     reasonIf (deBeforeStartNS det < StartAtNS sched)
       (outsideText ''before sample started'' (deBeforeStartNS det) ''<'' (StartAtNS sched)) @
     reasonIf (StopAtNS sched < deAfterFinishNS det)
       (outsideText ''after sample finished'' (deAfterFinishNS det) ''>'' (StopAtNS sched)) @
     reasonIf (deAfterStartNS det \<le> deBeforeFinishNS det) ''counter samples overlap''"

text \<open>The recount of one direction: the trace is generated again and the drops of the counter range are counted.\<close>

definition recountReasons :: "library \<Rightarrow> string \<Rightarrow> Netem \<Rightarrow> DeterministicLossDirection \<Rightarrow> halt + string list" where
  "recountReasons lib name wanted r =
     rbind (regenerate (randomDraws lib) wanted (dlTraceBits r)) (\<lambda>g. case g of
       Inl e \<Rightarrow> Inr [name @ '' trace regeneration failed: '' @ e]
     | Inr (words, realized) \<Rightarrow>
         rbind (recount words r) (\<lambda>c.
         Inr (reasonIf (hashWords lib words \<noteq> dlTraceSHA256 r)
             (name @ '' stored trace hash does not match the regenerated trace'') @
           reasonIf (\<not> f_eq realized (dlRealizedLossPct r))
             (name @ '' stored realized loss rate does not match the regenerated trace'') @
           (case c of Inl e \<Rightarrow> [name @ '' trace drop recount failed: '' @ e]
            | Inr n \<Rightarrow> reasonIf (n \<noteq> dlExpectedDrops r)
                (name @ '' stored expected drops do not match the regenerated trace'')))))"

definition countedReasons :: "string \<Rightarrow> string \<Rightarrow> string \<Rightarrow> Netem \<Rightarrow> DeterministicLossDirection \<Rightarrow> string list" where
  "countedReasons name namespace device wanted r =
     reasonIf (dlNamespace r \<noteq> namespace \<or> dlDev r \<noteq> device)
       (name @ '' source='' @ dlNamespace r @ ''/'' @ dlDev r @ '', want '' @ namespace @ ''/'' @ device) @
     reasonIf (dlTraceBits r \<noteq> traceBitsOrDefault wanted)
       (name @ '' trace_bits='' @ itoa (dlTraceBits r) @ '' does not match configured '' @ itoa (traceBitsOrDefault wanted))"

definition packetReasons :: "string \<Rightarrow> DeterministicLossDirection \<Rightarrow> string list" where
  "packetReasons name r =
     reasonIf (dlPackets r \<noteq> dlCounterAfter r - dlCounterBefore r) (name @ '' stored packet count does not match counters'') @
     reasonIf (dlPackets r = 0) (name @ '' observed no packets in the measurement window'') @
     reasonIf (dlExpectedDrops r = 0) (name @ '' expected drop count is zero for configured loss'')"

definition directionReasons :: "library \<Rightarrow> string \<Rightarrow> string \<Rightarrow> string \<Rightarrow> Netem \<Rightarrow> DeterministicLossDirection option \<Rightarrow>
    halt + string list" where
  "directionReasons lib name namespace device wanted entry =
     (if f_le (LossPercent wanted) (FFin 0) then Inr []
      else if LossSeed wanted = 0 then Inr [name @ '' mixes random loss into a deterministic run'']
      else case entry of None \<Rightarrow> Inr [name @ '' counter record is missing for configured loss'']
        | Some r \<Rightarrow>
            let counted = countedReasons name namespace device wanted r
            in if dlCounterAfter r < dlCounterBefore r then Inr (counted @ [name @ '' counter went backwards''])
               else rbind (recountReasons lib name wanted r) (\<lambda>rs. Inr (counted @ packetReasons name r @ rs)))"

definition validateDeterministicLossEvidence :: "library \<Rightarrow> NetemRegime \<Rightarrow> Result option \<Rightarrow> NetemLossEvidence option \<Rightarrow>
    halt + string list" where
  "validateDeterministicLossEvidence lib n control evidence =
     (case evidence of None \<Rightarrow> Inr [evidencePrefix ''missing for configured deterministic loss'']
      | Some e \<Rightarrow>
         let envelope = envelopeReasons lossEvidenceModeDeterministicTrace
               ''deterministic trace accounting marked unsupported'' control e
         in case leDeterministic e of
              None \<Rightarrow> Inr (dedupeStrings (map evidencePrefix (envelope @ [''deterministic counter samples are missing''])))
            | Some det \<Rightarrow>
                let pair = pairSpec (executablePath lib) n
                in rbind (directionReasons lib ''server_egress'' (ServerNS pair) (ServerVeth pair) (nrServerEgress n) (deServer det)) (\<lambda>s.
                   rbind (directionReasons lib ''client_egress'' (ClientNS pair) (ClientVeth pair) (nrClientEgress n) (deClient det)) (\<lambda>c.
                   Inr (dedupeStrings (map evidencePrefix (envelope @ sampleReasons (leSchedule e) det @ s @ c))))))"

definition sampleOutside :: "ScheduleMessage \<Rightarrow> QdiscSample \<Rightarrow> bool" where
  "sampleOutside sched s \<longleftrightarrow> sCaptureStartNS s < StartAtNS sched \<or> StopAtNS sched < sCaptureFinishNS s \<or>
     sCaptureFinishNS s < sCaptureStartNS s"

definition notBracketed :: "QdiscPairSnapshot \<Rightarrow> bool" where
  "notBracketed s \<longleftrightarrow> sCaptureStartNS (snServer s) < CaptureStartNS s \<or>
     sCaptureFinishNS (snServer s) < sCaptureStartNS (snServer s) \<or>
     sCaptureStartNS (snClient s) < sCaptureFinishNS (snServer s) \<or>
     sCaptureFinishNS (snClient s) < sCaptureStartNS (snClient s) \<or> CaptureFinishNS s < sCaptureFinishNS (snClient s)"

definition validateQdiscSnapshotBounds :: "ScheduleMessage \<Rightarrow> QdiscPairSnapshot \<Rightarrow> QdiscPairSnapshot \<Rightarrow> string list" where
  "validateQdiscSnapshotBounds sched before after =
     reasonIf (CaptureStartNS before < StartAtNS sched)
       (outsideText ''before snapshot started'' (CaptureStartNS before) ''<'' (StartAtNS sched)) @
     reasonIf (CaptureFinishNS before < CaptureStartNS before) ''before snapshot timing is inverted'' @
     reasonIf (CaptureStartNS after < CaptureFinishNS before) ''qdisc snapshot intervals overlap or are reversed'' @
     reasonIf (CaptureStartNS after < StartAtNS sched \<or> CaptureFinishNS after < CaptureStartNS after)
       ''after snapshot timing is outside or inverted'' @
     reasonIf (StopAtNS sched < CaptureFinishNS after)
       (outsideText ''after snapshot finished'' (CaptureFinishNS after) ''>'' (StopAtNS sched)) @
     concat (map (\<lambda>s. reasonIf (sampleOutside sched s) (sNamespace s @ ''/'' @ sDevice s @ '' sample timing is outside or inverted''))
       [snServer before, snClient before, snServer after, snClient after]) @
     concat (map (\<lambda>(name, s). reasonIf (notBracketed s)
         (name @ '' pair bracket does not enclose sequential server/client samples''))
       [(''before'', before), (''after'', after)])"

definition phaseReasons :: "string \<Rightarrow> string \<Rightarrow> string \<Rightarrow> Netem \<Rightarrow> string \<Rightarrow> QdiscSample \<Rightarrow> string list" where
  "phaseReasons name namespace device wanted phase sample =
     reasonIf (sNamespace sample \<noteq> namespace \<or> sDevice sample \<noteq> device)
       (name @ '' '' @ phase @ '' source='' @ sNamespace sample @ ''/'' @ sDevice sample @ '', want '' @ namespace @ ''/'' @ device) @
     map (\<lambda>e. name @ '' '' @ phase @ '' readback mismatch: '' @ e) (errorTexts (ValidateQdiscSampleReadback sample)) @
     (case sStats sample of None \<Rightarrow> []
      | Some stats \<Rightarrow> map (\<lambda>e. name @ '' '' @ phase @ '' qdisc mismatch: '' @ e) (errorTexts (ValidateNetemEcho wanted stats)))"

definition egressReasons :: "string \<Rightarrow> string \<Rightarrow> string \<Rightarrow> Netem \<Rightarrow> QdiscSample \<Rightarrow> QdiscSample \<Rightarrow>
    QdiscCounterDelta option \<Rightarrow> string list" where
  "egressReasons name namespace device wanted before after delta =
     phaseReasons name namespace device wanted ''before'' before @
     phaseReasons name namespace device wanted ''after'' after @
     (if f_lt (FFin 0) (LossPercent wanted)
      then (case delta of None \<Rightarrow> [name @ '' counter delta unavailable for configured loss'']
        | Some d \<Rightarrow> reasonIf (dDropped d = 0) (name @ '' observed dropped delta is zero for configured loss''))
      else [])"

definition storedDeltaReasons :: "QdiscPairDelta option \<Rightarrow> QdiscPairDelta \<Rightarrow> string list" where
  "storedDeltaReasons stored computed = (case stored of None \<Rightarrow> [''counter delta is missing'']
     | Some d \<Rightarrow> map (\<lambda>e. ''stored delta: '' @ e) (pdErrors d) @
         reasonIf (pdServer d \<noteq> pdServer computed \<or> pdClient d \<noteq> pdClient computed)
           ''stored counter delta does not match snapshots'')"

definition validateRandomLossEvidence :: "library \<Rightarrow> NetemRegime \<Rightarrow> Result option \<Rightarrow> NetemLossEvidence option \<Rightarrow> string list" where
  "validateRandomLossEvidence lib n control evidence =
     (case evidence of None \<Rightarrow> [evidencePrefix ''missing for configured random loss'']
      | Some e \<Rightarrow>
         let envelope = envelopeReasons lossEvidenceModeRandomNetem ''random netem qdisc accounting marked unsupported'' control e
         in dedupeStrings (map evidencePrefix (envelope @
           (case (leBefore e, leAfter e) of
              (Some before, Some after) \<Rightarrow>
                let computed = DeltaQdiscPair before after; pair = pairSpec (executablePath lib) n
                in validateQdiscSnapshotBounds (leSchedule e) before after @
                   pdErrors computed @
                   storedDeltaReasons (leDelta e) computed @
                   egressReasons ''server_egress'' (ServerNS pair) (ServerVeth pair) (nrServerEgress n)
                     (snServer before) (snServer after) (pdServer computed) @
                   egressReasons ''client_egress'' (ClientNS pair) (ClientVeth pair) (nrClientEgress n)
                     (snClient before) (snClient after) (pdClient computed)
            | (before, after) \<Rightarrow>
                reasonIf (before = None) ''before snapshot is missing'' @ reasonIf (after = None) ''after snapshot is missing''))))"

definition ValidateNetemLossEvidence :: "library \<Rightarrow> RunConfig option \<Rightarrow> Result option \<Rightarrow> NetemLossEvidence option \<Rightarrow>
    halt + string list" where
  "ValidateNetemLossEvidence lib cfg control evidence =
     (case Option.bind cfg cNetem of None \<Rightarrow> Inr []
      | Some n \<Rightarrow>
         if \<not> configuredLoss (Some n) then Inr []
         else if deterministicLoss (Some n) then validateDeterministicLossEvidence lib n control evidence
         else Inr (validateRandomLossEvidence lib n control evidence))"

section \<open>The statistics of the participants\<close>

record authoritativeProgress =
  apRole :: string
  apLocalConns :: u64
  apRosterConns :: u64
  apInputLastSentMin :: u64
  apInputLastSentMax :: u64
  apStateHeaderSeqRecvMin :: u64
  apStateHeaderSeqRecvMax :: u64
  apStateAppliedInputSeqRecvMin :: u64
  apStateAppliedInputSeqRecvMax :: u64
  apServerStateTicks :: u64

record scenarioDoneStats =
  dsInvalidPayload :: "u64 option"
  dsPeerDisconnects :: "u64 option"
  dsSendRefused :: "u64 option"
  dsProgress :: "authoritativeProgress option"

definition decProgress :: "authoritativeProgress \<Rightarrow> json \<Rightarrow> authoritativeProgress option" where
  "decProgress = decodeStruct
     [(''role'', decString apRole_update), (''local_conns'', decUint apLocalConns_update),
      (''roster_conns'', decUint apRosterConns_update), (''input_last_sent_min'', decUint apInputLastSentMin_update),
      (''input_last_sent_max'', decUint apInputLastSentMax_update),
      (''state_header_seq_recv_min'', decUint apStateHeaderSeqRecvMin_update),
      (''state_header_seq_recv_max'', decUint apStateHeaderSeqRecvMax_update),
      (''state_applied_input_seq_recv_min'', decUint apStateAppliedInputSeqRecvMin_update),
      (''state_applied_input_seq_recv_max'', decUint apStateAppliedInputSeqRecvMax_update),
      (''server_state_ticks'', decUint apServerStateTicks_update)]"

definition zeroProgress :: authoritativeProgress where
  "zeroProgress = \<lparr>apRole = [], apLocalConns = 0, apRosterConns = 0, apInputLastSentMin = 0, apInputLastSentMax = 0,
     apStateHeaderSeqRecvMin = 0, apStateHeaderSeqRecvMax = 0, apStateAppliedInputSeqRecvMin = 0,
     apStateAppliedInputSeqRecvMax = 0, apServerStateTicks = 0\<rparr>"

text \<open>A pointer to a struct: a repeated key decodes into the struct already there.\<close>

definition decDoneStats :: "json \<Rightarrow> scenarioDoneStats option" where
  "decDoneStats = decodeStruct
     [(''invalid_payload'', decPointer dsInvalidPayload_update decU64),
      (''peer_disconnects'', decPointer dsPeerDisconnects_update decU64),
      (''send_refused'', decPointer dsSendRefused_update decU64),
      (''authoritative_progress'', \<lambda>s. decPointer dsProgress_update
         (decProgress (case dsProgress s of None \<Rightarrow> zeroProgress | Some p \<Rightarrow> p)) s)]
     \<lparr>dsInvalidPayload = None, dsPeerDisconnects = None, dsSendRefused = None, dsProgress = None\<rparr>"

text \<open>Only a participant that reported done has statistics; the server never stores them empty.\<close>

definition doneStats :: "Participant \<Rightarrow> scenarioDoneStats option" where
  "doneStats p = (if DoneReceived p then decDoneStats (DoneStats p) else None)"

definition totalOf :: "(scenarioDoneStats \<Rightarrow> u64 option) \<Rightarrow> Result option \<Rightarrow> u64" where
  "totalOf f control = (case control of None \<Rightarrow> 0
     | Some c \<Rightarrow> foldl (\<lambda>acc p. case Option.bind (doneStats p) f of None \<Rightarrow> acc | Some n \<Rightarrow> acc + n) 0 (Participants c))"

definition totalPeerDisconnects :: "Result option \<Rightarrow> u64" where
  "totalPeerDisconnects = totalOf dsPeerDisconnects"

definition totalSendRefused :: "Result option \<Rightarrow> u64" where
  "totalSendRefused = totalOf dsSendRefused"

definition losslessScenario :: "NetemRegime option \<Rightarrow> bool" where
  "losslessScenario netem \<longleftrightarrow> (case netem of None \<Rightarrow> True
     | Some n \<Rightarrow> f_lt (f_abs (LossPercent (nrClientEgress n))) (f_of_rat (1 / 10 ^ 12)) \<and>
         f_lt (f_abs (LossPercent (nrServerEgress n))) (f_of_rat (1 / 10 ^ 12)))"

text \<open>The state of the loop over the participants.\<close>

record doneCheck =
  dcInvalid :: "string list"
  dcFailed :: "string list"
  dcServers :: int
  dcFinalSeq :: "u64 option"

definition statsContext :: "Participant \<Rightarrow> string" where
  "statsContext p = Role (pHello p) @ '' proc_index='' @ itoa (ProcIndex (pHello p)) @ '' done.stats''"

definition serverFailures :: "string \<Rightarrow> RunConfig \<Rightarrow> TrafficSpec \<Rightarrow> authoritativeProgress \<Rightarrow> string list" where
  "serverFailures context cfg state progress =
     reasonIf (apRosterConns progress \<noteq> u64_of_int (cTotalConns cfg))
       (context @ '' roster_conns='' @ itoaU (apRosterConns progress) @ '', want '' @ itoa (cTotalConns cfg)) @
     (let r = expectedSlotRange (RateHz (LossTolerant state)) (cDuration cfg) 1;
          (minTicks, maxTicks) = (case r of Inl _ \<Rightarrow> (0, 0) | Inr b \<Rightarrow> b)
      in reasonIf (success r = None \<or> apServerStateTicks progress < minTicks \<or> maxTicks < apServerStateTicks progress)
        (context @ '' server_state_ticks='' @ itoaU (apServerStateTicks progress) @ '', want '' @ itoaU minTicks @ ''..'' @
          itoaU maxTicks @ '' independent global ticks''))"

definition clientFailures :: "string \<Rightarrow> RunConfig \<Rightarrow> int \<Rightarrow> authoritativeProgress \<Rightarrow> string list" where
  "clientFailures context cfg conns a =
     reasonIf (apLocalConns a \<noteq> u64_of_int conns \<or> apRosterConns a \<noteq> u64_of_int (cTotalConns cfg))
       (context @ '' connection coverage local='' @ itoaU (apLocalConns a) @ ''/'' @ itoa conns @ '' roster='' @
         itoaU (apRosterConns a) @ ''/'' @ itoa (cTotalConns cfg)) @
     concat (map (\<lambda>(name, value). reasonIf (value = 0)
         (context @ '' '' @ name @ ''=0; not every local connection demonstrated progress''))
       [(''input_last_sent_min'', apInputLastSentMin a), (''state_header_seq_recv_min'', apStateHeaderSeqRecvMin a),
        (''state_applied_input_seq_recv_min'', apStateAppliedInputSeqRecvMin a)]) @
     reasonIf (apInputLastSentMax a < apStateAppliedInputSeqRecvMax a)
       (context @ '' applied input seq='' @ itoaU (apStateAppliedInputSeqRecvMax a) @ '' exceeds locally sent seq='' @
         itoaU (apInputLastSentMax a)) @
     reasonIf (losslessScenario (cNetem cfg) \<and> apStateAppliedInputSeqRecvMin a + 1 < apInputLastSentMin a)
       (context @ '' final applied input min='' @ itoaU (apStateAppliedInputSeqRecvMin a) @
         '' did not catch up to sent min='' @ itoaU (apInputLastSentMin a)) @
     reasonIf (losslessScenario (cNetem cfg) \<and> apStateHeaderSeqRecvMin a \<noteq> apStateHeaderSeqRecvMax a)
       (context @ '' final global state tick differs across local connections: min='' @ itoaU (apStateHeaderSeqRecvMin a) @
         '' max='' @ itoaU (apStateHeaderSeqRecvMax a))"

definition invertedRange :: "authoritativeProgress \<Rightarrow> bool" where
  "invertedRange a \<longleftrightarrow> apInputLastSentMax a < apInputLastSentMin a \<or>
     apStateHeaderSeqRecvMax a < apStateHeaderSeqRecvMin a \<or>
     apStateAppliedInputSeqRecvMax a < apStateAppliedInputSeqRecvMin a"

definition noteInvalid :: "string list \<Rightarrow> doneCheck \<Rightarrow> doneCheck" where
  "noteInvalid rs d = d\<lparr>dcInvalid := dcInvalid d @ rs\<rparr>"

definition noteFailed :: "string list \<Rightarrow> doneCheck \<Rightarrow> doneCheck" where
  "noteFailed rs d = d\<lparr>dcFailed := dcFailed d @ rs\<rparr>"

definition checkProgress :: "RunConfig \<Rightarrow> ScenarioSpec \<Rightarrow> Participant \<Rightarrow> authoritativeProgress \<Rightarrow> doneCheck \<Rightarrow> halt + doneCheck" where
  "checkProgress cfg scenario p a d =
     (let context = statsContext p; role = Role (pHello p);
          d = noteInvalid (reasonIf (apRole a \<noteq> role)
            (context @ '' role='' @ quoteText (apRole a) @ '', want '' @ quoteText role)) d
      in if role = ''server''
         then (case ServerState scenario of None \<Rightarrow> Inl Panicked
           | Some state \<Rightarrow> Inr (noteFailed (serverFailures context cfg state a) (d\<lparr>dcServers := dcServers d + 1\<rparr>)))
         else if role = ''client''
         then
           let d = noteInvalid (reasonIf (invertedRange a) (context @ '' has inverted authoritative progress range''))
                 (noteFailed (clientFailures context cfg (ReadyConns p) a) d);
               lossless = losslessScenario (cNetem cfg);
               d = (if lossless
                 then noteFailed (case dcFinalSeq d of None \<Rightarrow> []
                   | Some seq \<Rightarrow> reasonIf (apStateHeaderSeqRecvMax a \<noteq> seq)
                       (context @ '' final global state tick='' @ itoaU (apStateHeaderSeqRecvMax a) @
                         '' differs from another client process='' @ itoaU seq)) d
                 else d)
           in Inr (if lossless then d\<lparr>dcFinalSeq := Some (apStateHeaderSeqRecvMax a)\<rparr> else d)
         else Inr (noteInvalid [context @ '' has unknown role''] d))"

definition checkParticipant :: "RunConfig \<Rightarrow> ScenarioSpec \<Rightarrow> doneCheck \<Rightarrow> Participant \<Rightarrow> halt + doneCheck" where
  "checkParticipant cfg scenario d p =
     (let context = statsContext p
      in case doneStats p of None \<Rightarrow> Inr (noteInvalid [context @ '' is not a JSON object''] d)
       | Some stats \<Rightarrow>
          let d = (case dsInvalidPayload stats of
                None \<Rightarrow> noteInvalid [context @ '' missing invalid_payload''] d
              | Some n \<Rightarrow> noteFailed (reasonIf (n \<noteq> 0) (context @ '' payload corruption count='' @ itoaU n)) d)
          in if scKind scenario \<noteq> ScenarioAuthoritativeState then Inr d
             else (case dsProgress stats of None \<Rightarrow> Inr (noteInvalid [context @ '' missing authoritative_progress''] d)
               | Some a \<Rightarrow> checkProgress cfg scenario p a d))"

definition validateScenarioDoneStats :: "Result \<Rightarrow> RunConfig \<Rightarrow> ScenarioSpec \<Rightarrow> halt + string list \<times> string list" where
  "validateScenarioDoneStats control cfg scenario =
     rbind (foldM (checkParticipant cfg scenario) \<lparr>dcInvalid = [], dcFailed = [], dcServers = 0, dcFinalSeq = None\<rparr>
       (Participants control)) (\<lambda>d.
     let broken = dcInvalid d @ reasonIf (scKind scenario = ScenarioAuthoritativeState \<and> dcServers d \<noteq> 1)
           (''authoritative progress has '' @ itoa (dcServers d) @ '' server records, want 1'')
     in Inr (dedupeStrings broken, dedupeStrings (dcFailed d)))"

section \<open>The verdict\<close>

definition controlReasons :: "Result option \<Rightarrow> string list" where
  "controlReasons control = (case control of None \<Rightarrow> [''control result is missing'']
     | Some c \<Rightarrow> InvalidReasons c @ concat (map (\<lambda>p. reasonIf (AckReceived p \<and> AckMarginNS p < 0)
         (''proc_index='' @ itoa (ProcIndex (pHello p)) @ '' pid='' @ itoa (PID (pHello p)) @
           '' negative schedule margin: '' @ itoa (AckMarginNS p) @ '' ns'')) (Participants c)))"

definition doneReasons :: "RunConfig option \<Rightarrow> Result option \<Rightarrow> halt + string list \<times> string list" where
  "doneReasons cfg control = (case (cfg, control) of
       (Some c, Some r) \<Rightarrow> (case (cRamp c, cScenario c) of
           (None, Some scenario) \<Rightarrow> validateScenarioDoneStats r c scenario
         | _ \<Rightarrow> Inr ([], []))
     | _ \<Rightarrow> Inr ([], []))"

definition isRamp :: "RunConfig option \<Rightarrow> bool" where
  "isRamp cfg \<longleftrightarrow> (case cfg of None \<Rightarrow> False | Some c \<Rightarrow> cRamp c \<noteq> None)"

text \<open>The attempted ratio, the reasons it gives and the failures it attributes to the system under test.\<close>

definition belowText :: "f64 \<Rightarrow> f64 \<Rightarrow> string" where
  "belowText attempted threshold = ''attempted_ratio='' @ formatG attempted @ '' below threshold='' @ formatG threshold"

definition attemptedReasons :: "GateInput \<Rightarrow> MergedMetrics \<Rightarrow> string list \<times> string list" where
  "attemptedReasons input m =
     (let attempted = attemptedRatio m; threshold = giAttemptedThreshold input;
          refused = totalSendRefused (giControl input); disconnects = totalPeerDisconnects (giControl input)
      in if \<not> f_lt attempted threshold then ([], [])
         else if 0 < disconnects
         then ([], [belowText attempted threshold @ '' with peer_disconnects='' @ itoaU disconnects @
           '': unsent slots attributed to SUT disconnects''])
         else if 0 < refused \<and> f_le threshold (attemptedRatioWith m refused)
         then ([], [belowText attempted threshold @ '' with send_refused='' @ itoaU refused @ '': the SUT refused the sends''])
         else ([belowText attempted threshold], []))"

definition metricsReasons :: "GateInput \<Rightarrow> f64 \<times> string list \<times> string list" where
  "metricsReasons input =
     (if isRamp (giConfig input) then (FFin 0, [], [])
      else case giMetrics input of None \<Rightarrow> (FFin 0, [''merged metrics are missing''], [])
        | Some m \<Rightarrow>
           (case attemptedReasons input m of (shortfall, failed) \<Rightarrow>
             (attemptedRatio m, shortfall @ reasonIf (TimestampOrderViolations (mmRaw m) \<noteq> 0)
               (''timestamp_order_violations='' @ itoaU (TimestampOrderViolations (mmRaw m)) @ '', want 0''), failed)))"

definition processText :: "ProcessResult \<Rightarrow> string" where
  "processText p = prRole p @ '' proc_index='' @ itoa (prProcIndex p) @ '' pid='' @ itoa (prPID p)"

definition processReasons :: "ProcessResult \<Rightarrow> string list" where
  "processReasons p =
     (if \<not> prExited p then [processText p @ '' did not exit'']
      else reasonIf (prExitCode p \<noteq> 0)
        (processText p @ '' exit_code='' @ itoa (prExitCode p) @ (if prError p \<noteq> [] then '': '' @ prError p else [])))"

definition udpReasons :: "GateInput \<Rightarrow> string list" where
  "udpReasons input = (let d = giUDPDropDelta input in
     reasonIf (giNetemEnabled input \<and> (InErrors d \<noteq> 0 \<or> RcvbufErrors d \<noteq> 0))
       (''client netns UDP drop delta non-zero: InErrors='' @ itoaU (InErrors d) @ '' RcvbufErrors='' @ itoaU (RcvbufErrors d)))"

definition EvaluateGate :: "library \<Rightarrow> GateInput \<Rightarrow> halt + GateResult" where
  "EvaluateGate lib input =
     rbind (doneReasons (giConfig input) (giControl input)) (\<lambda>(doneInvalid, doneFailed).
     rbind (ValidateNetemLossEvidence lib (giConfig input) (giControl input) (giLossEvidence input)) (\<lambda>lossReasons.
     case metricsReasons input of (attempted, metricsInvalid, metricsFailed) \<Rightarrow>
       let sutReasons = giSUTFailureReasons input @ doneFailed @ metricsFailed;
           reasons = giExtraReasons input @ controlReasons (giControl input) @ doneInvalid @ metricsInvalid @
             concat (map processReasons (giProcesses input)) @ udpReasons input @
             ValidateOffloadIntervalEvidence lib (giConfig input) (giOffloads input) (giOffloadsAfter input)
               (sutReasons \<noteq> []) @
             lossReasons
       in Inr \<lparr>grVerdict = (if reasons \<noteq> [] then VerdictInvalid else VerdictValid), grReasons = dedupeStrings reasons,
         grAttemptedRatio = attempted, grSUTFailureReasons = dedupeStrings sutReasons\<rparr>))"

end
