(* ===== verification/Cost.thy ===== *)
theory Cost
  imports NetemEvidence
begin

text \<open>
  Resource samples and costs (\<open>orchestrator/sampler/sampler.go\<close>, \<open>run/cost.go\<close> and the sampling loop of
  \<open>run/runner.go\<close>): the parsing of \<open>/proc\<close> files, the series of samples of every process, the part of
  them inside the measured window and the costs derived from it. What the clock and the files return
  is an argument; a failed read says whether the process is gone.
\<close>

section \<open>Samples\<close>

record Sample =
  TimeNS :: int
  smPID :: int
  UTimeTicks :: u64
  STimeTicks :: u64
  CPUTimeNS :: int
  RSSBytes :: u64

record Series =
  srPID :: int
  srSamples :: "Sample list"

definition Window :: "Series \<Rightarrow> int \<Rightarrow> int \<Rightarrow> Series" where
  "Window s startNS stopNS =
     \<lparr>srPID = srPID s, srSamples = filter (\<lambda>x. startNS \<le> TimeNS x \<and> TimeNS x \<le> stopNS) (srSamples s)\<rparr>"

definition WindowAll :: "(int \<times> Series) list \<Rightarrow> int \<Rightarrow> int \<Rightarrow> (int \<times> Series) list" where
  "WindowAll series startNS stopNS = map (\<lambda>(pid, s). (pid, Window s startNS stopNS)) series"

definition sortedSeries :: "(int \<times> Series) list \<Rightarrow> Series list" where
  "sortedSeries series = map snd (sort_key fst series)"

section \<open>Reading a process\<close>

datatype read_error = NotExist string | NoProcess string | ReadFailed string

definition uintField :: "string \<Rightarrow> string \<Rightarrow> string + u64" where
  "uintField name s = (case parseUint s of None \<Rightarrow> Inl (name @ '': '' @ uintErrorText s) | Some v \<Rightarrow> Inr v)"

text \<open>The fields after the last closing parenthesis of \<open>/proc/pid/stat\<close>.\<close>

definition afterComm :: "string \<Rightarrow> string" where
  "afterComm stat = rev (takeWhile (\<lambda>c. c \<noteq> CHR '')'') (rev stat))"

definition ParseStat :: "string \<Rightarrow> string + u64 \<times> u64" where
  "ParseStat stat =
     (if CHR '')'' \<notin> set stat then Inl ''missing comm terminator''
      else
        let fs = textFields (afterComm stat)
        in if length fs \<le> 12 then Inl (''too few fields after comm: '' @ itoa (int (length fs)))
           else rbind (uintField ''utime'' (fs ! 11)) (\<lambda>utime.
                rbind (uintField ''stime'' (fs ! 12)) (\<lambda>stime. Inr (utime, stime))))"

fun rssLines :: "string list \<Rightarrow> string + u64" where
  "rssLines [] = Inr 0"
| "rssLines (l # ls) =
     (if \<not> hasPrefix l ''VmRSS:'' then rssLines ls
      else
        let fs = textFields l
        in if length fs < 2 then Inl ''VmRSS line has too few fields''
           else rbind (uintField ''VmRSS'' (fs ! 1)) (\<lambda>kb. Inr (kb * 1024)))"

definition ParseStatusRSS :: "string \<Rightarrow> string + u64" where
  "ParseStatusRSS status = rssLines (scanLines status)"

text \<open>The clock, \<open>/proc/pid/stat\<close> and \<open>/proc/pid/status\<close> as one read finds them.\<close>

record procRead =
  rdNow :: "string + int"
  rdStat :: "read_error + string"
  rdStatus :: "read_error + string"

fun inFile :: "string \<Rightarrow> read_error \<Rightarrow> read_error" where
  "inFile what (NotExist e) = NotExist (what @ e)"
| "inFile what (NoProcess e) = NoProcess (what @ e)"
| "inFile what (ReadFailed e) = ReadFailed (what @ e)"

definition procFile :: "int \<Rightarrow> string \<Rightarrow> string" where
  "procFile pid file = ''/proc/'' @ itoa pid @ ''/'' @ file @ '': ''"

text \<open>\<open>int64(utime+stime) * 1_000_000_000 / ticksPerSecond\<close>: the product wraps, the division truncates.\<close>

definition cpuTime :: "u64 \<Rightarrow> u64 \<Rightarrow> int \<Rightarrow> int" where
  "cpuTime utime stime ticksPerSecond = wrap64 (wrap64 (uint (utime + stime)) * 1000000000) sdiv ticksPerSecond"

definition ReadWithClockTicks :: "int \<Rightarrow> int \<Rightarrow> procRead \<Rightarrow> read_error + Sample" where
  "ReadWithClockTicks ticksPerSecond pid r =
     (if ticksPerSecond \<le> 0 then Inl (ReadFailed ''clock ticks per second must be > 0'')
      else rbind (wrap_err (\<lambda>e. ReadFailed (''clock_gettime(CLOCK_MONOTONIC): '' @ e)) (rdNow r)) (\<lambda>nowNS.
        rbind (wrap_err (inFile (''read '' @ procFile pid ''stat'')) (rdStat r)) (\<lambda>stat.
        rbind (wrap_err (\<lambda>e. ReadFailed (''parse '' @ procFile pid ''stat'' @ e)) (ParseStat stat)) (\<lambda>(utime, stime).
        rbind (wrap_err (inFile (''read '' @ procFile pid ''status'')) (rdStatus r)) (\<lambda>status.
        rbind (wrap_err (\<lambda>e. ReadFailed (''parse '' @ procFile pid ''status'' @ e)) (ParseStatusRSS status)) (\<lambda>rss.
        Inr \<lparr>TimeNS = nowNS, smPID = pid, UTimeTicks = utime, STimeTicks = stime,
          CPUTimeNS = cpuTime utime stime ticksPerSecond, RSSBytes = rss\<rparr>))))))"

definition DefaultClockTicksPerSecond :: int where "DefaultClockTicksPerSecond = 100"

definition ReadSample :: "int \<Rightarrow> procRead \<Rightarrow> read_error + Sample" where
  "ReadSample = ReadWithClockTicks DefaultClockTicksPerSecond"

section \<open>The sampling loops\<close>

text \<open>A map indexed by a process that has no series yields an empty one.\<close>

definition appendSample :: "(int \<times> Series) list \<Rightarrow> int \<Rightarrow> Sample \<Rightarrow> (int \<times> Series) list" where
  "appendSample series pid s =
     (let current = (case map_of series pid of None \<Rightarrow> \<lparr>srPID = 0, srSamples = []\<rparr> | Some c \<Rightarrow> c)
      in AList.update pid (current\<lparr>srSamples := srSamples current @ [s]\<rparr>) series)"

text \<open>
  One turn over the processes. \<open>sampler.sampleAll\<close> skips a process that has gone, whether its files
  are missing or the read reports that there is no such process; \<open>run.sampleOnce\<close> skips the first only.
\<close>

fun sampleTurn :: "(read_error \<Rightarrow> bool) \<Rightarrow> (int \<Rightarrow> read_error + Sample) \<Rightarrow> int list \<Rightarrow> (int \<times> Series) list \<Rightarrow>
    (int \<times> Series) list \<times> read_error option" where
  "sampleTurn gone read [] series = (series, None)"
| "sampleTurn gone read (pid # pids) series = (case read pid of
       Inl e \<Rightarrow> if gone e then sampleTurn gone read pids series else (series, Some e)
     | Inr s \<Rightarrow> sampleTurn gone read pids (appendSample series pid s))"

fun notExist :: "read_error \<Rightarrow> bool" where
  "notExist (NotExist _) \<longleftrightarrow> True"
| "notExist _ \<longleftrightarrow> False"

fun processGone :: "read_error \<Rightarrow> bool" where
  "processGone (ReadFailed _) \<longleftrightarrow> False"
| "processGone _ \<longleftrightarrow> True"

definition sampleAll :: "int \<Rightarrow> (int \<Rightarrow> procRead) \<Rightarrow> int list \<Rightarrow> (int \<times> Series) list \<Rightarrow> (int \<times> Series) list \<times> read_error option" where
  "sampleAll ticksPerSecond reads = sampleTurn processGone (\<lambda>pid. ReadWithClockTicks ticksPerSecond pid (reads pid))"

definition sampleOnce :: "(int \<Rightarrow> procRead) \<Rightarrow> int list \<Rightarrow> (int \<times> Series) list \<Rightarrow> (int \<times> Series) list \<times> read_error option" where
  "sampleOnce reads = sampleTurn notExist (\<lambda>pid. ReadSample pid (reads pid))"

text \<open>The turns until the context ends or one of them fails.\<close>

fun sampleLoop :: "((int \<Rightarrow> procRead) \<Rightarrow> (int \<times> Series) list \<Rightarrow> (int \<times> Series) list \<times> read_error option) \<Rightarrow>
    (int \<Rightarrow> procRead) list \<Rightarrow> (int \<times> Series) list \<Rightarrow> (int \<times> Series) list \<times> read_error option" where
  "sampleLoop turn [] series = (series, None)"
| "sampleLoop turn (reads # rest) series = (case turn reads series of
       (series, Some e) \<Rightarrow> (series, Some e)
     | (series, None) \<Rightarrow> sampleLoop turn rest series)"

definition emptySeries :: "int list \<Rightarrow> (int \<times> Series) list" where
  "emptySeries pids = fold (\<lambda>pid. AList.update pid \<lparr>srPID = pid, srSamples = []\<rparr>) pids []"

definition RunSampler :: "int \<Rightarrow> int list \<Rightarrow> (int \<Rightarrow> procRead) list \<Rightarrow> (int \<times> Series) list \<times> read_error option" where
  "RunSampler clockTicks pids turns =
     (let ticksPerSecond = (if clockTicks = 0 then DefaultClockTicksPerSecond else clockTicks)
      in sampleLoop (\<lambda>reads. sampleAll ticksPerSecond reads pids) turns (emptySeries pids))"

definition collectSamples :: "int list \<Rightarrow> (int \<Rightarrow> procRead) list \<Rightarrow> (int \<times> Series) list \<times> read_error option" where
  "collectSamples pids turns = sampleLoop (\<lambda>reads. sampleOnce reads pids) turns (emptySeries pids)"

section \<open>Costs\<close>

record ProcessCost =
  pcRole :: string
  pcProcesses :: int
  pcCPUTimeNS :: int
  pcCPUUtilization :: f64
  pcMaxRSSBytes :: u64

record WireCost =
  wcClientSentBytes :: u64
  wcClientSentPackets :: u64
  wcServerSentBytes :: u64
  wcServerSentPackets :: u64
  wcAppClientBytes :: u64
  wcAppClientMessages :: u64
  wcAppServerBytes :: u64
  wcAppServerMessages :: u64
  wcClientByteAmplification :: f64
  wcServerByteAmplification :: f64
  wcClientPacketsPerMessage :: f64
  wcServerPacketsPerMessage :: f64

record CostSummary =
  csVersion :: int
  csWindowNS :: int
  csServer :: "ProcessCost option"
  csClients :: "ProcessCost option"
  csDeliveredUnique :: u64
  csServerCPUPerDeliveryNS :: f64
  csTotalConns :: int
  csWire :: "WireCost option"

definition seriesCPUDelta :: "Series \<Rightarrow> int" where
  "seriesCPUDelta s =
     (let a = CPUTimeNS (hd (srSamples s)); b = CPUTimeNS (List.last (srSamples s))
      in if b < a then 0 else wrap64 (b - a))"

definition seriesMaxRSS :: "Series \<Rightarrow> u64" where
  "seriesMaxRSS s = foldl (\<lambda>m x. if m < RSSBytes x then RSSBytes x else m) 0 (srSamples s)"

text \<open>The entry of one role: the series of its processes with at least two samples.\<close>

definition addSeriesCost :: "Series \<Rightarrow> ProcessCost \<Rightarrow> ProcessCost" where
  "addSeriesCost s c = c\<lparr>pcProcesses := pcProcesses c + 1,
     pcCPUTimeNS := wrap64 (pcCPUTimeNS c + seriesCPUDelta s), pcMaxRSSBytes := pcMaxRSSBytes c + seriesMaxRSS s\<rparr>"

definition roleCost :: "(int \<times> string) list \<Rightarrow> Series list \<Rightarrow> int \<Rightarrow> string \<Rightarrow> ProcessCost option" where
  "roleCost roleByPID samples windowNS role =
     (let counted = filter (\<lambda>s. map_of roleByPID (srPID s) = Some role \<and> 2 \<le> length (srSamples s)) samples
      in if counted = [] then None
         else
           let c = fold addSeriesCost counted
                 \<lparr>pcRole = role, pcProcesses = 0, pcCPUTimeNS = 0, pcCPUUtilization = FFin 0, pcMaxRSSBytes = 0\<rparr>
           in Some (c\<lparr>pcCPUUtilization := f_div (f_of_int (pcCPUTimeNS c)) (f_of_int windowNS)\<rparr>))"

definition payloadByTraffic :: "ScenarioSpec \<Rightarrow> TrafficAggregate \<Rightarrow> u64" where
  "payloadByTraffic scenario t =
     (case map_of (rev (map (\<lambda>s. ((sTrafficID (tsSpec s), tsDirection s, tsClass s), u64_of_int (PayloadBytes (tsClassSpec s))))
         (enabledSeries scenario))) (taTrafficID t, taDirection t, taClass t) of
       None \<Rightarrow> 0 | Some bytes \<Rightarrow> bytes)"

definition addWire :: "ScenarioSpec \<Rightarrow> TrafficAggregate \<Rightarrow> WireCost \<Rightarrow> WireCost" where
  "addWire scenario t w =
     (let payload = payloadByTraffic scenario t; sent = Submitted (taCounts t); received = taExpectedReceives t
      in if taDirection t = DirectionClientToServer
         then w\<lparr>wcAppClientMessages := wcAppClientMessages w + sent, wcAppClientBytes := wcAppClientBytes w + sent * payload\<rparr>
         else if taDirection t = DirectionServerToClient
         then w\<lparr>wcAppServerMessages := wcAppServerMessages w + sent, wcAppServerBytes := wcAppServerBytes w + sent * payload\<rparr>
         else if taDirection t = DirectionRoomRelay
         then w\<lparr>wcAppClientMessages := wcAppClientMessages w + sent, wcAppClientBytes := wcAppClientBytes w + sent * payload,
           wcAppServerMessages := wcAppServerMessages w + received,
           wcAppServerBytes := wcAppServerBytes w + received * payload\<rparr>
         else w)"

definition amplification :: "u64 \<Rightarrow> u64 \<Rightarrow> f64" where
  "amplification sent app = (if 0 < app then f_div (f_of_u64 sent) (f_of_u64 app) else FFin 0)"

definition computeWireCost :: "NetemLossEvidence option \<Rightarrow> ScenarioSpec option \<Rightarrow> MergedMetrics \<Rightarrow> WireCost option" where
  "computeWireCost evidence scenario m =
     (case Option.bind evidence leDelta of None \<Rightarrow> None
      | Some delta \<Rightarrow>
         (case (pdClient delta, pdServer delta, scenario) of
            (Some c, Some s, Some spec) \<Rightarrow>
              let w = fold (addWire spec) (mmTraffic m)
                    \<lparr>wcClientSentBytes = dSentBytes c, wcClientSentPackets = dSentPackets c,
                     wcServerSentBytes = dSentBytes s, wcServerSentPackets = dSentPackets s,
                     wcAppClientBytes = 0, wcAppClientMessages = 0, wcAppServerBytes = 0, wcAppServerMessages = 0,
                     wcClientByteAmplification = FFin 0, wcServerByteAmplification = FFin 0,
                     wcClientPacketsPerMessage = FFin 0, wcServerPacketsPerMessage = FFin 0\<rparr>
              in Some (w\<lparr>wcClientByteAmplification := amplification (wcClientSentBytes w) (wcAppClientBytes w),
                   wcServerByteAmplification := amplification (wcServerSentBytes w) (wcAppServerBytes w),
                   wcClientPacketsPerMessage := amplification (wcClientSentPackets w) (wcAppClientMessages w),
                   wcServerPacketsPerMessage := amplification (wcServerSentPackets w) (wcAppServerMessages w)\<rparr>)
          | _ \<Rightarrow> None))"

text \<open>
  \<open>roles\<close> are the processes of the result in order, a later entry of a process replacing an earlier.
  The classes of merged metrics are exactly \<open>metricClassNames\<close>.
\<close>

definition ComputeCost :: "Result option \<Rightarrow> (int \<times> string) list \<Rightarrow> Series list \<Rightarrow> MergedMetrics option \<Rightarrow>
    NetemLossEvidence option \<Rightarrow> RunConfig \<Rightarrow> CostSummary option" where
  "ComputeCost control roles samples metrics evidence cfg =
     (case control of None \<Rightarrow> None
      | Some r \<Rightarrow>
         let windowNS = wrap64 (StopAtNS (rSchedule r) - StartAtNS (rSchedule r))
         in if windowNS \<le> 0 then None
            else
              let server = roleCost (rev roles) samples windowNS ''server'';
                  delivered = (case metrics of None \<Rightarrow> 0
                    | Some m \<Rightarrow> sum_list (map (\<lambda>cl. case mmClasses m cl of None \<Rightarrow> 0
                        | Some c \<Rightarrow> DeliveredUnique (caCounts c)) metricClassNames))
              in Some \<lparr>csVersion = 1, csWindowNS = windowNS, csServer = server,
                   csClients = roleCost (rev roles) samples windowNS ''client'', csDeliveredUnique = delivered,
                   csServerCPUPerDeliveryNS = (case server of None \<Rightarrow> FFin 0
                     | Some s \<Rightarrow> if 0 < delivered then f_div (f_of_int (pcCPUTimeNS s)) (f_of_u64 delivered) else FFin 0),
                   csTotalConns = cTotalConns cfg,
                   csWire = (case metrics of None \<Rightarrow> None | Some m \<Rightarrow> computeWireCost evidence (cScenario cfg) m)\<rparr>)"

end
