(* ===== verification/NetemSchedule.thy ===== *)
theory NetemSchedule
  imports Config ControlData Qdisc
begin

text \<open>
  Changing the netem of the link during a run (\<open>orchestrator/run/netem_schedule.go\<close>): each step of the
  schedule is applied when its time in the measured window has come. The clock, the timer and the
  commands are arguments, one \<open>stepAnswers\<close> for every step.
\<close>

fun netemText :: "netem_error \<Rightarrow> string" where
  "netemText DelayNegative = ''netem delay must be >= 0''"
| "netemText JitterNegative = ''netem jitter must be >= 0''"
| "netemText LossOutside = ''netem loss_percent must be between 0 and 100''"
| "netemText LimitNegative = ''netem limit must be >= 0''"
| "netemText (GemodelLoss p) = ''gemodel requires 0 < loss_pct < 100, got '' @ formatG p"
| "netemText (GemodelBurst b) = ''loss_burst_len must be >= 1, got '' @ formatG b"
| "netemText (GemodelInfeasible p b) =
     ''loss_pct '' @ formatG p @ '' with burst_len '' @ formatG b @ '' is infeasible (p >= 1)''"
| "netemText SelfExeRequired = ''loss_seed requires PairSpec.SelfExe (orchestrator binary path)''"
| "netemText (PairFieldRequired name) = name @ '' is required''"
| "netemText LinkMTUOutside = ''link_mtu_bytes must be between 1 and 65535''"

record AppliedNetemStep =
  asStep :: NetemStep
  asPlannedNS :: int
  asAppliedNS :: int
  asCommands :: "Command list"
  asError :: string

text \<open>
  The clock before the step, whether the timer fires before the context ends, the output and failure
  of a command, and the clock after the step, 0 when it cannot be read.
\<close>

record stepAnswers =
  saClock :: "string + int"
  saTimer :: bool
  saExec :: "Command \<Rightarrow> string \<times> string option"
  saApplied :: int

fun firstFailure :: "(Command \<Rightarrow> string \<times> string option) \<Rightarrow> Command list \<Rightarrow> string" where
  "firstFailure exec [] = []"
| "firstFailure exec (c # cs) = (case exec c of
       (out, Some e) \<Rightarrow> commandString c @ '': '' @ e @ '': '' @ out
     | (_, None) \<Rightarrow> firstFailure exec cs)"

text \<open>One step; \<open>None\<close> when the context ends while it waits.\<close>

definition applyStep :: "PairSpec \<Rightarrow> ScheduleMessage \<Rightarrow> NetemStep \<Rightarrow> stepAnswers \<Rightarrow> AppliedNetemStep option" where
  "applyStep pair sched step a =
     (let planned = wrap64 (StartAtNS sched + At step);
          entry = \<lparr>asStep = step, asPlannedNS = planned, asAppliedNS = 0, asCommands = [], asError = []\<rparr>
      in case stepCommands pair step of
          Inl (name, e) \<Rightarrow> Some (entry\<lparr>asError := name @ '': '' @ netemText e\<rparr>)
        | Inr cmds \<Rightarrow>
            let entry = entry\<lparr>asCommands := cmds\<rparr>
            in case saClock a of
                Inl e \<Rightarrow> Some (entry\<lparr>asError := e\<rparr>)
              | Inr now \<Rightarrow>
                  if 0 < wrap64 (planned - now) \<and> \<not> saTimer a then None
                  else Some (entry\<lparr>asError := firstFailure (saExec a) cmds, asAppliedNS := saApplied a\<rparr>))"

fun applySteps :: "PairSpec \<Rightarrow> ScheduleMessage \<Rightarrow> (NetemStep \<times> stepAnswers) list \<Rightarrow> AppliedNetemStep list" where
  "applySteps pair sched [] = []"
| "applySteps pair sched ((step, a) # steps) = (case applyStep pair sched step a of
       None \<Rightarrow> []
     | Some entry \<Rightarrow> entry # applySteps pair sched steps)"

text \<open>\<open>sched\<close> is the window the control server publishes, \<open>None\<close> when the context ends first.\<close>

definition runNetemSchedule :: "ScheduleMessage option \<Rightarrow> PairSpec \<Rightarrow> (NetemStep \<times> stepAnswers) list \<Rightarrow> AppliedNetemStep list" where
  "runNetemSchedule sched pair steps = (case sched of None \<Rightarrow> [] | Some s \<Rightarrow> applySteps pair s steps)"

text \<open>The steps applied are the first ones of the schedule, in its order.\<close>

lemma applySteps_prefix: "\<exists>k. map asStep (applySteps pair sched steps) = take k (map fst steps)"
proof (induction steps)
  case (Cons entry steps)
  obtain step a where e: "entry = (step, a)" by (cases entry)
  show ?case
  proof (cases "applyStep pair sched step a")
    case None
    then show ?thesis by (intro exI [of _ 0]) (simp add: e)
  next
    case (Some r)
    then have "asStep r = step"
      by (auto simp: applyStep_def Let_def split: sum.splits if_splits)
    then show ?thesis using Cons.IH Some e by (auto intro: exI [of _ "Suc k" for k])
  qed
qed simp

text \<open>When every step is applied without an error, each one ran the two commands of its netem.\<close>

lemma applied_commands:
  assumes "r \<in> set (applySteps pair sched steps)" and "asError r = []"
  shows "stepCommands pair (asStep r) = Inr (asCommands r) \<or> asCommands r = []"
  using assms
proof (induction steps)
  case (Cons entry steps)
  obtain step a where e: "entry = (step, a)" by (cases entry)
  show ?case
  proof (cases "applyStep pair sched step a")
    case (Some q)
    have "asError q = [] \<Longrightarrow> stepCommands pair (asStep q) = Inr (asCommands q) \<or> asCommands q = []"
      using Some by (auto simp: applyStep_def Let_def split: sum.splits if_splits)
    then show ?thesis using Cons Some e by auto
  qed (use Cons e in simp)
qed simp

end
