(* ===== verification/Treatment.thy ===== *)
theory Treatment
  imports Offloads Config MetricsJson
begin

text \<open>
  What the endpoints say of themselves (\<open>orchestrator/run/treatment.go\<close>, \<open>result.go\<close>): the record of
  the \<open>--describe\<close> output of both commands, the mapping of the traffic classes to transport primitives,
  and the contract a run checks before it starts. Running a command is an argument (\<open>describeRun\<close>). A
  Go map of specifications is the list of its entries in the order of the keys, which is the order of
  its canonical JSON. Where the code ranges over a map literal the reasons come in the order of the
  literal here.
\<close>

section \<open>Records\<close>

definition ClassMappingDeliveryBestEffort :: string where "ClassMappingDeliveryBestEffort = ''best_effort''"
definition ClassMappingDeliveryReliable :: string where "ClassMappingDeliveryReliable = ''reliable''"
definition ClassMappingOrderingUnordered :: string where "ClassMappingOrderingUnordered = ''unordered''"
definition ClassMappingOrderingOrdered :: string where "ClassMappingOrderingOrdered = ''ordered''"
definition ClassMappingRealizationNative :: string where "ClassMappingRealizationNative = ''native''"
definition ClassMappingRealizationEmulated :: string where "ClassMappingRealizationEmulated = ''emulated''"
definition ClassMappingRealizationReliableFallback :: string where
  "ClassMappingRealizationReliableFallback = ''reliable_fallback''"
definition ClassMappingRealizationUnsupported :: string where "ClassMappingRealizationUnsupported = ''unsupported''"

record ClassMappingSpec =
  Primitive :: string
  Delivery :: string
  Ordering :: string
  Realization :: string

type_synonym class_mapping = "(string \<times> ClassMappingSpec) list"

record ClassMappingRecord =
  cmServer :: "class_mapping option"
  cmClient :: "class_mapping option"
  cmServerSHA256 :: string
  cmClientSHA256 :: string
  cmMatch :: bool

record CommandDescription =
  cdSHA256 :: string
  cdResolvedPath :: string
  cdDescription :: string
  cdError :: string

record TreatmentRecord =
  trServer :: CommandDescription
  trClient :: CommandDescription
  trClassMapping :: ClassMappingRecord

text \<open>
  The library with what the treatment adds: the text of the error of decoding a value into a Go type,
  and the hashes of the JSON of a mapping and of a record.
\<close>

record describer = library +
  valueErrorText :: "string \<Rightarrow> json \<Rightarrow> string"
  hashMapping :: "class_mapping \<Rightarrow> string"
  hashRecord :: "ClassMappingRecord \<Rightarrow> string"

section \<open>Objects\<close>

definition objectErrorText :: "describer \<Rightarrow> json \<Rightarrow> string" where
  "objectErrorText lib j =
     (if j = JNull then ''value is not an object'' else valueErrorText lib ''map[string]json.RawMessage'' j)"

fun requireText :: "describer \<Rightarrow> json \<Rightarrow> json_error \<Rightarrow> string" where
  "requireText lib j (NotAnObject context) = context @ '': '' @ objectErrorText lib j"
| "requireText lib j (MissingField context field) = context @ '' missing required field '' @ quoteText field"
| "requireText lib j _ = []"

definition requireMembers :: "describer \<Rightarrow> json \<Rightarrow> string \<Rightarrow> string list \<Rightarrow> string + (string \<rightharpoonup> json)" where
  "requireMembers lib j context required = (case requireJSONObject j context required of
       Inl e \<Rightarrow> Inl (requireText lib j e)
     | Inr object \<Rightarrow> Inr object)"

text \<open>\<open>requireJSONObject\<close> on the text of a description.\<close>

definition requireDescription :: "describer \<Rightarrow> string \<Rightarrow> string \<Rightarrow> string list \<Rightarrow> string + json \<times> (string \<rightharpoonup> json)" where
  "requireDescription lib description context required = (case scanJSON lib description of
       None \<Rightarrow> Inl (context @ '': '' @ jsonErrorText lib description)
     | Some j \<Rightarrow> rbind (requireMembers lib j context required) (\<lambda>object. Inr (j, object)))"

definition memberNames :: "json \<Rightarrow> string list" where
  "memberNames j = (case j of JObj kvs \<Rightarrow> remdups (map fst kvs) | _ \<Rightarrow> [])"

section \<open>Class mappings\<close>

definition specMembers :: "string list" where
  "specMembers = [''primitive'', ''delivery'', ''ordering'', ''realization'']"

definition decSpec :: "json \<Rightarrow> ClassMappingSpec option" where
  "decSpec = decodeStruct
     [(''primitive'', decString Primitive_update), (''delivery'', decString Delivery_update),
      (''ordering'', decString Ordering_update), (''realization'', decString Realization_update)]
     \<lparr>Primitive = [], Delivery = [], Ordering = [], Realization = []\<rparr>"

text \<open>The map a value decodes into; \<open>null\<close> gives no map.\<close>

definition decMapping :: "json \<Rightarrow> class_mapping option" where
  "decMapping j = (case j of JObj kvs \<Rightarrow> map_option (sort_key fst) (decEntries decSpec [] kvs) | _ \<Rightarrow> None)"

definition specJSON :: "ClassMappingSpec \<Rightarrow> json" where
  "specJSON s = JObj [(''primitive'', JStr (Primitive s)), (''delivery'', JStr (Delivery s)),
     (''ordering'', JStr (Ordering s)), (''realization'', JStr (Realization s))]"

definition mappingJSON :: "class_mapping \<Rightarrow> json" where
  "mappingJSON m = JObj (map (\<lambda>(name, s). (name, specJSON s)) m)"

definition describedClassMapping :: "describer \<Rightarrow> string \<Rightarrow> class_mapping option" where
  "describedClassMapping lib description =
     (if description = [] then None
      else Option.bind (Option.bind (scanJSON lib description) rawObject) (\<lambda>object.
        Option.bind (object ''class_mapping'') decMapping))"

definition collectClassMappingRecord :: "describer \<Rightarrow> CommandDescription \<Rightarrow> CommandDescription \<Rightarrow> ClassMappingRecord" where
  "collectClassMappingRecord lib server client =
     (let s = describedClassMapping lib (cdDescription server); c = describedClassMapping lib (cdDescription client);
          hash = (\<lambda>m. case m of None \<Rightarrow> [] | Some m \<Rightarrow> hashMapping lib m)
      in \<lparr>cmServer = s, cmClient = c, cmServerSHA256 = hash s, cmClientSHA256 = hash c,
          cmMatch = (s \<noteq> None \<and> c \<noteq> None \<and> s = c)\<rparr>)"

definition validateClassMappingSpec :: "string \<Rightarrow> string \<Rightarrow> ClassMappingSpec \<Rightarrow> string list" where
  "validateClassMappingSpec context c spec =
     (let prefix = context @ '' class_mapping.'' @ c; named = '' realization='' @ quoteText (Realization spec)
      in reasonIf (trimSpace (Primitive spec) = []) (prefix @ '' primitive is empty'') @
         reasonIf (Delivery spec \<notin> {ClassMappingDeliveryBestEffort, ClassMappingDeliveryReliable})
           (prefix @ '' delivery='' @ quoteText (Delivery spec) @ '' is invalid'') @
         reasonIf (Ordering spec \<notin> {ClassMappingOrderingUnordered, ClassMappingOrderingOrdered})
           (prefix @ '' ordering='' @ quoteText (Ordering spec) @ '' is invalid'') @
         (if Realization spec \<in> {ClassMappingRealizationNative, ClassMappingRealizationEmulated}
          then
            reasonIf (c = ClassLossTolerant \<and> Delivery spec \<noteq> ClassMappingDeliveryBestEffort)
              (prefix @ named @ '' requires delivery='' @ quoteText ClassMappingDeliveryBestEffort) @
            reasonIf (c = ClassMustDeliver \<and>
                (Delivery spec \<noteq> ClassMappingDeliveryReliable \<or> Ordering spec \<noteq> ClassMappingOrderingOrdered))
              (prefix @ named @ '' requires delivery='' @ quoteText ClassMappingDeliveryReliable @
                '' and ordering='' @ quoteText ClassMappingOrderingOrdered)
          else if Realization spec = ClassMappingRealizationReliableFallback
          then reasonIf (c \<noteq> ClassLossTolerant \<or> Delivery spec \<noteq> ClassMappingDeliveryReliable)
            (prefix @ named @ '' requires loss_tolerant with delivery='' @ quoteText ClassMappingDeliveryReliable)
          else if Realization spec = ClassMappingRealizationUnsupported
          then reasonIf (c = ClassLossTolerant \<and> Delivery spec = ClassMappingDeliveryBestEffort \<or>
              c = ClassMustDeliver \<and> Delivery spec = ClassMappingDeliveryReliable \<and> Ordering spec = ClassMappingOrderingOrdered)
            (prefix @ named @ '' must disclose an absent class delivery guarantee'')
          else [prefix @ named @ '' is invalid'']))"

text \<open>One class of a mapping: its specification, when it decodes, and what is wrong with it.\<close>

definition classReasons :: "describer \<Rightarrow> string \<Rightarrow> (string \<rightharpoonup> json) \<Rightarrow> string \<Rightarrow> class_mapping \<times> string list" where
  "classReasons lib context entries c =
     (case entries c of None \<Rightarrow> ([], [context @ '' missing class_mapping.'' @ c])
      | Some raw \<Rightarrow>
          if raw = JNull then ([], [context @ '' missing class_mapping.'' @ c])
          else case requireMembers lib raw (context @ '' class_mapping.'' @ c) specMembers of
              Inl e \<Rightarrow> ([], [e])
            | Inr _ \<Rightarrow>
                let unknown = map (\<lambda>name. context @ '' class_mapping.'' @ c @ '' has unknown field '' @ quoteText name)
                      (filter (\<lambda>name. name \<notin> set specMembers) (memberNames raw))
                in case decSpec raw of
                    None \<Rightarrow> ([], unknown @ [context @ '' class_mapping.'' @ c @ '': '' @ valueErrorText lib ''ClassMappingSpec'' raw])
                  | Some spec \<Rightarrow> ([(c, spec)], unknown @ validateClassMappingSpec context c spec))"

definition validateClassMapping :: "describer \<Rightarrow> json \<Rightarrow> string \<Rightarrow> class_mapping \<times> string list" where
  "validateClassMapping lib data context = (case rawObject data of
       None \<Rightarrow> ([], [context @ '' class_mapping: '' @ objectErrorText lib data])
     | Some entries \<Rightarrow>
         let unknown = map (\<lambda>name. context @ '' class_mapping has unknown class '' @ quoteText name)
               (filter (\<lambda>name. name \<notin> {ClassLossTolerant, ClassMustDeliver}) (memberNames data));
             judged = map (classReasons lib context entries) metricClassNames
         in (sort_key fst (concat (map fst judged)), sort (unknown @ concat (map snd judged))))"

definition canonicalClassMappingsEqual :: "class_mapping \<Rightarrow> class_mapping \<Rightarrow> bool" where
  "canonicalClassMappingsEqual a b \<longleftrightarrow> a = b"

section \<open>The structured record\<close>

definition boolText :: "bool \<Rightarrow> string" where
  "boolText b = (if b then ''true'' else ''false'')"

definition endpointMappingReasons :: "describer \<Rightarrow> string \<Rightarrow> class_mapping option \<Rightarrow> string \<Rightarrow> string list" where
  "endpointMappingReasons lib name entry hash = (case entry of
       None \<Rightarrow> [name @ '' structured class_mapping is missing'']
     | Some m \<Rightarrow> snd (validateClassMapping lib (mappingJSON m) (name @ '' treatment record'')) @
         reasonIf (hash \<noteq> hashMapping lib m)
           (name @ '' class_mapping_sha256='' @ quoteText hash @ '', want '' @ quoteText (hashMapping lib m)))"

definition actualMatch :: "ClassMappingRecord \<Rightarrow> bool" where
  "actualMatch r = (case (cmServer r, cmClient r) of
       (Some s, Some c) \<Rightarrow> canonicalClassMappingsEqual s c
     | _ \<Rightarrow> False)"

definition ValidateClassMappingRecord :: "describer \<Rightarrow> ClassMappingRecord \<Rightarrow> string list" where
  "ValidateClassMappingRecord lib r =
     sort (endpointMappingReasons lib ''server'' (cmServer r) (cmServerSHA256 r) @
       endpointMappingReasons lib ''client'' (cmClient r) (cmClientSHA256 r) @
       reasonIf (cmMatch r \<noteq> actualMatch r)
         (''class_mapping match='' @ boolText (cmMatch r) @ '', want '' @ boolText (actualMatch r)) @
       reasonIf (\<not> actualMatch r) ''structured server/client class_mapping canonical mismatch'')"

definition validateStructuredClassMappingEvidence :: "describer \<Rightarrow> TreatmentRecord \<Rightarrow> string list" where
  "validateStructuredClassMappingEvidence lib t =
     ValidateClassMappingRecord lib (trClassMapping t) @
     reasonIf (hashRecord lib (trClassMapping t) \<noteq> hashRecord lib (collectClassMappingRecord lib (trServer t) (trClient t)))
       ''structured class_mapping evidence does not match endpoint --describe output''"

section \<open>The descriptions of the endpoints\<close>

text \<open>One endpoint: what is wrong with its description, and its mapping when nothing is wrong with that.\<close>

definition endpointEvidence :: "describer \<Rightarrow> string \<Rightarrow> string \<Rightarrow> CommandDescription \<Rightarrow> string list \<times> class_mapping option" where
  "endpointEvidence lib transport name d =
     (if cdError d \<noteq> [] then ([name @ '' --describe: '' @ cdError d], None)
      else
        let context = name @ '' --describe''
        in case requireDescription lib (cdDescription d) context [''transport'', ''class_mapping''] of
            Inl e \<Rightarrow> ([e], None)
          | Inr (j, object) \<Rightarrow>
              (case validateClassMapping lib (rawMember object ''class_mapping'') context of (m, reasons) \<Rightarrow>
                ((case rawMember object ''transport'' of
                    JStr advertised \<Rightarrow> reasonIf (advertised \<noteq> transport)
                      (context @ '' transport='' @ quoteText advertised @ '', want '' @ quoteText transport)
                  | other \<Rightarrow> [context @ '' transport: '' @ valueErrorText lib ''string'' other]) @ reasons,
                 if reasons = [] then Some m else None)))"

definition ValidateTreatmentClassMappingEvidence :: "describer \<Rightarrow> TreatmentRecord option \<Rightarrow> string \<Rightarrow> string list" where
  "ValidateTreatmentClassMappingEvidence lib entry transport = (case entry of
       None \<Rightarrow> [''treatment record is missing'']
     | Some t \<Rightarrow>
         (case (endpointEvidence lib transport ''server'' (trServer t), endpointEvidence lib transport ''client'' (trClient t)) of
            ((serverReasons, s), (clientReasons, c)) \<Rightarrow>
              sort (serverReasons @ clientReasons @
                (case (s, c) of (Some s, Some c) \<Rightarrow>
                     reasonIf (\<not> canonicalClassMappingsEqual s c) ''server/client --describe class_mapping canonical mismatch''
                   | _ \<Rightarrow> []) @
                validateStructuredClassMappingEvidence lib t)))"

section \<open>Describing a command\<close>

text \<open>
  What describing a command meets: the fingerprint, the path the command resolves to and its absolute
  form, the failure of the run and what it prints.
\<close>

record describeRun =
  drFingerprint :: string
  drResolved :: string
  drAbsolute :: "string + string"
  drFailure :: "string option"
  drStdout :: string
  drStderr :: string

definition describeCommand :: "describer \<Rightarrow> CommandConfig \<Rightarrow> describeRun \<Rightarrow> CommandDescription" where
  "describeCommand lib cmd run =
     (let d = \<lparr>cdSHA256 = drFingerprint run, cdResolvedPath = [], cdDescription = [], cdError = []\<rparr>
      in if drResolved run = [] then d\<lparr>cdError := ''resolve executable '' @ quoteText (Path cmd)\<rparr>
         else case drAbsolute run of Inl e \<Rightarrow> d\<lparr>cdError := e\<rparr>
          | Inr absolute \<Rightarrow>
              let d = d\<lparr>cdResolvedPath := absolute\<rparr>
              in case drFailure run of
                  Some e \<Rightarrow>
                    let detail = trimSpace (drStderr run)
                    in d\<lparr>cdError := e @ (if detail \<noteq> [] then '': '' @ detail else [])\<rparr>
                | None \<Rightarrow>
                    let data = trimSpace (drStdout run)
                    in case scanJSON lib data of
                        None \<Rightarrow> d\<lparr>cdError := jsonErrorText lib data\<rparr>
                      | Some (JObj _) \<Rightarrow> d\<lparr>cdDescription := data\<rparr>
                      | Some JNull \<Rightarrow> d\<lparr>cdError := ''output is not a JSON object''\<rparr>
                      | Some j \<Rightarrow> d\<lparr>cdError := valueErrorText lib ''map[string]json.RawMessage'' j\<rparr>)"

definition collectTreatment :: "describer \<Rightarrow> RunConfig \<Rightarrow> describeRun \<Rightarrow> describeRun \<Rightarrow> TreatmentRecord" where
  "collectTreatment lib cfg server client =
     (let s = describeCommand lib (cServerCommand cfg) server; c = describeCommand lib (cClientCommand cfg) client
      in \<lparr>trServer = s, trClient = c, trClassMapping = collectClassMappingRecord lib s c\<rparr>)"

definition PreflightClassMapping :: "describer \<Rightarrow> string \<Rightarrow> CommandConfig \<Rightarrow> CommandConfig \<Rightarrow> describeRun \<Rightarrow> describeRun \<Rightarrow>
    ClassMappingRecord \<times> string option" where
  "PreflightClassMapping lib transport server client serverRun clientRun =
     (let s = describeCommand lib server serverRun; c = describeCommand lib client clientRun;
          t = \<lparr>trServer = s, trClient = c, trClassMapping = collectClassMappingRecord lib s c\<rparr>;
          reasons = ValidateTreatmentClassMappingEvidence lib (Some t) transport
      in (trClassMapping t, if reasons \<noteq> [] then Some (joinText ''; '' reasons) else None))"

section \<open>The contract of a run\<close>

definition payloadPatternSplitMix64V1 :: string where "payloadPatternSplitMix64V1 = ''splitmix64-v1''"
definition wireCompressionNone :: string where "wireCompressionNone = ''none''"

record advertisedTreatment =
  avTransport :: string
  avClassMapping :: "class_mapping option"
  avCoalescing :: string
  avCCAlgo :: string
  avThreadModel :: string
  avEncryption :: bool
  avPayloadPattern :: string
  avWireCompression :: string
  avMaxPayloadBytes :: int
  avScenarios :: "string list"
  avTuning :: "(string \<rightharpoonup> json) list"

definition decPlainString :: "json \<Rightarrow> string option" where
  "decPlainString j = (case j of JNull \<Rightarrow> Some [] | JStr s \<Rightarrow> Some s | _ \<Rightarrow> None)"

definition decRawMembers :: "json \<Rightarrow> (string \<rightharpoonup> json) option" where
  "decRawMembers j = (if j = JNull then Some Map.empty else rawObject j)"

definition decAdvertised :: "json \<Rightarrow> advertisedTreatment option" where
  "decAdvertised = decodeStruct
     [(''transport'', decString avTransport_update), (''class_mapping'', decMap avClassMapping_update avClassMapping decSpec),
      (''coalescing'', decString avCoalescing_update), (''cc_algo'', decString avCCAlgo_update),
      (''thread_model'', decString avThreadModel_update), (''encryption'', decBool avEncryption_update),
      (''payload_pattern'', decString avPayloadPattern_update), (''wire_compression'', decString avWireCompression_update),
      (''max_payload_bytes'', decInt avMaxPayloadBytes_update), (''scenarios'', decSlice avScenarios_update decPlainString),
      (''tuning'', decSlice avTuning_update decRawMembers)]
     \<lparr>avTransport = [], avClassMapping = None, avCoalescing = [], avCCAlgo = [], avThreadModel = [], avEncryption = False,
      avPayloadPattern = [], avWireCompression = [], avMaxPayloadBytes = 0, avScenarios = [], avTuning = []\<rparr>"

definition advertisedMembers :: "string list" where
  "advertisedMembers = [''transport'', ''class_mapping'', ''coalescing'', ''cc_algo'', ''thread_model'', ''encryption'',
     ''payload_pattern'', ''wire_compression'', ''max_payload_bytes'', ''scenarios'', ''tuning'']"

definition enabledPayloads :: "TrafficSpec \<Rightarrow> int list" where
  "enabledPayloads t = map PayloadBytes (filter (\<lambda>c. f_lt (FFin 0) (RateHz c)) [LossTolerant t, MustDeliver t])"

definition scenarioMaxPayload :: "ScenarioSpec \<Rightarrow> int" where
  "scenarioMaxPayload s = foldl max 0 (concat (map (\<lambda>c. case mcSpec c of None \<Rightarrow> [] | Some t \<Rightarrow> enabledPayloads t)
     (scenarioMetricCases s)))"

definition containsString :: "string list \<Rightarrow> string \<Rightarrow> bool" where
  "containsString texts wanted = list_ex (\<lambda>t. t = wanted) texts"

definition advertisedReasons :: "string \<Rightarrow> RunConfig \<Rightarrow> advertisedTreatment \<Rightarrow> string list" where
  "advertisedReasons context cfg a =
     reasonIf (avTransport a \<noteq> cTransport cfg)
       (context @ '' transport='' @ quoteText (avTransport a) @ '', want '' @ quoteText (cTransport cfg)) @
     reasonIf (avPayloadPattern a \<noteq> payloadPatternSplitMix64V1)
       (context @ '' payload_pattern='' @ quoteText (avPayloadPattern a) @ '', want '' @ quoteText payloadPatternSplitMix64V1) @
     reasonIf (avWireCompression a \<noteq> wireCompressionNone)
       (context @ '' wire_compression='' @ quoteText (avWireCompression a) @ '', want '' @ quoteText wireCompressionNone) @
     concat (map (\<lambda>(name, text). reasonIf (trimSpace text = []) (context @ '' '' @ name @ '' is empty''))
       [(''coalescing'', avCoalescing a), (''cc_algo'', avCCAlgo a), (''thread_model'', avThreadModel a)])"

definition unsupportedReasons :: "string \<Rightarrow> ScenarioSpec option \<Rightarrow> advertisedTreatment \<Rightarrow> string list" where
  "unsupportedReasons context entry a = (case entry of None \<Rightarrow> []
     | Some s \<Rightarrow>
         reasonIf (\<not> containsString (avScenarios a) (scKind s))
           (context @ '' does not advertise scenario '' @ quoteText (scKind s)) @
         reasonIf (avMaxPayloadBytes a < scenarioMaxPayload s)
           (context @ '' max_payload_bytes='' @ itoa (avMaxPayloadBytes a) @ '' below scenario payload='' @ itoa (scenarioMaxPayload s)))"

definition disclosed :: "(string \<rightharpoonup> json) \<Rightarrow> string \<Rightarrow> bool" where
  "disclosed tuning field = (case tuning field of Some (JStr text) \<Rightarrow> trimSpace text \<noteq> [] | _ \<Rightarrow> False)"

definition tuningReasons :: "string \<Rightarrow> (string \<rightharpoonup> json) list \<Rightarrow> string list" where
  "tuningReasons context tunings = concat (map (\<lambda>(i, tuning).
     concat (map (\<lambda>field. reasonIf (\<not> disclosed tuning field) (context @ '' tuning['' @ itoaNat i @ ''] missing '' @ field))
       [''knob'', ''value'', ''upstream_ref''])) (enumerate 0 tunings))"

text \<open>One endpoint: what makes the run invalid and what it does not support.\<close>

definition classifyEndpoint :: "describer \<Rightarrow> RunConfig \<Rightarrow> string \<times> CommandDescription \<Rightarrow> string list \<times> string list" where
  "classifyEndpoint lib cfg = (\<lambda>(role, d).
     if cdError d \<noteq> [] then ([role @ '' --describe: '' @ cdError d], [])
     else
       let context = role @ '' --describe''
       in case requireDescription lib (cdDescription d) context advertisedMembers of
           Inl e \<Rightarrow> ([e], [])
         | Inr (j, object) \<Rightarrow>
             (case decAdvertised j of
                None \<Rightarrow> ([context @ '': '' @ valueErrorText lib ''advertisedTreatment'' j], [])
              | Some a \<Rightarrow> (advertisedReasons context cfg a @ tuningReasons context (avTuning a),
                  unsupportedReasons context (cScenario cfg) a)))"

definition classifyScenarioTreatment :: "describer \<Rightarrow> TreatmentRecord \<Rightarrow> RunConfig \<Rightarrow> string list \<times> string list" where
  "classifyScenarioTreatment lib t cfg =
     (let judged = map (classifyEndpoint lib cfg) [(''server'', trServer t), (''client'', trClient t)]
      in (ValidateTreatmentClassMappingEvidence lib (Some t) (cTransport cfg) @ concat (map fst judged),
          concat (map snd judged)))"

definition ValidateScenarioTreatmentContract :: "describer \<Rightarrow> TreatmentRecord option \<Rightarrow> RunConfig \<Rightarrow> string list \<times> string list" where
  "ValidateScenarioTreatmentContract lib entry cfg = (case entry of
       None \<Rightarrow> ([''treatment record is missing''], [])
     | Some t \<Rightarrow>
         (case classifyScenarioTreatment lib t cfg of (invalid, unsupported) \<Rightarrow>
           (invalid @ reasonIf (cClassMappingSHA256 cfg \<noteq> [] \<and>
                (cmServerSHA256 (trClassMapping t) \<noteq> cClassMappingSHA256 cfg \<or>
                 cmClientSHA256 (trClassMapping t) \<noteq> cClassMappingSHA256 cfg))
              (''class_mapping_sha256 drift: server='' @ quoteText (cmServerSHA256 (trClassMapping t)) @ '', client='' @
                quoteText (cmClientSHA256 (trClassMapping t)) @ '', expected '' @ quoteText (cClassMappingSHA256 cfg)),
            unsupported)))"

definition validateScenarioTreatment :: "describer \<Rightarrow> TreatmentRecord \<Rightarrow> RunConfig \<Rightarrow> string list" where
  "validateScenarioTreatment lib t cfg =
     (case ValidateScenarioTreatmentContract lib (Some t) cfg of (invalid, unsupported) \<Rightarrow> invalid @ unsupported)"

end
