(* ===== verification/Runner.thy ===== *)
theory Runner
  imports Gate Cost Ramp NetemSchedule NetemGate Treatment
begin

text \<open>
  The run itself (\<open>orchestrator/run/runner.go\<close>): the command and environment of a process, the
  configuration of the control server, the supervision of the processes until the control barrier is
  done, and the outcome of the finished result. Starting processes, waiting for them and writing the
  result are I/O: the events the loop selects and what a call returns are arguments.
\<close>

section \<open>Commands\<close>

text \<open>\<open>sudo\<close> is the user and group to drop to, when the orchestrator runs as root under sudo.\<close>

definition namespaceCommand :: "(string \<times> string) option \<Rightarrow> CommandConfig \<Rightarrow> string \<Rightarrow> string \<Rightarrow> string \<times> string list" where
  "namespaceCommand sudo cmd netns cpus =
     (if netns = []
      then (if cpus \<noteq> [] then (''taskset'', [''-c'', cpus, Path cmd] @ CmdArgs cmd) else (Path cmd, CmdArgs cmd))
      else (''ip'', [''netns'', ''exec'', netns] @
        (case sudo of None \<Rightarrow> []
         | Some (uid, gid) \<Rightarrow> if uid \<noteq> [] \<and> gid \<noteq> []
             then [''setpriv'', ''--reuid'', uid, ''--regid'', gid, ''--init-groups''] else []) @
        (if cpus \<noteq> [] then [''taskset'', ''-c'', cpus] else []) @ [Path cmd] @ CmdArgs cmd))"

definition processEnv :: "CommandConfig \<Rightarrow> string \<Rightarrow> RampConfig option \<Rightarrow> string \<Rightarrow> string list" where
  "processEnv cmd metricsOut ramp rampStopPath =
     Env cmd @
     (if metricsOut \<noteq> [] then [''BENCH_METRICS_OUT='' @ metricsOut] else []) @
     (case ramp of None \<Rightarrow> []
      | Some r \<Rightarrow> [''BENCH_RAMP_START_CONNS='' @ itoa (StartConns r), ''BENCH_RAMP_STEP_CONNS='' @ itoa (StepConns r),
          ''BENCH_RAMP_GUARD_NS='' @ itoa (Guard r), ''BENCH_RAMP_SAMPLE_NS='' @ itoa (RampConfig.Sample r),
          ''BENCH_RAMP_DRAIN_NS='' @ itoa (rDrain r), ''BENCH_RAMP_STOP_PATH='' @ rampStopPath])"

text \<open>Only the namespaces that the setup created are removed after a failed setup.\<close>

definition partialNetemTeardown :: "Command list \<Rightarrow> int \<Rightarrow> Command list" where
  "partialNetemTeardown teardown setupCompleted =
     (if setupCompleted \<le> 0 \<or> teardown = [] then []
      else if setupCompleted = 1 then take 1 teardown else teardown)"

section \<open>The control server\<close>

definition lossFactor :: "Netem \<Rightarrow> f64" where
  "lossFactor egress = f_sub (FFin 1) (f_div (LossPercent egress) (FFin 100))"

definition scenarioRates :: "ScenarioSpec \<Rightarrow> int \<Rightarrow> f64 \<Rightarrow> f64 \<Rightarrow> f64 \<times> f64" where
  "scenarioRates s totalConns lossClient lossServer =
     (if scKind s = ScenarioEnvironmentBaseline
      then (case ClientInput s of None \<Rightarrow> (FFin 0, FFin 0)
        | Some t \<Rightarrow> (rate t, f_add (f_mul (f_mul (RateHz (LossTolerant t)) lossClient) lossServer) (RateHz (MustDeliver t))))
      else if scKind s = ScenarioAuthoritativeState
      then (case ClientInput s of None \<Rightarrow> FFin 0 | Some t \<Rightarrow> rate t,
        case ServerState s of None \<Rightarrow> FFin 0
        | Some t \<Rightarrow> f_add (f_mul (RateHz (LossTolerant t)) lossServer) (RateHz (MustDeliver t)))
      else if scKind s = ScenarioRoomRelay
      then (case RoomPublish s of None \<Rightarrow> (FFin 0, FFin 0)
        | Some t \<Rightarrow> let n = f_of_int totalConns in
            (rate t, f_add (f_mul (f_mul (f_mul (RateHz (LossTolerant t)) n) lossClient) lossServer)
               (f_mul (RateHz (MustDeliver t)) n)))
      else (FFin 0, FFin 0))"

definition workloadRates :: "Workload \<Rightarrow> int \<Rightarrow> f64 \<Rightarrow> f64 \<times> f64" where
  "workloadRates w totalConns pf =
     (let n = f_of_int totalConns;
          recv = (if f_lt (FFin 0) (RateLT w)
            then f_add (FFin 0) (f_mul (if BroadcastLT w then f_mul (RateLT w) n else RateLT w) pf) else FFin 0);
          recv = (if f_lt (FFin 0) (RateMD w)
            then f_add recv (if BroadcastMD w then f_mul (RateMD w) n else RateMD w) else recv)
      in (f_add (RateLT w) (RateMD w), recv))"

definition steadyExpectedRates :: "RunConfig \<Rightarrow> f64 \<times> f64" where
  "steadyExpectedRates cfg =
     (if \<not> cSteadyWarmup cfg then (FFin 0, FFin 0)
      else case cScenario cfg of
          Some s \<Rightarrow>
            (case cNetem cfg of None \<Rightarrow> scenarioRates s (cTotalConns cfg) (FFin 1) (FFin 1)
             | Some n \<Rightarrow> scenarioRates s (cTotalConns cfg) (lossFactor (nrClientEgress n)) (lossFactor (nrServerEgress n)))
        | None \<Rightarrow>
            if cWorkload cfg = [] then (FFin 0, FFin 0)
            else (case LookupWorkload (cWorkload cfg) of None \<Rightarrow> (FFin 0, FFin 0)
              | Some w \<Rightarrow> workloadRates w (cTotalConns cfg)
                  (case cNetem cfg of None \<Rightarrow> FFin 1
                   | Some n \<Rightarrow> f_mul (lossFactor (nrClientEgress n)) (lossFactor (nrServerEgress n)))))"

definition controlConfig :: "RunConfig \<Rightarrow> string \<Rightarrow> ControlData.Config" where
  "controlConfig cfg sock = (case steadyExpectedRates cfg of (sent, recv) \<Rightarrow>
     \<lparr>SocketPath = sock, Expected = cClientProcs cfg + 1, Warmup = cWarmup cfg, Duration = cDuration cfg,
      Drain = cDrain cfg, SteadyWarmup = cSteadyWarmup cfg, SteadyBuckets = 0, SteadyTolPct = FFin 0, SteadyGuard = 0,
      SteadyMinWarmup = cSteadyMinWarmup cfg, SteadyExpectedSentPerConn = sent, SteadyExpectedRecvPerConn = recv,
      HelloTimeout = cControlTimeout cfg, ReadyTimeout = cControlTimeout cfg, AckTimeout = cControlTimeout cfg,
      DoneTimeout = wrap64 (cWarmup cfg + cDuration cfg + cDrain cfg + cControlTimeout cfg)\<rparr>)"

section \<open>Supervising the processes\<close>

datatype wait_status = ExitStatus int | Signaled int | NoStatus

text \<open>The exit code and the text of what \<open>Wait\<close> returned.\<close>

fun waitErrorInfo :: "(wait_status \<times> string) option \<Rightarrow> int \<times> string" where
  "waitErrorInfo None = (0, [])"
| "waitErrorInfo (Some (ExitStatus code, text)) = (code, text)"
| "waitErrorInfo (Some (Signaled signal, text)) = (128 + signal, text)"
| "waitErrorInfo (Some (NoStatus, text)) = (- 1, text)"

record waitEvent =
  weIndex :: int
  weError :: "(wait_status \<times> string) option"

definition applyWaitEvent :: "waitEvent \<Rightarrow> ProcessResult list \<Rightarrow> ProcessResult list" where
  "applyWaitEvent ev processes =
     (if weIndex ev < 0 \<or> int (length processes) \<le> weIndex ev then processes
      else
        let i = nat (weIndex ev)
        in case waitErrorInfo (weError ev) of (code, text) \<Rightarrow>
          processes[i := (processes ! i)\<lparr>prExited := True, prExitCode := code, prError := text\<rparr>])"

text \<open>The events that arrive before the timer fires; the flag says that it fired first.\<close>

fun drainWaits :: "waitEvent list \<Rightarrow> int \<Rightarrow> ProcessResult list \<Rightarrow> ProcessResult list \<times> bool" where
  "drainWaits [] remaining processes = (processes, 0 < remaining)"
| "drainWaits (ev # evs) remaining processes =
     (if remaining \<le> 0 then (processes, False)
      else drainWaits evs (remaining - 1) (applyWaitEvent ev processes))"

definition remainingExitedCount :: "ProcessResult list \<Rightarrow> int" where
  "remainingExitedCount processes = int (length (filter (\<lambda>p. \<not> prExited p) processes))"

definition describeWait :: "ProcessResult \<Rightarrow> waitEvent \<Rightarrow> string" where
  "describeWait p ev = (case waitErrorInfo (weError ev) of (code, text) \<Rightarrow>
     processText p @ '' exit_code='' @ itoa code @ (if text \<noteq> [] then '': '' @ text else []))"

record runProgress =
  pgExtra :: "string list"
  pgSUT :: "string list"
  pgProcesses :: "ProcessResult list"
  pgRemaining :: int
  pgControl :: "Result option"

datatype superviseInput =
    ProcessExited waitEvent
  | ControlReturned "Result option" "string option"
  | RunCanceled string

definition noteExtra :: "string \<Rightarrow> runProgress \<Rightarrow> runProgress" where
  "noteExtra reason p = p\<lparr>pgExtra := pgExtra p @ [reason]\<rparr>"

definition noteSUT :: "string \<Rightarrow> runProgress \<Rightarrow> runProgress" where
  "noteSUT reason p = p\<lparr>pgSUT := pgSUT p @ [reason]\<rparr>"

text \<open>
  The select loop up to the end of the control barrier: \<open>None\<close> while it still waits. The boolean says
  whether the run was canceled.
\<close>

fun supervise :: "superviseInput list \<Rightarrow> runProgress \<Rightarrow> (runProgress \<times> bool) option" where
  "supervise [] p = None"
| "supervise (ProcessExited ev # inputs) p =
     (let p = p\<lparr>pgProcesses := applyWaitEvent ev (pgProcesses p), pgRemaining := pgRemaining p - 1\<rparr>
      in case weError ev of None \<Rightarrow> supervise inputs p
       | Some _ \<Rightarrow>
          let reason = ''process exited before control barrier completed: '' @
                describeWait (pgProcesses p ! nat (weIndex ev)) ev
          in Some (noteSUT reason (noteExtra reason p), True))"
| "supervise (ControlReturned r err # inputs) p =
     (let p = p\<lparr>pgControl := r\<rparr>
      in case err of None \<Rightarrow> Some (p, False)
       | Some e \<Rightarrow> Some (noteExtra (''control barrier failed: '' @ e) p, True))"
| "supervise (RunCanceled e # inputs) p = Some (noteExtra (''run context canceled: '' @ e) p, True)"

text \<open>
  What \<open>awaitControl\<close> delivers when the loop ended without a control result: the error carries whether
  it is \<open>context.Canceled\<close>.
\<close>

definition awaitLate :: "Result option \<times> (bool \<times> string) option \<Rightarrow> runProgress \<Rightarrow> runProgress" where
  "awaitLate late p =
     (if pgControl p \<noteq> None then p
      else
        let p = p\<lparr>pgControl := fst late\<rparr>
        in case snd late of None \<Rightarrow> p
         | Some (canceled, e) \<Rightarrow> if canceled then p else noteExtra (''control barrier failed: '' @ e) p)"

text \<open>
  The processes left are waited for, killed after the timeout (printed as \<open>exitTimeout\<close>) and waited for
  again; \<open>ctxAlive\<close> says that the caller has not canceled the run.
\<close>

definition awaitProcesses :: "string \<Rightarrow> bool \<Rightarrow> waitEvent list \<Rightarrow> waitEvent list \<Rightarrow> runProgress \<Rightarrow> runProgress" where
  "awaitProcesses exitTimeout ctxAlive evs killed p =
     (if pgRemaining p \<le> 0 then p
      else case drainWaits evs (pgRemaining p) (pgProcesses p) of
          (processes, False) \<Rightarrow> p\<lparr>pgProcesses := processes\<rparr>
        | (processes, True) \<Rightarrow>
            let reason = ''timed out waiting '' @ exitTimeout @ '' for processes to exit'';
                p = noteExtra reason (p\<lparr>pgProcesses := processes\<rparr>);
                p = (if ctxAlive then noteSUT reason p else p)
            in p\<lparr>pgProcesses := fst (drainWaits killed (remainingExitedCount processes) processes)\<rparr>)"

definition exitFailures :: "bool \<Rightarrow> runProgress \<Rightarrow> runProgress" where
  "exitFailures ctxAlive p =
     (if \<not> ctxAlive then p
      else p\<lparr>pgSUT := pgSUT p @ concat (map (\<lambda>pr. reasonIf (prExited pr \<and> prExitCode pr \<noteq> 0)
        (processText pr @ '' exit_code='' @ itoa (prExitCode pr))) (pgProcesses p))\<rparr>)"

definition endOfRun :: "string \<Rightarrow> bool \<Rightarrow> superviseInput list \<Rightarrow> Result option \<times> (bool \<times> string) option \<Rightarrow> waitEvent list \<Rightarrow>
    waitEvent list \<Rightarrow> runProgress \<Rightarrow> runProgress option" where
  "endOfRun exitTimeout ctxAlive inputs late evs killed p =
     map_option (\<lambda>(p, canceled). exitFailures ctxAlive (awaitProcesses exitTimeout ctxAlive evs killed (awaitLate late p)))
       (supervise inputs p)"

section \<open>The result\<close>

record NetemResult =
  nmEnabled :: bool
  nmPair :: PairSpec
  nmSetupCommands :: "Command list"
  nmTeardownCommands :: "Command list"
  nmUDPBefore :: UDPStats
  nmUDPAfter :: UDPStats
  nmUDPDelta :: UDPStats
  nmServerUDPBefore :: UDPStats
  nmServerUDPAfter :: UDPStats
  nmServerUDPDelta :: UDPStats
  nmGate :: "NetemGateReport option"
  nmOffloads :: "OffloadEvidence option"
  nmOffloadsAfter :: "OffloadEvidence option"
  nmLossEvidence :: "NetemLossEvidence option"
  nmSchedule :: "AppliedNetemStep list"

record RunResult =
  ruTransport :: string
  ruOutcome :: string
  ruOutcomeReasons :: "string list"
  ruVerdict :: string
  ruInvalidReasons :: "string list"
  ruConfig :: RunConfig
  ruControl :: "Result option"
  ruProcesses :: "ProcessResult list"
  ruMetrics :: "MergedMetrics option"
  ruEvaluation :: "ScenarioEvaluation option"
  ruRamp :: "RampResult option"
  ruTreatment :: "TreatmentRecord option"
  ruSamples :: "Series list"
  ruCost :: "CostSummary option"
  ruNetem :: "NetemResult option"

definition OutcomePass :: string where "OutcomePass = ''PASS''"
definition OutcomeFail :: string where "OutcomeFail = ''FAIL''"
definition OutcomeInvalid :: string where "OutcomeInvalid = ''INVALID''"
definition OutcomeCensored :: string where "OutcomeCensored = ''CENSORED''"
definition OutcomeUnsupported :: string where "OutcomeUnsupported = ''UNSUPPORTED''"
definition OutcomeInconclusive :: string where "OutcomeInconclusive = ''INCONCLUSIVE''"

text \<open>The texts that mark a reason as a consequence of a failure of the system under test.\<close>

definition consequenceFragments :: "string list" where
  "consequenceFragments =
     [''control result is missing'', ''control barrier failed'', ''merged metrics are missing'',
      ''metrics contract:'', ''process exited before control barrier'', ''server exited before becoming ready'',
      '' exit_code='', '' did not exit'', ''timed out waiting'', ''attempted_ratio='']"

definition independentInvalidReasons :: "string list \<Rightarrow> string list" where
  "independentInvalidReasons reasons =
     dedupeStrings (filter (\<lambda>r. \<not> list_ex (containsText r) consequenceFragments) reasons)"

definition onlyAttemptedShortfall :: "string list \<Rightarrow> bool" where
  "onlyAttemptedShortfall reasons \<longleftrightarrow> reasons \<noteq> [] \<and> list_all (\<lambda>r. containsText r ''attempted_ratio='') reasons"

definition classifyRunOutcome :: "RunResult \<Rightarrow> string list \<Rightarrow> string \<times> string list" where
  "classifyRunOutcome r sutReasons =
     (if ruOutcome r = OutcomeUnsupported then (ruOutcome r, dedupeStrings (ruOutcomeReasons r))
      else if cRamp (ruConfig r) \<noteq> None \<and> ruVerdict r \<noteq> VerdictValid then (OutcomeInvalid, ruInvalidReasons r)
      else if sutReasons \<noteq> []
      then
        (let independent = independentInvalidReasons (ruInvalidReasons r)
         in if independent \<noteq> [] then (OutcomeInvalid, independent) else (OutcomeFail, dedupeStrings sutReasons))
      else if ruVerdict r \<noteq> VerdictValid \<and> \<not> onlyAttemptedShortfall (ruInvalidReasons r)
      then (OutcomeInvalid, ruInvalidReasons r)
      else if cRamp (ruConfig r) \<noteq> None
      then (case ruRamp r of None \<Rightarrow> (OutcomeInvalid, [''ramp evaluation is missing''])
        | Some ramp \<Rightarrow> (if Censored ramp then OutcomeCensored else OutcomeFail, [rrCause ramp]))
      else if cScenario (ruConfig r) = None then (OutcomePass, [])
      else case ruEvaluation r of
          None \<Rightarrow> (OutcomeInvalid, [''scenario evaluation is missing''])
        | Some e \<Rightarrow>
            if \<not> CompletePrimarySLOs e \<and> seOK e
            then (OutcomeInconclusive, [''primary SLOs missing for '' @ joinText '', '' (seMissingPrimarySLOs e)])
            else if seOK e then (OutcomePass, []) else (OutcomeFail, [seCause e]))"

text \<open>\<open>readAfter\<close> is the offload readback taken when the run ended before its own.\<close>

definition lateOffloads :: "OffloadEvidence \<Rightarrow> RunConfig \<Rightarrow> NetemResult \<Rightarrow> NetemResult" where
  "lateOffloads readAfter cfg n =
     (if offloadsRequired (Some cfg) \<noteq> None \<and> nmOffloads n \<noteq> None \<and> nmOffloadsAfter n = None
      then n\<lparr>nmOffloadsAfter := Some readAfter\<rparr> else n)"

definition completeInput :: "RunResult \<Rightarrow> GateInput \<Rightarrow> GateInput" where
  "completeInput r input =
     (let input = input\<lparr>giConfig := Some (ruConfig r)\<rparr>
      in case ruNetem r of None \<Rightarrow> input
       | Some n \<Rightarrow> input\<lparr>giOffloads := nmOffloads n, giOffloadsAfter := nmOffloadsAfter n, giLossEvidence := nmLossEvidence n\<rparr>)"

definition processRoles :: "RunResult \<Rightarrow> (int \<times> string) list" where
  "processRoles r = map (\<lambda>p. (prPID p, prRole p)) (ruProcesses r)"

definition judgeScenario :: "RunResult \<Rightarrow> RunResult" where
  "judgeScenario r = (case (cRamp (ruConfig r), cScenario (ruConfig r), ruMetrics r) of
       (None, Some s, Some m) \<Rightarrow> r\<lparr>ruEvaluation := Some (EvaluateScenarioMetrics (Some m) s)\<rparr>
     | _ \<Rightarrow> r)"

definition addCost :: "RunResult \<Rightarrow> RunResult" where
  "addCost r = (if cRamp (ruConfig r) = None
     then r\<lparr>ruCost := ComputeCost (ruControl r) (processRoles r) (ruSamples r) (ruMetrics r)
       (Option.bind (ruNetem r) nmLossEvidence) (ruConfig r)\<rparr>
     else r)"

definition settle :: "RunResult \<Rightarrow> GateResult \<Rightarrow> RunResult" where
  "settle r gate =
     (let r = judgeScenario (r\<lparr>ruVerdict := grVerdict gate, ruInvalidReasons := grReasons gate\<rparr>)
      in case classifyRunOutcome r (grSUTFailureReasons gate) of (outcome, reasons) \<Rightarrow>
        addCost (r\<lparr>ruOutcome := outcome, ruOutcomeReasons := reasons\<rparr>))"

definition withLateOffloads :: "OffloadEvidence \<Rightarrow> RunResult \<Rightarrow> RunResult" where
  "withLateOffloads readAfter r = r\<lparr>ruNetem := map_option (lateOffloads readAfter (ruConfig r)) (ruNetem r)\<rparr>"

definition finishRunResult :: "library \<Rightarrow> OffloadEvidence \<Rightarrow> RunResult \<Rightarrow> GateInput \<Rightarrow> halt + RunResult" where
  "finishRunResult lib readAfter r input =
     (let r = withLateOffloads readAfter r
      in rbind (EvaluateGate lib (completeInput r input)) (\<lambda>gate. Inr (settle r gate)))"

end
