(* ===== verification/GateProperties.thy ===== *)
theory GateProperties
  imports Runner ConfigProperties
begin

text \<open>
  Properties of the gate and of the outcome: what a VALID verdict and a PASS rest on, and what accepted
  evidence of the deterministic loss proves.
\<close>

section \<open>Reasons\<close>

lemma dedupe_set: "set (dedupeStrings xs) = set xs - {[]}"
proof -
  have "set (foldl (\<lambda>out s. if s = [] \<or> s \<in> set out then out else out @ [s]) acc xs) = set acc \<union> (set xs - {[]})" for acc
    by (induction xs arbitrary: acc) auto
  then show ?thesis by (simp add: dedupeStrings_def)
qed

lemma dedupe_Nil: "dedupeStrings xs = [] \<longleftrightarrow> list_all (\<lambda>x. x = []) xs"
proof -
  have "dedupeStrings xs = [] \<longleftrightarrow> set xs - {[]} = {}" by (metis dedupe_set set_empty)
  then show ?thesis by (auto simp: list_all_iff)
qed

lemma concat_reasonIf: "concat (map (\<lambda>x. reasonIf (P x) (t x)) xs) = [] \<longleftrightarrow> list_all (\<lambda>x. \<not> P x) xs"
  by (auto simp: list_all_iff)

lemma prefixed_Nil: "dedupeStrings (map evidencePrefix xs) = [] \<longleftrightarrow> xs = []"
  by (cases xs) (simp_all add: dedupe_Nil evidencePrefix_def)

lemma controlReasons_Nil:
  "controlReasons control = [] \<longleftrightarrow> (\<exists>c. control = Some c \<and> InvalidReasons c = [] \<and>
     list_all (\<lambda>p. \<not> (AckReceived p \<and> AckMarginNS p < 0)) (Participants c))"
  by (auto simp: controlReasons_def concat_reasonIf list_all_iff split: option.splits)

lemma processReasons_Nil: "processReasons p = [] \<longleftrightarrow> prExited p \<and> prExitCode p = 0"
  by (simp add: processReasons_def)

lemma intervalEvidence_Nil:
  "ValidateOffloadIntervalEvidence lib cfg before after allowed = [] \<longleftrightarrow>
     (case offloadsRequired cfg of None \<Rightarrow> True
      | Some n \<Rightarrow> ValidateOffloadEvidence lib (pairSpec (executablePath lib) n) before = [] \<and>
          (if after = None then allowed else ValidateOffloadEvidence lib (pairSpec (executablePath lib) n) after = []))"
  by (cases "offloadsRequired cfg"; cases "after = None")
    (auto simp: ValidateOffloadIntervalEvidence_def ValidateRunOffloads_def)

text \<open>What the gate demands of the merged metrics: nothing of a ramp.\<close>

definition metricsAccepted :: "GateInput \<Rightarrow> bool" where
  "metricsAccepted input \<longleftrightarrow> isRamp (giConfig input) \<or>
     (case giMetrics input of None \<Rightarrow> False
      | Some m \<Rightarrow> TimestampOrderViolations (mmRaw m) = 0 \<and>
          (\<not> f_lt (attemptedRatio m) (giAttemptedThreshold input) \<or> 0 < totalPeerDisconnects (giControl input) \<or>
           0 < totalSendRefused (giControl input) \<and>
             f_le (giAttemptedThreshold input) (attemptedRatioWith m (totalSendRefused (giControl input)))))"

lemma metricsReasons_Nil: "fst (snd (metricsReasons input)) = [] \<longleftrightarrow> metricsAccepted input"
  by (auto simp: metricsReasons_def metricsAccepted_def attemptedReasons_def Let_def split: option.splits if_splits)

definition offloadsProved :: "library \<Rightarrow> GateInput \<Rightarrow> bool \<Rightarrow> bool" where
  "offloadsProved lib input failed \<longleftrightarrow> (case offloadsRequired (giConfig input) of None \<Rightarrow> True
     | Some n \<Rightarrow> ValidateOffloadEvidence lib (pairSpec (executablePath lib) n) (giOffloads input) = [] \<and>
         (if giOffloadsAfter input = None then failed
          else ValidateOffloadEvidence lib (pairSpec (executablePath lib) n) (giOffloadsAfter input) = []))"

lemma EvaluateGate_Inr:
  assumes "EvaluateGate lib input = Inr g"
  obtains doneInvalid doneFailed lossReasons sut where
    "doneReasons (giConfig input) (giControl input) = Inr (doneInvalid, doneFailed)"
    "ValidateNetemLossEvidence lib (giConfig input) (giControl input) (giLossEvidence input) = Inr lossReasons"
    "sut = giSUTFailureReasons input @ doneFailed @ snd (snd (metricsReasons input))"
    "grSUTFailureReasons g = dedupeStrings sut"
    "grVerdict g = VerdictValid \<longleftrightarrow> giExtraReasons input = [] \<and> controlReasons (giControl input) = [] \<and>
       doneInvalid = [] \<and> metricsAccepted input \<and> concat (map processReasons (giProcesses input)) = [] \<and>
       udpReasons input = [] \<and> offloadsProved lib input (sut \<noteq> []) \<and> lossReasons = []"
proof -
  obtain doneInvalid doneFailed where d: "doneReasons (giConfig input) (giControl input) = Inr (doneInvalid, doneFailed)"
    using assms by (auto simp: EvaluateGate_def rbind_eq_Inr_iff)
  obtain lossReasons where l: "ValidateNetemLossEvidence lib (giConfig input) (giControl input) (giLossEvidence input) = Inr lossReasons"
    using assms by (auto simp: EvaluateGate_def rbind_eq_Inr_iff)
  obtain attempted mi mf where m: "metricsReasons input = (attempted, mi, mf)"
    by (cases "metricsReasons input") auto
  define sut where "sut = giSUTFailureReasons input @ doneFailed @ mf"
  define reasons where "reasons = giExtraReasons input @ controlReasons (giControl input) @ doneInvalid @ mi @
    concat (map processReasons (giProcesses input)) @ udpReasons input @
    ValidateOffloadIntervalEvidence lib (giConfig input) (giOffloads input) (giOffloadsAfter input) (sut \<noteq> []) @ lossReasons"
  have g: "g = \<lparr>grVerdict = (if reasons \<noteq> [] then VerdictInvalid else VerdictValid), grReasons = dedupeStrings reasons,
      grAttemptedRatio = attempted, grSUTFailureReasons = dedupeStrings sut\<rparr>"
    using assms unfolding EvaluateGate_def d l m rbind_simps prod.case Let_def sut_def reasons_def by simp
  have "grVerdict g = VerdictValid \<longleftrightarrow> reasons = []"
    by (simp add: g VerdictInvalid_def VerdictValid_def)
  also have "\<dots> \<longleftrightarrow> giExtraReasons input = [] \<and> controlReasons (giControl input) = [] \<and>
      doneInvalid = [] \<and> mi = [] \<and> concat (map processReasons (giProcesses input)) = [] \<and>
      udpReasons input = [] \<and> offloadsProved lib input (sut \<noteq> []) \<and> lossReasons = []"
    unfolding reasons_def append_is_Nil_conv intervalEvidence_Nil offloadsProved_def by blast
  finally show thesis
    using that [OF d l] metricsReasons_Nil [of input] by (simp add: m g sut_def)
qed

section \<open>The verdict\<close>

text \<open>
  C7. A run is VALID exactly when no reason was noted before the gate, the control barrier returned a
  result without invalid reasons or late schedules, the merged metrics are there, in order, and attempt
  enough (or the shortfall is attributed to the system under test), every process exited with status
  zero, an emulated link lost no datagram in a socket buffer, the evidence of the configured loss and
  the readback of the offloads hold, and every participant reported statistics of the right form.
\<close>

theorem valid_verdict_iff:
  assumes "EvaluateGate lib input = Inr g"
  shows "grVerdict g = VerdictValid \<longleftrightarrow>
    giExtraReasons input = [] \<and>
    (\<exists>c. giControl input = Some c \<and> InvalidReasons c = [] \<and>
       list_all (\<lambda>p. \<not> (AckReceived p \<and> AckMarginNS p < 0)) (Participants c)) \<and>
    metricsAccepted input \<and>
    list_all (\<lambda>p. prExited p \<and> prExitCode p = 0) (giProcesses input) \<and>
    \<not> (giNetemEnabled input \<and> (InErrors (giUDPDropDelta input) \<noteq> 0 \<or> RcvbufErrors (giUDPDropDelta input) \<noteq> 0)) \<and>
    ValidateNetemLossEvidence lib (giConfig input) (giControl input) (giLossEvidence input) = Inr [] \<and>
    (\<exists>failed. doneReasons (giConfig input) (giControl input) = Inr ([], failed) \<and>
       offloadsProved lib input (giSUTFailureReasons input @ failed @ snd (snd (metricsReasons input)) \<noteq> []))"
proof -
  obtain doneInvalid doneFailed lossReasons sut where
    d: "doneReasons (giConfig input) (giControl input) = Inr (doneInvalid, doneFailed)"
    and l: "ValidateNetemLossEvidence lib (giConfig input) (giControl input) (giLossEvidence input) = Inr lossReasons"
    and s: "sut = giSUTFailureReasons input @ doneFailed @ snd (snd (metricsReasons input))"
    and v: "grVerdict g = VerdictValid \<longleftrightarrow> giExtraReasons input = [] \<and> controlReasons (giControl input) = [] \<and>
       doneInvalid = [] \<and> metricsAccepted input \<and> concat (map processReasons (giProcesses input)) = [] \<and>
       udpReasons input = [] \<and> offloadsProved lib input (sut \<noteq> []) \<and> lossReasons = []"
    by (rule EvaluateGate_Inr [OF assms])
  have "concat (map processReasons (giProcesses input)) = [] \<longleftrightarrow>
      list_all (\<lambda>p. prExited p \<and> prExitCode p = 0) (giProcesses input)"
    by (auto simp: list_all_iff processReasons_Nil)
  then show ?thesis
    unfolding v d l s controlReasons_Nil by (auto simp: udpReasons_def Let_def)
qed

lemma addCost_simps [simp]:
  "ruOutcome (addCost r) = ruOutcome r" "ruOutcomeReasons (addCost r) = ruOutcomeReasons r"
  by (simp_all add: addCost_def)

lemma settle_outcome:
  "(ruOutcome (settle r g), ruOutcomeReasons (settle r g)) =
    classifyRunOutcome (judgeScenario (r\<lparr>ruVerdict := grVerdict g, ruInvalidReasons := grReasons g\<rparr>)) (grSUTFailureReasons g)"
  by (simp add: settle_def Let_def split: prod.split)

lemma judgeScenario_simps [simp]:
  "ruOutcome (judgeScenario r) = ruOutcome r" "ruConfig (judgeScenario r) = ruConfig r"
  "ruVerdict (judgeScenario r) = ruVerdict r" "ruInvalidReasons (judgeScenario r) = ruInvalidReasons r"
  "ruRamp (judgeScenario r) = ruRamp r"
  by (auto simp: judgeScenario_def split: option.splits)

text \<open>The evaluation a passing scenario needs.\<close>

definition scenarioMet :: "RunResult \<Rightarrow> bool" where
  "scenarioMet r \<longleftrightarrow> (case cScenario (ruConfig r) of None \<Rightarrow> True
     | Some s \<Rightarrow> (case ruMetrics r of None \<Rightarrow> False
         | Some m \<Rightarrow> (let e = EvaluateScenarioMetrics (Some m) s in seOK e \<and> CompletePrimarySLOs e)))"

lemma settled_pass:
  assumes "ruOutcome q = OutcomeInvalid" and "ruEvaluation q = None"
  shows "ruOutcome (settle q g) = OutcomePass \<longleftrightarrow>
    grSUTFailureReasons g = [] \<and> (grVerdict g = VerdictValid \<or> onlyAttemptedShortfall (grReasons g)) \<and>
    cRamp (ruConfig q) = None \<and> scenarioMet q"
proof -
  note outcomes = OutcomePass_def OutcomeFail_def OutcomeInvalid_def OutcomeCensored_def OutcomeUnsupported_def
    OutcomeInconclusive_def
  define r where "r = judgeScenario (q\<lparr>ruVerdict := grVerdict g, ruInvalidReasons := grReasons g\<rparr>)"
  have e: "ruEvaluation r = (if cRamp (ruConfig q) = None then
      (case (cScenario (ruConfig q), ruMetrics q) of (Some s, Some m) \<Rightarrow> Some (EvaluateScenarioMetrics (Some m) s) | _ \<Rightarrow> None)
      else None)"
    by (auto simp: r_def judgeScenario_def assms(2) split: option.splits)
  have r: "ruOutcome r = OutcomeInvalid" "ruConfig r = ruConfig q" "ruVerdict r = grVerdict g" "ruInvalidReasons r = grReasons g"
    by (simp_all add: r_def assms(1))
  have "ruOutcome (settle q g) = OutcomePass \<longleftrightarrow> fst (classifyRunOutcome r (grSUTFailureReasons g)) = OutcomePass"
    by (simp add: r_def flip: settle_outcome)
  also have "\<dots> \<longleftrightarrow> grSUTFailureReasons g = [] \<and> (grVerdict g = VerdictValid \<or> onlyAttemptedShortfall (grReasons g)) \<and>
      cRamp (ruConfig q) = None \<and> scenarioMet q"
  proof (cases "cRamp (ruConfig q) = None")
    case True
    then show ?thesis
      by (cases "cScenario (ruConfig q)"; cases "ruMetrics q")
        (auto simp: classifyRunOutcome_def e scenarioMet_def Let_def outcomes r)
  next
    case False
    then show ?thesis
      by (cases "ruRamp r") (simp_all add: classifyRunOutcome_def Let_def outcomes r)
  qed
  finally show ?thesis .
qed

lemma finished_settled:
  assumes "finishRunResult lib ev r input = Inr f"
  obtains g where "EvaluateGate lib (completeInput (withLateOffloads ev r) input) = Inr g" "f = settle (withLateOffloads ev r) g"
  using assms by (auto simp: finishRunResult_def Let_def rbind_eq_Inr_iff)

lemma withLateOffloads_simps [simp]:
  "ruOutcome (withLateOffloads ev r) = ruOutcome r" "ruConfig (withLateOffloads ev r) = ruConfig r"
  "ruEvaluation (withLateOffloads ev r) = ruEvaluation r" "ruMetrics (withLateOffloads ev r) = ruMetrics r"
  by (simp_all add: withLateOffloads_def)

lemma scenarioMet_late [simp]: "scenarioMet (withLateOffloads ev r) = scenarioMet r"
  unfolding scenarioMet_def withLateOffloads_simps ..

text \<open>
  C8. A run passes exactly when the gate found no failure of the system under test, every reason it found
  against the measurement is a shortfall of the attempted sends, the run is not a ramp, and its
  scenario, if it has one, meets every objective with none of them missing.
\<close>

theorem pass_is_earned:
  assumes "finishRunResult lib readAfter r input = Inr f"
    and "ruOutcome r = OutcomeInvalid" and "ruEvaluation r = None"
  shows "\<exists>g. EvaluateGate lib (completeInput (withLateOffloads readAfter r) input) = Inr g \<and>
    (ruOutcome f = OutcomePass \<longleftrightarrow>
      grSUTFailureReasons g = [] \<and> (grVerdict g = VerdictValid \<or> onlyAttemptedShortfall (grReasons g)) \<and>
      cRamp (ruConfig r) = None \<and> scenarioMet r)"
proof -
  obtain g where g: "EvaluateGate lib (completeInput (withLateOffloads readAfter r) input) = Inr g"
      "f = settle (withLateOffloads readAfter r) g"
    by (rule finished_settled [OF assms(1)])
  then show ?thesis
    using settled_pass [of "withLateOffloads readAfter r" g] assms(2,3) by auto
qed

section \<open>The recount of a regenerated trace\<close>

text \<open>
  What the recount shows of a lossy egress: the counters name a range of packets, and the drops recorded
  for it are the packets of the range that the Gilbert-Elliott chain of the seed drops.
\<close>

definition chainDrops :: "library \<Rightarrow> Netem \<Rightarrow> nat \<Rightarrow> nat \<Rightarrow> nat" where
  "chainDrops lib egress a b = length (filter (\<lambda>i. chain (randomDraws lib (LossSeed egress))
     (enterBad (LossPercent egress) (LossBurstLen egress)) (leaveBad (LossBurstLen egress))
     (i mod nat (traceBitsOrDefault egress))) [a..<b])"

definition recounted :: "library \<Rightarrow> string \<Rightarrow> string \<Rightarrow> Netem \<Rightarrow> DeterministicLossDirection option \<Rightarrow> bool" where
  "recounted lib namespace device egress entry \<longleftrightarrow> f_le (LossPercent egress) (FFin 0) \<or>
     (\<exists>r. entry = Some r \<and> LossSeed egress \<noteq> 0 \<and> dlNamespace r = namespace \<and> dlDev r = device \<and>
        unat (dlCounterBefore r) + unat (dlPackets r) = unat (dlCounterAfter r) \<and> 0 < unat (dlPackets r) \<and>
        0 < unat (dlExpectedDrops r) \<and>
        unat (dlExpectedDrops r) = chainDrops lib egress (unat (dlCounterBefore r)) (unat (dlCounterAfter r)))"

lemma directionReasons_recounted:
  assumes "directionReasons lib name namespace device egress entry = Inr []" and "TraceBits egress < 2 ^ 63"
  shows "recounted lib namespace device egress entry"
proof (cases "f_le (LossPercent egress) (FFin 0)")
  case False
  have seed: "LossSeed egress \<noteq> 0" using assms(1) False by (auto simp: directionReasons_def)
  obtain r where r: "entry = Some r" using assms(1) False seed by (auto simp: directionReasons_def split: option.splits)
  have fwd: "dlCounterBefore r \<le> dlCounterAfter r"
    and c: "countedReasons name namespace device egress r = []" and p: "packetReasons name r = []"
    and rc: "recountReasons lib name egress r = Inr []"
    using assms(1) False seed r by (auto simp: directionReasons_def rbind_eq_Inr_iff Let_def split: if_splits)
  have bits: "dlTraceBits r = traceBitsOrDefault egress" using c by (simp add: countedReasons_def)
  obtain q where q: "regenerate (randomDraws lib) egress (dlTraceBits r) = Inr q"
    using rc by (auto simp: recountReasons_def rbind_eq_Inr_iff)
  then obtain words realized where g: "regenerate (randomDraws lib) egress (dlTraceBits r) = Inr (Inr (words, realized))"
    using rc by (cases q) (auto simp: recountReasons_def)
  obtain c where c': "recount words r = Inr c"
    using rc by (auto simp: recountReasons_def rbind_eq_Inr_iff g)
  then have n: "recount words r = Inr (Inr (dlExpectedDrops r))"
    using rc by (cases c) (auto simp: recountReasons_def g)
  have gen: "Generate (randomDraws lib (LossSeed egress)) (LossPercent egress) (LossBurstLen egress)
      (traceBitsOrDefault egress) = Inr (words, realized)"
    using g by (auto simp: regenerate_def bits split: sum.splits trace_error.splits)
  have cnt: "CountDropsInRange words (dlCounterBefore r) (dlCounterAfter r) = Inr (dlExpectedDrops r)"
    using n by (auto simp: recount_def split: sum.splits trace_error.splits)
  have "traceBitsOrDefault egress < 2 ^ 63" using assms(2) by (simp add: traceBitsOrDefault_def)
  note drops = counted_chain [OF gen this cnt fwd]
  have pk: "dlPackets r = dlCounterAfter r - dlCounterBefore r" "dlPackets r \<noteq> 0" "dlExpectedDrops r \<noteq> 0"
    using p unfolding packetReasons_def append_is_Nil_conv reasonIf_Nil by blast+
  have "unat (dlCounterBefore r) + unat (dlPackets r) = unat (dlCounterAfter r)"
    using fwd by (simp add: pk(1) unat_sub word_le_nat_alt)
  then show ?thesis
    using c pk(2,3) r seed drops
    by (simp add: recounted_def chainDrops_def countedReasons_def unat_gt_0)
qed (simp add: recounted_def)

text \<open>
  C10. Accepted evidence of the deterministic loss proves it: the counters were read inside the measured
  window of the control result, before and after in that order, and in every lossy direction the drops
  recorded are exactly the packets between the two counters that the chain of the configured seed drops,
  at least one.
\<close>

theorem deterministic_evidence_recounts:
  assumes "validateDeterministicLossEvidence lib n control (Some e) = Inr []"
    and "TraceBits (nrServerEgress n) < 2 ^ 63" and "TraceBits (nrClientEgress n) < 2 ^ 63"
  shows "\<exists>c det. control = Some c \<and> leDeterministic e = Some det \<and> leErrors e = [] \<and>
    StartAtNS (rSchedule c) \<le> deBeforeStartNS det \<and> deBeforeFinishNS det < deAfterStartNS det \<and>
    deAfterFinishNS det \<le> StopAtNS (rSchedule c) \<and>
    recounted lib (ServerNS (pairSpec (executablePath lib) n)) (ServerVeth (pairSpec (executablePath lib) n))
      (nrServerEgress n) (deServer det) \<and>
    recounted lib (ClientNS (pairSpec (executablePath lib) n)) (ClientVeth (pairSpec (executablePath lib) n))
      (nrClientEgress n) (deClient det)"
proof -
  obtain det where det: "leDeterministic e = Some det"
    using assms(1) by (auto simp: validateDeterministicLossEvidence_def Let_def dedupe_Nil evidencePrefix_def split: option.splits)
  define pair where "pair = pairSpec (executablePath lib) n"
  have env: "envelopeReasons lossEvidenceModeDeterministicTrace ''deterministic trace accounting marked unsupported'' control e = []"
    and smp: "sampleReasons (leSchedule e) det = []"
    and s: "directionReasons lib ''server_egress'' (ServerNS pair) (ServerVeth pair) (nrServerEgress n) (deServer det) = Inr []"
    and c: "directionReasons lib ''client_egress'' (ClientNS pair) (ClientVeth pair) (nrClientEgress n) (deClient det) = Inr []"
    using assms(1)
    by (auto simp: validateDeterministicLossEvidence_def det Let_def rbind_eq_Inr_iff prefixed_Nil pair_def
        simp del: map_append)
  obtain r where "control = Some r" "leSchedule e = rSchedule r" "leErrors e = []"
    using env by (auto simp: envelopeReasons_def split: option.splits)
  then show ?thesis
    using smp det directionReasons_recounted [OF s assms(2)] directionReasons_recounted [OF c assms(3)]
    by (simp add: sampleReasons_def pair_def)
qed

section \<open>A sample run\<close>

definition sampleLibrary :: library where
  "sampleLibrary = \<lparr>scanJSON = (\<lambda>_. None), jsonErrorText = (\<lambda>_. ''bad''), hashOffloads = (\<lambda>_. ''ab''), executablePath = None,
     hashWords = (\<lambda>_. ''cd''), randomDraws = (\<lambda>_ _. FFin 0)\<rparr>"

definition sampleWindow :: ScheduleMessage where
  "sampleWindow = \<lparr>StartAtNS = 100, StopAtNS = 900, DrainUntilNS = 950\<rparr>"

definition sampleControl :: Result where
  "sampleControl = \<lparr>Valid = True, InvalidReasons = [], rSchedule = sampleWindow, Participants = [], Stats = [],
     SteadyEnabled = False, SteadyReached = False, WarmupActualNS = 0\<rparr>"

definition seededEgress :: Netem where
  "seededEgress = zeroNetem\<lparr>LossPercent := FFin 50, LossBurstLen := FFin 2, LossSeed := 7, TraceBits := 64\<rparr>"

definition lossyRegime :: NetemRegime where
  "lossyRegime = \<lparr>nrPrefix = ''b'', nrServerNS = ''s'', nrClientNS = ''c'', nrServerVeth = ''vs'', nrClientVeth = ''vc'',
     nrServerAddrCIDR = [], nrClientAddrCIDR = [], nrLinkMTUBytes = 0, nrDisableOffloads = False,
     nrServerEgress = seededEgress, nrClientEgress = zeroNetem\<rparr>"

definition sampleDirection :: DeterministicLossDirection where
  "sampleDirection = \<lparr>dlNamespace = ''s'', dlDev = ''vs'', dlTraceBits = 64, dlCounterBefore = 62, dlCounterAfter = 67,
     dlPackets = 5, dlExpectedDrops = 3, dlRealizedLossPct = FFin 50, dlTraceSHA256 = ''cd''\<rparr>"

definition sampleEvidence :: NetemLossEvidence where
  "sampleEvidence = (newEvidence lossEvidenceModeDeterministicTrace)\<lparr>leSchedule := sampleWindow,
     leDeterministic := Some \<lparr>deBeforeStartNS = 110, deBeforeFinishNS = 120, deAfterStartNS = 800, deAfterFinishNS = 810,
       deServer = Some sampleDirection, deClient = None\<rparr>\<rparr>"

lemma sample_generated: "Generate (\<lambda>_. FFin 0) (FFin 50) (FFin 2) 64 = Inr ([6148914691236517205], FFin 50)"
  by code_simp

lemma sample_counted: "CountDropsInRange [6148914691236517205] 62 67 = Inr 3"
  by code_simp

lemma sample_pair:
  "ServerNS (pairSpec None lossyRegime) = ''s''" "ServerVeth (pairSpec None lossyRegime) = ''vs''"
  by (simp_all add: pairSpec_def lossyRegime_def seededEgress_def zeroNetem_def orDefault_def Let_def)

lemma seeded_simps:
  "LossPercent seededEgress = FFin 50" "LossBurstLen seededEgress = FFin 2" "LossSeed seededEgress = 7"
  "traceBitsOrDefault seededEgress = 64" "TraceBits seededEgress = 64"
  by (simp_all add: seededEgress_def zeroNetem_def traceBitsOrDefault_def)

lemma direction_simps:
  "dlNamespace sampleDirection = ''s''" "dlDev sampleDirection = ''vs''" "dlTraceBits sampleDirection = 64"
  "dlCounterBefore sampleDirection = 62" "dlCounterAfter sampleDirection = 67" "dlPackets sampleDirection = 5"
  "dlExpectedDrops sampleDirection = 3" "dlRealizedLossPct sampleDirection = FFin 50" "dlTraceSHA256 sampleDirection = ''cd''"
  by (simp_all add: sampleDirection_def)

lemma sample_evidence_valid:
  "validateDeterministicLossEvidence sampleLibrary lossyRegime (Some sampleControl) (Some sampleEvidence) = Inr []"
proof -
  have c: "directionReasons sampleLibrary ''client_egress'' ns dev (nrClientEgress lossyRegime) None = Inr []" for ns dev
    by (simp add: directionReasons_def lossyRegime_def zeroNetem_def)
  have "recountReasons sampleLibrary ''server_egress'' seededEgress sampleDirection = Inr []"
    by (simp add: recountReasons_def regenerate_def recount_def seeded_simps direction_simps sampleLibrary_def
      sample_generated sample_counted)
  then have s: "directionReasons sampleLibrary ''server_egress'' ''s'' ''vs'' seededEgress (Some sampleDirection) = Inr []"
    by (simp add: directionReasons_def countedReasons_def packetReasons_def seeded_simps direction_simps Let_def)
  show ?thesis
    using s c sample_pair
    by (simp add: validateDeterministicLossEvidence_def sampleEvidence_def newEvidence_def envelopeReasons_def
      sampleReasons_def sampleControl_def sampleWindow_def lossyRegime_def sampleLibrary_def dedupeStrings_def Let_def)
qed

lemma deterministic_evidence_recounts_witness:
  "\<exists>det. leDeterministic sampleEvidence = Some det \<and> recounted sampleLibrary ''s'' ''vs'' seededEgress (deServer det)"
proof -
  have "TraceBits (nrServerEgress lossyRegime) < 2 ^ 63" "TraceBits (nrClientEgress lossyRegime) < 2 ^ 63"
    by (simp_all add: lossyRegime_def seededEgress_def zeroNetem_def)
  from deterministic_evidence_recounts [OF sample_evidence_valid this] show ?thesis
    using sample_pair by (auto simp: sampleLibrary_def lossyRegime_def)
qed

definition mergedNothing :: MergedMetrics where
  "mergedNothing = newMergedMetrics 2 v2Layout 4"

definition sampleGateInput :: GateInput where
  "sampleGateInput = \<lparr>giControl = Some sampleControl, giMetrics = Some mergedNothing, giProcesses = [],
     giAttemptedThreshold = FFin 1, giNetemEnabled = True, giUDPDropDelta = \<lparr>InErrors = 0, RcvbufErrors = 0\<rparr>,
     giServerUDPDropDelta = \<lparr>InErrors = 0, RcvbufErrors = 0\<rparr>, giOffloads = None, giOffloadsAfter = None,
     giLossEvidence = Some sampleEvidence, giExtraReasons = [], giSUTFailureReasons = [], giConfig = Some (sampleConfig\<lparr>cNetem := Some lossyRegime\<rparr>)\<rparr>"

lemma sample_config:
  "cNetem (sampleConfig\<lparr>cNetem := Some n\<rparr>) = Some n" "cScenario (sampleConfig\<lparr>cNetem := Some n\<rparr>) = None"
  "cRamp (sampleConfig\<lparr>cNetem := Some n\<rparr>) = None"
  by (simp_all add: sampleConfig_def)

lemma sample_loss:
  "ValidateNetemLossEvidence sampleLibrary (giConfig sampleGateInput) (giControl sampleGateInput)
    (giLossEvidence sampleGateInput) = Inr []"
  using sample_evidence_valid
  by (simp add: ValidateNetemLossEvidence_def sampleGateInput_def sample_config configuredLoss_def deterministicLoss_def
    lossyRegime_def seeded_simps)

lemma sample_done: "doneReasons (giConfig sampleGateInput) (giControl sampleGateInput) = Inr ([], [])"
  by (simp add: doneReasons_def sampleGateInput_def sample_config)

lemma sample_attempted: "attemptedRatioWith mergedNothing 0 = FFin 1"
  by code_simp

lemma sample_metrics: "metricsAccepted sampleGateInput" "TimestampOrderViolations (mmRaw mergedNothing) = 0"
  by (simp_all add: metricsAccepted_def sampleGateInput_def isRamp_def sample_config attemptedRatio_def sample_attempted)
    (simp_all add: mergedNothing_def newMergedMetrics_def zeroRaw_def)

lemma sample_gate: "\<exists>g. EvaluateGate sampleLibrary sampleGateInput = Inr g \<and> grSUTFailureReasons g = []"
proof -
  obtain a where m: "metricsReasons sampleGateInput = (a, [], [])"
    using sample_metrics(2)
    by (simp add: metricsReasons_def sampleGateInput_def isRamp_def sample_config attemptedReasons_def attemptedRatio_def
      sample_attempted Let_def)
  show ?thesis
    unfolding EvaluateGate_def sample_loss sample_done rbind_simps m prod.case Let_def
    by (simp add: sampleGateInput_def dedupeStrings_def)
qed

lemma sample_verdict:
  assumes "EvaluateGate sampleLibrary sampleGateInput = Inr g"
  shows "grVerdict g = VerdictValid"
proof -
  obtain di df lr and sut :: "string list" where r: "doneReasons (giConfig sampleGateInput) (giControl sampleGateInput) = Inr (di, df)"
    "ValidateNetemLossEvidence sampleLibrary (giConfig sampleGateInput) (giControl sampleGateInput)
       (giLossEvidence sampleGateInput) = Inr lr"
    "grVerdict g = VerdictValid \<longleftrightarrow> giExtraReasons sampleGateInput = [] \<and> controlReasons (giControl sampleGateInput) = [] \<and>
       di = [] \<and> metricsAccepted sampleGateInput \<and> concat (map processReasons (giProcesses sampleGateInput)) = [] \<and>
       udpReasons sampleGateInput = [] \<and> offloadsProved sampleLibrary sampleGateInput (sut \<noteq> []) \<and> lr = []"
    by (rule EvaluateGate_Inr [OF assms]) (rule that; assumption)
  have "giExtraReasons sampleGateInput = []" "controlReasons (giControl sampleGateInput) = []"
    "giProcesses sampleGateInput = []" "udpReasons sampleGateInput = []" "offloadsProved sampleLibrary sampleGateInput b" for b
    by (simp_all add: sampleGateInput_def controlReasons_def sampleControl_def udpReasons_def offloadsProved_def
      offloadsRequired_def sample_config lossyRegime_def)
  then show ?thesis using r sample_loss sample_done sample_metrics(1) by simp
qed

lemma valid_verdict_iff_witness:
  "\<exists>g. EvaluateGate sampleLibrary sampleGateInput = Inr g \<and> grVerdict g = VerdictValid \<and> metricsAccepted sampleGateInput"
proof -
  obtain g where g: "EvaluateGate sampleLibrary sampleGateInput = Inr g" using sample_gate by blast
  then show ?thesis using valid_verdict_iff [OF g] sample_verdict [OF g] by blast
qed

definition sampleResult :: RunResult where
  "sampleResult = \<lparr>ruTransport = ''enet'', ruOutcome = OutcomeInvalid, ruOutcomeReasons = [], ruVerdict = VerdictInvalid,
     ruInvalidReasons = [], ruConfig = sampleConfig\<lparr>cNetem := Some lossyRegime\<rparr>, ruControl = Some sampleControl, ruProcesses = [],
     ruMetrics = Some mergedNothing, ruEvaluation = None, ruRamp = None, ruTreatment = None, ruSamples = [], ruCost = None,
     ruNetem = None\<rparr>"

lemma pass_is_earned_witness:
  "\<forall>ev. \<exists>f. finishRunResult sampleLibrary ev sampleResult sampleGateInput = Inr f \<and> ruOutcome f = OutcomePass"
proof
  fix ev
  obtain g where g: "EvaluateGate sampleLibrary sampleGateInput = Inr g" "grSUTFailureReasons g = []"
    using sample_gate by blast
  have i: "completeInput (withLateOffloads ev sampleResult) sampleGateInput = sampleGateInput"
    by (simp add: completeInput_def withLateOffloads_def sampleResult_def sampleGateInput_def)
  then have f: "finishRunResult sampleLibrary ev sampleResult sampleGateInput = Inr (settle (withLateOffloads ev sampleResult) g)"
    by (simp add: finishRunResult_def Let_def g(1))
  have "scenarioMet sampleResult" "cRamp (ruConfig sampleResult) = None"
    by (simp_all add: scenarioMet_def sampleResult_def sample_config)
  then show "\<exists>f. finishRunResult sampleLibrary ev sampleResult sampleGateInput = Inr f \<and> ruOutcome f = OutcomePass"
    using pass_is_earned [OF f] sample_verdict [OF g(1)] g f i by (simp add: sampleResult_def)
qed

end
