(* ===== verification/LinkProperties.thy ===== *)
theory LinkProperties
  imports NetemGate
begin

text \<open>
  Properties of the checks before a run: the readback of the offloads is accepted exactly when the
  commands show every packet-shaping feature off and the configured MTU, and judging a stored report of
  the link gate again agrees with the judgement of the gate that wrote it.
\<close>

section \<open>Offloads\<close>

lemma addFeature_distinct:
  "distinct (map fst fs) \<Longrightarrow> addFeature fs l = Inr fs' \<Longrightarrow> distinct (map fst fs')"
  by (auto simp: addFeature_def intro: distinct_update split: option.splits if_splits)

lemma parsed_distinct:
  assumes "ParseOffloadFeatures raw = Inr fs"
  shows "distinct (map fst fs)"
proof -
  have "foldM addFeature [] (splitAt newline raw) = Inr fs"
    using assms by (auto simp: ParseOffloadFeatures_def rbind_eq_Inr_iff split: if_splits)
  then show ?thesis
    by (rule foldM_invariant [where P = "\<lambda>fs. distinct (map fst fs)"]) (auto intro: addFeature_distinct)
qed

lemma mapsEqual_refl: "distinct (map fst fs) \<Longrightarrow> mapsEqual fs fs"
  by (auto simp: mapsEqual_def list_all_iff)

lemma parsed_nonempty: "ParseOffloadFeatures raw = Inr fs \<Longrightarrow> raw \<noteq> []"
  by (auto simp: ParseOffloadFeatures_def addFeature_def featureLine_def trimSpace_def cutAt_def)

text \<open>What the two commands have to show of one end.\<close>

definition endpointOff :: "library \<Rightarrow> int \<Rightarrow> string \<Rightarrow> (string \<times> string option) \<times> (string \<times> string option) \<Rightarrow> bool" where
  "endpointOff lib mtu dev = (\<lambda>((ethtool, ethtoolErr), (link, linkErr)). ethtoolErr = None \<and> linkErr = None \<and>
     (case ParseOffloadFeatures ethtool of Inl _ \<Rightarrow> False
      | Inr fs \<Rightarrow> list_all (\<lambda>name. \<exists>st. map_of fs name = Some st \<and> \<not> ofEnabled st) RequiredOffloadFeatures) \<and>
     ParseLinkMTU lib link = Inr (dev, mtu))"

lemma joined_Nil: "xs \<noteq> [] \<Longrightarrow> [] \<notin> set xs \<Longrightarrow> joinText sep xs \<noteq> []"
  by (induction sep xs rule: joinText.induct) auto

lemma readFeatures_simps:
  "oiNamespace (readFeatures eth s) = oiNamespace s" "oiDevice (readFeatures eth s) = oiDevice s"
  "oiRaw (readFeatures eth s) = fst eth"
  "oiFeatures (readFeatures eth s) = (case ParseOffloadFeatures (fst eth) of Inl _ \<Rightarrow> oiFeatures s | Inr fs \<Rightarrow> fs)"
  by (simp_all add: readFeatures_def Let_def split: sum.split)

lemma readFeatures_error:
  "oiError s = [] \<Longrightarrow> oiError (readFeatures eth s) = [] \<longleftrightarrow> snd eth = None \<and> (\<exists>fs. ParseOffloadFeatures (fst eth) = Inr fs)"
  by (cases "ParseOffloadFeatures (fst eth)"; cases "snd eth") (simp_all add: readFeatures_def Let_def)

lemma readLink_simps:
  "oiNamespace (readLink lib dev link s) = oiNamespace s" "oiDevice (readLink lib dev link s) = oiDevice s"
  "oiRaw (readLink lib dev link s) = oiRaw s" "oiFeatures (readLink lib dev link s) = oiFeatures s"
  "oiLinkRaw (readLink lib dev link s) = fst link"
  by (auto simp: readLink_def Let_def split: sum.split)

lemma readLink_read:
  "snd link = None \<Longrightarrow> ParseLinkMTU lib (fst link) = Inr (dev, mtu) \<Longrightarrow>
    oiLinkMTUBytes (readLink lib dev link s) = mtu \<and> oiError (readLink lib dev link s) = oiError s"
  by (simp add: readLink_def Let_def)

lemma readLink_error:
  "oiError (readLink lib dev link s) = [] \<longleftrightarrow>
    oiError s = [] \<and> snd link = None \<and> (\<exists>mtu. ParseLinkMTU lib (fst link) = Inr (dev, mtu))"
  by (cases "ParseLinkMTU lib (fst link)"; cases "snd link"; cases "oiError s")
    (auto simp: readLink_def Let_def joined_Nil split: if_splits)

lemma requiredReasons_Nil:
  "requiredReasons role s = [] \<longleftrightarrow>
    list_all (\<lambda>name. \<exists>st. map_of (oiFeatures s) name = Some st \<and> \<not> ofEnabled st) RequiredOffloadFeatures"
  by (auto simp: requiredReasons_def list_all_iff split: option.splits)

lemma endpoint_exact:
  assumes "scanJSON lib [] = None" and "run = (eth, link)"
  shows "endpointReasons lib mtu role ns dev (readOffloadInterface lib ns dev eth link) = [] \<longleftrightarrow>
    endpointOff lib mtu dev run"
proof -
  define s where "s = readOffloadInterface lib ns dev eth link"
  have target: "oiNamespace s = ns" "oiDevice s = dev" "oiRaw s = fst eth" "oiLinkRaw s = fst link"
    by (simp_all add: s_def readOffloadInterface_def readLink_simps readFeatures_simps)
  have err: "oiError s = [] \<longleftrightarrow> snd eth = None \<and> (\<exists>fs. ParseOffloadFeatures (fst eth) = Inr fs) \<and> snd link = None \<and>
      (\<exists>m. ParseLinkMTU lib (fst link) = Inr (dev, m))"
    by (auto simp: s_def readOffloadInterface_def readLink_error readFeatures_error)
  show ?thesis
  proof (cases "oiError s = []")
    case True
    then obtain fs m where p: "ParseOffloadFeatures (fst eth) = Inr fs" "ParseLinkMTU lib (fst link) = Inr (dev, m)"
        "snd eth = None" "snd link = None"
      using err by blast
    have "oiFeatures s = fs" "oiLinkMTUBytes s = m"
      using p readLink_read [OF p(4,2)] by (simp_all add: s_def readOffloadInterface_def readLink_simps readFeatures_simps)
    moreover have "fst link \<noteq> []" using p(2) assms(1) by (auto simp: ParseLinkMTU_def)
    ultimately show ?thesis
      unfolding s_def [symmetric]
      using p True parsed_nonempty [OF p(1)] mapsEqual_refl [OF parsed_distinct [OF p(1)]]
      by (cases eth; cases link)
        (auto simp: endpointReasons_def target featureReasons_def linkReasons_def requiredReasons_Nil endpointOff_def assms(2))
  next
    case False
    then show ?thesis
      unfolding s_def [symmetric] using err
      by (cases eth; cases link) (auto simp: endpointReasons_def endpointOff_def assms(2) split: sum.splits)
  qed
qed

text \<open>
  C27. The evidence that is read back is accepted exactly when, at both ends, both commands succeeded,
  the features parsed from \<open>ethtool -k\<close> show each required feature present and off, and the link readback
  names the device with the configured MTU.
\<close>

theorem offload_readback_exact:
  assumes "scanJSON lib [] = None" and "\<And>e. hashOffloads lib e \<noteq> []"
  shows "ValidateOffloadEvidence lib spec (Some (ReadOffloadEvidence lib run spec)) = [] \<longleftrightarrow>
    endpointOff lib (LinkMTUBytes spec) (ServerVeth spec) (run (ServerNS spec) (ServerVeth spec)) \<and>
    endpointOff lib (LinkMTUBytes spec) (ClientVeth spec) (run (ClientNS spec) (ClientVeth spec))"
proof -
  obtain e1 l1 e2 l2 where r: "run (ServerNS spec) (ServerVeth spec) = (e1, l1)" "run (ClientNS spec) (ClientVeth spec) = (e2, l2)"
    by (cases "run (ServerNS spec) (ServerVeth spec)"; cases "run (ClientNS spec) (ClientVeth spec)") auto
  show ?thesis
    using assms(2) endpoint_exact [OF assms(1) r(1)] endpoint_exact [OF assms(1) r(2)]
    by (simp add: ValidateOffloadEvidence_def ReadOffloadEvidence_def HashOffloadEvidence_def Let_def r)
qed

section \<open>The link gate\<close>

lemma checked_number:
  assumes "\<forall>c \<in> set s. numberChar c" and "parseFloat s = (x, True)"
  shows "f_finite x"
proof -
  have n: "lowerChar c \<notin> {CHR ''n'', CHR ''i''} \<and> c \<noteq> CHR ''-'' \<and> c \<noteq> CHR ''+''" if "numberChar c" for c
  proof -
    have "isDigit c \<Longrightarrow> (48 :: nat) \<le> of_char c \<and> of_char c \<le> (57 :: nat)"
      by (auto simp: isDigit_def digitValue_def Let_def split: if_splits)
    then show ?thesis using that by (auto simp: numberChar_def lowerChar_def Let_def)
  qed
  have "specialFloat s = None"
  proof (cases s)
    case (Cons c cs)
    then have "lowerChar c \<noteq> CHR ''n''" "lowerChar c \<noteq> CHR ''i''" using assms(1) n [of c] by auto
    then show ?thesis by (simp add: specialFloat_def Let_def Cons)
  qed (simp add: specialFloat_def)
  moreover have "hd s \<noteq> CHR ''-'' \<and> hd s \<noteq> CHR ''+''" if "s \<noteq> []" using assms(1) n that by (cases s) auto
  ultimately show ?thesis
    using assms(2) by (auto simp: parseFloat_def Let_def split: option.splits if_splits)
qed

lemma pingRTTAt_number: "pingRTTAt s = Some avg \<Longrightarrow> \<forall>c \<in> set avg. numberChar c"
  by (auto simp: pingRTTAt_def Let_def dest: set_takeWhileD split: if_splits)

lemma findPingRTT_number: "findPingRTT s = Some avg \<Longrightarrow> \<forall>c \<in> set avg. numberChar c"
  by (induction s) (auto dest: pingRTTAt_number split: option.splits)

lemma ping_finite:
  assumes "ParsePingAvgMS out = Inr x"
  shows "f_finite x"
proof -
  obtain avg where avg: "findPingRTT out = Some avg" using assms by (auto simp: ParsePingAvgMS_def split: option.splits)
  then have "parseFloat avg = (x, True)"
    using assms by (cases "parseFloat avg") (auto simp: ParsePingAvgMS_def split: if_splits)
  then show ?thesis using checked_number findPingRTT_number [OF avg] by blast
qed

lemma sample_finite: "ParseIperfLossSample lib out = Inr s \<Longrightarrow> f_finite (ipLossPercent s)"
  by (auto simp: ParseIperfLossSample_def parseIperfLossDocument_def lostPercent_def rbind_eq_Inr_iff
    split: option.splits if_splits)

lemma tryClient_finite: "tryClient lib tries n left errs = Inr s \<Longrightarrow> f_finite (ipLossPercent s)"
proof (induction left arbitrary: n errs)
  case (Suc left)
  show ?case
  proof (cases "runIperfOnce lib (tries n)")
    case (Inr q)
    then show ?thesis
      using Suc.prems by (auto simp: runIperfOnce_def intro: sample_finite split: option.splits)
  qed (use Suc in auto)
qed simp

lemma runClient_finite: "runClient lib tries reversed = Inr s \<Longrightarrow> f_finite (ipLossPercent s)"
  by (auto simp: runClient_def intro: tryClient_finite split: sum.splits)

lemma f_eq_refl: "f_finite x \<Longrightarrow> f_eq x x"
  by (cases x) simp_all

lemma wantRTT_finite: "f_finite (wantRTT spec)"
proof -
  define k where "k = wrap64 (DelayMS (ServerEgress spec) + DelayMS (ClientEgress spec))"
  have "in_i64 k" unfolding k_def by (rule in_i64_wrap64)
  then have "\<bar>k\<bar> \<le> 2 ^ 63" by (auto simp: in_i64_def MaxInt64_def MinInt64_def)
  then have "\<bar>of_int k :: rat\<bar> \<le> 2 ^ 63" by (metis (mono_tags) of_int_abs of_int_le_iff of_int_numeral of_int_power)
  then show ?thesis by (simp add: wantRTT_def f_of_int_def f_of_rat_small flip: k_def)
qed

lemma dedupeGate_Nil: "dedupeGateFailures xs = [] \<longleftrightarrow> xs = []"
proof -
  have "set (foldl (\<lambda>out x. if x \<in> set out then out else out @ [x]) acc xs) = set acc \<union> set xs" for acc
    by (induction xs arbitrary: acc) auto
  then have "set (dedupeGateFailures xs) = set xs" by (simp add: dedupeGateFailures_def)
  then show ?thesis by (metis set_empty)
qed

text \<open>
  C28. When the tools of the gate ran, judging its stored report again finds nothing exactly when the
  gate itself noted no failure.
\<close>

theorem rejudged_gate_agrees:
  assumes "RunNetemGate lib spec ping iperf = (report, None)"
    and "f_finite (LossPercent (ServerEgress spec))" and "f_finite (LossPercent (ClientEgress spec))"
  shows "ValidateNetemGateReport spec (Some report) = [] \<longleftrightarrow> grFailures report = []"
proof -
  let ?c = "ClientEgress spec" and ?s = "ServerEgress spec"
  obtain avg where avg: "snd ping = None" "ParsePingAvgMS (fst ping) = Inr avg"
    using assms(1) by (auto simp: RunNetemGate_def Let_def split: option.splits sum.splits)
  obtain up where up: "runClient lib (iperf False) False = Inr up"
    using assms(1) avg by (auto simp: RunNetemGate_def Let_def split: sum.splits)
  obtain down where down: "runClient lib (iperf True) True = Inr down"
    using assms(1) avg up by (auto simp: RunNetemGate_def Let_def split: sum.splits)
  define checks where "checks = errorTexts (checkRTT avg (wantRTT spec)) @
    (if LossSeed ?c = 0 then errorTexts (checkLoss (ipLossPercent up) (LossPercent ?c) (LossBurstLen ?c) (ipPackets up) ''c2s'') else []) @
    (if LossSeed ?s = 0 then errorTexts (checkLoss (ipLossPercent down) (LossPercent ?s) (LossBurstLen ?s) (ipPackets down) ''s2c'') else [])"
  have r: "report = \<lparr>grPingAvgMS = avg, grExpectedRTTMS = wantRTT spec, grLossC2SPct = ipLossPercent up,
      grLossC2SPackets = ipPackets up, grLossS2CPct = ipLossPercent down, grLossS2CPackets = ipPackets down,
      grExpectedC2SPct = LossPercent ?c, grExpectedS2CPct = LossPercent ?s, grFailures = checks\<rparr>"
    using assms(1) avg up down by (auto simp: RunNetemGate_def Let_def checks_def)
  have "ValidateNetemGateReport spec (Some report) = dedupeGateFailures (checks @ map storedFailure checks)"
    using ping_finite [OF avg(2)] runClient_finite [OF up] runClient_finite [OF down] wantRTT_finite [of spec] assms(2,3)
    by (simp add: r ValidateNetemGateReport_def lossFailures_def f_eq_refl checks_def)
  then show ?thesis by (simp add: dedupeGate_Nil r)
qed

section \<open>A sample link\<close>

definition linkJSON :: json where
  "linkJSON = JArr [JObj [(''ifname'', JStr ''veth''), (''mtu'', JNum ''1500'')]]"

definition iperfJSON :: json where
  "iperfJSON = JObj [(''end'', JObj [(''sum'', JObj [(''lost_percent'', JNum ''0''), (''packets'', JNum ''2000'')])])]"

definition linkLibrary :: library where
  "linkLibrary = \<lparr>scanJSON = (\<lambda>s. if s = ''link'' then Some linkJSON else if s = ''iperf'' then Some iperfJSON else None),
     jsonErrorText = (\<lambda>_. ''bad''), hashOffloads = (\<lambda>_. ''ab''), executablePath = None, hashWords = (\<lambda>_. ''cd''),
     randomDraws = (\<lambda>_ _. FFin 0)\<rparr>"

definition linkSpec :: PairSpec where
  "linkSpec = \<lparr>ServerNS = ''s'', ClientNS = ''c'', ServerVeth = ''veth'', ClientVeth = ''veth'', ServerAddrCIDR = ''10.0.0.1/24'',
     ClientAddrCIDR = ''10.0.0.2/24'', LinkMTUBytes = 1500, ServerEgress = zeroNetem, ClientEgress = zeroNetem,
     DisableOffloads = True, SelfExe = []\<rparr>"

definition ethtoolText :: string where
  "ethtoolText = concat (map (\<lambda>name. name @ '': off'' @ [newline]) RequiredOffloadFeatures)"

definition linkCommands_off :: "string \<Rightarrow> string \<Rightarrow> (string \<times> string option) \<times> (string \<times> string option)" where
  "linkCommands_off ns dev = ((ethtoolText, None), (''link'', None))"

lemma sample_features:
  "ParseOffloadFeatures ethtoolText = Inr (map (\<lambda>name. (name, \<lparr>ofEnabled = False, ofFixed = False\<rparr>)) RequiredOffloadFeatures)"
  by code_simp

lemma sample_link: "ParseLinkMTU linkLibrary ''link'' = Inr (''veth'', 1500)"
  by code_simp

lemma sample_endpoint: "endpointOff linkLibrary 1500 ''veth'' (linkCommands_off ns dev)"
  by (simp add: endpointOff_def linkCommands_off_def sample_features sample_link RequiredOffloadFeatures_def)

lemma offload_readback_exact_witness:
  "ValidateOffloadEvidence linkLibrary linkSpec (Some (ReadOffloadEvidence linkLibrary linkCommands_off linkSpec)) = []"
proof -
  have "scanJSON linkLibrary [] = None" "\<And>e. hashOffloads linkLibrary e \<noteq> []" by (simp_all add: linkLibrary_def)
  from offload_readback_exact [OF this, of linkSpec linkCommands_off] show ?thesis
    using sample_endpoint by (simp add: linkSpec_def)
qed

definition pingText :: string where
  "pingText = ''rtt min/avg/max/mdev = 0.1/0.2/0.3/0.1 ms''"

definition goodTry :: iperfTry where
  "goodTry = \<lparr>itStart = None, itClient = (''iperf'', None), itServer = None, itServerOut = []\<rparr>"

lemma sample_ping: "ParsePingAvgMS pingText = Inr (f_of_rat (1 / 5))"
  by code_simp

lemma sample_scalars:
  "parseUint ''2000'' = Some (2000 :: u64)" "decimalValue ''0'' = Some 0" "specialFloat ''0'' = None"
  by (simp add: parseUint_def parseDigits_def digitValue_def isDigit_def, code_simp, code_simp)

lemma sample_zero: "parseFloat ''0'' = (FFin 0, True)"
  by (simp add: parseFloat_def sample_scalars Let_def f_of_rat_small)

lemma sample_document: "decIperf iperfJSON = Some \<lparr>ipLost = Some (FFin 0), ipCount = Some 2000, ipError = []\<rparr>"
  by (simp add: decIperf_def iperfJSON_def decodeStruct_def decPointer_def decFloat_def decU64_def sample_scalars sample_zero lookupField_def)

lemma sample_iperf: "runClient linkLibrary (\<lambda>_. goodTry) b = Inr \<lparr>ipLossPercent = FFin 0, ipPackets = 2000\<rparr>"
proof -
  have "scanJSON linkLibrary ''iperf'' = Some iperfJSON" by (simp add: linkLibrary_def)
  then have "runIperfOnce linkLibrary goodTry = Inr \<lparr>ipLossPercent = FFin 0, ipPackets = 2000\<rparr>"
    by (simp add: runIperfOnce_def goodTry_def ParseIperfLossSample_def parseIperfLossDocument_def sample_document lostPercent_def)
  then have "tryClient linkLibrary (\<lambda>_. goodTry) 0 (Suc n) [] = Inr \<lparr>ipLossPercent = FFin 0, ipPackets = 2000\<rparr>" for n by simp
  from this [of 4] show ?thesis by (simp add: runClient_def numeral_eq_Suc)
qed

lemma sample_want: "wantRTT linkSpec = FFin 0"
  by (simp add: wantRTT_def linkSpec_def zeroNetem_def f_of_int_def f_of_rat_small wrap64_def)

lemma sample_rtt_band:
  "\<not> f_lt (rttTolerance (FFin 0)) (f_sub (f_of_rat (1 / 5)) (FFin 0))"
  "\<not> f_lt (f_sub (f_of_rat (1 / 5)) (FFin 0)) (f_neg (rttTolerance (FFin 0)))"
proof -
  define r where "r = rnd64 (1 / 5)"
  have r: "0 \<le> r" "r \<le> 1" by (simp_all add: r_def rnd64_nonneg rnd64_le_1)
  have tol: "rttTolerance (FFin 0) = FFin 2"
    by (simp add: rttTolerance_def f_of_rat_small rnd64_of_numeral)
  have diff: "f_sub (f_of_rat (1 / 5)) (FFin 0) = FFin (rnd64 r)"
    using r by (simp add: f_sub_def f_of_rat_small flip: r_def)
  have "0 \<le> rnd64 r" "rnd64 r \<le> 1" using r by (simp_all add: rnd64_nonneg rnd64_le_1)
  then show "\<not> f_lt (rttTolerance (FFin 0)) (f_sub (f_of_rat (1 / 5)) (FFin 0))"
    "\<not> f_lt (f_sub (f_of_rat (1 / 5)) (FFin 0)) (f_neg (rttTolerance (FFin 0)))"
    by (simp_all add: tol diff)
qed

lemma sample_rtt: "checkRTT (f_of_rat (1 / 5)) (FFin 0) = Inr ()"
  using sample_rtt_band by (simp add: checkRTT_def Let_def)

lemma sample_loss_band: "\<not> f_lt (f_of_rat (3 / 10)) (FFin 0)" "LossPercent zeroNetem = FFin 0" "f_eq (FFin 0) (FFin 0)"
  "LossSeed zeroNetem = 0"
  by (simp_all add: f_of_rat_small rnd64_nonneg zeroNetem_def not_less)

lemma link_loss: "checkLoss (FFin 0) (FFin 0) b 2000 direction = Inr ()"
  using sample_loss_band by (simp add: checkLoss_def Let_def)

definition sampleReport :: NetemGateReport where
  "sampleReport = \<lparr>grPingAvgMS = f_of_rat (1 / 5), grExpectedRTTMS = FFin 0, grLossC2SPct = FFin 0, grLossC2SPackets = 2000,
     grLossS2CPct = FFin 0, grLossS2CPackets = 2000, grExpectedC2SPct = FFin 0, grExpectedS2CPct = FFin 0, grFailures = []\<rparr>"

lemma link_gate: "RunNetemGate linkLibrary linkSpec (pingText, None) (\<lambda>_ _. goodTry) = (sampleReport, None)"
proof -
  have "ClientEgress linkSpec = zeroNetem" "ServerEgress linkSpec = zeroNetem" by (simp_all add: linkSpec_def)
  then show ?thesis
    by (simp add: RunNetemGate_def Let_def sample_ping sample_iperf sample_want sample_rtt link_loss sample_loss_band
      errorTexts_def sampleReport_def)
qed

lemma rejudged_gate_agrees_witness: "ValidateNetemGateReport linkSpec (Some sampleReport) = []"
  using rejudged_gate_agrees [OF link_gate] sample_loss_band by (simp add: linkSpec_def sampleReport_def)

end
