(* ===== verification/GoPath.thy ===== *)
theory GoPath
  imports GoText
begin

text \<open>
  \<open>path/filepath\<close> on Unix: the lexical operations the orchestrator uses. \<open>Clean\<close> drops empty and
  \<open>.\<close> elements and lets \<open>..\<close> remove the element before it.
\<close>

definition isAbsPath :: "string \<Rightarrow> bool" where
  "isAbsPath p \<longleftrightarrow> hasPrefix p ''/''"

text \<open>The elements so far, the last one first.\<close>

fun cleanElements :: "bool \<Rightarrow> string list \<Rightarrow> string list \<Rightarrow> string list" where
  "cleanElements rooted done [] = rev done"
| "cleanElements rooted done (e # es) =
     (if e = [] \<or> e = ''.'' then cleanElements rooted done es
      else if e \<noteq> ''..'' then cleanElements rooted (e # done) es
      else if done \<noteq> [] \<and> hd done \<noteq> ''..'' then cleanElements rooted (tl done) es
      else if rooted then cleanElements rooted done es
      else cleanElements rooted (e # done) es)"

definition cleanPath :: "string \<Rightarrow> string" where
  "cleanPath p =
     (let rooted = isAbsPath p; out = joinText ''/'' (cleanElements rooted [] (splitAt CHR ''/'' p))
      in if rooted then CHR ''/'' # out else if out = [] then ''.'' else out)"

definition joinPath :: "string list \<Rightarrow> string" where
  "joinPath ps =
     (let parts = dropWhile (\<lambda>p. p = []) ps in if parts = [] then [] else cleanPath (joinText ''/'' parts))"

definition basePart :: "string \<Rightarrow> string" where
  "basePart p =
     (if p = [] then ''.''
      else
        let stripped = rev (dropWhile (\<lambda>c. c = CHR ''/'') (rev p))
        in if stripped = [] then ''/'' else rev (takeWhile (\<lambda>c. c \<noteq> CHR ''/'') (rev stripped)))"

definition dirPart :: "string \<Rightarrow> string" where
  "dirPart p = cleanPath (rev (dropWhile (\<lambda>c. c \<noteq> CHR ''/'') (rev p)))"

lemma cleanPath_examples:
  "cleanPath ''a//b/../c/.'' = ''a/c''" "cleanPath ''/../a'' = ''/a''" "cleanPath ''..'' = ''..''" "cleanPath [] = ''.''"
  "joinPath [''out'', ''metrics'', ''server.json''] = ''out/metrics/server.json''" "dirPart ''/usr/bin/enet'' = ''/usr/bin''"
  by code_simp+

end
