(* ===== verification/Orchestration.thy ===== *)
theory Orchestration
  imports Runner GoPath
begin

text \<open>
  A whole run (\<open>Run\<close> in \<open>orchestrator/run/runner.go\<close>): the treatment contract, the emulated link, the
  start of the processes, their supervision, the evidence collected beside them, the metrics and the
  finished result. What the machine answers - the commands, the clock, the files, the events the loop
  selects - is the argument \<open>runAnswers\<close>; the texts of the errors of the metrics and of the ramp are the
  argument \<open>runTexts\<close>. The directories, the lock of the machine and the
  stored result are the subject of \<open>RunStore\<close>, the log files that of \<open>ProcessStart\<close>.
\<close>

section \<open>Answers\<close>

record linkAnswers =
  laExec :: "Command \<Rightarrow> string option"
  laCleanup :: "Command \<Rightarrow> string option"
  laOffloads :: "string \<Rightarrow> string \<Rightarrow> (string \<times> string option) \<times> (string \<times> string option)"
  laPing :: "string \<times> string option"
  laIperf :: "bool \<Rightarrow> nat \<Rightarrow> iperfTry"
  laReset :: "string option"
  laUDP :: "string \<Rightarrow> string \<times> string option"

datatype readyAnswer = ServerReady | ReadyCanceled | ReadyExit waitEvent | ReadyTimedOut

record launchAnswers =
  lnSudo :: "(string \<times> string) option"
  lnServer :: "string + int"
  lnReady :: readyAnswer
  lnClients :: "int \<Rightarrow> string + int"
  lnAbortWaits :: "waitEvent list"
  lnAbortControl :: "Result option \<times> (bool \<times> string) option"

record endAnswers =
  enInputs :: "superviseInput list"
  enLate :: "Result option \<times> (bool \<times> string) option"
  enWaits :: "waitEvent list"
  enKilled :: "waitEvent list"
  enAlive :: bool
  enWatcher :: "string option"
  enSampler :: "(int \<Rightarrow> procRead) list"
  enUDP :: "string \<Rightarrow> string \<times> string option"
  enFiles :: snapshotFiles

record runAnswers =
  raServerDescribe :: describeRun
  raClientDescribe :: describeRun
  raLink :: linkAnswers
  raControl :: "string option"
  raLaunch :: launchAnswers
  raCapture :: captureEnv
  raWindow :: "ScheduleMessage option"
  raSteps :: "stepAnswers list"
  raEnd :: endAnswers
  raOffloadsAfter :: "string \<Rightarrow> string \<Rightarrow> (string \<times> string option) \<times> (string \<times> string option)"

datatype files_error = Unreadable string | MergeFailed metrics_error | ContractFailed contract_error

record runTexts =
  txFiles :: "files_error \<Rightarrow> string"
  txRamp :: "ramp_error \<Rightarrow> string"
  txDuration :: "int \<Rightarrow> string"

text \<open>A phase finishes the run with what the gate is given, only stores the result, or goes on.\<close>

datatype 'a phase = Finish RunResult GateInput | Persisted RunResult | Go 'a

fun thenPhase :: "'a phase \<Rightarrow> ('a \<Rightarrow> halt + 'b phase) \<Rightarrow> halt + 'b phase" where
  "thenPhase (Finish r input) f = Inr (Finish r input)"
| "thenPhase (Persisted r) f = Inr (Persisted r)"
| "thenPhase (Go a) f = f a"

definition noDrops :: UDPStats where
  "noDrops = \<lparr>InErrors = 0, RcvbufErrors = 0\<rparr>"

definition reasonsOnly :: "string list \<Rightarrow> bool \<Rightarrow> GateInput" where
  "reasonsOnly extra netemEnabled = \<lparr>giControl = None, giMetrics = None, giProcesses = [], giAttemptedThreshold = FFin 0,
     giNetemEnabled = netemEnabled, giUDPDropDelta = noDrops, giServerUDPDropDelta = noDrops, giOffloads = None,
     giOffloadsAfter = None, giLossEvidence = None, giExtraReasons = extra, giSUTFailureReasons = [], giConfig = None\<rparr>"

section \<open>The treatment\<close>

definition startResult :: "RunConfig \<Rightarrow> RunResult" where
  "startResult cfg = \<lparr>ruTransport = cTransport cfg, ruOutcome = OutcomeInvalid, ruOutcomeReasons = [], ruVerdict = VerdictInvalid,
     ruInvalidReasons = [], ruConfig = cfg, ruControl = None, ruProcesses = [], ruMetrics = None, ruEvaluation = None,
     ruRamp = None, ruTreatment = None, ruSamples = [], ruCost = None, ruNetem = None\<rparr>"

definition checkTreatment :: "describer \<Rightarrow> RunConfig \<Rightarrow> describeRun \<Rightarrow> describeRun \<Rightarrow> RunResult phase" where
  "checkTreatment lib cfg serverRun clientRun =
     (let t = collectTreatment lib cfg serverRun clientRun; r = (startResult cfg)\<lparr>ruTreatment := Some t\<rparr>
      in case ValidateScenarioTreatmentContract lib (Some t) cfg of (refused, unsupported) \<Rightarrow>
        if refused \<noteq> [] then Finish r (reasonsOnly (map (\<lambda>e. ''treatment contract: '' @ e) refused) False)
        else if unsupported \<noteq> []
        then Persisted (r\<lparr>ruOutcome := OutcomeUnsupported, ruOutcomeReasons := unsupported\<rparr>)
        else Go r)"

section \<open>The link\<close>

definition readNetnsUDPStats :: "string \<times> string option \<Rightarrow> UDPStats \<times> string option" where
  "readNetnsUDPStats answer = (case snd answer of Some e \<Rightarrow> (noDrops, Some e)
     | None \<Rightarrow> (case ParseUDPStats (fst answer) of Inl e \<Rightarrow> (noDrops, Some (parseText e)) | Inr s \<Rightarrow> (s, None)))"

definition failureReason :: "string \<Rightarrow> string option \<Rightarrow> string list" where
  "failureReason what failure = (case failure of None \<Rightarrow> [] | Some e \<Rightarrow> [what @ '': '' @ e])"

definition commandFailure :: "(Command \<Rightarrow> string option) \<Rightarrow> Command \<Rightarrow> string option" where
  "commandFailure exec c = map_option (\<lambda>e. commandString c @ '': '' @ e) (exec c)"

definition cleanupReasons :: "(Command \<Rightarrow> string option) \<Rightarrow> Command list \<Rightarrow> string list" where
  "cleanupReasons exec cmds = (case snd (RunCommandsBestEffort (commandFailure exec) cmds) of [] \<Rightarrow> []
     | es \<Rightarrow> [''partial netns cleanup failed: '' @ joinText [newline] es])"

definition updateNetem :: "(NetemResult \<Rightarrow> NetemResult) \<Rightarrow> RunResult \<Rightarrow> RunResult" where
  "updateNetem f r = r\<lparr>ruNetem := map_option f (ruNetem r)\<rparr>"

text \<open>The counters before the run; a failed read is noted and the run goes on.\<close>

definition readBefore :: "linkAnswers \<Rightarrow> PairSpec \<Rightarrow> RunResult \<Rightarrow> (RunResult \<times> string list) phase" where
  "readBefore a pair r =
     (case (readNetnsUDPStats (laUDP a (ClientNS pair)), readNetnsUDPStats (laUDP a (ServerNS pair))) of
        ((before, failure), (serverBefore, serverFailure)) \<Rightarrow>
          Go (updateNetem (\<lambda>n. n\<lparr>nmUDPBefore := before, nmServerUDPBefore := serverBefore\<rparr>) r,
            failureReason ''read client netns UDP counters before run'' failure @
            failureReason ''read server netns UDP counters before run'' serverFailure))"

definition resetLink :: "linkAnswers \<Rightarrow> PairSpec \<Rightarrow> RunResult \<Rightarrow> (RunResult \<times> string list) phase" where
  "resetLink a pair r = (case (if LossTraceEnabled pair then laReset a else None) of
       Some e \<Rightarrow> Finish r (reasonsOnly [''loss trace reset failed: '' @ e] True)
     | None \<Rightarrow> readBefore a pair r)"

definition gateLink :: "library \<Rightarrow> RunConfig \<Rightarrow> linkAnswers \<Rightarrow> PairSpec \<Rightarrow> RunResult \<Rightarrow> (RunResult \<times> string list) phase" where
  "gateLink lib cfg a pair r =
     (if cNetemGateOff cfg then resetLink a pair r
      else case RunNetemGate lib pair (laPing a) (laIperf a) of (report, failure) \<Rightarrow>
        let r = updateNetem (\<lambda>n. n\<lparr>nmGate := Some report\<rparr>) r
        in case failure of
            Some e \<Rightarrow> Finish r (reasonsOnly [''netem gate tooling failed: '' @ e] True)
          | None \<Rightarrow> if grFailures report \<noteq> []
              then Finish r (reasonsOnly (map (\<lambda>f. ''netem gate: '' @ f) (grFailures report)) True)
              else resetLink a pair r)"

definition readbackLink :: "library \<Rightarrow> RunConfig \<Rightarrow> linkAnswers \<Rightarrow> PairSpec \<Rightarrow> RunResult \<Rightarrow> (RunResult \<times> string list) phase" where
  "readbackLink lib cfg a pair r =
     (if \<not> DisableOffloads pair then gateLink lib cfg a pair r
      else
        let offloads = ReadOffloadEvidence lib (laOffloads a) pair;
            r = updateNetem (\<lambda>n. n\<lparr>nmOffloads := Some offloads\<rparr>) r
        in if ValidateOffloadEvidence lib pair (Some offloads) \<noteq> [] then Finish r (reasonsOnly [] True)
           else gateLink lib cfg a pair r)"

definition newNetem :: "PairSpec \<Rightarrow> Command list \<Rightarrow> Command list \<Rightarrow> NetemResult" where
  "newNetem pair up down = \<lparr>nmEnabled = True, nmPair = pair, nmSetupCommands = up, nmTeardownCommands = down,
     nmUDPBefore = noDrops, nmUDPAfter = noDrops, nmUDPDelta = noDrops, nmServerUDPBefore = noDrops,
     nmServerUDPAfter = noDrops, nmServerUDPDelta = noDrops, nmGate = None, nmOffloads = None, nmOffloadsAfter = None,
     nmLossEvidence = None, nmSchedule = []\<rparr>"

definition prepareLink :: "library \<Rightarrow> RunConfig \<Rightarrow> linkAnswers \<Rightarrow> RunResult \<Rightarrow> (RunResult \<times> string list) phase" where
  "prepareLink lib cfg a r = (case cNetem cfg of None \<Rightarrow> Go (r, [])
     | Some n \<Rightarrow>
        let pair = pairSpec (executablePath lib) n
        in case BuildSetupCommands pair of
            Inl e \<Rightarrow> Finish r (reasonsOnly [''build netns setup commands: '' @ netemText e] False)
          | Inr up \<Rightarrow> (case BuildTeardownCommands pair of
              Inl e \<Rightarrow> Finish r (reasonsOnly [''build netns teardown commands: '' @ netemText e] False)
            | Inr down \<Rightarrow>
               let r = r\<lparr>ruNetem := Some (newNetem pair up down)\<rparr>
               in case RunCommands (commandFailure (laExec a)) up of
                   (tried, Some e) \<Rightarrow> Finish r (reasonsOnly ([''netns setup failed: '' @ e] @
                      cleanupReasons (laCleanup a) (partialNetemTeardown down (int (length tried) - 1))) True)
                 | (_, None) \<Rightarrow> readbackLink lib cfg a pair r))"

section \<open>Starting the processes\<close>

record startup =
  suProcesses :: "ProcessResult list"
  suExtra :: "string list"
  suSUT :: "string list"
  suWaits :: int
  suOK :: bool

definition newProcess :: "string \<Rightarrow> int \<Rightarrow> int \<Rightarrow> int \<Rightarrow> int \<Rightarrow> string \<Rightarrow> ProcessResult" where
  "newProcess role index conns originStart originEnd metricsOut = \<lparr>prRole = role, prProcIndex = index, prPID = 0,
     prConns = conns, prOriginIDStart = originStart, prOriginIDEnd = originEnd, prCommand = [], prMetricsOut = metricsOut,
     prExited = False, prExitCode = - 1, prError = []\<rparr>"

definition metricsDir :: "RunConfig \<Rightarrow> string" where
  "metricsDir cfg = joinPath [cOutputDir cfg, ''metrics'']"

definition serverMetricsFile :: string where "serverMetricsFile = ''server.json''"

definition clientMetricsFile :: "int \<Rightarrow> string" where
  "clientMetricsFile i = ''client-'' @ itoa i @ ''.json''"

definition launchedCommand :: "(string \<times> string) option \<Rightarrow> CommandConfig \<Rightarrow> string \<Rightarrow> string \<Rightarrow> string list" where
  "launchedCommand sudo cmd netns cpus = (case namespaceCommand sudo cmd netns cpus of (path, args) \<Rightarrow> path # args)"

text \<open>One process: started with an identifier, or noted with the error of the start.\<close>

definition startOne :: "string \<Rightarrow> ProcessResult \<Rightarrow> string list \<Rightarrow> string + int \<Rightarrow> startup \<Rightarrow> startup" where
  "startOne what p launched answer su = (case answer of
       Inl e \<Rightarrow> su\<lparr>suOK := False, suExtra := suExtra su @ [''start '' @ what @ '': '' @ e]\<rparr>
     | Inr pid \<Rightarrow> su\<lparr>suProcesses := suProcesses su @ [p\<lparr>prPID := pid, prCommand := launched\<rparr>]\<rparr>)"

definition namespaces :: "library \<Rightarrow> RunConfig \<Rightarrow> string \<times> string" where
  "namespaces lib cfg = (case cNetem cfg of None \<Rightarrow> ([], [])
     | Some n \<Rightarrow> let pair = pairSpec (executablePath lib) n in (ServerNS pair, ClientNS pair))"

definition startServer :: "library \<Rightarrow> RunConfig \<Rightarrow> launchAnswers \<Rightarrow> startup \<Rightarrow> startup" where
  "startServer lib cfg a = startOne ''server''
     (newProcess ''server'' (- 1) 0 0 0 (joinPath [metricsDir cfg, serverMetricsFile]))
     (launchedCommand (lnSudo a) (serverCommand cfg) (fst (namespaces lib cfg)) (cServerCPUs cfg)) (lnServer a)"

definition failStart :: "string \<Rightarrow> startup \<Rightarrow> startup" where
  "failStart reason su = su\<lparr>suOK := False, suExtra := suExtra su @ [reason]\<rparr>"

definition awaitReady :: "readyAnswer \<Rightarrow> startup \<Rightarrow> startup" where
  "awaitReady answer su =
     (if \<not> suOK su then su
      else case answer of ServerReady \<Rightarrow> su
        | ReadyCanceled \<Rightarrow> failStart ''canceled while waiting for server ready'' su
        | ReadyTimedOut \<Rightarrow> failStart ''server did not become ready before control timeout'' su
        | ReadyExit ev \<Rightarrow>
            let processes = applyWaitEvent ev (suProcesses su);
                reason = ''server exited before becoming ready: '' @ describeWait (processes ! nat (weIndex ev)) ev
            in failStart reason (su\<lparr>suProcesses := processes, suWaits := suWaits su + 1, suSUT := suSUT su @ [reason]\<rparr>))"

definition startClient :: "library \<Rightarrow> RunConfig \<Rightarrow> launchAnswers \<Rightarrow> clientLaunch \<Rightarrow> startup \<Rightarrow> startup" where
  "startClient lib cfg a c = startOne (''client proc_index='' @ itoa (clProcIndex c))
     (newProcess ''client'' (clProcIndex c) (clConns c) (clOriginIDStart c) (clOriginIDEnd c)
       (joinPath [metricsDir cfg, clientMetricsFile (clProcIndex c)]))
     (launchedCommand (lnSudo a) (clCommand c) (snd (namespaces lib cfg)) (cClientCPUs cfg)) (lnClients a (clProcIndex c))"

text \<open>The clients, up to the first that does not start.\<close>

fun startClients :: "(clientLaunch \<Rightarrow> startup \<Rightarrow> startup) \<Rightarrow> clientLaunch list \<Rightarrow> startup \<Rightarrow> startup" where
  "startClients start [] su = su"
| "startClients start (c # cs) su = (if \<not> suOK su then su else startClients start cs (start c su))"

definition launchAll :: "library \<Rightarrow> RunConfig \<Rightarrow> launchAnswers \<Rightarrow> string list \<Rightarrow> startup" where
  "launchAll lib cfg a extra =
     startClients (startClient lib cfg a) (clientLaunches cfg)
       (awaitReady (lnReady a) (startServer lib cfg a
         \<lparr>suProcesses = [], suExtra = extra, suSUT = [], suWaits = 0, suOK = True\<rparr>))"

section \<open>Evidence beside the run\<close>

definition runPair :: "library \<Rightarrow> RunConfig \<Rightarrow> PairSpec" where
  "runPair lib cfg = (case cNetem cfg of None \<Rightarrow> DefaultPair [] | Some n \<Rightarrow> pairSpec (executablePath lib) n)"

definition lossEvidence :: "library \<Rightarrow> RunConfig \<Rightarrow> captureEnv \<Rightarrow> halt + NetemLossEvidence option" where
  "lossEvidence lib cfg env =
     (if \<not> configuredLoss (cNetem cfg) then Inr None
      else rbind (if deterministicLoss (cNetem cfg)
          then collectDeterministicLossEvidence env (randomDraws lib) (hashWords lib) (runPair lib cfg) (cNetem cfg)
          else collectRandomNetemLossEvidence env (runPair lib cfg)) (\<lambda>e. Inr (Some e)))"

definition appliedSchedule :: "library \<Rightarrow> RunConfig \<Rightarrow> runAnswers \<Rightarrow> AppliedNetemStep list" where
  "appliedSchedule lib cfg a =
     (if cNetemSchedule cfg = [] then [] else runNetemSchedule (raWindow a) (runPair lib cfg) (zip (cNetemSchedule cfg) (raSteps a)))"

definition withEvidence :: "NetemLossEvidence option \<Rightarrow> AppliedNetemStep list \<Rightarrow> RunResult \<Rightarrow> RunResult" where
  "withEvidence e steps = updateNetem (\<lambda>n. n\<lparr>nmLossEvidence := e, nmSchedule := steps\<rparr>)"

definition scheduleReasons :: "RunConfig \<Rightarrow> AppliedNetemStep list \<Rightarrow> string list" where
  "scheduleReasons cfg steps =
     (if cNetemSchedule cfg = [] then []
      else reasonIf (length steps \<noteq> length (cNetemSchedule cfg))
          (''netem schedule applied '' @ itoa (int (length steps)) @ '' of '' @ itoa (int (length (cNetemSchedule cfg))) @ '' steps'') @
        concat (map (\<lambda>s. reasonIf (asError s \<noteq> []) (''netem schedule step failed: '' @ asError s)) steps))"

section \<open>A run that does not start\<close>

definition abortRun :: "library \<Rightarrow> RunConfig \<Rightarrow> runAnswers \<Rightarrow> RunResult \<Rightarrow> startup \<Rightarrow> halt + RunResult phase" where
  "abortRun lib cfg a r su =
     (let l = raLaunch a;
          processes = fst (drainWaits (lnAbortWaits l) (int (length (suProcesses su)) - suWaits su) (suProcesses su));
          control = fst (lnAbortControl l);
          extra = suExtra su @ (case snd (lnAbortControl l) of None \<Rightarrow> []
            | Some (canceled, e) \<Rightarrow> reasonIf (\<not> canceled) (''control barrier failed: '' @ e))
      in rbind (lossEvidence lib cfg (raCapture a)) (\<lambda>e.
         Inr (Finish (withEvidence e (appliedSchedule lib cfg a) (r\<lparr>ruProcesses := processes, ruControl := control\<rparr>))
           ((reasonsOnly extra (cNetem cfg \<noteq> None))\<lparr>giControl := control, giProcesses := processes,
              giAttemptedThreshold := cAttemptedThreshold cfg, giSUTFailureReasons := suSUT su\<rparr>))))"

section \<open>Supervision and measurement\<close>

definition afterWatcher :: "RunConfig \<Rightarrow> string option \<Rightarrow> runProgress \<Rightarrow> runProgress" where
  "afterWatcher cfg failure p = (case (cRamp cfg, failure) of
       (Some _, Some e) \<Rightarrow> noteExtra (''ramp online watcher: '' @ e) p
     | _ \<Rightarrow> p)"

definition startProgress :: "startup \<Rightarrow> runProgress" where
  "startProgress su = \<lparr>pgExtra = suExtra su, pgSUT = suSUT su, pgProcesses = suProcesses su,
     pgRemaining = int (length (suProcesses su)) - suWaits su, pgControl = None\<rparr>"

definition superviseRun :: "runTexts \<Rightarrow> RunConfig \<Rightarrow> endAnswers \<Rightarrow> startup \<Rightarrow> halt + runProgress" where
  "superviseRun txt cfg a su =
     (case endOfRun (txDuration txt (cProcessExitTimeout cfg)) (enAlive a) (enInputs a) (enLate a) (enWaits a) (enKilled a)
        (startProgress su) of
        None \<Rightarrow> Inl Waiting
      | Some p \<Rightarrow> Inr (afterWatcher cfg (enWatcher a) p))"

fun readText :: "read_error \<Rightarrow> string" where
  "readText (NotExist e) = e"
| "readText (NoProcess e) = e"
| "readText (read_error.ReadFailed e) = e"

definition measuredSeries :: "Result option \<Rightarrow> (int \<times> Series) list \<Rightarrow> Series list" where
  "measuredSeries control series = (case control of
       Some c \<Rightarrow> sortedSeries (WindowAll series (StartAtNS (rSchedule c)) (StopAtNS (rSchedule c)))
     | None \<Rightarrow> sortedSeries series)"

text \<open>The counters after the run: the reasons, the result and the two deltas.\<close>

definition readAfter :: "library \<Rightarrow> RunConfig \<Rightarrow> endAnswers \<Rightarrow> RunResult \<Rightarrow> RunResult \<times> string list \<times> UDPStats \<times> UDPStats" where
  "readAfter lib cfg a r = (case (cNetem cfg, ruNetem r) of
       (Some _, Some n) \<Rightarrow>
         let pair = runPair lib cfg
         in (case (readNetnsUDPStats (enUDP a (ClientNS pair)), readNetnsUDPStats (enUDP a (ServerNS pair))) of
              ((after, failure), (serverAfter, serverFailure)) \<Rightarrow>
                let delta = DeltaUDPStats (nmUDPBefore n) after; serverDelta = DeltaUDPStats (nmServerUDPBefore n) serverAfter
                in (r\<lparr>ruNetem := Some (n\<lparr>nmUDPAfter := after, nmUDPDelta := delta, nmServerUDPAfter := serverAfter,
                      nmServerUDPDelta := serverDelta\<rparr>)\<rparr>,
                    failureReason ''read client netns UDP counters after run'' failure @
                    failureReason ''read server netns UDP counters after run'' serverFailure, delta, serverDelta))
     | _ \<Rightarrow> (r, [], noDrops, noDrops))"

section \<open>Metrics\<close>

definition readMetricsArtifact :: "snapshotFiles \<Rightarrow> string \<Rightarrow> files_error + MetricsArtifactData" where
  "readMetricsArtifact fs path = (case readArtifact fs path of None \<Rightarrow> Inl (Unreadable path) | Some a \<Rightarrow> Inr a)"

definition MergeMetricsFiles :: "snapshotFiles \<Rightarrow> string list \<Rightarrow> int \<Rightarrow> files_error + MergedMetrics" where
  "MergeMetricsFiles fs paths totalConns =
     (if paths = [] then Inl (MergeFailed NoMetricsFiles)
      else rbind (mapM (readMetricsArtifact fs) paths) (\<lambda>artifacts.
        wrap_err MergeFailed (MergeMetricsData artifactName (parseMetricsArtifact False) artifacts totalConns)))"

definition ValidateScenarioMetricsFiles :: "snapshotFiles \<Rightarrow> string \<Rightarrow> string list \<Rightarrow> int list \<Rightarrow> int \<Rightarrow> int \<Rightarrow> u64 \<Rightarrow>
    ScenarioSpec \<Rightarrow> MergedMetrics \<Rightarrow> files_error + unit" where
  "ValidateScenarioMetricsFiles fs serverPath clientPaths clientConns totalConns duration stalenessPeriodNS scenario merged =
     rbind (readMetricsArtifact fs serverPath) (\<lambda>server.
     rbind (mapM (readMetricsArtifact fs) clientPaths) (\<lambda>clients.
     wrap_err ContractFailed (ValidateScenarioMetricsData server clients clientConns totalConns duration stalenessPeriodNS
       scenario (Some merged))))"

definition clientMetricPaths :: "RunConfig \<Rightarrow> string list" where
  "clientMetricPaths cfg = map (\<lambda>c. joinPath [metricsDir cfg, clientMetricsFile (clProcIndex c)]) (clientLaunches cfg)"

definition runMetrics :: "snapshotFiles \<Rightarrow> RunConfig \<Rightarrow> files_error + MergedMetrics" where
  "runMetrics fs cfg =
     (let serverMetrics = joinPath [metricsDir cfg, serverMetricsFile]; clients = clientMetricPaths cfg;
          paths = (case cScenario cfg of None \<Rightarrow> clients
            | Some s \<Rightarrow> if scKind s = ScenarioAuthoritativeState then serverMetrics # clients else clients)
      in rbind (MergeMetricsFiles fs paths (cTotalConns cfg)) (\<lambda>m.
         case cScenario cfg of None \<Rightarrow> Inr m
         | Some s \<Rightarrow> rbind (ValidateScenarioMetricsFiles fs serverMetrics clients (splitConns (cTotalConns cfg) (cClientProcs cfg))
             (cTotalConns cfg) (cDuration cfg) (cStalenessPeriodNS cfg) s m) (\<lambda>_. Inr m)))"

text \<open>What the gate is given at the end; the metrics of a ramp are judged level by level instead.\<close>

definition finishMeasurement :: "runTexts \<Rightarrow> RunConfig \<Rightarrow> snapshotFiles \<Rightarrow> RunResult \<Rightarrow> GateInput \<Rightarrow> RunResult phase" where
  "finishMeasurement txt cfg fs r input =
     (if cRamp cfg \<noteq> None
      then
        (case scoreRampSnapshots fs cfg (metricsDir cfg, serverMetricsFile)
            (map (\<lambda>c. (metricsDir cfg, clientMetricsFile (clProcIndex c))) (clientLaunches cfg)) of
           Inl e \<Rightarrow> Finish r (input\<lparr>giExtraReasons := giExtraReasons input @ [''ramp metrics contract: '' @ txRamp txt e]\<rparr>)
         | Inr ramp \<Rightarrow> Finish (r\<lparr>ruRamp := Some ramp\<rparr>) input)
      else
        let input = input\<lparr>giAttemptedThreshold := cAttemptedThreshold cfg\<rparr>
        in (case runMetrics fs cfg of
             Inl e \<Rightarrow> Finish r (input\<lparr>giExtraReasons := giExtraReasons input @ [''metrics contract: '' @ txFiles txt e]\<rparr>)
           | Inr m \<Rightarrow> Finish (r\<lparr>ruMetrics := Some m\<rparr>) (input\<lparr>giMetrics := Some m\<rparr>)))"

definition completeRun :: "library \<Rightarrow> runTexts \<Rightarrow> RunConfig \<Rightarrow> runAnswers \<Rightarrow> RunResult \<Rightarrow> startup \<Rightarrow> halt + RunResult phase" where
  "completeRun lib txt cfg a r su =
     rbind (superviseRun txt cfg (raEnd a) su) (\<lambda>p.
     rbind (lossEvidence lib cfg (raCapture a)) (\<lambda>evidence.
     let steps = appliedSchedule lib cfg a
     in case collectSamples (map prPID (suProcesses su)) (enSampler (raEnd a)) of (series, failure) \<Rightarrow>
        case readAfter lib cfg (raEnd a) (withEvidence evidence steps (r\<lparr>ruProcesses := pgProcesses p, ruControl := pgControl p,
            ruSamples := measuredSeries (pgControl p) series\<rparr>)) of (r, udpNotes, delta, serverDelta) \<Rightarrow>
        let extra = pgExtra p @ failureReason ''sampler failed'' (map_option readText failure) @ scheduleReasons cfg steps @ udpNotes
        in Inr (finishMeasurement txt cfg (enFiles (raEnd a)) r
          ((reasonsOnly extra (cNetem cfg \<noteq> None))\<lparr>giControl := pgControl p, giProcesses := pgProcesses p,
             giUDPDropDelta := delta, giServerUDPDropDelta := serverDelta, giSUTFailureReasons := pgSUT p\<rparr>))))"

section \<open>The whole run\<close>

definition runProcesses :: "library \<Rightarrow> runTexts \<Rightarrow> RunConfig \<Rightarrow> runAnswers \<Rightarrow> RunResult \<times> string list \<Rightarrow> halt + RunResult phase" where
  "runProcesses lib txt cfg a = (\<lambda>(r, extra). case raControl a of
       Some e \<Rightarrow> Inr (Finish r (reasonsOnly (extra @ [''control server setup failed: '' @ e]) (cNetem cfg \<noteq> None)))
     | None \<Rightarrow>
        let su = launchAll lib cfg (raLaunch a) extra
        in if suOK su then completeRun lib txt cfg a r su else abortRun lib cfg a r su)"

definition runPhases :: "describer \<Rightarrow> runTexts \<Rightarrow> RunConfig \<Rightarrow> runAnswers \<Rightarrow> halt + RunResult phase" where
  "runPhases lib txt cfg a =
     thenPhase (checkTreatment lib cfg (raServerDescribe a) (raClientDescribe a)) (\<lambda>r.
     thenPhase (prepareLink (library.truncate lib) cfg (raLink a) r)
       (runProcesses (library.truncate lib) txt cfg a))"

datatype run_failure = Refused "config_error list" | Halted halt

definition runBenchmark :: "describer \<Rightarrow> runTexts \<Rightarrow> RunConfig \<Rightarrow> runAnswers \<Rightarrow> run_failure + RunResult" where
  "runBenchmark lib txt cfg a =
     (let cfg = runDefaults cfg
      in rbind (wrap_err Refused (validateRunConfig cfg)) (\<lambda>_.
         wrap_err Halted (rbind (runPhases lib txt cfg a) (\<lambda>phase. case phase of
             Persisted r \<Rightarrow> Inr r
           | Finish r input \<Rightarrow> finishRunResult (library.truncate lib)
               (ReadOffloadEvidence (library.truncate lib) (raOffloadsAfter a) (runPair (library.truncate lib) cfg)) r input
           | Go r \<Rightarrow> Inr r))))"

end
