(* ===== verification/RunProperties.thy ===== *)
theory RunProperties
  imports Orchestration GateProperties
begin

text \<open>
  Properties of a whole run: what stands behind a result that is VALID and PASS, through every phase
  from the treatment to the gate.
\<close>

section \<open>The finished result\<close>

lemma settle_fields:
  "ruVerdict (settle r g) = grVerdict g" "ruControl (settle r g) = ruControl r" "ruProcesses (settle r g) = ruProcesses r"
  "ruMetrics (settle r g) = ruMetrics r" "ruTreatment (settle r g) = ruTreatment r" "ruConfig (settle r g) = ruConfig r"
  "ruNetem (settle r g) = ruNetem r"
  by (auto simp: settle_def judgeScenario_def addCost_def Let_def split: prod.split option.split)

lemma late_fields:
  "ruControl (withLateOffloads ev r) = ruControl r" "ruProcesses (withLateOffloads ev r) = ruProcesses r"
  "ruTreatment (withLateOffloads ev r) = ruTreatment r"
  "ruNetem (withLateOffloads ev r) = map_option (lateOffloads ev (ruConfig r)) (ruNetem r)"
  by (simp_all add: withLateOffloads_def)

lemma completeInput_fields:
  "giExtraReasons (completeInput r input) = giExtraReasons input" "giControl (completeInput r input) = giControl input"
  "giProcesses (completeInput r input) = giProcesses input" "giMetrics (completeInput r input) = giMetrics input"
  "giConfig (completeInput r input) = Some (ruConfig r)" "giNetemEnabled (completeInput r input) = giNetemEnabled input"
  "giUDPDropDelta (completeInput r input) = giUDPDropDelta input"
  by (auto simp: completeInput_def Let_def split: option.split)

lemma completeInput_netem:
  assumes "ruNetem r = Some n"
  shows "giOffloads (completeInput r input) = nmOffloads n" "giOffloadsAfter (completeInput r input) = nmOffloadsAfter n"
    "giLossEvidence (completeInput r input) = nmLossEvidence n"
  using assms by (simp_all add: completeInput_def Let_def)

text \<open>What a VALID and PASS result says of what the gate was given.\<close>

lemma valid_finish:
  assumes f: "finishRunResult lib ev r input = Inr f" and pass: "ruOutcome f = OutcomePass" and valid: "ruVerdict f = VerdictValid"
    and r: "ruOutcome r = OutcomeInvalid" "ruEvaluation r = None"
  defines "q \<equiv> withLateOffloads ev r"
  obtains g and sut :: "string list" where "giExtraReasons input = []" "controlReasons (giControl input) = []"
    "metricsAccepted (completeInput q input)" "list_all (\<lambda>p. prExited p \<and> prExitCode p = 0) (giProcesses input)"
    "udpReasons (completeInput q input) = []" "offloadsProved lib (completeInput q input) (sut \<noteq> [])"
    "ValidateNetemLossEvidence lib (Some (ruConfig r)) (giControl input) (giLossEvidence (completeInput q input)) = Inr []"
    "cRamp (ruConfig r) = None" "scenarioMet r" "f = settle q g"
proof -
  obtain g where g: "EvaluateGate lib (completeInput q input) = Inr g" "f = settle q g"
    unfolding q_def by (rule finished_settled [OF f])
  have v: "grVerdict g = VerdictValid" using valid by (simp add: g settle_fields)
  have p: "cRamp (ruConfig r) = None" "scenarioMet r"
    using settled_pass [of q g] pass r by (simp_all add: g q_def)
  obtain di lr sut :: "string list" where e:
    "ValidateNetemLossEvidence lib (giConfig (completeInput q input)) (giControl (completeInput q input))
       (giLossEvidence (completeInput q input)) = Inr lr"
    "grVerdict g = VerdictValid \<longleftrightarrow> giExtraReasons (completeInput q input) = [] \<and> controlReasons (giControl (completeInput q input)) = [] \<and>
       di = [] \<and> metricsAccepted (completeInput q input) \<and> concat (map processReasons (giProcesses (completeInput q input))) = [] \<and>
       udpReasons (completeInput q input) = [] \<and> offloadsProved lib (completeInput q input) (sut \<noteq> []) \<and> lr = []"
    by (rule EvaluateGate_Inr [OF g(1)]) (rule that; assumption)
  have "list_all (\<lambda>p. prExited p \<and> prExitCode p = 0) (giProcesses input)"
    using e(2) v by (auto simp: completeInput_fields list_all_iff processReasons_Nil)
  then show thesis
    using that [of sut g] e v p g(2) by (simp add: completeInput_fields q_def)
qed

section \<open>The phases\<close>

lemma reasonsOnly_control: "giControl (reasonsOnly extra b) = None"
  by (simp add: reasonsOnly_def)

lemma updateNetem_fields:
  "ruTreatment (updateNetem h r) = ruTreatment r" "ruConfig (updateNetem h r) = ruConfig r"
  "ruOutcome (updateNetem h r) = ruOutcome r" "ruEvaluation (updateNetem h r) = ruEvaluation r"
  "ruNetem (updateNetem h r) = map_option h (ruNetem r)" "ruControl (updateNetem h r) = ruControl r"
  "ruProcesses (updateNetem h r) = ruProcesses r" "ruMetrics (updateNetem h r) = ruMetrics r"
  by (simp_all add: updateNetem_def)

text \<open>The part of the result that the phases before the processes fix.\<close>

definition begun :: "RunResult \<Rightarrow> RunConfig \<times> TreatmentRecord option \<times> string \<times> ScenarioEvaluation option" where
  "begun r = (ruConfig r, ruTreatment r, ruOutcome r, ruEvaluation r)"

lemma begun_simps [simp]:
  "begun (updateNetem h r) = begun r" "begun (r\<lparr>ruNetem := x\<rparr>) = begun r" "begun (r\<lparr>ruProcesses := ps\<rparr>) = begun r"
  "begun (r\<lparr>ruControl := c\<rparr>) = begun r" "begun (r\<lparr>ruSamples := s\<rparr>) = begun r" "begun (r\<lparr>ruMetrics := m\<rparr>) = begun r"
  "begun (r\<lparr>ruRamp := ramp\<rparr>) = begun r"
  by (simp_all add: begun_def updateNetem_def)

definition gateHeld :: "library \<Rightarrow> RunConfig \<Rightarrow> PairSpec \<Rightarrow> NetemResult \<Rightarrow> bool" where
  "gateHeld lib cfg pair nm \<longleftrightarrow>
     (cNetemGateOff cfg \<or> (\<exists>report. nmGate nm = Some report \<and> grFailures report = [])) \<and>
     (DisableOffloads pair \<longrightarrow> ValidateOffloadEvidence lib pair (nmOffloads nm) = [] \<and> nmOffloads nm \<noteq> None) \<and>
     nmOffloadsAfter nm = None"

text \<open>A phase of the link ends the run without a control result, or it goes on with the link as checked.\<close>

definition linkPhase :: "(NetemResult \<Rightarrow> bool) \<Rightarrow> RunResult \<Rightarrow> (RunResult \<times> string list) phase \<Rightarrow> bool" where
  "linkPhase P r phase \<longleftrightarrow> (case phase of Finish q input \<Rightarrow> giControl input = None
     | Persisted _ \<Rightarrow> False
     | Go (q, _) \<Rightarrow> begun q = begun r \<and> (\<exists>nm. ruNetem q = Some nm \<and> P nm))"

lemma resetLink_phase:
  assumes "ruNetem r = Some nm" and "\<And>x y. P (nm\<lparr>nmUDPBefore := x, nmServerUDPBefore := y\<rparr>)"
  shows "linkPhase P r (resetLink a pair r)"
  using assms by (auto simp: linkPhase_def resetLink_def readBefore_def reasonsOnly_control updateNetem_fields
    split: option.splits prod.splits)

lemma linkPhase_begun: "begun q = begun r \<Longrightarrow> linkPhase P q phase = linkPhase P r phase"
  by (cases phase) (auto simp: linkPhase_def)

lemma gateLink_phase:
  assumes n: "ruNetem r = Some nm" and a: "nmOffloadsAfter nm = None"
    and off: "DisableOffloads pair \<Longrightarrow> ValidateOffloadEvidence lib pair (nmOffloads nm) = [] \<and> nmOffloads nm \<noteq> None"
  shows "linkPhase (gateHeld lib cfg pair) r (gateLink lib cfg a pair r)"
proof (cases "cNetemGateOff cfg")
  case True
  then show ?thesis
    using resetLink_phase [OF n, of "gateHeld lib cfg pair" a pair] off a by (simp add: gateLink_def gateHeld_def)
next
  case False
  obtain report failure where g: "RunNetemGate lib pair (laPing a) (laIperf a) = (report, failure)"
    by (cases "RunNetemGate lib pair (laPing a) (laIperf a)")
  define q where "q = updateNetem (\<lambda>n. n\<lparr>nmGate := Some report\<rparr>) r"
  have q: "ruNetem q = Some (nm\<lparr>nmGate := Some report\<rparr>)" "begun q = begun r"
    using n by (simp_all add: q_def updateNetem_fields)
  show ?thesis
  proof (cases "failure = None \<and> grFailures report = []")
    case True
    then have "linkPhase (gateHeld lib cfg pair) q (resetLink a pair q)"
      using resetLink_phase [OF q(1), of "gateHeld lib cfg pair" a pair] off a by (simp add: gateHeld_def)
    then show ?thesis
      using False True linkPhase_begun [OF q(2)] by (simp add: gateLink_def g Let_def flip: q_def)
  next
    case fails: False
    then show ?thesis
      using False by (auto simp: gateLink_def g Let_def linkPhase_def reasonsOnly_control split: option.splits)
  qed
qed

lemma readbackLink_phase:
  assumes n: "ruNetem r = Some nm" and a: "nmOffloadsAfter nm = None"
  shows "linkPhase (gateHeld lib cfg pair) r (readbackLink lib cfg a pair r)"
proof (cases "DisableOffloads pair")
  case True
  define ev where "ev = ReadOffloadEvidence lib (laOffloads a) pair"
  define q where "q = updateNetem (\<lambda>n. n\<lparr>nmOffloads := Some ev\<rparr>) r"
  have q: "ruNetem q = Some (nm\<lparr>nmOffloads := Some ev\<rparr>)" "begun q = begun r"
    using n by (simp_all add: q_def updateNetem_fields)
  show ?thesis
  proof (cases "ValidateOffloadEvidence lib pair (Some ev) = []")
    case valid: True
    have "linkPhase (gateHeld lib cfg pair) q (gateLink lib cfg a pair q)"
      using gateLink_phase [OF q(1), of pair lib cfg a] a valid by simp
    then show ?thesis
      using True valid linkPhase_begun [OF q(2)] by (simp add: readbackLink_def Let_def flip: ev_def q_def)
  next
    case False
    then show ?thesis
      using True by (simp add: readbackLink_def Let_def linkPhase_def reasonsOnly_control flip: ev_def)
  qed
next
  case False
  then show ?thesis
    using gateLink_phase [OF n a, of pair lib cfg a] by (simp add: readbackLink_def)
qed

lemma prepareLink_phase:
  assumes "cNetem cfg = Some n"
  shows "linkPhase (gateHeld lib cfg (pairSpec (executablePath lib) n)) r (prepareLink lib cfg a r)"
proof -
  define pair where "pair = pairSpec (executablePath lib) n"
  have new: "nmOffloadsAfter (newNetem pair up down) = None" for up down by (simp add: newNetem_def)
  define made where "made up down = r\<lparr>ruNetem := Some (newNetem pair up down)\<rparr>" for up down
  have go: "linkPhase (gateHeld lib cfg pair) r (readbackLink lib cfg a pair (made up down))" for up down
  proof -
    have "ruNetem (made up down) = Some (newNetem pair up down)" "begun (made up down) = begun r" by (simp_all add: made_def)
    from readbackLink_phase [OF this(1) new] linkPhase_begun [OF this(2)] show ?thesis by blast
  qed
  show ?thesis
  proof (cases "BuildSetupCommands pair")
    case up: (Inr up)
    show ?thesis
    proof (cases "BuildTeardownCommands pair")
      case down: (Inr down)
      obtain tried failure where run: "RunCommands (commandFailure (laExec a)) up = (tried, failure)"
        by (cases "RunCommands (commandFailure (laExec a)) up")
      have "prepareLink lib cfg a r = (case failure of
          Some e \<Rightarrow> Finish (made up down) (reasonsOnly ([''netns setup failed: '' @ e] @
            cleanupReasons (laCleanup a) (partialNetemTeardown down (int (length tried) - 1))) True)
        | None \<Rightarrow> readbackLink lib cfg a pair (made up down))"
        unfolding prepareLink_def assms option.case Let_def pair_def [symmetric] up down sum.case made_def [symmetric] run prod.case ..
      then show ?thesis
        using go by (cases failure) (simp_all add: linkPhase_def reasonsOnly_control flip: pair_def)
    qed (simp add: prepareLink_def assms Let_def up linkPhase_def reasonsOnly_control flip: pair_def)
  qed (simp add: prepareLink_def assms Let_def linkPhase_def reasonsOnly_control flip: pair_def)
qed

section \<open>The processes\<close>

definition started :: "nat \<Rightarrow> string list \<Rightarrow> startup \<Rightarrow> bool" where
  "started k extra su \<longleftrightarrow> (if suOK su then length (suProcesses su) = k \<and> suExtra su = extra else suExtra su \<noteq> [])"

lemma started_startOne: "started k extra su \<Longrightarrow> suOK su \<Longrightarrow> started (Suc k) extra (startOne what p launched answer su)"
  by (cases answer) (simp_all add: started_def startOne_def)

lemma started_awaitReady: "started k extra su \<Longrightarrow> started k extra (awaitReady answer su)"
  by (cases answer) (simp_all add: started_def awaitReady_def failStart_def Let_def)

lemma started_startClients:
  assumes "\<And>c k su. started k extra su \<Longrightarrow> suOK su \<Longrightarrow> started (Suc k) extra (start c su)"
  shows "started k extra su \<Longrightarrow> started (k + length cs) extra (startClients start cs su)"
proof (induction cs arbitrary: k su)
  case (Cons c cs)
  show ?case
  proof (cases "suOK su")
    case True
    then show ?thesis using Cons.IH [OF assms [OF Cons.prems True]] by simp
  qed (use Cons.prems in \<open>simp add: started_def\<close>)
qed simp

lemma launchAll_started: "started (Suc (length (clientLaunches cfg))) extra (launchAll lib cfg a extra)"
proof -
  define su where "su = \<lparr>suProcesses = [], suExtra = extra, suSUT = [], suWaits = 0, suOK = True\<rparr>"
  have "started 0 extra su" "suOK su" by (simp_all add: started_def su_def)
  then have "started (Suc 0) extra (awaitReady (lnReady a) (startServer lib cfg a su))"
    by (simp add: startServer_def started_awaitReady started_startOne)
  then have "started (Suc 0 + length (clientLaunches cfg)) extra (startClients (startClient lib cfg a) (clientLaunches cfg)
      (awaitReady (lnReady a) (startServer lib cfg a su)))"
    by (rule started_startClients [rotated]) (simp add: startClient_def started_startOne)
  then show ?thesis by (simp add: launchAll_def su_def)
qed

lemma abort_noted:
  assumes "\<not> suOK su" and "started k extra su" and "abortRun lib cfg a r su = Inr (Finish q input)"
  shows "giExtraReasons input \<noteq> []"
  using assms by (auto simp: abortRun_def Let_def rbind_eq_Inr_iff reasonsOnly_def started_def)

lemma abort_finishes: "abortRun lib cfg a r su = Inr phase \<Longrightarrow> \<exists>q input. phase = Finish q input"
  by (auto simp: abortRun_def Let_def rbind_eq_Inr_iff)

lemma apply_length [simp]: "length (applyWaitEvent ev ps) = length ps"
  by (simp add: applyWaitEvent_def Let_def split: prod.split)

lemma drain_length [simp]: "length (fst (drainWaits evs n ps)) = length ps"
  by (induction evs n ps rule: drainWaits.induct) simp_all

lemma drain_length' : "drainWaits evs n ps = (qs, late) \<Longrightarrow> length qs = length ps"
  using drain_length [of evs n ps] by simp

lemma note_processes [simp]: "pgProcesses (noteExtra e p) = pgProcesses p" "pgProcesses (noteSUT e p) = pgProcesses p"
  by (simp_all add: noteExtra_def noteSUT_def)

lemma supervise_length: "supervise inputs p = Some (q, canceled) \<Longrightarrow> length (pgProcesses q) = length (pgProcesses p)"
  by (induction inputs p rule: supervise.induct) (auto simp: Let_def split: option.splits)

lemma endOfRun_length:
  assumes "endOfRun t alive inputs late evs killed p = Some q"
  shows "length (pgProcesses q) = length (pgProcesses p)"
proof -
  obtain r canceled where r: "supervise inputs p = Some (r, canceled)"
      and q: "q = exitFailures alive (awaitProcesses t alive evs killed (awaitLate late r))"
    using assms by (auto simp: endOfRun_def)
  have "length (pgProcesses (awaitLate late r)) = length (pgProcesses r)"
    by (auto simp: awaitLate_def Let_def split: option.split prod.split)
  moreover have "length (pgProcesses (awaitProcesses t alive evs killed u)) = length (pgProcesses u)" for u
    by (auto simp: awaitProcesses_def Let_def dest: drain_length' split: prod.split bool.split)
  moreover have "pgProcesses (exitFailures alive u) = pgProcesses u" for u by (simp add: exitFailures_def)
  ultimately show ?thesis using supervise_length [OF r] by (simp add: q)
qed

lemma superviseRun_length:
  assumes "superviseRun txt cfg a su = Inr p"
  shows "length (pgProcesses p) = length (suProcesses su)"
proof -
  obtain q where q: "endOfRun (txDuration txt (cProcessExitTimeout cfg)) (enAlive a) (enInputs a) (enLate a) (enWaits a) (enKilled a)
      (startProgress su) = Some q" "p = afterWatcher cfg (enWatcher a) q"
    using assms by (auto simp: superviseRun_def split: option.splits)
  have "pgProcesses p = pgProcesses q" by (auto simp: q(2) afterWatcher_def split: option.split)
  then show ?thesis using endOfRun_length [OF q(1)] by (simp add: startProgress_def)
qed

section \<open>The end of a run\<close>

text \<open>What the phases before the processes and the evidence beside them leave in the record of the link.\<close>

definition linkFacts :: "NetemResult \<Rightarrow> (NetemGateReport option \<times> OffloadEvidence option \<times> OffloadEvidence option) \<times>
    NetemLossEvidence option \<times> AppliedNetemStep list" where
  "linkFacts n = ((nmGate n, nmOffloads n, nmOffloadsAfter n), nmLossEvidence n, nmSchedule n)"

lemma readAfter_fields:
  assumes "readAfter lib cfg a r = (q, udpNotes, delta, serverDelta)"
  shows "begun q = begun r" "ruProcesses q = ruProcesses r" "ruControl q = ruControl r"
    "map_option linkFacts (ruNetem q) = map_option linkFacts (ruNetem r)"
    "cNetem cfg \<noteq> None \<Longrightarrow> ruNetem r \<noteq> None \<Longrightarrow> map_option nmUDPDelta (ruNetem q) = Some delta"
  using assms by (auto simp: readAfter_def begun_def linkFacts_def Let_def split: option.splits prod.splits)

text \<open>The last phase always hands the run to the gate, with what it was given left in the result.\<close>

definition handed :: "GateInput \<Rightarrow> RunResult \<Rightarrow> bool" where
  "handed input q \<longleftrightarrow> giProcesses input = ruProcesses q \<and> giControl input = ruControl q \<and>
     giLossEvidence input = None \<and> giOffloads input = None \<and> giOffloadsAfter input = None"

definition measuredAs :: "files_error + MergedMetrics \<Rightarrow> RunConfig \<Rightarrow> RunResult \<Rightarrow> GateInput \<Rightarrow> bool" where
  "measuredAs metrics cfg q input \<longleftrightarrow> (giExtraReasons input = [] \<longrightarrow> cRamp cfg = None \<longrightarrow>
     (\<exists>m. metrics = Inr m \<and> ruMetrics q = Some m \<and> giMetrics input = Some m))"

lemma finishMeasurement_finishes:
  assumes "handed input r"
  shows "\<exists>q given more. finishMeasurement txt cfg fs r input = Finish q given \<and> begun q = begun r \<and>
    ruNetem q = ruNetem r \<and> ruProcesses q = ruProcesses r \<and> handed given q \<and>
    giExtraReasons given = giExtraReasons input @ more \<and>
    giUDPDropDelta given = giUDPDropDelta input \<and> giNetemEnabled given = giNetemEnabled input \<and>
    measuredAs (runMetrics fs cfg) cfg q given"
proof (cases "cRamp cfg = None")
  case True
  then show ?thesis
    using assms by (cases "runMetrics fs cfg") (simp_all add: finishMeasurement_def Let_def handed_def measuredAs_def)
next
  case False
  then show ?thesis
    using assms by (auto simp: finishMeasurement_def handed_def measuredAs_def split: sum.split)
qed

lemma finishMeasurement_ends: "\<exists>q given. finishMeasurement txt cfg fs r input = Finish q given"
  by (auto simp: finishMeasurement_def Let_def split: sum.split)

lemma completeRun_measures: "completeRun lib txt cfg a r su = Inr phase \<Longrightarrow> \<exists>q input. phase = Finish q input"
  by (auto simp: completeRun_def Let_def rbind_eq_Inr_iff finishMeasurement_ends case_prod_beta)

lemma completeRun_finishes:
  assumes "completeRun lib txt cfg a r su = Inr phase" and netem: "ruNetem r = None \<longleftrightarrow> cNetem cfg = None"
  shows "\<exists>q input e. phase = Finish q input \<and> begun q = begun r \<and> handed input q \<and>
    length (ruProcesses q) = length (suProcesses su) \<and>
    lossEvidence lib cfg (raCapture a) = Inr e \<and>
    map_option linkFacts (ruNetem q) =
      map_option (\<lambda>n. (fst (linkFacts n), e, appliedSchedule lib cfg a)) (ruNetem r) \<and>
    (cNetem cfg \<noteq> None \<longrightarrow> map_option nmUDPDelta (ruNetem q) = Some (giUDPDropDelta input)) \<and>
    giNetemEnabled input = (cNetem cfg \<noteq> None) \<and>
    (giExtraReasons input = [] \<longrightarrow> scheduleReasons cfg (appliedSchedule lib cfg a) = []) \<and>
    measuredAs (runMetrics (enFiles (raEnd a)) cfg) cfg q input"
proof -
  obtain p e where p: "superviseRun txt cfg (raEnd a) su = Inr p" and e: "lossEvidence lib cfg (raCapture a) = Inr e"
    using assms(1) by (auto simp: completeRun_def rbind_eq_Inr_iff)
  define steps where "steps = appliedSchedule lib cfg a"
  obtain series failure where s: "collectSamples (map prPID (suProcesses su)) (enSampler (raEnd a)) = (series, failure)"
    by (cases "collectSamples (map prPID (suProcesses su)) (enSampler (raEnd a))")
  define w where "w = withEvidence e steps (r\<lparr>ruProcesses := pgProcesses p, ruControl := pgControl p,
    ruSamples := measuredSeries (pgControl p) series\<rparr>)"
  obtain u udpNotes delta serverDelta where u: "readAfter lib cfg (raEnd a) w = (u, udpNotes, delta, serverDelta)"
    by (cases "readAfter lib cfg (raEnd a) w") auto
  define extra where "extra = pgExtra p @ failureReason ''sampler failed'' (map_option readText failure) @
    scheduleReasons cfg steps @ udpNotes"
  define input where "input = (reasonsOnly extra (cNetem cfg \<noteq> None))\<lparr>giControl := pgControl p, giProcesses := pgProcesses p,
    giUDPDropDelta := delta, giServerUDPDropDelta := serverDelta, giSUTFailureReasons := pgSUT p\<rparr>"
  have phase: "phase = finishMeasurement txt cfg (enFiles (raEnd a)) u input"
    using assms(1) unfolding completeRun_def p e rbind_simps Let_def steps_def [symmetric] s prod.case w_def [symmetric] u
      extra_def [symmetric] input_def [symmetric] by simp
  have w: "begun w = begun r" "ruProcesses w = pgProcesses p" "ruControl w = pgControl p"
    "map_option linkFacts (ruNetem w) = map_option (\<lambda>n. (fst (linkFacts n), e, steps)) (ruNetem r)"
    "ruNetem w = None \<longleftrightarrow> ruNetem r = None"
    by (auto simp: w_def withEvidence_def updateNetem_fields linkFacts_def begun_def updateNetem_def option.map_comp comp_def)
  note kept = readAfter_fields [OF u]
  have input: "giExtraReasons input = extra" "giNetemEnabled input = (cNetem cfg \<noteq> None)" "giUDPDropDelta input = delta" "handed input u"
    using kept(2,3) w(2,3) by (simp_all add: input_def reasonsOnly_def handed_def)
  obtain q given more where q: "phase = Finish q given" "begun q = begun u" "ruNetem q = ruNetem u" "ruProcesses q = ruProcesses u"
      "handed given q" "giExtraReasons given = giExtraReasons input @ more" "giUDPDropDelta given = giUDPDropDelta input"
      "giNetemEnabled given = giNetemEnabled input" "measuredAs (runMetrics (enFiles (raEnd a)) cfg) cfg q given"
    using finishMeasurement_finishes [OF input(4), of _ cfg "enFiles (raEnd a)"] phase by metis
  have "length (ruProcesses q) = length (suProcesses su)"
    using superviseRun_length [OF p] by (simp add: q(4) kept(2) w(2))
  moreover have "cNetem cfg \<noteq> None \<longrightarrow> map_option nmUDPDelta (ruNetem q) = Some (giUDPDropDelta given)"
    using kept(5) w(5) netem by (simp add: q(3,7) input(3))
  moreover have "giExtraReasons given = [] \<longrightarrow> scheduleReasons cfg steps = []"
    by (simp add: q(6) input(1) extra_def)
  ultimately show ?thesis
    using q(1,2,5,8,9) kept(1) w(1) e input(2) q(3) kept(4) w(4) unfolding steps_def by auto
qed

section \<open>What a passing run stands on\<close>

text \<open>The emulated link of a valid run: gated, read back before and after, with no datagram lost in a buffer.\<close>

definition linkProved :: "library \<Rightarrow> RunConfig \<Rightarrow> NetemRegime \<Rightarrow> NetemResult \<Rightarrow> bool" where
  "linkProved lib cfg n nm \<longleftrightarrow>
     (cNetemGateOff cfg \<or> (\<exists>report. nmGate nm = Some report \<and> grFailures report = [])) \<and>
     (nrDisableOffloads n \<longrightarrow>
        ValidateOffloadEvidence lib (pairSpec (executablePath lib) n) (nmOffloads nm) = [] \<and>
        ValidateOffloadEvidence lib (pairSpec (executablePath lib) n) (nmOffloadsAfter nm) = []) \<and>
     InErrors (nmUDPDelta nm) = 0 \<and> RcvbufErrors (nmUDPDelta nm) = 0 \<and>
     length (nmSchedule nm) = length (cNetemSchedule cfg) \<and> list_all (\<lambda>s. asError s = []) (nmSchedule nm)"

lemma schedule_applied:
  assumes "scheduleReasons cfg (appliedSchedule lib cfg a) = []"
  shows "length (appliedSchedule lib cfg a) = length (cNetemSchedule cfg) \<and>
    list_all (\<lambda>s. asError s = []) (appliedSchedule lib cfg a)"
  using assms by (cases "cNetemSchedule cfg = []")
    (auto simp: scheduleReasons_def appliedSchedule_def list_all_iff split: if_splits)

lemma DisableOffloads_pair: "DisableOffloads (pairSpec exe n) = nrDisableOffloads n"
  by (simp add: pairSpec_def Let_def split: option.split)

lemma scenarioMet_settle: "scenarioMet (settle r g) = scenarioMet r"
  unfolding scenarioMet_def settle_fields ..

lemma treatment_accepted:
  assumes "checkTreatment lib cfg serverRun clientRun = Go r"
  shows "ruConfig r = cfg" "ValidateScenarioTreatmentContract lib (ruTreatment r) cfg = ([], [])"
    "ruOutcome r = OutcomeInvalid" "ruEvaluation r = None" "ruNetem r = None" "ruControl r = None"
  using assms by (auto simp: checkTreatment_def startResult_def Let_def split: prod.splits if_splits)

lemma treatment_refused:
  assumes "checkTreatment lib cfg serverRun clientRun = Finish r input"
  shows "giControl input = None"
  using assms by (auto simp: checkTreatment_def reasonsOnly_control Let_def split: prod.splits if_splits)

text \<open>The link of a run without one, or as the phase leaves it.\<close>

definition linkPrepared :: "library \<Rightarrow> RunConfig \<Rightarrow> RunResult \<Rightarrow> bool" where
  "linkPrepared lib cfg r \<longleftrightarrow> (case cNetem cfg of None \<Rightarrow> ruNetem r = None
     | Some n \<Rightarrow> (\<exists>nm. ruNetem r = Some nm \<and> gateHeld lib cfg (pairSpec (executablePath lib) n) nm))"

lemma prepareLink_cases:
  assumes "ruNetem r = None"
  shows "case prepareLink lib cfg a r of Finish q input \<Rightarrow> giControl input = None | Persisted q \<Rightarrow> False
    | Go (q, extra) \<Rightarrow> begun q = begun r \<and> linkPrepared lib cfg q"
proof (cases "cNetem cfg")
  case None
  then show ?thesis using assms by (simp add: prepareLink_def linkPrepared_def)
next
  case (Some n)
  then show ?thesis
    using prepareLink_phase [OF Some, of lib r a] by (auto simp: linkPhase_def linkPrepared_def split: phase.splits)
qed

text \<open>A run that reaches the gate with a control result and no reason noted went through every phase.\<close>

lemma finished_run:
  assumes "runPhases lib txt cfg a = Inr (Finish q input)" and "giControl input \<noteq> None" and "giExtraReasons input = []"
  obtains r su where "begun q = begun r" "ruConfig r = cfg" "ValidateScenarioTreatmentContract lib (ruTreatment r) cfg = ([], [])"
    "ruOutcome r = OutcomeInvalid" "ruEvaluation r = None" "linkPrepared (library.truncate lib) cfg r"
    "length (suProcesses su) = Suc (length (clientLaunches cfg))"
    "completeRun (library.truncate lib) txt cfg a r su = Inr (Finish q input)"
proof -
  obtain s where s: "checkTreatment lib cfg (raServerDescribe a) (raClientDescribe a) = Go s"
    using assms(1,2) treatment_refused [of lib cfg "raServerDescribe a" "raClientDescribe a"]
    by (cases "checkTreatment lib cfg (raServerDescribe a) (raClientDescribe a)") (auto simp: runPhases_def)
  note accepted = treatment_accepted [OF s]
  obtain r extra where r: "prepareLink (library.truncate lib) cfg (raLink a) s = Go (r, extra)"
      "begun r = begun s" "linkPrepared (library.truncate lib) cfg r"
    using assms(1,2) prepareLink_cases [OF accepted(5), of "library.truncate lib" cfg "raLink a"] s
    by (cases "prepareLink (library.truncate lib) cfg (raLink a) s") (auto simp: runPhases_def)
  have run: "runProcesses (library.truncate lib) txt cfg a (r, extra) = Inr (Finish q input)"
    using assms(1) by (simp add: runPhases_def s r(1))
  have "raControl a = None"
    using run assms(3) by (cases "raControl a") (auto simp: runProcesses_def reasonsOnly_def)
  define su where "su = launchAll (library.truncate lib) cfg (raLaunch a) extra"
  have su: "started (Suc (length (clientLaunches cfg))) extra su" by (simp add: su_def launchAll_started)
  have run: "(if suOK su then completeRun (library.truncate lib) txt cfg a r su else abortRun (library.truncate lib) cfg a r su) =
      Inr (Finish q input)"
    using run \<open>raControl a = None\<close> unfolding su_def by (simp add: runProcesses_def Let_def split del: if_split)
  have ok: "suOK su" using run abort_noted [OF _ su] assms(3) by (cases "suOK su") auto
  then have fin: "completeRun (library.truncate lib) txt cfg a r su = Inr (Finish q input)" using run by simp
  have "ruNetem r = None \<longleftrightarrow> cNetem cfg = None" using r(3) by (auto simp: linkPrepared_def split: option.splits)
  from completeRun_finishes [OF fin this] have "begun q = begun r" by auto
  moreover have "ruConfig r = cfg" "ruTreatment r = ruTreatment s" "ruOutcome r = OutcomeInvalid" "ruEvaluation r = None"
    using r(2) accepted by (simp_all add: begun_def)
  ultimately show thesis
    using that [of r su] accepted(2) r(3) su ok fin by (simp add: started_def)
qed

text \<open>The reasons that stand against a run: none for a measured link, by its counters and its schedule.\<close>

lemma link_proved:
  assumes link: "linkPrepared lib cfg r" and n: "cNetem cfg = Some n"
    and facts: "map_option linkFacts (ruNetem q) = map_option (\<lambda>n. (fst (linkFacts n), e, appliedSchedule lib cfg a)) (ruNetem r)"
    and delta: "map_option nmUDPDelta (ruNetem q) = Some (giUDPDropDelta input)" and enabled: "giNetemEnabled input"
    and cfg: "ruConfig q = cfg" and noUDP: "udpReasons (completeInput (withLateOffloads ev q) input) = []"
    and off: "offloadsProved lib (completeInput (withLateOffloads ev q) input) failed"
    and sched: "scheduleReasons cfg (appliedSchedule lib cfg a) = []"
  shows "\<exists>nm. ruNetem (withLateOffloads ev q) = Some nm \<and> linkProved lib cfg n nm"
proof -
  define pair where "pair = pairSpec (executablePath lib) n"
  obtain was where was: "ruNetem r = Some was" "gateHeld lib cfg pair was"
    using link n by (auto simp: linkPrepared_def pair_def)
  obtain nm where nm: "ruNetem q = Some nm" "linkFacts nm = (fst (linkFacts was), e, appliedSchedule lib cfg a)"
    using facts was(1) by auto
  have same: "nmGate nm = nmGate was" "nmOffloads nm = nmOffloads was" "nmOffloadsAfter nm = nmOffloadsAfter was"
    "nmSchedule nm = appliedSchedule lib cfg a"
    using nm(2) by (simp_all add: linkFacts_def)
  define late where "late = lateOffloads ev cfg nm"
  have late: "ruNetem (withLateOffloads ev q) = Some late" by (simp add: late_fields nm(1) cfg late_def)
  have kept: "nmGate late = nmGate nm" "nmOffloads late = nmOffloads nm" "nmUDPDelta late = nmUDPDelta nm" "nmSchedule late = nmSchedule nm"
    by (simp_all add: late_def lateOffloads_def)
  have "InErrors (nmUDPDelta nm) = 0 \<and> RcvbufErrors (nmUDPDelta nm) = 0"
    using noUDP enabled delta nm(1) by (auto simp: udpReasons_def completeInput_fields Let_def)
  moreover have "ValidateOffloadEvidence lib pair (nmOffloads late) = [] \<and> ValidateOffloadEvidence lib pair (nmOffloadsAfter late) = []"
    if d: "nrDisableOffloads n"
  proof -
    have required: "offloadsRequired (Some cfg) = Some n" by (simp add: offloadsRequired_def n d)
    have "nmOffloads nm \<noteq> None" "nmOffloadsAfter nm = None"
      using was(2) d by (simp_all add: gateHeld_def same DisableOffloads_pair pair_def)
    then have "nmOffloadsAfter late \<noteq> None" by (simp add: late_def lateOffloads_def required)
    then show ?thesis
      using off by (auto simp: offloadsProved_def completeInput_fields completeInput_netem [OF late] cfg required pair_def split: if_splits)
  qed
  ultimately show ?thesis
    using was(2) schedule_applied [OF sched] late
    by (simp add: linkProved_def gateHeld_def kept same flip: pair_def)
qed

lemma runPhases_ends:
  assumes "runPhases lib txt cfg a = Inr phase"
  shows "(\<exists>q input. phase = Finish q input) \<or> (\<exists>q. phase = Persisted q \<and> ruOutcome q = OutcomeUnsupported)"
proof (cases "checkTreatment lib cfg (raServerDescribe a) (raClientDescribe a)")
  case (Persisted q)
  then show ?thesis
    using assms by (auto simp: runPhases_def checkTreatment_def Let_def split: prod.splits if_splits)
next
  case (Go s)
  have run: "\<exists>q input. phase = Finish q input" if "runProcesses (library.truncate lib) txt cfg a x = Inr phase" for x
    using that completeRun_measures abort_finishes
    by (cases x; cases "raControl a") (auto simp: runProcesses_def Let_def split: if_splits)
  show ?thesis
    using assms prepareLink_cases [OF treatment_accepted(5) [OF Go], of "library.truncate lib" cfg "raLink a"] Go
    by (cases "prepareLink (library.truncate lib) cfg (raLink a) s") (auto simp: runPhases_def dest: run)
next
  case (Finish q input)
  then have "phase = Finish q input" using assms by (simp add: runPhases_def)
  then show ?thesis by blast
qed

lemma valid_input:
  assumes "finishRunResult lib ev r input = Inr f" and "ruVerdict f = VerdictValid"
  shows "giExtraReasons input = []" "controlReasons (giControl input) = []"
proof -
  obtain g where g: "EvaluateGate lib (completeInput (withLateOffloads ev r) input) = Inr g" "f = settle (withLateOffloads ev r) g"
    by (rule finished_settled [OF assms(1)])
  have "grVerdict g = VerdictValid" using assms(2) by (simp add: g(2) settle_fields)
  with EvaluateGate_Inr [OF g(1)] show "giExtraReasons input = []" "controlReasons (giControl input) = []"
    by (metis completeInput_fields(1,2))+
qed

text \<open>A run that ends VALID and PASS went through every phase, and the gate found nothing against it.\<close>

lemma passing_run:
  assumes "runBenchmark lib txt cfg a = Inr f" and "ruOutcome f = OutcomePass" and "ruVerdict f = VerdictValid"
  defines "c \<equiv> runDefaults cfg" and "l \<equiv> library.truncate lib"
  obtains q input r e ev g and sut :: "string list" where "validateRunConfig c = Inr ()"
    "ruConfig q = c" "ruTreatment q = ruTreatment r" "ValidateScenarioTreatmentContract lib (ruTreatment r) c = ([], [])"
    "linkPrepared l c r" "length (ruProcesses q) = Suc (length (clientLaunches c))" "giExtraReasons input = []"
    "handed input q"
    "map_option linkFacts (ruNetem q) = map_option (\<lambda>n. (fst (linkFacts n), e, appliedSchedule l c a)) (ruNetem r)"
    "cNetem c \<noteq> None \<longrightarrow> map_option nmUDPDelta (ruNetem q) = Some (giUDPDropDelta input)"
    "giNetemEnabled input = (cNetem c \<noteq> None)" "scheduleReasons c (appliedSchedule l c a) = []"
    "measuredAs (runMetrics (enFiles (raEnd a)) c) c q input"
    "controlReasons (giControl input) = []"
    "metricsAccepted (completeInput (withLateOffloads ev q) input)" "list_all (\<lambda>p. prExited p \<and> prExitCode p = 0) (giProcesses input)"
    "udpReasons (completeInput (withLateOffloads ev q) input) = []"
    "offloadsProved l (completeInput (withLateOffloads ev q) input) (sut \<noteq> [])"
    "ValidateNetemLossEvidence l (Some c) (giControl input) (giLossEvidence (completeInput (withLateOffloads ev q) input)) = Inr []"
    "cRamp c = None" "scenarioMet q" "f = settle (withLateOffloads ev q) g"
proof -
  note outcomes = OutcomePass_def OutcomeInvalid_def OutcomeUnsupported_def VerdictValid_def VerdictInvalid_def
  define ev where "ev = ReadOffloadEvidence l (raOffloadsAfter a) (runPair l c)"
  have accepted: "validateRunConfig c = Inr ()"
    using assms(1) by (auto simp: runBenchmark_def Let_def rbind_eq_Inr_iff c_def)
  obtain phase where phase: "runPhases lib txt c a = Inr phase"
      and f: "(case phase of Persisted r \<Rightarrow> Inr r | Finish r input \<Rightarrow> finishRunResult l ev r input | Go r \<Rightarrow> Inr r) = Inr f"
    using assms(1) unfolding runBenchmark_def Let_def c_def [symmetric] l_def [symmetric] ev_def [symmetric]
    by (auto simp: rbind_eq_Inr_iff)
  obtain q input where q: "phase = Finish q input"
    using runPhases_ends [OF phase] f assms(2) by (auto simp: outcomes)
  have f: "finishRunResult l ev q input = Inr f" using f by (simp add: q)
  note clean = valid_input [OF f assms(3)]
  have "giControl input \<noteq> None" using clean(2) by (auto simp: controlReasons_Nil)
  from finished_run [OF phase [unfolded q] this clean(1)] obtain r su where r:
    "begun q = begun r" "ruConfig r = c" "ValidateScenarioTreatmentContract lib (ruTreatment r) c = ([], [])"
    "ruOutcome r = OutcomeInvalid" "ruEvaluation r = None" "linkPrepared l c r"
    "length (suProcesses su) = Suc (length (clientLaunches c))" "completeRun l txt c a r su = Inr (Finish q input)"
    unfolding l_def by blast
  have same: "ruConfig q = c" "ruTreatment q = ruTreatment r" "ruOutcome q = OutcomeInvalid" "ruEvaluation q = None"
    using r(1,2,4,5) by (simp_all add: begun_def)
  have "ruNetem r = None \<longleftrightarrow> cNetem c = None" using r(6) by (auto simp: linkPrepared_def split: option.splits)
  then obtain e where fin: "handed input q" "length (ruProcesses q) = length (suProcesses su)"
    "map_option linkFacts (ruNetem q) = map_option (\<lambda>n. (fst (linkFacts n), e, appliedSchedule l c a)) (ruNetem r)"
    "cNetem c \<noteq> None \<longrightarrow> map_option nmUDPDelta (ruNetem q) = Some (giUDPDropDelta input)"
    "giNetemEnabled input = (cNetem c \<noteq> None)" "scheduleReasons c (appliedSchedule l c a) = []"
    "measuredAs (runMetrics (enFiles (raEnd a)) c) c q input"
    using completeRun_finishes [OF r(8)] clean(1) by auto
  obtain g and sut :: "string list" where v: "controlReasons (giControl input) = []"
    "metricsAccepted (completeInput (withLateOffloads ev q) input)" "list_all (\<lambda>p. prExited p \<and> prExitCode p = 0) (giProcesses input)"
    "udpReasons (completeInput (withLateOffloads ev q) input) = []"
    "offloadsProved l (completeInput (withLateOffloads ev q) input) (sut \<noteq> [])"
    "ValidateNetemLossEvidence l (Some c) (giControl input) (giLossEvidence (completeInput (withLateOffloads ev q) input)) = Inr []"
    "cRamp c = None" "scenarioMet q" "f = settle (withLateOffloads ev q) g"
    using valid_finish [OF f assms(2,3) same(3,4)] same(1) by metis
  show thesis
    using that [OF accepted same(1,2) r(3,6) _ clean(1) fin(1) fin(3-7) v] fin(2) r(7) by simp
qed

text \<open>
  C1. A run that is VALID and PASS proves what it says. Whatever the machine answered, a finished run
  with that verdict and that outcome was made for an accepted configuration and an accepted treatment;
  its link passed the gate, kept its offloads off before and after, applied its whole schedule and lost
  no datagram in a socket buffer; the server and every client were started and exited with status zero;
  the control barrier returned a result without invalid reasons or late schedules; the metrics files
  merge and meet the contract of the scenario and are in order; the loss evidence holds; and the run is
  no ramp and meets every objective of its scenario.
\<close>

theorem valid_pass_is_proved:
  assumes "runBenchmark lib txt cfg a = Inr f" and "ruOutcome f = OutcomePass" and "ruVerdict f = VerdictValid"
  shows "validateRunConfig (runDefaults cfg) = Inr () \<and> ruConfig f = runDefaults cfg \<and>
    ValidateScenarioTreatmentContract lib (ruTreatment f) (ruConfig f) = ([], []) \<and>
    (case cNetem (ruConfig f) of None \<Rightarrow> ruNetem f = None
     | Some n \<Rightarrow> \<exists>nm. ruNetem f = Some nm \<and> linkProved (library.truncate lib) (ruConfig f) n nm) \<and>
    length (ruProcesses f) = Suc (length (clientLaunches (ruConfig f))) \<and>
    list_all (\<lambda>p. prExited p \<and> prExitCode p = 0) (ruProcesses f) \<and>
    (\<exists>c. ruControl f = Some c \<and> InvalidReasons c = [] \<and>
       list_all (\<lambda>p. \<not> (AckReceived p \<and> AckMarginNS p < 0)) (Participants c)) \<and>
    (\<exists>m. runMetrics (enFiles (raEnd a)) (ruConfig f) = Inr m \<and> ruMetrics f = Some m \<and> TimestampOrderViolations (mmRaw m) = 0) \<and>
    ValidateNetemLossEvidence (library.truncate lib) (Some (ruConfig f)) (ruControl f)
      (Option.bind (ruNetem f) nmLossEvidence) = Inr [] \<and>
    cRamp (ruConfig f) = None \<and> scenarioMet f"
proof -
  define c where "c = runDefaults cfg"
  define l where "l = library.truncate lib"
  obtain q input r e ev g and sut :: "string list" where accepted: "validateRunConfig c = Inr ()"
    and same: "ruConfig q = c" "ruTreatment q = ruTreatment r" and contract: "ValidateScenarioTreatmentContract lib (ruTreatment r) c = ([], [])"
    and link: "linkPrepared l c r" and procs: "length (ruProcesses q) = Suc (length (clientLaunches c))" and extra: "giExtraReasons input = []"
    and given: "handed input q"
    and facts: "map_option linkFacts (ruNetem q) = map_option (\<lambda>n. (fst (linkFacts n), e, appliedSchedule l c a)) (ruNetem r)"
    and delta: "cNetem c \<noteq> None \<longrightarrow> map_option nmUDPDelta (ruNetem q) = Some (giUDPDropDelta input)" "giNetemEnabled input = (cNetem c \<noteq> None)"
    and sched: "scheduleReasons c (appliedSchedule l c a) = []" and metrics: "measuredAs (runMetrics (enFiles (raEnd a)) c) c q input"
    and v: "controlReasons (giControl input) = []" "metricsAccepted (completeInput (withLateOffloads ev q) input)"
      "list_all (\<lambda>p. prExited p \<and> prExitCode p = 0) (giProcesses input)" "udpReasons (completeInput (withLateOffloads ev q) input) = []"
      "offloadsProved l (completeInput (withLateOffloads ev q) input) (sut \<noteq> [])"
      "ValidateNetemLossEvidence l (Some c) (giControl input) (giLossEvidence (completeInput (withLateOffloads ev q) input)) = Inr []"
      "cRamp c = None" "scenarioMet q" "f = settle (withLateOffloads ev q) g"
    unfolding c_def l_def by (rule passing_run [OF assms])
  have out: "ruConfig f = c" "ruTreatment f = ruTreatment r" "ruControl f = giControl input" "ruProcesses f = giProcesses input"
    "ruNetem f = ruNetem (withLateOffloads ev q)" "ruMetrics f = ruMetrics q"
    using given same by (simp_all add: v(9) settle_fields late_fields handed_def)
  obtain m where m: "runMetrics (enFiles (raEnd a)) c = Inr m" "ruMetrics q = Some m" "giMetrics input = Some m"
    using metrics extra v(7) by (auto simp: measuredAs_def)
  have "TimestampOrderViolations (mmRaw m) = 0"
    using v(2,7) by (simp add: metricsAccepted_def completeInput_fields isRamp_def m(3) same(1))
  moreover have "giLossEvidence (completeInput (withLateOffloads ev q) input) = Option.bind (ruNetem f) nmLossEvidence"
    using given by (cases "ruNetem (withLateOffloads ev q)") (simp_all add: completeInput_def handed_def out(5))
  moreover have "case cNetem c of None \<Rightarrow> ruNetem f = None | Some n \<Rightarrow> \<exists>nm. ruNetem f = Some nm \<and> linkProved l c n nm"
  proof (cases "cNetem c")
    case None
    then show ?thesis using link facts by (simp add: linkPrepared_def out(5) late_fields)
  next
    case (Some n)
    then show ?thesis
      using link_proved [OF link Some facts _ _ same(1) v(4,5) sched] delta by (simp add: out(5))
  qed
  moreover have "scenarioMet f" using v(8) by (simp add: v(9) scenarioMet_settle)
  ultimately show ?thesis
    using accepted contract procs v(1,3,6,7) m given out unfolding c_def [symmetric] l_def [symmetric] out(1)
    by (simp add: controlReasons_Nil handed_def)
qed

end
