(* ===== verification/ProcessCommand.thy ===== *)
theory ProcessCommand
  imports RunProperties
begin

text \<open>
  The record of a launched command (\<open>orchestrator/run/process_command.go\<close>): the command that a result
  records for a process is checked against the command that \<open>Run\<close> builds from its configuration. The
  check is equivalent to a declarative description of those commands, and every command of a run meets
  it.
\<close>

section \<open>The check\<close>

datatype command_error =
    UnknownRole string
  | OutsideNamespace string
  | DropNeedsNamespace
  | KeepsPrivileges
  | BadDropIDs
  | OutsideCPUSet string
  | OtherCommand

text \<open>The command, the namespace and the CPUs planned for a process.\<close>

definition plannedProcess :: "library \<Rightarrow> RunConfig \<Rightarrow> ProcessResult \<Rightarrow> command_error + CommandConfig \<times> string \<times> string" where
  "plannedProcess lib cfg p =
     (if prRole p = ''server''
      then Inr (expandCommandTemplate (cServerCommand cfg)
          \<lparr>vTransport = cTransport cfg, vProcIndex = -1, vConns = 0, vOriginIDStart = 0, vOriginIDEnd = 0,
           vTotalConns = cTotalConns cfg\<rparr>,
        case cNetem cfg of None \<Rightarrow> [] | Some n \<Rightarrow> ServerNS (pairSpec (executablePath lib) n), cServerCPUs cfg)
      else if prRole p = ''client''
      then Inr (expandCommandTemplate (cClientCommand cfg)
          \<lparr>vTransport = cTransport cfg, vProcIndex = prProcIndex p, vConns = prConns p, vOriginIDStart = prOriginIDStart p,
           vOriginIDEnd = prOriginIDEnd p, vTotalConns = cTotalConns cfg\<rparr>,
        case cNetem cfg of None \<Rightarrow> [] | Some n \<Rightarrow> ClientNS (pairSpec (executablePath lib) n), cClientCPUs cfg)
      else Inl (UnknownRole (prRole p)))"

text \<open>A group or user identifier: \<open>strconv.ParseUint\<close> in 32 bits, and not zero.\<close>

definition positiveID :: "string \<Rightarrow> bool" where
  "positiveID text = (case parseDigits text of None \<Rightarrow> False | Some n \<Rightarrow> 0 < n \<and> n < 2 ^ 32)"

definition enteredNamespace :: "string \<Rightarrow> string list \<Rightarrow> command_error + nat" where
  "enteredNamespace netns actual =
     (if netns = [] then Inr 0
      else let prefix = [''ip'', ''netns'', ''exec'', netns]
        in if length actual < length prefix \<or> take (length prefix) actual \<noteq> prefix then Inl (OutsideNamespace netns)
           else Inr (length prefix))"

definition droppedPrivileges :: "bool \<Rightarrow> string \<Rightarrow> string list \<Rightarrow> nat \<Rightarrow> command_error + nat" where
  "droppedPrivileges requirePrivilegeDrop netns actual index =
     (if \<not> requirePrivilegeDrop then Inr index
      else if netns = [] then Inl DropNeedsNamespace
      else if length actual < index + 7 \<or> actual ! index \<noteq> ''setpriv'' \<or> actual ! (index + 1) \<noteq> ''--reuid'' \<or>
          actual ! (index + 3) \<noteq> ''--regid'' \<or> actual ! (index + 5) \<noteq> ''--init-groups''
      then Inl KeepsPrivileges
      else if \<not> positiveID (actual ! (index + 2)) \<or> \<not> positiveID (actual ! (index + 4)) then Inl BadDropIDs
      else Inr (index + 6))"

definition usedCPUs :: "string \<Rightarrow> string list \<Rightarrow> nat \<Rightarrow> command_error + nat" where
  "usedCPUs cpus actual index =
     (if cpus = [] then Inr index
      else let prefix = [''taskset'', ''-c'', cpus]
        in if length actual < index + length prefix \<or> take (length prefix) (drop index actual) \<noteq> prefix
           then Inl (OutsideCPUSet cpus)
           else Inr (index + length prefix))"

definition ValidateRecordedProcessCommand :: "library \<Rightarrow> RunConfig \<Rightarrow> ProcessResult \<Rightarrow> bool \<Rightarrow> command_error + unit" where
  "ValidateRecordedProcessCommand lib cfg p requirePrivilegeDrop =
     rbind (plannedProcess lib cfg p) (\<lambda>(cmd, netns, cpus).
     rbind (enteredNamespace netns (prCommand p)) (\<lambda>index.
     rbind (droppedPrivileges requirePrivilegeDrop netns (prCommand p) index) (\<lambda>index.
     rbind (usedCPUs cpus (prCommand p) index) (\<lambda>index.
     fail_if (drop index (prCommand p) \<noteq> Path cmd # CmdArgs cmd) OtherCommand))))"

section \<open>What it accepts\<close>

text \<open>The wrappers of a command as one list, in the order the namespace command nests them.\<close>

definition namespaceArgs :: "string \<Rightarrow> string list" where
  "namespaceArgs netns = (if netns = [] then [] else [''ip'', ''netns'', ''exec'', netns])"

definition dropArgs :: "(string \<times> string) option \<Rightarrow> string list" where
  "dropArgs ids = (case ids of None \<Rightarrow> [] | Some (uid, gid) \<Rightarrow> [''setpriv'', ''--reuid'', uid, ''--regid'', gid, ''--init-groups''])"

definition cpuArgs :: "string \<Rightarrow> string list" where
  "cpuArgs cpus = (if cpus = [] then [] else [''taskset'', ''-c'', cpus])"

definition properDrop :: "bool \<Rightarrow> string \<Rightarrow> (string \<times> string) option \<Rightarrow> bool" where
  "properDrop required netns ids \<longleftrightarrow> (case ids of None \<Rightarrow> \<not> required
     | Some (uid, gid) \<Rightarrow> required \<and> netns \<noteq> [] \<and> positiveID uid \<and> positiveID gid)"

lemma take_eq_append: "take (length xs) ys = xs \<longleftrightarrow> (\<exists>zs. ys = xs @ zs)"
  by (metis append_eq_conv_conj append_take_drop_id)

lemma enteredNamespace_Inr:
  "enteredNamespace netns actual = Inr i \<longleftrightarrow> i = length (namespaceArgs netns) \<and> (\<exists>rest. actual = namespaceArgs netns @ rest)"
proof (cases "netns = []")
  case False
  then have "enteredNamespace netns actual = Inr i \<longleftrightarrow>
      i = length (namespaceArgs netns) \<and> take (length (namespaceArgs netns)) actual = namespaceArgs netns"
    by (auto simp: enteredNamespace_def namespaceArgs_def Let_def split: if_splits)
  then show ?thesis by (simp add: take_eq_append)
qed (auto simp: enteredNamespace_def namespaceArgs_def)

lemma usedCPUs_Inr:
  "usedCPUs cpus (pre @ rest) (length pre) = Inr i \<longleftrightarrow> i = length (pre @ cpuArgs cpus) \<and> (\<exists>own. rest = cpuArgs cpus @ own)"
proof (cases "cpus = []")
  case False
  then have "usedCPUs cpus (pre @ rest) (length pre) = Inr i \<longleftrightarrow>
      i = length (pre @ cpuArgs cpus) \<and> take (length (cpuArgs cpus)) rest = cpuArgs cpus"
    by (auto simp: usedCPUs_def cpuArgs_def Let_def split: if_splits)
  then show ?thesis by (simp add: take_eq_append)
qed (auto simp: usedCPUs_def cpuArgs_def)

lemma split_seven: "7 \<le> length xs \<longleftrightarrow> (\<exists>a b c d e f g own. xs = a # b # c # d # e # f # g # own)"
  by (auto simp: eval_nat_numeral Suc_le_length_iff)

lemma droppedPrivileges_Inr:
  "droppedPrivileges required netns (pre @ rest) (length pre) = Inr i \<longleftrightarrow>
     (\<exists>ids own. properDrop required netns ids \<and> rest = dropArgs ids @ own \<and> i = length (pre @ dropArgs ids) \<and> (required \<longrightarrow> own \<noteq> []))"
proof (cases required)
  case True
  show ?thesis
  proof
    assume ok: "droppedPrivileges required netns (pre @ rest) (length pre) = Inr i"
    then have "7 \<le> length rest" using True by (auto simp: droppedPrivileges_def split: if_splits)
    then obtain a b c d e f g own where rest: "rest = a # b # c # d # e # f # g # own" unfolding split_seven by blast
    have "netns \<noteq> [] \<and> a = ''setpriv'' \<and> b = ''--reuid'' \<and> d = ''--regid'' \<and> f = ''--init-groups'' \<and> positiveID c \<and> positiveID e \<and>
        i = length pre + 6"
      using ok True by (auto simp: droppedPrivileges_def rest nth_append split: if_splits)
    then show "\<exists>ids own. properDrop required netns ids \<and> rest = dropArgs ids @ own \<and> i = length (pre @ dropArgs ids) \<and>
        (required \<longrightarrow> own \<noteq> [])"
      using True by (intro exI [of _ "Some (c, e)"] exI [of _ "g # own"]) (simp add: properDrop_def dropArgs_def rest)
  next
    assume "\<exists>ids own. properDrop required netns ids \<and> rest = dropArgs ids @ own \<and> i = length (pre @ dropArgs ids) \<and>
        (required \<longrightarrow> own \<noteq> [])"
    then obtain ids own where o: "properDrop required netns ids" "rest = dropArgs ids @ own" "i = length (pre @ dropArgs ids)" "own \<noteq> []"
      using True by blast
    then obtain uid gid where ids: "ids = Some (uid, gid)" using True by (auto simp: properDrop_def split: option.splits)
    obtain x xs where own: "own = x # xs" using o(4) by (cases own) auto
    show "droppedPrivileges required netns (pre @ rest) (length pre) = Inr i"
      using o True by (simp add: droppedPrivileges_def properDrop_def ids dropArgs_def nth_append own)
  qed
next
  case False
  then show ?thesis by (auto simp: droppedPrivileges_def properDrop_def dropArgs_def split: option.splits)
qed

definition recordedCommand :: "(string \<times> string) option \<Rightarrow> CommandConfig \<Rightarrow> string \<Rightarrow> string \<Rightarrow> string list" where
  "recordedCommand ids cmd netns cpus =
     namespaceArgs netns @ dropArgs ids @ cpuArgs cpus @ Path cmd # CmdArgs cmd"

lemma accepted_record:
  assumes planned: "plannedProcess lib cfg p = Inr (cmd, netns, cpus)"
  shows "ValidateRecordedProcessCommand lib cfg p required = Inr () \<longleftrightarrow>
    (\<exists>ids. properDrop required netns ids \<and> prCommand p = recordedCommand ids cmd netns cpus)"
proof
  assume "ValidateRecordedProcessCommand lib cfg p required = Inr ()"
  then obtain i j k where i: "enteredNamespace netns (prCommand p) = Inr i"
    and j: "droppedPrivileges required netns (prCommand p) i = Inr j"
    and k: "usedCPUs cpus (prCommand p) j = Inr k" and own: "drop k (prCommand p) = Path cmd # CmdArgs cmd"
    by (auto simp: ValidateRecordedProcessCommand_def planned rbind_eq_Inr_iff fail_if_def split: if_splits)
  obtain rest where r: "i = length (namespaceArgs netns)" "prCommand p = namespaceArgs netns @ rest"
    using i by (auto simp: enteredNamespace_Inr)
  obtain ids rest' where s: "properDrop required netns ids" "rest = dropArgs ids @ rest'" "j = length (namespaceArgs netns @ dropArgs ids)"
    using j by (auto simp: r droppedPrivileges_Inr)
  have "prCommand p = (namespaceArgs netns @ dropArgs ids) @ rest'" by (simp add: r s)
  moreover from this obtain own' where "rest' = cpuArgs cpus @ own'" "k = length ((namespaceArgs netns @ dropArgs ids) @ cpuArgs cpus)"
    using k unfolding s(3) by (auto simp only: usedCPUs_Inr)
  ultimately show "\<exists>ids. properDrop required netns ids \<and> prCommand p = recordedCommand ids cmd netns cpus"
    using s(1) own by (auto simp: recordedCommand_def)
next
  assume "\<exists>ids. properDrop required netns ids \<and> prCommand p = recordedCommand ids cmd netns cpus"
  then obtain ids where ids: "properDrop required netns ids"
      "prCommand p = (namespaceArgs netns @ dropArgs ids) @ cpuArgs cpus @ Path cmd # CmdArgs cmd"
    by (auto simp: recordedCommand_def)
  have "enteredNamespace netns (prCommand p) = Inr (length (namespaceArgs netns))" by (simp add: enteredNamespace_Inr ids(2))
  moreover have "droppedPrivileges required netns (prCommand p) (length (namespaceArgs netns)) = Inr (length (namespaceArgs netns @ dropArgs ids))"
    using ids(1) droppedPrivileges_Inr [of required netns "namespaceArgs netns" "dropArgs ids @ cpuArgs cpus @ Path cmd # CmdArgs cmd"]
    by (auto simp: ids(2))
  moreover have "usedCPUs cpus (prCommand p) (length (namespaceArgs netns @ dropArgs ids)) =
      Inr (length ((namespaceArgs netns @ dropArgs ids) @ cpuArgs cpus))"
    unfolding ids(2) usedCPUs_Inr by blast
  ultimately show "ValidateRecordedProcessCommand lib cfg p required = Inr ()"
    by (simp add: ValidateRecordedProcessCommand_def planned fail_if_def ids(2))
qed

text \<open>The command that \<open>Run\<close> starts, as one of the recorded shape.\<close>

definition usedDrop :: "string \<Rightarrow> (string \<times> string) option \<Rightarrow> (string \<times> string) option" where
  "usedDrop netns sudo = (if netns = [] then None
     else case sudo of None \<Rightarrow> None | Some (uid, gid) \<Rightarrow> if uid \<noteq> [] \<and> gid \<noteq> [] then Some (uid, gid) else None)"

lemma launched_recorded: "launchedCommand sudo cmd netns cpus = recordedCommand (usedDrop netns sudo) cmd netns cpus"
  by (simp add: launchedCommand_def namespaceCommand_def recordedCommand_def usedDrop_def namespaceArgs_def dropArgs_def cpuArgs_def
    split: option.split)

lemma recordedCommand_ids [simp]: "recordedCommand ids cmd netns cpus = recordedCommand ids' cmd netns cpus \<longleftrightarrow> ids = ids'"
  by (auto simp: recordedCommand_def dropArgs_def split: option.splits)

lemma properDrop_used:
  "properDrop required netns (usedDrop netns sudo) \<longleftrightarrow> (case usedDrop netns sudo of None \<Rightarrow> \<not> required
     | Some (uid, gid) \<Rightarrow> required \<and> positiveID uid \<and> positiveID gid)"
  by (auto simp: properDrop_def usedDrop_def split: option.splits)

section \<open>The processes of a run\<close>

text \<open>What the record of a process keeps of its start, whatever happens to the process afterwards.\<close>

definition asPlanned :: "library \<Rightarrow> RunConfig \<Rightarrow> (string \<times> string) option \<Rightarrow> ProcessResult \<Rightarrow> bool" where
  "asPlanned lib cfg sudo p \<longleftrightarrow> (\<exists>cmd netns cpus. plannedProcess lib cfg p = Inr (cmd, netns, cpus) \<and>
     netns \<in> {fst (namespaces lib cfg), snd (namespaces lib cfg)} \<and> prCommand p = launchedCommand sudo cmd netns cpus)"

definition allPlanned :: "library \<Rightarrow> RunConfig \<Rightarrow> (string \<times> string) option \<Rightarrow> ProcessResult list \<Rightarrow> bool" where
  "allPlanned lib cfg sudo ps \<longleftrightarrow> list_all (asPlanned lib cfg sudo) ps"

lemma allPlanned_simps [simp]:
  "allPlanned lib cfg sudo []" "allPlanned lib cfg sudo (ps @ [p]) \<longleftrightarrow> allPlanned lib cfg sudo ps \<and> asPlanned lib cfg sudo p"
  by (auto simp: allPlanned_def)

lemma asPlanned_exited [simp]:
  "asPlanned lib cfg sudo (p\<lparr>prExited := x, prExitCode := y, prError := z\<rparr>) = asPlanned lib cfg sudo p"
  by (simp add: asPlanned_def plannedProcess_def)

lemma asPlanned_server:
  "asPlanned lib cfg sudo ((newProcess ''server'' (- 1) 0 0 0 out)\<lparr>prPID := pid,
     prCommand := launchedCommand sudo (serverCommand cfg) (fst (namespaces lib cfg)) (cServerCPUs cfg)\<rparr>)"
  by (auto simp: asPlanned_def plannedProcess_def newProcess_def serverCommand_def namespaces_def Let_def split: option.split)

lemma asPlanned_client:
  assumes "c \<in> set (clientLaunches cfg)"
  shows "asPlanned lib cfg sudo ((newProcess ''client'' (clProcIndex c) (clConns c) (clOriginIDStart c) (clOriginIDEnd c) out)
     \<lparr>prPID := pid, prCommand := launchedCommand sudo (clCommand c) (snd (namespaces lib cfg)) (cClientCPUs cfg)\<rparr>)"
  using assms
  by (auto simp: asPlanned_def plannedProcess_def newProcess_def clientLaunches_def namespaces_def Let_def split: option.split)

lemma applyWaitEvent_planned: "allPlanned lib cfg sudo ps \<Longrightarrow> allPlanned lib cfg sudo (applyWaitEvent ev ps)"
  by (auto simp: applyWaitEvent_def allPlanned_def list_all_length nth_list_update Let_def split: prod.split)

lemma startOne_planned:
  assumes "allPlanned lib cfg sudo (suProcesses su)"
    and "\<And>pid. asPlanned lib cfg sudo (p\<lparr>prPID := pid, prCommand := launched\<rparr>)"
  shows "allPlanned lib cfg sudo (suProcesses (startOne what p launched answer su))"
  using assms by (cases answer) (simp_all add: startOne_def)

lemma startClients_planned:
  assumes "\<And>c su. c \<in> set cs \<Longrightarrow> allPlanned lib cfg sudo (suProcesses su) \<Longrightarrow> allPlanned lib cfg sudo (suProcesses (start c su))"
  shows "allPlanned lib cfg sudo (suProcesses su) \<Longrightarrow> allPlanned lib cfg sudo (suProcesses (startClients start cs su))"
  using assms by (induction cs arbitrary: su) simp_all

lemma launchAll_planned: "allPlanned lib cfg (lnSudo a) (suProcesses (launchAll lib cfg a extra))"
proof -
  define su where "su = \<lparr>suProcesses = [], suExtra = extra, suSUT = [], suWaits = 0, suOK = True\<rparr>"
  have server: "allPlanned lib cfg (lnSudo a) (suProcesses (startServer lib cfg a su))"
    unfolding startServer_def by (rule startOne_planned) (simp_all add: su_def asPlanned_server)
  have ready: "allPlanned lib cfg (lnSudo a) (suProcesses (awaitReady answer t))"
    if "allPlanned lib cfg (lnSudo a) (suProcesses t)" for answer t
    using that by (cases answer) (simp_all add: awaitReady_def failStart_def applyWaitEvent_planned Let_def)
  have client: "allPlanned lib cfg (lnSudo a) (suProcesses (startClient lib cfg a c t))"
    if "c \<in> set (clientLaunches cfg)" "allPlanned lib cfg (lnSudo a) (suProcesses t)" for c t
    unfolding startClient_def by (rule startOne_planned) (simp_all add: that asPlanned_client)
  show ?thesis
    unfolding launchAll_def su_def [symmetric] by (rule startClients_planned) (simp_all add: client ready server)
qed

lemma drainWaits_planned: "allPlanned lib cfg sudo ps \<Longrightarrow> allPlanned lib cfg sudo (fst (drainWaits evs n ps))"
  by (induction evs n ps rule: drainWaits.induct) (simp_all add: applyWaitEvent_planned)

lemma supervise_planned:
  "supervise inputs p = Some (q, canceled) \<Longrightarrow> allPlanned lib cfg sudo (pgProcesses p) \<Longrightarrow> allPlanned lib cfg sudo (pgProcesses q)"
  by (induction inputs p rule: supervise.induct) (auto simp: Let_def applyWaitEvent_planned split: option.splits)

lemma superviseRun_planned:
  assumes "superviseRun txt c a su = Inr p" and "allPlanned lib cfg sudo (suProcesses su)"
  shows "allPlanned lib cfg sudo (pgProcesses p)"
proof -
  obtain q where q: "endOfRun (txDuration txt (cProcessExitTimeout c)) (enAlive a) (enInputs a) (enLate a) (enWaits a) (enKilled a)
      (startProgress su) = Some q" "p = afterWatcher c (enWatcher a) q"
    using assms(1) by (auto simp: superviseRun_def split: option.splits)
  obtain r canceled where r: "supervise (enInputs a) (startProgress su) = Some (r, canceled)"
      and e: "q = exitFailures (enAlive a) (awaitProcesses (txDuration txt (cProcessExitTimeout c)) (enAlive a) (enWaits a) (enKilled a)
        (awaitLate (enLate a) r))"
    using q(1) by (auto simp: endOfRun_def)
  have "allPlanned lib cfg sudo (pgProcesses r)"
    using supervise_planned [OF r] assms(2) by (simp add: startProgress_def)
  moreover have "pgProcesses (awaitLate (enLate a) r) = pgProcesses r"
    by (auto simp: awaitLate_def Let_def split: option.split prod.split)
  moreover have "allPlanned lib cfg sudo (pgProcesses (awaitProcesses t alive evs killed u))"
    if "allPlanned lib cfg sudo (pgProcesses u)" for t alive evs killed u
    using drainWaits_planned [OF that, of evs "pgRemaining u"] that
    by (auto simp: awaitProcesses_def Let_def intro: drainWaits_planned split: prod.splits bool.split)
  ultimately show ?thesis
    by (auto simp: q(2) e afterWatcher_def exitFailures_def split: option.split)
qed

text \<open>The phases of the link start nothing.\<close>

definition startsNothing :: "RunResult \<Rightarrow> (RunResult \<times> string list) phase \<Rightarrow> bool" where
  "startsNothing r phase \<longleftrightarrow> (case phase of Finish q input \<Rightarrow> ruProcesses q = ruProcesses r
     | Persisted q \<Rightarrow> ruProcesses q = ruProcesses r | Go (q, extra) \<Rightarrow> ruProcesses q = ruProcesses r)"

lemma resetLink_starts: "startsNothing r (resetLink a pair r)"
  by (auto simp: startsNothing_def resetLink_def readBefore_def updateNetem_def split: option.split prod.split)

lemma startsNothing_netem [simp]: "startsNothing (r\<lparr>ruNetem := x\<rparr>) phase = startsNothing r phase"
  by (cases phase) (simp_all add: startsNothing_def)

lemma startsNothing_update: "startsNothing (updateNetem h r) phase = startsNothing r phase"
  by (simp add: updateNetem_def)

lemma gateLink_starts: "startsNothing r (gateLink lib cfg a pair r)"
proof (cases "cNetemGateOff cfg")
  case False
  obtain report failure where g: "RunNetemGate lib pair (laPing a) (laIperf a) = (report, failure)"
    by (cases "RunNetemGate lib pair (laPing a) (laIperf a)")
  show ?thesis
  proof (cases "failure = None \<and> grFailures report = []")
    case True
    then show ?thesis using False resetLink_starts [of "updateNetem (\<lambda>n. n\<lparr>nmGate := Some report\<rparr>) r" a pair]
      by (simp add: gateLink_def g Let_def startsNothing_update)
  next
    case fails: False
    then show ?thesis using False by (auto simp: gateLink_def g Let_def startsNothing_def updateNetem_def split: option.split)
  qed
qed (simp add: gateLink_def resetLink_starts)

lemma readbackLink_starts: "startsNothing r (readbackLink lib cfg a pair r)"
proof (cases "DisableOffloads pair")
  case True
  define ev where "ev = ReadOffloadEvidence lib (laOffloads a) pair"
  show ?thesis
    using True gateLink_starts [of "updateNetem (\<lambda>n. n\<lparr>nmOffloads := Some ev\<rparr>) r" lib cfg a pair]
    by (auto simp: readbackLink_def Let_def startsNothing_update startsNothing_def [of _ "Finish _ _"] updateNetem_fields simp flip: ev_def)
qed (simp add: readbackLink_def gateLink_starts)

lemma prepareLink_starts: "startsNothing r (prepareLink lib cfg a r)"
proof (cases "cNetem cfg")
  case None
  then show ?thesis by (simp add: prepareLink_def startsNothing_def)
next
  case (Some n)
  define pair where "pair = pairSpec (executablePath lib) n"
  have go: "startsNothing r (readbackLink lib cfg a pair (r\<lparr>ruNetem := x\<rparr>))" for x
    using readbackLink_starts [of "r\<lparr>ruNetem := x\<rparr>" lib cfg a pair] by simp
  show ?thesis
  proof (cases "BuildSetupCommands pair")
    case up: (Inr up)
    show ?thesis
    proof (cases "BuildTeardownCommands pair")
      case down: (Inr down)
      obtain tried failure where run: "RunCommands (commandFailure (laExec a)) up = (tried, failure)"
        by (cases "RunCommands (commandFailure (laExec a)) up")
      show ?thesis
        using go [of "Some (newNetem pair up down)"]
        by (cases failure) (simp_all add: prepareLink_def Some Let_def up down run startsNothing_def flip: pair_def)
    qed (simp add: prepareLink_def Some Let_def up startsNothing_def flip: pair_def)
  qed (simp add: prepareLink_def Some Let_def startsNothing_def flip: pair_def)
qed

lemma finishMeasurement_processes: "finishMeasurement txt cfg fs r input = Finish q given \<Longrightarrow> ruProcesses q = ruProcesses r"
  by (auto simp: finishMeasurement_def Let_def split: sum.splits if_splits)

lemma readAfter_processes: "ruProcesses (fst (readAfter lib cfg a r)) = ruProcesses r"
  using readAfter_fields(2) by (cases "readAfter lib cfg a r") fastforce

lemma completeRun_planned:
  assumes "completeRun lib txt cfg a r su = Inr (Finish q input)" and "allPlanned l c sudo (suProcesses su)"
  shows "allPlanned l c sudo (ruProcesses q)"
proof -
  obtain p where "superviseRun txt cfg (raEnd a) su = Inr p" "ruProcesses q = pgProcesses p"
    using assms(1)
    by (auto simp: completeRun_def rbind_eq_Inr_iff case_prod_beta Let_def readAfter_processes withEvidence_def updateNetem_def
      dest!: finishMeasurement_processes)
  then show ?thesis using superviseRun_planned assms(2) by simp
qed

lemma abortRun_planned:
  assumes "abortRun lib cfg a r su = Inr (Finish q input)" and "allPlanned l c sudo (suProcesses su)"
  shows "allPlanned l c sudo (ruProcesses q)"
  using assms drainWaits_planned [OF assms(2)]
  by (auto simp: abortRun_def Let_def rbind_eq_Inr_iff withEvidence_def updateNetem_def)

lemma runProcesses_planned:
  assumes "runProcesses lib txt cfg a (r, extra) = Inr (Finish q input)" and "ruProcesses r = []"
  shows "allPlanned lib cfg (lnSudo (raLaunch a)) (ruProcesses q)"
proof (cases "raControl a")
  case None
  have run: "(if suOK (launchAll lib cfg (raLaunch a) extra) then completeRun lib txt cfg a r (launchAll lib cfg (raLaunch a) extra)
      else abortRun lib cfg a r (launchAll lib cfg (raLaunch a) extra)) = Inr (Finish q input)"
    using assms(1) by (simp add: runProcesses_def None Let_def split del: if_split)
  show ?thesis
    using run completeRun_planned [OF _ launchAll_planned] abortRun_planned [OF _ launchAll_planned]
    by (cases "suOK (launchAll lib cfg (raLaunch a) extra)") auto
qed (use assms in \<open>auto simp: runProcesses_def\<close>)

lemma finished_processes: "finishRunResult lib ev r input = Inr f \<Longrightarrow> ruProcesses f = ruProcesses r"
  by (auto elim!: finished_settled simp: settle_fields late_fields)

lemma checkTreatment_processes:
  "checkTreatment lib cfg s c = Finish q input \<Longrightarrow> ruProcesses q = []" "checkTreatment lib cfg s c = Go q \<Longrightarrow> ruProcesses q = []"
  "checkTreatment lib cfg s c = Persisted q \<Longrightarrow> ruProcesses q = []"
  by (auto simp: checkTreatment_def startResult_def Let_def split: prod.splits if_splits)

lemma runProcesses_finishes: "runProcesses lib txt cfg a x = Inr phase \<Longrightarrow> \<exists>q input. phase = Finish q input"
  using completeRun_measures abort_finishes
  by (cases x; cases "raControl a") (auto simp: runProcesses_def Let_def split: if_splits)

lemma runPhases_planned:
  assumes "runPhases lib txt cfg a = Inr phase"
  shows "allPlanned (library.truncate lib) cfg (lnSudo (raLaunch a))
    (case phase of Finish q input \<Rightarrow> ruProcesses q | Persisted q \<Rightarrow> ruProcesses q | Go q \<Rightarrow> ruProcesses q)"
proof (cases "checkTreatment lib cfg (raServerDescribe a) (raClientDescribe a)")
  case (Go s)
  note s = checkTreatment_processes(2) [OF Go]
  note link = prepareLink_starts [of s "library.truncate lib" cfg "raLink a"]
  show ?thesis
  proof (cases "prepareLink (library.truncate lib) cfg (raLink a) s")
    case (Finish q input)
    then have "phase = Finish q input" using assms Go by (simp add: runPhases_def)
    then show ?thesis using link s by (simp add: Finish startsNothing_def)
  next
    case (Persisted q)
    then have "phase = Persisted q" using assms Go by (simp add: runPhases_def)
    then show ?thesis using link s by (simp add: Persisted startsNothing_def)
  next
    case go: (Go x)
    obtain r extra where x: "x = (r, extra)" by (cases x)
    then have run: "runProcesses (library.truncate lib) txt cfg a (r, extra) = Inr phase" "ruProcesses r = []"
      using assms Go go link s by (simp_all add: runPhases_def startsNothing_def)
    then obtain q input where "phase = Finish q input"
      using runProcesses_finishes by blast
    then show ?thesis using runProcesses_planned run by simp
  qed
next
  case (Finish q input)
  then have "phase = Finish q input" using assms by (simp add: runPhases_def)
  then show ?thesis using checkTreatment_processes(1) [OF Finish] by simp
next
  case (Persisted q)
  then have "phase = Persisted q" using assms by (simp add: runPhases_def)
  then show ?thesis using checkTreatment_processes(3) [OF Persisted] by simp
qed

text \<open>
  C26. A recorded command is accepted exactly when it is the planned one: the arguments of the process,
  expanded from the template of its role, wrapped in the planned CPU set, in a change of user and group
  to two positive identifiers exactly when one is demanded, and in the planned network namespace.
\<close>

theorem recorded_command_iff:
  "ValidateRecordedProcessCommand lib cfg p required = Inr () \<longleftrightarrow>
     (\<exists>cmd netns cpus ids. plannedProcess lib cfg p = Inr (cmd, netns, cpus) \<and> properDrop required netns ids \<and>
        prCommand p = recordedCommand ids cmd netns cpus)"
proof (cases "plannedProcess lib cfg p")
  case (Inl e)
  then show ?thesis by (simp add: ValidateRecordedProcessCommand_def)
next
  case (Inr plan)
  obtain cmd netns cpus where "plan = (cmd, netns, cpus)" by (cases plan)
  then show ?thesis using accepted_record [of lib cfg p] Inr by simp
qed

text \<open>
  C25. Every process of a result, finished or refused, aborted or complete, is recorded with the command
  its validator plans for it, in the planned namespace and CPU set and with the privileges dropped to the
  identifiers of \<open>sudo\<close> when the run entered a namespace under \<open>sudo\<close>, and not otherwise. The only thing the validator
  can refuse in it is the drop: it accepts the record exactly when a drop is demanded and was made to two
  positive numeric identifiers, or is not demanded and was not made.
\<close>

theorem results_record_their_commands:
  assumes "runBenchmark lib txt cfg a = Inr f" and "p \<in> set (ruProcesses f)"
  shows "\<exists>cmd netns cpus. plannedProcess (library.truncate lib) (runDefaults cfg) p = Inr (cmd, netns, cpus) \<and>
    prCommand p = recordedCommand (usedDrop netns (lnSudo (raLaunch a))) cmd netns cpus \<and>
    (\<forall>required. ValidateRecordedProcessCommand (library.truncate lib) (runDefaults cfg) p required = Inr () \<longleftrightarrow>
      (case usedDrop netns (lnSudo (raLaunch a)) of None \<Rightarrow> \<not> required
       | Some (uid, gid) \<Rightarrow> required \<and> positiveID uid \<and> positiveID gid))"
proof -
  define c where "c = runDefaults cfg"
  define l where "l = library.truncate lib"
  obtain phase ev where phase: "runPhases lib txt c a = Inr phase"
      and f: "(case phase of Persisted r \<Rightarrow> Inr r | Finish r input \<Rightarrow> finishRunResult l ev r input | Go r \<Rightarrow> Inr r) = Inr f"
    using assms(1) unfolding runBenchmark_def Let_def c_def [symmetric] l_def [symmetric] by (auto simp: rbind_eq_Inr_iff)
  have "allPlanned l c (lnSudo (raLaunch a)) (ruProcesses f)"
    using runPhases_planned [OF phase] f by (cases phase) (auto simp: l_def dest: finished_processes)
  then obtain cmd netns cpus where p: "plannedProcess l c p = Inr (cmd, netns, cpus)"
      "prCommand p = launchedCommand (lnSudo (raLaunch a)) cmd netns cpus"
    using assms(2) by (auto simp: allPlanned_def list_all_iff asPlanned_def)
  then show ?thesis
    using accepted_record [OF p(1)] by (auto simp: launched_recorded properDrop_used simp flip: c_def l_def)
qed

end
