(* ===== verification/TreatmentProperties.thy ===== *)
theory TreatmentProperties
  imports Treatment
begin

text \<open>
  What an accepted treatment says of both endpoints: the same mapping with exactly the two classes, each
  realized with the guarantee it claims, and a description that fits the run.
\<close>

section \<open>Specifications\<close>

definition delivers :: "string \<Rightarrow> ClassMappingSpec \<Rightarrow> bool" where
  "delivers c s \<longleftrightarrow> (if c = ClassLossTolerant then Delivery s = ClassMappingDeliveryBestEffort
     else Delivery s = ClassMappingDeliveryReliable \<and> Ordering s = ClassMappingOrderingOrdered)"

text \<open>
  A native or emulated realization gives the guarantee of its class, the fallback is a reliable one for
  the loss-tolerant class, and an unsupported class does not claim what it lacks.
\<close>

definition soundSpec :: "string \<Rightarrow> ClassMappingSpec \<Rightarrow> bool" where
  "soundSpec c s \<longleftrightarrow> trimSpace (Primitive s) \<noteq> [] \<and>
     Delivery s \<in> {ClassMappingDeliveryBestEffort, ClassMappingDeliveryReliable} \<and>
     Ordering s \<in> {ClassMappingOrderingUnordered, ClassMappingOrderingOrdered} \<and>
     (Realization s \<in> {ClassMappingRealizationNative, ClassMappingRealizationEmulated} \<and> delivers c s \<or>
      Realization s = ClassMappingRealizationReliableFallback \<and> c = ClassLossTolerant \<and> Delivery s = ClassMappingDeliveryReliable \<or>
      Realization s = ClassMappingRealizationUnsupported \<and> \<not> delivers c s)"

lemma realizations_differ:
  "ClassMappingRealizationNative \<noteq> ClassMappingRealizationReliableFallback"
  "ClassMappingRealizationNative \<noteq> ClassMappingRealizationUnsupported"
  "ClassMappingRealizationEmulated \<noteq> ClassMappingRealizationReliableFallback"
  "ClassMappingRealizationEmulated \<noteq> ClassMappingRealizationUnsupported"
  "ClassMappingRealizationReliableFallback \<noteq> ClassMappingRealizationUnsupported" "ClassLossTolerant \<noteq> ClassMustDeliver"
  by (simp_all add: ClassMappingRealizationNative_def ClassMappingRealizationEmulated_def ClassMappingRealizationReliableFallback_def
    ClassMappingRealizationUnsupported_def ClassLossTolerant_def ClassMustDeliver_def)

lemma validateClassMappingSpec_Nil:
  assumes "c \<in> {ClassLossTolerant, ClassMustDeliver}"
  shows "validateClassMappingSpec context c s = [] \<longleftrightarrow> soundSpec c s"
  using assms realizations_differ
  by (auto simp: validateClassMappingSpec_def soundSpec_def delivers_def Let_def)

lemma decSpec_specJSON: "decSpec (specJSON s) = Some s"
  by (cases s) (simp add: decSpec_def specJSON_def decodeStruct_def lookupField_def decString_def)

section \<open>Mappings\<close>

lemma decEntries_distinct:
  "decEntries dec m kvs = Some m' \<Longrightarrow> distinct (map fst m) \<Longrightarrow> distinct (map fst m')"
  by (induction kvs arbitrary: m) (auto simp: distinct_update split: option.splits)

lemma decMapping_canonical:
  assumes "decMapping j = Some s"
  shows "sorted (map fst s) \<and> distinct (map fst s)"
proof -
  obtain kvs m where m: "decEntries decSpec [] kvs = Some m" "s = sort_key fst m"
    using assms by (auto simp: decMapping_def split: json.splits)
  have "mset (map fst s) = mset (map fst m)" by (simp add: m(2))
  then have "distinct (map fst s) = distinct (map fst m)" by (rule mset_eq_imp_distinct_iff)
  then show ?thesis using decEntries_distinct [OF m(1)] by (simp add: m(2))
qed

lemma described_canonical: "describedClassMapping lib d = Some s \<Longrightarrow> sorted (map fst s) \<and> distinct (map fst s)"
  by (auto simp: describedClassMapping_def bind_eq_Some_conv decMapping_canonical split: if_splits)

lemma accepted_class:
  assumes "snd (classReasons lib context entries c) = []" and "c \<in> {ClassLossTolerant, ClassMustDeliver}"
  shows "\<exists>raw s. entries c = Some raw \<and> decSpec raw = Some s \<and> fst (classReasons lib context entries c) = [(c, s)] \<and> soundSpec c s"
proof -
  obtain raw where raw: "entries c = Some raw" "raw \<noteq> JNull"
    using assms(1) by (auto simp: classReasons_def split: option.splits if_splits)
  obtain object where object: "requireMembers lib raw (context @ '' class_mapping.'' @ c) specMembers = Inr object"
    using assms(1) raw by (auto simp: classReasons_def split: sum.splits)
  obtain s where s: "decSpec raw = Some s"
    using assms(1) raw object by (auto simp: classReasons_def Let_def split: option.splits)
  have "validateClassMappingSpec context c s = []"
    using assms(1) raw object s by (simp add: classReasons_def Let_def)
  then show ?thesis
    using raw object s validateClassMappingSpec_Nil [OF assms(2)] by (simp add: classReasons_def Let_def)
qed

lemma classes_ordered: "metricClassNames = [ClassLossTolerant, ClassMustDeliver]" "ClassLossTolerant \<le> ClassMustDeliver"
  by (simp_all add: metricClassNames_def ClassLossTolerant_def ClassMustDeliver_def)

text \<open>A mapping without reasons has exactly the two classes, both sound.\<close>

lemma accepted_mapping:
  assumes "snd (validateClassMapping lib data context) = []"
  obtains lt md entries where "rawObject data = Some entries" "set (memberNames data) \<subseteq> {ClassLossTolerant, ClassMustDeliver}"
    "\<exists>raw. entries ClassLossTolerant = Some raw \<and> decSpec raw = Some lt"
    "\<exists>raw. entries ClassMustDeliver = Some raw \<and> decSpec raw = Some md"
    "soundSpec ClassLossTolerant lt" "soundSpec ClassMustDeliver md"
    "fst (validateClassMapping lib data context) = [(ClassLossTolerant, lt), (ClassMustDeliver, md)]"
proof -
  obtain entries where e: "rawObject data = Some entries"
    using assms by (auto simp: validateClassMapping_def split: option.splits)
  have nil: "sort xs = [] \<longleftrightarrow> xs = []" for xs :: "string list" by (metis set_sort set_empty)
  have names: "filter (\<lambda>name. name \<notin> {ClassLossTolerant, ClassMustDeliver}) (memberNames data) = []"
    and judged: "snd (classReasons lib context entries ClassLossTolerant) = []" "snd (classReasons lib context entries ClassMustDeliver) = []"
    using assms by (simp_all add: validateClassMapping_def e Let_def nil classes_ordered(1))
  obtain lt where lt: "\<exists>raw. entries ClassLossTolerant = Some raw \<and> decSpec raw = Some lt"
      "fst (classReasons lib context entries ClassLossTolerant) = [(ClassLossTolerant, lt)]" "soundSpec ClassLossTolerant lt"
    using accepted_class [OF judged(1)] by auto
  obtain md where md: "\<exists>raw. entries ClassMustDeliver = Some raw \<and> decSpec raw = Some md"
      "fst (classReasons lib context entries ClassMustDeliver) = [(ClassMustDeliver, md)]" "soundSpec ClassMustDeliver md"
    using accepted_class [OF judged(2)] by auto
  have "set (memberNames data) \<subseteq> {ClassLossTolerant, ClassMustDeliver}"
    using names by (auto simp: filter_empty_conv)
  moreover have "fst (validateClassMapping lib data context) = [(ClassLossTolerant, lt), (ClassMustDeliver, md)]"
    using classes_ordered(2) by (simp add: validateClassMapping_def e Let_def classes_ordered(1) lt(2) md(2))
  ultimately show thesis using that e lt(1,3) md(1,3) by blast
qed

lemma map_of_rev_same: "distinct (map fst kvs) \<Longrightarrow> map_of (rev kvs) = map_of kvs"
proof (induction kvs)
  case (Cons x kvs)
  then have "map_of kvs (fst x) = None" by (simp add: map_of_eq_None_iff)
  then show ?case using Cons by (auto simp: map_add_def fun_eq_iff split: option.split)
qed simp

text \<open>A canonical mapping is the one its own JSON is validated to.\<close>

lemma canonical_mapping:
  assumes "snd (validateClassMapping lib (mappingJSON s) context) = []" and "sorted (map fst s) \<and> distinct (map fst s)"
  shows "\<exists>lt md. s = [(ClassLossTolerant, lt), (ClassMustDeliver, md)] \<and> soundSpec ClassLossTolerant lt \<and> soundSpec ClassMustDeliver md"
proof -
  obtain lt md entries where m: "rawObject (mappingJSON s) = Some entries"
    "set (memberNames (mappingJSON s)) \<subseteq> {ClassLossTolerant, ClassMustDeliver}"
    "\<exists>raw. entries ClassLossTolerant = Some raw \<and> decSpec raw = Some lt"
    "\<exists>raw. entries ClassMustDeliver = Some raw \<and> decSpec raw = Some md"
    "soundSpec ClassLossTolerant lt" "soundSpec ClassMustDeliver md"
    by (rule accepted_mapping [OF assms(1)])
  have keys: "map fst (map (\<lambda>(name, sp). (name, specJSON sp)) s) = map fst s" by (simp add: case_prod_beta)
  have "set (memberNames (mappingJSON s)) = fst ` set s"
    by (simp add: memberNames_def mappingJSON_def case_prod_beta image_image)
  moreover have entries: "entries c = map_option specJSON (map_of s c)" for c
  proof -
    have "entries = map_of (map (\<lambda>(name, sp). (name, specJSON sp)) s)"
      using m(1) assms(2) map_of_rev_same [of "map (\<lambda>(name, sp). (name, specJSON sp)) s"] unfolding keys
      by (simp add: mappingJSON_def)
    then show ?thesis by (simp add: map_of_map)
  qed
  moreover from this have "map_of s ClassLossTolerant \<noteq> None" "map_of s ClassMustDeliver \<noteq> None" using m(3,4) by auto
  then have "ClassLossTolerant \<in> fst ` set s" "ClassMustDeliver \<in> fst ` set s" by (simp_all add: map_of_eq_None_iff)
  ultimately have "set (map fst s) = set [ClassLossTolerant, ClassMustDeliver]" using m(2) by auto
  then have "map fst s = [ClassLossTolerant, ClassMustDeliver]"
    using assms(2) classes_ordered(2) realizations_differ(6) sorted_distinct_set_unique [of "map fst s" "[ClassLossTolerant, ClassMustDeliver]"]
    by simp
  then obtain a b where s: "s = [(ClassLossTolerant, a), (ClassMustDeliver, b)]"
    by (auto simp: map_eq_Cons_conv)
  have "a = lt" "b = md"
    using m(3,4) entries realizations_differ(6) by (auto simp: s decSpec_specJSON)
  then show ?thesis using s m(5,6) by blast
qed

section \<open>The contract\<close>

text \<open>The description of an endpoint that fits the run.\<close>

definition advertises :: "describer \<Rightarrow> RunConfig \<Rightarrow> CommandDescription \<Rightarrow> bool" where
  "advertises lib cfg d \<longleftrightarrow> cdError d = [] \<and> (\<exists>j a. scanJSON lib (cdDescription d) = Some j \<and> decAdvertised j = Some a \<and>
     avTransport a = cTransport cfg \<and> avPayloadPattern a = payloadPatternSplitMix64V1 \<and> avWireCompression a = wireCompressionNone \<and>
     (case cScenario cfg of None \<Rightarrow> True
      | Some s \<Rightarrow> scKind s \<in> set (avScenarios a) \<and> scenarioMaxPayload s \<le> avMaxPayloadBytes a))"

lemma accepted_endpoint:
  assumes "classifyEndpoint lib cfg (role, d) = ([], [])"
  shows "advertises lib cfg d"
proof -
  have ok: "cdError d = []" using assms by (auto simp: classifyEndpoint_def split: if_splits)
  obtain j object where j: "requireDescription lib (cdDescription d) (role @ '' --describe'') advertisedMembers = Inr (j, object)"
    using assms ok by (auto simp: classifyEndpoint_def Let_def split: sum.splits)
  obtain a where a: "decAdvertised j = Some a"
    using assms ok j by (auto simp: classifyEndpoint_def Let_def split: option.splits)
  have "advertisedReasons (role @ '' --describe'') cfg a = []" "unsupportedReasons (role @ '' --describe'') (cScenario cfg) a = []"
    using assms ok j a by (simp_all add: classifyEndpoint_def Let_def)
  moreover have "scanJSON lib (cdDescription d) = Some j"
    using j by (auto simp: requireDescription_def rbind_eq_Inr_iff split: option.splits)
  ultimately show ?thesis
    using ok a by (auto simp: advertises_def advertisedReasons_def unsupportedReasons_def containsString_def list_ex_iff split: option.splits)
qed

text \<open>
  C2. A run starts only with endpoints that say the same of themselves. When the contract accepts the
  treatment a run collects, both commands described themselves for the transport, the payload pattern
  and the scenario of the run, and both advertise one mapping with exactly the two traffic classes, each
  realized with the guarantee it claims; the mapping is recorded with its hash, which is the expected one
  if the configuration names any.
\<close>

theorem accepted_treatment_is_sound:
  assumes "ValidateScenarioTreatmentContract lib (Some (collectTreatment lib cfg serverRun clientRun)) cfg = ([], [])"
  shows "\<exists>lt md. let t = collectTreatment lib cfg serverRun clientRun; m = [(ClassLossTolerant, lt), (ClassMustDeliver, md)]
    in cmServer (trClassMapping t) = Some m \<and> cmClient (trClassMapping t) = Some m \<and> cmMatch (trClassMapping t) \<and>
      soundSpec ClassLossTolerant lt \<and> soundSpec ClassMustDeliver md \<and>
      cmServerSHA256 (trClassMapping t) = hashMapping lib m \<and>
      cClassMappingSHA256 cfg \<in> {[], hashMapping lib m} \<and>
      advertises lib cfg (trServer t) \<and> advertises lib cfg (trClient t)"
proof -
  define t where "t = collectTreatment lib cfg serverRun clientRun"
  define r where "r = trClassMapping t"
  have r: "r = collectClassMappingRecord lib (trServer t) (trClient t)"
    by (simp add: r_def t_def collectTreatment_def Let_def)
  have nil: "sort xs = [] \<longleftrightarrow> xs = []" for xs :: "string list" by (metis set_sort set_empty)
  have contract: "ValidateTreatmentClassMappingEvidence lib (Some t) (cTransport cfg) = []"
      "classifyEndpoint lib cfg (''server'', trServer t) = ([], [])" "classifyEndpoint lib cfg (''client'', trClient t) = ([], [])"
      "cClassMappingSHA256 cfg = [] \<or> cmServerSHA256 r = cClassMappingSHA256 cfg"
    using assms unfolding t_def [symmetric] by (auto simp: ValidateScenarioTreatmentContract_def classifyScenarioTreatment_def Let_def r_def prod_eq_iff)
  have "ValidateClassMappingRecord lib r = []"
    using contract(1) by (auto simp: ValidateTreatmentClassMappingEvidence_def nil validateStructuredClassMappingEvidence_def r_def
      split: prod.splits)
  then have reasons: "endpointMappingReasons lib ''server'' (cmServer r) (cmServerSHA256 r) = []" "actualMatch r" "cmMatch r"
    by (simp_all add: ValidateClassMappingRecord_def nil)
  obtain m where m: "cmServer r = Some m" "cmClient r = Some m"
    using reasons(2) by (auto simp: actualMatch_def canonicalClassMappingsEqual_def split: option.splits)
  have valid: "snd (validateClassMapping lib (mappingJSON m) (''server'' @ '' treatment record'')) = []" "cmServerSHA256 r = hashMapping lib m"
    using reasons(1) by (simp_all add: endpointMappingReasons_def m(1))
  have "describedClassMapping lib (cdDescription (trServer t)) = Some m"
    using m(1) by (simp add: r collectClassMappingRecord_def Let_def)
  from canonical_mapping [OF valid(1) described_canonical [OF this]] obtain lt md where
    "m = [(ClassLossTolerant, lt), (ClassMustDeliver, md)]" "soundSpec ClassLossTolerant lt" "soundSpec ClassMustDeliver md"
    by blast
  then show ?thesis
    using m valid(2) reasons(3) contract(4) accepted_endpoint [OF contract(2)] accepted_endpoint [OF contract(3)]
    by (auto simp: Let_def r_def simp flip: t_def)
qed

end
