(* ===== verification/SampleRun.thy ===== *)
theory SampleRun
  imports RunProperties ProcessCommand TreatmentProperties SampleArtifact
begin

text \<open>
  A run that passes, for the property of a whole run: one server and one client described, started and
  exited with status zero, over no emulated link, with the sample metrics artifact. And a run over a link,
  started through \<open>sudo\<close>, that is aborted.
\<close>

definition sampleMapping :: class_mapping where
  "sampleMapping =
     [(ClassLossTolerant, \<lparr>Primitive = ''datagram'', Delivery = ClassMappingDeliveryBestEffort,
         Ordering = ClassMappingOrderingUnordered, Realization = ClassMappingRealizationNative\<rparr>),
      (ClassMustDeliver, \<lparr>Primitive = ''stream'', Delivery = ClassMappingDeliveryReliable,
         Ordering = ClassMappingOrderingOrdered, Realization = ClassMappingRealizationNative\<rparr>)]"

definition sampleDescription :: json where
  "sampleDescription = JObj [(''transport'', JStr ''enet''), (''class_mapping'', mappingJSON sampleMapping),
     (''coalescing'', JStr ''off''), (''cc_algo'', JStr ''none''), (''thread_model'', JStr ''single''),
     (''encryption'', JBool False), (''payload_pattern'', JStr payloadPatternSplitMix64V1),
     (''wire_compression'', JStr wireCompressionNone), (''max_payload_bytes'', JNum ''1200''),
     (''scenarios'', JArr []), (''tuning'', JArr [])]"

definition sampleDescriber :: describer where
  "sampleDescriber = \<lparr>scanJSON = (\<lambda>_. Some sampleDescription), jsonErrorText = (\<lambda>_. ''bad''), hashOffloads = (\<lambda>_. ''ab''),
     executablePath = None, hashWords = (\<lambda>_. ''cd''), randomDraws = (\<lambda>_ _. FFin 0), valueErrorText = (\<lambda>_ _. ''bad''),
     hashMapping = (\<lambda>_. ''ef''), hashRecord = (\<lambda>_. ''01'')\<rparr>"

definition sampleDescribe :: describeRun where
  "sampleDescribe = \<lparr>drFingerprint = ''f'', drResolved = ''server'', drAbsolute = Inr ''/server'', drFailure = None,
     drStdout = ''text'', drStderr = []\<rparr>"

definition passConfig :: RunConfig where
  "passConfig = sampleConfig\<lparr>cPreset := [], cClientProcs := 1, cAttemptedThreshold := FFin (1 / 2)\<rparr>"

definition passDefaults :: RunConfig where
  "passDefaults = passConfig\<lparr>cControlTimeout := 30 * second, cProcessExitTimeout := 5 * second\<rparr>"

lemma pass_defaults: "runDefaults passConfig = passDefaults" "validateRunConfig passDefaults = Inr ()"
proof -
  have "IsSafeName ''enet''" by code_simp
  then show "runDefaults passConfig = passDefaults" "validateRunConfig passDefaults = Inr ()"
    by (simp_all add: runDefaults_def validateRunConfig_def validateNetemSchedule_def joinErrors_def Let_def passDefaults_def passConfig_def
      sampleConfig_def second_def)
qed

lemma sample_contract:
  "ValidateScenarioTreatmentContract sampleDescriber
     (Some (collectTreatment sampleDescriber passDefaults sampleDescribe sampleDescribe)) passDefaults = ([], [])"
  by code_simp

lemma pass_treatment:
  "checkTreatment sampleDescriber passDefaults sampleDescribe sampleDescribe =
     Go ((startResult passDefaults)\<lparr>ruTreatment := Some (collectTreatment sampleDescriber passDefaults sampleDescribe sampleDescribe)\<rparr>)"
  using sample_contract by (simp add: checkTreatment_def Let_def)

lemma accepted_treatment_is_sound_witness:
  "\<exists>lt md. cmClient (trClassMapping (collectTreatment sampleDescriber passDefaults sampleDescribe sampleDescribe)) =
       Some [(ClassLossTolerant, lt), (ClassMustDeliver, md)] \<and> soundSpec ClassMustDeliver md"
  using accepted_treatment_is_sound [OF sample_contract] by (auto simp: Let_def)

definition unasked :: "string + int" where "unasked = Inr 0"

definition passLaunch :: launchAnswers where
  "passLaunch = \<lparr>lnSudo = None, lnServer = Inr 7, lnReady = ServerReady, lnClients = (\<lambda>_. Inr 8), lnAbortWaits = [],
     lnAbortControl = (None, None)\<rparr>"

definition passEnd :: endAnswers where
  "passEnd = \<lparr>enInputs = [ControlReturned (Some sampleControl) None], enLate = (None, None),
     enWaits = [\<lparr>weIndex = 0, weError = None\<rparr>, \<lparr>weIndex = 1, weError = None\<rparr>], enKilled = [], enAlive = True,
     enWatcher = None, enSampler = [], enUDP = (\<lambda>_. ([], None)),
     enFiles = \<lparr>readDir = (\<lambda>_. None), readArtifact = (\<lambda>path. Some (sampleArtifact path))\<rparr>\<rparr>"

definition quietSampling :: sampling where
  "quietSampling = \<lparr>smStart = unasked, smCounter = (\<lambda>_ _. Inr 0), smTC = (\<lambda>_ _. (unasked, ([], None), unasked)), smFinish = unasked\<rparr>"

definition passAnswers :: runAnswers where
  "passAnswers = \<lparr>raServerDescribe = sampleDescribe, raClientDescribe = sampleDescribe,
     raLink = \<lparr>laExec = (\<lambda>_. None), laCleanup = (\<lambda>_. None), laOffloads = (\<lambda>_ _. (([], None), ([], None))), laPing = ([], None),
       laIperf = (\<lambda>_ _. \<lparr>itStart = None, itClient = ([], None), itServer = None, itServerOut = []\<rparr>), laReset = None,
       laUDP = (\<lambda>_. ([], None))\<rparr>,
     raControl = None, raLaunch = passLaunch,
     raCapture = \<lparr>captureEnv.window = Inl [], startTurns = [], beforeSampling = quietSampling, finalTurns = [], afterSampling = quietSampling\<rparr>,
     raWindow = None, raSteps = [], raEnd = passEnd, raOffloadsAfter = (\<lambda>_ _. (([], None), ([], None)))\<rparr>"

definition passTexts :: runTexts where
  "passTexts = \<lparr>txFiles = (\<lambda>_. ''metrics''), txRamp = (\<lambda>_. ''ramp''), txDuration = (\<lambda>_. ''5s'')\<rparr>"

definition passProcesses :: "ProcessResult list" where
  "passProcesses = suProcesses (launchAll (library.truncate sampleDescriber) passDefaults passLaunch [])"

lemma pass_launch:
  "launchAll (library.truncate sampleDescriber) passDefaults passLaunch [] =
     \<lparr>suProcesses = passProcesses, suExtra = [], suSUT = [], suWaits = 0, suOK = True\<rparr>"
  "length passProcesses = 2"
  by code_simp+

lemma pass_supervise:
  "\<exists>ps. superviseRun passTexts passDefaults passEnd
       \<lparr>suProcesses = passProcesses, suExtra = [], suSUT = [], suWaits = 0, suOK = True\<rparr> =
     Inr \<lparr>pgExtra = [], pgSUT = [], pgProcesses = ps, pgRemaining = 2, pgControl = Some sampleControl\<rparr> \<and>
     list_all (\<lambda>p. prExited p \<and> prExitCode p = 0) ps \<and> ps \<noteq> []"
proof -
  obtain a b where p: "passProcesses = [a, b]"
    using pass_launch(2) by (auto simp: numeral_2_eq_2 length_Suc_conv)
  show ?thesis
    by (simp add: superviseRun_def endOfRun_def passEnd_def startProgress_def awaitLate_def awaitProcesses_def exitFailures_def
      afterWatcher_def passDefaults_def passConfig_def sampleConfig_def p applyWaitEvent_def)
qed

lemma pass_metrics:
  "\<exists>m. runMetrics (enFiles passEnd) passDefaults = Inr m \<and> TimestampOrderViolations (mmRaw m) = 0 \<and>
     attemptedRatioWith m 0 = ratioOrOne 9 10"
proof -
  have "length (clientMetricPaths passDefaults) = 1" by code_simp
  then obtain path where path: "clientMetricPaths passDefaults = [path]" by (auto simp: length_Suc_conv)
  have "cTotalConns passDefaults = 10" "cScenario passDefaults = None"
    by (simp_all add: passDefaults_def passConfig_def sampleConfig_def)
  then show ?thesis
    by (simp add: runMetrics_def path MergeMetricsFiles_def readMetricsArtifact_def passEnd_def MergeMetricsData_def mergeStep_def
        sample_parses)
      (simp add: sampleFile_def add_def metricClassNames_def addClassNamed_def addClass_def classOf_def
        fileClass_def addTraffic_def addTrafficEntry_def entryOf_def trafficKey_def Let_def
        newMergedMetrics_def finalize_def finalizeClassNamed_def finalizeClass_def finalizeKey_def
        finalizeTraffic_def expectedReceives_def addClassCounts_def sampleCounts_def zeroCounts_def
        zeroRaw_def addRaw_def attemptedRatioWith_def ClassMustDeliver_def ClassLossTolerant_def)
qed

lemma pass_ratio: "\<not> f_lt (ratioOrOne 9 10) (FFin (1 / 2))"
  by code_simp

lemma pass_phases:
  obtains q input m ps where "runPhases sampleDescriber passTexts passDefaults passAnswers = Inr (Finish q input)"
    "ruConfig q = passDefaults" "ruOutcome q = OutcomeInvalid" "ruEvaluation q = None" "ruNetem q = None" "ruProcesses q = ps" "ps \<noteq> []"
    "input = (reasonsOnly [] False)\<lparr>giControl := Some sampleControl, giProcesses := ps, giAttemptedThreshold := FFin (1 / 2),
       giMetrics := Some m\<rparr>"
    "list_all (\<lambda>p. prExited p \<and> prExitCode p = 0) ps" "TimestampOrderViolations (mmRaw m) = 0" "attemptedRatioWith m 0 = ratioOrOne 9 10"
proof -
  obtain m where m: "runMetrics (enFiles passEnd) passDefaults = Inr m" "TimestampOrderViolations (mmRaw m) = 0"
      "attemptedRatioWith m 0 = ratioOrOne 9 10"
    using pass_metrics by blast
  obtain ps where ps: "superviseRun passTexts passDefaults passEnd
       \<lparr>suProcesses = passProcesses, suExtra = [], suSUT = [], suWaits = 0, suOK = True\<rparr> =
     Inr \<lparr>pgExtra = [], pgSUT = [], pgProcesses = ps, pgRemaining = 2, pgControl = Some sampleControl\<rparr>"
     "list_all (\<lambda>p. prExited p \<and> prExitCode p = 0) ps" "ps \<noteq> []"
    using pass_supervise by blast
  have c: "cNetem passDefaults = None" "cRamp passDefaults = None" "cNetemSchedule passDefaults = []"
    "cAttemptedThreshold passDefaults = FFin (1 / 2)"
    by (simp_all add: passDefaults_def passConfig_def sampleConfig_def)
  obtain series where series: "collectSamples (map prPID passProcesses) [] = (series, None)"
    by (simp add: collectSamples_def)
  define r where "r = (startResult passDefaults)\<lparr>ruTreatment := Some (collectTreatment sampleDescriber passDefaults sampleDescribe sampleDescribe)\<rparr>"
  have answers: "raEnd passAnswers = passEnd" "raLaunch passAnswers = passLaunch" "raControl passAnswers = None" "enSampler passEnd = []"
    "raServerDescribe passAnswers = sampleDescribe" "raClientDescribe passAnswers = sampleDescribe"
    by (simp_all add: passAnswers_def passEnd_def)
  have "runPhases sampleDescriber passTexts passDefaults passAnswers =
      completeRun (library.truncate sampleDescriber) passTexts passDefaults passAnswers r
        \<lparr>suProcesses = passProcesses, suExtra = [], suSUT = [], suWaits = 0, suOK = True\<rparr>"
    by (simp add: runPhases_def answers pass_treatment prepareLink_def c runProcesses_def pass_launch Let_def r_def)
  then show thesis
    using that [of _ _ ps m] m ps
    by (simp add: completeRun_def answers series lossEvidence_def appliedSchedule_def configuredLoss_def c readAfter_def Let_def
      finishMeasurement_def failureReason_def scheduleReasons_def withEvidence_def updateNetem_def r_def startResult_def
      reasonsOnly_def noDrops_def)
qed

lemma passing_sample:
  "\<exists>f. runBenchmark sampleDescriber passTexts passConfig passAnswers = Inr f \<and> ruOutcome f = OutcomePass \<and>
     ruVerdict f = VerdictValid \<and> ruConfig f = passDefaults \<and> ruProcesses f \<noteq> []"
proof -
  obtain q input m ps where q: "runPhases sampleDescriber passTexts passDefaults passAnswers = Inr (Finish q input)"
    "ruConfig q = passDefaults" "ruOutcome q = OutcomeInvalid" "ruEvaluation q = None" "ruNetem q = None" "ruProcesses q = ps" "ps \<noteq> []"
    "input = (reasonsOnly [] False)\<lparr>giControl := Some sampleControl, giProcesses := ps, giAttemptedThreshold := FFin (1 / 2),
       giMetrics := Some m\<rparr>"
    "list_all (\<lambda>p. prExited p \<and> prExitCode p = 0) ps" "TimestampOrderViolations (mmRaw m) = 0" "attemptedRatioWith m 0 = ratioOrOne 9 10"
    by (rule pass_phases)
  define l where "l = library.truncate sampleDescriber"
  define ev where "ev = ReadOffloadEvidence l (raOffloadsAfter passAnswers) (runPair l passDefaults)"
  define full where "full = completeInput (withLateOffloads ev q) input"
  have late: "withLateOffloads ev q = q" by (simp add: withLateOffloads_def q(5))
  have c: "cNetem passDefaults = None" "cRamp passDefaults = None" "cScenario passDefaults = None"
    by (simp_all add: passDefaults_def passConfig_def sampleConfig_def)
  have given: "full = input\<lparr>giConfig := Some passDefaults\<rparr>"
    by (simp add: full_def late completeInput_def q(2,5))
  have "\<exists>a. metricsReasons full = (a, [], [])"
    using pass_ratio
    by (simp add: metricsReasons_def given q(8,10,11) isRamp_def c attemptedReasons_def attemptedRatio_def Let_def sampleControl_def)
  then obtain a where mr: "metricsReasons full = (a, [], [])" by blast
  have dr: "doneReasons (giConfig full) (giControl full) = Inr ([], [])"
    by (simp add: doneReasons_def given q(8) c)
  have lr: "ValidateNetemLossEvidence l (giConfig full) (giControl full) (giLossEvidence full) = Inr []"
    by (simp add: ValidateNetemLossEvidence_def given q(8) c configuredLoss_def reasonsOnly_def)
  have procs: "concat (map processReasons ps) = []"
    using q(9) by (auto simp: list_all_iff processReasons_Nil)
  have gate: "EvaluateGate l full = Inr \<lparr>grVerdict = VerdictValid, grReasons = [], grAttemptedRatio = a, grSUTFailureReasons = []\<rparr>"
    unfolding EvaluateGate_def dr lr rbind_simps prod.case mr Let_def
    by (simp add: given q(8) reasonsOnly_def controlReasons_def sampleControl_def procs udpReasons_def
      ValidateOffloadIntervalEvidence_def offloadsRequired_def ValidateRunOffloads_def c dedupeStrings_def)
  define g where "g = \<lparr>grVerdict = VerdictValid, grReasons = [], grAttemptedRatio = a, grSUTFailureReasons = []\<rparr>"
  have run: "runBenchmark sampleDescriber passTexts passConfig passAnswers = Inr (settle q g)"
    using gate by (simp add: runBenchmark_def pass_defaults q(1) finishRunResult_def Let_def late full_def g_def flip: l_def ev_def)
  have "scenarioMet q" by (simp add: scenarioMet_def q(2) c)
  then have "ruOutcome (settle q g) = OutcomePass"
    using settled_pass [OF q(3,4), of g] by (simp add: g_def q(2) c)
  moreover have "ruVerdict (settle q g) = VerdictValid" by (simp add: settle_fields g_def)
  moreover have "ruConfig (settle q g) = passDefaults" "ruProcesses (settle q g) \<noteq> []"
    using q(2,6,7) by (simp_all add: settle_fields)
  ultimately show ?thesis using run by blast
qed

lemma valid_pass_is_proved_witness:
  "\<exists>f. runBenchmark sampleDescriber passTexts passConfig passAnswers = Inr f \<and> ruOutcome f = OutcomePass \<and>
     length (ruProcesses f) = Suc (length (clientLaunches (ruConfig f))) \<and> ruConfig f = passDefaults"
proof -
  obtain f where f: "runBenchmark sampleDescriber passTexts passConfig passAnswers = Inr f" "ruOutcome f = OutcomePass"
      "ruVerdict f = VerdictValid" "ruConfig f = passDefaults"
    using passing_sample by blast
  then show ?thesis using valid_pass_is_proved [OF f(1-3)] by blast
qed

section \<open>A run over a link\<close>

text \<open>
  The same configuration over an emulated link, started through \<open>sudo\<close>: the server is started in its namespace
  with the privileges of the caller, does not become ready, and the run is aborted.
\<close>

definition sampleLink :: NetemRegime where
  "sampleLink = \<lparr>nrPrefix = [], nrServerNS = [], nrClientNS = [], nrServerVeth = [], nrClientVeth = [], nrServerAddrCIDR = [],
     nrClientAddrCIDR = [], nrLinkMTUBytes = 0, nrDisableOffloads = False, nrServerEgress = zeroNetem, nrClientEgress = zeroNetem\<rparr>"

definition linkConfig :: RunConfig where
  "linkConfig = passConfig\<lparr>cNetem := Some sampleLink, cNetemGateOff := True\<rparr>"

definition linkDefaults :: RunConfig where
  "linkDefaults = linkConfig\<lparr>cControlTimeout := 30 * second, cProcessExitTimeout := 5 * second\<rparr>"

definition linkAnswers :: runAnswers where
  "linkAnswers = passAnswers\<lparr>raLaunch := passLaunch\<lparr>lnSudo := Some (''1000'', ''1001''), lnReady := ReadyTimedOut\<rparr>\<rparr>"

lemma link_defaults: "runDefaults linkConfig = linkDefaults" "validateRunConfig linkDefaults = Inr ()"
proof -
  have "IsSafeName ''enet''" "netemErrors sampleLink = []" by code_simp+
  then show "runDefaults linkConfig = linkDefaults" "validateRunConfig linkDefaults = Inr ()"
    by (simp_all add: runDefaults_def validateRunConfig_def validateNetemSchedule_def joinErrors_def Let_def linkDefaults_def linkConfig_def
      sampleLink_def passConfig_def sampleConfig_def second_def)
qed

lemma linked_contract:
  "ValidateScenarioTreatmentContract sampleDescriber
     (Some (collectTreatment sampleDescriber linkDefaults sampleDescribe sampleDescribe)) linkDefaults = ([], [])"
  by code_simp

lemma linked_treatment:
  "checkTreatment sampleDescriber linkDefaults sampleDescribe sampleDescribe =
     Go ((startResult linkDefaults)\<lparr>ruTreatment := Some (collectTreatment sampleDescriber linkDefaults sampleDescribe sampleDescribe)\<rparr>)"
  using linked_contract by (simp add: checkTreatment_def Let_def)

lemma RunCommands_succeed: "(\<And>c. exec c = None) \<Longrightarrow> RunCommands exec cmds = (cmds, None)"
  by (induction cmds) simp_all

lemma linked_pair:
  "pairSpec None sampleLink = DefaultPair []"
  "\<exists>up. BuildSetupCommands (DefaultPair []) = Inr up" "\<exists>down. BuildTeardownCommands (DefaultPair []) = Inr down"
  by (simp_all add: pairSpec_def sampleLink_def DefaultPair_def orDefault_def zeroNetem_def Let_def BuildSetupCommands_def
      BuildTeardownCommands_def validatePair_def qdiscCommands_def Enabled_def f_nonzero_def lossTraceCommands_def fail_if_def)

lemma linked_link: "\<exists>q extra. prepareLink (library.truncate sampleDescriber) linkDefaults (raLink linkAnswers) r = Go (q, extra) \<and>
    ruConfig q = ruConfig r \<and> ruProcesses q = ruProcesses r"
proof -
  obtain up down where cmds: "BuildSetupCommands (DefaultPair []) = Inr up" "BuildTeardownCommands (DefaultPair []) = Inr down"
    using linked_pair(2,3) by blast
  have exec: "RunCommands (commandFailure (laExec (raLink linkAnswers))) up = (up, None)"
    by (rule RunCommands_succeed) (simp add: commandFailure_def linkAnswers_def passAnswers_def)
  have c: "cNetem linkDefaults = Some sampleLink" "cNetemGateOff linkDefaults"
    by (simp_all add: linkDefaults_def linkConfig_def)
  have plain: "executablePath (library.truncate sampleDescriber) = None" "\<not> DisableOffloads (DefaultPair [])" "\<not> LossTraceEnabled (DefaultPair [])"
    by (simp_all add: sampleDescriber_def library.truncate_def DefaultPair_def LossTraceEnabled_def traced_def zeroNetem_def)
  show ?thesis
    by (simp add: prepareLink_def c plain linked_pair(1) cmds exec readbackLink_def gateLink_def resetLink_def readBefore_def
        updateNetem_def Let_def split: prod.split)
qed

lemma linked_launch:
  "\<exists>p extra. launchAll (library.truncate sampleDescriber) linkDefaults (raLaunch linkAnswers) given =
     \<lparr>suProcesses = [p], suExtra = extra, suSUT = [], suWaits = 0, suOK = False\<rparr> \<and> prRole p = ''server''"
  by (simp add: launchAll_def linkAnswers_def passLaunch_def startServer_def startOne_def awaitReady_def failStart_def newProcess_def)
    (cases "clientLaunches linkDefaults"; simp)

lemma finishes_without_loss:
  assumes "cScenario (ruConfig r) = None" and "\<not> configuredLoss (cNetem (ruConfig r))"
  shows "\<exists>f. finishRunResult lib ev r input = Inr f"
proof -
  let ?r = "withLateOffloads ev r"
  have c: "giConfig (completeInput ?r input) = Some (ruConfig r)"
    by (simp add: completeInput_def withLateOffloads_def Let_def split: option.split)
  have "doneReasons (Some (ruConfig r)) control = Inr ([], [])" for control
    using assms(1) by (simp add: doneReasons_def split: option.split)
  moreover have "ValidateNetemLossEvidence lib (Some (ruConfig r)) control evidence = Inr []" for control evidence
    using assms(2) by (cases "cNetem (ruConfig r)") (simp_all add: ValidateNetemLossEvidence_def)
  ultimately show ?thesis
    by (simp add: finishRunResult_def Let_def EvaluateGate_def c split: prod.split)
qed

lemma linked_run:
  "\<exists>f p. runBenchmark sampleDescriber passTexts linkConfig linkAnswers = Inr f \<and> ruProcesses f = [p] \<and> prRole p = ''server''"
proof -
  define l where "l = library.truncate sampleDescriber"
  define s where "s = (startResult linkDefaults)\<lparr>ruTreatment := Some (collectTreatment sampleDescriber linkDefaults sampleDescribe sampleDescribe)\<rparr>"
  obtain q extra where q: "prepareLink l linkDefaults (raLink linkAnswers) s = Go (q, extra)" "ruConfig q = linkDefaults"
    using linked_link [of s] by (auto simp: l_def s_def startResult_def)
  obtain p more where p: "launchAll l linkDefaults (raLaunch linkAnswers) extra =
      \<lparr>suProcesses = [p], suExtra = more, suSUT = [], suWaits = 0, suOK = False\<rparr>" "prRole p = ''server''"
    using linked_launch [of extra] by (auto simp: l_def)
  have c: "cScenario linkDefaults = None" "\<not> configuredLoss (cNetem linkDefaults)" "cNetemSchedule linkDefaults = []"
    by (simp_all add: linkDefaults_def linkConfig_def passConfig_def sampleConfig_def configuredLoss_def sampleLink_def zeroNetem_def)
  have answers: "raControl linkAnswers = None" "lnAbortWaits (raLaunch linkAnswers) = []" "lnAbortControl (raLaunch linkAnswers) = (None, None)"
    "raServerDescribe linkAnswers = sampleDescribe" "raClientDescribe linkAnswers = sampleDescribe"
    by (simp_all add: linkAnswers_def passAnswers_def passLaunch_def)
  obtain r input where run: "runPhases sampleDescriber passTexts linkDefaults linkAnswers = Inr (Finish r input)"
      "ruConfig r = linkDefaults" "ruProcesses r = [p]"
    using q(2) by (simp add: runPhases_def answers linked_treatment flip: s_def l_def)
      (simp add: q(1) runProcesses_def answers p(1) abortRun_def Let_def lossEvidence_def c appliedSchedule_def withEvidence_def updateNetem_def)
  obtain f where f: "finishRunResult l (ReadOffloadEvidence l (raOffloadsAfter linkAnswers) (runPair l linkDefaults)) r input = Inr f"
    using finishes_without_loss [of r] run(2) c(1,2) by metis
  then have "ruProcesses f = [p]" using finished_processes run(3) by metis
  moreover have "runBenchmark sampleDescriber passTexts linkConfig linkAnswers = Inr f"
    using f run(1) by (simp add: runBenchmark_def link_defaults Let_def flip: l_def)
  ultimately show ?thesis using p(2) by blast
qed

lemma results_record_their_commands_witness:
  "\<exists>f p. runBenchmark sampleDescriber passTexts linkConfig linkAnswers = Inr f \<and> p \<in> set (ruProcesses f) \<and>
     prCommand p = [''ip'', ''netns'', ''exec'', ''rudpbench-srv'', ''setpriv'', ''--reuid'', ''1000'', ''--regid'', ''1001'', ''--init-groups'',
       ''taskset'', ''-c'', ''7,15'', ''server''] \<and>
     ValidateRecordedProcessCommand (library.truncate sampleDescriber) linkDefaults p True = Inr ()"
proof -
  obtain f p where f: "runBenchmark sampleDescriber passTexts linkConfig linkAnswers = Inr f" "p \<in> set (ruProcesses f)" "prRole p = ''server''"
    using linked_run by auto
  have "expandCommandTemplate (cServerCommand linkDefaults)
      \<lparr>vTransport = cTransport linkDefaults, vProcIndex = - 1, vConns = 0, vOriginIDStart = 0, vOriginIDEnd = 0,
       vTotalConns = cTotalConns linkDefaults\<rparr> = \<lparr>Path = ''server'', CmdArgs = [], Env = [], Dir = []\<rparr>"
    "ServerNS (pairSpec (executablePath (library.truncate sampleDescriber)) sampleLink) = ''rudpbench-srv''"
    "cServerCPUs linkDefaults = ''7,15''"
    by code_simp+
  moreover have "cNetem linkDefaults = Some sampleLink" by (simp add: linkDefaults_def linkConfig_def)
  ultimately have planned: "plannedProcess (library.truncate sampleDescriber) linkDefaults p =
      Inr (\<lparr>Path = ''server'', CmdArgs = [], Env = [], Dir = []\<rparr>, ''rudpbench-srv'', ''7,15'')"
    by (simp add: plannedProcess_def f(3))
  have dropped: "usedDrop ''rudpbench-srv'' (lnSudo (raLaunch linkAnswers)) = Some (''1000'', ''1001'')"
    by (simp add: linkAnswers_def usedDrop_def)
  have "parseDigits ''1000'' = Some 1000" "parseDigits ''1001'' = Some 1001" by code_simp+
  then have ids: "positiveID ''1000''" "positiveID ''1001''" by (simp_all add: positiveID_def)
  obtain cmd netns cpus where run: "plannedProcess (library.truncate sampleDescriber) linkDefaults p = Inr (cmd, netns, cpus)"
      "prCommand p = recordedCommand (usedDrop netns (lnSudo (raLaunch linkAnswers))) cmd netns cpus"
      "ValidateRecordedProcessCommand (library.truncate sampleDescriber) linkDefaults p True = Inr () \<longleftrightarrow>
        (case usedDrop netns (lnSudo (raLaunch linkAnswers)) of None \<Rightarrow> \<not> True | Some (uid, gid) \<Rightarrow> True \<and> positiveID uid \<and> positiveID gid)"
    using results_record_their_commands [OF f(1,2)] unfolding link_defaults(1) by blast
  have parts: "cmd = \<lparr>Path = ''server'', CmdArgs = [], Env = [], Dir = []\<rparr>" "netns = ''rudpbench-srv''" "cpus = ''7,15''"
    using run(1) planned by simp_all
  have "ValidateRecordedProcessCommand (library.truncate sampleDescriber) linkDefaults p True = Inr ()"
    using run(3) ids by (simp add: parts dropped)
  moreover have "prCommand p = [''ip'', ''netns'', ''exec'', ''rudpbench-srv'', ''setpriv'', ''--reuid'', ''1000'', ''--regid'', ''1001'',
      ''--init-groups'', ''taskset'', ''-c'', ''7,15'', ''server'']"
    using run(2) by (simp add: parts dropped recordedCommand_def namespaceArgs_def dropArgs_def cpuArgs_def)
  ultimately show ?thesis using f(1,2) by blast
qed

end
