(* ===== verification/Summary.thy ===== *)
theory Summary
  imports Runner
begin

text \<open>
  The text of the summary of a run (\<open>orchestrator/run/summary.go\<close>). Every \<open>Fprintf\<close> of the code writes
  one line; creating the file is an argument and the errors of writing to it are ignored by the code.
  The classes of the merged metrics are the two the metrics know, in the order of their names.
\<close>

section \<open>Lines\<close>

text \<open>Division of integers as Go has it, towards zero.\<close>

definition quotient :: "int \<Rightarrow> int \<Rightarrow> int" where
  "quotient a b = sgn a * sgn b * (\<bar>a\<bar> div \<bar>b\<bar>)"

definition scheduleLines :: "Result \<Rightarrow> string list" where
  "scheduleLines c =
     (''schedule_ns: start='' @ itoa (StartAtNS (rSchedule c)) @ '' stop='' @ itoa (StopAtNS (rSchedule c)) @
        '' drain_until='' @ itoa (DrainUntilNS (rSchedule c))) #
     (if SteadyEnabled c
      then [''steady_warmup: reached='' @ boolText (SteadyReached c) @ '' warmup_actual_ms='' @ itoa (quotient (WarmupActualNS c) 1000000)]
      else [])"

definition processLine :: "ProcessResult \<Rightarrow> string" where
  "processLine p = ''- role='' @ prRole p @ '' proc_index='' @ itoa (prProcIndex p) @ '' pid='' @ itoa (prPID p) @ '' exit_code='' @
     itoa (prExitCode p) @ '' metrics='' @ prMetricsOut p"

definition classLine :: "string \<Rightarrow> ClassAggregate \<Rightarrow> string" where
  "classLine name c = ''- class='' @ name @ '' slots='' @ itoaU (Slots (caCounts c)) @ '' submitted='' @ itoaU (Submitted (caCounts c)) @
     '' attempted='' @ formatFixed 6 (caAttemptedRatio c) @ '' expected='' @ itoaU (caExpectedReceives c) @ '' delivered_unique='' @
     itoaU (DeliveredUnique (caCounts c)) @ '' delivery='' @ formatFixed 6 (caDeliveryRatio c) @ '' duplicates='' @
     itoaU (Duplicates (caCounts c)) @ '' deadline_hit='' @ itoaU (DeadlineHit (caCounts c)) @ '' p50_sched_ns='' @
     itoaU (P50NS (caLatencySchedNS c)) @ '' p99_sched_ns='' @ itoaU (P99NS (caLatencySchedNS c))"

definition quantiles :: "Histogram \<Rightarrow> string" where
  "quantiles h = ''count='' @ itoaU (Count h) @ '' p50='' @ itoaU (P50NS h) @ '' p90='' @ itoaU (P90NS h) @ '' p99='' @ itoaU (P99NS h)"

definition metricsLines :: "MergedMetrics \<Rightarrow> string list" where
  "metricsLines m =
     (''metrics:'' #
       concat (map (\<lambda>name. case mmClasses m name of None \<Rightarrow> [] | Some c \<Rightarrow> [classLine name c]) (sort metricClassNames))) @
     [''staleness_ns: '' @ quantiles (mmStalenessNS m)] @
     concat (map (\<lambda>name. let g = caUpdateGapNS (classOf m name)
        in if 0 < Count g then [''update_gap_ns['' @ name @ '']: '' @ quantiles g] else []) metricClassNames)"

definition trafficLine :: "TrafficEvaluation \<Rightarrow> string" where
  "trafficLine t = ''- traffic='' @ teName t @ ''/'' @ teDirection t @ ''/'' @ teClass t @ '' ok='' @ boolText (teOK t) @ '' delivery='' @
     formatFixed 6 (teDeliveryRatio t) @ '' deadline_hit='' @ formatFixed 6 (teDeadlineHitRatio t) @ '' staleness_p99_ns='' @
     itoaU (teStalenessP99NS t) @ '' never_received_flows='' @ itoaU (teNeverReceivedFlows t) @ '' cause='' @ teCause t"

definition evaluationLines :: "ScenarioEvaluation \<Rightarrow> string list" where
  "evaluationLines e =
     (''scenario_slo: ok='' @ boolText (seOK e) @ '' cause='' @ seCause e) # map trafficLine (seTraffic e)"

definition rampLines :: "RampResult \<Rightarrow> string list" where
  "rampLines r =
     (''ramp: score_conns='' @ itoa (ScoreConns r) @ '' censored='' @ boolText (Censored r) @ '' cause='' @ rrCause r) #
     map (\<lambda>p. ''- ramp index='' @ itoa (ptIndex p) @ '' active_conns='' @ itoa (ActiveConns p) @ '' ok='' @
       boolText (seOK (Evaluation p)) @ '' cause='' @ seCause (Evaluation p)) (Timeline r)"

definition roleLine :: "ProcessCost \<Rightarrow> string" where
  "roleLine c = ''cost['' @ pcRole c @ '']: procs='' @ itoa (pcProcesses c) @ '' cpu_ns='' @ itoa (pcCPUTimeNS c) @ '' cpu_util='' @
     formatFixed 4 (pcCPUUtilization c) @ '' max_rss_bytes='' @ itoaU (pcMaxRSSBytes c)"

definition wireLine :: "string \<Rightarrow> u64 \<Rightarrow> u64 \<Rightarrow> u64 \<Rightarrow> u64 \<Rightarrow> f64 \<Rightarrow> f64 \<Rightarrow> string" where
  "wireLine name sent packets app messages amp perMessage =
     ''wire['' @ name @ '']: sent_bytes='' @ itoaU sent @ '' sent_packets='' @ itoaU packets @ '' app_bytes='' @ itoaU app @
     '' app_messages='' @ itoaU messages @ '' byte_amp='' @ formatFixed 3 amp @ '' pkt_per_msg='' @ formatFixed 3 perMessage"

definition costLines :: "CostSummary \<Rightarrow> string list" where
  "costLines c =
     concat (map (\<lambda>entry. case entry of None \<Rightarrow> [] | Some r \<Rightarrow> [roleLine r]) [csServer c, csClients c]) @
     [''cost: delivered_unique='' @ itoaU (csDeliveredUnique c) @ '' server_cpu_per_delivery_ns='' @
        formatFixed 1 (csServerCPUPerDeliveryNS c) @ '' conns='' @ itoa (csTotalConns c)] @
     (case csWire c of None \<Rightarrow> []
      | Some w \<Rightarrow>
          [wireLine ''client_egress'' (wcClientSentBytes w) (wcClientSentPackets w) (wcAppClientBytes w) (wcAppClientMessages w)
             (wcClientByteAmplification w) (wcClientPacketsPerMessage w),
           wireLine ''server_egress'' (wcServerSentBytes w) (wcServerSentPackets w) (wcAppServerBytes w) (wcAppServerMessages w)
             (wcServerByteAmplification w) (wcServerPacketsPerMessage w)])"

definition dropLine :: "string \<Rightarrow> UDPStats \<Rightarrow> string" where
  "dropLine name s = name @ ''_udp_drop_delta: InErrors='' @ itoaU (InErrors s) @ '' RcvbufErrors='' @ itoaU (RcvbufErrors s)"

definition ofOption :: "('a \<Rightarrow> string list) \<Rightarrow> 'a option \<Rightarrow> string list" where
  "ofOption f entry = (case entry of None \<Rightarrow> [] | Some x \<Rightarrow> f x)"

section \<open>The summary\<close>

definition headLines :: "RunResult \<Rightarrow> string list" where
  "headLines r =
     [''rudp-bench run summary'', ''transport: '' @ ruTransport r, ''outcome: '' @ ruOutcome r] @
     map (\<lambda>reason. ''- outcome reason: '' @ reason) (ruOutcomeReasons r) @
     [''verdict: '' @ ruVerdict r] @
     (if ruInvalidReasons r \<noteq> [] then ''invalid reasons:'' # map (\<lambda>reason. ''- '' @ reason) (ruInvalidReasons r) else [])"

definition summaryLines :: "RunResult \<Rightarrow> string list" where
  "summaryLines r =
     headLines r @ ofOption scheduleLines (ruControl r) @
     ''processes:'' # map processLine (ruProcesses r) @
     ofOption metricsLines (ruMetrics r) @ ofOption evaluationLines (ruEvaluation r) @ ofOption rampLines (ruRamp r) @
     ofOption costLines (ruCost r) @
     ofOption (\<lambda>n. if nmEnabled n then [dropLine ''client'' (nmUDPDelta n), dropLine ''server'' (nmServerUDPDelta n)] else []) (ruNetem r)"

definition writeSummary :: "string option \<Rightarrow> RunResult \<Rightarrow> string + string" where
  "writeSummary createFailure r = (case createFailure of
       Some e \<Rightarrow> Inl (''create summary: '' @ e)
     | None \<Rightarrow> Inr (concat (map (\<lambda>line. line @ [newline]) (summaryLines r))))"

text \<open>A summary names the outcome and the verdict, and repeats every reason of both.\<close>

lemma summary_names:
  "''outcome: '' @ ruOutcome r \<in> set (summaryLines r)" "''verdict: '' @ ruVerdict r \<in> set (summaryLines r)"
  "reason \<in> set (ruInvalidReasons r) \<Longrightarrow> ''- '' @ reason \<in> set (summaryLines r)"
  "reason \<in> set (ruOutcomeReasons r) \<Longrightarrow> ''- outcome reason: '' @ reason \<in> set (summaryLines r)"
  by (auto simp: summaryLines_def headLines_def)

lemma quotient_examples: "quotient 2500000 1000000 = 2" "quotient (- 2500000) 1000000 = - 2"
  by code_simp+

end
