(* ===== verification/Identity.thy ===== *)
theory Identity
  imports Runner GoPath
begin

text \<open>
  The identity of a measurement (\<open>orchestrator/run/identity.go\<close>): the files that decide what a command
  does, the fingerprint over their contents, and what is recorded of the machine. The file system is the
  argument \<open>fileSystem\<close>; SHA-256 and the hash of the JSON of a record are the arguments \<open>hashBytes\<close> and
  \<open>hashIdentity\<close>. A Go map from text to text is the list of its entries in the order of the keys.
\<close>

section \<open>The file system\<close>

text \<open>
  Whether a path is a regular file, its contents when they can be read, the names of a directory with
  whether each is one (none when it cannot be listed), the path of an executable, the absolute form of
  a path and the output of \<open>ldd\<close>.
\<close>

record fileSystem =
  fileExists :: "string \<Rightarrow> bool"
  readFile :: "string \<Rightarrow> string option"
  listDir :: "string \<Rightarrow> (string \<times> bool) list"
  lookPath :: "string \<Rightarrow> string option"
  absPath :: "string \<Rightarrow> string option"
  runLdd :: "string \<Rightarrow> string option"

definition resolveCommandPath :: "fileSystem \<Rightarrow> CommandConfig \<Rightarrow> string" where
  "resolveCommandPath fs cmd =
     (if Path cmd = [] then []
      else if isAbsPath (Path cmd) then (if fileExists fs (Path cmd) then Path cmd else [])
      else if Dir cmd \<noteq> [] \<and> fileExists fs (joinPath [Dir cmd, Path cmd]) then joinPath [Dir cmd, Path cmd]
      else if fileExists fs (Path cmd) then Path cmd
      else if CHR ''/'' \<notin> set (Path cmd) then (case lookPath fs (Path cmd) of None \<Rightarrow> [] | Some path \<Rightarrow> path)
      else [])"

definition resolveReferencedFile :: "fileSystem \<Rightarrow> string \<Rightarrow> string \<Rightarrow> string" where
  "resolveReferencedFile fs dir text =
     (if text = [] \<or> CHR ''{'' \<in> set text \<or> CHR ''}'' \<in> set text then []
      else
        let candidates = (if dir \<noteq> [] \<and> \<not> isAbsPath text then [joinPath [dir, text], text] else [text])
        in case find (fileExists fs) candidates of None \<Rightarrow> [] | Some path \<Rightarrow> path)"

section \<open>Shared libraries\<close>

text \<open>The file one line of \<open>ldd\<close> names, if any; \<open>Inl\<close> when a library is not found.\<close>

definition lddLine :: "string \<Rightarrow> unit + string" where
  "lddLine line =
     (let words = textFields line
      in if words = [] then Inr []
         else if 3 \<le> length words \<and> words ! 1 = ''=>'' then (if words ! 2 = ''not'' then Inl () else Inr (words ! 2))
         else if isAbsPath (words ! 0) then Inr (words ! 0)
         else Inr [])"

definition dynamicDependencies :: "fileSystem \<Rightarrow> string \<Rightarrow> string list option" where
  "dynamicDependencies fs path = (case absPath fs path of None \<Rightarrow> None
     | Some absolute \<Rightarrow> (case runLdd fs absolute of None \<Rightarrow> Some []
         | Some out \<Rightarrow> (case mapM lddLine (splitAt newline out) of Inl _ \<Rightarrow> None
             | Inr names \<Rightarrow> Some (sort (remdups (filter (\<lambda>name. name \<noteq> [] \<and> fileExists fs name) names))))))"

section \<open>The fingerprint of a command\<close>

definition bundled :: "string \<Rightarrow> bool" where
  "bundled name \<longleftrightarrow> hasSuffix name ''.dll'' \<or> hasSuffix name ''.json'' \<or> hasSuffix name ''.so'' \<or> containsText name ''.so.''"

definition bundleFiles :: "fileSystem \<Rightarrow> string \<Rightarrow> (string \<times> string) list" where
  "bundleFiles fs path =
     (let dir = dirPart path; base = basePart path
      in if fileExists fs (joinPath [dir, base @ ''.deps.json'']) \<or> fileExists fs (joinPath [dir, base @ ''.runtimeconfig.json''])
         then map (\<lambda>name. (''bundle/'' @ name, joinPath [dir, name]))
           (sort (map fst (filter (\<lambda>(name, isDir). \<not> isDir \<and> bundled name) (listDir fs dir))))
         else [])"

definition argumentFiles :: "fileSystem \<Rightarrow> CommandConfig \<Rightarrow> (string \<times> string) list" where
  "argumentFiles fs cmd = concat (map (\<lambda>arg. let path = resolveReferencedFile fs (Dir cmd) arg
     in if path \<noteq> [] then [(''arg/'' @ arg, path)] else []) (CmdArgs cmd))"

text \<open>The files a fingerprint covers, each with its label, in the order they are hashed.\<close>

definition coveredFiles :: "fileSystem \<Rightarrow> CommandConfig \<Rightarrow> (string \<times> string) list option" where
  "coveredFiles fs cmd =
     (let path = resolveCommandPath fs cmd
      in map_option (\<lambda>shared. (''command'', path) # bundleFiles fs path @ map (\<lambda>name. (''shared/'' @ name, name)) shared @
           argumentFiles fs cmd) (dynamicDependencies fs path))"

definition zeroByte :: char where "zeroByte = char_of (0 :: nat)"

text \<open>What hashing one file writes; \<open>None\<close> when it cannot be read.\<close>

definition hashFile :: "(string \<Rightarrow> string option) \<Rightarrow> string \<times> string \<Rightarrow> string option" where
  "hashFile rd = (\<lambda>(label, path). map_option (\<lambda>data. label @ [zeroByte] @ data @ [zeroByte]) (rd path))"

fun hashFiles :: "(string \<Rightarrow> string option) \<Rightarrow> (string \<times> string) list \<Rightarrow> string option" where
  "hashFiles rd [] = Some []"
| "hashFiles rd (f # fs) = Option.bind (hashFile rd f) (\<lambda>bytes. map_option (\<lambda>rest. bytes @ rest) (hashFiles rd fs))"

definition fingerprintBytes :: "fileSystem \<Rightarrow> CommandConfig \<Rightarrow> string option" where
  "fingerprintBytes fs cmd = Option.bind (coveredFiles fs cmd) (hashFiles (readFile fs))"

definition CommandFingerprint :: "fileSystem \<Rightarrow> (string \<Rightarrow> string) \<Rightarrow> CommandConfig \<Rightarrow> string" where
  "CommandFingerprint fs hashBytes cmd =
     (if resolveCommandPath fs cmd = [] then ''unresolved''
      else case fingerprintBytes fs cmd of None \<Rightarrow> ''unreadable'' | Some bytes \<Rightarrow> hashBytes bytes)"

section \<open>The machine\<close>

definition relevantEnvironmentName :: "string \<Rightarrow> bool" where
  "relevantEnvironmentName name \<longleftrightarrow>
     name \<in> set [''GODEBUG'', ''GOMAXPROCS'', ''GOMEMLIMIT'', ''GOGC'', ''GLIBC_TUNABLES'', ''OMP_NUM_THREADS'',
       ''RAYON_NUM_THREADS'', ''RUST_MIN_STACK''] \<or>
     list_ex (hasPrefix name) [''DOTNET_'', ''COMPlus_'', ''CORECLR_'', ''LD_'', ''MALLOC_'', ''GLIBC_'', ''ASAN_'', ''LSAN_'', ''MSAN_'',
       ''TSAN_'', ''UBSAN_'', ''OMP_'', ''BENCH_'', ''RUDP_'', ''QUIC_'']"

text \<open>A map as the list of its entries; a later entry of a key replaces the earlier one.\<close>

definition putEntry :: "string \<Rightarrow> string \<Rightarrow> (string \<times> string) list \<Rightarrow> (string \<times> string) list" where
  "putEntry key v entries = sort_key fst (AList.update key v entries)"

definition RelevantEnvironment :: "string list \<Rightarrow> (string \<times> string) list" where
  "RelevantEnvironment environ = foldl (\<lambda>out entry. case cutAt CHR ''='' entry of (name, v, ok) \<Rightarrow>
     if ok \<and> relevantEnvironmentName name then putEntry name v out else out) [] environ"

definition readIdentityFile :: "(string \<Rightarrow> string option) \<Rightarrow> string \<Rightarrow> string" where
  "readIdentityFile rd path = (case rd path of None \<Rightarrow> [] | Some data \<Rightarrow> trimSpace data)"

definition wantedCPU :: "string list" where
  "wantedCPU = [''vendor_id'', ''cpu family'', ''model'', ''model name'', ''stepping'', ''microcode'', ''hardware'', ''revision'']"

fun cpuLines :: "(string \<times> string) list \<Rightarrow> string list \<Rightarrow> (string \<times> string) list" where
  "cpuLines out [] = out"
| "cpuLines out (line # lines) =
     (if trimSpace line = [] \<and> out \<noteq> [] then out
      else case cutAt CHR '':'' line of (key, v, ok) \<Rightarrow>
        cpuLines (if ok \<and> trimSpace key \<in> set wantedCPU then putEntry (trimSpace key) (trimSpace v) out else out) lines)"

definition cpuIdentity :: "(string \<Rightarrow> string option) \<Rightarrow> (string \<times> string) list option" where
  "cpuIdentity rd = map_option (\<lambda>data. cpuLines [] (splitAt newline data)) (rd ''/proc/cpuinfo'')"

text \<open>\<open>paths\<close> is what the pattern of the governor files matches.\<close>

definition identityGovernors :: "(string \<Rightarrow> string option) \<Rightarrow> string list \<Rightarrow> (string \<times> string) list" where
  "identityGovernors rd paths =
     foldl (\<lambda>out path. putEntry (basePart (dirPart (dirPart path))) (readIdentityFile rd path) out) [] paths"

definition fingerprintPath :: "(string \<Rightarrow> string option) \<Rightarrow> (string \<Rightarrow> string) \<Rightarrow> string \<Rightarrow> string" where
  "fingerprintPath rd hashBytes path = (case rd path of None \<Rightarrow> [] | Some data \<Rightarrow> hashBytes data)"

record HostEnvironment =
  heHostname :: string
  heOS :: string
  heArchitecture :: string
  heKernelRelease :: string
  heMachineIDSHA256 :: string
  heCPU :: "(string \<times> string) list option"
  heOnlineCPUs :: string
  hePresentCPUs :: string
  heOnlineNUMANodes :: string
  heClocksource :: string
  heGovernors :: "(string \<times> string) list"

text \<open>What the machine answers beside its files: its name, the system and architecture of the binary,
  the governor files, the environment and the path of the orchestrator.\<close>

record machine =
  maHostname :: string
  maOS :: string
  maArchitecture :: string
  maGovernors :: "string list"
  maEnviron :: "string list"
  maExecutable :: "string option"

definition HostEnvironmentSnapshot :: "fileSystem \<Rightarrow> (string \<Rightarrow> string) \<Rightarrow> machine \<Rightarrow> HostEnvironment" where
  "HostEnvironmentSnapshot fs hashBytes m =
     \<lparr>heHostname = maHostname m, heOS = maOS m, heArchitecture = maArchitecture m,
      heKernelRelease = readIdentityFile (readFile fs) ''/proc/sys/kernel/osrelease'',
      heMachineIDSHA256 = fingerprintPath (readFile fs) hashBytes ''/etc/machine-id'',
      heCPU = cpuIdentity (readFile fs),
      heOnlineCPUs = readIdentityFile (readFile fs) ''/sys/devices/system/cpu/online'',
      hePresentCPUs = readIdentityFile (readFile fs) ''/sys/devices/system/cpu/present'',
      heOnlineNUMANodes = readIdentityFile (readFile fs) ''/sys/devices/system/node/online'',
      heClocksource = readIdentityFile (readFile fs) ''/sys/devices/system/clocksource/clocksource0/current_clocksource'',
      heGovernors = identityGovernors (readFile fs) (maGovernors m)\<rparr>"

definition OrchestratorFingerprint :: "fileSystem \<Rightarrow> (string \<Rightarrow> string) \<Rightarrow> machine \<Rightarrow> string" where
  "OrchestratorFingerprint fs hashBytes m =
     (case maExecutable m of None \<Rightarrow> [] | Some path \<Rightarrow> fingerprintPath (readFile fs) hashBytes path)"

section \<open>The identity of a configuration\<close>

record commandIdentity =
  ciCommand :: CommandConfig
  ciSHA256 :: string

record configIdentity =
  idConfig :: RunConfig
  idServer :: commandIdentity
  idClient :: commandIdentity
  idOrchestratorSHA256 :: string
  idEnvironmentSHA256 :: string

definition identifyCommand :: "fileSystem \<Rightarrow> (string \<Rightarrow> string) \<Rightarrow> CommandConfig \<Rightarrow> commandIdentity" where
  "identifyCommand fs hashBytes cmd = \<lparr>ciCommand = cmd, ciSHA256 = CommandFingerprint fs hashBytes cmd\<rparr>"

definition canonicalConfig :: "RunConfig \<Rightarrow> RunConfig" where
  "canonicalConfig cfg = cfg\<lparr>cOutputDir := [], cNetemGateOff := False\<rparr>"

text \<open>\<open>hashEnvironment\<close> and \<open>hashIdentity\<close> are the hashes of the JSON of the two records.\<close>

record identityHashes =
  hashBytes :: "string \<Rightarrow> string"
  hashEnvironment :: "(string \<times> string) list \<times> HostEnvironment \<Rightarrow> string"
  hashIdentity :: "configIdentity \<Rightarrow> string"

definition EnvironmentFingerprint :: "fileSystem \<Rightarrow> identityHashes \<Rightarrow> machine \<Rightarrow> string" where
  "EnvironmentFingerprint fs h m =
     hashEnvironment h (RelevantEnvironment (maEnviron m), HostEnvironmentSnapshot fs (hashBytes h) m)"

definition identityRecord :: "fileSystem \<Rightarrow> identityHashes \<Rightarrow> machine \<Rightarrow> RunConfig \<Rightarrow> configIdentity" where
  "identityRecord fs h m cfg =
     (let canonical = canonicalConfig cfg
      in \<lparr>idConfig = canonical, idServer = identifyCommand fs (hashBytes h) (cServerCommand canonical),
          idClient = identifyCommand fs (hashBytes h) (cClientCommand canonical),
          idOrchestratorSHA256 = OrchestratorFingerprint fs (hashBytes h) m,
          idEnvironmentSHA256 = EnvironmentFingerprint fs h m\<rparr>)"

definition ConfigIdentity :: "fileSystem \<Rightarrow> identityHashes \<Rightarrow> machine \<Rightarrow> RunConfig \<Rightarrow> string" where
  "ConfigIdentity fs h m cfg = hashIdentity h (identityRecord fs h m cfg)"

section \<open>What a fingerprint sees\<close>

text \<open>The length of what is hashed, by the number of times one path is covered.\<close>

lemma hashFiles_length:
  assumes "\<And>path. path \<noteq> p \<Longrightarrow> r path = r' path" and "r p = Some d" and "r' p = Some d'"
    and "hashFiles r files = Some b" and "hashFiles r' files = Some b'"
  shows "length b + count_list (map snd files) p * length d' = length b' + count_list (map snd files) p * length d"
  using assms(4,5)
proof (induction files arbitrary: b b')
  case (Cons f files)
  obtain label path where f: "f = (label, path)" by (cases f)
  obtain x y where x: "r path = Some x" "hashFiles r files = Some y" "b = label @ zeroByte # x @ zeroByte # y"
    using Cons.prems(1) by (auto simp: f hashFile_def bind_eq_Some_conv)
  obtain x' y' where x': "r' path = Some x'" "hashFiles r' files = Some y'" "b' = label @ zeroByte # x' @ zeroByte # y'"
    using Cons.prems(2) by (auto simp: f hashFile_def bind_eq_Some_conv)
  have "path \<noteq> p \<Longrightarrow> x = x'" using assms(1) x(1) x'(1) by fastforce
  moreover have "path = p \<Longrightarrow> x = d \<and> x' = d'" using assms(2,3) x(1) x'(1) by simp
  ultimately show ?case using Cons.IH [OF x(2) x'(2)] by (cases "path = p") (auto simp: f x(3) x'(3))
qed simp

lemma hashFiles_differ:
  assumes "\<And>path. path \<noteq> p \<Longrightarrow> r path = r' path" and "r p = Some d" and "r' p = Some d'" and "length d = length d'"
    and "hashFiles r files = Some b" and "hashFiles r' files = Some b" and "p \<in> set (map snd files)"
  shows "d = d'"
  using assms(5-7)
proof (induction files arbitrary: b)
  case (Cons f files)
  obtain label path where f: "f = (label, path)" by (cases f)
  obtain x y where x: "r path = Some x" "hashFiles r files = Some y" "b = label @ zeroByte # x @ zeroByte # y"
    using Cons.prems(1) by (auto simp: f hashFile_def bind_eq_Some_conv)
  obtain x' y' where x': "r' path = Some x'" "hashFiles r' files = Some y'" "b = label @ zeroByte # x' @ zeroByte # y'"
    using Cons.prems(2) by (auto simp: f hashFile_def bind_eq_Some_conv)
  have "length x = length x'"
    using assms(1) [of path] assms(2-4) x(1) x'(1) by (cases "path = p") auto
  then have same: "x = x'" "y = y'" using x(3) x'(3) by auto
  show ?case
  proof (cases "path = p")
    case True
    then show ?thesis using same(1) assms(2,3) x(1) x'(1) by simp
  next
    case False
    then show ?thesis using Cons.IH [OF x(2)] x'(2) same(2) Cons.prems(3) by (simp add: f)
  qed
qed simp

lemma hashFiles_defined: "hashFiles r files = Some b \<Longrightarrow> p \<in> set (map snd files) \<Longrightarrow> r p \<noteq> None"
  by (induction files arbitrary: b) (auto simp: hashFile_def bind_eq_Some_conv)

lemma hashFiles_cong: "(\<And>p. p \<in> set (map snd files) \<Longrightarrow> r p = r' p) \<Longrightarrow> hashFiles r files = hashFiles r' files"
  by (induction files) (simp_all add: hashFile_def split: prod.split)

text \<open>The files that are covered do not depend on the contents of any file.\<close>

lemma other_answers:
  "fileExists (fs\<lparr>readFile := r\<rparr>) = fileExists fs" "listDir (fs\<lparr>readFile := r\<rparr>) = listDir fs"
  "lookPath (fs\<lparr>readFile := r\<rparr>) = lookPath fs" "absPath (fs\<lparr>readFile := r\<rparr>) = absPath fs"
  "runLdd (fs\<lparr>readFile := r\<rparr>) = runLdd fs"
  by simp_all

lemma covered_contents: "coveredFiles (fs\<lparr>readFile := r\<rparr>) cmd = coveredFiles fs cmd"
  unfolding coveredFiles_def resolveCommandPath_def bundleFiles_def dynamicDependencies_def argumentFiles_def
    resolveReferencedFile_def other_answers ..

text \<open>
  C4. A fingerprint sees a change of any file it covers. When one covered file has other contents, and
  nothing else of the machine changed, the bytes that are hashed for the command are different ones,
  whatever the contents are and however often the file is covered.
\<close>

theorem fingerprint_sees_a_change:
  assumes "coveredFiles fs cmd = Some files" and "p \<in> set (map snd files)"
    and "fingerprintBytes fs cmd = Some b" and "fingerprintBytes (fs\<lparr>readFile := (readFile fs)(p := Some new)\<rparr>) cmd = Some b'"
  shows "b = b' \<longleftrightarrow> readFile fs p = Some new"
proof
  assume "b = b'"
  define r where "r = (readFile fs)(p := Some new)"
  have h: "hashFiles (readFile fs) files = Some b" "hashFiles r files = Some b'"
    using assms(1,3,4) by (simp_all add: fingerprintBytes_def covered_contents r_def)
  obtain d where d: "readFile fs p = Some d" using hashFiles_defined [OF h(1) assms(2)] by blast
  have off: "path \<noteq> p \<Longrightarrow> readFile fs path = r path" for path by (simp add: r_def)
  have "r p = Some new" by (simp add: r_def)
  note size = hashFiles_length [OF off d this h]
  have "count_list (map snd files) p \<noteq> 0" using assms(2) by (simp add: count_list_0_iff)
  then have "length d = length new" using size \<open>b = b'\<close> by simp
  then show "readFile fs p = Some new"
    using hashFiles_differ [OF off d \<open>r p = Some new\<close> _ h(1)] h(2) \<open>b = b'\<close> assms(2) d by simp
next
  assume "readFile fs p = Some new"
  then have "(readFile fs)(p := Some new) = readFile fs" by auto
  then show "b = b'" using assms(3,4) by simp
qed

definition sampleFiles :: fileSystem where
  "sampleFiles = \<lparr>fileExists = (\<lambda>p. p = ''/bin/enet'' \<or> p = ''/lib/c.so''), readFile = (\<lambda>p. Some p), listDir = (\<lambda>_. []),
     lookPath = (\<lambda>_. None), absPath = Some, runLdd = (\<lambda>_. Some ''libc.so => /lib/c.so (0x1)'')\<rparr>"

definition sampleCommand :: CommandConfig where
  "sampleCommand = \<lparr>Path = ''/bin/enet'', CmdArgs = [''--conns'', ''4''], Env = [], Dir = []\<rparr>"

lemma sample_covered: "coveredFiles sampleFiles sampleCommand = Some [(''command'', ''/bin/enet''), (''shared//lib/c.so'', ''/lib/c.so'')]"
  by code_simp

lemma fingerprint_sees_a_change_witness:
  "\<exists>b b'. fingerprintBytes sampleFiles sampleCommand = Some b \<and>
     fingerprintBytes (sampleFiles\<lparr>readFile := (readFile sampleFiles)(''/lib/c.so'' := Some ''v2'')\<rparr>) sampleCommand = Some b' \<and> b \<noteq> b'"
proof -
  have p: "''/lib/c.so'' \<in> set (map snd [(''command'', ''/bin/enet''), (''shared//lib/c.so'', ''/lib/c.so'')])" by simp
  have "\<exists>b. hashFiles r [(''command'', ''/bin/enet''), (''shared//lib/c.so'', ''/lib/c.so'')] = Some b"
    if "r ''/bin/enet'' \<noteq> None" "r ''/lib/c.so'' \<noteq> None" for r
    using that by (auto simp: hashFile_def)
  then have bytes: "\<exists>b. fingerprintBytes (sampleFiles\<lparr>readFile := r\<rparr>) sampleCommand = Some b"
    if "r ''/bin/enet'' \<noteq> None" "r ''/lib/c.so'' \<noteq> None" for r
    using that by (simp add: fingerprintBytes_def covered_contents sample_covered del: hashFiles.simps)
  have reads: "readFile sampleFiles p \<noteq> None" for p by (simp add: sampleFiles_def)
  obtain b where b: "fingerprintBytes sampleFiles sampleCommand = Some b"
    using bytes [of "readFile sampleFiles"] reads by auto
  obtain b' where b': "fingerprintBytes (sampleFiles\<lparr>readFile := (readFile sampleFiles)(''/lib/c.so'' := Some ''v2'')\<rparr>) sampleCommand = Some b'"
    using bytes [of "(readFile sampleFiles)(''/lib/c.so'' := Some ''v2'')"] reads by auto
  have "readFile sampleFiles ''/lib/c.so'' \<noteq> Some ''v2''" by (simp add: sampleFiles_def)
  then show ?thesis using fingerprint_sees_a_change [OF sample_covered p b b'] b b' by blast
qed

text \<open>
  Two files that change together can go unseen: the frames of \<open>hashFile\<close> end with a zero byte, and the
  contents may contain the label of the next file behind one.
\<close>

lemma framing_collides:
  "hashFiles (\<lambda>p. if p = ''a'' then Some [] else Some ([zeroByte, zeroByte] @ ''l'' @ [zeroByte])) [(''k'', ''a''), (''l'', ''b'')] =
   hashFiles (\<lambda>p. if p = ''a'' then Some ([zeroByte] @ ''l'' @ [zeroByte, zeroByte]) else Some []) [(''k'', ''a''), (''l'', ''b'')]"
  by code_simp

text \<open>The identity of a configuration leaves the place of its output and the reuse of the gate aside.\<close>

lemma identity_same:
  "ConfigIdentity fs h m (cfg\<lparr>cOutputDir := dir, cNetemGateOff := off\<rparr>) = ConfigIdentity fs h m cfg"
  by (simp add: ConfigIdentity_def identityRecord_def canonicalConfig_def Let_def)

lemma identity_record_iff: "identityRecord fs h m c = identityRecord fs h m d \<longleftrightarrow> canonicalConfig c = canonicalConfig d"
  by (auto simp: identityRecord_def Let_def)

section \<open>The hash of a preset\<close>

record ConfirmatoryProtocol =
  BlockN :: int
  FlapBlockN :: int
  MaxBlocks :: int
  StoppingSpreadMax :: f64
  DriftMaxDeliveryDelta :: f64
  DriftMaxStalenessP99Ratio :: f64

definition ConfirmatoryV1 :: ConfirmatoryProtocol where
  "ConfirmatoryV1 = \<lparr>BlockN = 3, FlapBlockN = 5, MaxBlocks = 5, StoppingSpreadMax = f_of_rat (1 / 20),
     DriftMaxDeliveryDelta = f_of_rat (1 / 100), DriftMaxStalenessP99Ratio = f_of_rat (11 / 10)\<rparr>"

definition presetHashVersion :: int where "presetHashVersion = 1"

text \<open>\<open>hash\<close> is \<open>HashValue\<close> on the structure of version, preset and protocol.\<close>

definition PresetHash :: "(int \<times> ReferencePreset \<times> ConfirmatoryProtocol \<Rightarrow> string) \<Rightarrow> string \<Rightarrow> string + string" where
  "PresetHash hash name = (case LookupReferencePreset name of
       None \<Rightarrow> Inl (''unknown reference preset '' @ quoteText name @ '' (known: '' @ joinText '', '' ReferencePresetNames @ '')'')
     | Some preset \<Rightarrow> Inr (hash (presetHashVersion, preset, ConfirmatoryV1)))"

lemma preset_hash_pins:
  assumes "inj hash" and "PresetHash hash name = Inr h" and "PresetHash hash name' = Inr h"
  shows "LookupReferencePreset name = LookupReferencePreset name'"
  using assms by (auto simp: PresetHash_def split: option.splits dest: injD)

end
