(* ===== verification/GoDuration.thy ===== *)
theory GoDuration
  imports Float64 GoText
begin

text \<open>
  \<open>time.Duration\<close> as text: \<open>String\<close> (\<open>durationString\<close>) and \<open>time.ParseDuration\<close>, with the overflow checks and the
  floating-point fraction of the library, and the proof that what one prints the other reads back,
  for every 64-bit duration. The micro sign is its two bytes in UTF-8.
\<close>

section \<open>Printing\<close>

text \<open>\<open>fmtFrac\<close>: the digits of a fraction of \<open>prec\<close> places without trailing zeros, and the integer part.\<close>

fun fmtFrac :: "nat \<Rightarrow> bool \<Rightarrow> string \<Rightarrow> int \<Rightarrow> string \<times> int" where
  "fmtFrac 0 print buf v = (if print then CHR ''.'' # buf else buf, v)"
| "fmtFrac (Suc prec) print buf v =
     (let digit = v mod 10; print = (print \<or> digit \<noteq> 0)
      in fmtFrac prec print (if print then digitChar (nat digit) # buf else buf) (v div 10))"

definition micro :: string where "micro = [CHR 0xC2, CHR 0xB5]"

definition subSecond :: "nat \<Rightarrow> string \<Rightarrow> int \<Rightarrow> string" where
  "subSecond prec unit u = (case fmtFrac prec False [] u of (dec, n) \<Rightarrow> itoa n @ dec @ unit)"

definition minutesText :: "int \<Rightarrow> string" where
  "minutesText minutes =
     (if minutes = 0 then []
      else (if minutes div 60 = 0 then [] else itoa (minutes div 60) @ ''h'') @ itoa (minutes mod 60) @ ''m'')"

definition magnitudeText :: "int \<Rightarrow> string" where
  "magnitudeText u =
     (if u = 0 then ''0s''
      else if u < 1000 then subSecond 0 ''ns'' u
      else if u < 1000000 then subSecond 3 (micro @ ''s'') u
      else if u < 1000000000 then subSecond 6 ''ms'' u
      else case fmtFrac 9 False [] u of (dec, n) \<Rightarrow> minutesText (n div 60) @ itoa (n mod 60) @ dec @ ''s'')"

definition durationString :: "int \<Rightarrow> string" where
  "durationString d = (if d < 0 then ''-'' @ magnitudeText (- d) else magnitudeText d)"

section \<open>Parsing\<close>

definition isNum :: "char \<Rightarrow> bool" where
  "isNum c \<longleftrightarrow> digitValue c \<noteq> None"

fun leadingInt :: "int \<Rightarrow> string \<Rightarrow> (int \<times> string) option" where
  "leadingInt x [] = Some (x, [])"
| "leadingInt x (c # cs) = (case digitValue c of None \<Rightarrow> Some (x, c # cs)
     | Some d \<Rightarrow>
         if 2 ^ 63 div 10 < x then None
         else let x = x * 10 + int d in if 2 ^ 63 < x then None else leadingInt x cs)"

fun leadingFraction :: "bool \<Rightarrow> int \<Rightarrow> f64 \<Rightarrow> string \<Rightarrow> int \<times> f64 \<times> string" where
  "leadingFraction overflow x scale [] = (x, scale, [])"
| "leadingFraction overflow x scale (c # cs) = (case digitValue c of None \<Rightarrow> (x, scale, c # cs)
     | Some d \<Rightarrow>
         if overflow \<or> MaxInt64 div 10 < x then leadingFraction True x scale cs
         else let y = x * 10 + int d
              in if 2 ^ 63 < y then leadingFraction True x scale cs
                 else leadingFraction False y (f_mul scale (FFin 10)) cs)"

definition durationUnits :: "(string \<times> int) list" where
  "durationUnits = [(''ns'', 1), (''us'', 1000), (micro @ ''s'', 1000), ([CHR 0xCE, CHR 0xBC, CHR ''s''], 1000),
     (''ms'', 1000000), (''s'', 1000000000), (''m'', 60000000000), (''h'', 3600000000000)]"

definition unitChar :: "char \<Rightarrow> bool" where
  "unitChar c \<longleftrightarrow> c \<noteq> CHR ''.'' \<and> \<not> isNum c"

definition fractionPart :: "string \<Rightarrow> int \<times> f64 \<times> string \<times> bool" where
  "fractionPart s = (case s of [] \<Rightarrow> (0, FFin 1, [], False)
     | c # cs \<Rightarrow> if c = CHR ''.''
         then (case leadingFraction False 0 (FFin 1) cs of (f, scale, rest) \<Rightarrow> (f, scale, rest, length rest \<noteq> length cs))
         else (0, FFin 1, s, False))"

definition scaled :: "int \<Rightarrow> int \<Rightarrow> f64 \<Rightarrow> int \<Rightarrow> int option" where
  "scaled v f scale unit =
     (if 2 ^ 63 div unit < v then None
      else if f = 0 then Some (v * unit)
      else
        let v = (v * unit + uint (f_to_u64 (f_mul (f_of_int f) (f_div (f_of_int unit) scale)))) mod 2 ^ 64
        in if 2 ^ 63 < v then None else Some v)"

text \<open>One number with its unit, and the rest of the text.\<close>

definition parseTerm :: "string \<Rightarrow> (int \<times> string) option" where
  "parseTerm s =
     (if s = [] \<or> unitChar (hd s) then None
      else case leadingInt 0 s of None \<Rightarrow> None
       | Some (v, r) \<Rightarrow> (case fractionPart r of (f, scale, r', post) \<Rightarrow>
           if length r = length s \<and> \<not> post then None
           else if takeWhile unitChar r' = [] then None
           else case map_of durationUnits (takeWhile unitChar r') of None \<Rightarrow> None
            | Some unit \<Rightarrow> map_option (\<lambda>v. (v, dropWhile unitChar r')) (scaled v f scale unit)))"

lemma leadingInt_length: "leadingInt x s = Some (v, r) \<Longrightarrow> length r \<le> length s"
  by (induction s arbitrary: x) (auto simp: Let_def intro: le_SucI split: option.splits if_splits)

lemma leadingFraction_length: "leadingFraction over x scale s = (f, scale', r) \<Longrightarrow> length r \<le> length s"
  by (induction s arbitrary: over x scale) (auto simp: Let_def intro: le_SucI split: option.splits if_splits)

lemma fractionPart_length: "fractionPart s = (f, scale, r, post) \<Longrightarrow> length r \<le> length s"
  using leadingFraction_length [of False 0 "FFin 1" "tl s"]
  by (auto simp: fractionPart_def split: list.splits if_splits prod.splits)

lemma parseTerm_shrinks: "parseTerm s = Some (v, r) \<Longrightarrow> length r < length s"
proof -
  assume a: "parseTerm s = Some (v, r)"
  then obtain v' r1 f scale r2 post where h: "leadingInt 0 s = Some (v', r1)"
    "fractionPart r1 = (f, scale, r2, post)" "takeWhile unitChar r2 \<noteq> []" "r = dropWhile unitChar r2"
    by (auto simp: parseTerm_def split: if_splits option.splits prod.splits)
  have "length (takeWhile unitChar r2) + length r = length r2"
    unfolding h(4) by (metis length_append takeWhile_dropWhile_id)
  moreover have "0 < length (takeWhile unitChar r2)" using h(3) by simp
  ultimately show ?thesis
    using leadingInt_length [OF h(1)] fractionPart_length [OF h(2)] by linarith
qed

function parseTerms :: "int \<Rightarrow> string \<Rightarrow> int option" where
  "parseTerms d s =
     (if s = [] then Some d
      else case parseTerm s of None \<Rightarrow> None
       | Some (v, r) \<Rightarrow> let d = (d + v) mod 2 ^ 64 in if 2 ^ 63 < d then None else parseTerms d r)"
  by pat_completeness auto
termination by (relation "measure (\<lambda>(d, s). length s)") (auto dest: parseTerm_shrinks)

declare parseTerms.simps [simp del]

definition ParseDuration :: "string \<Rightarrow> int option" where
  "ParseDuration s =
     (let (neg, s) = (case s of c # cs \<Rightarrow> if c = CHR ''-'' \<or> c = CHR ''+'' then (c = CHR ''-'', cs) else (False, s)
        | [] \<Rightarrow> (False, []))
      in if s = ''0'' then Some 0
         else if s = [] then None
         else case parseTerms 0 s of None \<Rightarrow> None
          | Some d \<Rightarrow> if neg then Some (wrap64 (- d)) else if MaxInt64 < d then None else Some d)"


section \<open>Reading a printed duration\<close>

lemma parseFrom_ge: "parseFrom a s = Some n \<Longrightarrow> a \<le> n"
  by (induction a s rule: parseFrom.induct) (auto split: option.splits)

lemma leadingInt_digits:
  assumes "parseFrom a s = Some n" and "int n \<le> 2 ^ 63" and "r = [] \<or> \<not> isNum (hd r)"
  shows "leadingInt (int a) (s @ r) = Some (int n, r)"
  using assms
proof (induction a s rule: parseFrom.induct)
  case (1 acc)
  then show ?case by (cases r) (auto simp: isNum_def)
next
  case (2 acc c cs)
  then obtain d where d: "digitValue c = Some d" "parseFrom (10 * acc + d) cs = Some n"
    by (auto split: option.splits)
  have "10 * acc + d \<le> n" using parseFrom_ge [OF d(2)] .
  then show ?case using 2 d by (simp add: Let_def algebra_simps)
qed

lemma leadingInt_itoa:
  "0 \<le> q \<Longrightarrow> q \<le> 2 ^ 63 \<Longrightarrow> r = [] \<or> \<not> isNum (hd r) \<Longrightarrow> leadingInt 0 (itoa q @ r) = Some (q, r)"
  using leadingInt_digits [of 0 "itoa q" "nat q" r] by (simp add: itoa_def parseFrom_itoaNat)

lemma power10_small:
  assumes "j \<le> 15"
  shows "f_of_rat (10 ^ j) = FFin (10 ^ j)"
proof -
  have n: "(10 :: nat) ^ j \<le> 10 ^ 15" using assms by (intro power_increasing) simp_all
  then have "rnd64 (of_nat (10 ^ j)) = of_nat (10 ^ j)" by (intro rnd64_of_nat) simp
  moreover have "(10 :: rat) ^ j \<le> 10 ^ 15" using assms by (intro power_increasing) simp_all
  ultimately show ?thesis by (subst f_of_rat_fin) simp_all
qed

lemma leadingFraction_digits:
  assumes "parseFrom a s = Some n" and "int n \<le> 10 ^ 15" and "j + length s \<le> 15" and "r = [] \<or> \<not> isNum (hd r)"
  shows "leadingFraction False (int a) (FFin (10 ^ j)) (s @ r) = (int n, FFin (10 ^ (j + length s)), r)"
  using assms
proof (induction a s arbitrary: j rule: parseFrom.induct)
  case (1 acc)
  then show ?case by (cases r) (auto simp: isNum_def)
next
  case (2 acc c cs)
  then obtain d where d: "digitValue c = Some d" "parseFrom (10 * acc + d) cs = Some n"
    by (auto split: option.splits)
  have "10 * acc + d \<le> n" using parseFrom_ge [OF d(2)] .
  moreover have "f_mul (FFin (10 ^ j)) (FFin 10) = FFin (10 ^ Suc j)"
    using power10_small [of "Suc j"] 2(4) by (simp add: mult.commute)
  moreover have "leadingFraction False (int (10 * acc + d)) (FFin (10 ^ Suc j)) (cs @ r) =
      (int n, FFin (10 ^ (Suc j + length cs)), r)"
    using 2(3,4,5) by (intro 2(1) d) simp_all
  ultimately show ?case using 2(3) d by (simp add: Let_def algebra_simps MaxInt64_def)
qed

fun padDigits :: "nat \<Rightarrow> int \<Rightarrow> string" where
  "padDigits 0 v = []"
| "padDigits (Suc n) v = padDigits n (v div 10) @ [digitChar (nat (v mod 10))]"

lemma padDigits_length [simp]: "length (padDigits n v) = n"
  by (induction n v rule: padDigits.induct) simp_all

lemma mod_power10: "(v :: int) mod 10 ^ Suc n = 10 * (v div 10 mod 10 ^ n) + v mod 10"
  using zmod_zmult2_eq [of "10 ^ n" v 10] by (simp add: mult.commute)

lemma parse_padDigits: "parseFrom a (padDigits n v) = Some (a * 10 ^ n + nat (v mod 10 ^ n))"
proof (induction n v arbitrary: a rule: padDigits.induct)
  case (1 v)
  then show ?case by simp
next
  case (2 n v)
  have "nat (v mod 10 ^ Suc n) = 10 * nat (v div 10 mod 10 ^ n) + nat (v mod 10)"
    unfolding mod_power10 by (simp add: nat_add_distrib nat_mult_distrib)
  then show ?case using 2 by (simp add: parseFrom_append algebra_simps nat_less_iff)
qed

lemma fmtFrac_print: "fmtFrac n True buf v = (CHR ''.'' # padDigits n v @ buf, v div 10 ^ n)"
  by (induction n v arbitrary: buf rule: padDigits.induct) (simp_all add: Let_def zdiv_zmult2_eq)

lemma fmtFrac_digits:
  "\<exists>k w. k \<le> n \<and> v mod 10 ^ n = w mod 10 ^ k * 10 ^ (n - k) \<and>
     fmtFrac n False [] v = (if k = 0 then [] else CHR ''.'' # padDigits k w, v div 10 ^ n)"
proof (induction n arbitrary: v)
  case 0
  then show ?case by simp
next
  case (Suc n)
  have split: "v div 10 ^ Suc n = v div 10 div 10 ^ n" by (simp add: zdiv_zmult2_eq)
  show ?case
  proof (cases "v mod 10 = 0")
    case True
    from Suc [of "v div 10"] obtain k w where kw: "k \<le> n" "v div 10 mod 10 ^ n = w mod 10 ^ k * 10 ^ (n - k)"
      "fmtFrac n False [] (v div 10) = (if k = 0 then [] else CHR ''.'' # padDigits k w, v div 10 div 10 ^ n)" by blast
    have "v mod 10 ^ Suc n = w mod 10 ^ k * 10 ^ (Suc n - k)"
      unfolding mod_power10 using kw True by (simp add: Suc_diff_le)
    then show ?thesis using kw True split by (intro exI [of _ k] exI [of _ w]) (simp add: Let_def)
  next
    case False
    then show ?thesis using split
      by (intro exI [of _ "Suc n"] exI [of _ v]) (simp add: Let_def fmtFrac_print)
  qed
qed

lemma isNum_dot [simp]: "\<not> isNum CHR ''.''"
  by (simp add: isNum_def digitValue_def)

lemma scaled_exact:
  assumes "0 \<le> f" and "f < 10 ^ k" and "k \<le> n" and "n \<le> 9" and "0 \<le> q" and "q * 10 ^ n + f * 10 ^ (n - k) \<le> 2 ^ 63"
  shows "scaled q f (FFin (10 ^ k)) (10 ^ n) = Some (q * 10 ^ n + f * 10 ^ (n - k))"
proof -
  let ?p = "f * 10 ^ (n - k)"
  have "0 \<le> ?p" using assms(1) by simp
  then have "q * 10 ^ n \<le> 2 ^ 63" using assms(6) by linarith
  from zdiv_mono1 [OF this, of "10 ^ n"] have q: "q \<le> 2 ^ 63 div 10 ^ n" by simp
  have less: "?p < 10 ^ n"
  proof -
    have "?p < 10 ^ k * 10 ^ (n - k)" using assms(2) by (intro mult_strict_right_mono) simp_all
    then show ?thesis using assms(3) by (simp flip: power_add)
  qed
  have p: "0 \<le> ?p" "?p < 10 ^ 9"
    using assms(1,4) less power_increasing [of n 9 "10 :: int"] by simp_all
  have small: "f_of_rat (of_int x) = FFin (of_int x)" if "0 \<le> x" "x < 10 ^ 9" for x :: int
  proof -
    have "rnd64 (of_nat (nat x)) = of_nat (nat x)" using that by (intro rnd64_of_nat) simp
    moreover have "rat_of_int x \<le> rat_of_int (10 ^ 9)" using that by (simp only: of_int_le_iff)
    then have "\<bar>rat_of_int x\<bar> \<le> 2 ^ 1023" using that by (simp add: abs_if)
    ultimately show ?thesis using that by (subst f_of_rat_fin) simp_all
  qed
  show ?thesis
  proof (cases "f = 0")
    case True
    then show ?thesis using q by (simp add: scaled_def)
  next
    case False
    have "f * 1 \<le> ?p" using assms(1) by (intro mult_left_mono) simp_all
    then have f: "f_of_int f = FFin (of_int f)" unfolding f_of_int_def using assms(1) p by (intro small) simp_all
    have "(10 :: rat) ^ n / 10 ^ k = 10 ^ (n - k)" using assms(3) by (simp add: power_diff)
    then have "f_div (f_of_int (10 ^ n)) (FFin (10 ^ k)) = FFin (10 ^ (n - k))"
      using power10_small [of n] power10_small [of "n - k"] assms(4) by (simp add: f_of_int_def)
    then have "f_mul (f_of_int f) (f_div (f_of_int (10 ^ n)) (FFin (10 ^ k))) = FFin (of_int ?p)"
      using small [OF p] by (simp add: f)
    moreover have "uint (f_to_u64 (FFin (of_int z))) = z" if "0 \<le> z" "z < 10 ^ 9" for z
      using that by (simp add: trunc_def uint_word_of_int)
    ultimately have "uint (f_to_u64 (f_mul (f_of_int f) (f_div (f_of_int (10 ^ n)) (FFin (10 ^ k))))) = ?p"
      using p by (simp only:)
    then show ?thesis
      using False q assms(5,6) p(1) by (simp add: scaled_def Let_def)
  qed
qed


lemma fractionPart_none: "r \<noteq> [] \<Longrightarrow> hd r \<noteq> CHR ''.'' \<Longrightarrow> fractionPart r = (0, FFin 1, r, False)"
  by (cases r) (simp_all add: fractionPart_def)

lemma fractionPart_digits:
  assumes "0 < k" and "k \<le> 15" and "r = [] \<or> \<not> isNum (hd r)"
  shows "fractionPart (CHR ''.'' # padDigits k w @ r) = (w mod 10 ^ k, FFin (10 ^ k), r, True)"
proof -
  have "w mod 10 ^ k < 10 ^ k" "(10 :: int) ^ k \<le> 10 ^ 15" using assms(2) power_increasing [of k 15 "10 :: int"] by simp_all
  then have "w mod 10 ^ k \<le> 10 ^ 15" by linarith
  then have "leadingFraction False (int 0) (FFin (10 ^ 0)) (padDigits k w @ r) = (int (nat (w mod 10 ^ k)), FFin (10 ^ (0 + length (padDigits k w))), r)"
    using assms by (intro leadingFraction_digits) (simp_all add: parse_padDigits)
  then show ?thesis using assms(1) by (simp add: fractionPart_def)
qed

text \<open>A unit and the text behind it.\<close>

definition unitBefore :: "string \<Rightarrow> string \<Rightarrow> bool" where
  "unitBefore u r \<longleftrightarrow> u \<noteq> [] \<and> (\<forall>c \<in> set u. unitChar c) \<and> (r = [] \<or> \<not> unitChar (hd r))"

lemma unitBefore_split:
  assumes "unitBefore u r"
  shows "takeWhile unitChar (u @ r) = u" and "dropWhile unitChar (u @ r) = r" and "u @ r \<noteq> []"
    and "\<not> isNum (hd (u @ r))" and "hd (u @ r) \<noteq> CHR ''.''" and "u \<noteq> []"
proof -
  obtain c u' where u: "u = c # u'" using assms by (cases u) (auto simp: unitBefore_def)
  have "takeWhile unitChar r = []" "dropWhile unitChar r = r"
    using assms by (cases r; simp add: unitBefore_def)+
  then show "takeWhile unitChar (u @ r) = u" "dropWhile unitChar (u @ r) = r"
    using assms by (simp_all add: unitBefore_def takeWhile_append dropWhile_append)
  show "u @ r \<noteq> []" "\<not> isNum (hd (u @ r))" "hd (u @ r) \<noteq> CHR ''.''" "u \<noteq> []"
    using assms by (auto simp: unitBefore_def unitChar_def u)
qed

lemma hd_itoa: "0 \<le> q \<Longrightarrow> itoa q \<noteq> [] \<and> isNum (hd (itoa q @ r))"
  using itoaNat_digits [of "hd (itoaNat (nat q))" "nat q"] by (simp add: itoa_def isNum_def)

text \<open>One printed number: the integer part, the fraction of the last \<open>n\<close> digits of \<open>v\<close>, the unit.\<close>

lemma parseTerm_printed:
  assumes "0 \<le> q" and "n \<le> 9" and "q * 10 ^ n + v mod 10 ^ n \<le> 2 ^ 63" and "fmtFrac n False [] v = (dec, v')"
    and "unitBefore u r" and "map_of durationUnits u = Some (10 ^ n)"
  shows "parseTerm (itoa q @ dec @ u @ r) = Some (q * 10 ^ n + v mod 10 ^ n, r)"
proof -
  obtain k w where kw: "k \<le> n" "v mod 10 ^ n = w mod 10 ^ k * 10 ^ (n - k)"
    "dec = (if k = 0 then [] else CHR ''.'' # padDigits k w)"
    using fmtFrac_digits [of n v] assms(4) by auto
  note ub = unitBefore_split [OF assms(5)]
  have part: "fractionPart (dec @ u @ r) = (w mod 10 ^ k, FFin (10 ^ k), u @ r, 0 < k)"
    using fractionPart_none [OF ub(3,5)] fractionPart_digits [of k "u @ r" w] ub(4) kw(1) assms(2) by (simp add: kw(3))
  have "q * 1 \<le> q * 10 ^ n" using assms(1) by (intro mult_left_mono) simp_all
  moreover have "0 \<le> v mod 10 ^ n" by simp
  ultimately have "q \<le> 2 ^ 63" using assms(3) by linarith
  moreover have "\<not> isNum (hd (dec @ u @ r))" using ub(4) by (simp add: kw(3))
  ultimately have "leadingInt 0 (itoa q @ dec @ u @ r) = Some (q, dec @ u @ r)"
    using assms(1) by (intro leadingInt_itoa) simp_all
  moreover have "scaled q (w mod 10 ^ k) (FFin (10 ^ k)) (10 ^ n) = Some (q * 10 ^ n + v mod 10 ^ n)"
    unfolding kw(2) using kw(1) assms(1,2) assms(3) [unfolded kw(2)] by (intro scaled_exact) simp_all
  ultimately show ?thesis
    using part hd_itoa [OF assms(1), of "dec @ u @ r"] ub assms(6) by (auto simp: parseTerm_def unitChar_def)
qed

text \<open>Minutes and hours have no fraction.\<close>

lemma parseTerm_whole:
  assumes "0 \<le> q" and "0 < unit" and "q * unit \<le> 2 ^ 63" and "unitBefore u r" and "map_of durationUnits u = Some unit"
  shows "parseTerm (itoa q @ u @ r) = Some (q * unit, r)"
proof -
  note ub = unitBefore_split [OF assms(4)]
  have "q * 1 \<le> q * unit" using assms(1,2) by (intro mult_left_mono) simp_all
  then have "leadingInt 0 (itoa q @ u @ r) = Some (q, u @ r)"
    using assms(1,3) ub by (intro leadingInt_itoa) simp_all
  moreover have "q \<le> 2 ^ 63 div unit" using zdiv_mono1 [OF assms(3,2)] assms(2) by simp
  ultimately show ?thesis
    using fractionPart_none [OF ub(3,5)] hd_itoa [OF assms(1), of "u @ r"] ub assms(5)
    by (auto simp: parseTerm_def unitChar_def scaled_def)
qed

lemma parseTerms_step:
  assumes "parseTerm s = Some (v, r)" and "0 \<le> d" and "0 \<le> v" and "d + v \<le> 2 ^ 63"
  shows "parseTerms d s = parseTerms (d + v) r"
proof -
  have "s \<noteq> []" using assms(1) by (auto simp: parseTerm_def)
  then show ?thesis using assms by (subst parseTerms.simps) (simp add: Let_def)
qed


lemma printed_units: "unitBefore ''ns'' []" "unitBefore (micro @ ''s'') []" "unitBefore ''ms'' []" "unitBefore ''s'' []"
  "isNum (hd r) \<Longrightarrow> unitBefore ''m'' r" "isNum (hd r) \<Longrightarrow> unitBefore ''h'' r"
  by (simp_all add: unitBefore_def unitChar_def isNum_def digitValue_def micro_def)

lemma unit_values: "map_of durationUnits ''ns'' = Some (10 ^ 0)" "map_of durationUnits (micro @ ''s'') = Some (10 ^ 3)"
  "map_of durationUnits ''ms'' = Some (10 ^ 6)" "map_of durationUnits ''s'' = Some (10 ^ 9)"
  "map_of durationUnits ''m'' = Some 60000000000" "map_of durationUnits ''h'' = Some 3600000000000"
  by (simp_all add: durationUnits_def micro_def)

lemma fmtFrac_rest: "snd (fmtFrac n False [] v) = v div 10 ^ n"
  using fmtFrac_digits [of n v] by auto

lemma parseTerms_last:
  assumes "parseTerm s = Some (v, [])" and "0 \<le> d" and "0 \<le> v" and "d + v \<le> 2 ^ 63"
  shows "parseTerms d s = Some (d + v)"
  using parseTerms_step [OF assms] by (simp add: parseTerms.simps)

lemma subSecond_parsed:
  assumes "0 \<le> v" and "v \<le> 2 ^ 63" and "n \<le> 9" and "unitBefore u []" and "map_of durationUnits u = Some (10 ^ n)"
  shows "parseTerms 0 (subSecond n u v) = Some v"
proof -
  obtain dec where dec: "fmtFrac n False [] v = (dec, v div 10 ^ n)"
    using fmtFrac_rest [of n v] by (cases "fmtFrac n False [] v") simp
  have v: "v div 10 ^ n * 10 ^ n + v mod 10 ^ n = v" by (rule div_mult_mod_eq)
  have "parseTerm (itoa (v div 10 ^ n) @ dec @ u @ []) = Some (v, [])"
    using parseTerm_printed [OF _ assms(3) _ dec assms(4,5)] assms(1,2) by (simp only: v pos_imp_zdiv_nonneg_iff zero_less_power zero_less_numeral)
  then show ?thesis using assms(1,2) by (simp add: subSecond_def dec parseTerms_last)
qed

lemma minutes_parsed:
  assumes "0 \<le> m" and "m * 60000000000 \<le> 2 ^ 63" and "isNum (hd rest)"
  shows "parseTerms 0 (minutesText m @ rest) = parseTerms (m * 60000000000) rest"
proof -
  have min: "parseTerms d (itoa q @ ''m'' @ rest) = parseTerms (d + q * 60000000000) rest"
    if "0 \<le> d" "0 \<le> q" "d + q * 60000000000 \<le> 2 ^ 63" for d q
    using that parseTerm_whole [OF _ _ _ printed_units(5) [OF assms(3)] unit_values(5), of q]
    by (intro parseTerms_step) simp_all
  have hour: "parseTerms 0 (itoa h @ ''h'' @ itoa q @ ''m'' @ rest) = parseTerms (h * 3600000000000) (itoa q @ ''m'' @ rest)"
    if "0 \<le> h" "h * 3600000000000 \<le> 2 ^ 63" "0 \<le> q" for h q
  proof -
    have "isNum (hd (itoa q @ ''m'' @ rest))" using hd_itoa [OF that(3)] by blast
    from parseTerms_step [OF parseTerm_whole [OF that(1) _ that(2) printed_units(6) [OF this] unit_values(6)], of 0] that
    show ?thesis by simp
  qed
  have m: "m div 60 * 60 + m mod 60 = m" by simp
  have sum: "m div 60 * 3600000000000 + m mod 60 * 60000000000 = m * 60000000000" using m by linarith
  have nonneg: "0 \<le> m div 60" "0 \<le> m mod 60" using assms(1) by (simp_all add: pos_imp_zdiv_nonneg_iff)
  show ?thesis
  proof (cases "m div 60 = 0")
    case True
    then have "m mod 60 = m" using m by simp
    then show ?thesis using min [of 0 m] assms(1,2) True by (cases "m = 0") (simp_all add: minutesText_def)
  next
    case False
    have "parseTerms 0 (itoa (m div 60) @ ''h'' @ itoa (m mod 60) @ ''m'' @ rest) =
        parseTerms (m div 60 * 3600000000000) (itoa (m mod 60) @ ''m'' @ rest)"
      using nonneg assms(2) sum by (intro hour) linarith+
    also have "\<dots> = parseTerms (m * 60000000000) rest"
      using min [of "m div 60 * 3600000000000" "m mod 60"] nonneg assms(2) unfolding sum by simp
    finally show ?thesis using False by (simp add: minutesText_def)
  qed
qed

lemma itoa_0: "itoa 0 = ''0''"
  by code_simp

lemma magnitude_parsed:
  assumes "0 \<le> u" and "u \<le> 2 ^ 63"
  shows "parseTerms 0 (magnitudeText u) = Some u"
proof -
  obtain dec where dec: "fmtFrac 9 False [] u = (dec, u div 10 ^ 9)"
    using fmtFrac_rest [of 9 u] by (cases "fmtFrac 9 False [] u") simp
  let ?n = "u div 1000000000"
  have u: "?n * 1000000000 + u mod 1000000000 = u" "?n = ?n div 60 * 60 + ?n mod 60" by simp_all
  have last: "parseTerm (itoa (?n mod 60) @ dec @ ''s'' @ []) = Some (?n mod 60 * 1000000000 + u mod 1000000000, [])"
    using parseTerm_printed [OF _ _ _ dec printed_units(4) unit_values(4), of "?n mod 60"] u assms by simp
  have sum: "?n div 60 * 60000000000 + (?n mod 60 * 1000000000 + u mod 1000000000) = u" using u by linarith
  have "0 \<le> ?n div 60 * 60000000000" "0 \<le> ?n mod 60 * 1000000000 + u mod 1000000000"
    using assms(1) by (simp_all add: pos_imp_zdiv_nonneg_iff)
  from parseTerms_last [OF last this] have "parseTerms (?n div 60 * 60000000000) (itoa (?n mod 60) @ dec @ ''s'') = Some u"
    unfolding sum using assms(2) by simp
  moreover have "parseTerms 0 (minutesText (?n div 60) @ itoa (?n mod 60) @ dec @ ''s'') =
      parseTerms (?n div 60 * 60000000000) (itoa (?n mod 60) @ dec @ ''s'')"
  proof (rule minutes_parsed)
    show "0 \<le> ?n div 60" using assms(1) by (simp add: pos_imp_zdiv_nonneg_iff)
    show "?n div 60 * 60000000000 \<le> 2 ^ 63"
      using sum assms(2) \<open>0 \<le> ?n mod 60 * 1000000000 + u mod 1000000000\<close> by linarith
    show "isNum (hd (itoa (?n mod 60) @ dec @ ''s''))" by (rule hd_itoa [THEN conjunct2]) simp
  qed
  moreover have "parseTerms 0 ''0s'' = Some 0"
    using parseTerms_last [OF parseTerm_whole [of 0 "10 ^ 9" "''s''" "[]"], of 0] printed_units(4) unit_values(4)
    by (simp add: itoa_0)
  moreover have "magnitudeText u = minutesText (?n div 60) @ itoa (?n mod 60) @ dec @ ''s''" if "\<not> u < 1000000000"
    using that assms(1) dec by (simp add: magnitudeText_def)
  moreover consider "u = 0" | "u \<noteq> 0" "u < 1000" | "1000 \<le> u" "u < 1000000" | "1000000 \<le> u" "u < 1000000000" | "\<not> u < 1000000000"
    by linarith
  ultimately show ?thesis
    using subSecond_parsed [OF assms, of 0] subSecond_parsed [OF assms, of 3] subSecond_parsed [OF assms, of 6]
      printed_units(1-3) unit_values(1-3)
    by cases (simp_all add: magnitudeText_def)
qed

lemma magnitude_shape:
  assumes "0 \<le> u"
  shows "\<exists>q t. 0 \<le> q \<and> magnitudeText u = itoa q @ t @ ''s''"
proof -
  have sub: "\<exists>q t. 0 \<le> q \<and> subSecond n (p @ ''s'') u = itoa q @ t @ ''s''" for n p
  proof -
    obtain dec where "fmtFrac n False [] u = (dec, u div 10 ^ n)"
      using fmtFrac_rest [of n u] by (cases "fmtFrac n False [] u") simp
    then show ?thesis using assms
      by (intro exI [of _ "u div 10 ^ n"] exI [of _ "dec @ p"]) (simp add: subSecond_def pos_imp_zdiv_nonneg_iff)
  qed
  have min: "\<exists>q t. 0 \<le> q \<and> minutesText m @ itoa r @ s = itoa q @ t @ s" if "0 \<le> m" "0 \<le> r" for m r s
  proof (cases "m = 0")
    case True
    then show ?thesis using that by (intro exI [of _ r] exI [of _ "[]"]) (simp add: minutesText_def)
  next
    case False
    then show ?thesis using that
      by (intro exI [of _ "if m div 60 = 0 then m mod 60 else m div 60"]
          exI [of _ "(if m div 60 = 0 then ''m'' else ''h'' @ itoa (m mod 60) @ ''m'') @ itoa r"])
        (simp add: minutesText_def pos_imp_zdiv_nonneg_iff)
  qed
  obtain dec where dec: "fmtFrac 9 False [] u = (dec, u div 10 ^ 9)"
    using fmtFrac_rest [of 9 u] by (cases "fmtFrac 9 False [] u") simp
  have "\<exists>q t. 0 \<le> q \<and> minutesText (u div 10 ^ 9 div 60) @ itoa (u div 10 ^ 9 mod 60) @ dec @ ''s'' = itoa q @ t @ ''s''"
  proof -
    have "0 \<le> u div 10 ^ 9 div 60" "0 \<le> u div 10 ^ 9 mod 60" using assms by (simp_all add: pos_imp_zdiv_nonneg_iff)
    from min [OF this, of "dec @ ''s''"] obtain q t where
      "0 \<le> q" "minutesText (u div 10 ^ 9 div 60) @ itoa (u div 10 ^ 9 mod 60) @ dec @ ''s'' = itoa q @ (t @ dec) @ ''s''"
      by auto
    then show ?thesis by blast
  qed
  moreover have "\<exists>q t. 0 \<le> q \<and> ''0s'' = itoa q @ t @ ''s''"
    by (intro exI [of _ 0] exI [of _ "[]"]) (simp add: itoa_0)
  ultimately show ?thesis
    using sub [of 0 "''n''"] sub [of 3 micro] sub [of 6 "''m''"] unfolding magnitudeText_def dec by simp
qed

theorem parse_printed_duration:
  assumes "in_i64 d"
  shows "ParseDuration (durationString d) = Some d"
proof -
  have d: "\<bar>d\<bar> \<le> 2 ^ 63" using assms by (simp add: in_i64_def MaxInt64_def MinInt64_def abs_le_iff)
  obtain q t where q: "0 \<le> q" "magnitudeText \<bar>d\<bar> = itoa q @ t @ ''s''" using magnitude_shape [of "\<bar>d\<bar>"] by auto
  then obtain c cs where c: "magnitudeText \<bar>d\<bar> = c # cs" "isNum c"
    using hd_itoa [OF q(1), of "t @ ''s''"] by (metis append_is_Nil_conv list.collapse)
  have "c # cs \<noteq> ''0''"
  proof
    assume "c # cs = ''0''"
    with q(2) c(1) have "last (itoa q @ t @ ''s'') = CHR ''0''" by simp
    then show False by simp
  qed
  moreover have "c \<noteq> CHR ''-''" "c \<noteq> CHR ''+''" using c(2) by (auto simp: isNum_def)
  ultimately show ?thesis
    using magnitude_parsed [of "\<bar>d\<bar>"] d c(1) assms
    by (cases "d < 0") (auto simp: ParseDuration_def durationString_def in_i64_def)
qed

end
