(* ===== verification/ConfigJson.thy ===== *)
theory ConfigJson
  imports ConfigProperties NetemGate GoDuration
begin

text \<open>
  Reading the configuration of a run and of a machine (\<open>LoadConfig\<close> in \<open>orchestrator/run/config.go\<close>,
  \<open>Load\<close> in \<open>orchestrator/rig/rig.go\<close>): one JSON object without unknown keys, durations written as
  text or as nanoseconds, commands written as an object, as an array or as one line. The content of the
  file and the scanning of JSON, which yields the first value and the rest of the text, are arguments.
\<close>

section \<open>Durations and commands\<close>

definition unmarshalDuration :: "json \<Rightarrow> int option" where
  "unmarshalDuration v = (case v of JNull \<Rightarrow> Some 0 | JStr s \<Rightarrow> ParseDuration s | JNum l \<Rightarrow> atoi l | _ \<Rightarrow> None)"

definition marshalDuration :: "int \<Rightarrow> json" where
  "marshalDuration d = JStr (durationString d)"

text \<open>Decoding that rejects unknown keys (\<open>DisallowUnknownFields\<close>).\<close>

fun strictMembers :: "(string \<times> ('s \<Rightarrow> json \<Rightarrow> 's option)) list \<Rightarrow> 's \<Rightarrow> (string \<times> json) list \<Rightarrow> 's option" where
  "strictMembers fs s [] = Some s"
| "strictMembers fs s ((k, v) # kvs) =
     (case lookupField fs k of None \<Rightarrow> None
      | Some f \<Rightarrow> (case f s v of None \<Rightarrow> None | Some s' \<Rightarrow> strictMembers fs s' kvs))"

definition strictStruct :: "(string \<times> ('s \<Rightarrow> json \<Rightarrow> 's option)) list \<Rightarrow> 's \<Rightarrow> json \<Rightarrow> 's option" where
  "strictStruct fs s v = (case v of JNull \<Rightarrow> Some s | JObj kvs \<Rightarrow> strictMembers fs s kvs | _ \<Rightarrow> None)"

definition stringElement :: "json \<Rightarrow> string option" where
  "stringElement v = (case v of JNull \<Rightarrow> Some [] | JStr s \<Rightarrow> Some s | _ \<Rightarrow> None)"

definition zeroCommand :: CommandConfig where
  "zeroCommand = \<lparr>Path = [], CmdArgs = [], Env = [], Dir = []\<rparr>"

definition commandFields :: "(string \<times> (CommandConfig \<Rightarrow> json \<Rightarrow> CommandConfig option)) list" where
  "commandFields = [(''path'', decString Path_update), (''args'', decSlice CmdArgs_update stringElement),
     (''env'', decSlice Env_update stringElement), (''dir'', decString Dir_update)]"

definition setArgv :: "string list \<Rightarrow> CommandConfig \<Rightarrow> CommandConfig" where
  "setArgv argv c = (case argv of [] \<Rightarrow> c | path # args \<Rightarrow> c\<lparr>Path := path, CmdArgs := args\<rparr>)"

definition unmarshalCommand :: "CommandConfig \<Rightarrow> json \<Rightarrow> CommandConfig option" where
  "unmarshalCommand c v = (case v of
       JNull \<Rightarrow> Some c
     | JObj kvs \<Rightarrow> strictStruct commandFields zeroCommand v
     | JArr js \<Rightarrow> map_option (\<lambda>argv. setArgv argv c) (decAll stringElement js)
     | JStr line \<Rightarrow> Some (setArgv (textFields line) c)
     | _ \<Rightarrow> None)"

section \<open>The structs\<close>

definition decDuration :: "((int \<Rightarrow> int) \<Rightarrow> 's \<Rightarrow> 's) \<Rightarrow> 's \<Rightarrow> json \<Rightarrow> 's option" where
  "decDuration upd s v = map_option (\<lambda>d. upd (\<lambda>_. d) s) (unmarshalDuration v)"

definition decFloatField :: "((f64 \<Rightarrow> f64) \<Rightarrow> 's \<Rightarrow> 's) \<Rightarrow> 's \<Rightarrow> json \<Rightarrow> 's option" where
  "decFloatField upd s v = (case v of JNull \<Rightarrow> Some s | _ \<Rightarrow> map_option (\<lambda>x. upd (\<lambda>_. x) s) (decFloat v))"

definition decStructPointer :: "(('a option \<Rightarrow> 'a option) \<Rightarrow> 's \<Rightarrow> 's) \<Rightarrow> ('s \<Rightarrow> 'a option) \<Rightarrow> 'a \<Rightarrow>
    (string \<times> ('a \<Rightarrow> json \<Rightarrow> 'a option)) list \<Rightarrow> 's \<Rightarrow> json \<Rightarrow> 's option" where
  "decStructPointer upd get z fs s v = (case v of JNull \<Rightarrow> Some (upd (\<lambda>_. None) s)
     | _ \<Rightarrow> map_option (\<lambda>a. upd (\<lambda>_. Some a) s) (strictStruct fs (case get s of None \<Rightarrow> z | Some a \<Rightarrow> a) v))"

definition classSpecFields :: "(string \<times> (TrafficClassSpec \<Rightarrow> json \<Rightarrow> TrafficClassSpec option)) list" where
  "classSpecFields = [(''rate_hz'', decFloatField RateHz_update), (''payload_bytes'', decInt PayloadBytes_update),
     (''deadline_ns'', decUint sDeadlineNS_update), (''staleness_p99_ns'', decUint StalenessP99NS_update),
     (''min_delivery_ratio'', decFloatField MinDeliveryRatio_update),
     (''min_deadline_hit_ratio'', decFloatField MinDeadlineHitRatio_update),
     (''min_eventual_delivery_ratio'', decFloatField MinEventualDeliveryRatio_update)]"

definition zeroTrafficSpec :: TrafficSpec where
  "zeroTrafficSpec = \<lparr>sTrafficID = 0, LossTolerant = zeroClassSpec, MustDeliver = zeroClassSpec\<rparr>"

definition trafficSpecFields :: "(string \<times> (TrafficSpec \<Rightarrow> json \<Rightarrow> TrafficSpec option)) list" where
  "trafficSpecFields = [(''traffic_id'', decUint sTrafficID_update),
     (''loss_tolerant'', decNested LossTolerant_update LossTolerant (strictStruct classSpecFields)),
     (''must_deliver'', decNested MustDeliver_update MustDeliver (strictStruct classSpecFields))]"

definition zeroScenario :: ScenarioSpec where
  "zeroScenario = \<lparr>ScenarioName = [], scKind = [], ClientInput = None, ServerState = None, RoomPublish = None\<rparr>"

definition scenarioFields :: "(string \<times> (ScenarioSpec \<Rightarrow> json \<Rightarrow> ScenarioSpec option)) list" where
  "scenarioFields = [(''name'', decString ScenarioName_update), (''kind'', decString scKind_update),
     (''client_input'', decStructPointer ClientInput_update ClientInput zeroTrafficSpec trafficSpecFields),
     (''server_state'', decStructPointer ServerState_update ServerState zeroTrafficSpec trafficSpecFields),
     (''room_publish'', decStructPointer RoomPublish_update RoomPublish zeroTrafficSpec trafficSpecFields)]"

definition zeroRamp :: RampConfig where
  "zeroRamp = \<lparr>StartConns = 0, StepConns = 0, Guard = 0, Sample = 0, rDrain = 0\<rparr>"

definition rampFields :: "(string \<times> (RampConfig \<Rightarrow> json \<Rightarrow> RampConfig option)) list" where
  "rampFields = [(''start_conns'', decInt StartConns_update), (''step_conns'', decInt StepConns_update),
     (''guard'', decDuration Guard_update), (''sample'', decDuration Sample_update), (''drain'', decDuration rDrain_update)]"

definition netemFields :: "(string \<times> (Netem \<Rightarrow> json \<Rightarrow> Netem option)) list" where
  "netemFields = [(''delay_ms'', decInt DelayMS_update), (''jitter_ms'', decInt JitterMS_update),
     (''loss_pct'', decFloatField LossPercent_update), (''loss_burst_len'', decFloatField LossBurstLen_update),
     (''loss_seed'', decUint LossSeed_update), (''trace_bits'', decInt TraceBits_update),
     (''rate'', decString Rate_update), (''limit'', decInt Limit_update)]"

definition zeroRegime :: NetemRegime where
  "zeroRegime = \<lparr>nrPrefix = [], nrServerNS = [], nrClientNS = [], nrServerVeth = [], nrClientVeth = [],
     nrServerAddrCIDR = [], nrClientAddrCIDR = [], nrLinkMTUBytes = 0, nrDisableOffloads = False,
     nrServerEgress = zeroNetem, nrClientEgress = zeroNetem\<rparr>"

definition regimeFields :: "(string \<times> (NetemRegime \<Rightarrow> json \<Rightarrow> NetemRegime option)) list" where
  "regimeFields = [(''prefix'', decString nrPrefix_update), (''server_ns'', decString nrServerNS_update),
     (''client_ns'', decString nrClientNS_update), (''server_veth'', decString nrServerVeth_update),
     (''client_veth'', decString nrClientVeth_update), (''server_addr_cidr'', decString nrServerAddrCIDR_update),
     (''client_addr_cidr'', decString nrClientAddrCIDR_update), (''link_mtu_bytes'', decInt nrLinkMTUBytes_update),
     (''disable_offloads'', decBool nrDisableOffloads_update),
     (''server_egress'', decNested nrServerEgress_update nrServerEgress (strictStruct netemFields)),
     (''client_egress'', decNested nrClientEgress_update nrClientEgress (strictStruct netemFields))]"

definition zeroStep :: NetemStep where
  "zeroStep = \<lparr>At = 0, stepServerEgress = zeroNetem, stepClientEgress = zeroNetem\<rparr>"

definition stepFields :: "(string \<times> (NetemStep \<Rightarrow> json \<Rightarrow> NetemStep option)) list" where
  "stepFields = [(''at'', decDuration At_update),
     (''server_egress'', decNested stepServerEgress_update stepServerEgress (strictStruct netemFields)),
     (''client_egress'', decNested stepClientEgress_update stepClientEgress (strictStruct netemFields))]"

definition zeroConfig :: RunConfig where
  "zeroConfig = \<lparr>cTransport = [], cClassMappingSHA256 = [], cWorkload = [], cPreset = [], cScenario = None,
     cServerCommand = zeroCommand, cClientCommand = zeroCommand, cClientProcs = 0, cTotalConns = 0, cRamp = None,
     cWarmup = 0, cSteadyWarmup = False, cSteadyMinWarmup = 0, cDuration = 0, cDrain = 0, cDeadlineNS = 0,
     cStalenessPeriodNS = 0, cNetem = None, cNetemGateOff = False, cNetemSchedule = [], cServerCPUs = [], cClientCPUs = [],
     cSchedIsMeasurand = False, cOutputDir = [], cAttemptedThreshold = FFin 0, cControlTimeout = 0,
     cSamplerInterval = 0, cProcessExitTimeout = 0\<rparr>"

definition configFields :: "(string \<times> (RunConfig \<Rightarrow> json \<Rightarrow> RunConfig option)) list" where
  "configFields = [(''transport'', decString cTransport_update), (''class_mapping_sha256'', decString cClassMappingSHA256_update),
     (''workload'', decString cWorkload_update), (''preset'', decString cPreset_update),
     (''scenario'', decStructPointer cScenario_update cScenario zeroScenario scenarioFields),
     (''server_command'', decNested cServerCommand_update cServerCommand unmarshalCommand),
     (''client_command'', decNested cClientCommand_update cClientCommand unmarshalCommand),
     (''client_procs'', decInt cClientProcs_update), (''total_conns'', decInt cTotalConns_update),
     (''ramp'', decStructPointer cRamp_update cRamp zeroRamp rampFields),
     (''warmup'', decDuration cWarmup_update), (''steady_warmup'', decBool cSteadyWarmup_update),
     (''steady_min_warmup'', decDuration cSteadyMinWarmup_update), (''duration'', decDuration cDuration_update),
     (''drain'', decDuration cDrain_update), (''deadline_ns'', decUint cDeadlineNS_update),
     (''staleness_period_ns'', decUint cStalenessPeriodNS_update),
     (''netem'', decStructPointer cNetem_update cNetem zeroRegime regimeFields),
     (''netem_gate_off'', decBool cNetemGateOff_update),
     (''netem_schedule'', decSlice cNetemSchedule_update (strictStruct stepFields zeroStep)),
     (''server_cpus'', decString cServerCPUs_update), (''client_cpus'', decString cClientCPUs_update),
     (''sched_is_measurand'', decBool cSchedIsMeasurand_update), (''output_dir'', decString cOutputDir_update),
     (''attempted_threshold'', decFloatField cAttemptedThreshold_update),
     (''control_timeout'', decDuration cControlTimeout_update), (''sampler_interval'', decDuration cSamplerInterval_update),
     (''process_exit_timeout'', decDuration cProcessExitTimeout_update)]"

definition zeroRig :: Rig where
  "zeroRig = \<lparr>rigName = [], OSCPUs = [], BenchCPUs = [], ClientCPUs = [], ServerCPUs = [], InstrumentCPUs = [],
     AllCPUs = [], ExpectedClocksource = [], RequirePerformanceGovernor = False, ExpectFixedFrequency = False,
     RequireIsolation = False, MinNoFile = 0, MinRmemMax = 0, MinWmemMax = 0\<rparr>"

definition rigFields :: "(string \<times> (Rig \<Rightarrow> json \<Rightarrow> Rig option)) list" where
  "rigFields = [(''name'', decString rigName_update), (''os_cpus'', decString OSCPUs_update),
     (''bench_cpus'', decString BenchCPUs_update), (''client_cpus'', decString ClientCPUs_update),
     (''server_cpus'', decString ServerCPUs_update), (''instrument_cpus'', decString InstrumentCPUs_update),
     (''all_cpus'', decString AllCPUs_update), (''expected_clocksource'', decString ExpectedClocksource_update),
     (''require_performance_governor'', decBool RequirePerformanceGovernor_update),
     (''expect_fixed_frequency'', decBool ExpectFixedFrequency_update), (''require_isolation'', decBool RequireIsolation_update),
     (''min_nofile'', decUint MinNoFile_update), (''min_rmem_max'', decUint MinRmemMax_update),
     (''min_wmem_max'', decUint MinWmemMax_update)]"

section \<open>Files\<close>

datatype 'e load_error = CannotRead string | CannotDecode | NotOneObject | Rejected 'e

text \<open>A second \<open>Decode\<close> finds the end of the file when only JSON white space is left.\<close>

definition blankText :: "string \<Rightarrow> bool" where
  "blankText s \<longleftrightarrow> list_all (\<lambda>c. (of_char c :: nat) \<in> {9, 10, 13, 32}) s"

definition loadDocument :: "(string \<Rightarrow> (json \<times> string) option) \<Rightarrow> string + string \<Rightarrow> (json \<Rightarrow> 's option) \<Rightarrow> 'e load_error + 's" where
  "loadDocument scan content dec = (case content of Inl e \<Rightarrow> Inl (CannotRead e)
     | Inr data \<Rightarrow> (case scan data of None \<Rightarrow> Inl CannotDecode
         | Some (v, rest) \<Rightarrow> (case dec v of None \<Rightarrow> Inl CannotDecode
             | Some s \<Rightarrow> if blankText rest then Inr s else Inl NotOneObject)))"

definition LoadConfig :: "(string \<Rightarrow> (json \<times> string) option) \<Rightarrow> string + string \<Rightarrow> config_error list load_error + RunConfig" where
  "LoadConfig scan content =
     rbind (loadDocument scan content (strictStruct configFields zeroConfig)) (\<lambda>cfg. wrap_err Rejected (Prepare cfg))"

definition LoadRig :: "(string \<Rightarrow> (json \<times> string) option) \<Rightarrow> string \<Rightarrow> string + string \<Rightarrow> rig_error load_error + Rig" where
  "LoadRig scan path content =
     rbind (loadDocument scan content (strictStruct rigFields zeroRig)) (\<lambda>r.
     rbind (wrap_err Rejected (checkLoaded path r)) (\<lambda>_. Inr r))"

section \<open>Properties\<close>

text \<open>
  C20. Every 64-bit duration written by \<open>MarshalJSON\<close> is read back by \<open>UnmarshalJSON\<close> as the same duration,
  the smallest one included, and the number of its nanoseconds is read as that duration too.
\<close>

theorem durations_round_trip:
  assumes "in_i64 d"
  shows "unmarshalDuration (marshalDuration d) = Some d \<and> unmarshalDuration (JNum (itoa d)) = Some d"
  using assms by (simp add: unmarshalDuration_def marshalDuration_def parse_printed_duration atoi_itoa)

lemma durations_round_trip_witness:
  "unmarshalDuration (marshalDuration (- 9223372036854775808)) = Some (- 9223372036854775808) \<and>
   unmarshalDuration (JNum (itoa (- 9223372036854775808))) = Some (- 9223372036854775808)"
  by (rule durations_round_trip) (simp add: in_i64_def MinInt64_def MaxInt64_def)

text \<open>A command of words without spaces may be written in any of the three forms.\<close>

lemma decAll_strings: "decAll stringElement (map JStr ws) = Some ws"
  by (induction ws) (simp_all add: stringElement_def)

lemma command_forms_agree:
  assumes "list_all plainWord (path # args)"
  shows "unmarshalCommand zeroCommand (JStr (joinText '' '' (path # args))) = Some \<lparr>Path = path, CmdArgs = args, Env = [], Dir = []\<rparr>
    \<and> unmarshalCommand zeroCommand (JArr (map JStr (path # args))) = Some \<lparr>Path = path, CmdArgs = args, Env = [], Dir = []\<rparr>
    \<and> unmarshalCommand zeroCommand (JObj [(''path'', JStr path), (''args'', JArr (map JStr args))]) =
        Some \<lparr>Path = path, CmdArgs = args, Env = [], Dir = []\<rparr>"
  using textFields_words [OF assms] decAll_strings [of "path # args"] decAll_strings [of args]
  by (simp add: unmarshalCommand_def setArgv_def zeroCommand_def strictStruct_def commandFields_def lookupField_def
      decString_def decSlice_def del: decAll.simps list.map)

lemma sample_config_document:
  "strictStruct rampFields zeroRamp (JObj [(''start_conns'', JNum ''10''), (''guard'', JStr ''1m2.5s''), (''Sample'', JNum ''10'')]) =
     Some (zeroRamp\<lparr>StartConns := 10, Guard := 62500000000, Sample := 10\<rparr>)"
  "strictStruct rampFields zeroRamp (JObj [(''timeout'', JNum ''1'')]) = None"
  "unmarshalCommand zeroCommand (JStr ''bench  --conns {{conns}}'') =
     Some \<lparr>Path = ''bench'', CmdArgs = [''--conns'', ''{{conns}}''], Env = [], Dir = []\<rparr>"
  by code_simp+

end
