(* ===== verification/LossTracePins.thy ===== *)
theory LossTracePins
  imports LossTrace Netops GoPath
begin

text \<open>
  Attaching the loss trace (\<open>Attach\<close>, \<open>loadProgram\<close>, \<open>ResetCounter\<close>, \<open>ReadCounter\<close> and \<open>Detach\<close> in
  \<open>orchestrator/netops/losstrace/losstrace.go\<close>, \<open>ReadLossTraceCounter\<close> and \<open>LossTraceReset\<close> in
  \<open>orchestrator/netops/netops.go\<close>): what the pins under the BPF file system hold. A program stays attached
  while its link is pinned; its counter can be read while the state map is. The failures of the eBPF
  library are arguments.
\<close>

record kernel =
  knPrograms :: "string \<Rightarrow> (string \<times> u64 list) option"
  knCounters :: "string \<Rightarrow> u64 option"

record attachAnswers =
  atInterface :: "string option"
  atObject :: "string option"
  atHasTrace :: bool
  atMask :: "string option"
  atCollection :: "string option"
  atComplete :: bool
  atPut :: "nat \<Rightarrow> string option"
  atLink :: "string option"
  atMkdir :: "string option"
  atPinLink :: "string option"
  atPinState :: "string option"
  atClose :: "string option"

definition pinPath :: "string \<Rightarrow> string \<Rightarrow> string" where
  "pinPath pinDir dev = joinPath [pinDir, ''tcx-egress-'' @ dev]"

definition statePinPath :: "string \<Rightarrow> string \<Rightarrow> string" where
  "statePinPath pinDir dev = joinPath [pinDir, ''state-'' @ dev]"

definition attempt :: "string \<Rightarrow> string option \<Rightarrow> string + unit" where
  "attempt what failure = (case failure of None \<Rightarrow> Inr () | Some e \<Rightarrow> Inl (what @ '': '' @ e))"

definition loadProgram :: "attachAnswers \<Rightarrow> string + unit" where
  "loadProgram a =
     rbind (attempt ''parse bpf object'' (atObject a)) (\<lambda>_.
     rbind (fail_if (\<not> atHasTrace a) ''bpf object has no lt_trace map'') (\<lambda>_.
     rbind (attempt ''set lt_mask'' (atMask a)) (\<lambda>_.
     rbind (attempt ''load bpf collection'' (atCollection a)) (\<lambda>_.
     fail_if (\<not> atComplete a) ''bpf object missing program or maps''))))"

definition populate :: "attachAnswers \<Rightarrow> u64 list \<Rightarrow> string + unit" where
  "populate a words = checkM (\<lambda>i. attempt (''populate trace map ['' @ itoa (int i) @ '']'') (atPut a i)) [0..<length words]"

definition pinLink :: "attachAnswers \<Rightarrow> string \<Rightarrow> u64 list \<Rightarrow> string + unit" where
  "pinLink a dev words =
     rbind (attempt (''interface '' @ dev) (atInterface a)) (\<lambda>_.
     rbind (fail_if (words = [] \<or> int (length words) AND (int (length words) - 1) \<noteq> 0)
       (''trace words must be a positive power of two, got '' @ itoa (int (length words)))) (\<lambda>_.
     rbind (loadProgram a) (\<lambda>_.
     rbind (populate a words) (\<lambda>_.
     rbind (attempt (''attach tcx egress on '' @ dev) (atLink a)) (\<lambda>_.
     rbind (attempt ''mkdir pin dir'' (atMkdir a)) (\<lambda>_.
     attempt ''pin tcx link'' (atPinLink a)))))))"

text \<open>Until the link is pinned a failure closes it and the program is gone; after that the pin keeps it.\<close>

definition Attach :: "attachAnswers \<Rightarrow> string \<Rightarrow> u64 list \<Rightarrow> string \<Rightarrow> kernel \<Rightarrow> kernel \<times> string option" where
  "Attach a dev words pinDir k = (case pinLink a dev words of Inl e \<Rightarrow> (k, Some e)
     | Inr _ \<Rightarrow>
        let k = k\<lparr>knPrograms := (knPrograms k)(pinPath pinDir dev \<mapsto> (dev, words))\<rparr>
        in case atPinState a of Some e \<Rightarrow> (k, Some (''pin state map: '' @ e))
         | None \<Rightarrow> (k\<lparr>knCounters := (knCounters k)(statePinPath pinDir dev \<mapsto> 0)\<rparr>, atClose a))"

text \<open>\<open>absent\<close> is the error of a pin that is not there, \<open>failure\<close> that of the access to the map.\<close>

definition ResetCounter :: "string \<Rightarrow> string option \<Rightarrow> string \<Rightarrow> string \<Rightarrow> kernel \<Rightarrow> string + kernel" where
  "ResetCounter absent failure dev pinDir k = (case knCounters k (statePinPath pinDir dev) of
       None \<Rightarrow> Inl (''load pinned state map: '' @ absent)
     | Some _ \<Rightarrow> (case failure of Some e \<Rightarrow> Inl (''reset counter: '' @ e)
         | None \<Rightarrow> Inr (k\<lparr>knCounters := (knCounters k)(statePinPath pinDir dev \<mapsto> 0)\<rparr>)))"

definition ReadCounter :: "string \<Rightarrow> string option \<Rightarrow> string \<Rightarrow> string \<Rightarrow> kernel \<Rightarrow> string + u64" where
  "ReadCounter absent failure dev pinDir k = (case knCounters k (statePinPath pinDir dev) of
       None \<Rightarrow> Inl (''load pinned state map: '' @ absent)
     | Some v \<Rightarrow> (case failure of Some e \<Rightarrow> Inl (''read counter: '' @ e) | None \<Rightarrow> Inr v))"

definition ReadLossTraceCounter :: "string \<Rightarrow> string option \<Rightarrow> string \<Rightarrow> string \<Rightarrow> kernel \<Rightarrow> string + u64" where
  "ReadLossTraceCounter absent failure ns dev = ReadCounter absent failure dev (lossTracePinDir ns)"

definition resetEgress :: "string \<Rightarrow> string option \<Rightarrow> string \<Rightarrow> Netem \<Rightarrow> string \<Rightarrow> string \<Rightarrow> kernel \<Rightarrow> string + kernel" where
  "resetEgress absent failure side egress dev ns k =
     (if traced egress
      then wrap_err (\<lambda>e. ''reset '' @ side @ '' loss trace: '' @ e) (ResetCounter absent failure dev (lossTracePinDir ns) k)
      else Inr k)"

definition LossTraceReset :: "string \<Rightarrow> string option \<Rightarrow> string option \<Rightarrow> PairSpec \<Rightarrow> kernel \<Rightarrow> string + kernel" where
  "LossTraceReset absent serverFailure clientFailure spec k =
     rbind (resetEgress absent serverFailure ''server'' (ServerEgress spec) (ServerVeth spec) (ServerNS spec) k)
       (resetEgress absent clientFailure ''client'' (ClientEgress spec) (ClientVeth spec) (ClientNS spec))"

text \<open>A link that cannot be loaded though its pin exists is removed by removing the pin.\<close>

definition Detach :: "bool \<Rightarrow> string option \<Rightarrow> string \<Rightarrow> string \<Rightarrow> kernel \<Rightarrow> kernel \<times> string option" where
  "Detach unloadable unpin dev pinDir k =
     (let k = k\<lparr>knCounters := (knCounters k)(statePinPath pinDir dev := None)\<rparr>;
          unpinned = k\<lparr>knPrograms := (knPrograms k)(pinPath pinDir dev := None)\<rparr>
      in if knPrograms k (pinPath pinDir dev) = None then (k, None)
         else if unloadable then (unpinned, None)
         else case unpin of Some e \<Rightarrow> (k, Some e) | None \<Rightarrow> (unpinned, None))"

lemma attached:
  assumes "Attach a dev words pinDir k = (k', None)"
  shows "knPrograms k' (pinPath pinDir dev) = Some (dev, words) \<and> ReadCounter absent None dev pinDir k' = Inr 0 \<and>
    words \<noteq> [] \<and> int (length words) AND (int (length words) - 1) = 0"
  using assms
  by (auto simp: Attach_def ReadCounter_def Let_def pinLink_def rbind_eq_Inr_iff fail_if_def split: sum.splits option.splits if_splits)

lemma detached: "Detach unloadable unpin dev pinDir k = (k', None) \<Longrightarrow>
    knPrograms k' (pinPath pinDir dev) = None \<and> knCounters k' (statePinPath pinDir dev) = None"
  by (auto simp: Detach_def Let_def split: if_splits option.splits)

text \<open>
  A failure to pin the counter leaves the program attached; \<open>Detach\<close> removes it. (The teardown of a link
  removes the directory of the pins instead.)
\<close>

lemma attach_may_leave_program:
  assumes "pinLink a dev words = Inr ()" and "atPinState a = Some e"
  shows "\<exists>k'. Attach a dev words pinDir k = (k', Some (''pin state map: '' @ e)) \<and>
    knPrograms k' (pinPath pinDir dev) = Some (dev, words) \<and>
    knPrograms (fst (Detach False None dev pinDir k')) (pinPath pinDir dev) = None"
  using assms by (simp add: Attach_def Detach_def Let_def)

lemma reset_egress:
  assumes "resetEgress absent failure side egress dev ns k = Inr k'"
  shows "traced egress \<Longrightarrow> knCounters k' (statePinPath (lossTracePinDir ns) dev) = Some 0"
    and "path \<noteq> statePinPath (lossTracePinDir ns) dev \<Longrightarrow> knCounters k' path = knCounters k path"
  using assms by (auto simp: resetEgress_def ResetCounter_def split: if_splits option.splits)

text \<open>After the reset of a pair both directions that replay a trace start it at its first bit.\<close>

lemma reset_both:
  assumes "LossTraceReset absent sf cf spec k = Inr k'"
    and "statePinPath (lossTracePinDir (ServerNS spec)) (ServerVeth spec) \<noteq> statePinPath (lossTracePinDir (ClientNS spec)) (ClientVeth spec)"
  shows "(traced (ServerEgress spec) \<longrightarrow> ReadLossTraceCounter absent None (ServerNS spec) (ServerVeth spec) k' = Inr 0) \<and>
    (traced (ClientEgress spec) \<longrightarrow> ReadLossTraceCounter absent None (ClientNS spec) (ClientVeth spec) k' = Inr 0)"
proof -
  obtain k1 where k1: "resetEgress absent sf ''server'' (ServerEgress spec) (ServerVeth spec) (ServerNS spec) k = Inr k1"
    and k2: "resetEgress absent cf ''client'' (ClientEgress spec) (ClientVeth spec) (ClientNS spec) k1 = Inr k'"
    using assms(1) by (auto simp: LossTraceReset_def rbind_eq_Inr_iff)
  show ?thesis
    using reset_egress(1) [OF k1] reset_egress [OF k2] assms(2) by (simp add: ReadLossTraceCounter_def ReadCounter_def)
qed

end
