(* ===== verification/LinkRemoval.thy ===== *)
theory LinkRemoval
  imports Orchestration
begin

text \<open>
  What a run leaves of the emulated link: the commands it executes to build the link and to remove it again,
  at once when the setup fails (\<open>partialNetemTeardown\<close>) and deferred otherwise (\<open>teardownNetem\<close>), both in
  \<open>orchestrator/run/runner.go\<close>, and the resources of the machine they create and remove.
\<close>

section \<open>The commands of a run\<close>

definition executed :: "(Command \<Rightarrow> string option) \<Rightarrow> Command list \<Rightarrow> (Command \<times> bool) list" where
  "executed exec cmds = map (\<lambda>c. (c, exec c = None)) cmds"

text \<open>Commands of which each is tried: those executed, with whether they succeed, and the error of the ones that fail.\<close>

definition removeAll :: "string \<Rightarrow> (Command \<Rightarrow> string option) \<Rightarrow> Command list \<Rightarrow> (Command \<times> bool) list \<times> string list" where
  "removeAll what exec cmds = (case RunCommandsBestEffort (commandFailure exec) cmds of (tried, es) \<Rightarrow>
     (executed exec tried, if es = [] then [] else [what @ '': '' @ joinText [newline] es]))"

text \<open>
  The commands on the link and the errors of its removal. \<open>teardown\<close> answers the deferred commands. A run that the
  treatment ends has no link.
\<close>

definition linkRemoval :: "describer \<Rightarrow> (Command \<Rightarrow> string option) \<Rightarrow> RunConfig \<Rightarrow> runAnswers \<Rightarrow>
    (Command \<times> bool) list \<times> string list" where
  "linkRemoval lib teardown cfg a = (case checkTreatment lib cfg (raServerDescribe a) (raClientDescribe a) of
       Go r \<Rightarrow> (case cNetem cfg of None \<Rightarrow> ([], [])
         | Some n \<Rightarrow>
            let pair = pairSpec (executablePath lib) n
            in case BuildSetupCommands pair of Inl _ \<Rightarrow> ([], [])
             | Inr up \<Rightarrow> (case BuildTeardownCommands pair of Inl _ \<Rightarrow> ([], [])
                | Inr down \<Rightarrow> (case RunCommands (commandFailure (laExec (raLink a))) up of (tried, failure) \<Rightarrow>
                    (case (case failure of
                        Some _ \<Rightarrow> removeAll ''partial netns cleanup failed'' (laCleanup (raLink a))
                          (partialNetemTeardown down (int (length tried) - 1))
                      | None \<Rightarrow> removeAll ''netns teardown failed'' teardown down) of (removal, errs) \<Rightarrow>
                    (executed (laExec (raLink a)) tried @ removal, errs)))))
     | _ \<Rightarrow> ([], []))"

section \<open>Resources\<close>

datatype resource = Namespace string | Pins string

text \<open>
  A namespace is added and deleted by the commands of \<open>ip\<close> that succeed. The directory of the pins of a trace may be there
  as soon as its attachment was tried; it is removed by \<open>rm\<close>.
\<close>

definition pinsTrace :: "Command \<Rightarrow> string list" where
  "pinsTrace c = (if take 2 (drop 4 (cmdArgs c)) = [''losstrace'', ''attach''] then [cmdArgs c ! 13] else [])"

definition createdBy :: "Command \<Rightarrow> resource set" where
  "createdBy c = Namespace ` set (addsNS c) \<union> Pins ` set (pinsTrace c)"

definition removedBy :: "Command \<Rightarrow> resource set" where
  "removedBy c = Namespace ` set (deletesNS c) \<union>
     Pins ` set (if cmdName c = ''rm'' \<and> take 1 (cmdArgs c) = [''-rf''] then drop 1 (cmdArgs c) else [])"

definition effectOf :: "Command \<times> bool \<Rightarrow> resource set \<Rightarrow> resource set" where
  "effectOf = (\<lambda>(c, ok) R. if ok then (R \<union> createdBy c) - removedBy c else R \<union> Pins ` set (pinsTrace c))"

definition resourcesAfter :: "(Command \<times> bool) list \<Rightarrow> resource set \<Rightarrow> resource set" where
  "resourcesAfter = fold effectOf"

lemma resourcesAfter_simps [simp]:
  "resourcesAfter [] R = R" "resourcesAfter (x # trail) R = resourcesAfter trail (effectOf x R)"
  "resourcesAfter (xs @ ys) R = resourcesAfter ys (resourcesAfter xs R)"
  by (simp_all add: resourcesAfter_def)

lemma resources_built:
  "\<forall>x \<in> set trail. createdBy (fst x) \<subseteq> S \<Longrightarrow> resourcesAfter trail R \<subseteq> R \<union> S"
proof (induction trail arbitrary: R)
  case (Cons x trail)
  have "effectOf x R \<subseteq> R \<union> S" using Cons.prems by (cases x) (auto simp: effectOf_def createdBy_def)
  then show ?case using Cons.IH [of "effectOf x R"] Cons.prems by auto
qed simp

lemma resources_removed:
  "\<forall>x \<in> set trail. snd x \<and> createdBy (fst x) = {} \<Longrightarrow> resourcesAfter trail R = R - (\<Union>x \<in> set trail. removedBy (fst x))"
  by (induction trail arbitrary: R) (auto simp: effectOf_def split: prod.splits)

section \<open>Nothing is left behind\<close>

text \<open>What the commands of a setup may create.\<close>

definition linkResources :: "PairSpec \<Rightarrow> resource set" where
  "linkResources spec = {Namespace (ServerNS spec), Namespace (ClientNS spec)} \<union>
     (if LossSeed (ServerEgress spec) \<noteq> 0 then {Pins (lossTracePinDir (ServerNS spec))} else {}) \<union>
     (if LossSeed (ClientEgress spec) \<noteq> 0 then {Pins (lossTracePinDir (ClientNS spec))} else {})"

lemma created_linkCommands: "c \<in> set (linkCommands spec) \<Longrightarrow> createdBy c \<subseteq> linkResources spec"
  by (auto simp: linkCommands_def Let_def createdBy_def addsNS_def pinsTrace_def linkResources_def)

lemma created_qdisc: "qdiscCommands ns veth e = Inr cs \<Longrightarrow> c \<in> set cs \<Longrightarrow> createdBy c = {}"
  by (auto simp: qdiscCommands_def rbind_eq_Inr_iff createdBy_def addsNS_def pinsTrace_def split: if_splits)

lemma created_trace:
  "lossTraceCommands spec ns veth e = Inr cs \<Longrightarrow> c \<in> set cs \<Longrightarrow> LossSeed e \<noteq> 0 \<and> createdBy c = {Pins (lossTracePinDir ns)}"
  by (auto simp: lossTraceCommands_def createdBy_def addsNS_def pinsTrace_def split: if_splits)

lemma created_others: "createdBy (buildDisableOffloadsCommand ns dev) = {}" "createdBy lossTraceMountCommand = {}"
  by (simp_all add: buildDisableOffloadsCommand_def lossTraceMountCommand_def createdBy_def addsNS_def pinsTrace_def)

lemma created_setup:
  assumes up: "BuildSetupCommands spec = Inr up" and c: "c \<in> set up"
  shows "createdBy c \<subseteq> linkResources spec"
proof -
  obtain sq cq st ct where q: "qdiscCommands (ServerNS spec) (ServerVeth spec) (ServerEgress spec) = Inr sq"
      "qdiscCommands (ClientNS spec) (ClientVeth spec) (ClientEgress spec) = Inr cq"
    and st: "lossTraceCommands spec (ServerNS spec) (ServerVeth spec) (ServerEgress spec) = Inr st"
    and ct: "lossTraceCommands spec (ClientNS spec) (ClientVeth spec) (ClientEgress spec) = Inr ct"
    and commands: "up = linkCommands spec @
       (if DisableOffloads spec
        then [buildDisableOffloadsCommand (ServerNS spec) (ServerVeth spec),
              buildDisableOffloadsCommand (ClientNS spec) (ClientVeth spec)] else []) @
       sq @ cq @ (if st \<noteq> [] \<or> ct \<noteq> [] then [lossTraceMountCommand] else []) @ st @ ct"
    using up by (auto simp: BuildSetupCommands_def rbind_eq_Inr_iff)
  have parts: "set up \<subseteq> set (linkCommands spec) \<union> {buildDisableOffloadsCommand (ServerNS spec) (ServerVeth spec),
      buildDisableOffloadsCommand (ClientNS spec) (ClientVeth spec), lossTraceMountCommand} \<union> set sq \<union> set cq \<union> set st \<union> set ct"
    by (auto simp: commands)
  consider "c \<in> set (linkCommands spec)" | "createdBy c = {}" | "c \<in> set st" | "c \<in> set ct"
    using c parts created_qdisc [OF q(1)] created_qdisc [OF q(2)] created_others by blast
  then show ?thesis
    using created_linkCommands created_trace [OF st] created_trace [OF ct] by cases (auto simp: linkResources_def)
qed

lemma setup_starts:
  assumes "BuildSetupCommands spec = Inr up"
  shows "\<exists>rest. up = command ''ip'' [''netns'', ''add'', ServerNS spec] # command ''ip'' [''netns'', ''add'', ClientNS spec] # rest"
  using assms by (auto simp: BuildSetupCommands_def rbind_eq_Inr_iff linkCommands_def Let_def)

lemma teardown_commands:
  assumes "BuildTeardownCommands spec = Inr down"
  shows "\<forall>c \<in> set down. createdBy c = {}" and "(\<Union>c \<in> set down. removedBy c) = linkResources spec"
    and "\<exists>rest. down = command ''ip'' [''netns'', ''del'', ServerNS spec] # rest"
  using assms
  by (auto simp: BuildTeardownCommands_def rbind_eq_Inr_iff createdBy_def removedBy_def addsNS_def deletesNS_def pinsTrace_def
      linkResources_def)

lemma removeAll_succeeds:
  assumes "removeAll what exec cmds = (trail, [])"
  shows "trail = map (\<lambda>c. (c, True)) cmds"
proof -
  have "List.map_filter (commandFailure exec) cmds = []"
    using assms by (auto simp: removeAll_def RunCommandsBestEffort_def split: if_splits)
  then have "\<forall>c \<in> set cmds. exec c = None"
    by (induction cmds) (auto simp: map_filter_simps commandFailure_def split: option.splits)
  moreover have "trail = executed exec cmds" using assms by (simp add: removeAll_def RunCommandsBestEffort_def)
  ultimately show ?thesis by (simp add: executed_def)
qed

text \<open>The commands tried by a setup that fails: all succeeded but the last.\<close>

lemma RunCommands_fails:
  "RunCommands (commandFailure exec) cmds = (tried, Some e) \<Longrightarrow>
    \<exists>ok c. tried = ok @ [c] \<and> (\<exists>rest. cmds = tried @ rest) \<and> executed exec tried = map (\<lambda>c. (c, True)) ok @ [(c, False)]"
proof (induction "commandFailure exec" cmds arbitrary: tried rule: RunCommands.induct)
  case (2 c cs)
  show ?case
  proof (cases "exec c")
    case None
    then obtain more where m: "RunCommands (commandFailure exec) cs = (more, Some e)" "tried = c # more"
      using "2.prems" by (auto simp: commandFailure_def split: prod.splits)
    obtain ok d where "more = ok @ [d]" "\<exists>rest. cs = more @ rest" "executed exec more = map (\<lambda>c. (c, True)) ok @ [(d, False)]"
      using "2.hyps" [OF _ m(1)] None by (auto simp: commandFailure_def)
    then show ?thesis using m(2) None by (intro exI [of _ "c # ok"]) (auto simp: executed_def)
  next
    case (Some x)
    then show ?thesis using "2.prems" by (auto simp: commandFailure_def executed_def)
  qed
qed simp

lemma failed_setup_leaves_nothing:
  assumes up: "BuildSetupCommands spec = Inr up" and down: "BuildTeardownCommands spec = Inr down"
    and run: "RunCommands (commandFailure exec) up = (tried, Some e)"
    and removal: "removeAll what cleanup (partialNetemTeardown down (int (length tried) - 1)) = (trail, [])"
  shows "resourcesAfter (executed exec tried @ trail) R \<subseteq> R"
proof -
  obtain ok c where tried: "tried = ok @ [c]" "\<exists>rest. up = tried @ rest"
    "executed exec tried = map (\<lambda>c. (c, True)) ok @ [(c, False)]"
    using RunCommands_fails [OF run] by blast
  obtain rest where start: "up = command ''ip'' [''netns'', ''add'', ServerNS spec] # command ''ip'' [''netns'', ''add'', ClientNS spec] # rest"
    using setup_starts [OF up] by blast
  note trail = removeAll_succeeds [OF removal]
  consider "ok = []" | d where "ok = [d]" | "2 \<le> length ok" by (cases ok; cases "tl ok") auto
  then show ?thesis
  proof cases
    case 1
    then show ?thesis
      using tried start trail by (auto simp: partialNetemTeardown_def effectOf_def pinsTrace_def)
  next
    case 2
    obtain more where "down = command ''ip'' [''netns'', ''del'', ServerNS spec] # more" using teardown_commands(3) [OF down] by blast
    then show ?thesis
      using tried start trail 2
      by (auto simp: partialNetemTeardown_def effectOf_def pinsTrace_def createdBy_def removedBy_def addsNS_def deletesNS_def)
  next
    case 3
    then have "trail = map (\<lambda>c. (c, True)) down" using trail tried(1) by (auto simp: partialNetemTeardown_def)
    then have "resourcesAfter trail S = S - linkResources spec" for S
      using resources_removed [of trail S] teardown_commands(1,2) [OF down] by simp
    moreover have "resourcesAfter (executed exec tried) R \<subseteq> R \<union> linkResources spec"
      using created_setup [OF up] tried(2) by (intro resources_built) (fastforce simp: executed_def)
    ultimately show ?thesis by auto
  qed
qed

text \<open>A run whose link was removed without error leaves no resource that was not there before.\<close>

lemma link_leaves_nothing:
  assumes "linkRemoval lib teardown cfg a = (trail, [])"
  shows "resourcesAfter trail R \<subseteq> R"
proof (cases "trail = []")
  case False
  obtain n up down tried failure removal where pair: "cNetem cfg = Some n"
    and up: "BuildSetupCommands (pairSpec (executablePath lib) n) = Inr up"
    and down: "BuildTeardownCommands (pairSpec (executablePath lib) n) = Inr down"
    and run: "RunCommands (commandFailure (laExec (raLink a))) up = (tried, failure)"
    and removal: "(case failure of
        Some _ \<Rightarrow> removeAll ''partial netns cleanup failed'' (laCleanup (raLink a)) (partialNetemTeardown down (int (length tried) - 1))
      | None \<Rightarrow> removeAll ''netns teardown failed'' teardown down) = (removal, [])"
    and trail: "trail = executed (laExec (raLink a)) tried @ removal"
    using assms False by (auto simp: linkRemoval_def Let_def split: phase.splits option.splits sum.splits prod.splits)
  show ?thesis
  proof (cases failure)
    case None
    then have "removal = map (\<lambda>c. (c, True)) down" using removal removeAll_succeeds by auto
    then have "resourcesAfter removal S = S - linkResources (pairSpec (executablePath lib) n)" for S
      using resources_removed [of removal S] teardown_commands(1,2) [OF down] by simp
    moreover have "resourcesAfter (executed (laExec (raLink a)) tried) R \<subseteq> R \<union> linkResources (pairSpec (executablePath lib) n)"
    proof (rule resources_built)
      have "tried = take (length tried) up" using RunCommands_prefix [of "commandFailure (laExec (raLink a))" up] run by simp
      then have "set tried \<subseteq> set up" by (metis set_take_subset)
      then show "\<forall>x \<in> set (executed (laExec (raLink a)) tried). createdBy (fst x) \<subseteq> linkResources (pairSpec (executablePath lib) n)"
        using created_setup [OF up] by (auto simp: executed_def)
    qed
    ultimately show ?thesis by (auto simp: trail)
  next
    case (Some e)
    then show ?thesis using failed_setup_leaves_nothing [OF up down] run removal by (simp add: trail)
  qed
qed simp

end
