(* ===== verification/Frontend.thy ===== *)
theory Frontend
  imports Orchestration
begin

text \<open>
  The command line of the orchestrator (\<open>orchestrator/cmd/orchestrator\<close>) and the lock that keeps two runs
  off the same machine (\<open>orchestrator/run/acquisition_lock.go\<close>): what the subcommands do with their
  flags, and the status the process exits with. Parsing the flags, reading the configuration, the calls
  of the system and the kernel are arguments.
\<close>

section \<open>The subcommands\<close>

datatype subcommand = RunCommand "string list" | LossTraceCommand "string list" | IsolateCommand "string list" | ControlCommand

text \<open>The arguments after the name of the program; anything else is the standalone control server.\<close>

definition subcommandOf :: "string list \<Rightarrow> subcommand" where
  "subcommandOf args = (case args of [] \<Rightarrow> ControlCommand
     | name # rest \<Rightarrow> if name = ''run'' then RunCommand rest else if name = ''losstrace'' then LossTraceCommand rest
         else if name = ''isolate'' then IsolateCommand rest else ControlCommand)"

definition exitOnErr :: "string option \<Rightarrow> int option" where
  "exitOnErr failure = (if failure = None then None else Some 1)"

text \<open>
  The control server: \<open>listen\<close> opens the socket, \<open>serve\<close> runs the server to its result and \<open>encode\<close> prints the
  result; the first failure ends the process with status 1.
\<close>

definition controlMain :: "('c \<Rightarrow> string option) \<Rightarrow> ('c \<Rightarrow> string + 'r) \<Rightarrow> ('r \<Rightarrow> string option) \<Rightarrow> 'c \<Rightarrow> int" where
  "controlMain listen serve encode cfg = (case exitOnErr (listen cfg) of Some status \<Rightarrow> status
     | None \<Rightarrow> (case serve cfg of Inl e \<Rightarrow> the (exitOnErr (Some e))
       | Inr r \<Rightarrow> (case exitOnErr (encode r) of Some status \<Rightarrow> status | None \<Rightarrow> 0)))"

section \<open>The run command\<close>

text \<open>The status after a result.\<close>

definition outcomeStatus :: "string \<Rightarrow> int" where
  "outcomeStatus outcome =
     (if outcome = OutcomePass then 0
      else if outcome = OutcomeFail then 3
      else if outcome = OutcomeInvalid then 2
      else if outcome = OutcomeUnsupported then 4
      else if outcome = OutcomeInconclusive \<or> outcome = OutcomeCensored then 5
      else 2)"

text \<open>\<open>load\<close> reads a configuration; \<open>execute\<close> is \<open>Run\<close> with its error, which may come with a result.\<close>

definition runMain :: "(string \<Rightarrow> string + RunConfig) \<Rightarrow> (RunConfig \<Rightarrow> RunResult option \<times> string option) \<Rightarrow> string \<Rightarrow> string \<Rightarrow> int" where
  "runMain load execute configPath outputDir =
     (if configPath = [] then 1
      else case load configPath of Inl _ \<Rightarrow> 1
       | Inr cfg \<Rightarrow>
          let cfg = (if outputDir \<noteq> [] then cfg\<lparr>cOutputDir := outputDir\<rparr> else cfg)
          in case execute cfg of (_, Some e) \<Rightarrow> 1
              | (None, None) \<Rightarrow> 0
              | (Some r, None) \<Rightarrow> outcomeStatus (ruOutcome r))"

section \<open>The standalone control server and the dry run\<close>

record mainFlags =
  mfSock :: string
  mfExpected :: int
  mfWarmup :: int
  mfDuration :: int
  mfDrain :: int
  mfTimeout :: int
  mfNetPrefix :: string
  mfServerLoss :: f64
  mfClientLoss :: f64

definition standaloneConfig :: "mainFlags \<Rightarrow> ControlData.Config" where
  "standaloneConfig f =
     \<lparr>SocketPath = mfSock f, Expected = mfExpected f, Warmup = mfWarmup f, Duration = mfDuration f, Drain = mfDrain f,
      SteadyWarmup = False, SteadyBuckets = 0, SteadyTolPct = FFin 0, SteadyGuard = 0, SteadyMinWarmup = 0,
      SteadyExpectedSentPerConn = FFin 0, SteadyExpectedRecvPerConn = FFin 0,
      HelloTimeout = mfTimeout f, ReadyTimeout = mfTimeout f, AckTimeout = mfTimeout f, DoneTimeout = mfTimeout f\<rparr>"

definition dryRunPair :: "mainFlags \<Rightarrow> PairSpec" where
  "dryRunPair f = (DefaultPair (mfNetPrefix f))
     \<lparr>ServerEgress := zeroNetem\<lparr>DelayMS := 10, JitterMS := 1, LossPercent := mfServerLoss f, Limit := 10000\<rparr>,
      ClientEgress := zeroNetem\<lparr>DelayMS := 10, JitterMS := 1, LossPercent := mfClientLoss f, Limit := 10000\<rparr>\<rparr>"

text \<open>What the dry run prints: the commands to set the link up, to show it and to remove it.\<close>

definition netopsDryRun :: "mainFlags \<Rightarrow> netem_error + string" where
  "netopsDryRun f =
     (let spec = dryRunPair f
      in rbind (BuildSetupCommands spec) (\<lambda>setup.
         rbind (BuildQdiscShowCommands spec) (\<lambda>display.
         rbind (BuildTeardownCommands spec) (\<lambda>teardown.
         Inr (concat (map CommandsString [setup, display, teardown]))))))"

section \<open>The losstrace command\<close>

text \<open>The status of attaching a trace; a panic of the generation ends the process with status 2.\<close>

definition losstraceAttach :: "(u64 \<Rightarrow> nat \<Rightarrow> f64) \<Rightarrow> (string \<Rightarrow> u64 list \<Rightarrow> string \<Rightarrow> string option) \<Rightarrow>
    string \<Rightarrow> u64 \<Rightarrow> f64 \<Rightarrow> f64 \<Rightarrow> int \<Rightarrow> string \<Rightarrow> int" where
  "losstraceAttach draws attach dev seed lossPct burst bits pinDir =
     (if dev = [] \<or> seed = 0 \<or> f_le lossPct (FFin 0) \<or> pinDir = [] then 1
      else case Generate (draws seed) lossPct burst bits of
          Inl IndexPanic \<Rightarrow> 2
        | Inl e \<Rightarrow> 1
        | Inr (words, realized) \<Rightarrow> (case attach dev words pinDir of Some e \<Rightarrow> 1 | None \<Rightarrow> 0))"

definition losstraceDetach :: "(string \<Rightarrow> string \<Rightarrow> string option) \<Rightarrow> string \<Rightarrow> string \<Rightarrow> int" where
  "losstraceDetach detach dev pinDir =
     (if dev = [] \<or> pinDir = [] then 1 else case detach dev pinDir of Some e \<Rightarrow> 1 | None \<Rightarrow> 0)"

section \<open>The isolate command\<close>

definition quoteMark :: string where "quoteMark = [char_of (34 :: nat)]"

definition isolateScript :: "Rig \<Rightarrow> bool \<Rightarrow> string list" where
  "isolateScript r setup =
     (if setup
      then [''systemctl set-property -- system.slice AllowedCPUs='' @ OSCPUs r,
        ''systemctl set-property -- user.slice   AllowedCPUs='' @ OSCPUs r,
        ''systemctl set-property -- init.scope   AllowedCPUs='' @ OSCPUs r,
        ''for f in /proc/irq/*/smp_affinity_list; do echo '' @ OSCPUs r @ '' > '' @ quoteMark @ ''$f'' @ quoteMark @ '' 2>/dev/null || true; done'',
        ''for gov in /sys/devices/system/cpu/cpu*/cpufreq/scaling_governor; do echo performance > '' @ quoteMark @ ''$gov'' @ quoteMark @
          '' 2>/dev/null || true; done'',
        ''cpupower -c '' @ BenchCPUs r @ '' idle-set -D 1 >/dev/null 2>&1 || true'']
      else [''systemctl set-property -- system.slice AllowedCPUs='',
        ''systemctl set-property -- user.slice   AllowedCPUs='',
        ''systemctl set-property -- init.scope   AllowedCPUs='',
        ''for f in /proc/irq/*/smp_affinity_list; do echo '' @ AllCPUs r @ '' > '' @ quoteMark @ ''$f'' @ quoteMark @ '' 2>/dev/null || true; done'',
        ''cpupower -c '' @ BenchCPUs r @ '' idle-set -E >/dev/null 2>&1 || true''])"

text \<open>\<open>execute\<close> runs a command with its arguments; \<open>load\<close> reads and validates a rig.\<close>

definition isolateMain :: "bool \<Rightarrow> (string \<Rightarrow> 'e + Rig) \<Rightarrow> (string list \<Rightarrow> string option) \<Rightarrow> string \<Rightarrow> string list \<Rightarrow> int" where
  "isolateMain asRoot load execute rigPath rest =
     (if rest \<noteq> [''setup''] \<and> rest \<noteq> [''teardown''] then 1
      else if \<not> asRoot then 1
      else case load rigPath of Inl _ \<Rightarrow> 1
       | Inr r \<Rightarrow> (case execute [''bash'', ''-c'', joinText '' && '' (isolateScript r (rest = [''setup'']))] of
           Some e \<Rightarrow> 1 | None \<Rightarrow> 0))"

section \<open>The lock of the machine\<close>

datatype open_failure = NoEntry | OpenRefused string

text \<open>One try: locked, held by another run (then the context ends or the ticker fires), or failed.\<close>

datatype lock_try = LockTaken | HeldUntilDone string | HeldUntilTick | LockRefused string

record lockAnswers =
  lkOpen :: "open_failure option"
  lkCreate :: "string option"
  lkStat :: "string + bool"
  lkTries :: "lock_try list"

text \<open>\<open>None\<close> while the tries go on.\<close>

fun awaitLock :: "lock_try list \<Rightarrow> (string option) option" where
  "awaitLock [] = None"
| "awaitLock (LockTaken # tries) = Some None"
| "awaitLock (LockRefused e # tries) = Some (Some (''lock rig-global acquisition: '' @ e))"
| "awaitLock (HeldUntilDone e # tries) = Some (Some (''wait for rig-global acquisition lock: '' @ e))"
| "awaitLock (HeldUntilTick # tries) = awaitLock tries"

definition acquireAcquisitionLockAt :: "lockAnswers \<Rightarrow> (string option) option" where
  "acquireAcquisitionLockAt a =
     (case (case lkOpen a of None \<Rightarrow> None | Some NoEntry \<Rightarrow> lkCreate a | Some (OpenRefused e) \<Rightarrow> Some e) of
        Some e \<Rightarrow> Some (Some (''open rig-global acquisition lock: '' @ e))
      | None \<Rightarrow> (case lkStat a of
          Inl e \<Rightarrow> Some (Some (''stat rig-global acquisition lock: '' @ e))
        | Inr single \<Rightarrow>
            if \<not> single then Some (Some ''rig-global acquisition lock is not a single-link regular file'')
            else awaitLock (lkTries a)))"

text \<open>The lock is taken only on a single-link regular file, by the first try that is not held.\<close>

lemma awaitLock_taken: "awaitLock tries = Some None \<longleftrightarrow> (\<exists>k rest. tries = replicate k HeldUntilTick @ LockTaken # rest)"
proof
  show "awaitLock tries = Some None \<Longrightarrow> \<exists>k rest. tries = replicate k HeldUntilTick @ LockTaken # rest"
  proof (induction tries rule: awaitLock.induct)
    case (2 tries)
    show ?case by (intro exI [of _ 0] exI [of _ tries]) simp
  next
    case (5 tries)
    then obtain k rest where "tries = replicate k HeldUntilTick @ LockTaken # rest" by auto
    then show ?case by (intro exI [of _ "Suc k"] exI [of _ rest]) simp
  qed simp_all
next
  have "awaitLock (replicate k HeldUntilTick @ LockTaken # rest) = Some None" for k rest
    by (induction k) simp_all
  then show "\<exists>k rest. tries = replicate k HeldUntilTick @ LockTaken # rest \<Longrightarrow> awaitLock tries = Some None" by blast
qed

lemma lock_taken:
  assumes "acquireAcquisitionLockAt a = Some None"
  shows "lkStat a = Inr True" "\<exists>k rest. lkTries a = replicate k HeldUntilTick @ LockTaken # rest"
  using assms by (auto simp: acquireAcquisitionLockAt_def awaitLock_taken split: option.splits open_failure.splits sum.splits if_splits)

lemma run_status_zero:
  assumes "runMain load execute configPath outputDir = 0"
  shows "\<exists>cfg r. snd (execute cfg) = None \<and> fst (execute cfg) = r \<and> (case r of None \<Rightarrow> True | Some f \<Rightarrow> ruOutcome f = OutcomePass)"
  using assms
  by (auto simp: runMain_def outcomeStatus_def Let_def split: if_splits sum.splits prod.splits option.splits)
     (metis fst_conv snd_conv option.case)+

end
