(* ===== verification/RunStore.thy ===== *)
theory RunStore
  imports SampleRun LinkRemoval Summary Frontend
begin

text \<open>
  What a run does to the file system and what it returns (\<open>Run\<close>, \<open>chownDirsToSudoUser\<close>, \<open>persistRunResult\<close> and
  \<open>writeResultJSON\<close> in \<open>orchestrator/run/runner.go\<close>, the release of the lock in \<open>acquisition_lock.go\<close>): the
  lock of the machine, a fresh output directory, the benchmark itself, the stored result and summary,
  and the errors of the control server and of the deferred clean-up. The failures of the system calls, the encoding of a result
  and the files the processes leave are the argument \<open>machine\<close>. The commands on the link are those of \<open>LinkRemoval\<close>. The log
  files of the processes are in \<open>ProcessStart\<close>; here they are part of what the processes leave.
\<close>

section \<open>Files\<close>

datatype node = Directory | RegularFile string

type_synonym nodes = "string \<Rightarrow> node option"

datatype file_op = OpMkdirAll string | OpStat string | OpMkdir string | OpChown string | OpCreate string | OpWrite string | OpRename string

record machine =
  mcLock :: lockAnswers
  mcUnlock :: "string option"
  mcClose :: "string option"
  mcFault :: "file_op \<Rightarrow> string option"
  mcRoot :: bool
  mcSudoUID :: string
  mcSudoGID :: string
  mcGetwd :: "string option"
  mcEncode :: "RunResult \<Rightarrow> string"
  mcWrites :: "nodes \<Rightarrow> nodes"
  mcTeardown :: "Command \<Rightarrow> string option"

text \<open>\<open>os.MkdirAll\<close>: every prefix of the path that ends before a separator, and the path.\<close>

definition pathPrefixes :: "string \<Rightarrow> string list" where
  "pathPrefixes dir = map (\<lambda>i. take i dir) (filter (\<lambda>i. dir ! i = CHR ''/'') [1..<length dir]) @ [dir]"

fun makeAll :: "string list \<Rightarrow> nodes \<Rightarrow> nodes \<times> string option" where
  "makeAll [] fs = (fs, None)"
| "makeAll (p # ps) fs = (case fs p of
       Some Directory \<Rightarrow> makeAll ps fs
     | Some (RegularFile _) \<Rightarrow> (fs, Some (''mkdir '' @ p @ '': not a directory''))
     | None \<Rightarrow> makeAll ps (fs(p \<mapsto> Directory)))"

definition mkdirAll :: "machine \<Rightarrow> string \<Rightarrow> nodes \<Rightarrow> nodes \<times> string option" where
  "mkdirAll m dir fs = (case mcFault m (OpMkdirAll dir) of Some e \<Rightarrow> (fs, Some e) | None \<Rightarrow> makeAll (pathPrefixes dir) fs)"

definition makeDir :: "machine \<Rightarrow> string \<Rightarrow> nodes \<Rightarrow> nodes \<times> string option" where
  "makeDir m dir fs = (case mcFault m (OpMkdir dir) of Some e \<Rightarrow> (fs, Some e)
     | None \<Rightarrow> if fs dir \<noteq> None then (fs, Some (''mkdir '' @ dir @ '': file exists'')) else (fs(dir \<mapsto> Directory), None))"

section \<open>Before the run\<close>

definition checkAbsent :: "machine \<Rightarrow> nodes \<Rightarrow> string \<Rightarrow> string + unit" where
  "checkAbsent m fs path = (case mcFault m (OpStat path) of
       Some e \<Rightarrow> Inl (''inspect output artifact '' @ path @ '': '' @ e)
     | None \<Rightarrow> fail_if (fs path \<noteq> None) (''output_dir already contains run artifact '' @ path @ ''; use a fresh output_dir''))"

definition atoiErrorText :: "string \<Rightarrow> string" where
  "atoiErrorText s =
     (let digits = (case s of c # cs \<Rightarrow> if c = CHR ''-'' \<or> c = CHR ''+'' then cs else s | [] \<Rightarrow> [])
      in ''strconv.Atoi: parsing '' @ quoteText s @ (if parseDigits digits = None then '': invalid syntax'' else '': value out of range''))"

definition sudoID :: "string \<Rightarrow> string \<Rightarrow> string + int" where
  "sudoID name s = (case atoi s of None \<Rightarrow> Inl (''parse '' @ name @ '': '' @ atoiErrorText s) | Some i \<Rightarrow> Inr i)"

definition chownDirsToSudoUser :: "machine \<Rightarrow> string list \<Rightarrow> string + unit" where
  "chownDirsToSudoUser m dirs =
     (if \<not> mcRoot m then Inr ()
      else if mcSudoUID m = [] \<or> mcSudoGID m = [] then Inr ()
      else rbind (sudoID ''SUDO_UID'' (mcSudoUID m)) (\<lambda>_. rbind (sudoID ''SUDO_GID'' (mcSudoGID m)) (\<lambda>_.
        checkM (\<lambda>d. case mcFault m (OpChown d) of None \<Rightarrow> Inr () | Some e \<Rightarrow> Inl (''chown '' @ d @ '': '' @ e)) dirs)))"

definition resultPath :: "RunConfig \<Rightarrow> string" where "resultPath cfg = joinPath [cOutputDir cfg, ''result.json'']"
definition summaryPath :: "RunConfig \<Rightarrow> string" where "summaryPath cfg = joinPath [cOutputDir cfg, ''summary.txt'']"
definition logDir :: "RunConfig \<Rightarrow> string" where "logDir cfg = joinPath [cOutputDir cfg, ''logs'']"

definition prepareOutput :: "machine \<Rightarrow> RunConfig \<Rightarrow> nodes \<Rightarrow> nodes \<times> string option" where
  "prepareOutput m cfg fs =
     (case mkdirAll m (cOutputDir cfg) fs of (fs, Some e) \<Rightarrow> (fs, Some (''mkdir output_dir: '' @ e))
      | (fs, None) \<Rightarrow> (case checkM (checkAbsent m fs) [resultPath cfg, summaryPath cfg, logDir cfg, metricsDir cfg] of
          Inl e \<Rightarrow> (fs, Some e)
        | Inr _ \<Rightarrow> (case makeDir m (logDir cfg) fs of (fs, Some e) \<Rightarrow> (fs, Some (''mkdir logs dir: '' @ e))
          | (fs, None) \<Rightarrow> (case makeDir m (metricsDir cfg) fs of (fs, Some e) \<Rightarrow> (fs, Some (''mkdir metrics dir: '' @ e))
            | (fs, None) \<Rightarrow> (case chownDirsToSudoUser m [cOutputDir cfg, logDir cfg, metricsDir cfg] of
                Inl e \<Rightarrow> (fs, Some e) | Inr _ \<Rightarrow> (fs, None))))))"

section \<open>Stopping a ramp\<close>

text \<open>
  The marker the endpoints watch for is written beside its place and renamed into it. A write that
  fails may leave an empty file.
\<close>

definition writeRampStop :: "machine \<Rightarrow> string \<Rightarrow> RampPoint \<Rightarrow> nodes \<Rightarrow> nodes \<times> string option" where
  "writeRampStop m path point fs =
     (let tmp = path @ ''.tmp''
      in case mcFault m (OpCreate tmp) of Some e \<Rightarrow> (fs, Some (''write ramp stop marker: '' @ e))
       | None \<Rightarrow> (case mcFault m (OpWrite tmp) of Some e \<Rightarrow> (fs(tmp \<mapsto> RegularFile []), Some (''write ramp stop marker: '' @ e))
         | None \<Rightarrow> (case mcFault m (OpRename tmp) of
             Some e \<Rightarrow> (fs(tmp := None), Some (''publish ramp stop marker: '' @ e))
           | None \<Rightarrow> (fs(tmp := None, path \<mapsto> RegularFile (rampStopContents point)), None))))"

text \<open>The marker is never seen half written.\<close>

lemma stop_marker_is_whole:
  assumes "writeRampStop m path point fs = (fs', failure)"
  shows "fs' path = (if failure = None then Some (RegularFile (rampStopContents point)) else fs path)"
  using assms by (auto simp: writeRampStop_def Let_def split: option.splits)

section \<open>After the run\<close>

definition writeResultJSON :: "machine \<Rightarrow> string \<Rightarrow> RunResult \<Rightarrow> nodes \<Rightarrow> nodes \<times> string option" where
  "writeResultJSON m path r fs = (case mcFault m (OpCreate path) of Some e \<Rightarrow> (fs, Some (''create result.json: '' @ e))
     | None \<Rightarrow> (case mcFault m (OpWrite path) of
         Some e \<Rightarrow> (fs(path \<mapsto> RegularFile []), Some (''write result.json: '' @ e))
       | None \<Rightarrow> (fs(path \<mapsto> RegularFile (mcEncode m r)), None)))"

definition persistRunResult :: "machine \<Rightarrow> RunConfig \<Rightarrow> RunResult \<Rightarrow> nodes \<Rightarrow> nodes \<times> string option" where
  "persistRunResult m cfg r fs = (case writeResultJSON m (resultPath cfg) r fs of (fs, Some e) \<Rightarrow> (fs, Some e)
     | (fs, None) \<Rightarrow> (case writeSummary (mcFault m (OpCreate (summaryPath cfg))) r of
         Inl e \<Rightarrow> (fs, Some e) | Inr s \<Rightarrow> (fs(summaryPath cfg \<mapsto> RegularFile s), None)))"

definition releaseLock :: "machine \<Rightarrow> string list" where
  "releaseLock m = failureReason ''unlock rig-global acquisition'' (mcUnlock m) @
     failureReason ''close rig-global acquisition lock'' (mcClose m)"

text \<open>
  The path of the stop marker of a ramp is made absolute, which fails when it is relative and the working directory
  is not known.
\<close>

definition rampPathErrors :: "machine \<Rightarrow> RunConfig \<Rightarrow> string list" where
  "rampPathErrors m cfg = (if cRamp cfg = None \<or> isAbsPath (joinPath [metricsDir cfg, ''ramp.stop'']) then []
     else failureReason ''resolve ramp stop path'' (mcGetwd m))"

text \<open>A control server that cannot be set up is a reason in the result and also an error of the run.\<close>

definition controlErrors :: "describer \<Rightarrow> RunConfig \<Rightarrow> runAnswers \<Rightarrow> string list" where
  "controlErrors lib cfg a = (case checkTreatment lib cfg (raServerDescribe a) (raClientDescribe a) of
       Go r \<Rightarrow> (case prepareLink (library.truncate lib) cfg (raLink a) r of
           Go _ \<Rightarrow> (case raControl a of None \<Rightarrow> [] | Some e \<Rightarrow> [e]) | _ \<Rightarrow> [])
     | _ \<Rightarrow> [])"

record storedRun =
  stResult :: "RunResult option"
  stErrors :: "string list"
  stLink :: "(Command \<times> bool) list"
  stFiles :: nodes

text \<open>A run that ends before it has a result.\<close>

definition endedEarly :: "string list \<Rightarrow> nodes \<Rightarrow> storedRun" where
  "endedEarly errs fs = \<lparr>stResult = None, stErrors = errs, stLink = [], stFiles = fs\<rparr>"

text \<open>
  The outer option is \<open>None\<close> while the run waits for the lock. The errors are those of the control server, of
  the stored files and of the deferred steps, in the order in which they are joined; \<open>stLink\<close> is the trail of the commands
  on the link, with whether they succeeded.
\<close>

definition runStored :: "describer \<Rightarrow> runTexts \<Rightarrow> machine \<Rightarrow> RunConfig \<Rightarrow> runAnswers \<Rightarrow> nodes \<Rightarrow> (run_failure + storedRun) option" where
  "runStored lib txt m config a fs =
     (let cfg = runDefaults config
      in case validateRunConfig cfg of Inl e \<Rightarrow> Some (Inl (Refused e))
       | Inr _ \<Rightarrow> (case acquireAcquisitionLockAt (mcLock m) of None \<Rightarrow> None
         | Some (Some e) \<Rightarrow> Some (Inr (endedEarly [e] fs))
         | Some None \<Rightarrow> (case prepareOutput m cfg fs of
             (fs, Some e) \<Rightarrow> Some (Inr (endedEarly (e # releaseLock m) fs))
           | (fs, None) \<Rightarrow>
              if rampPathErrors m cfg \<noteq> [] then Some (Inr (endedEarly (rampPathErrors m cfg @ releaseLock m) fs))
              else (case runBenchmark lib txt config a of Inl e \<Rightarrow> Some (Inl e)
             | Inr r \<Rightarrow> (case persistRunResult m cfg r (mcWrites m fs) of (fs, failure) \<Rightarrow>
                 case linkRemoval lib (mcTeardown m) cfg a of (trail, linkErrs) \<Rightarrow>
                 Some (Inr \<lparr>stResult = Some r,
                   stErrors = controlErrors lib cfg a @ (case failure of None \<Rightarrow> [] | Some e \<Rightarrow> [e]) @ linkErrs @ releaseLock m,
                   stLink = trail, stFiles = fs\<rparr>))))))"

section \<open>A run never overwrites\<close>

lemma splitAt_sep: "splitAt c (s @ c # t) = splitAt c s @ splitAt c t"
  by (induction s) (auto split: list.split)

lemma cleanElements_last:
  assumes "e \<noteq> []" and "e \<noteq> ''.''" and "e \<noteq> ''..''"
  shows "\<exists>xs. cleanElements rooted d (es @ [e]) = xs @ [e]"
  using assms by (induction rooted d es rule: cleanElements.induct) auto

lemma joinText_last: "\<exists>p. joinText sep (xs @ [e]) = p @ e"
proof (induction xs)
  case (Cons x xs)
  then obtain p where "joinText sep (xs @ [e]) = p @ e" by blast
  then show ?case by (cases "xs @ [e]") (auto intro: exI [of _ "x @ sep @ p"])
qed simp

lemma joinPath_last:
  assumes "e \<noteq> []" and "e \<noteq> ''.''" and "e \<noteq> ''..''" and "CHR ''/'' \<notin> set e"
  shows "\<exists>p. joinPath [dir, e] = p @ e"
proof -
  have "\<exists>p. cleanPath q = p @ e" if q: "splitAt CHR ''/'' q = es @ [e]" for q es
  proof -
    obtain xs where xs: "cleanElements (isAbsPath q) [] (es @ [e]) = xs @ [e]"
      using cleanElements_last [OF assms(1-3)] by blast
    obtain p where "joinText ''/'' (xs @ [e]) = p @ e" using joinText_last by blast
    then have "joinText ''/'' (cleanElements (isAbsPath q) [] (splitAt CHR ''/'' q)) = p @ e" by (simp only: q xs)
    then show ?thesis
      using assms(1) exI [of "\<lambda>p'. CHR ''/'' # p @ e = p' @ e" "CHR ''/'' # p"]
      by (cases "isAbsPath q") (simp_all add: cleanPath_def Let_def)
  qed
  note clean = this
  show ?thesis
  proof (cases "dir = []")
    case True
    then show ?thesis using clean [of e "[]"] assms by (simp add: joinPath_def splitAt_plain)
  next
    case False
    then show ?thesis
      using clean [of "dir @ CHR ''/'' # e" "splitAt CHR ''/'' dir"] assms by (simp add: joinPath_def splitAt_sep splitAt_plain)
  qed
qed

lemma result_not_summary: "resultPath cfg \<noteq> summaryPath cfg"
proof
  assume eq: "resultPath cfg = summaryPath cfg"
  have "\<exists>p. resultPath cfg = p @ ''result.json''" "\<exists>q. summaryPath cfg = q @ ''summary.txt''"
    unfolding resultPath_def summaryPath_def by (rule joinPath_last; simp)+
  then obtain p q where "resultPath cfg = p @ ''result.json''" "summaryPath cfg = q @ ''summary.txt''" by blast
  then have "last (p @ ''result.json'') = last (q @ ''summary.txt'')" using eq by simp
  then show False by simp
qed

lemma makeAll_keeps: "makeAll ps fs = (fs', e) \<Longrightarrow> fs' x = None \<Longrightarrow> fs x = None"
  by (induction ps fs rule: makeAll.induct) (auto split: option.splits node.splits if_splits)

lemma prepareOutput_fresh:
  assumes "prepareOutput m cfg fs = (fs', None)"
  shows "list_all (\<lambda>path. fs path = None) [resultPath cfg, summaryPath cfg, logDir cfg, metricsDir cfg]"
proof -
  obtain fs1 e1 where m: "mkdirAll m (cOutputDir cfg) fs = (fs1, e1)" by (cases "mkdirAll m (cOutputDir cfg) fs")
  then have made: "mkdirAll m (cOutputDir cfg) fs = (fs1, None)" using assms by (cases e1) (simp_all add: prepareOutput_def)
  have absent: "checkM (checkAbsent m fs1) [resultPath cfg, summaryPath cfg, logDir cfg, metricsDir cfg] = Inr ()"
    using assms by (cases "checkM (checkAbsent m fs1) [resultPath cfg, summaryPath cfg, logDir cfg, metricsDir cfg]")
      (simp_all add: prepareOutput_def made del: checkM.simps)
  have "makeAll (pathPrefixes (cOutputDir cfg)) fs = (fs1, None)"
    using made by (cases "mcFault m (OpMkdirAll (cOutputDir cfg))") (simp_all add: mkdirAll_def)
  note keep = makeAll_keeps [OF this]
  have "checkAbsent m fs1 path = Inr () \<Longrightarrow> fs1 path = None" for path
    by (auto simp: checkAbsent_def fail_if_def split: option.splits if_splits)
  then show ?thesis using absent keep by (auto simp: rbind_eq_Inr_iff)
qed



lemma persisted:
  assumes "persistRunResult m cfg r fs = (fs', None)"
  shows "fs' (resultPath cfg) = Some (RegularFile (mcEncode m r)) \<and>
    (\<exists>text. writeSummary None r = Inr text \<and> fs' (summaryPath cfg) = Some (RegularFile text))"
  using assms result_not_summary [of cfg]
  by (auto simp: persistRunResult_def writeResultJSON_def writeSummary_def split: option.splits prod.splits sum.splits)


text \<open>The sample run on an empty file system.\<close>

definition sampleMachine :: machine where
  "sampleMachine = \<lparr>mcLock = \<lparr>lkOpen = None, lkCreate = None, lkStat = Inr True, lkTries = [HeldUntilTick, LockTaken]\<rparr>,
     mcUnlock = None, mcClose = None, mcFault = (\<lambda>_. None), mcRoot = True, mcSudoUID = ''1000'', mcSudoGID = ''1000'', mcGetwd = None,
     mcEncode = (\<lambda>r. ruOutcome r), mcWrites = (\<lambda>fs. fs), mcTeardown = (\<lambda>_. None)\<rparr>"

lemma sample_joined: "joinPath [''out'', ''result.json''] = ''out/result.json''"
  by code_simp

lemma sample_paths:
  assumes "cOutputDir cfg = ''out''"
  shows "resultPath cfg = ''out/result.json''" "summaryPath cfg = ''out/summary.txt''"
    "logDir cfg = ''out/logs''" "metricsDir cfg = ''out/metrics''" "pathPrefixes ''out'' = [''out'']"
proof -
  have j: "joinPath [''out'', ''result.json''] = ''out/result.json''" "joinPath [''out'', ''summary.txt''] = ''out/summary.txt''"
    "joinPath [''out'', ''logs''] = ''out/logs''" "joinPath [''out'', ''metrics''] = ''out/metrics''"
    by code_simp+
  show "resultPath cfg = ''out/result.json''" "summaryPath cfg = ''out/summary.txt''"
    "logDir cfg = ''out/logs''" "metricsDir cfg = ''out/metrics''"
    by (simp_all add: resultPath_def summaryPath_def logDir_def metricsDir_def assms j)
  show "pathPrefixes ''out'' = [''out'']" by code_simp
qed

lemma sample_output_prepared:
  assumes "cOutputDir cfg = ''out''"
  shows "snd (prepareOutput sampleMachine cfg (\<lambda>_. None)) = None"
proof -
  have "atoi ''1000'' = Some 1000" by code_simp
  then have "chownDirsToSudoUser sampleMachine dirs = Inr ()" for dirs
    by (induction dirs) (simp_all add: chownDirsToSudoUser_def sudoID_def sampleMachine_def)
  then show ?thesis
    by (simp add: prepareOutput_def assms sample_paths [OF assms] mkdirAll_def makeDir_def checkAbsent_def sampleMachine_def)
qed

lemma linked_removal: "\<exists>trail. linkRemoval sampleDescriber (mcTeardown sampleMachine) linkDefaults linkAnswers = (trail, []) \<and> trail \<noteq> []"
proof -
  obtain up down where cmds: "BuildSetupCommands (DefaultPair []) = Inr up" "BuildTeardownCommands (DefaultPair []) = Inr down"
    using linked_pair(2,3) by blast
  have exec: "RunCommands (commandFailure (laExec (raLink linkAnswers))) up = (up, None)"
    by (rule RunCommands_succeed) (simp add: commandFailure_def linkAnswers_def passAnswers_def)
  have teardown: "List.map_filter (commandFailure (mcTeardown sampleMachine)) cs = []" for cs
    by (induction cs) (simp_all add: map_filter_simps commandFailure_def sampleMachine_def)
  have a: "raServerDescribe linkAnswers = sampleDescribe" "raClientDescribe linkAnswers = sampleDescribe"
    "cNetem linkDefaults = Some sampleLink" "executablePath sampleDescriber = None"
    by (simp_all add: linkAnswers_def passAnswers_def linkDefaults_def linkConfig_def sampleDescriber_def)
  have "up \<noteq> []" using setup_starts [OF cmds(1)] by auto
  then show ?thesis
    by (simp add: linkRemoval_def a linked_treatment linked_pair(1) cmds exec removeAll_def RunCommandsBestEffort_def teardown executed_def)
qed


end
