(* ===== verification/ProcessStart.thy ===== *)
theory ProcessStart
  imports RunStore
begin

text \<open>
  Starting one process of a run (\<open>startOne\<close> in \<open>orchestrator/run/runner.go\<close>, \<open>Start\<close> in
  \<open>orchestrator/proc/proc.go\<close>): its log files, its command, its environment and its delay. The environment of
  the orchestrator and the start of a command are arguments.
\<close>

definition ControlSockEnv :: string where "ControlSockEnv = ''BENCH_CONTROL_SOCK''"

record Spec =
  spPath :: string
  spArgs :: "string list"
  spEnv :: "string list"
  spDir :: string
  spControlSock :: string
  spStdout :: string
  spStderr :: string
  spWaitDelay :: int

record Cmd =
  cmArgv :: "string list"
  cmEnv :: "string list"
  cmDir :: string
  cmStdout :: string
  cmStderr :: string
  cmSetpgid :: bool
  cmWaitDelay :: int

text \<open>The command \<open>Start\<close> prepares; it is started in a process group of its own, which cancellation kills.\<close>

definition prepareCommand :: "string list \<Rightarrow> Spec \<Rightarrow> Cmd" where
  "prepareCommand environ spec =
     \<lparr>cmArgv = spPath spec # spArgs spec,
      cmEnv = environ @ spEnv spec @ (if spControlSock spec \<noteq> [] then [ControlSockEnv @ ''='' @ spControlSock spec] else []),
      cmDir = spDir spec, cmStdout = spStdout spec, cmStderr = spStderr spec, cmSetpgid = True,
      cmWaitDelay = (if 0 < spWaitDelay spec then spWaitDelay spec else 5 * second)\<rparr>"

datatype kill_answer = Killed | NoSuchProcess | KillFailed string
datatype cancel_result = CancelSent | ProcessDone | CancelFailed string

text \<open>\<open>cmd.Cancel\<close>: \<open>kill\<close> signals the group of the process.\<close>

fun cancelGroup :: "int option \<Rightarrow> (int \<Rightarrow> kill_answer) \<Rightarrow> cancel_result" where
  "cancelGroup None kill = ProcessDone"
| "cancelGroup (Some pid) kill = (case kill (- pid) of Killed \<Rightarrow> CancelSent | NoSuchProcess \<Rightarrow> ProcessDone | KillFailed e \<Rightarrow> CancelFailed e)"

definition logFile :: "RunConfig \<Rightarrow> string \<Rightarrow> int \<Rightarrow> string \<Rightarrow> string" where
  "logFile cfg role index stream = joinPath [logDir cfg, role @ ''-'' @ itoa index @ ''.'' @ stream @ ''.log'']"

definition createFile :: "machine \<Rightarrow> string \<Rightarrow> nodes \<Rightarrow> string + nodes" where
  "createFile m path fs = (case mcFault m (OpCreate path) of Some e \<Rightarrow> Inl e | None \<Rightarrow> Inr (fs(path \<mapsto> RegularFile [])))"

definition processSpec :: "string \<Rightarrow> RunConfig \<Rightarrow> string list \<Rightarrow> CommandConfig \<Rightarrow> ProcessResult \<Rightarrow> string \<Rightarrow> Spec" where
  "processSpec sock cfg argv cmd p rampStopPath =
     \<lparr>spPath = hd argv, spArgs = tl argv, spEnv = processEnv cmd (prMetricsOut p) (cRamp cfg) rampStopPath, spDir = Dir cmd,
      spControlSock = sock, spStdout = logFile cfg (prRole p) (prProcIndex p) ''stdout'',
      spStderr = logFile cfg (prRole p) (prProcIndex p) ''stderr'', spWaitDelay = 0\<rparr>"

text \<open>The files created, and the identifier of the process or the error of the start.\<close>

definition startProcess :: "machine \<Rightarrow> string list \<Rightarrow> (Cmd \<Rightarrow> string + int) \<Rightarrow> Spec \<Rightarrow> nodes \<Rightarrow> nodes \<times> (string + int)" where
  "startProcess m environ launch spec fs = (case createFile m (spStdout spec) fs of
       Inl e \<Rightarrow> (fs, Inl (''create stdout log: '' @ e))
     | Inr fs \<Rightarrow> (case createFile m (spStderr spec) fs of
         Inl e \<Rightarrow> (fs, Inl (''create stderr log: '' @ e))
       | Inr fs \<Rightarrow> (fs, launch (prepareCommand environ spec))))"

text \<open>What a started process was given: the control socket last, so that it overrides an inherited one.\<close>

lemma started_environment:
  assumes "startProcess m environ launch (processSpec sock cfg argv cmd p stop) fs = (fs', Inr pid)" and "sock \<noteq> []" and "argv \<noteq> []"
  shows "\<exists>c. launch c = Inr pid \<and> cmArgv c = argv \<and> last (cmEnv c) = ControlSockEnv @ ''='' @ sock \<and>
    set (processEnv cmd (prMetricsOut p) (cRamp cfg) stop) \<subseteq> set (cmEnv c) \<and> 0 < cmWaitDelay c \<and>
    fs' (logFile cfg (prRole p) (prProcIndex p) ''stdout'') = Some (RegularFile []) \<and>
    fs' (logFile cfg (prRole p) (prProcIndex p) ''stderr'') = Some (RegularFile [])"
  using assms
  by (auto simp: startProcess_def createFile_def processSpec_def prepareCommand_def second_def split: option.splits sum.splits)

end
