(* ===== verification/ControlSocket.thy ===== *)
theory ControlSocket
  imports Control GoPath
begin

text \<open>
  The life of the control socket (\<open>NewServer\<close>, \<open>newServerWithListener\<close>, \<open>listenUnix\<close>, \<open>acceptLoop\<close>,
  \<open>addConn\<close>, \<open>sendJSON\<close> and \<open>Close\<close> in \<open>orchestrator/control/server.go\<close>): the path it is bound to, and the
  numbers its connections get. The failures of the system calls are arguments; what is read from a
  connection is in \<open>Control\<close>.
\<close>

text \<open>\<open>soRemove\<close> is the error of removing a stale socket other than that there is none.\<close>

record socketAnswers =
  soMkdir :: "string option"
  soRemove :: "string option"
  soSocket :: "string option"
  soBind :: "string option"
  soListen :: "string option"
  soFileListener :: "string option"
  soOtherListener :: "string option"
  soChmod :: "string option"

record server =
  svConfig :: Config
  svRemoveSocket :: bool
  svNextID :: int
  svConns :: "(int \<times> nat) list"

datatype setup_error = ConfigRefused control_error | SetupFailed string

type_synonym paths = "string \<Rightarrow> bool"

definition sysCall :: "string \<Rightarrow> string option \<Rightarrow> string + unit" where
  "sysCall what failure = (case failure of None \<Rightarrow> Inr () | Some e \<Rightarrow> Inl (what @ e))"

text \<open>
  Binding creates the path, unless something is there. The descriptor is closed in any case; a
  listener that could not be made leaves the path behind.
\<close>

definition bindUnix :: "socketAnswers \<Rightarrow> string \<Rightarrow> paths \<Rightarrow> string + paths" where
  "bindUnix a path ps =
     rbind (sysCall [] (soSocket a)) (\<lambda>_.
     rbind (sysCall [] (soBind a)) (\<lambda>_.
     if ps path then Inl ''address already in use'' else Inr (ps(path := True))))"

definition listenUnix :: "socketAnswers \<Rightarrow> string \<Rightarrow> paths \<Rightarrow> paths \<times> (string + unit)" where
  "listenUnix a path ps = (case bindUnix a path ps of Inl e \<Rightarrow> (ps, Inl e)
     | Inr ps \<Rightarrow> (ps, rbind (sysCall [] (soListen a)) (\<lambda>_. rbind (sysCall [] (soFileListener a)) (\<lambda>_.
         case soOtherListener a of None \<Rightarrow> Inr ()
         | Some kind \<Rightarrow> Inl (''file listener is '' @ kind @ '', want *net.UnixListener'')))))"

definition newServer :: "Config \<Rightarrow> bool \<Rightarrow> server" where
  "newServer cfg removeSocket = \<lparr>svConfig = cfg, svRemoveSocket = removeSocket, svNextID = 0, svConns = []\<rparr>"

definition newServerWithListener :: "Config \<Rightarrow> setup_error + server" where
  "newServerWithListener cfg =
     (let cfg = withDefaults cfg in rbind (wrap_err ConfigRefused (validateConfig cfg)) (\<lambda>_. Inr (newServer cfg False)))"

definition NewServer :: "socketAnswers \<Rightarrow> Config \<Rightarrow> paths \<Rightarrow> paths \<times> (setup_error + server)" where
  "NewServer a cfg ps =
     (let cfg = withDefaults cfg; path = SocketPath cfg
      in case validateConfig cfg of Inl e \<Rightarrow> (ps, Inl (ConfigRefused e))
       | Inr _ \<Rightarrow> (case sysCall ''mkdir control socket dir: '' (soMkdir a) of Inl e \<Rightarrow> (ps, Inl (SetupFailed e))
         | Inr _ \<Rightarrow> (case sysCall ''remove stale control socket: '' (soRemove a) of Inl e \<Rightarrow> (ps, Inl (SetupFailed e))
           | Inr _ \<Rightarrow> (case listenUnix a path (ps(path := False)) of
               (ps, Inl e) \<Rightarrow> (ps, Inl (SetupFailed (''listen control socket: '' @ e)))
             | (ps, Inr _) \<Rightarrow> (ps, case soChmod a of
                 Some e \<Rightarrow> Inl (SetupFailed (''chmod control socket: '' @ e))
               | None \<Rightarrow> Inr (newServer cfg True))))))"

section \<open>Connections\<close>

text \<open>A connection gets the next number; connections are named by the order of the accepts.\<close>

definition addConn :: "nat \<Rightarrow> server \<Rightarrow> int \<times> server" where
  "addConn conn s = (svNextID s, s\<lparr>svNextID := svNextID s + 1, svConns := AList.update (svNextID s) conn (svConns s)\<rparr>)"

text \<open>An accept yields a connection, or fails: because the server is closed or its context done, or otherwise.\<close>

datatype accepted = Connection nat | ListenerClosed | AcceptFailed string

text \<open>The numbers handed to the readers and, when an accept fails, the event that ends the run.\<close>

fun acceptLoop :: "accepted list \<Rightarrow> server \<Rightarrow> server \<times> int list \<times> event option" where
  "acceptLoop [] s = (s, [], None)"
| "acceptLoop (ListenerClosed # accs) s = (s, [], None)"
| "acceptLoop (AcceptFailed e # accs) s = (s, [], Some (EvErr (''accept control connection: '' @ e)))"
| "acceptLoop (Connection conn # accs) s =
     (case addConn conn s of (i, s) \<Rightarrow> (case acceptLoop accs s of (s, ids, ev) \<Rightarrow> (s, i # ids, ev)))"

text \<open>\<open>deadline\<close> and \<open>encode\<close> are the failures of the write to a connection.\<close>

definition sendJSON :: "(nat \<Rightarrow> string option) \<Rightarrow> (nat \<Rightarrow> string option) \<Rightarrow> server \<Rightarrow> int \<Rightarrow> string \<Rightarrow> string + unit" where
  "sendJSON deadline encode s connID what = (case map_of (svConns s) connID of
       None \<Rightarrow> Inl (''send '' @ what @ '': connection '' @ itoa connID @ '' is gone'')
     | Some conn \<Rightarrow> rbind (sysCall ''set control write deadline: '' (deadline conn)) (\<lambda>_.
         sysCall (''send '' @ what @ '' to connection '' @ itoa connID @ '': '') (encode conn)))"

definition sendSchedule :: "(nat \<Rightarrow> string option) \<Rightarrow> (nat \<Rightarrow> string option) \<Rightarrow> server \<Rightarrow> int \<Rightarrow> string + unit" where
  "sendSchedule deadline encode s connID = sendJSON deadline encode s connID ''schedule''"

definition sendWindow :: "(nat \<Rightarrow> string option) \<Rightarrow> (nat \<Rightarrow> string option) \<Rightarrow> server \<Rightarrow> int \<Rightarrow> string + unit" where
  "sendWindow deadline encode s connID = sendJSON deadline encode s connID ''window''"

text \<open>The errors of closing; the path goes unless its removal fails. A second close finds no path.\<close>

definition CloseServer :: "string option \<Rightarrow> (nat \<Rightarrow> string option) \<Rightarrow> string option \<Rightarrow> server \<Rightarrow> paths \<Rightarrow> paths \<times> string list" where
  "CloseServer listener close remove s ps =
     (let path = SocketPath (svConfig s);
          errs = (case listener of None \<Rightarrow> [] | Some e \<Rightarrow> [e]) @ List.map_filter (close \<circ> snd) (svConns s)
      in if \<not> svRemoveSocket s then (ps, errs)
         else case remove of Some e \<Rightarrow> (ps, errs @ [e])
          | None \<Rightarrow> if ps path then (ps(path := False), errs) else (ps, errs @ [''remove '' @ path @ '': no such file or directory'']))"

section \<open>Properties\<close>

lemma addConn_nextID: "addConn conn s = (i, s') \<Longrightarrow> i = svNextID s \<and> svNextID s' = svNextID s + 1"
  by (auto simp: addConn_def)

text \<open>The readers get consecutive numbers from the next one on, whatever the connections are.\<close>

lemma accepted_numbers:
  "acceptLoop accs s = (s', ids, ev) \<Longrightarrow> ids = [svNextID s..svNextID s + int (length ids) - 1] \<and> svNextID s' = svNextID s + int (length ids)"
proof (induction accs s arbitrary: ids s' rule: acceptLoop.induct)
  case (4 conn accs s)
  obtain s1 where one: "addConn conn s = (svNextID s, s1)" "svNextID s1 = svNextID s + 1" by (simp add: addConn_def)
  obtain s2 more where rest: "acceptLoop accs s1 = (s2, more, ev)" "s' = s2" "ids = svNextID s # more"
    using 4(2) one by (auto split: prod.splits)
  have "more = [svNextID s + 1..svNextID s + int (length more)]" "svNextID s2 = svNextID s + 1 + int (length more)"
    using 4(1) [OF one(1) [symmetric] rest(1)] one(2) by (simp_all add: algebra_simps)
  then show ?case using rest(2,3) upto_rec1 [of "svNextID s" "svNextID s + int (length more)"] by (simp add: algebra_simps)
qed (auto simp: upto.simps)

text \<open>A server that was set up owns its socket, and closing it without failures leaves no path behind.\<close>

lemma socket_comes_and_goes:
  assumes "NewServer a cfg ps = (ps', Inr s)"
  shows "ps' (SocketPath cfg) \<and> svConns s = [] \<and>
    (\<exists>ps''. CloseServer None (\<lambda>_. None) None s ps' = (ps'', []) \<and> \<not> ps'' (SocketPath cfg) \<and>
      (\<forall>path. path \<noteq> SocketPath cfg \<longrightarrow> ps'' path = ps path))"
proof -
  have path: "SocketPath (withDefaults cfg) = SocketPath cfg" by (simp add: withDefaults_def Let_def)
  have "ps' = ps(SocketPath cfg := True)" "s = newServer (withDefaults cfg) True"
    using assms by (auto simp: NewServer_def Let_def path listenUnix_def bindUnix_def sysCall_def rbind_eq_Inr_iff
        split: sum.splits option.splits prod.splits if_splits)
  then show ?thesis by (simp add: CloseServer_def newServer_def path Let_def map_filter_simps)
qed

end
