(* ===== verification/Divergences.thy ===== *)
theory Divergences
  imports ControlProperties Cost NetemGate Identity MetricsJson
begin

text \<open>
  Short facts about places where the code does something its comments or its neighbouring code do
  not lead one to expect. Each is evaluated or proved on the definitions of the component it is about.
\<close>

text \<open>
  A trace of fewer than 64 bits has no words: the first drop indexes out of range.
\<close>

lemma short_trace_panics:
  "Generate (\<lambda>_. FFin 0) (FFin 5) (FFin 2) 32 = Inl IndexPanic"
  by code_simp

text \<open>
  A loss so rare that the needed seconds do not fit in a duration converts to the smallest one,
  which the minimum of ten seconds then replaces instead of the cap of two minutes.
\<close>

lemma rare_loss_needs_no_time:
  "lossEventDuration (FFin (25 / 2 ^ 38)) (FFin 1) (FFin 10) = - (2 ^ 63)"
  by code_simp

text \<open>
  Acknowledging a window is accepted of every known participant, before any window was sent and
  before it acknowledged the schedule.
\<close>

lemma window_ack_needs_no_window:
  assumes "map_of (participants s) i = Some p" and "i \<notin> set (windowAcked s)" and "0 \<le> margin"
  shows "apply_event s (EvWindowAck i margin) = Inr (s\<lparr>windowAcked := windowAcked s @ [i]\<rparr>)"
  using assms by (simp add: withParticipant_def applyWindowAck_def Let_def)

text \<open>
  The lower bound of an accepted loss is a twentieth of the expected loss where the tolerance is
  wide, not a fourth.
\<close>

lemma loss_floor_is_a_twentieth:
  "lossLower (FFin 50) (FFin 64) 1024 = FFin (5 / 2)"
  by code_simp

text \<open>
  A process that vanishes between opening and reading its files ends the sampling of a run, but
  not that of the sampler.
\<close>

lemma gone_process_is_an_error:
  assumes "reads pid = \<lparr>rdNow = Inr t, rdStat = Inl (NoProcess e), rdStatus = st\<rparr>"
  shows "sampleAll 100 reads [pid] series = (series, None)"
    and "\<exists>e'. sampleOnce reads [pid] series = (series, Some e')"
  using assms by (auto simp: sampleAll_def sampleOnce_def ReadSample_def ReadWithClockTicks_def
      DefaultClockTicksPerSecond_def rbind_def wrap_err_def)

text \<open>
  Keys that differ in case only pass the walk for duplicate keys, and the decoder takes both for
  the same field.
\<close>

lemma keys_differ_in_case_only:
  "rejectDuplicateMetricsJSONKeys (tokens (JObj [(''version'', JNum ''2''), (''Version'', JNum ''3'')])) = Inr ()"
  "unmarshalVersion (JObj [(''version'', JNum ''2''), (''Version'', JNum ''3'')]) = Some 3"
  by code_simp+

end
