(* ===== verification/Spec2Isabelle.thy ===== *)
theory Spec2Isabelle
  imports MetricsJson ControlProperties RampProperties GateProperties LinkProperties RunProperties ProcessCommand SampleRun Summary Identity ConfigJson LossTracePins ProcessStart ControlSocket Divergences
begin

text \<open>
  A verified model of the orchestrator of rudp-bench (\<open>src/orchestrator\<close>, Go).

  \<^bold>\<open>The program.\<close> rudp-bench compares reliable-UDP transports. One benchmark server and one or more
  client processes exchange traffic over an emulated link; the orchestrator starts them, keeps them
  in step, measures them, and decides whether the measurement is valid and whether the transport met
  its service levels. A run goes through these phases (\<open>Run\<close> in \<open>run/runner.go\<close>):

    \<^item> the configuration is expanded and checked (\<open>run/config.go\<close>, \<open>preset.go\<close>, \<open>scenario.go\<close>,
      \<open>workload.go\<close>, \<open>rig/rig.go\<close>);
    \<^item> the endpoints describe themselves and the description is compared with the configuration
      (\<open>run/treatment.go\<close>);
    \<^item> the emulated link is built, its offloads are read back and a link gate measures its delay and
      loss (\<open>netops\<close>, \<open>netops/losstrace\<close>);
    \<^item> the processes are started and meet in the stages of the control plane, which publishes the
      measured window (\<open>control/messages.go\<close>, \<open>control/server.go\<close>);
    \<^item> in the window, counters, losses, resources, ramp snapshots and scheduled link changes are
      collected (\<open>run/result.go\<close>, \<open>netem_evidence.go\<close>, \<open>netem_schedule.go\<close>, \<open>ramp.go\<close>, \<open>sampler\<close>);
    \<^item> the metrics files of the endpoints are decoded, validated and merged (\<open>run/metrics.go\<close>,
      \<open>scenario_metrics.go\<close>);
    \<^item> the gate judges the measurement, the scenario or the ramp judges the transport, and the result
      and its summary are written (\<open>run/gate.go\<close>, \<open>cost.go\<close>, \<open>summary.go\<close>, \<open>identity.go\<close>,
      \<open>process_command.go\<close>).

  \<^bold>\<open>Conventions.\<close> Functions, record fields and constants keep the names of the code; where two Go
  structs share a field name, one of them carries a short prefix (\<open>ruVerdict\<close>, \<open>grReasons\<close>). A
  function that can fail returns a sum whose left side is the error, either a datatype of the errors
  or the text the code writes; a panic (index out of range, \<open>IndexPanic\<close>; the others that can occur,
  \<open>halt\<close>) is a value too. \<open>uint64\<close> and \<open>uint8\<close> are words; \<open>int\<close> and \<open>int64\<close> are integers to which
  \<open>wrap64\<close> is applied wherever the code computes with them; \<open>float64\<close> is the exact model of binary64
  in \<open>Float64\<close>. Maps that the code ranges over are association lists, the other maps are functions
  into options. What the environment decides (output of commands, contents of files, the clock, ticks
  of a timer, arrival of events) is an argument of the definition that consumes it, so that a theorem
  about that definition holds for every behaviour of the environment.

  \<^bold>\<open>The prelude.\<close>
    \<^item> \<open>GoBase\<close>: integers, checked loops (\<open>foldM\<close>, \<open>checkM\<close>, \<open>rbind\<close>) and the lemmas on them.
    \<^item> \<open>GoText\<close>: \<open>strconv\<close>, \<open>strings\<close> and the \<open>%d\<close>, \<open>%s\<close>, \<open>%q\<close> verbs.
    \<^item> \<open>Float64\<close>, \<open>GoFormat\<close>: binary64 arithmetic with ties to even, and the printing of floats.
      \<open>shortestFrom\<close> moves the last digit at most 1500 places, from before the first digit of the integer
      part; a finite binary64 value has at most 309 digits before and 1074 after the point.
    \<^item> \<open>GoJson\<close>: JSON values, their token stream, and the decoding of members into structs with the
      rules of \<open>encoding/json\<close> (case-insensitive members, later ones winning).
    \<^item> \<open>GoPath\<close>: \<open>path/filepath\<close> on Unix. \<open>GoDuration\<close>: \<open>time.Duration\<close> as text and back, for every duration.

  \<^bold>\<open>Metrics.\<close>
    \<^item> \<open>Histogram\<close>: layout, bin edges, \<open>histogramPercentile\<close>, \<open>addHistogram\<close>, \<open>finalizeHistogram\<close> and the
      two histogram checks. A percentile is the upper edge of the bin of its nearest rank; the sum
      check accepts exactly the bin-wise sum of the parts.
    \<^item> \<open>MetricsData\<close>, \<open>Metrics\<close>: the records, \<open>validateMetricsFile\<close>, \<open>add\<close>, \<open>finalize\<close>, \<open>MergeMetricsData\<close> and
      \<open>ValidateMergedMetricsConsistency\<close>. \<open>MetricsProperties\<close>: the merge of validated files passes
      its own consistency check, publishes the ratios and keys it should, and a validated file of
      version 2 accounts for itself. Independence of the order
      of the artifacts comes from the locale \<open>commuting_accumulator\<close> of \<open>GoBase\<close>, interpreted on the
      histograms, on the traffic and on the whole merge.
    \<^item> \<open>MetricsJson\<close>: the walk that rejects duplicate keys, the shape of version 2, the decoding, and
      the reading of the artifacts. The walk has a fuel of twice the number of tokens plus one: each
      of its calls consumes a token or returns from an object or an array.
      \<open>SampleArtifact\<close> holds the text of an artifact for the witnesses.

  \<^bold>\<open>The control plane.\<close>
    \<^item> \<open>ControlData\<close>: messages, events, participants, \<open>runState\<close>. \<open>Control\<close>: decoding of a line
      (\<open>readConn\<close>), \<open>apply_event\<close> (\<open>runState.apply\<close>), \<open>steadyDetected\<close>, \<open>advanceStageIfReady\<close>, the event
      loop \<open>runLoop\<close> (the \<open>select\<close> of \<open>Server.Run\<close>: one turn is an event, an expiry of the timer or a
      cancellation, with the clock of that turn) and the step relation \<open>reachable\<close>.
    \<^item> \<open>ControlProperties\<close>: the invariant of the states a run can reach (\<open>reachable\<close>) and what follows from it: the
      barrier, the published window, the order of its times, steady detection, hello messages, and
      that no event leaves the loop in a stage whose condition is met.
    \<^item> \<open>ControlSocket\<close>: binding, accepting, sending and closing; the numbers the connections get.

  \<^bold>\<open>The link.\<close>
    \<^item> \<open>LossTrace\<close>: \<open>Generate\<close> with its draws as an argument (\<open>math/rand/v2\<close> is a library), the egress
      program \<open>bpf/losstrace.c\<close>, and \<open>CountDropsInRange\<close>, which counts exactly.
    \<^item> \<open>Rig\<close>: CPU sets and the layout of the machine. \<open>Netops\<close>: arguments of netem, setup, teardown.
      \<open>Qdisc\<close>: the output of \<open>tc\<close> and \<open>/proc/net/snmp\<close>, and differences of counters.
      \<open>Offloads\<close>, \<open>NetemGate\<close>: the readback of the offloads and the link gate; \<open>tryClient\<close> makes at most
      the five attempts of the code. \<open>LinkProperties\<close>: the readback is exact, and judging a stored report agrees
      with the gate that wrote it. \<open>NetemSchedule\<close>: changing the link during a run.
    \<^item> \<open>LossTracePins\<close>: what attaching, resetting, reading and detaching the trace do to the pins of the kernel.

  \<^bold>\<open>The configuration and the judgements.\<close>
    \<^item> \<open>Scenario\<close>, \<open>ScenarioMetrics\<close>, \<open>Config\<close>: scenarios and workloads, the ranges their metrics must
      lie in, the preparation of a configuration. \<open>ConfigProperties\<close>: the clients partition the
      connections, a preset fixes its conditions, the levels of a ramp climb to the ceiling. The fuel of
      \<open>replaceFrom\<close>, the expansion of templates, is the length of the text: every turn consumes a character or more.
    \<^item> \<open>ConfigJson\<close>: \<open>LoadConfig\<close> and \<open>rig.Load\<close>, decoding without unknown keys; durations survive being
      written and read, and the three forms of a command agree.
    \<^item> \<open>Treatment\<close>, \<open>TreatmentProperties\<close>: the description of the endpoints and what an accepted one says.
    \<^item> \<open>Ramp\<close>, \<open>RampProperties\<close>: levels, the score and the watcher, which agrees with the score.
    \<^item> \<open>NetemEvidence\<close>, \<open>Gate\<close>, \<open>Cost\<close>: the loss in the window, the reasons against a measurement, the
      samples of the processes. \<open>GateProperties\<close>: VALID means every check is silent, PASS is earned,
      and accepted loss evidence counts what the regenerated trace drops.

  \<^bold>\<open>The run.\<close>
    \<^item> \<open>Runner\<close>: the command and environment of a process, \<open>waitForRunEnd\<close>, completing the result,
      \<open>classifyRunOutcome\<close>. \<open>Orchestration\<close>: the whole of \<open>Run\<close> as phases, each with its inputs.
      \<open>RunProperties\<close>: what a VALID and PASS result proves, across all components. \<open>ProcessCommand\<close>:
      the commands a result records. \<open>SampleRun\<close>: a concrete run that passes and one over a link, on which those
      properties are applied.
    \<^item> \<open>LinkRemoval\<close>: the commands a run executes on its link, whether the setup fails or not, and the
      namespaces and pins they create and remove; a removal without error leaves none behind.
    \<^item> \<open>RunStore\<close>: the run on a file system, with the lock, the fresh output directory, the stored result and
      summary, the errors it returns and the deferred clean-up; a run never overwrites a measurement. \<open>ProcessStart\<close>: the log
      files, command and environment of one process.
    \<^item> \<open>Summary\<close>, \<open>Identity\<close>, \<open>Frontend\<close>: the text of the summary, the identity and fingerprint of a
      measurement, the subcommands and the lock of the machine.
    \<^item> \<open>Divergences\<close>: short facts about places where the code does something its comments or
      its neighbouring code do not lead one to expect.

  \<^bold>\<open>Parameters.\<close> JSON scanning, SHA-256 and the hash of a value (\<open>HashValue\<close>), the random draws of the
  trace, and the texts of some errors of the library (\<open>time.Duration\<close>, decoding) are arguments: they
  belong to the Go library. Witnesses instantiate them with concrete functions. Floating-point
  operations are rounded one by one, so the model is the one of an architecture on which the compiler does not
  fuse multiplication and addition.

  \<^bold>\<open>Not modelled.\<close>
    \<^item> The effects of the system itself: starting and signalling processes, sockets and goroutines, reading
      the clock, executing \<open>ip\<close>, \<open>tc\<close>, \<open>ethtool\<close>, \<open>ping\<close> and \<open>iperf3\<close>, loading the egress program. Their
      outcomes are arguments. For the socket of
      \<open>control/server.go\<close> they are the arguments of \<open>ControlSocket\<close>; its goroutines are the order of the events.
    \<^item> The log files that \<open>ProcessStart\<close> creates are not threaded through the phases of \<open>Orchestration\<close>; \<open>RunStore\<close>
      takes what the processes leave behind as an argument.
    \<^item> The fingerprints of the machine in the treatment record. Decoding a repeated list member reuses
      the elements of the first in Go where an element is \<open>null\<close>; the model starts from an empty list.
    \<^item> \<open>ParseFloat\<close> of hexadecimal floats, and \<open>%q\<close> of characters outside ASCII.
    \<^item> Two panics outside the range of the orchestrator: \<open>steadyDetected\<close> for \<open>2 ^ 62\<close> and more buckets (the run
      leaves the number at its default of four), and \<open>histogramBinUpperNS\<close> for a layout without subbins (which
      \<open>validateMetricsFile\<close> refuses, \<open>validated_subbins\<close>).
    \<^item> Reasons the gate takes from a Go map are in a fixed order; the code's order is random.
    \<^item> The endpoints, the transports and the scripts around the orchestrator, which it sees only
      through control messages, output and files.
\<close>

end
